(* ===== verification/Redfire_Prelude.thy ===== *)
theory Redfire_Prelude
  imports Main "HOL-Library.Word" "HOL-Library.AList"
begin

text \<open>
  What the components of the switch share: the machine integers of the Rust code as words,
  big-endian byte fields, decimal formatting (the \<open>format!("{}", n)\<close> of keys and
  identifiers), Rust strings as UTF-8 byte strings, keyed stores (the hash maps that are
  iterated), and the interface of an encoder with its decoder.
\<close>

unbundle bit_operations_syntax

named_theorems codec_simps \<open>unfolding rules of encoders and decoders\<close>
named_theorems step_simps \<open>unfolding rules of the handlers of a state machine\<close>

section \<open>Machine integers and byte fields\<close>

type_synonym u8 = "8 word"
type_synonym u16 = "16 word"
type_synonym u32 = "32 word"
type_synonym u64 = "64 word"
type_synonym byte = u8

text \<open>A counter below a limit does not wrap.\<close>

lemma unat_Suc_less: "(c :: 'a :: len word) < l \<Longrightarrow> unat (c + 1) = Suc (unat c)"
proof -
  assume less: "c < l"
  from less have "Suc (unat c) \<le> unat l" by (simp add: word_less_nat_alt)
  also have "unat l < 2 ^ LENGTH('a)" by (rule unsigned_less)
  finally have "Suc (unat c) < 2 ^ LENGTH('a)" .
  then show ?thesis by (simp add: unat_word_ariths)
qed

lemma bit_beyond_8 [simp]: "8 \<le> n \<Longrightarrow> \<not> bit (w :: u8) n"
  using bit_imp_le_length [of w n] by auto

lemma bit_beyond_16 [simp]: "16 \<le> n \<Longrightarrow> \<not> bit (w :: u16) n"
  using bit_imp_le_length [of w n] by auto

lemma u8_eqI:
  assumes "bit a 0 = bit b 0" "bit a 1 = bit b 1" "bit a 2 = bit b 2" "bit a 3 = bit b 3"
    "bit a 4 = bit b 4" "bit a 5 = bit b 5" "bit a 6 = bit b 6" "bit a 7 = bit b 7"
  shows "a = (b :: u8)"
proof (rule bit_word_eqI)
  fix n assume "n < LENGTH(8)"
  then have "n = 0 \<or> n = 1 \<or> n = 2 \<or> n = 3 \<or> n = 4 \<or> n = 5 \<or> n = 6 \<or> n = 7" by force
  with assms show "bit a n = bit b n" by auto
qed

lemma u8_eq_iff:
  "a = (b :: u8) \<longleftrightarrow> bit a 0 = bit b 0 \<and> bit a 1 = bit b 1 \<and> bit a 2 = bit b 2 \<and> bit a 3 = bit b 3 \<and>
     bit a 4 = bit b 4 \<and> bit a 5 = bit b 5 \<and> bit a 6 = bit b 6 \<and> bit a 7 = bit b 7"
  by (auto intro: u8_eqI)

text \<open>A flag bit read with a mask, the way the code reads it.\<close>

lemma and_mask_flag [simp]:
  "(w :: u8) AND 1 = 0 \<longleftrightarrow> \<not> bit w 0" "(w :: u8) AND 2 = 0 \<longleftrightarrow> \<not> bit w 1"
  "(w :: u8) AND 16 = 0 \<longleftrightarrow> \<not> bit w 4" "(w :: u8) AND 32 = 0 \<longleftrightarrow> \<not> bit w 5"
  "(w :: u8) AND 64 = 0 \<longleftrightarrow> \<not> bit w 6" "(w :: u8) AND 128 = 0 \<longleftrightarrow> \<not> bit w 7"
  by (simp_all add: u8_eq_iff bit_simps)

lemma word_lt_pow2_iff:
  fixes w :: "'a :: len word"
  assumes "n < LENGTH('a)"
  shows "w < 2 ^ n \<longleftrightarrow> take_bit n w = w"
proof -
  have "unat (of_nat (2 ^ n) :: 'a word) = 2 ^ n"
    using assms by (simp only: unsigned_of_nat) (simp add: take_bit_nat_eq_self_iff)
  then have "unat (2 ^ n :: 'a word) = 2 ^ n" by simp
  then have "w < 2 ^ n \<longleftrightarrow> unat w < 2 ^ n"
    by (simp add: word_less_nat_alt)
  also have "\<dots> \<longleftrightarrow> take_bit n (unat w) = unat w"
    by (simp add: take_bit_nat_eq_self_iff)
  also have "\<dots> \<longleftrightarrow> take_bit n w = w"
    by (metis unsigned_take_bit_eq word_unat_eq_iff)
  finally show ?thesis .
qed

lemma u8_lt_pow2:
  "(w :: u8) < 128 \<longleftrightarrow> \<not> bit w 7"
  "(w :: u8) < 64 \<longleftrightarrow> \<not> bit w 6 \<and> \<not> bit w 7"
  "(w :: u8) < 16 \<longleftrightarrow> \<not> bit w 4 \<and> \<not> bit w 5 \<and> \<not> bit w 6 \<and> \<not> bit w 7"
  "(w :: u8) < 8 \<longleftrightarrow> \<not> bit w 3 \<and> \<not> bit w 4 \<and> \<not> bit w 5 \<and> \<not> bit w 6 \<and> \<not> bit w 7"
  "(w :: u8) < 4 \<longleftrightarrow> \<not> bit w 2 \<and> \<not> bit w 3 \<and> \<not> bit w 4 \<and> \<not> bit w 5 \<and> \<not> bit w 6 \<and> \<not> bit w 7"
  using word_lt_pow2_iff [of 7 w] word_lt_pow2_iff [of 6 w] word_lt_pow2_iff [of 4 w]
    word_lt_pow2_iff [of 3 w] word_lt_pow2_iff [of 2 w]
  by (simp_all add: u8_eq_iff bit_simps)

lemma u16_lt_pow15: "(w :: u16) < 32768 \<longleftrightarrow> \<not> bit w 15"
proof -
  have "take_bit 15 w = w \<longleftrightarrow> \<not> bit w 15"
  proof
    assume "take_bit 15 w = w"
    then have "bit w 15 = bit (take_bit 15 w) 15" by simp
    then show "\<not> bit w 15" by (simp add: bit_simps)
  next
    assume A: "\<not> bit w 15"
    show "take_bit 15 w = w"
    proof (rule bit_word_eqI)
      fix n assume "n < LENGTH(16)"
      then have "n < 15 \<or> n = 15" by auto
      with A show "bit (take_bit 15 w) n = bit w n" by (auto simp: bit_simps)
    qed
  qed
  then show ?thesis using word_lt_pow2_iff [of 15 w] by simp
qed

lemma bit_times_2 [simp]:
  "bit (w * 2 :: 'a :: len word) n \<longleftrightarrow> n \<noteq> 0 \<and> n < LENGTH('a) \<and> bit w (n - 1)"
  using bit_double_iff [of w n] by (auto simp: mult.commute)

lemma xor_cancel [simp]:
  fixes a b c :: "'a :: len word"
  shows "a XOR c = b XOR c \<longleftrightarrow> a = b" "c XOR a = c XOR b \<longleftrightarrow> a = b"
  by (metis xor.assoc xor_self_eq xor.right_neutral, metis xor.assoc xor_self_eq xor.left_neutral)

definition be16 :: "u16 \<Rightarrow> byte list" where
  "be16 w = [ucast (drop_bit 8 w), ucast w]"

definition of_be16 :: "byte \<Rightarrow> byte \<Rightarrow> u16" where
  "of_be16 a b = push_bit 8 (ucast a) OR ucast b"

definition be32 :: "u32 \<Rightarrow> byte list" where
  "be32 w = [ucast (drop_bit 24 w), ucast (drop_bit 16 w), ucast (drop_bit 8 w), ucast w]"

definition of_be32 :: "byte \<Rightarrow> byte \<Rightarrow> byte \<Rightarrow> byte \<Rightarrow> u32" where
  "of_be32 a b c d =
     push_bit 24 (ucast a) OR push_bit 16 (ucast b) OR push_bit 8 (ucast c) OR ucast d"

lemma length_be16 [simp]: "length (be16 w) = 2"
  by (simp add: be16_def)

lemma length_be32 [simp]: "length (be32 w) = 4"
  by (simp add: be32_def)

lemma of_be16_be16 [simp]: "of_be16 (ucast (drop_bit 8 w)) (ucast w) = w"
  by (rule bit_word_eqI) (auto simp: of_be16_def bit_simps)

lemma of_be32_be32 [simp]:
  "of_be32 (ucast (drop_bit 24 w)) (ucast (drop_bit 16 w)) (ucast (drop_bit 8 w)) (ucast w) = w"
proof (rule bit_word_eqI)
  fix n assume "n < LENGTH(32)"
  then consider "n < 8" | "8 \<le> n" "n < 16" | "16 \<le> n" "n < 24" | "24 \<le> n" "n < 32"
    by force
  then show "bit (of_be32 (ucast (drop_bit 24 w)) (ucast (drop_bit 16 w))
      (ucast (drop_bit 8 w)) (ucast w)) n = bit w n"
    by cases (auto simp: of_be32_def bit_simps)
qed

lemma be16_of_be16 [simp]: "be16 (of_be16 a b) = [a, b]"
  by (auto simp: be16_def of_be16_def intro!: bit_word_eqI simp: bit_simps)

lemma be16_inject [simp]: "be16 v = be16 w \<longleftrightarrow> v = w"
  using of_be16_be16 by (metis be16_def list.inject)

lemma be32_of_be32 [simp]: "be32 (of_be32 a b c d) = [a, b, c, d]"
proof -
  have "ucast (drop_bit 24 (of_be32 a b c d)) = a" "ucast (drop_bit 16 (of_be32 a b c d)) = b"
    "ucast (drop_bit 8 (of_be32 a b c d)) = c" "ucast (of_be32 a b c d) = d"
    by (intro u8_eqI; simp add: of_be32_def bit_simps)+
  then show ?thesis by (simp add: be32_def)
qed

lemma append_split_at:
  "us @ t = xs @ b # ys \<Longrightarrow> length xs < length us \<Longrightarrow> \<exists>zs. us = xs @ b # zs \<and> zs @ t = ys"
proof (induction xs arbitrary: us)
  case Nil
  then show ?case by (cases us) auto
next
  case (Cons x xs)
  then show ?case by (cases us) auto
qed

section \<open>Decimal formatting\<close>

definition digit_char :: "nat \<Rightarrow> char" where
  "digit_char d = char_of (48 + d)"

fun dec :: "nat \<Rightarrow> string" where
  "dec n = (if n < 10 then [digit_char n] else dec (n div 10) @ [digit_char (n mod 10)])"

declare dec.simps [simp del]

definition undec :: "string \<Rightarrow> nat" where
  "undec s = foldl (\<lambda>acc c. 10 * acc + (of_char c - 48)) 0 s"

definition is_digit :: "char \<Rightarrow> bool" where
  "is_digit c \<longleftrightarrow> 48 \<le> (of_char c :: nat) \<and> (of_char c :: nat) \<le> 57"

lemma of_char_digit_char: "d < 10 \<Longrightarrow> (of_char (digit_char d) :: nat) = 48 + d"
  by (simp add: digit_char_def)

lemma is_digit_digit_char: "d < 10 \<Longrightarrow> is_digit (digit_char d)"
  by (simp add: is_digit_def of_char_digit_char)

lemma undec_dec [simp]: "undec (dec n) = n"
proof (induction n rule: dec.induct)
  case (1 n)
  show ?case
  proof (cases "n < 10")
    case True
    then show ?thesis by (subst dec.simps) (simp add: undec_def of_char_digit_char)
  next
    case False
    with "1.IH" have "undec (dec (n div 10)) = n div 10" by simp
    with False show ?thesis
      by (subst dec.simps) (simp add: undec_def of_char_digit_char)
  qed
qed

lemma dec_inject [simp]: "dec m = dec n \<longleftrightarrow> m = n"
  by (metis undec_dec)

lemma dec_digits: "c \<in> set (dec n) \<Longrightarrow> is_digit c"
proof (induction n rule: dec.induct)
  case (1 n)
  then show ?case
    by (subst (asm) (2) dec.simps) (auto simp: is_digit_digit_char split: if_splits)
qed

lemma dec_nonempty [simp]: "dec n \<noteq> []"
  by (subst dec.simps) simp

text \<open>
  Two digit strings followed by the same kind of separator: the digits are determined. The
  keys \<open>SAPI{}-TEI{}\<close> and \<open>{:?}-CRV{}-C{}\<close> of the code are read back with it.
\<close>

lemma digits_sep_inject:
  assumes "\<forall>c \<in> set xs. is_digit c" and "\<forall>c \<in> set ys. is_digit c" and "\<not> is_digit s"
    and "xs @ s # us = ys @ s # vs"
  shows "xs = ys \<and> us = vs"
  using assms
proof (induction xs arbitrary: ys)
  case Nil
  then show ?case by (cases ys) auto
next
  case (Cons x xs)
  then show ?case by (cases ys) auto
qed

lemma dec_sep_inject:
  assumes "\<not> is_digit s" and "dec m @ s # us = dec n @ s # vs"
  shows "m = n \<and> us = vs"
  using digits_sep_inject [OF _ _ assms] dec_digits by (auto dest: sym)

section \<open>Rust strings\<close>

text \<open>
  A Rust string is the list of its UTF-8 bytes, each a character of HOL's \<open>string\<close>;
  \<open>from_utf8\<close> is \<open>String::from_utf8\<close>, which rejects ill-formed bytes.
\<close>

definition str_bytes :: "string \<Rightarrow> byte list" where
  "str_bytes s = map (\<lambda>c. word_of_nat (of_char c)) s"

definition bytes_str :: "byte list \<Rightarrow> string" where
  "bytes_str bs = map (\<lambda>b. char_of (unat b)) bs"

definition utf8_cont :: "byte \<Rightarrow> bool" where
  "utf8_cont b \<longleftrightarrow> 0x80 \<le> b \<and> b \<le> 0xBF"

fun utf8_valid :: "byte list \<Rightarrow> bool" where
  "utf8_valid [] = True"
| "utf8_valid (b # bs) = (
     if b < 0x80 then utf8_valid bs
     else if 0xC2 \<le> b \<and> b \<le> 0xDF then
       (case bs of c1 # r \<Rightarrow> utf8_cont c1 \<and> utf8_valid r | _ \<Rightarrow> False)
     else if 0xE0 \<le> b \<and> b \<le> 0xEF then
       (case bs of c1 # c2 # r \<Rightarrow>
          utf8_cont c1 \<and> utf8_cont c2 \<and> (b = 0xE0 \<longrightarrow> 0xA0 \<le> c1) \<and> (b = 0xED \<longrightarrow> c1 \<le> 0x9F) \<and>
          utf8_valid r | _ \<Rightarrow> False)
     else if 0xF0 \<le> b \<and> b \<le> 0xF4 then
       (case bs of c1 # c2 # c3 # r \<Rightarrow>
          utf8_cont c1 \<and> utf8_cont c2 \<and> utf8_cont c3 \<and> (b = 0xF0 \<longrightarrow> 0x90 \<le> c1) \<and>
          (b = 0xF4 \<longrightarrow> c1 \<le> 0x8F) \<and> utf8_valid r | _ \<Rightarrow> False)
     else False)"

text \<open>\<open>String::from_utf8_lossy\<close>: the longest well-formed beginnings of characters
  that break off are replaced by U+FFFD, one for each.\<close>

definition utf8_replacement :: "byte list" where
  "utf8_replacement = [0xEF, 0xBF, 0xBD]"

fun utf8_lossy :: "byte list \<Rightarrow> byte list" where
  "utf8_lossy [] = []"
| "utf8_lossy (b # bs) = (
     if b < 0x80 then b # utf8_lossy bs
     else if 0xC2 \<le> b \<and> b \<le> 0xDF then
       (case bs of
          c1 # r \<Rightarrow> if utf8_cont c1 then b # c1 # utf8_lossy r else utf8_replacement @ utf8_lossy bs
        | [] \<Rightarrow> utf8_replacement)
     else if 0xE0 \<le> b \<and> b \<le> 0xEF then
       (case bs of
          c1 # r1 \<Rightarrow>
            if utf8_cont c1 \<and> (b = 0xE0 \<longrightarrow> 0xA0 \<le> c1) \<and> (b = 0xED \<longrightarrow> c1 \<le> 0x9F) then
              (case r1 of
                 c2 # r \<Rightarrow> if utf8_cont c2 then b # c1 # c2 # utf8_lossy r
                             else utf8_replacement @ utf8_lossy r1
               | [] \<Rightarrow> utf8_replacement)
            else utf8_replacement @ utf8_lossy bs
        | [] \<Rightarrow> utf8_replacement)
     else if 0xF0 \<le> b \<and> b \<le> 0xF4 then
       (case bs of
          c1 # r1 \<Rightarrow>
            if utf8_cont c1 \<and> (b = 0xF0 \<longrightarrow> 0x90 \<le> c1) \<and> (b = 0xF4 \<longrightarrow> c1 \<le> 0x8F) then
              (case r1 of
                 c2 # r2 \<Rightarrow>
                   if utf8_cont c2 then
                     (case r2 of
                        c3 # r \<Rightarrow> if utf8_cont c3 then b # c1 # c2 # c3 # utf8_lossy r
                                    else utf8_replacement @ utf8_lossy r2
                      | [] \<Rightarrow> utf8_replacement)
                   else utf8_replacement @ utf8_lossy r1
               | [] \<Rightarrow> utf8_replacement)
            else utf8_replacement @ utf8_lossy bs
        | [] \<Rightarrow> utf8_replacement)
     else utf8_replacement @ utf8_lossy bs)"

definition from_utf8_lossy :: "byte list \<Rightarrow> string" where
  "from_utf8_lossy bs = bytes_str (utf8_lossy bs)"

definition from_utf8 :: "byte list \<Rightarrow> string option" where
  "from_utf8 bs = (if utf8_valid bs then Some (bytes_str bs) else None)"

lemma unat_of_char_byte [simp]: "unat (word_of_nat (of_char c) :: byte) = of_char c"
  by (simp add: unsigned_of_nat take_bit_nat_eq_self)

lemma bytes_str_str_bytes [simp]: "bytes_str (str_bytes s) = s"
  by (simp add: bytes_str_def str_bytes_def comp_def)

lemma str_bytes_bytes_str [simp]: "str_bytes (bytes_str bs) = bs"
proof -
  have "unat b < 256" for b :: byte using unsigned_less [of b] by simp
  then have "(word_of_nat (of_char (char_of (unat b) :: char)) :: byte) = b" for b
    by (simp add: take_bit_nat_eq_self)
  then show ?thesis by (simp add: bytes_str_def str_bytes_def comp_def)
qed

lemma length_str_bytes [simp]: "length (str_bytes s) = length s"
  by (simp add: str_bytes_def)

definition ascii_str :: "string \<Rightarrow> bool" where
  "ascii_str s \<longleftrightarrow> list_all (\<lambda>c. (of_char c :: nat) < 128) s"

lemma utf8_valid_ascii: "ascii_str s \<Longrightarrow> utf8_valid (str_bytes s)"
  by (induction s) (simp_all add: ascii_str_def str_bytes_def word_less_nat_alt)

lemma utf8_lossy_ascii: "ascii_str s \<Longrightarrow> utf8_lossy (str_bytes s) = str_bytes s"
  by (induction s) (simp_all add: ascii_str_def str_bytes_def word_less_nat_alt)

text \<open>A first octet above the ASCII range, followed by ASCII text: the octet is replaced.\<close>

lemma utf8_lossy_header:
  assumes "0x80 \<le> b" and "list_all (\<lambda>c. c < 0x80) bs" and "utf8_lossy bs = bs"
  shows "utf8_lossy (b # bs) = utf8_replacement @ bs"
proof -
  have "\<not> utf8_cont c" if "c \<in> set bs" for c
    using assms(2) that by (auto simp: utf8_cont_def list_all_iff not_le)
  then show ?thesis
    using assms by (cases bs) (auto simp: not_less)
qed

lemma from_utf8_str_bytes: "utf8_valid (str_bytes s) \<Longrightarrow> from_utf8 (str_bytes s) = Some s"
  by (simp add: from_utf8_def)

lemma from_utf8_SomeD: "from_utf8 bs = Some s \<Longrightarrow> str_bytes s = bs \<and> utf8_valid bs"
  by (auto simp: from_utf8_def split: if_splits)

section \<open>Encoders and decoders\<close>

text \<open>
  The interface the message layers rely on: \<open>decode\<close> reads one value from the front of
  a buffer and says how many bytes it took. \<open>wf\<close> is what the encoder can represent.
\<close>

locale prefix_codec =
  fixes encode :: "'a \<Rightarrow> byte list"
    and decode :: "byte list \<Rightarrow> 'e + 'a \<times> nat"
    and wf :: "'a \<Rightarrow> bool"
  assumes decode_encode: "wf x \<Longrightarrow> decode (encode x @ rest) = Inr (x, length (encode x))"
begin

lemma encode_prefix_free:
  assumes "wf x" "wf y" "encode x @ us = encode y @ vs"
  shows "x = y \<and> us = vs"
proof -
  from assms(3) have "decode (encode x @ us) = decode (encode y @ vs)" by simp
  with assms(1,2) have "x = y" by (simp add: decode_encode)
  with assms(3) show ?thesis by simp
qed

lemma encode_inject: "wf x \<Longrightarrow> wf y \<Longrightarrow> encode x = encode y \<Longrightarrow> x = y"
  using encode_prefix_free [of x y "[]" "[]"] by simp

lemma decode_encode_exact: "wf x \<Longrightarrow> decode (encode x) = Inr (x, length (encode x))"
  using decode_encode [of x "[]"] by simp

end

text \<open>
  A buffer that holds a sequence of such values is read by a loop that decodes until the
  buffer is empty.
\<close>

locale sequence_codec = prefix_codec +
  fixes loop :: "byte list \<Rightarrow> 'e + 'a list"
  assumes encode_nonempty: "wf x \<Longrightarrow> encode x \<noteq> []"
    and loop_nil: "loop [] = Inr []"
    and loop_step: "bs \<noteq> [] \<Longrightarrow> decode bs = Inr (x, n) \<Longrightarrow> 0 < n \<Longrightarrow>
      loop bs = (case loop (drop n bs) of Inl e \<Rightarrow> Inl e | Inr xs \<Rightarrow> Inr (x # xs))"
begin

lemma loop_concat: "list_all wf xs \<Longrightarrow> loop (concat (map encode xs)) = Inr xs"
proof (induction xs)
  case Nil
  then show ?case by (simp add: loop_nil)
next
  case (Cons x xs)
  then have "wf x" and IH: "loop (concat (map encode xs)) = Inr xs" by simp_all
  then show ?case
    using loop_step [of "encode x @ concat (map encode xs)" x "length (encode x)"]
    by (simp add: encode_nonempty decode_encode)
qed

end

section \<open>Machines with an invariant\<close>

text \<open>
  The interface of the state machines of the development: the states a component starts in, the
  relation of its operations, and an invariant that each of them keeps.
\<close>

locale invariant_machine =
  fixes start :: "'s \<Rightarrow> bool"
    and step :: "'s \<Rightarrow> 's \<Rightarrow> bool"
    and inv :: "'s \<Rightarrow> bool"
  assumes start_inv: "start s \<Longrightarrow> inv s"
    and step_inv: "inv s \<Longrightarrow> step s t \<Longrightarrow> inv t"
begin

lemma steps_inv: "step\<^sup>*\<^sup>* s t \<Longrightarrow> inv s \<Longrightarrow> inv t"
  by (induction rule: rtranclp_induct) (auto intro: step_inv)

lemma reachable_inv: "start s \<Longrightarrow> step\<^sup>*\<^sup>* s t \<Longrightarrow> inv t"
  using steps_inv start_inv by blast

end

section \<open>Keyed stores\<close>

text \<open>
  A hash map that the code iterates is an association list with distinct keys; an entry is
  inserted with \<open>AList.update\<close> and removed with \<open>AList.delete\<close>.
\<close>

lemma map_of_update [simp]:
  "map_of (AList.update k v al) k' = (if k' = k then Some v else map_of al k')"
  by (simp add: update_conv' fun_upd_def)

lemma map_of_delete [simp]: "map_of (AList.delete k al) k' = (if k' = k then None else map_of al k')"
  by (simp add: delete_conv')

lemma distinct_update_keys [simp]:
  "distinct (map fst al) \<Longrightarrow> distinct (map fst (AList.update k v al))"
  by (rule distinct_update)

lemma distinct_delete_keys [simp]:
  "distinct (map fst al) \<Longrightarrow> distinct (map fst (AList.delete k al))"
  by (rule distinct_delete)

text \<open>A property of every entry of a store, the way the component invariants state it.\<close>

definition all_entries :: "('k \<Rightarrow> 'v \<Rightarrow> bool) \<Rightarrow> ('k \<times> 'v) list \<Rightarrow> bool" where
  "all_entries P al \<longleftrightarrow> distinct (map fst al) \<and> (\<forall>k v. map_of al k = Some v \<longrightarrow> P k v)"

lemma all_entries_Nil [simp]: "all_entries P []"
  by (simp add: all_entries_def)

lemma all_entries_update: "all_entries P al \<Longrightarrow> P k v \<Longrightarrow> all_entries P (AList.update k v al)"
  by (simp add: all_entries_def)

lemma all_entries_delete: "all_entries P al \<Longrightarrow> all_entries P (AList.delete k al)"
  by (simp add: all_entries_def)

lemma all_entriesD: "all_entries P al \<Longrightarrow> map_of al k = Some v \<Longrightarrow> P k v"
  by (simp add: all_entries_def)

lemma all_entries_set: "all_entries P al \<Longrightarrow> (k, v) \<in> set al \<Longrightarrow> P k v"
  by (auto simp: all_entries_def)

lemma all_entries_filter: "all_entries P al \<Longrightarrow> all_entries P (filter Q al)"
proof -
  assume a: "all_entries P al"
  then have d: "distinct (map fst (filter Q al))" by (simp add: all_entries_def distinct_map_filter)
  have "P k v" if "map_of (filter Q al) k = Some v" for k v
    using that a by (auto dest!: map_of_SomeD all_entries_set)
  with d show ?thesis by (simp add: all_entries_def)
qed

lemma map_of_filter_snd:
  "distinct (map fst al) \<Longrightarrow> map_of (filter (\<lambda>(k, v). \<not> P v) al) k =
    (case map_of al k of Some v \<Rightarrow> if P v then None else Some v | None \<Rightarrow> None)"
  by (induction al) (auto simp: image_iff map_of_eq_None_iff split: option.splits)

end
