(* ===== verification/Q931.thy ===== *)
theory Q931
  imports Redfire_Prelude
begin

text \<open>
  Q.931 network layer messages (\<open>src/q931_messages.rs\<close>): message types, call
  references, information elements, whole messages, and the cause and party number elements.
  The parsers slice a byte buffer and fail with a value of \<open>q931_error\<close>, one
  constructor per \<open>anyhow!\<close> of the source.
\<close>

section \<open>Types\<close>

datatype isdn_variant = NI2 | EuroIsdn

datatype isdn_side_type = SideNetwork | SideUser

record isdn_config =
  cfg_variant :: isdn_variant
  cfg_side_type :: isdn_side_type

datatype (plugins only: code size) q931_message_type =
  MT_Setup | MT_SetupAcknowledge | MT_CallProceeding | MT_Alerting | MT_Connect
| MT_ConnectAcknowledge | MT_Progress | MT_Disconnect | MT_Release | MT_ReleaseComplete
| MT_User | MT_Suspend | MT_SuspendAcknowledge | MT_SuspendReject | MT_Resume
| MT_ResumeAcknowledge | MT_ResumeReject | MT_Hold | MT_HoldAcknowledge | MT_HoldReject
| MT_Retrieve | MT_RetrieveAcknowledge | MT_RetrieveReject | MT_Status | MT_StatusEnquiry
| MT_Facility | MT_Information | MT_Notify | MT_ServiceAcknowledge | MT_CongestDrop
| MT_CongestionControl | MT_Restart | MT_RestartAcknowledge

fun mt_code :: "q931_message_type \<Rightarrow> u8" where
  "mt_code MT_Setup = 0x05" | "mt_code MT_SetupAcknowledge = 0x0D"
| "mt_code MT_CallProceeding = 0x02" | "mt_code MT_Alerting = 0x01"
| "mt_code MT_Connect = 0x07" | "mt_code MT_ConnectAcknowledge = 0x0F"
| "mt_code MT_Progress = 0x03" | "mt_code MT_Disconnect = 0x45"
| "mt_code MT_Release = 0x4D" | "mt_code MT_ReleaseComplete = 0x5A"
| "mt_code MT_User = 0x20" | "mt_code MT_Suspend = 0x25"
| "mt_code MT_SuspendAcknowledge = 0x2D" | "mt_code MT_SuspendReject = 0x21"
| "mt_code MT_Resume = 0x26" | "mt_code MT_ResumeAcknowledge = 0x2E"
| "mt_code MT_ResumeReject = 0x22" | "mt_code MT_Hold = 0x24"
| "mt_code MT_HoldAcknowledge = 0x28" | "mt_code MT_HoldReject = 0x30"
| "mt_code MT_Retrieve = 0x31" | "mt_code MT_RetrieveAcknowledge = 0x33"
| "mt_code MT_RetrieveReject = 0x37" | "mt_code MT_Status = 0x7D"
| "mt_code MT_StatusEnquiry = 0x75" | "mt_code MT_Facility = 0x62"
| "mt_code MT_Information = 0x7B" | "mt_code MT_Notify = 0x6E"
| "mt_code MT_ServiceAcknowledge = 0x4F" | "mt_code MT_CongestDrop = 0x40"
| "mt_code MT_CongestionControl = 0x79" | "mt_code MT_Restart = 0x46"
| "mt_code MT_RestartAcknowledge = 0x4E"

definition mt_from_u8 :: "u8 \<Rightarrow> q931_message_type option" where
  "mt_from_u8 v =
    (if v = 0x05 then Some MT_Setup else if v = 0x0D then Some MT_SetupAcknowledge
     else if v = 0x02 then Some MT_CallProceeding else if v = 0x01 then Some MT_Alerting
     else if v = 0x07 then Some MT_Connect else if v = 0x0F then Some MT_ConnectAcknowledge
     else if v = 0x03 then Some MT_Progress else if v = 0x45 then Some MT_Disconnect
     else if v = 0x4D then Some MT_Release else if v = 0x5A then Some MT_ReleaseComplete
     else if v = 0x20 then Some MT_User else if v = 0x7D then Some MT_Status
     else if v = 0x75 then Some MT_StatusEnquiry else if v = 0x62 then Some MT_Facility
     else if v = 0x7B then Some MT_Information else if v = 0x6E then Some MT_Notify
     else if v = 0x4F then Some MT_ServiceAcknowledge else if v = 0x40 then Some MT_CongestDrop
     else if v = 0x79 then Some MT_CongestionControl else if v = 0x46 then Some MT_Restart
     else if v = 0x4E then Some MT_RestartAcknowledge else None)"

datatype (plugins only: code size) ie_type =
  IE_Shift | IE_MoreData | IE_SendingComplete | IE_CongestionLevel | IE_RepeatIndicator
| IE_Segmented | IE_Change | IE_BearerCapability | IE_Cause | IE_CallIdentity | IE_CallState
| IE_ChannelIdentification | IE_Progress | IE_NetworkSpecificFacilities
| IE_NotificationIndicator | IE_Display | IE_DateTime | IE_KeypadFacility | IE_Signal
| IE_CallingPartyNumber | IE_CallingPartySubaddress | IE_CalledPartyNumber
| IE_CalledPartySubaddress | IE_RedirectingNumber | IE_TransitNetworkSelection
| IE_RestartIndicator | IE_LowLayerCompatibility | IE_HighLayerCompatibility | IE_UserUser
| IE_Escape | IE_OriginationFacility | IE_DestinationFacility | IE_NetworkSpecific
| IE_TransitNetworkId

fun ie_code :: "ie_type \<Rightarrow> u8" where
  "ie_code IE_Shift = 0x90" | "ie_code IE_MoreData = 0xA0" | "ie_code IE_SendingComplete = 0xA1"
| "ie_code IE_CongestionLevel = 0xB0" | "ie_code IE_RepeatIndicator = 0xD0"
| "ie_code IE_Segmented = 0x00" | "ie_code IE_Change = 0x01"
| "ie_code IE_BearerCapability = 0x04" | "ie_code IE_Cause = 0x08"
| "ie_code IE_CallIdentity = 0x10" | "ie_code IE_CallState = 0x14"
| "ie_code IE_ChannelIdentification = 0x18" | "ie_code IE_Progress = 0x1E"
| "ie_code IE_NetworkSpecificFacilities = 0x20" | "ie_code IE_NotificationIndicator = 0x27"
| "ie_code IE_Display = 0x28" | "ie_code IE_DateTime = 0x29"
| "ie_code IE_KeypadFacility = 0x2C" | "ie_code IE_Signal = 0x34"
| "ie_code IE_CallingPartyNumber = 0x6C" | "ie_code IE_CallingPartySubaddress = 0x6D"
| "ie_code IE_CalledPartyNumber = 0x70" | "ie_code IE_CalledPartySubaddress = 0x71"
| "ie_code IE_RedirectingNumber = 0x74" | "ie_code IE_TransitNetworkSelection = 0x78"
| "ie_code IE_RestartIndicator = 0x79" | "ie_code IE_LowLayerCompatibility = 0x7C"
| "ie_code IE_HighLayerCompatibility = 0x7D" | "ie_code IE_UserUser = 0x7E"
| "ie_code IE_Escape = 0x7F" | "ie_code IE_OriginationFacility = 0x80"
| "ie_code IE_DestinationFacility = 0x81" | "ie_code IE_NetworkSpecific = 0x82"
| "ie_code IE_TransitNetworkId = 0x83"

definition ie_from_u8 :: "u8 \<Rightarrow> ie_type option" where
  "ie_from_u8 v =
    (if v = 0x04 then Some IE_BearerCapability else if v = 0x08 then Some IE_Cause
     else if v = 0x10 then Some IE_CallIdentity else if v = 0x14 then Some IE_CallState
     else if v = 0x18 then Some IE_ChannelIdentification else if v = 0x1E then Some IE_Progress
     else if v = 0x27 then Some IE_NotificationIndicator else if v = 0x28 then Some IE_Display
     else if v = 0x2C then Some IE_KeypadFacility else if v = 0x34 then Some IE_Signal
     else if v = 0x6C then Some IE_CallingPartyNumber
     else if v = 0x6D then Some IE_CallingPartySubaddress
     else if v = 0x70 then Some IE_CalledPartyNumber
     else if v = 0x71 then Some IE_CalledPartySubaddress
     else if v = 0x74 then Some IE_RedirectingNumber
     else if v = 0x78 then Some IE_TransitNetworkSelection
     else if v = 0x7C then Some IE_LowLayerCompatibility
     else if v = 0x7D then Some IE_HighLayerCompatibility
     else if v = 0x7E then Some IE_UserUser else None)"

datatype q931_error =
  EmptyCallReference | ShortCallReference | InvalidCallReferenceLength u8
| ShortIeHeader | UnknownIeType u8 | ShortIeContent
| ShortMessage | InvalidDiscriminator u8 | NoMessageType | UnknownMessageType u8
| EmptyCauseIe | ShortCauseIe | EmptyCalledParty | InvalidCalledDigits | CalledPartyTooLong
| ShortCallingParty | InvalidCallingDigits

section \<open>Call references\<close>

record call_reference =
  cr_value :: u16
  cr_flag :: u8
  cr_length :: u8

definition call_ref_flag_originating :: u8 where
  "call_ref_flag_originating = 0x00"

definition call_ref_flag_terminating :: u8 where
  "call_ref_flag_terminating = 0x80"

definition new_call_reference :: "u16 \<Rightarrow> bool \<Rightarrow> call_reference" where
  "new_call_reference v originating =
     (let flag = (if originating then call_ref_flag_originating else call_ref_flag_terminating)
      in \<lparr>cr_value = v AND 0x7FFF, cr_flag = flag, cr_length = 2\<rparr>)"

definition parse_call_reference :: "byte list \<Rightarrow> q931_error + call_reference \<times> nat" where
  "parse_call_reference data =
    (if data = [] then Inl EmptyCallReference
     else let len = data ! 0 in
       if len = 0 then Inr (\<lparr>cr_value = 0, cr_flag = 0, cr_length = 0\<rparr>, 1)
       else if length data < unat len + 1 then Inl ShortCallReference
       else if len = 1 then
         Inr (\<lparr>cr_value = ucast (data ! 1 AND 0x7F), cr_flag = data ! 1 AND 0x80, cr_length = len\<rparr>,
              unat len + 1)
       else if len = 2 then
         let v = of_be16 (data ! 1) (data ! 2) in
         Inr (\<lparr>cr_value = v AND 0x7FFF, cr_flag = ucast (drop_bit 15 v AND 1) * 0x80,
               cr_length = len\<rparr>, unat len + 1)
       else Inl (InvalidCallReferenceLength len))"

definition encode_call_reference :: "call_reference \<Rightarrow> byte list" where
  "encode_call_reference c =
    (if cr_length c = 0 then [cr_length c]
     else if cr_length c = 1 then [cr_length c, ucast (cr_value c) OR cr_flag c]
     else if cr_length c = 2 then
       cr_length c # be16 (cr_value c OR push_bit 15 (ucast (cr_flag c)))
     else [cr_length c])"

section \<open>Information elements and messages\<close>

record information_element =
  ie_type :: ie_type
  ie_data :: "byte list"

definition new_ie :: "ie_type \<Rightarrow> byte list \<Rightarrow> information_element" where
  "new_ie ty d = \<lparr>ie_type = ty, ie_data = d\<rparr>"

definition parse_variable :: "byte list \<Rightarrow> q931_error + information_element \<times> nat" where
  "parse_variable data =
    (if length data < 2 then Inl ShortIeHeader
     else case ie_from_u8 (data ! 0) of
       None \<Rightarrow> Inl (UnknownIeType (data ! 0))
     | Some ty \<Rightarrow>
         let len = unat (data ! 1) in
         if length data < len + 2 then Inl ShortIeContent
         else Inr (new_ie ty (take len (drop 2 data)), len + 2))"

definition encode_ie :: "information_element \<Rightarrow> byte list" where
  "encode_ie ie = [ie_code (ie_type ie), word_of_nat (length (ie_data ie))] @ ie_data ie"

record q931_message =
  protocol_discriminator :: u8
  call_ref :: call_reference
  message_type :: q931_message_type
  information_elements :: "information_element list"

definition q931_protocol_discriminator :: u8 where
  "q931_protocol_discriminator = 0x08"

definition new_q931_message ::
    "call_reference \<Rightarrow> q931_message_type \<Rightarrow> information_element list \<Rightarrow> q931_message" where
  "new_q931_message cr mt ies =
     \<lparr>protocol_discriminator = q931_protocol_discriminator, call_ref = cr, message_type = mt,
      information_elements = ies\<rparr>"

lemma parse_variable_consumes:
  "parse_variable bs = Inr (ie, n) \<Longrightarrow> 2 \<le> n \<and> n \<le> length bs"
  by (auto simp: parse_variable_def Let_def split: if_splits option.splits)

function parse_ies :: "byte list \<Rightarrow> q931_error + information_element list" where
  "parse_ies bs =
    (if bs = [] then Inr []
     else case parse_variable bs of
       Inl e \<Rightarrow> Inl e
     | Inr (ie, n) \<Rightarrow>
         (case parse_ies (drop n bs) of Inl e \<Rightarrow> Inl e | Inr ies \<Rightarrow> Inr (ie # ies)))"
  by auto
termination
  by (relation "measure length") (auto dest!: parse_variable_consumes)

declare parse_ies.simps [simp del]

definition parse_message :: "byte list \<Rightarrow> q931_error + q931_message" where
  "parse_message data =
    (if length data < 3 then Inl ShortMessage
     else if data ! 0 \<noteq> q931_protocol_discriminator then Inl (InvalidDiscriminator (data ! 0))
     else case parse_call_reference (drop 1 data) of
       Inl e \<Rightarrow> Inl e
     | Inr (cr, n) \<Rightarrow>
         let off = 1 + n in
         if length data \<le> off then Inl NoMessageType
         else case mt_from_u8 (data ! off) of
           None \<Rightarrow> Inl (UnknownMessageType (data ! off))
         | Some mt \<Rightarrow>
             (case parse_ies (drop (off + 1) data) of
               Inl e \<Rightarrow> Inl e
             | Inr ies \<Rightarrow>
                 Inr \<lparr>protocol_discriminator = data ! 0, call_ref = cr, message_type = mt,
                      information_elements = ies\<rparr>))"

definition encode_message :: "q931_message \<Rightarrow> byte list" where
  "encode_message m =
     [protocol_discriminator m] @ encode_call_reference (call_ref m) @ [mt_code (message_type m)] @
     concat (map encode_ie (information_elements m))"

definition find_ie :: "q931_message \<Rightarrow> ie_type \<Rightarrow> information_element option" where
  "find_ie m ty = List.find (\<lambda>ie. ie_type ie = ty) (information_elements m)"

definition get_ies :: "q931_message \<Rightarrow> ie_type \<Rightarrow> information_element list" where
  "get_ies m ty = filter (\<lambda>ie. ie_type ie = ty) (information_elements m)"

section \<open>Cause and party number elements\<close>

datatype (plugins only: code size) cause_value =
  Cause_Normal | Cause_UserBusy | Cause_NoUserResponding | Cause_NoAnswer | Cause_CallRejected
| Cause_NumberChanged | Cause_NonSelectedUserClearing | Cause_DestinationOutOfOrder
| Cause_InvalidNumberFormat | Cause_FacilityRejected | Cause_ResponseToStatusEnquiry
| Cause_NormalUnspecified | Cause_NoCircuitChannelAvailable | Cause_NetworkOutOfOrder
| Cause_TemporaryFailure | Cause_SwitchingEquipmentCongestion | Cause_AccessInformationDiscarded
| Cause_RequestedChannelNotAvailable | Cause_ResourceUnavailableUnspecified
| Cause_QualityOfServiceUnavailable | Cause_RequestedFacilityNotSubscribed
| Cause_IncomingCallsBarredWithinCug | Cause_BearerCapabilityNotAuthorized
| Cause_BearerCapabilityNotAvailable | Cause_ServiceNotAvailable
| Cause_BearerCapabilityNotImplemented | Cause_ChannelTypeNotImplemented
| Cause_RequestedFacilityNotImplemented | Cause_OnlyRestrictedBearerCapability
| Cause_ServiceNotImplemented | Cause_InvalidCallReferenceValue
| Cause_IdentifiedChannelDoesNotExist | Cause_CallIdentityInUse | Cause_NoCallSuspended
| Cause_CallHavingRequestedCallIdCleared | Cause_UserNotMemberOfCug
| Cause_IncompatibleDestination | Cause_InvalidTransitNetworkSelection | Cause_InvalidMessage
| Cause_MandatoryInformationElementMissing | Cause_MessageTypeNonExistent
| Cause_MessageNotCompatibleWithCallState | Cause_InformationElementNonExistent
| Cause_InvalidInformationElementContents | Cause_MessageNotCompatibleWithProtocolState
| Cause_RecoveryOnTimerExpiry | Cause_ProtocolErrorUnspecified | Cause_InterworkingUnspecified

fun cause_code :: "cause_value \<Rightarrow> u8" where
  "cause_code Cause_Normal = 16" | "cause_code Cause_UserBusy = 17"
| "cause_code Cause_NoUserResponding = 18" | "cause_code Cause_NoAnswer = 19"
| "cause_code Cause_CallRejected = 21" | "cause_code Cause_NumberChanged = 22"
| "cause_code Cause_NonSelectedUserClearing = 26" | "cause_code Cause_DestinationOutOfOrder = 27"
| "cause_code Cause_InvalidNumberFormat = 28" | "cause_code Cause_FacilityRejected = 29"
| "cause_code Cause_ResponseToStatusEnquiry = 30" | "cause_code Cause_NormalUnspecified = 31"
| "cause_code Cause_NoCircuitChannelAvailable = 34" | "cause_code Cause_NetworkOutOfOrder = 38"
| "cause_code Cause_TemporaryFailure = 41" | "cause_code Cause_SwitchingEquipmentCongestion = 42"
| "cause_code Cause_AccessInformationDiscarded = 43"
| "cause_code Cause_RequestedChannelNotAvailable = 44"
| "cause_code Cause_ResourceUnavailableUnspecified = 47"
| "cause_code Cause_QualityOfServiceUnavailable = 49"
| "cause_code Cause_RequestedFacilityNotSubscribed = 50"
| "cause_code Cause_IncomingCallsBarredWithinCug = 55"
| "cause_code Cause_BearerCapabilityNotAuthorized = 57"
| "cause_code Cause_BearerCapabilityNotAvailable = 58" | "cause_code Cause_ServiceNotAvailable = 63"
| "cause_code Cause_BearerCapabilityNotImplemented = 65"
| "cause_code Cause_ChannelTypeNotImplemented = 66"
| "cause_code Cause_RequestedFacilityNotImplemented = 69"
| "cause_code Cause_OnlyRestrictedBearerCapability = 70"
| "cause_code Cause_ServiceNotImplemented = 79"
| "cause_code Cause_InvalidCallReferenceValue = 81"
| "cause_code Cause_IdentifiedChannelDoesNotExist = 82"
| "cause_code Cause_CallIdentityInUse = 84" | "cause_code Cause_NoCallSuspended = 85"
| "cause_code Cause_CallHavingRequestedCallIdCleared = 86"
| "cause_code Cause_UserNotMemberOfCug = 87" | "cause_code Cause_IncompatibleDestination = 88"
| "cause_code Cause_InvalidTransitNetworkSelection = 91" | "cause_code Cause_InvalidMessage = 95"
| "cause_code Cause_MandatoryInformationElementMissing = 96"
| "cause_code Cause_MessageTypeNonExistent = 97"
| "cause_code Cause_MessageNotCompatibleWithCallState = 98"
| "cause_code Cause_InformationElementNonExistent = 99"
| "cause_code Cause_InvalidInformationElementContents = 100"
| "cause_code Cause_MessageNotCompatibleWithProtocolState = 101"
| "cause_code Cause_RecoveryOnTimerExpiry = 102"
| "cause_code Cause_ProtocolErrorUnspecified = 111"
| "cause_code Cause_InterworkingUnspecified = 127"

definition parse_cause_ie ::
    "byte list \<Rightarrow> q931_error + u8 \<times> cause_value \<times> byte list option" where
  "parse_cause_ie data =
    (if data = [] then Inl EmptyCauseIe
     else let location = data ! 0 AND 0x0F in
       if 1 < length data then
         let v = data ! 1 AND 0x7F;
             cause =
               (if v = 16 then Cause_Normal else if v = 17 then Cause_UserBusy
                else if v = 18 then Cause_NoUserResponding else if v = 19 then Cause_NoAnswer
                else if v = 21 then Cause_CallRejected
                else if v = 31 then Cause_NormalUnspecified
                else if v = 34 then Cause_NoCircuitChannelAvailable
                else Cause_ProtocolErrorUnspecified);
             diagnostics = (if 2 < length data then Some (drop 2 data) else None)
         in Inr (location, cause, diagnostics)
       else Inl ShortCauseIe)"

definition create_cause_ie ::
    "u8 \<Rightarrow> cause_value \<Rightarrow> byte list option \<Rightarrow> information_element" where
  "create_cause_ie location cause diagnostics =
     new_ie IE_Cause
       ([0x80 OR (location AND 0x0F), 0x80 OR cause_code cause] @
        (case diagnostics of Some d \<Rightarrow> d | None \<Rightarrow> []))"

definition parse_called_party_number ::
    "byte list \<Rightarrow> q931_error + u8 \<times> u8 \<times> string" where
  "parse_called_party_number data =
    (if data = [] then Inl EmptyCalledParty
     else case from_utf8 (drop 1 data) of
       None \<Rightarrow> Inl InvalidCalledDigits
     | Some digits \<Rightarrow> Inr (drop_bit 4 (data ! 0) AND 0x07, data ! 0 AND 0x0F, digits))"

definition create_called_party_number_ie ::
    "u8 \<Rightarrow> u8 \<Rightarrow> string \<Rightarrow> q931_error + information_element" where
  "create_called_party_number_ie ton npi digits =
    (if 20 < length digits then Inl CalledPartyTooLong
     else Inr (new_ie IE_CalledPartyNumber
            ((0x80 OR push_bit 4 (ton AND 0x07) OR (npi AND 0x0F)) # str_bytes digits)))"

definition parse_calling_party_number ::
    "byte list \<Rightarrow> q931_error + u8 \<times> u8 \<times> u8 \<times> string" where
  "parse_calling_party_number data =
    (if length data < 2 then Inl ShortCallingParty
     else case from_utf8 (drop 2 data) of
       None \<Rightarrow> Inl InvalidCallingDigits
     | Some digits \<Rightarrow>
         Inr (drop_bit 4 (data ! 0) AND 0x07, data ! 0 AND 0x0F, drop_bit 5 (data ! 1) AND 0x03,
              digits))"

section \<open>Well-formedness: what the encoders can represent\<close>

definition mt_parseable :: "q931_message_type \<Rightarrow> bool" where
  "mt_parseable mt \<longleftrightarrow> mt_from_u8 (mt_code mt) = Some mt"

definition ie_wf :: "information_element \<Rightarrow> bool" where
  "ie_wf ie \<longleftrightarrow> ie_from_u8 (ie_code (ie_type ie)) = Some (ie_type ie) \<and> length (ie_data ie) < 256"

text \<open>A call reference the encoder represents; a two-byte one with the flag set is not.\<close>

definition call_reference_wf :: "call_reference \<Rightarrow> bool" where
  "call_reference_wf c \<longleftrightarrow>
     (cr_length c = 0 \<and> cr_value c = 0 \<and> cr_flag c = 0) \<or>
     (cr_length c = 1 \<and> cr_value c < 128 \<and> (cr_flag c = 0 \<or> cr_flag c = 0x80)) \<or>
     (cr_length c = 2 \<and> cr_value c < 32768 \<and> cr_flag c = 0)"

definition message_wf :: "q931_message \<Rightarrow> bool" where
  "message_wf m \<longleftrightarrow>
     protocol_discriminator m = q931_protocol_discriminator \<and> call_reference_wf (call_ref m) \<and>
     mt_parseable (message_type m) \<and> list_all ie_wf (information_elements m)"

section \<open>The codec of information elements\<close>

lemma ie_from_u8_SomeD: "ie_from_u8 v = Some ty \<Longrightarrow> ie_code ty = v"
  by (auto simp: ie_from_u8_def split: if_splits)

lemma mt_from_u8_SomeD: "mt_from_u8 v = Some mt \<Longrightarrow> mt_code mt = v"
  by (auto simp: mt_from_u8_def split: if_splits)

lemma parse_variable_encode_ie:
  "ie_wf ie \<Longrightarrow> parse_variable (encode_ie ie @ rest) = Inr (ie, length (encode_ie ie))"
  by (simp add: ie_wf_def parse_variable_def encode_ie_def new_ie_def unsigned_of_nat
      take_bit_nat_eq_self)

interpretation ies: sequence_codec encode_ie parse_variable ie_wf parse_ies
proof unfold_locales
  show "parse_variable (encode_ie x @ rest) = Inr (x, length (encode_ie x))" if "ie_wf x" for x rest
    using that by (rule parse_variable_encode_ie)
  show "encode_ie x \<noteq> []" if "ie_wf x" for x
    by (simp add: encode_ie_def)
  show "parse_ies [] = Inr []"
    by (simp add: parse_ies.simps)
  show "parse_ies bs = (case parse_ies (drop n bs) of Inl e \<Rightarrow> Inl e | Inr xs \<Rightarrow> Inr (x # xs))"
    if "bs \<noteq> []" "parse_variable bs = Inr (x, n)" for bs x n
    using that by (simp add: parse_ies.simps [of bs])
qed

lemma encode_ie_parse_variable:
  assumes "parse_variable bs = Inr (ie, n)"
  shows "ie_wf ie \<and> encode_ie ie = take n bs"
proof -
  from assms obtain ty where *: "2 \<le> length bs" "ie_from_u8 (bs ! 0) = Some ty"
      "unat (bs ! 1) + 2 \<le> length bs" "n = unat (bs ! 1) + 2"
      "ie = new_ie ty (take (unat (bs ! 1)) (drop 2 bs))"
    by (auto simp: parse_variable_def Let_def split: if_splits option.splits)
  then obtain a b cs where "bs = a # b # cs"
    by (cases bs; cases "tl bs") auto
  with * unsigned_less [of b] show ?thesis
    by (auto simp: new_ie_def ie_wf_def encode_ie_def dest: ie_from_u8_SomeD)
qed

lemma encode_parse_ies:
  "parse_ies bs = Inr ies \<Longrightarrow> list_all ie_wf ies \<and> concat (map encode_ie ies) = bs"
proof (induction bs arbitrary: ies rule: parse_ies.induct)
  case (1 bs)
  show ?case
  proof (cases "bs = []")
    case True
    with "1.prems" show ?thesis by (simp add: parse_ies.simps)
  next
    case False
    with "1.prems" obtain ie n ies' where *: "parse_variable bs = Inr (ie, n)"
        "parse_ies (drop n bs) = Inr ies'" "ies = ie # ies'"
      by (subst (asm) parse_ies.simps) (auto split: sum.splits)
    with "1.IH" [OF False *(1) refl, of ies'] encode_ie_parse_variable [OF *(1)] show ?thesis
      by simp
  qed
qed

section \<open>The codec of call references\<close>

text \<open>The one-byte form packs a seven-bit value and the flag.\<close>

lemma cr_one_byte:
  assumes "(v :: u16) < 128" and "f = 0 \<or> f = (0x80 :: u8)"
  shows "ucast ((ucast v OR f) AND 0x7F) = v" and "(ucast v OR f) AND 0x80 = f"
proof -
  have hi: "\<not> bit v n" if "7 \<le> n" for n
  proof -
    from assms(1) have "take_bit 7 v = v" using word_lt_pow2_iff [of 7 v] by simp
    then have "bit v n = bit (take_bit 7 v) n" by simp
    with that show ?thesis by (simp add: bit_simps)
  qed
  have mask: "(0x7F :: u8) = mask 7" by (simp add: mask_eq_exp_minus_1)
  show "ucast ((ucast v OR f) AND 0x7F) = v"
  proof (rule bit_word_eqI)
    fix n assume "n < LENGTH(16)"
    show "bit (ucast ((ucast v OR f) AND 0x7F) :: u16) n = bit v n"
    proof (cases "n < 7")
      case True
      with assms(2) bit_exp_iff [of 7 n, where 'a = u8] show ?thesis
        unfolding mask by (auto simp: bit_simps)
    next
      case False
      with hi show ?thesis unfolding mask by (simp add: bit_simps)
    qed
  qed
  show "(ucast v OR f) AND 0x80 = f"
    using assms(2) hi by (auto intro!: u8_eqI simp: bit_simps)
qed

lemma cr_one_byte_inverse:
  "ucast (ucast (b AND 0x7F) :: u16) OR (b AND 0x80) = (b :: u8)"
  by (rule u8_eqI; simp add: bit_simps)

text \<open>The two-byte form: fifteen bits of value, the flag read from the top bit.\<close>

lemma and_7fff: "(v :: u16) AND 0x7FFF = take_bit 15 v"
  by (simp add: take_bit_eq_mask mask_eq_exp_minus_1)

lemma cr_two_bytes: "(v :: u16) < 32768 \<Longrightarrow> v AND 0x7FFF = v"
  using word_lt_pow2_iff [of 15 v] by (simp add: and_7fff)

lemma cr_top_bit: "ucast (drop_bit 15 v AND 1 :: u16) * 0x80 = (if bit v 15 then 0x80 else 0 :: u8)"
proof -
  have "drop_bit 15 v AND 1 = (if bit v 15 then 1 else 0)"
    by (auto simp: and_one_eq odd_iff_mod_2_eq_one bit_iff_odd_drop_bit even_iff_mod_2_eq_zero)
  then show ?thesis by simp
qed

lemma parse_encode_call_reference:
  assumes "call_reference_wf c"
  shows "parse_call_reference (encode_call_reference c @ rest) =
    Inr (c, length (encode_call_reference c))"
proof -
  consider "cr_length c = 0" "cr_value c = 0" "cr_flag c = 0"
    | "cr_length c = 1" "cr_value c < 128" "cr_flag c = 0 \<or> cr_flag c = 0x80"
    | "cr_length c = 2" "cr_value c < 32768" "cr_flag c = 0"
    using assms by (auto simp: call_reference_wf_def)
  then show ?thesis
  proof cases
    case 1
    then show ?thesis by (simp add: parse_call_reference_def encode_call_reference_def)
  next
    case 2
    then show ?thesis
      using cr_one_byte [OF 2(2,3)]
      by (simp add: parse_call_reference_def encode_call_reference_def)
  next
    case 3
    then have "\<not> bit (cr_value c) 15" by (simp add: u16_lt_pow15)
    with 3 show ?thesis
      by (simp add: parse_call_reference_def encode_call_reference_def be16_def Let_def
          cr_top_bit cr_two_bytes)
  qed
qed

interpretation cr: prefix_codec encode_call_reference parse_call_reference call_reference_wf
  by unfold_locales (rule parse_encode_call_reference)

lemma parse_call_reference_InrD:
  assumes "parse_call_reference bs = Inr (c, n)" and "cr_length c = 2 \<longrightarrow> cr_flag c = 0"
  shows "call_reference_wf c \<and> encode_call_reference c = take n bs"
proof -
  from assms(1) have ne: "bs \<noteq> []" by (auto simp: parse_call_reference_def)
  then obtain k xs where bs: "bs = k # xs" by (cases bs) auto
  consider (zero) "k = 0" | (one) "k = 1" | (two) "k = 2" | (other) "k \<noteq> 0" "k \<noteq> 1" "k \<noteq> 2" by blast
  then show ?thesis
  proof cases
    case zero
    with assms bs show ?thesis
      by (auto simp: parse_call_reference_def call_reference_wf_def encode_call_reference_def)
  next
    case one
    with assms bs obtain b ys where xs: "xs = b # ys"
      by (cases xs) (auto simp: parse_call_reference_def Let_def split: if_splits)
    have b7: "(ucast (b AND 0x7F) :: u16) < 128"
    proof -
      have "take_bit 7 (b AND 0x7F) = b AND 0x7F"
        by (rule u8_eqI; simp add: bit_simps)
      then have "b AND 0x7F < 128" using word_lt_pow2_iff [of 7 "b AND 0x7F"] by simp
      then show ?thesis by (simp add: word_less_nat_alt unsigned_ucast_eq take_bit_nat_eq_self)
    qed
    have f: "b AND 0x80 = 0 \<or> b AND 0x80 = 0x80"
      by (auto simp: u8_eq_iff bit_simps)
    from one bs xs assms b7 f cr_one_byte_inverse [of b] show ?thesis
      by (auto simp: parse_call_reference_def call_reference_wf_def encode_call_reference_def
          split: if_splits)
  next
    case two
    with assms bs obtain b b' ys where xs: "xs = b # b' # ys"
      by (cases xs; cases "tl xs") (auto simp: parse_call_reference_def Let_def split: if_splits)
    define v where "v = of_be16 b b'"
    from two bs xs assms have c: "c = \<lparr>cr_value = v AND 0x7FFF, cr_flag = 0, cr_length = 2\<rparr>"
        "n = 3" and nb: "\<not> bit v 15"
      by (auto simp: parse_call_reference_def Let_def v_def cr_top_bit split: if_splits)
    from nb have "v < 32768" by (simp add: u16_lt_pow15)
    with cr_two_bytes [of v] have "v AND 0x7FFF = v" by simp
    with c nb two bs xs \<open>v < 32768\<close> show ?thesis
      by (simp add: call_reference_wf_def encode_call_reference_def v_def)
  next
    case other
    with assms bs show ?thesis
      by (auto simp: parse_call_reference_def Let_def split: if_splits)
  qed
qed

section \<open>Messages\<close>

lemma encode_call_reference_nonempty [simp]: "encode_call_reference c \<noteq> []"
  by (simp add: encode_call_reference_def)

text \<open>The header of an encoded message is read back whenever its call reference is.\<close>

lemma parse_message_header:
  assumes "parse_call_reference (encode_call_reference c @ mt_code mt # body) =
      Inr (c', length (encode_call_reference c))"
  shows "parse_message (q931_protocol_discriminator # encode_call_reference c @ mt_code mt # body) =
    (case mt_from_u8 (mt_code mt) of None \<Rightarrow> Inl (UnknownMessageType (mt_code mt))
     | Some mt' \<Rightarrow> (case parse_ies body of Inl e \<Rightarrow> Inl e
        | Inr ies \<Rightarrow> Inr (new_q931_message c' mt' ies)))"
proof -
  have "0 < length (encode_call_reference c)" by simp
  with assms show ?thesis
    by (auto simp: parse_message_def new_q931_message_def nth_append split: option.splits sum.splits)
qed

lemma parse_message_new:
  assumes "parse_call_reference (encode_call_reference c @ mt_code mt # concat (map encode_ie ies)) =
      Inr (c', length (encode_call_reference c))" and "list_all ie_wf ies"
  shows "parse_message (encode_message (new_q931_message c mt ies)) =
    (if mt_parseable mt then Inr (new_q931_message c' mt ies)
     else Inl (UnknownMessageType (mt_code mt)))"
proof -
  have "mt_from_u8 (mt_code mt) = (if mt_parseable mt then Some mt else None)"
    by (cases mt; simp add: mt_from_u8_def mt_parseable_def)
  with parse_message_header [OF assms(1)] ies.loop_concat [OF assms(2)] show ?thesis
    by (simp add: encode_message_def new_q931_message_def)
qed



text \<open>C2: the parser accepts only canonical encodings. A parsed message is well-formed and
  encodes to the very bytes it came from, unless its two-byte call reference has the flag set.\<close>

theorem q931_parse_canonical:
  assumes "parse_message bs = Inr m"
    and "cr_length (call_ref m) = 2 \<longrightarrow> cr_flag (call_ref m) = 0"
  shows "message_wf m \<and> encode_message m = bs"
proof -
  from assms(1) obtain c n mt ies where *: "bs ! 0 = q931_protocol_discriminator" "3 \<le> length bs"
      "parse_call_reference (drop 1 bs) = Inr (c, n)" "1 + n < length bs"
      "mt_from_u8 (bs ! (1 + n)) = Some mt" "parse_ies (drop (2 + n) bs) = Inr ies"
      "m = \<lparr>protocol_discriminator = bs ! 0, call_ref = c, message_type = mt,
        information_elements = ies\<rparr>"
    by (auto simp: parse_message_def Let_def split: if_splits option.splits sum.splits)
  from assms(2) *(7) have "cr_length c = 2 \<longrightarrow> cr_flag c = 0" by simp
  from parse_call_reference_InrD [OF *(3) this]
  have c: "call_reference_wf c" "encode_call_reference c = take n (drop 1 bs)" by simp_all
  from encode_parse_ies [OF *(6)]
  have ies: "list_all ie_wf ies" "concat (map encode_ie ies) = drop (2 + n) bs" by simp_all
  from *(5) have mt: "mt_code mt = bs ! (1 + n)" "mt_parseable mt"
    using mt_from_u8_SomeD [OF *(5)] by (simp_all add: mt_parseable_def)
  obtain x xs where bs: "bs = x # xs" using *(2) by (cases bs) auto
  have "take n xs @ xs ! n # drop (Suc n) xs = xs"
    using *(4) bs by (simp add: id_take_nth_drop [symmetric])
  with * c ies mt bs show ?thesis
    by (simp add: message_wf_def encode_message_def)
qed

theorem q931_parse_canonical_witness:
  "parse_message [8, 1, 0x85, 5] = Inr \<lparr>protocol_discriminator = 8,
      call_ref = \<lparr>cr_value = 5, cr_flag = 0x80, cr_length = 1\<rparr>, message_type = MT_Setup,
      information_elements = []\<rparr> \<and>
   encode_message \<lparr>protocol_discriminator = 8,
      call_ref = \<lparr>cr_value = 5, cr_flag = 0x80, cr_length = 1\<rparr>, message_type = MT_Setup,
      information_elements = []\<rparr> = [8, 1, 0x85, 5]"
proof -
  have "parse_message [8, 1, 0x85, 5] = Inr \<lparr>protocol_discriminator = 8,
      call_ref = \<lparr>cr_value = 5, cr_flag = 0x80, cr_length = 1\<rparr>, message_type = MT_Setup,
      information_elements = []\<rparr>"
    by (simp add: parse_message_def q931_protocol_discriminator_def parse_call_reference_def
        mt_from_u8_def parse_ies.simps)
  then show ?thesis using q931_parse_canonical [of "[8, 1, 0x85, 5]"] by simp
qed

text \<open>a call reference of \<open>CallReference::new\<close> for the terminating side
  does not survive transmission. The encoder shifts the flag 0x80 out of the sixteen-bit word,
  so the peer reads the reference of the originating side.\<close>

theorem q931_terminating_flag_lost:
  assumes "mt_parseable mt" and "list_all ie_wf ies"
  shows "parse_message (encode_message (new_q931_message (new_call_reference v False) mt ies)) =
      Inr (new_q931_message (new_call_reference v True) mt ies)
    \<and> new_call_reference v False \<noteq> new_call_reference v True"
proof -
  have "push_bit 15 (ucast (0x80 :: u8)) = (0 :: u16)" by simp
  then have enc: "encode_call_reference (new_call_reference v False) =
      encode_call_reference (new_call_reference v True)"
    by (simp del: push_bit_numeral add: encode_call_reference_def new_call_reference_def call_ref_flag_terminating_def
        call_ref_flag_originating_def)
  have "\<not> bit (v AND 0x7FFF) 15"
    unfolding and_7fff by (simp add: bit_simps)
  then have "call_reference_wf (new_call_reference v True)"
    by (simp add: call_reference_wf_def new_call_reference_def call_ref_flag_originating_def
        u16_lt_pow15)
  with assms enc have "parse_message (encode_message
        (new_q931_message (new_call_reference v False) mt ies)) =
      Inr (new_q931_message (new_call_reference v True) mt ies)"
    using parse_message_new [of "new_call_reference v False" mt ies "new_call_reference v True"]
    by (simp add: cr.decode_encode)
  moreover have "new_call_reference v False \<noteq> new_call_reference v True"
    by (simp add: new_call_reference_def call_ref_flag_terminating_def call_ref_flag_originating_def)
  ultimately show ?thesis ..
qed

theorem q931_terminating_flag_lost_witness:
  "parse_message (encode_message (new_q931_message (new_call_reference 7 False) MT_Release [])) =
    Inr (new_q931_message (new_call_reference 7 True) MT_Release [])"
  using q931_terminating_flag_lost [of MT_Release "[]" 7]
  by (simp add: mt_parseable_def mt_from_u8_def)

text \<open>twelve of the message types that can be built and encoded are refused by the
  parser of the other end, whatever the call reference and the elements.\<close>

theorem q931_unparsed_message_types:
  assumes "call_reference_wf c" and "list_all ie_wf ies"
  shows "parse_message (encode_message (new_q931_message c mt ies)) = Inl (UnknownMessageType (mt_code mt))
    \<longleftrightarrow> mt \<in> {MT_Suspend, MT_SuspendAcknowledge, MT_SuspendReject, MT_Resume, MT_ResumeAcknowledge,
      MT_ResumeReject, MT_Hold, MT_HoldAcknowledge, MT_HoldReject, MT_Retrieve,
      MT_RetrieveAcknowledge, MT_RetrieveReject}"
proof -
  have "mt_parseable mt \<longleftrightarrow> mt \<notin> {MT_Suspend, MT_SuspendAcknowledge, MT_SuspendReject, MT_Resume,
      MT_ResumeAcknowledge, MT_ResumeReject, MT_Hold, MT_HoldAcknowledge, MT_HoldReject, MT_Retrieve,
      MT_RetrieveAcknowledge, MT_RetrieveReject}"
    by (cases mt; simp add: mt_parseable_def mt_from_u8_def)
  then show ?thesis
    using parse_message_new [of c mt ies c] assms by (auto simp: cr.decode_encode)
qed

theorem q931_unparsed_message_types_witness:
  "parse_message (encode_message (new_q931_message (new_call_reference 1 True) MT_Hold [])) =
    Inl (UnknownMessageType 0x24)"
  using q931_unparsed_message_types [of "new_call_reference 1 True" "[]" MT_Hold]
  by (simp add: new_call_reference_def call_reference_wf_def call_ref_flag_originating_def)

section \<open>Cause and party number elements\<close>

lemma or_80_and_7f: "(c :: u8) < 128 \<Longrightarrow> (0x80 OR c) AND 0x7F = c"
  by (simp add: u8_lt_pow2) (rule u8_eqI; simp add: bit_simps)

lemma cause_code_lt: "cause_code c < 128"
  by (cases c) simp_all

lemma location_nibble: "(0x80 OR (l AND 0x0F)) AND 0x0F = (l AND 0x0F :: u8)"
  by (rule u8_eqI; simp add: bit_simps)

text \<open>a cause element that is created and parsed keeps its location nibble and its
  diagnostics, and its cause exactly when that is one of the seven causes the parser names (or
  already the unspecified protocol error); every other cause arrives as the unspecified
  protocol error.\<close>

theorem q931_cause_roundtrip:
  "parse_cause_ie (ie_data (create_cause_ie location cause diagnostics)) =
    Inr (location AND 0x0F,
      if cause \<in> {Cause_Normal, Cause_UserBusy, Cause_NoUserResponding, Cause_NoAnswer,
        Cause_CallRejected, Cause_NormalUnspecified, Cause_NoCircuitChannelAvailable}
      then cause else Cause_ProtocolErrorUnspecified,
      if diagnostics = Some [] then None else diagnostics)"
proof -
  have "(0x80 OR cause_code cause) AND 0x7F = cause_code cause"
    by (rule or_80_and_7f) (rule cause_code_lt)
  then show ?thesis
    by (cases cause; cases diagnostics)
      (auto simp: parse_cause_ie_def create_cause_ie_def new_ie_def Let_def location_nibble)
qed

text \<open>a called party number element that is created is well-formed and is parsed back to
  the same digits, with the type of number and numbering plan cut to their fields.\<close>

theorem q931_called_party_roundtrip:
  assumes "create_called_party_number_ie ton npi digits = Inr ie" and "utf8_valid (str_bytes digits)"
  shows "parse_called_party_number (ie_data ie) = Inr (ton AND 7, npi AND 15, digits) \<and> ie_wf ie"
proof -
  have "drop_bit 4 (0x80 OR push_bit 4 (ton AND 0x07) OR (npi AND 0x0F)) AND 0x07 = ton AND 7"
    by (rule u8_eqI; simp add: bit_simps)
  moreover have "(0x80 OR push_bit 4 (ton AND 0x07) OR (npi AND 0x0F)) AND 0x0F = npi AND 15"
    by (rule u8_eqI; simp add: bit_simps)
  ultimately show ?thesis
    using assms
    by (auto simp: create_called_party_number_ie_def parse_called_party_number_def new_ie_def
        ie_wf_def ie_from_u8_def from_utf8_str_bytes split: if_splits)
qed

theorem q931_called_party_roundtrip_witness:
  "create_called_party_number_ie 2 1 ''18005551212'' = Inr (new_ie IE_CalledPartyNumber
     (0xA1 # str_bytes ''18005551212'')) \<and>
   parse_called_party_number (0xA1 # str_bytes ''18005551212'') = Inr (2, 1, ''18005551212'')"
proof -
  have "create_called_party_number_ie 2 1 ''18005551212'' = Inr (new_ie IE_CalledPartyNumber
     (0xA1 # str_bytes ''18005551212''))"
    by (simp add: create_called_party_number_ie_def)
  moreover have "utf8_valid (str_bytes ''18005551212'')"
    by (rule utf8_valid_ascii) (simp add: ascii_str_def)
  ultimately show ?thesis
    using q931_called_party_roundtrip [of 2 1 "''18005551212''"] by (simp add: new_ie_def)
qed

end
