(* ===== verification/Q921.thy ===== *)
theory Q921
  imports Q931
begin

text \<open>
  Q.921 LAPD data link layer (\<open>src/q921_lapd.rs\<close>): address and control fields, the
  frame check sequence, HDLC framing, frames, and the manager of data link connections. A
  handler of the manager returns its result, the new state, and what it put on the D-channel
  and on the event channel, in order. \<open>lm_tx_open\<close> says whether the receiver of the
  D-channel sender still exists, which decides whether a send fails.
\<close>

section \<open>Address and control fields\<close>

definition hdlc_flag :: u8 where
  "hdlc_flag = 0x7E"

datatype lapd_error =
  AddressTooShort | InvalidEA0 | InvalidEA1 | InvalidSupervisory u8 | InvalidUnnumbered u8
| FrameTooShort nat | UnstuffedTooShort | FcsMismatch | InvalidFlags | UnexpectedFlag
| ConnectionNotFound string | ConnectionNotEstablished string | DChannelSendFailed

record lapd_address =
  la_sapi :: u8
  la_cr :: bool
  la_ea0 :: bool
  la_tei :: u8
  la_ea1 :: bool

definition new_lapd_address :: "u8 \<Rightarrow> bool \<Rightarrow> u8 \<Rightarrow> lapd_address" where
  "new_lapd_address sapi cr tei =
     \<lparr>la_sapi = sapi AND 0x3F, la_cr = cr, la_ea0 = False, la_tei = tei AND 0x7F, la_ea1 = True\<rparr>"

definition address_from_bytes :: "byte list \<Rightarrow> lapd_error + lapd_address" where
  "address_from_bytes data =
    (if length data < 2 then Inl AddressTooShort
     else let ea0 = (data ! 0 AND 0x01 \<noteq> 0); ea1 = (data ! 1 AND 0x01 \<noteq> 0) in
       if ea0 then Inl InvalidEA0
       else if \<not> ea1 then Inl InvalidEA1
       else Inr \<lparr>la_sapi = drop_bit 2 (data ! 0) AND 0x3F, la_cr = (data ! 0 AND 0x02 \<noteq> 0),
                 la_ea0 = ea0, la_tei = drop_bit 1 (data ! 1) AND 0x7F, la_ea1 = ea1\<rparr>)"

definition address_to_bytes :: "lapd_address \<Rightarrow> byte list" where
  "address_to_bytes a =
     [push_bit 2 (la_sapi a) OR (if la_cr a then 0x02 else 0x00) OR 0x00,
      push_bit 1 (la_tei a) OR 0x01]"

datatype supervisory_function = SF_RR | SF_RNR | SF_REJ

fun sf_code :: "supervisory_function \<Rightarrow> u8" where
  "sf_code SF_RR = 0x00" | "sf_code SF_RNR = 0x01" | "sf_code SF_REJ = 0x02"

datatype unnumbered_function = UF_SABME | UF_DM | UF_UI | UF_DISC | UF_UA | UF_FRMR | UF_XID

fun uf_code :: "unnumbered_function \<Rightarrow> u8" where
  "uf_code UF_SABME = 0x6F" | "uf_code UF_DM = 0x0F" | "uf_code UF_UI = 0x03"
| "uf_code UF_DISC = 0x43" | "uf_code UF_UA = 0x63" | "uf_code UF_FRMR = 0x87"
| "uf_code UF_XID = 0xAF"

text \<open>Send number, receive number, poll/final; function, receive number, poll/final;
  function, poll/final.\<close>

datatype lapd_control =
  Information u8 u8 bool
| Supervisory supervisory_function u8 bool
| Unnumbered unnumbered_function bool

definition control_from_byte :: "u8 \<Rightarrow> lapd_error + lapd_control" where
  "control_from_byte c =
    (if c AND 0x01 = 0 then
       Inr (Information (drop_bit 1 c AND 0x07) (drop_bit 5 c AND 0x07) (c AND 0x10 \<noteq> 0))
     else if c AND 0x03 = 0x01 then
       let f = drop_bit 2 c AND 0x03 in
       if f = 0x00 then Inr (Supervisory SF_RR (drop_bit 5 c AND 0x07) (c AND 0x10 \<noteq> 0))
       else if f = 0x01 then Inr (Supervisory SF_RNR (drop_bit 5 c AND 0x07) (c AND 0x10 \<noteq> 0))
       else if f = 0x02 then Inr (Supervisory SF_REJ (drop_bit 5 c AND 0x07) (c AND 0x10 \<noteq> 0))
       else Inl (InvalidSupervisory c)
     else let f = c AND 0xEF; p = (c AND 0x10 \<noteq> 0) in
       if f = 0x6F then Inr (Unnumbered UF_SABME p)
       else if f = 0x0F then Inr (Unnumbered UF_DM p)
       else if f = 0x03 then Inr (Unnumbered UF_UI p)
       else if f = 0x43 then Inr (Unnumbered UF_DISC p)
       else if f = 0x63 then Inr (Unnumbered UF_UA p)
       else if f = 0x87 then Inr (Unnumbered UF_FRMR p)
       else if f = 0xAF then Inr (Unnumbered UF_XID p)
       else Inl (InvalidUnnumbered c))"

fun control_to_byte :: "lapd_control \<Rightarrow> u8" where
  "control_to_byte (Information n_s n_r p_f) =
     push_bit 5 n_r OR (if p_f then 0x10 else 0x00) OR push_bit 1 n_s"
| "control_to_byte (Supervisory f n_r p_f) =
     push_bit 5 n_r OR (if p_f then 0x10 else 0x00) OR push_bit 2 (sf_code f) OR 0x01"
| "control_to_byte (Unnumbered f p_f) = uf_code f OR (if p_f then 0x10 else 0x00)"

section \<open>Frame check sequence\<close>

text \<open>One round of the inner loop, one byte, the whole buffer.\<close>

definition crc_round :: "u16 \<Rightarrow> u16" where
  "crc_round crc = (if crc AND 0x8000 \<noteq> 0 then push_bit 1 crc XOR 0x1021 else push_bit 1 crc)"

definition crc_byte :: "u16 \<Rightarrow> byte \<Rightarrow> u16" where
  "crc_byte crc b = (crc_round ^^ 8) (crc XOR push_bit 8 (ucast b))"

definition crc16_ccitt :: "byte list \<Rightarrow> u16" where
  "crc16_ccitt data = NOT (foldl crc_byte 0xFFFF data)"

section \<open>HDLC framing\<close>

text \<open>The body of the loop over the bits of the input: the output so far and the number of
  consecutive ones.\<close>

definition hdlc_bit :: "byte list \<times> nat \<Rightarrow> u8 \<Rightarrow> byte list \<times> nat" where
  "hdlc_bit st bt =
    (let result = fst st; ones = snd st;
         result = (if result = [] \<or> length result mod 8 = 1 then result @ [0] else result);
         last_idx = length result - 1;
         result = result[last_idx := result ! last_idx OR
                    push_bit (7 - ((length result - 2) mod 8)) bt]
     in if bt = 1 then
          let ones = ones + 1 in
          if ones = 5 then ((if length result mod 8 = 0 then result @ [0] else result), 0)
          else (result, ones)
        else (result, 0))"

definition byte_bits :: "byte \<Rightarrow> u8 list" where
  "byte_bits b = map (\<lambda>i. drop_bit i b AND 1) (rev [0..<8])"

definition hdlc_stuff :: "byte list \<Rightarrow> byte list" where
  "hdlc_stuff data = fst (foldl hdlc_bit ([hdlc_flag], 0) (concat (map byte_bits data))) @ [hdlc_flag]"

definition hdlc_unstuff :: "byte list \<Rightarrow> lapd_error + byte list" where
  "hdlc_unstuff data =
    (if length data < 2 \<or> data ! 0 \<noteq> hdlc_flag \<or> data ! (length data - 1) \<noteq> hdlc_flag then Inl InvalidFlags
     else let body = take (length data - 2) (drop 1 data) in
       if hdlc_flag \<in> set body then Inl UnexpectedFlag else Inr body)"

section \<open>Frames\<close>

record lapd_frame =
  lf_address :: lapd_address
  lf_control :: lapd_control
  lf_information :: "byte list option"
  lf_fcs :: u16

definition frame_body :: "lapd_frame \<Rightarrow> byte list" where
  "frame_body f = address_to_bytes (lf_address f) @ [control_to_byte (lf_control f)] @
     (case lf_information f of Some info \<Rightarrow> info | None \<Rightarrow> [])"

definition calculate_fcs :: "lapd_frame \<Rightarrow> u16" where
  "calculate_fcs f = crc16_ccitt (frame_body f)"

definition new_lapd_frame :: "lapd_address \<Rightarrow> lapd_control \<Rightarrow> byte list option \<Rightarrow> lapd_frame" where
  "new_lapd_frame a c info =
    (let f = \<lparr>lf_address = a, lf_control = c, lf_information = info, lf_fcs = 0\<rparr>
     in f\<lparr>lf_fcs := calculate_fcs f\<rparr>)"

definition parse_frame :: "byte list \<Rightarrow> lapd_error + lapd_frame" where
  "parse_frame data =
    (if length data < 6 then Inl (FrameTooShort (length data))
     else case hdlc_unstuff data of
       Inl e \<Rightarrow> Inl e
     | Inr u \<Rightarrow>
       if length u < 5 then Inl UnstuffedTooShort
       else case address_from_bytes (take 2 u) of
         Inl e \<Rightarrow> Inl e
       | Inr a \<Rightarrow>
         (case control_from_byte (u ! 2) of
           Inl e \<Rightarrow> Inl e
         | Inr c \<Rightarrow>
           let info_end = length u - 2;
               info = (if 3 < info_end then Some (take (info_end - 3) (drop 3 u)) else None);
               fcs = of_be16 (u ! info_end) (u ! (info_end + 1));
               f = \<lparr>lf_address = a, lf_control = c, lf_information = info, lf_fcs = fcs\<rparr>
           in if calculate_fcs f \<noteq> fcs then Inl FcsMismatch else Inr f))"

definition encode_frame :: "lapd_frame \<Rightarrow> byte list" where
  "encode_frame f = hdlc_stuff (frame_body f @ be16 (lf_fcs f))"

section \<open>Connections\<close>

datatype lapd_state =
  TeiUnassigned | TeiAssigned | AwaitingEstablishment | AwaitingRelease
| MultipleFrameEstablished | TimerRecovery

record lapd_connection =
  lc_id :: string
  lc_sapi :: u8
  lc_tei :: u8
  lc_state :: lapd_state
  lc_v_s :: u8
  lc_v_r :: u8
  lc_v_a :: u8
  lc_k :: u8
  lc_retransmit_queue :: "lapd_frame list"
  lc_receive_buffer :: "u8 \<rightharpoonup> byte list"
  lc_last_activity :: nat

definition lapd_key :: "u8 \<Rightarrow> u8 \<Rightarrow> string" where
  "lapd_key sapi tei = ''SAPI'' @ dec (unat sapi) @ ''-TEI'' @ dec (unat tei)"

definition new_lapd_connection :: "nat \<Rightarrow> u8 \<Rightarrow> u8 \<Rightarrow> lapd_connection" where
  "new_lapd_connection now sapi tei =
     \<lparr>lc_id = lapd_key sapi tei, lc_sapi = sapi, lc_tei = tei, lc_state = TeiAssigned,
      lc_v_s = 0, lc_v_r = 0, lc_v_a = 0, lc_k = 7, lc_retransmit_queue = [],
      lc_receive_buffer = (\<lambda>_. None), lc_last_activity = now\<rparr>"

definition in_receive_window :: "lapd_connection \<Rightarrow> u8 \<Rightarrow> bool" where
  "in_receive_window c n_s =
    (let window_start = lc_v_r c; window_end = (lc_v_r c + lc_k c) mod 8 in
     if window_start \<le> window_end then window_start \<le> n_s \<and> n_s < window_end
     else window_start \<le> n_s \<or> n_s < window_end)"

datatype lapd_event =
  LinkEstablished u8 u8 | LinkReleased u8 u8 | DataReceived u8 u8 "byte list"
| LapdErrorEvent u8 u8 string

text \<open>What a handler emits: bytes on the D-channel and broadcast events.\<close>

datatype lapd_out = DChannel "byte list" | LapdEv lapd_event

section \<open>Frame handlers\<close>

definition send_lapd_frame :: "bool \<Rightarrow> lapd_frame \<Rightarrow> lapd_error option \<times> lapd_out list" where
  "send_lapd_frame tx_open f =
     (if tx_open then (None, [DChannel (encode_frame f)]) else (Some DChannelSendFailed, []))"

definition send_supervisory_frame ::
    "bool \<Rightarrow> u8 \<Rightarrow> u8 \<Rightarrow> supervisory_function \<Rightarrow> u8 \<Rightarrow> bool \<Rightarrow> lapd_error option \<times> lapd_out list" where
  "send_supervisory_frame tx_open sapi tei f n_r p_f =
     send_lapd_frame tx_open
       (new_lapd_frame (new_lapd_address sapi False tei) (Supervisory f n_r p_f) None)"

definition process_i_frame ::
    "bool \<Rightarrow> lapd_connection \<Rightarrow> u8 \<Rightarrow> byte list option \<Rightarrow>
     lapd_error option \<times> lapd_connection \<times> lapd_out list" where
  "process_i_frame tx_open c n_s information =
    (if lc_state c \<noteq> MultipleFrameEstablished then (None, c, [])
     else if \<not> in_receive_window c n_s then
       let (r, out) = send_supervisory_frame tx_open (lc_sapi c) (lc_tei c) SF_REJ (lc_v_r c) False
       in (r, c, out)
     else
       let (c, evs) =
         (case information of
            None \<Rightarrow> (c, [])
          | Some data \<Rightarrow>
              if n_s = lc_v_r c then
                (c\<lparr>lc_v_r := (lc_v_r c + 1) mod 8\<rparr>,
                 case parse_message data of
                   Inr _ \<Rightarrow> [LapdEv (DataReceived (lc_sapi c) (lc_tei c) data)]
                 | Inl _ \<Rightarrow> [])
              else (c\<lparr>lc_receive_buffer := (lc_receive_buffer c)(n_s \<mapsto> data)\<rparr>, []));
           (r, out) = send_supervisory_frame tx_open (lc_sapi c) (lc_tei c) SF_RR (lc_v_r c) False
       in (r, c, evs @ out))"

definition process_s_frame :: "lapd_connection \<Rightarrow> supervisory_function \<Rightarrow> u8 \<Rightarrow> lapd_connection" where
  "process_s_frame c f n_r =
    (case f of SF_RR \<Rightarrow> c\<lparr>lc_v_a := n_r\<rparr> | SF_RNR \<Rightarrow> c | SF_REJ \<Rightarrow> c\<lparr>lc_v_s := n_r\<rparr>)"

definition process_u_frame ::
    "bool \<Rightarrow> lapd_connection \<Rightarrow> unnumbered_function \<Rightarrow> bool \<Rightarrow>
     lapd_error option \<times> lapd_connection \<times> lapd_out list" where
  "process_u_frame tx_open c f p_f =
    (case f of
       UF_SABME \<Rightarrow>
         (case send_lapd_frame tx_open (new_lapd_frame (new_lapd_address (lc_sapi c) True (lc_tei c))
             (Unnumbered UF_UA p_f) None) of
            (Some e, out) \<Rightarrow> (Some e, c, out)
          | (None, out) \<Rightarrow>
              (None, c\<lparr>lc_state := MultipleFrameEstablished, lc_v_s := 0, lc_v_r := 0, lc_v_a := 0\<rparr>,
               out @ [LapdEv (LinkEstablished (lc_sapi c) (lc_tei c))]))
     | UF_DISC \<Rightarrow>
         (case send_lapd_frame tx_open (new_lapd_frame (new_lapd_address (lc_sapi c) True (lc_tei c))
             (Unnumbered UF_UA p_f) None) of
            (Some e, out) \<Rightarrow> (Some e, c, out)
          | (None, out) \<Rightarrow>
              (None, c\<lparr>lc_state := TeiAssigned\<rparr>, out @ [LapdEv (LinkReleased (lc_sapi c) (lc_tei c))]))
     | UF_UA \<Rightarrow>
         if lc_state c = AwaitingEstablishment
         then (None, c\<lparr>lc_state := MultipleFrameEstablished, lc_v_s := 0, lc_v_r := 0, lc_v_a := 0\<rparr>, [])
         else (None, c, [])
     | UF_DM \<Rightarrow> (None, c\<lparr>lc_state := TeiAssigned\<rparr>, [])
     | _ \<Rightarrow> (None, c, []))"

section \<open>The manager\<close>

record lapd_manager =
  lm_variant :: isdn_variant
  lm_side_type :: isdn_side_type
  lm_connections :: "(string \<times> lapd_connection) list"
  lm_tx_open :: bool

definition new_lapd_manager :: "isdn_variant \<Rightarrow> isdn_side_type \<Rightarrow> bool \<Rightarrow> lapd_manager" where
  "new_lapd_manager v s tx_open =
     \<lparr>lm_variant = v, lm_side_type = s, lm_connections = [], lm_tx_open = tx_open\<rparr>"

text \<open>\<open>entry(key).or_insert_with\<close>: the connection of the key, a new one if there is none.\<close>

definition connection_entry :: "lapd_manager \<Rightarrow> nat \<Rightarrow> u8 \<Rightarrow> u8 \<Rightarrow> lapd_connection" where
  "connection_entry m now sapi tei =
    (case map_of (lm_connections m) (lapd_key sapi tei) of
       Some c \<Rightarrow> c | None \<Rightarrow> new_lapd_connection now sapi tei)"

definition put_connection :: "lapd_manager \<Rightarrow> u8 \<Rightarrow> u8 \<Rightarrow> lapd_connection \<Rightarrow> lapd_manager" where
  "put_connection m sapi tei c =
     m\<lparr>lm_connections := AList.update (lapd_key sapi tei) c (lm_connections m)\<rparr>"

definition process_d_channel_data ::
    "lapd_manager \<Rightarrow> nat \<Rightarrow> byte list \<Rightarrow> lapd_error option \<times> lapd_manager \<times> lapd_out list" where
  "process_d_channel_data m now data =
    (case parse_frame data of
       Inl e \<Rightarrow> (Some e, m, [])
     | Inr f \<Rightarrow>
         let sapi = la_sapi (lf_address f); tei = la_tei (lf_address f);
             c = (connection_entry m now sapi tei)\<lparr>lc_last_activity := now\<rparr>;
             (r, c', out) =
               (case lf_control f of
                  Information n_s n_r p_f \<Rightarrow> process_i_frame (lm_tx_open m) c n_s (lf_information f)
                | Supervisory fn n_r p_f \<Rightarrow> (None, process_s_frame c fn n_r, [])
                | Unnumbered fn p_f \<Rightarrow> process_u_frame (lm_tx_open m) c fn p_f)
         in (r, put_connection m sapi tei c', out))"

definition send_q931_message ::
    "lapd_manager \<Rightarrow> nat \<Rightarrow> u8 \<Rightarrow> u8 \<Rightarrow> q931_message \<Rightarrow> lapd_error option \<times> lapd_manager \<times> lapd_out list" where
  "send_q931_message m now sapi tei message =
    (let key = lapd_key sapi tei in
     case map_of (lm_connections m) key of
       None \<Rightarrow> (Some (ConnectionNotFound key), m, [])
     | Some c \<Rightarrow>
         if lc_state c \<noteq> MultipleFrameEstablished then (Some (ConnectionNotEstablished key), m, [])
         else
           let f = new_lapd_frame (new_lapd_address sapi False tei)
                     (Information (lc_v_s c) (lc_v_r c) False) (Some (encode_message message))
           in case send_lapd_frame (lm_tx_open m) f of
                (Some e, out) \<Rightarrow> (Some e, m, out)
              | (None, out) \<Rightarrow>
                  (None,
                   put_connection m sapi tei
                     (c\<lparr>lc_v_s := (lc_v_s c + 1) mod 8, lc_last_activity := now\<rparr>), out))"

definition establish_connection ::
    "lapd_manager \<Rightarrow> nat \<Rightarrow> u8 \<Rightarrow> u8 \<Rightarrow> lapd_error option \<times> lapd_manager \<times> lapd_out list" where
  "establish_connection m now sapi tei =
    (let c = (connection_entry m now sapi tei)\<lparr>lc_state := AwaitingEstablishment\<rparr>;
         f = new_lapd_frame (new_lapd_address sapi False tei) (Unnumbered UF_SABME True) None;
         (r, out) = send_lapd_frame (lm_tx_open m) f
     in (r, put_connection m sapi tei c, out))"

record lapd_statistics =
  ls_total_connections :: nat
  ls_established_connections :: nat
  ls_variant :: isdn_variant
  ls_side_type :: isdn_side_type

definition lapd_get_statistics :: "lapd_manager \<Rightarrow> lapd_statistics" where
  "lapd_get_statistics m =
     \<lparr>ls_total_connections = length (lm_connections m),
      ls_established_connections =
        length (filter (\<lambda>kc. lc_state (snd kc) = MultipleFrameEstablished) (lm_connections m)),
      ls_variant = lm_variant m, ls_side_type = lm_side_type m\<rparr>"

section \<open>Codec laws of the fields\<close>

definition address_wf :: "lapd_address \<Rightarrow> bool" where
  "address_wf a \<longleftrightarrow> la_sapi a < 64 \<and> la_tei a < 128 \<and> \<not> la_ea0 a \<and> la_ea1 a"

fun control_wf :: "lapd_control \<Rightarrow> bool" where
  "control_wf (Information n_s n_r _) \<longleftrightarrow> n_s < 8 \<and> n_r < 8"
| "control_wf (Supervisory _ n_r _) \<longleftrightarrow> n_r < 8"
| "control_wf (Unnumbered _ _) \<longleftrightarrow> True"

lemma address_roundtrip: "address_wf a \<Longrightarrow> address_from_bytes (address_to_bytes a @ rest) = Inr a"
proof -
  assume "address_wf a"
  then have *: "la_sapi a < 64" "la_tei a < 128" "\<not> la_ea0 a" "la_ea1 a" by (simp_all add: address_wf_def)
  from *(1,2) have b: "\<not> bit (la_sapi a) 6" "\<not> bit (la_sapi a) 7" "\<not> bit (la_tei a) 7"
    by (simp_all add: u8_lt_pow2)
  from b have "drop_bit 2 (push_bit 2 (la_sapi a)) AND 0x3F = la_sapi a"
    by (intro u8_eqI; simp add: bit_simps)
  moreover from b have "drop_bit 1 (push_bit 1 (la_tei a) OR 0x01) AND 0x7F = la_tei a"
    by (intro u8_eqI; simp add: bit_simps numeral_2_eq_2)
  ultimately show ?thesis
    using * by (cases a; cases "la_cr a") (simp_all add: address_from_bytes_def address_to_bytes_def bit_simps)
qed

lemma address_wf_from_bytes: "address_from_bytes bs = Inr a \<Longrightarrow> address_wf a"
  by (auto simp: address_from_bytes_def address_wf_def u8_lt_pow2 bit_simps Let_def split: if_splits)

lemma control_from_byte_Information:
  assumes "n_s < 8" "n_r < 8"
  shows "control_from_byte (control_to_byte (Information n_s n_r p)) = Inr (Information n_s n_r p)"
proof -
  let ?c = "control_to_byte (Information n_s n_r p)"
  from assms have b: "\<forall>k \<in> {3,4,5,6,7}. \<not> bit n_s k" "\<forall>k \<in> {3,4,5,6,7}. \<not> bit n_r k"
    by (simp_all add: u8_lt_pow2)
  have "drop_bit 1 ?c AND 0x07 = n_s"
    using b by (intro u8_eqI; simp add: bit_simps numeral_2_eq_2)
  moreover have "drop_bit 5 ?c AND 0x07 = n_r"
    using b by (intro u8_eqI; simp add: bit_simps)
  moreover have "?c AND 0x01 = 0" "?c AND 0x10 \<noteq> 0 \<longleftrightarrow> p"
    using b by (simp_all add: bit_simps)
  ultimately show ?thesis by (simp add: control_from_byte_def)
qed

lemma control_from_byte_Supervisory:
  assumes "n_r < 8"
  shows "control_from_byte (control_to_byte (Supervisory f n_r p)) = Inr (Supervisory f n_r p)"
proof -
  let ?c = "control_to_byte (Supervisory f n_r p)"
  from assms have b: "\<forall>k \<in> {3,4,5,6,7}. \<not> bit n_r k" by (simp_all add: u8_lt_pow2)
  have "drop_bit 2 ?c AND 0x03 = sf_code f" "drop_bit 5 ?c AND 0x07 = n_r" "?c AND 0x03 = 0x01"
    using b by (cases f; intro u8_eqI; simp add: bit_simps)+
  moreover have "?c AND 0x01 \<noteq> 0" "?c AND 0x10 \<noteq> 0 \<longleftrightarrow> p"
    using b by (cases f; simp add: bit_simps)+
  ultimately show ?thesis by (cases f) (simp_all add: control_from_byte_def)
qed

lemma control_from_byte_Unnumbered:
  "control_from_byte (control_to_byte (Unnumbered f p)) = Inr (Unnumbered f p)"
  by (cases f; cases p) (simp_all add: control_from_byte_def)

lemma control_roundtrip: "control_wf c \<Longrightarrow> control_from_byte (control_to_byte c) = Inr c"
  by (cases c) (simp_all only: control_wf.simps control_from_byte_Information
      control_from_byte_Supervisory control_from_byte_Unnumbered)

lemma control_wf_from_byte: "control_from_byte b = Inr c \<Longrightarrow> control_wf c"
  by (auto simp: control_from_byte_def u8_lt_pow2 bit_simps Let_def split: if_splits)

interpretation lapd_addr: prefix_codec address_to_bytes
  "\<lambda>bs. case address_from_bytes bs of Inl e \<Rightarrow> Inl e | Inr a \<Rightarrow> Inr (a, 2)" address_wf
  by unfold_locales (simp add: address_roundtrip, simp add: address_to_bytes_def)

section \<open>The frame check sequence detects a corrupted byte\<close>

lemma and_top_bit: "(w :: u16) AND 0x8000 = 0 \<longleftrightarrow> \<not> bit w 15"
  using bit_iff_and_push_bit_not_eq_0 [of w 15] by simp

lemma crc_round_inject: "crc_round a = crc_round b \<Longrightarrow> a = b"
proof -
  assume e: "crc_round a = crc_round b"
  then have "bit (crc_round a) 0 = bit (crc_round b) 0" by simp
  then have top: "bit a 15 = bit b 15"
    by (simp add: crc_round_def and_top_bit bit_simps split: if_splits)
  then have "push_bit 1 a = push_bit 1 b"
    using e by (auto simp: crc_round_def and_top_bit simp del: push_bit_Suc split: if_splits)
  then have low: "bit (push_bit 1 a) (Suc n) = bit (push_bit 1 b) (Suc n)" for n by simp
  show "a = b"
  proof (rule bit_word_eqI)
    fix n assume n: "n < LENGTH(16)"
    then consider "n = 15" | "n < 15" by force
    then show "bit a n = bit b n"
      using top low [of n] by cases (simp_all add: bit_simps)
  qed
qed

lemma crc_rounds_inject: "(crc_round ^^ n) a = (crc_round ^^ n) b \<Longrightarrow> a = b"
  by (induction n) (auto dest: crc_round_inject)

lemma crc_byte_inject_crc: "crc_byte a x = crc_byte b x \<Longrightarrow> a = b"
  by (auto simp: crc_byte_def dest!: crc_rounds_inject)

lemma crc_byte_inject_byte: "crc_byte a x = crc_byte a y \<Longrightarrow> x = y"
proof -
  assume "crc_byte a x = crc_byte a y"
  then have "push_bit 8 (ucast x :: u16) = push_bit 8 (ucast y)"
    by (auto simp: crc_byte_def dest!: crc_rounds_inject)
  then have "drop_bit 8 (push_bit 8 (ucast x :: u16)) = drop_bit 8 (push_bit 8 (ucast y))" by simp
  moreover have "drop_bit 8 (push_bit 8 (ucast z :: u16)) = ucast z" for z :: byte
    by (rule bit_word_eqI) (auto simp: bit_simps dest: bit_imp_le_length)
  ultimately have "(ucast (ucast x :: u16) :: byte) = ucast (ucast y :: u16)" by metis
  moreover have "(ucast (ucast z :: u16) :: byte) = z" for z
    by (rule u8_eqI; simp add: bit_simps)
  ultimately show "x = y" by simp
qed

lemma foldl_crc_inject: "foldl crc_byte a xs = foldl crc_byte b xs \<Longrightarrow> a = b"
  by (induction xs arbitrary: a b) (auto dest: crc_byte_inject_crc)

lemma crc16_single_byte: "crc16_ccitt (xs @ b # ys) = crc16_ccitt (xs @ c # ys) \<Longrightarrow> b = c"
  by (auto simp: crc16_ccitt_def dest!: foldl_crc_inject crc_byte_inject_byte)

section \<open>Frames on the wire\<close>

definition frame_wf :: "lapd_frame \<Rightarrow> bool" where
  "frame_wf f \<longleftrightarrow> address_wf (lf_address f) \<and> control_wf (lf_control f) \<and>
     lf_information f \<noteq> Some [] \<and> lf_fcs f = calculate_fcs f"

text \<open>The octets between the flags, as the parser reads them.\<close>

definition wire_body :: "lapd_frame \<Rightarrow> byte list" where
  "wire_body f = frame_body f @ be16 (lf_fcs f)"

lemma hdlc_unstuff_flags:
  "hdlc_unstuff (hdlc_flag # u @ [hdlc_flag]) = (if hdlc_flag \<in> set u then Inl UnexpectedFlag else Inr u)"
  by (simp add: hdlc_unstuff_def)

lemma length_address_to_bytes [simp]: "length (address_to_bytes a) = 2"
  by (simp add: address_to_bytes_def)

lemma parse_frame_wire:
  assumes "frame_wf f" and "hdlc_flag \<notin> set (wire_body f)"
  shows "parse_frame (hdlc_flag # wire_body f @ [hdlc_flag]) = Inr f"
proof -
  obtain x y where a: "address_to_bytes (lf_address f) = [x, y]" by (simp add: address_to_bytes_def)
  define info where "info = (case lf_information f of Some i \<Rightarrow> i | None \<Rightarrow> [])"
  have u: "wire_body f = x # y # control_to_byte (lf_control f) # info @ be16 (lf_fcs f)"
    by (simp add: wire_body_def frame_body_def a info_def)
  have "address_from_bytes [x, y] = Inr (lf_address f)"
    using address_roundtrip [of "lf_address f" "[]"] assms(1) a by (simp add: frame_wf_def)
  moreover have "control_from_byte (control_to_byte (lf_control f)) = Inr (lf_control f)"
    using assms(1) by (simp add: frame_wf_def control_roundtrip)
  moreover have "of_be16 ((info @ be16 (lf_fcs f)) ! length info) ((info @ be16 (lf_fcs f)) ! Suc (length info)) = lf_fcs f"
    by (simp add: nth_append be16_def)
  moreover have "hdlc_unstuff (hdlc_flag # x # y # control_to_byte (lf_control f) # info @ be16 (lf_fcs f) @ [hdlc_flag]) =
      Inr (x # y # control_to_byte (lf_control f) # info @ be16 (lf_fcs f))"
    using hdlc_unstuff_flags [of "wire_body f"] assms(2) by (simp add: u)
  moreover have "calculate_fcs f = lf_fcs f" using assms(1) by (simp add: frame_wf_def)
  moreover have "lf_information f = None \<longleftrightarrow> info = []" "lf_information f = Some info \<longleftrightarrow> info \<noteq> []"
    using assms(1) by (auto simp: info_def frame_wf_def split: option.splits)
  ultimately show ?thesis
    unfolding u by (cases "info = []") (simp_all add: parse_frame_def Let_def eval_nat_numeral calculate_fcs_def frame_body_def)
qed

text \<open>Parsed fields encode to the octets they came from.\<close>

lemma address_canonical:
  assumes "address_from_bytes [x, y] = Inr a" shows "address_to_bytes a = [x, y]"
proof -
  from assms have b: "\<not> bit x 0" "bit y 0" and a: "la_sapi a = drop_bit 2 x AND 0x3F"
      "la_cr a = bit x 1" "la_tei a = drop_bit 1 y AND 0x7F"
    by (auto simp: address_from_bytes_def Let_def split: if_splits)
  have "push_bit 2 (drop_bit 2 x AND 0x3F) OR (if bit x 1 then 0x02 else 0x00) OR 0x00 = x"
    using b by (intro u8_eqI; simp add: bit_simps del: push_bit_Suc)
  moreover have "push_bit 1 (drop_bit 1 y AND 0x7F) OR 0x01 = y"
    using b by (intro u8_eqI; simp add: bit_simps eval_nat_numeral del: push_bit_Suc)
  ultimately show ?thesis unfolding address_to_bytes_def a by simp
qed

lemma control_canonical:
  assumes "control_from_byte b = Inr c" shows "control_to_byte c = b"
proof -
  consider (I) "\<not> bit b 0" | (S) "bit b 0" "b AND 3 = 1" | (U) "bit b 0" "b AND 3 \<noteq> 1" by blast
  then show ?thesis
  proof cases
    case I
    with assms have c: "c = Information (drop_bit 1 b AND 7) (drop_bit 5 b AND 7) (bit b 4)"
      by (simp add: control_from_byte_def)
    show ?thesis unfolding c control_to_byte.simps
      using I by (intro u8_eqI; simp add: bit_simps numeral_2_eq_2 numeral_3_eq_3 del: push_bit_Suc)
  next
    case S
    with assms obtain f where c: "c = Supervisory f (drop_bit 5 b AND 7) (bit b 4)"
        "sf_code f = drop_bit 2 b AND 3"
      by (auto simp: control_from_byte_def Let_def split: if_splits)
    have "\<not> bit b 1" using S(2) by (simp add: u8_eq_iff bit_simps)
    with S(1) show ?thesis unfolding c control_to_byte.simps
      by (intro u8_eqI; simp add: bit_simps numeral_2_eq_2 numeral_3_eq_3 del: push_bit_Suc)
  next
    case U
    with assms obtain f where c: "c = Unnumbered f (bit b 4)" "uf_code f = b AND 0xEF"
      by (auto simp: control_from_byte_def Let_def split: if_splits)
    show ?thesis unfolding c control_to_byte.simps
      by (intro u8_eqI; simp add: bit_simps)
  qed
qed

lemma parse_frame_InrD:
  assumes "parse_frame bs = Inr f"
  shows "frame_wf f \<and> hdlc_flag \<notin> set (wire_body f) \<and> bs = hdlc_flag # wire_body f @ [hdlc_flag]"
proof -
  from assms obtain u where u: "hdlc_unstuff bs = Inr u" "6 \<le> length bs" "5 \<le> length u"
    and f: "address_from_bytes (take 2 u) = Inr (lf_address f)"
      "control_from_byte (u ! 2) = Inr (lf_control f)"
      "lf_information f = (if 3 < length u - 2 then Some (take (length u - 2 - 3) (drop 3 u)) else None)"
      "lf_fcs f = of_be16 (u ! (length u - 2)) (u ! (length u - 1))" "calculate_fcs f = lf_fcs f"
    by (auto simp: parse_frame_def Let_def Suc_diff_Suc numeral_2_eq_2 split: if_splits sum.splits)
  from u(1) have u': "u = take (length bs - 2) (drop 1 bs)" "bs ! 0 = hdlc_flag"
      "bs ! (length bs - 1) = hdlc_flag" "hdlc_flag \<notin> set u"
    by (auto simp: hdlc_unstuff_def Let_def split: if_splits)
  have bs: "bs = hdlc_flag # u @ [hdlc_flag]"
  proof -
    from u(2) obtain x xs z where "bs = x # xs @ [z]"
      by (cases bs; cases "tl bs" rule: rev_cases) auto
    with u' show ?thesis by (auto simp: nth_append)
  qed
  obtain x y c v where v: "u = x # y # c # v" "2 \<le> length v"
    using u(3) by (cases u; cases "tl u"; cases "tl (tl u)") auto
  then obtain info p q where v': "v = info @ [p, q]"
    by (cases v rule: rev_cases; cases "butlast v" rule: rev_cases) auto
  have "address_to_bytes (lf_address f) = [x, y]" "control_to_byte (lf_control f) = c"
    using f(1,2) by (simp_all add: v address_canonical control_canonical)
  then have "wire_body f = u"
    using f(3,4) by (cases "info = []") (simp_all add: wire_body_def frame_body_def v v' nth_append)
  with bs u'(4) f show ?thesis
    by (auto simp: frame_wf_def dest: address_wf_from_bytes control_wf_from_byte)
qed

text \<open>
  The stuffing loop. It pushes a new output octet only when the output has one octet modulo
  eight, which happens once, so all bits are or-ed into the top bit of one octet.
\<close>

lemma hdlc_bit_two: "length r = 2 \<Longrightarrow> length (fst (hdlc_bit (r, n) b)) = 2"
  by (auto simp: hdlc_bit_def Let_def)

lemma hdlc_bit_one: "length (fst (hdlc_bit ([x], n) b)) = 2"
  by (auto simp: hdlc_bit_def Let_def)

lemma hdlc_bits_two: "length (fst st) = 2 \<Longrightarrow> length (fst (foldl hdlc_bit st bs)) = 2"
proof (induction bs arbitrary: st)
  case (Cons b bs)
  then show ?case using hdlc_bit_two [of "fst st" "snd st" b] by simp
qed simp

lemma length_hdlc_stuff: "data \<noteq> [] \<Longrightarrow> length (hdlc_stuff data) = 3"
proof -
  assume "data \<noteq> []"
  then obtain d ds where "data = d # ds" by (cases data) auto
  then have "concat (map byte_bits data) \<noteq> []" by (simp add: byte_bits_def upt_rec)
  then obtain b bs where "concat (map byte_bits data) = b # bs"
    by (cases "concat (map byte_bits data)") auto
  then show ?thesis
    using hdlc_bits_two [OF hdlc_bit_one [of hdlc_flag 0 b], of bs] by (simp add: hdlc_stuff_def)
qed

lemma length_encode_frame: "length (encode_frame f) = 3"
  by (simp add: encode_frame_def length_hdlc_stuff frame_body_def)

text \<open>C3: the frame parser accepts exactly the well-formed frames with a right check
  sequence between two flags, with no flag octet inside, and reads every field of them.\<close>

theorem lapd_parse_exact:
  "parse_frame bs = Inr f \<longleftrightarrow>
    frame_wf f \<and> hdlc_flag \<notin> set (wire_body f) \<and> bs = hdlc_flag # wire_body f @ [hdlc_flag]"
  using parse_frame_wire parse_frame_InrD by blast

text \<open>C13: a frame with one corrupted octet, anywhere between the flags, is never
  accepted: the check sequence or the field checks reject it.\<close>

theorem lapd_corruption_rejected:
  assumes "frame_wf f" and "wire_body f = xs @ b # ys" and "c \<noteq> b"
  shows "\<exists>e. parse_frame (hdlc_flag # (xs @ c # ys) @ [hdlc_flag]) = Inl e"
proof (rule ccontr)
  assume "\<not> ?thesis"
  then obtain g where "parse_frame (hdlc_flag # (xs @ c # ys) @ [hdlc_flag]) = Inr g"
    by (cases "parse_frame (hdlc_flag # (xs @ c # ys) @ [hdlc_flag])") auto
  from parse_frame_InrD [OF this] have g: "frame_wf g" "wire_body g = xs @ c # ys" by simp_all
  have wire: "wire_body h = frame_body h @ be16 (crc16_ccitt (frame_body h))" if "frame_wf h" for h
    using that by (simp add: wire_body_def frame_wf_def calculate_fcs_def)
  from wire [OF assms(1)] wire [OF g(1)] assms(2) g(2)
  have f': "frame_body f @ be16 (crc16_ccitt (frame_body f)) = xs @ b # ys"
    and g': "frame_body g @ be16 (crc16_ccitt (frame_body g)) = xs @ c # ys" by simp_all
  have len: "length (frame_body f) = length (frame_body g)"
    using arg_cong [OF f', of length] arg_cong [OF g', of length] by simp
  show False
  proof (cases "length xs < length (frame_body f)")
    case True
    from append_split_at [OF f' True] obtain zs
      where f1: "frame_body f = xs @ b # zs" "zs @ be16 (crc16_ccitt (frame_body f)) = ys" by auto
    from True len have "length xs < length (frame_body g)" by simp
    from append_split_at [OF g' this] obtain zs'
      where g1: "frame_body g = xs @ c # zs'" "zs' @ be16 (crc16_ccitt (frame_body g)) = ys" by auto
    from f1 g1 len have "zs = zs'" "crc16_ccitt (frame_body f) = crc16_ccitt (frame_body g)"
      by (auto simp: be16_inject)
    with f1 g1 crc16_single_byte [of xs b zs c] assms(3) show False by simp
  next
    case False
    then have "frame_body f = frame_body g"
      using f' g' len by (metis append_eq_append_conv_if append_take_drop_id leI)
    with f' g' assms(3) show False by (metis append_Cons append_eq_append_conv list.inject)
  qed
qed

theorem lapd_corruption_rejected_witness:
  "\<exists>e. parse_frame [0x7E, 0x00, 0x05, 0x0F, 0x97, 0xDF, 0x7E] = Inl e"
proof -
  let ?f = "new_lapd_frame (new_lapd_address 0 False 1) (Unnumbered UF_DM False) None"
  have "wire_body ?f = [0x00] @ 0x03 # [0x0F, 0x97, 0xDF]" by code_simp
  moreover have "frame_wf ?f"
    by (simp add: frame_wf_def new_lapd_frame_def new_lapd_address_def address_wf_def
        calculate_fcs_def frame_body_def)
  ultimately show ?thesis
    using lapd_corruption_rejected [of ?f "[0x00]" "0x03" "[0x0F, 0x97, 0xDF]" "0x05"]
    by (simp add: hdlc_flag_def)
qed

text \<open>what the encoder puts on the wire is never accepted. The stuffing loop squeezes
  every frame into three octets, which the parser of a peer refuses as too short; the peer's
  manager reports the error and stays as it was.\<close>

theorem lapd_encode_never_accepted:
  "parse_frame (encode_frame f) = Inl (FrameTooShort 3) \<and>
   process_d_channel_data m now (encode_frame f) = (Some (FrameTooShort 3), m, [])"
  by (simp add: process_d_channel_data_def parse_frame_def length_encode_frame)

section \<open>The receive window and delivery\<close>

lemma u8_less_8_cases:
  assumes "(w :: u8) < 8"
  obtains "w = 0" | "w = 1" | "w = 2" | "w = 3" | "w = 4" | "w = 5" | "w = 6" | "w = 7"
proof -
  from assms have "unat w < 8" by (simp add: word_less_nat_alt)
  then have "unat w \<in> {0, 1, 2, 3, 4, 5, 6, 7}" by auto
  then show thesis using that by (auto simp: word_unat_eq_iff)
qed

text \<open>with the default window of seven, a send number is in the receive window of a
  connection exactly when it is not the number just before the next expected one.\<close>

theorem lapd_receive_window:
  assumes "lc_k c = 7" and "lc_v_r c < 8" and "n_s < 8"
  shows "in_receive_window c n_s \<longleftrightarrow> n_s \<noteq> (lc_v_r c + 7) mod 8"
  using assms(2,3) by (elim u8_less_8_cases) (simp_all add: in_receive_window_def assms(1) word_le_nat_alt word_less_nat_alt)

theorem lapd_receive_window_witness:
  "\<not> in_receive_window (new_lapd_connection 0 0 1) 7"
  using lapd_receive_window [of "new_lapd_connection 0 0 1" 7] by (simp add: new_lapd_connection_def)

text \<open>The information frames of a connection, handled one after the other.\<close>

fun run_i_frames ::
    "lapd_connection \<Rightarrow> (u8 \<times> byte list option) list \<Rightarrow> lapd_connection \<times> lapd_out list" where
  "run_i_frames c [] = (c, [])"
| "run_i_frames c ((n_s, info) # fs) =
    (let (_, c', out) = process_i_frame True c n_s info; (c'', out') = run_i_frames c' fs
     in (c'', out @ out'))"

definition delivered :: "lapd_out list \<Rightarrow> byte list list" where
  "delivered outs = concat (map (\<lambda>x. case x of LapdEv (DataReceived _ _ d) \<Rightarrow> [d] | _ \<Rightarrow> []) outs)"

text \<open>The abstract receiver: it takes the frame it expects and drops the others.\<close>

fun in_order :: "u8 \<Rightarrow> (u8 \<times> byte list option) list \<Rightarrow> byte list list" where
  "in_order v [] = []"
| "in_order v ((n_s, info) # fs) =
    (case info of
       Some d \<Rightarrow>
         if n_s = v then
           (case parse_message d of Inr _ \<Rightarrow> [d] | Inl _ \<Rightarrow> []) @ in_order ((v + 1) mod 8) fs
         else in_order v fs
     | None \<Rightarrow> in_order v fs)"

lemma delivered_simps [simp]:
  "delivered [] = []" "delivered (LapdEv (DataReceived s e d) # out) = d # delivered out"
  by (simp_all add: delivered_def)

lemma delivered_append [simp]: "delivered (a @ b) = delivered a @ delivered b"
  by (simp add: delivered_def)

lemma delivered_supervisory [simp]: "delivered (snd (send_supervisory_frame t s e f n p)) = []"
  by (simp add: delivered_def send_supervisory_frame_def send_lapd_frame_def)

lemma succ_mod8: "v < (8 :: u8) \<Longrightarrow> (v + 1) mod 8 < 8 \<and> unat ((v + 1) mod 8) = (unat v + 1) mod 8"
  by (elim u8_less_8_cases) simp_all

definition receiving :: "lapd_connection \<Rightarrow> bool" where
  "receiving c \<longleftrightarrow> lc_state c = MultipleFrameEstablished \<and> lc_k c = 7 \<and> lc_v_r c < 8"

lemma expected_in_window: "receiving c \<Longrightarrow> in_receive_window c (lc_v_r c)"
  unfolding receiving_def
  by (elim conjE u8_less_8_cases)
    (simp_all add: in_receive_window_def word_le_nat_alt word_less_nat_alt)

lemma process_i_frame_receiving:
  assumes "receiving c"
  shows "receiving (fst (snd (process_i_frame t c n_s info)))"
    and "delivered (snd (snd (process_i_frame t c n_s info))) @
      in_order (lc_v_r (fst (snd (process_i_frame t c n_s info)))) fs = in_order (lc_v_r c) ((n_s, info) # fs)"
  using assms expected_in_window [OF assms] succ_mod8 [of "lc_v_r c"]
  by (auto simp: process_i_frame_def receiving_def split_beta split: option.splits sum.splits)

text \<open>C14: delivery refines the abstract receiver. Whatever information frames an
  established connection receives, in any order and with any numbers, the data it passes up are
  those of the frames that arrive exactly in sequence and parse; a frame that was buffered out of
  sequence is never delivered later.\<close>

theorem lapd_delivery_refines:
  "receiving c \<Longrightarrow> delivered (snd (run_i_frames c fs)) = in_order (lc_v_r c) fs"
proof (induction fs arbitrary: c)
  case Nil
  then show ?case by simp
next
  case (Cons f fs)
  obtain n_s info where f: "f = (n_s, info)" by (cases f)
  define c' where "c' = fst (snd (process_i_frame True c n_s info))"
  from process_i_frame_receiving [OF Cons.prems, of True n_s info] Cons.IH [of c']
  show ?case by (simp add: f c'_def split_beta Let_def del: in_order.simps)
qed

theorem lapd_delivery_refines_witness:
  "delivered (snd (run_i_frames
      ((new_lapd_connection 0 0 1)\<lparr>lc_state := MultipleFrameEstablished\<rparr>)
      [(1, Some [8, 0, 7]), (0, Some [8, 0, 5])])) = [[8, 0, 5]]"
proof -
  have "parse_message [8, 0, 5] = Inr (new_q931_message \<lparr>cr_value = 0, cr_flag = 0, cr_length = 0\<rparr> MT_Setup [])"
    by (simp add: parse_message_def q931_protocol_discriminator_def parse_call_reference_def
        mt_from_u8_def parse_ies.simps new_q931_message_def)
  then show ?thesis
    using lapd_delivery_refines [of "(new_lapd_connection 0 0 1)\<lparr>lc_state := MultipleFrameEstablished\<rparr>"
        "[(1, Some [8, 0, 7]), (0, Some [8, 0, 5])]"]
    by (simp add: receiving_def new_lapd_connection_def)
qed

section \<open>The manager as a state machine\<close>

definition connection_inv :: "string \<Rightarrow> lapd_connection \<Rightarrow> bool" where
  "connection_inv key c \<longleftrightarrow>
     key = lapd_key (lc_sapi c) (lc_tei c) \<and> lc_id c = key \<and> lc_k c = 7 \<and>
     lc_v_s c < 8 \<and> lc_v_r c < 8 \<and> lc_v_a c < 8 \<and> lc_retransmit_queue c = [] \<and>
     (\<forall>n d. lc_receive_buffer c n = Some d \<longrightarrow> n < 8)"

definition lapd_inv :: "lapd_manager \<Rightarrow> bool" where
  "lapd_inv m \<longleftrightarrow> all_entries connection_inv (lm_connections m)"

inductive lapd_step :: "lapd_manager \<Rightarrow> lapd_manager \<Rightarrow> bool" where
  recv: "lapd_step m (fst (snd (process_d_channel_data m now data)))"
| send: "lapd_step m (fst (snd (send_q931_message m now sapi tei msg)))"
| establish: "lapd_step m (fst (snd (establish_connection m now sapi tei)))"

inductive_cases lapd_stepE: "lapd_step m m'"

lemma lapd_key_inject: "lapd_key s t = lapd_key s' t' \<Longrightarrow> s = s' \<and> t = t'"
proof -
  assume "lapd_key s t = lapd_key s' t'"
  then have "dec (unat s) @ CHR ''-'' # ''TEI'' @ dec (unat t) = dec (unat s') @ CHR ''-'' # ''TEI'' @ dec (unat t')"
    by (simp add: lapd_key_def)
  from dec_sep_inject [OF _ this] show ?thesis
    by (simp add: is_digit_def word_unat_eq_iff)
qed

lemma connection_entry_inv: "lapd_inv m \<Longrightarrow> connection_inv (lapd_key s t) (connection_entry m now s t)"
  by (auto simp: lapd_inv_def connection_entry_def connection_inv_def new_lapd_connection_def
      dest: all_entriesD split: option.splits)

lemma put_connection_inv: "lapd_inv m \<Longrightarrow> connection_inv (lapd_key s t) c \<Longrightarrow> lapd_inv (put_connection m s t c)"
  by (simp add: lapd_inv_def put_connection_def all_entries_update)

lemma process_i_frame_inv:
  "connection_inv k c \<Longrightarrow> n_s < 8 \<Longrightarrow> connection_inv k (fst (snd (process_i_frame tx c n_s info)))"
  using succ_mod8 [of "lc_v_r c"]
  by (auto simp: process_i_frame_def connection_inv_def split_beta split: option.splits)

lemma process_s_frame_inv:
  "connection_inv k c \<Longrightarrow> n_r < 8 \<Longrightarrow> connection_inv k (process_s_frame c f n_r)"
  by (auto simp: process_s_frame_def connection_inv_def split: supervisory_function.splits)

lemma process_u_frame_inv:
  "connection_inv k c \<Longrightarrow> connection_inv k (fst (snd (process_u_frame tx c f p)))"
  by (auto simp: process_u_frame_def connection_inv_def
      split: unnumbered_function.splits prod.splits option.splits)

lemma receive_inv: "lapd_inv m \<Longrightarrow> lapd_inv (fst (snd (process_d_channel_data m now data)))"
proof -
  assume inv: "lapd_inv m"
  show ?thesis
  proof (cases "parse_frame data")
    case (Inr f)
    from parse_frame_InrD [OF this] have cw: "control_wf (lf_control f)" by (simp add: frame_wf_def)
    let ?s = "la_sapi (lf_address f)" and ?t = "la_tei (lf_address f)"
    have "connection_inv (lapd_key ?s ?t) ((connection_entry m now ?s ?t)\<lparr>lc_last_activity := now\<rparr>)"
      using connection_entry_inv [OF inv, of ?s ?t now] by (simp add: connection_inv_def)
    with inv cw Inr show ?thesis
      by (cases "lf_control f")
        (auto simp: process_d_channel_data_def split_beta Let_def
          intro!: put_connection_inv process_i_frame_inv process_s_frame_inv process_u_frame_inv)
  qed (simp add: process_d_channel_data_def inv)
qed

lemma send_inv: "lapd_inv m \<Longrightarrow> lapd_inv (fst (snd (send_q931_message m now s t msg)))"
proof -
  assume inv: "lapd_inv m"
  { fix c assume "map_of (lm_connections m) (lapd_key s t) = Some c"
    with inv have c: "connection_inv (lapd_key s t) c" by (auto simp: lapd_inv_def dest: all_entriesD)
    then have "connection_inv (lapd_key s t) (c\<lparr>lc_v_s := (lc_v_s c + 1) mod 8, lc_last_activity := now\<rparr>)"
      using succ_mod8 [of "lc_v_s c"] by (simp add: connection_inv_def)
    with inv have "lapd_inv (put_connection m s t (c\<lparr>lc_v_s := (lc_v_s c + 1) mod 8, lc_last_activity := now\<rparr>))"
      by (rule put_connection_inv) }
  with inv show ?thesis
    by (auto simp: send_q931_message_def Let_def split: option.splits prod.splits)
qed

lemma establish_inv: "lapd_inv m \<Longrightarrow> lapd_inv (fst (snd (establish_connection m now s t)))"
  using connection_entry_inv [of m s t now]
  by (auto simp: establish_connection_def split_beta Let_def connection_inv_def intro!: put_connection_inv)

interpretation lapd: invariant_machine "\<lambda>m. lm_connections m = []" lapd_step lapd_inv
proof unfold_locales
  show "lapd_inv m" if "lm_connections m = []" for m
    using that by (simp add: lapd_inv_def)
  show "lapd_inv t" if "lapd_inv s" "lapd_step s t" for s t
    using that by (auto elim!: lapd_stepE intro: receive_inv send_inv establish_inv)
qed

text \<open>C15: in every state the manager can reach, each connection is stored under the key of its
  own SAPI and TEI, there is at most one per SAPI and TEI, its three sequence numbers are modulo
  eight and only sequence numbers index the receive buffer. The retransmission queue of every
  connection is empty: the code never puts a sent frame there.\<close>

theorem lapd_manager_invariant:
  assumes "lapd_step\<^sup>*\<^sup>* (new_lapd_manager v side tx) m"
  shows "distinct (map fst (lm_connections m)) \<and> (\<forall>(key, c) \<in> set (lm_connections m).
    key = lapd_key (lc_sapi c) (lc_tei c) \<and> lc_id c = key \<and> lc_k c = 7 \<and>
    lc_v_s c < 8 \<and> lc_v_r c < 8 \<and> lc_v_a c < 8 \<and> lc_retransmit_queue c = [] \<and>
    (\<forall>n d. lc_receive_buffer c n = Some d \<longrightarrow> n < 8))"
proof -
  have "lapd_inv m" by (rule lapd.reachable_inv [OF _ assms]) (simp add: new_lapd_manager_def)
  then have "all_entries connection_inv (lm_connections m)" by (simp add: lapd_inv_def)
  then show ?thesis using all_entries_set by (fastforce simp: all_entries_def connection_inv_def)
qed

theorem lapd_manager_invariant_witness:
  "\<exists>m. lapd_step\<^sup>*\<^sup>* (new_lapd_manager NI2 SideUser True) m \<and>
     lm_connections m \<noteq> [] \<and> distinct (map fst (lm_connections m))"
proof -
  let ?m = "fst (snd (establish_connection (new_lapd_manager NI2 SideUser True) 5 0 1))"
  have r: "lapd_step\<^sup>*\<^sup>* (new_lapd_manager NI2 SideUser True) ?m"
    by (rule r_into_rtranclp) (rule establish)
  moreover have "lm_connections ?m \<noteq> []"
    by (simp add: establish_connection_def send_lapd_frame_def put_connection_def new_lapd_manager_def)
  moreover from lapd_manager_invariant [OF r] have "distinct (map fst (lm_connections ?m))" by simp
  ultimately show ?thesis by blast
qed

section \<open>Sending\<close>

fun send_all ::
    "lapd_manager \<Rightarrow> nat \<Rightarrow> u8 \<Rightarrow> u8 \<Rightarrow> q931_message list \<Rightarrow> lapd_error option list \<times> lapd_manager" where
  "send_all m now s t [] = ([], m)"
| "send_all m now s t (x # xs) =
    (let (r, m', _) = send_q931_message m now s t x; (rs, m'') = send_all m' now s t xs
     in (r # rs, m''))"

text \<open>an established link accepts any number of messages without one acknowledgement. The
  send number runs modulo eight past the window of seven, and no frame is kept for
  retransmission.\<close>

theorem lapd_send_ignores_window:
  assumes "lm_tx_open m" and "map_of (lm_connections m) (lapd_key s t) = Some c"
    and "lc_state c = MultipleFrameEstablished" and "lc_v_s c < 8"
  shows "\<exists>c'. list_all (\<lambda>r. r = None) (fst (send_all m now s t msgs)) \<and>
    map_of (lm_connections (snd (send_all m now s t msgs))) (lapd_key s t) = Some c' \<and>
    lc_state c' = MultipleFrameEstablished \<and>
    unat (lc_v_s c') = (unat (lc_v_s c) + length msgs) mod 8 \<and>
    lc_v_a c' = lc_v_a c \<and> lc_retransmit_queue c' = lc_retransmit_queue c"
  using assms
proof (induction msgs arbitrary: m c)
  case Nil
  then show ?case by (auto simp: word_less_nat_alt)
next
  case (Cons x xs)
  let ?c = "c\<lparr>lc_v_s := (lc_v_s c + 1) mod 8, lc_last_activity := now\<rparr>"
  let ?m = "put_connection m s t ?c"
  obtain out where one: "send_q931_message m now s t x = (None, ?m, out)"
    using Cons.prems by (simp add: send_q931_message_def send_lapd_frame_def)
  have "lm_tx_open ?m" "map_of (lm_connections ?m) (lapd_key s t) = Some ?c"
    using Cons.prems(1) by (simp_all add: put_connection_def)
  from Cons.IH [OF this] Cons.prems(3,4) succ_mod8 [of "lc_v_s c"] one
  show ?case by (fastforce simp: split_beta Let_def mod_simps)
qed

theorem lapd_send_ignores_window_witness:
  "list_all (\<lambda>r. r = None) (fst (send_all
     ((new_lapd_manager NI2 SideUser True)\<lparr>lm_connections :=
        [(lapd_key 0 1, (new_lapd_connection 0 0 1)\<lparr>lc_state := MultipleFrameEstablished\<rparr>)]\<rparr>)
     5 0 1 (replicate 100 (new_q931_message (new_call_reference 1 True) MT_Setup []))))"
  using lapd_send_ignores_window [of "(new_lapd_manager NI2 SideUser True)\<lparr>lm_connections :=
        [(lapd_key 0 1, (new_lapd_connection 0 0 1)\<lparr>lc_state := MultipleFrameEstablished\<rparr>)]\<rparr>"
      0 1 "(new_lapd_connection 0 0 1)\<lparr>lc_state := MultipleFrameEstablished\<rparr>" 5
      "replicate 100 (new_q931_message (new_call_reference 1 True) MT_Setup [])"]
  by (simp add: new_lapd_manager_def new_lapd_connection_def)

end
