(* ===== verification/PriTimers.thy ===== *)
theory PriTimers
  imports Q931
begin

text \<open>
  The PRI timers (\<open>src/pri_timers.rs\<close>): default durations, active timers, and the
  manager that starts, cancels and expires them. Time is counted in nanoseconds. A timer has a
  spawned task that sleeps until the deadline; \<open>tm_tasks\<close> holds the tasks that still
  run, by the number of their handle, and aborting a handle ends its task. One step is one
  operation of the manager, or one task that wakes up.
\<close>

section \<open>Timer types\<close>

datatype pri_timer_type = T301 | T302 | T303 | T304 | T305 | T308 | T310 | T313 | T314 | T316 | T317 | T322

definition from_secs :: "nat \<Rightarrow> nat" where
  "from_secs s = s * 1000000000"

fun default_duration :: "pri_timer_type \<Rightarrow> isdn_variant \<Rightarrow> isdn_side_type \<Rightarrow> nat" where
  "default_duration T301 NI2 _ = from_secs 180"
| "default_duration T301 EuroIsdn _ = from_secs 240"
| "default_duration T302 _ _ = from_secs 15"
| "default_duration T303 NI2 _ = from_secs 4"
| "default_duration T303 EuroIsdn _ = from_secs 4"
| "default_duration T304 _ _ = from_secs 15"
| "default_duration T305 NI2 _ = from_secs 30"
| "default_duration T305 EuroIsdn _ = from_secs 30"
| "default_duration T308 _ _ = from_secs 4"
| "default_duration T310 NI2 SideNetwork = from_secs 40"
| "default_duration T310 NI2 SideUser = from_secs 10"
| "default_duration T310 EuroIsdn _ = from_secs 30"
| "default_duration T313 _ _ = from_secs 4"
| "default_duration T314 _ _ = from_secs 4"
| "default_duration T316 _ _ = from_secs 120"
| "default_duration T317 _ _ = from_secs 100"
| "default_duration T322 _ _ = from_secs 4"

fun timer_description :: "pri_timer_type \<Rightarrow> string" where
  "timer_description T301 = ''Alert timer - called party answer timeout''"
| "timer_description T302 = ''Overlap receiving timer''"
| "timer_description T303 = ''Setup timer - response to SETUP timeout''"
| "timer_description T304 = ''Overlap sending timer''"
| "timer_description T305 = ''Disconnect timer - response to DISCONNECT timeout''"
| "timer_description T308 = ''Release timer - RELEASE COMPLETE timeout''"
| "timer_description T310 = ''Call proceeding timer''"
| "timer_description T313 = ''Connect timer - CONNECT ACK timeout''"
| "timer_description T314 = ''Restart timer - RESTART ACK timeout''"
| "timer_description T316 = ''Restart interval timer''"
| "timer_description T317 = ''Restart procedure timer''"
| "timer_description T322 = ''Status enquiry timer''"

text \<open>The \<open>{:?}\<close> form of a timer type.\<close>

fun timer_debug :: "pri_timer_type \<Rightarrow> string" where
  "timer_debug T301 = ''T301''" | "timer_debug T302 = ''T302''" | "timer_debug T303 = ''T303''"
| "timer_debug T304 = ''T304''" | "timer_debug T305 = ''T305''" | "timer_debug T308 = ''T308''"
| "timer_debug T310 = ''T310''" | "timer_debug T313 = ''T313''" | "timer_debug T314 = ''T314''"
| "timer_debug T316 = ''T316''" | "timer_debug T317 = ''T317''" | "timer_debug T322 = ''T322''"

datatype pri_timer_action =
  ClearCall u8 | SendMessage q931_message_type | RetryAction u8 | RestartCircuit
| CustomAction string | NoAction

definition clear_call_action :: "u8 \<Rightarrow> pri_timer_action" where
  "clear_call_action cause = ClearCall cause"

definition send_message_action :: "q931_message_type \<Rightarrow> pri_timer_action" where
  "send_message_action mt = SendMessage mt"

definition retry_action :: "u8 \<Rightarrow> pri_timer_action" where
  "retry_action max_retries = RetryAction max_retries"

section \<open>Active timers\<close>

record active_pri_timer =
  at_type :: pri_timer_type
  at_call_reference :: u16
  at_circuit_id :: u16
  at_start_time :: nat
  at_duration :: nat
  at_action :: pri_timer_action
  at_retry_count :: u8
  at_max_retries :: u8

definition new_active_timer ::
    "nat \<Rightarrow> pri_timer_type \<Rightarrow> u16 \<Rightarrow> u16 \<Rightarrow> nat \<Rightarrow> pri_timer_action \<Rightarrow> active_pri_timer" where
  "new_active_timer now ty crv circuit dur action =
     \<lparr>at_type = ty, at_call_reference = crv, at_circuit_id = circuit, at_start_time = now,
      at_duration = dur, at_action = action, at_retry_count = 0, at_max_retries = 0\<rparr>"

lemma new_active_timer_simps [simp]:
  "at_type (new_active_timer now ty crv c d a) = ty"
  "at_call_reference (new_active_timer now ty crv c d a) = crv"
  "at_circuit_id (new_active_timer now ty crv c d a) = c"
  "at_start_time (new_active_timer now ty crv c d a) = now"
  "at_duration (new_active_timer now ty crv c d a) = d"
  "at_action (new_active_timer now ty crv c d a) = a"
  by (simp_all add: new_active_timer_def)

definition timer_is_expired :: "nat \<Rightarrow> active_pri_timer \<Rightarrow> bool" where
  "timer_is_expired now t \<longleftrightarrow> at_duration t \<le> now - at_start_time t"

definition timer_remaining :: "nat \<Rightarrow> active_pri_timer \<Rightarrow> nat" where
  "timer_remaining now t =
    (let elapsed = now - at_start_time t
     in if at_duration t \<le> elapsed then 0 else at_duration t - elapsed)"

definition expiration_instant :: "nat \<Rightarrow> active_pri_timer \<Rightarrow> nat" where
  "expiration_instant now t = now + timer_remaining now t"

section \<open>The manager\<close>

record timer_task =
  tt_id :: string
  tt_timer :: active_pri_timer
  tt_deadline :: nat

record timer_manager =
  tm_variant :: isdn_variant
  tm_side_type :: isdn_side_type
  tm_active :: "(string \<times> active_pri_timer) list"
  tm_handles :: "(string \<times> nat) list"
  tm_tasks :: "(nat \<times> timer_task) list"
  tm_next_task :: nat

definition new_timer_manager :: "isdn_variant \<Rightarrow> isdn_side_type \<Rightarrow> timer_manager" where
  "new_timer_manager v s =
     \<lparr>tm_variant = v, tm_side_type = s, tm_active = [], tm_handles = [], tm_tasks = [],
      tm_next_task = 0\<rparr>"

definition generate_timer_id :: "pri_timer_type \<Rightarrow> u16 \<Rightarrow> u16 \<Rightarrow> string" where
  "generate_timer_id ty crv circuit =
     timer_debug ty @ ''-CRV'' @ dec (unat crv) @ ''-C'' @ dec (unat circuit)"

definition cancel_timer :: "string \<Rightarrow> timer_manager \<Rightarrow> bool \<times> timer_manager" where
  "cancel_timer timer_id m =
    (let removed = (map_of (tm_active m) timer_id \<noteq> None);
         m = m\<lparr>tm_active := AList.delete timer_id (tm_active m)\<rparr>;
         m = (case map_of (tm_handles m) timer_id of
                Some h \<Rightarrow> m\<lparr>tm_handles := AList.delete timer_id (tm_handles m),
                            tm_tasks := AList.delete h (tm_tasks m)\<rparr>
              | None \<Rightarrow> m)
     in (removed, m))"

definition spawn_timer_task ::
    "nat \<Rightarrow> string \<Rightarrow> active_pri_timer \<Rightarrow> timer_manager \<Rightarrow> nat \<times> timer_manager" where
  "spawn_timer_task now timer_id t m =
    (let h = tm_next_task m;
         task = \<lparr>tt_id = timer_id, tt_timer = t, tt_deadline = expiration_instant now t\<rparr>
     in (h, m\<lparr>tm_tasks := (h, task) # tm_tasks m, tm_next_task := Suc h\<rparr>))"

definition start_timer ::
    "nat \<Rightarrow> pri_timer_type \<Rightarrow> u16 \<Rightarrow> u16 \<Rightarrow> nat option \<Rightarrow> pri_timer_action \<Rightarrow> timer_manager \<Rightarrow>
     string \<times> timer_manager" where
  "start_timer now ty crv circuit duration action m =
    (let timer_duration = (case duration of Some d \<Rightarrow> d
           | None \<Rightarrow> default_duration ty (tm_variant m) (tm_side_type m));
         t = new_active_timer now ty crv circuit timer_duration action;
         timer_id = generate_timer_id ty crv circuit;
         (_, m) = cancel_timer timer_id m;
         m = m\<lparr>tm_active := AList.update timer_id t (tm_active m)\<rparr>;
         (h, m) = spawn_timer_task now timer_id t m;
         m = m\<lparr>tm_handles := AList.update timer_id h (tm_handles m)\<rparr>
     in (timer_id, m))"

text \<open>Both bulk cancellations collect the identifiers first, then cancel one after the other
  and count those that were there.\<close>

fun cancel_ids :: "string list \<Rightarrow> timer_manager \<Rightarrow> nat \<times> timer_manager" where
  "cancel_ids [] m = (0, m)"
| "cancel_ids (i # is) m =
    (let (removed, m) = cancel_timer i m; (n, m) = cancel_ids is m
     in ((if removed then 1 else 0) + n, m))"

definition cancel_call_timers :: "u16 \<Rightarrow> timer_manager \<Rightarrow> nat \<times> timer_manager" where
  "cancel_call_timers crv m =
     cancel_ids (map fst (filter (\<lambda>(i, t). at_call_reference t = crv) (tm_active m))) m"

definition cancel_circuit_timers :: "u16 \<Rightarrow> timer_manager \<Rightarrow> nat \<times> timer_manager" where
  "cancel_circuit_timers circuit m =
     cancel_ids (map fst (filter (\<lambda>(i, t). at_circuit_id t = circuit) (tm_active m))) m"

definition get_timer :: "string \<Rightarrow> timer_manager \<Rightarrow> active_pri_timer option" where
  "get_timer i m = map_of (tm_active m) i"

definition get_call_timers :: "u16 \<Rightarrow> timer_manager \<Rightarrow> active_pri_timer list" where
  "get_call_timers crv m = filter (\<lambda>t. at_call_reference t = crv) (map snd (tm_active m))"

definition get_all_timers :: "timer_manager \<Rightarrow> active_pri_timer list" where
  "get_all_timers m = map snd (tm_active m)"

record timer_expired_event =
  te_timer :: active_pri_timer
  te_timestamp :: nat

text \<open>The body of a task after its sleep, for the task of handle \<open>h\<close>.\<close>

definition timer_task_wakes ::
    "nat \<Rightarrow> nat \<Rightarrow> timer_manager \<Rightarrow> timer_expired_event list \<times> timer_manager" where
  "timer_task_wakes now h m =
    (case map_of (tm_tasks m) h of
       None \<Rightarrow> ([], m)
     | Some task \<Rightarrow>
         if now < tt_deadline task then ([], m)
         else
           let m = m\<lparr>tm_tasks := AList.delete h (tm_tasks m)\<rparr>
           in if map_of (tm_active m) (tt_id task) \<noteq> None
              then ([\<lparr>te_timer = tt_timer task, te_timestamp = now\<rparr>],
                    m\<lparr>tm_active := AList.delete (tt_id task) (tm_active m),
                      tm_handles := AList.delete (tt_id task) (tm_handles m)\<rparr>)
              else ([], m))"

record timer_statistics =
  ts_total_active :: nat
  ts_by_type :: "(pri_timer_type \<times> nat) list"
  ts_variant :: isdn_variant
  ts_side_type :: isdn_side_type

definition count_type :: "(pri_timer_type \<times> nat) list \<Rightarrow> pri_timer_type \<Rightarrow> (pri_timer_type \<times> nat) list" where
  "count_type al ty = AList.update ty ((case map_of al ty of Some n \<Rightarrow> n | None \<Rightarrow> 0) + 1) al"

definition timer_get_statistics :: "timer_manager \<Rightarrow> timer_statistics" where
  "timer_get_statistics m =
     \<lparr>ts_total_active = length (tm_active m),
      ts_by_type = foldl (\<lambda>al t. count_type al (at_type t)) [] (map snd (tm_active m)),
      ts_variant = tm_variant m, ts_side_type = tm_side_type m\<rparr>"

section \<open>Lookups after each operation\<close>

lemma generate_timer_id_inject:
  "generate_timer_id ty crv circuit = generate_timer_id ty' crv' circuit' \<Longrightarrow>
    ty = ty' \<and> crv = crv' \<and> circuit = circuit'"
proof -
  assume eq: "generate_timer_id ty crv circuit = generate_timer_id ty' crv' circuit'"
  have len: "length (timer_debug a) = 4" for a by (cases a) simp_all
  have inj: "timer_debug a = timer_debug b \<Longrightarrow> a = b" for a b by (cases a; cases b; simp)
  from eq len have "timer_debug ty = timer_debug ty'"
    and "dec (unat crv) @ CHR ''-'' # ''C'' @ dec (unat circuit) =
      dec (unat crv') @ CHR ''-'' # ''C'' @ dec (unat circuit')"
    by (auto simp: generate_timer_id_def append_eq_append_conv)
  with dec_sep_inject [OF _ this(2)] inj show ?thesis
    by (simp add: is_digit_def word_unat_eq_iff)
qed

lemma cancel_timer_simps [step_simps]:
  "tm_active (snd (cancel_timer i m)) = AList.delete i (tm_active m)"
  "fst (cancel_timer i m) \<longleftrightarrow> map_of (tm_active m) i \<noteq> None"
  "tm_variant (snd (cancel_timer i m)) = tm_variant m"
  "tm_side_type (snd (cancel_timer i m)) = tm_side_type m"
  by (auto simp: cancel_timer_def Let_def split: option.splits)

lemma cancel_ids_active:
  "tm_active (snd (cancel_ids is m)) = filter (\<lambda>(i, t). i \<notin> set is) (tm_active m)"
proof (induction "is" arbitrary: m)
  case (Cons i "is")
  show ?case
    by (simp add: split_beta Let_def Cons.IH cancel_timer_simps AList.delete_eq)
      (rule filter_cong; auto)
qed (simp add: split_def)

lemma cancel_ids_variant:
  "tm_variant (snd (cancel_ids is m)) = tm_variant m \<and> tm_side_type (snd (cancel_ids is m)) = tm_side_type m"
  by (induction "is" arbitrary: m) (simp_all add: split_beta Let_def cancel_timer_simps)

lemma cancel_ids_count:
  "distinct is \<Longrightarrow> set is \<subseteq> dom (map_of (tm_active m)) \<Longrightarrow> fst (cancel_ids is m) = length is"
proof (induction "is" arbitrary: m)
  case (Cons i "is")
  then have "fst (cancel_ids is (snd (cancel_timer i m))) = length is"
    by (intro Cons.IH) (auto simp: cancel_timer_simps)
  with Cons.prems show ?case by (auto simp: split_beta Let_def cancel_timer_simps)
qed simp

text \<open>What both bulk cancellations do to a table with distinct keys.\<close>

lemma cancel_matching:
  fixes P :: "active_pri_timer \<Rightarrow> bool"
  assumes "distinct (map fst (tm_active m))"
  defines "is \<equiv> map fst (filter (\<lambda>(i, t). P t) (tm_active m))"
  shows "tm_active (snd (cancel_ids is m)) = filter (\<lambda>(i, t). \<not> P t) (tm_active m)"
    and "fst (cancel_ids is m) = length (filter (\<lambda>(i, t). P t) (tm_active m))"
proof -
  have "i \<in> set is \<longleftrightarrow> P t" if "(i, t) \<in> set (tm_active m)" for i t
  proof
    assume "i \<in> set is"
    then obtain t' where "(i, t') \<in> set (tm_active m)" "P t'" by (auto simp: is_def)
    with that assms(1) show "P t" using eq_key_imp_eq_value by metis
  next
    assume "P t"
    with that show "i \<in> set is" by (force simp: is_def)
  qed
  then show "tm_active (snd (cancel_ids is m)) = filter (\<lambda>(i, t). \<not> P t) (tm_active m)"
    unfolding cancel_ids_active by (auto intro: filter_cong)
  have "distinct is" using assms(1) by (simp add: is_def distinct_map_filter)
  moreover have "set is \<subseteq> dom (map_of (tm_active m))"
    by (auto simp: is_def dom_map_of_conv_image_fst)
  ultimately show "fst (cancel_ids is m) = length (filter (\<lambda>(i, t). P t) (tm_active m))"
    by (simp add: cancel_ids_count) (simp add: is_def)
qed

lemma start_timer_simps [step_simps]:
  "fst (start_timer now ty crv circuit d a m) = generate_timer_id ty crv circuit"
  "tm_active (snd (start_timer now ty crv circuit d a m)) =
     AList.update (generate_timer_id ty crv circuit)
       (new_active_timer now ty crv circuit
         (case d of Some d \<Rightarrow> d | None \<Rightarrow> default_duration ty (tm_variant m) (tm_side_type m)) a)
       (AList.delete (generate_timer_id ty crv circuit) (tm_active m))"
  "tm_variant (snd (start_timer now ty crv circuit d a m)) = tm_variant m"
  "tm_side_type (snd (start_timer now ty crv circuit d a m)) = tm_side_type m"
  by (simp_all add: start_timer_def split_beta Let_def spawn_timer_task_def cancel_timer_simps)

section \<open>The invariant of the manager\<close>

text \<open>Every active timer has a handle, its handle a running task for this very timer with the
  deadline of the timer, and there are no other handles and tasks.\<close>

definition timer_maps ::
    "(string \<rightharpoonup> active_pri_timer) \<Rightarrow> (string \<rightharpoonup> nat) \<Rightarrow> (nat \<rightharpoonup> timer_task) \<Rightarrow> nat \<Rightarrow> bool" where
  "timer_maps A H K n \<longleftrightarrow>
     (\<forall>i t. A i = Some t \<longrightarrow>
        i = generate_timer_id (at_type t) (at_call_reference t) (at_circuit_id t) \<and> H i \<noteq> None) \<and>
     (\<forall>i h. H i = Some h \<longrightarrow> (\<exists>k. K h = Some k \<and> tt_id k = i)) \<and>
     (\<forall>h k. K h = Some k \<longrightarrow>
        h < n \<and> H (tt_id k) = Some h \<and> A (tt_id k) = Some (tt_timer k) \<and>
        tt_deadline k = at_start_time (tt_timer k) + at_duration (tt_timer k))"

definition timer_inv :: "timer_manager \<Rightarrow> bool" where
  "timer_inv m \<longleftrightarrow>
     distinct (map fst (tm_active m)) \<and> distinct (map fst (tm_tasks m)) \<and>
     timer_maps (map_of (tm_active m)) (map_of (tm_handles m)) (map_of (tm_tasks m)) (tm_next_task m)"

lemma timer_maps_remove:
  "timer_maps A H K n \<Longrightarrow> H i = Some h \<Longrightarrow> timer_maps (A(i := None)) (H(i := None)) (K(h := None)) n"
proof -
  assume m: "timer_maps A H K n" and h: "H i = Some h"
  have ne: "tt_id k' \<noteq> i" if "K h' = Some k'" "h' \<noteq> h" for h' k'
    using m h that unfolding timer_maps_def by (metis option.inject)
  have nh: "h' \<noteq> h" if "H j = Some h'" "j \<noteq> i" for h' j
    using m h that unfolding timer_maps_def by (metis option.inject)
  show ?thesis
    using m ne nh unfolding timer_maps_def by (simp add: fun_upd_def)
qed

lemma timer_maps_absent: "timer_maps A H K n \<Longrightarrow> H i = None \<longleftrightarrow> A i = None"
  unfolding timer_maps_def by (metis not_Some_eq)

lemma timer_maps_task:
  "timer_maps A H K n \<Longrightarrow> K h = Some k \<Longrightarrow> H (tt_id k) = Some h \<and> A (tt_id k) = Some (tt_timer k)"
  unfolding timer_maps_def by blast

lemma timer_maps_insert:
  assumes "timer_maps A H K n" "A i = None"
    and "i = generate_timer_id (at_type t) (at_call_reference t) (at_circuit_id t)"
    and "tt_id k = i" "tt_timer k = t" "tt_deadline k = at_start_time t + at_duration t"
  shows "timer_maps (A(i \<mapsto> t)) (H(i \<mapsto> n)) (K(n \<mapsto> k)) (Suc n)"
  unfolding timer_maps_def
proof (intro conjI allI impI)
  have H: "H i = None" using timer_maps_absent [OF assms(1)] assms(2) by blast
  have n: "K n = None" using assms(1) unfolding timer_maps_def by (metis less_irrefl not_Some_eq)
  fix j u assume j: "(A(i \<mapsto> t)) j = Some u"
  then show "j = generate_timer_id (at_type u) (at_call_reference u) (at_circuit_id u)"
    using assms by (auto simp: timer_maps_def split: if_splits)
  show "(H(i \<mapsto> n)) j \<noteq> None"
    using j assms(1) by (auto simp: timer_maps_def split: if_splits)
next
  have n: "K n = None" using assms(1) unfolding timer_maps_def by (metis less_irrefl not_Some_eq)
  fix j h assume "(H(i \<mapsto> n)) j = Some h"
  then show "\<exists>k'. (K(n \<mapsto> k)) h = Some k' \<and> tt_id k' = j"
    using assms n by (fastforce simp: timer_maps_def split: if_splits)
next
  have H: "H i = None" using timer_maps_absent [OF assms(1)] assms(2) by blast
  fix h k' assume k': "(K(n \<mapsto> k)) h = Some k'"
  have ne: "tt_id k' \<noteq> i" if "K h = Some k'"
    using that assms(1,2) by (auto simp: timer_maps_def)
  show "h < Suc n"
    using k' assms(1) by (auto simp: timer_maps_def less_Suc_eq split: if_splits)
  show "(H(i \<mapsto> n)) (tt_id k') = Some h" "(A(i \<mapsto> t)) (tt_id k') = Some (tt_timer k')"
    "tt_deadline k' = at_start_time (tt_timer k') + at_duration (tt_timer k')"
    using k' assms ne by (auto simp: timer_maps_def split: if_splits)
qed

lemma timer_inv_new: "timer_inv (new_timer_manager v s)"
  by (simp add: timer_inv_def new_timer_manager_def timer_maps_def)

lemma timer_inv_distinct: "timer_inv m \<Longrightarrow> distinct (map fst (tm_active m))"
  by (simp add: timer_inv_def)

lemma timer_inv_maps:
  "timer_inv m \<Longrightarrow>
    timer_maps (map_of (tm_active m)) (map_of (tm_handles m)) (map_of (tm_tasks m)) (tm_next_task m)"
  by (simp add: timer_inv_def)

lemma timer_inv_id:
  "timer_inv m \<Longrightarrow> map_of (tm_active m) i = Some t \<Longrightarrow>
    i = generate_timer_id (at_type t) (at_call_reference t) (at_circuit_id t)"
  using timer_inv_maps [of m] by (simp add: timer_maps_def)

lemma cancel_timer_inv: "timer_inv m \<Longrightarrow> timer_inv (snd (cancel_timer i m))"
proof -
  assume inv: "timer_inv m"
  show ?thesis
  proof (cases "map_of (tm_handles m) i")
    case None
    with timer_maps_absent [OF timer_inv_maps [OF inv]] have "map_of (tm_active m) i = None" by blast
    then have "(map_of (tm_active m))(i := None) = map_of (tm_active m)" by auto
    with inv None show ?thesis
      by (simp add: timer_inv_def cancel_timer_def Let_def delete_conv' del: map_of_delete)
  next
    case (Some h)
    with inv timer_maps_remove [OF timer_inv_maps [OF inv] Some] show ?thesis
      by (simp add: timer_inv_def cancel_timer_def Let_def delete_conv' del: map_of_delete)
  qed
qed

lemma cancel_ids_inv: "timer_inv m \<Longrightarrow> timer_inv (snd (cancel_ids is m))"
  by (induction "is" arbitrary: m) (simp_all add: split_beta Let_def cancel_timer_inv)

lemma cancel_call_timers_inv: "timer_inv m \<Longrightarrow> timer_inv (snd (cancel_call_timers crv m))"
  by (simp add: cancel_call_timers_def cancel_ids_inv)

lemma cancel_circuit_timers_inv: "timer_inv m \<Longrightarrow> timer_inv (snd (cancel_circuit_timers c m))"
  by (simp add: cancel_circuit_timers_def cancel_ids_inv)

lemma start_timer_inv: "timer_inv m \<Longrightarrow> timer_inv (snd (start_timer now ty crv circuit d a m))"
proof -
  assume "timer_inv m"
  define i where "i = generate_timer_id ty crv circuit"
  define m1 where "m1 = snd (cancel_timer i m)"
  have inv: "timer_inv m1" unfolding m1_def by (rule cancel_timer_inv) fact
  have free: "map_of (tm_active m1) i = None" by (simp add: m1_def cancel_timer_simps)
  define t where "t = new_active_timer now ty crv circuit
    (case d of Some d \<Rightarrow> d | None \<Rightarrow> default_duration ty (tm_variant m) (tm_side_type m)) a"
  define k where "k = \<lparr>tt_id = i, tt_timer = t, tt_deadline = expiration_instant now t\<rparr>"
  have "timer_maps ((map_of (tm_active m1))(i \<mapsto> t)) ((map_of (tm_handles m1))(i \<mapsto> tm_next_task m1))
      ((map_of (tm_tasks m1))(tm_next_task m1 \<mapsto> k)) (Suc (tm_next_task m1))"
    by (rule timer_maps_insert [OF timer_inv_maps [OF inv] free])
      (simp_all add: i_def k_def t_def new_active_timer_def expiration_instant_def timer_remaining_def)
  moreover have "tm_next_task m1 \<notin> fst ` set (tm_tasks m1)"
  proof
    assume "tm_next_task m1 \<in> fst ` set (tm_tasks m1)"
    then obtain k' where "map_of (tm_tasks m1) (tm_next_task m1) = Some k'"
      by (metis domD dom_map_of_conv_image_fst)
    with timer_inv_maps [OF inv] show False by (auto simp: timer_maps_def)
  qed
  ultimately show ?thesis
    using inv
    by (simp add: timer_inv_def start_timer_def split_beta Let_def spawn_timer_task_def update_conv'
        del: map_of_update flip: i_def m1_def t_def k_def)
qed

lemma timer_task_wakes_inv: "timer_inv m \<Longrightarrow> timer_inv (snd (timer_task_wakes now h m))"
proof -
  assume inv: "timer_inv m"
  show ?thesis
  proof (cases "map_of (tm_tasks m) h")
    case (Some k)
    note task = timer_maps_task [OF timer_inv_maps [OF inv] Some]
    with inv Some timer_maps_remove [OF timer_inv_maps [OF inv] conjunct1 [OF task]] show ?thesis
      by (simp add: timer_inv_def timer_task_wakes_def Let_def delete_conv'
          del: map_of_delete map_of_eq_Some_iff)
  qed (simp add: timer_task_wakes_def inv)
qed

section \<open>The interface the call layer uses\<close>

locale timer_service =
  fixes active :: "'m \<Rightarrow> string \<Rightarrow> active_pri_timer option"
    and start :: "nat \<Rightarrow> pri_timer_type \<Rightarrow> u16 \<Rightarrow> u16 \<Rightarrow> pri_timer_action \<Rightarrow> 'm \<Rightarrow> 'm"
    and cancel_call :: "u16 \<Rightarrow> 'm \<Rightarrow> 'm"
    and duration :: "'m \<Rightarrow> pri_timer_type \<Rightarrow> nat"
    and ok :: "'m \<Rightarrow> bool"
  assumes ok_start: "ok m \<Longrightarrow> ok (start now ty crv c a m)"
    and ok_cancel: "ok m \<Longrightarrow> ok (cancel_call crv m)"
    and duration_start: "duration (start now ty crv c a m) = duration m"
    and duration_cancel: "duration (cancel_call crv m) = duration m"
    and active_start: "active (start now ty crv c a m) i =
      (if i = generate_timer_id ty crv c then Some (new_active_timer now ty crv c (duration m ty) a)
       else active m i)"
    and active_cancel: "ok m \<Longrightarrow> active (cancel_call crv m) i =
      (case active m i of Some t \<Rightarrow> if at_call_reference t = crv then None else Some t | None \<Rightarrow> None)"
    and active_id: "ok m \<Longrightarrow> active m i = Some t \<Longrightarrow>
      i = generate_timer_id (at_type t) (at_call_reference t) (at_circuit_id t)"
begin

lemma none_after_cancel: "ok m \<Longrightarrow> active (cancel_call crv m) i = Some t \<Longrightarrow> at_call_reference t \<noteq> crv"
  by (auto simp: active_cancel split: option.splits if_splits)

lemma cancel_gone: "ok m \<Longrightarrow> active m i = Some t \<Longrightarrow> active (cancel_call (at_call_reference t) m) i = None"
  by (simp add: active_cancel)

lemma cancel_keeps: "ok m \<Longrightarrow> active m i = Some t \<Longrightarrow> at_call_reference t \<noteq> crv \<Longrightarrow>
    active (cancel_call crv m) i = Some t"
  by (simp add: active_cancel)

lemma only_started:
  "ok m \<Longrightarrow> active (start now ty crv c a (cancel_call crv m)) i = Some t \<Longrightarrow> at_call_reference t = crv \<Longrightarrow>
    i = generate_timer_id ty crv c \<and> t = new_active_timer now ty crv c (duration m ty) a"
  by (cases "i = generate_timer_id ty crv c") (auto simp: active_start duration_cancel dest: none_after_cancel)

end

interpretation pri: timer_service
  "\<lambda>m. map_of (tm_active m)"
  "\<lambda>now ty crv c a m. snd (start_timer now ty crv c None a m)"
  "\<lambda>crv m. snd (cancel_call_timers crv m)"
  "\<lambda>m ty. default_duration ty (tm_variant m) (tm_side_type m)"
  timer_inv
proof unfold_locales
  fix m :: timer_manager and crv i
  assume inv: "timer_inv m"
  then have act: "tm_active (snd (cancel_call_timers crv m)) =
      filter (\<lambda>(i, t). at_call_reference t \<noteq> crv) (tm_active m)"
    unfolding cancel_call_timers_def by (rule cancel_matching(1) [OF timer_inv_distinct])
  show "map_of (tm_active (snd (cancel_call_timers crv m))) i =
      (case map_of (tm_active m) i of
         Some t \<Rightarrow> if at_call_reference t = crv then None else Some t | None \<Rightarrow> None)"
    unfolding act using timer_inv_distinct [OF inv] by (rule map_of_filter_snd)
qed (auto simp: start_timer_inv cancel_call_timers_inv timer_inv_id step_simps cancel_call_timers_def
    cancel_ids_variant cancel_ids_inv del: map_of_eq_Some_iff)

section \<open>The manager as a state machine\<close>

inductive timer_step :: "timer_manager \<Rightarrow> timer_manager \<Rightarrow> bool" where
  start: "timer_step m (snd (start_timer now ty crv circuit d a m))"
| cancel: "timer_step m (snd (cancel_timer i m))"
| cancel_call: "timer_step m (snd (cancel_call_timers crv m))"
| cancel_circuit: "timer_step m (snd (cancel_circuit_timers c m))"
| wake: "timer_step m (snd (timer_task_wakes now h m))"

inductive_cases timer_stepE: "timer_step m m'"

interpretation timers: invariant_machine "\<lambda>m. \<exists>v s. m = new_timer_manager v s" timer_step timer_inv
proof unfold_locales
  show "timer_inv m" if "\<exists>v s. m = new_timer_manager v s" for m
    using that timer_inv_new by blast
  show "timer_inv t" if "timer_inv s" "timer_step s t" for s t
    using that by (auto elim!: timer_stepE intro: start_timer_inv cancel_timer_inv
        cancel_call_timers_inv cancel_circuit_timers_inv timer_task_wakes_inv)
qed

text \<open>C16: in every reachable state of the timer manager an active timer is stored under the
  identifier of its type, call reference and circuit and has exactly one running task, which
  sleeps until the start of the timer plus its duration; there are no other tasks, so no task
  of a cancelled or restarted timer survives.\<close>

theorem pri_timer_invariant:
  assumes "timer_step\<^sup>*\<^sup>* (new_timer_manager v s) m"
  shows "(map_of (tm_active m) i = Some t \<longleftrightarrow>
      (\<exists>h k. map_of (tm_tasks m) h = Some k \<and> tt_id k = i \<and> tt_timer k = t \<and>
        tt_deadline k = at_start_time t + at_duration t \<and>
        i = generate_timer_id (at_type t) (at_call_reference t) (at_circuit_id t))) \<and>
    (\<forall>h h' k k'. map_of (tm_tasks m) h = Some k \<longrightarrow> map_of (tm_tasks m) h' = Some k' \<longrightarrow>
      tt_id k = tt_id k' \<longrightarrow> h = h')"
proof -
  have "timer_inv m" using timers.reachable_inv [OF _ assms] by blast
  note maps = timer_inv_maps [OF this]
  have "\<exists>h k. map_of (tm_tasks m) h = Some k \<and> tt_id k = i"
    if "map_of (tm_active m) i = Some t" for i t
    using maps that unfolding timer_maps_def by (metis not_Some_eq)
  moreover have "map_of (tm_active m) (tt_id k) = Some (tt_timer k) \<and>
      map_of (tm_handles m) (tt_id k) = Some h \<and>
      tt_deadline k = at_start_time (tt_timer k) + at_duration (tt_timer k) \<and>
      tt_id k = generate_timer_id (at_type (tt_timer k)) (at_call_reference (tt_timer k)) (at_circuit_id (tt_timer k))"
    if "map_of (tm_tasks m) h = Some k" for h k
    using maps that unfolding timer_maps_def by metis
  ultimately show ?thesis by (smt (verit) option.inject)
qed

theorem pri_timer_invariant_witness:
  "\<exists>m. timer_step\<^sup>*\<^sup>* (new_timer_manager NI2 SideUser) m \<and>
     map_of (tm_active m) ''T303-CRV7-C1'' = Some (new_active_timer 5 T303 7 1 (from_secs 4) NoAction) \<and>
     (\<exists>h k. map_of (tm_tasks m) h = Some k \<and> tt_id k = ''T303-CRV7-C1'')"
proof -
  let ?m = "snd (start_timer 5 T303 7 1 None NoAction (new_timer_manager NI2 SideUser))"
  have r: "timer_step\<^sup>*\<^sup>* (new_timer_manager NI2 SideUser) ?m"
    by (rule r_into_rtranclp) (rule timer_step.start)
  have i: "generate_timer_id T303 7 1 = ''T303-CRV7-C1''" by code_simp
  have a: "map_of (tm_active ?m) ''T303-CRV7-C1'' = Some (new_active_timer 5 T303 7 1 (from_secs 4) NoAction)"
    using i by (simp add: step_simps) (simp add: new_timer_manager_def)
  with pri_timer_invariant [OF r, of "''T303-CRV7-C1''"] r show ?thesis by blast
qed

text \<open>a task that wakes up reports only a timer that is active at that moment and whose
  duration has passed, and removes exactly this one.\<close>

theorem pri_timer_expiry:
  assumes "timer_step\<^sup>*\<^sup>* (new_timer_manager v s) m" and "fst (timer_task_wakes now h m) \<noteq> []"
  shows "\<exists>i t. fst (timer_task_wakes now h m) = [\<lparr>te_timer = t, te_timestamp = now\<rparr>] \<and>
    map_of (tm_active m) i = Some t \<and> at_start_time t + at_duration t \<le> now \<and>
    tm_active (snd (timer_task_wakes now h m)) = AList.delete i (tm_active m)"
proof -
  have "timer_inv m" using timers.reachable_inv [OF _ assms(1)] by blast
  note maps = timer_inv_maps [OF this]
  from assms(2) obtain k where k: "map_of (tm_tasks m) h = Some k" "tt_deadline k \<le> now"
    by (auto simp: timer_task_wakes_def split: option.splits if_splits)
  from timer_maps_task [OF maps k(1)]
  have a: "map_of (tm_active m) (tt_id k) = Some (tt_timer k)" by blast
  have d: "tt_deadline k = at_start_time (tt_timer k) + at_duration (tt_timer k)"
    using maps k(1) unfolding timer_maps_def by blast
  show ?thesis
  proof (intro exI conjI)
    show "map_of (tm_active m) (tt_id k) = Some (tt_timer k)" by (rule a)
    show "fst (timer_task_wakes now h m) = [\<lparr>te_timer = tt_timer k, te_timestamp = now\<rparr>]"
      "tm_active (snd (timer_task_wakes now h m)) = AList.delete (tt_id k) (tm_active m)"
      using k a by (simp_all add: timer_task_wakes_def Let_def del: map_of_eq_Some_iff)
    show "at_start_time (tt_timer k) + at_duration (tt_timer k) \<le> now" using d k(2) by simp
  qed
qed

theorem pri_timer_expiry_witness:
  "\<exists>m t. fst (timer_task_wakes (from_secs 9) 0 m) = [\<lparr>te_timer = t, te_timestamp = from_secs 9\<rparr>] \<and>
     at_type t = T303"
proof -
  let ?m = "snd (start_timer 5 T303 7 1 None NoAction (new_timer_manager NI2 SideUser))"
  have r: "timer_step\<^sup>*\<^sup>* (new_timer_manager NI2 SideUser) ?m"
    by (rule r_into_rtranclp) (rule timer_step.start)
  have a: "tm_active ?m = [(generate_timer_id T303 7 1, new_active_timer 5 T303 7 1 (from_secs 4) NoAction)]"
    by (simp add: step_simps) (simp add: new_timer_manager_def)
  have "fst (timer_task_wakes (from_secs 9) 0 ?m) \<noteq> []"
    by (simp add: start_timer_def new_timer_manager_def cancel_timer_def spawn_timer_task_def
        timer_task_wakes_def expiration_instant_def timer_remaining_def from_secs_def Let_def)
  from pri_timer_expiry [OF r this] a show ?thesis
    by (fastforce split: if_splits)
qed

text \<open>cancelling the timers of a call reference removes exactly the timers with this call
  reference and reports their number. The circuit is not looked at: calls of other circuits with
  the same reference lose their timers too.\<close>

theorem pri_cancel_call_timers:
  assumes "distinct (map fst (tm_active m))"
  shows "tm_active (snd (cancel_call_timers crv m)) =
      filter (\<lambda>(i, t). at_call_reference t \<noteq> crv) (tm_active m) \<and>
    fst (cancel_call_timers crv m) = length (get_call_timers crv m)"
proof -
  have "length (get_call_timers crv m) = length (filter (\<lambda>(i, t). at_call_reference t = crv) (tm_active m))"
    by (simp add: get_call_timers_def filter_map comp_def split_def)
  with cancel_matching [OF assms, of "\<lambda>t. at_call_reference t = crv"] show ?thesis
    by (simp add: cancel_call_timers_def)
qed

theorem pri_cancel_call_timers_witness:
  "fst (cancel_call_timers 7 (snd (start_timer 9 T301 7 2 None NoAction
     (snd (start_timer 5 T303 7 1 None NoAction (new_timer_manager NI2 SideUser)))))) = 2"
proof -
  let ?m = "snd (start_timer 5 T303 7 1 None NoAction (new_timer_manager NI2 SideUser))"
  have inv: "timer_inv (snd (start_timer 9 T301 7 2 None NoAction ?m))"
    by (intro start_timer_inv timer_inv_new)
  have "generate_timer_id T301 7 2 \<noteq> generate_timer_id T303 7 1" by (auto dest: generate_timer_id_inject)
  then have "length (get_call_timers 7 (snd (start_timer 9 T301 7 2 None NoAction ?m))) = 2"
    by (simp add: get_call_timers_def step_simps) (simp add: new_timer_manager_def)
  with pri_cancel_call_timers [OF timer_inv_distinct [OF inv], of 7] show ?thesis by simp
qed

end
