(* ===== verification/IsdnStack.thy ===== *)
theory IsdnStack
  imports Q921 PriTimers
begin

text \<open>
  The ISDN stack manager (\<open>src/isdn_stack_manager.rs\<close>): calls of the circuits, driven
  by Q.931 messages, timer expirations and LAPD events. A handler returns the stack events it
  broadcasts and the new state. The CESoPSN integration below the stack is not part of the model;
  what the stack asks of it is an argument.
\<close>

section \<open>State\<close>

datatype (plugins only: code size) isdn_call_state =
  CS_Null | CS_CallInitiated | CS_OverlapSending | CS_OutgoingCallProceeding | CS_CallDelivered
| CS_CallPresent | CS_CallReceived | CS_ConnectRequest | CS_IncomingCallProceeding | CS_Active
| CS_DisconnectRequest | CS_DisconnectIndication | CS_SuspendRequest | CS_ResumeRequest
| CS_ReleaseRequest | CS_CallAbort | CS_OverlapReceiving | CS_RestartRequest | CS_Restart

record isdn_call =
  ic_call_reference :: u16
  ic_circuit_id :: u16
  ic_state :: isdn_call_state
  ic_calling_number :: string
  ic_called_number :: string
  ic_start_time :: nat
  ic_last_activity :: nat
  ic_active_timers :: "string list"
  ic_bearer_channel :: "u8 option"

definition new_isdn_call :: "nat \<Rightarrow> u16 \<Rightarrow> u16 \<Rightarrow> isdn_call" where
  "new_isdn_call now crv circuit =
     \<lparr>ic_call_reference = crv, ic_circuit_id = circuit, ic_state = CS_Null,
      ic_calling_number = '''', ic_called_number = '''', ic_start_time = now,
      ic_last_activity = now, ic_active_timers = [], ic_bearer_channel = None\<rparr>"

definition update_state :: "nat \<Rightarrow> isdn_call_state \<Rightarrow> isdn_call \<Rightarrow> isdn_call" where
  "update_state now st c = c\<lparr>ic_state := st, ic_last_activity := now\<rparr>"

text \<open>The confidence of a DTMF detection, an \<open>f32\<close> that is only passed on, is kept as
  its 32 bits.\<close>

datatype stack_event =
  CallStateChanged u16 u16 isdn_call_state isdn_call_state
| CallEstablished u16 u16 string string u8
| CallReleased u16 u16 cause_value nat
| DtmfDetected u16 u8 char u32
| CircuitStateChanged u16 string string
| StackError u16 string string

datatype health_status = Healthy | HealthWarning | Critical | HealthUnknown

record isdn_statistics =
  is_q931_messages :: "(q931_message_type \<times> u64) list"
  is_timer_expirations :: "(pri_timer_type \<times> u64) list"
  is_lapd_frames :: u64

record isdn_stack =
  st_lapd_managers :: "(u16 \<times> lapd_manager) list"
  st_timers :: timer_manager
  st_calls :: "(u16 \<times> (u16 \<times> isdn_call) list) list"
  st_health :: "(u16 \<times> health_status) list"
  st_statistics :: isdn_statistics

definition new_isdn_stack :: "isdn_variant \<Rightarrow> isdn_side_type \<Rightarrow> isdn_stack" where
  "new_isdn_stack v s =
     \<lparr>st_lapd_managers = [], st_timers = new_timer_manager v s, st_calls = [], st_health = [],
      st_statistics = \<lparr>is_q931_messages = [], is_timer_expirations = [], is_lapd_frames = 0\<rparr>\<rparr>"

text \<open>A counter of a statistics map: \<open>*entry(key).or_insert(0) += 1\<close>.\<close>

definition bump :: "'k \<Rightarrow> ('k \<times> u64) list \<Rightarrow> ('k \<times> u64) list" where
  "bump k al = AList.update k ((case map_of al k of Some n \<Rightarrow> n | None \<Rightarrow> 0) + 1) al"

definition circuit_calls :: "isdn_stack \<Rightarrow> u16 \<Rightarrow> (u16 \<times> isdn_call) list" where
  "circuit_calls s c = (case map_of (st_calls s) c of Some cc \<Rightarrow> cc | None \<Rightarrow> [])"

definition put_calls :: "u16 \<Rightarrow> (u16 \<times> isdn_call) list \<Rightarrow> isdn_stack \<Rightarrow> isdn_stack" where
  "put_calls c cc s = s\<lparr>st_calls := AList.update c cc (st_calls s)\<rparr>"

text \<open>The call of a circuit and a call reference.\<close>

definition call_at :: "isdn_stack \<Rightarrow> u16 \<Rightarrow> u16 \<Rightarrow> isdn_call option" where
  "call_at s c crv = map_of (circuit_calls s c) crv"

section \<open>Circuits\<close>

datatype isdn_init_error = AddCircuitFailed | LapdEstablishFailed lapd_error | TrackAllocationFailed

text \<open>
  \<open>initialize_circuit\<close>. The receiver of the D-channel lives in a local variable that
  nothing reads, so the sender is closed when the function returns. \<open>add_ok\<close> and
  \<open>track_ok\<close> are the results of the CESoPSN integration and of the memory tracker.
\<close>

definition initialize_circuit ::
    "bool \<Rightarrow> bool \<Rightarrow> nat \<Rightarrow> u16 \<Rightarrow> isdn_variant \<Rightarrow> isdn_side_type \<Rightarrow> isdn_stack \<Rightarrow>
     isdn_init_error option \<times> isdn_stack" where
  "initialize_circuit add_ok track_ok now circuit v side s =
    (if \<not> add_ok then (Some AddCircuitFailed, s)
     else
       let m = new_lapd_manager v side True;
           (r, m, _) = establish_connection m now 0 0
       in case r of
            Some e \<Rightarrow> (Some (LapdEstablishFailed e), s)
          | None \<Rightarrow>
              let m = m\<lparr>lm_tx_open := False\<rparr>;
                  s = s\<lparr>st_lapd_managers := AList.update circuit m (st_lapd_managers s),
                        st_calls := AList.update circuit [] (st_calls s),
                        st_health := AList.update circuit Healthy (st_health s)\<rparr>
              in if track_ok then (None, s) else (Some TrackAllocationFailed, s))"

section \<open>Q.931 messages\<close>

text \<open>One definition per branch of \<open>process_q931_message\<close>; \<open>cc\<close> are the
  calls of the circuit.\<close>

definition handle_setup ::
    "nat \<Rightarrow> u16 \<Rightarrow> q931_message \<Rightarrow> (u16 \<times> isdn_call) list \<Rightarrow> isdn_stack \<Rightarrow> stack_event list \<times> isdn_stack" where
  "handle_setup now circuit msg cc s =
    (let crv = cr_value (call_ref msg);
         call = update_state now CS_CallPresent (new_isdn_call now crv circuit);
         call = (case find_ie msg IE_CallingPartyNumber of
                   Some ie \<Rightarrow> call\<lparr>ic_calling_number := from_utf8_lossy (ie_data ie)\<rparr> | None \<Rightarrow> call);
         call = (case find_ie msg IE_CalledPartyNumber of
                   Some ie \<Rightarrow> call\<lparr>ic_called_number := from_utf8_lossy (ie_data ie)\<rparr> | None \<Rightarrow> call);
         (timer_id, tm) = start_timer now T303 crv circuit None (clear_call_action 102) (st_timers s);
         call = call\<lparr>ic_active_timers := ic_active_timers call @ [timer_id]\<rparr>
     in ([CallStateChanged circuit crv CS_Null CS_CallPresent],
         put_calls circuit (AList.update crv call cc) (s\<lparr>st_timers := tm\<rparr>)))"

definition handle_call_proceeding ::
    "nat \<Rightarrow> u16 \<Rightarrow> u16 \<Rightarrow> (u16 \<times> isdn_call) list \<Rightarrow> isdn_stack \<Rightarrow> stack_event list \<times> isdn_stack" where
  "handle_call_proceeding now circuit crv cc s =
    (case map_of cc crv of
       None \<Rightarrow> ([], s)
     | Some call \<Rightarrow>
         let old_state = ic_state call;
             call = update_state now CS_IncomingCallProceeding call;
             (_, tm) = cancel_call_timers crv (st_timers s);
             (timer_id, tm) = start_timer now T310 crv circuit None (clear_call_action 102) tm;
             call = call\<lparr>ic_active_timers := ic_active_timers call @ [timer_id]\<rparr>
         in ([CallStateChanged circuit crv old_state (ic_state call)],
             put_calls circuit (AList.update crv call cc) (s\<lparr>st_timers := tm\<rparr>)))"

definition handle_alerting ::
    "nat \<Rightarrow> u16 \<Rightarrow> u16 \<Rightarrow> (u16 \<times> isdn_call) list \<Rightarrow> isdn_stack \<Rightarrow> stack_event list \<times> isdn_stack" where
  "handle_alerting now circuit crv cc s =
    (case map_of cc crv of
       None \<Rightarrow> ([], s)
     | Some call \<Rightarrow>
         let old_state = ic_state call;
             call = update_state now CS_CallDelivered call;
             (timer_id, tm) = start_timer now T301 crv circuit None (clear_call_action 19) (st_timers s);
             call = call\<lparr>ic_active_timers := ic_active_timers call @ [timer_id]\<rparr>
         in ([CallStateChanged circuit crv old_state (ic_state call)],
             put_calls circuit (AList.update crv call cc) (s\<lparr>st_timers := tm\<rparr>)))"

definition handle_connect ::
    "nat \<Rightarrow> u16 \<Rightarrow> u16 \<Rightarrow> (u16 \<times> isdn_call) list \<Rightarrow> isdn_stack \<Rightarrow> stack_event list \<times> isdn_stack" where
  "handle_connect now circuit crv cc s =
    (case map_of cc crv of
       None \<Rightarrow> ([], s)
     | Some call \<Rightarrow>
         let call = update_state now CS_Active call;
             (_, tm) = cancel_call_timers crv (st_timers s);
             call = call\<lparr>ic_active_timers := []\<rparr>
         in ([CallEstablished circuit crv (ic_calling_number call) (ic_called_number call)
                (case ic_bearer_channel call of Some b \<Rightarrow> b | None \<Rightarrow> 1)],
             put_calls circuit (AList.update crv call cc) (s\<lparr>st_timers := tm\<rparr>)))"

definition handle_disconnect ::
    "nat \<Rightarrow> u16 \<Rightarrow> u16 \<Rightarrow> (u16 \<times> isdn_call) list \<Rightarrow> isdn_stack \<Rightarrow> stack_event list \<times> isdn_stack" where
  "handle_disconnect now circuit crv cc s =
    (case map_of cc crv of
       None \<Rightarrow> ([], s)
     | Some call \<Rightarrow>
         let call = update_state now CS_DisconnectIndication call;
             (timer_id, tm) = start_timer now T305 crv circuit None (send_message_action MT_Release) (st_timers s);
             call = call\<lparr>ic_active_timers := ic_active_timers call @ [timer_id]\<rparr>
         in ([], put_calls circuit (AList.update crv call cc) (s\<lparr>st_timers := tm\<rparr>)))"

text \<open>The branches for Release and Release Complete are the same.\<close>

definition handle_release ::
    "nat \<Rightarrow> u16 \<Rightarrow> u16 \<Rightarrow> (u16 \<times> isdn_call) list \<Rightarrow> isdn_stack \<Rightarrow> stack_event list \<times> isdn_stack" where
  "handle_release now circuit crv cc s =
    (case map_of cc crv of
       None \<Rightarrow> ([], s)
     | Some call \<Rightarrow>
         let (_, tm) = cancel_call_timers crv (st_timers s)
         in ([CallReleased circuit crv Cause_Normal (now - ic_start_time call)],
             put_calls circuit (AList.delete crv cc) (s\<lparr>st_timers := tm\<rparr>)))"

definition process_q931_message ::
    "nat \<Rightarrow> u16 \<Rightarrow> q931_message \<Rightarrow> isdn_stack \<Rightarrow> stack_event list \<times> isdn_stack" where
  "process_q931_message now circuit msg s =
    (let crv = cr_value (call_ref msg);
         cc = circuit_calls s circuit;
         s = put_calls circuit cc s
     in case message_type msg of
          MT_Setup \<Rightarrow> handle_setup now circuit msg cc s
        | MT_CallProceeding \<Rightarrow> handle_call_proceeding now circuit crv cc s
        | MT_Alerting \<Rightarrow> handle_alerting now circuit crv cc s
        | MT_Connect \<Rightarrow> handle_connect now circuit crv cc s
        | MT_Disconnect \<Rightarrow> handle_disconnect now circuit crv cc s
        | MT_Release \<Rightarrow> handle_release now circuit crv cc s
        | MT_ReleaseComplete \<Rightarrow> handle_release now circuit crv cc s
        | _ \<Rightarrow> ([], s))"

section \<open>Events of the layers below\<close>

definition process_lapd_event ::
    "nat \<Rightarrow> u16 \<Rightarrow> lapd_event \<Rightarrow> isdn_stack \<Rightarrow> stack_event list \<times> isdn_stack" where
  "process_lapd_event now circuit ev s =
    (case ev of
       DataReceived sapi tei data \<Rightarrow>
         let (evs, s) =
           (case parse_message data of
              Inr msg \<Rightarrow>
                process_q931_message now circuit msg
                  (s\<lparr>st_statistics := (st_statistics s)\<lparr>is_q931_messages :=
                      bump (message_type msg) (is_q931_messages (st_statistics s))\<rparr>\<rparr>)
            | Inl _ \<Rightarrow> ([], s))
         in (evs, s\<lparr>st_statistics := (st_statistics s)\<lparr>is_lapd_frames :=
               is_lapd_frames (st_statistics s) + 1\<rparr>\<rparr>)
     | LinkEstablished _ _ \<Rightarrow> ([], s)
     | LinkReleased _ _ \<Rightarrow> ([], s)
     | LapdErrorEvent _ _ err \<Rightarrow> ([StackError circuit ''Q.921 LAPD'' err], s))"

definition timer_cause :: "u8 \<Rightarrow> cause_value" where
  "timer_cause cause =
    (if cause = 102 then Cause_RecoveryOnTimerExpiry
     else if cause = 19 then Cause_NoAnswer else Cause_NormalUnspecified)"

definition process_timer_event ::
    "nat \<Rightarrow> timer_expired_event \<Rightarrow> isdn_stack \<Rightarrow> stack_event list \<times> isdn_stack" where
  "process_timer_event now ev s =
    (let t = te_timer ev;
         s = s\<lparr>st_statistics := (st_statistics s)\<lparr>is_timer_expirations :=
               bump (at_type t) (is_timer_expirations (st_statistics s))\<rparr>\<rparr>
     in case at_action t of
          ClearCall cause \<Rightarrow>
            (case map_of (st_calls s) (at_circuit_id t) of
               None \<Rightarrow> ([], s)
             | Some cc \<Rightarrow>
                 (case map_of cc (at_call_reference t) of
                    None \<Rightarrow> ([], s)
                  | Some call \<Rightarrow>
                      ([CallReleased (at_circuit_id t) (at_call_reference t) (timer_cause cause)
                          (now - ic_start_time call)],
                       put_calls (at_circuit_id t) (AList.delete (at_call_reference t) cc) s)))
        | _ \<Rightarrow> ([], s))"

datatype cesopsn_event =
  CeDtmfDetected u16 u8 char u32
| CeCircuitStateChanged u16 string string
| CeOther

fun process_cesopsn_event :: "cesopsn_event \<Rightarrow> stack_event list" where
  "process_cesopsn_event (CeDtmfDetected c ch d conf) = [DtmfDetected c ch d conf]"
| "process_cesopsn_event (CeCircuitStateChanged c old new) = [CircuitStateChanged c old new]"
| "process_cesopsn_event CeOther = []"

section \<open>Health and shutdown\<close>

text \<open>
  \<open>assess_circuit_health\<close>. \<open>stats\<close> is what the CESoPSN integration answers:
  nothing on an error, or the statistics, with the comparisons of the loss rate of the circuit's
  entry with 5% and with 1% if there is one.
\<close>

definition assess_circuit_health ::
    "nat \<Rightarrow> u16 \<Rightarrow> (bool \<times> bool) option option \<Rightarrow> timer_manager \<Rightarrow> health_status" where
  "assess_circuit_health now circuit stats tm =
    (let circuit_timers = filter (\<lambda>t. at_circuit_id t = circuit) (get_all_timers tm);
         expired_timers = length (filter (timer_is_expired now) circuit_timers);
         timers =
           (if 10 < length circuit_timers then HealthWarning
            else if 3 < expired_timers then Critical
            else if 0 < expired_timers then HealthWarning
            else Healthy)
     in case stats of
          None \<Rightarrow> Critical
        | Some None \<Rightarrow> timers
        | Some (Some (above5, above1)) \<Rightarrow>
            if above5 then Critical else if above1 then HealthWarning else timers)"

definition overall_health :: "health_status list \<Rightarrow> health_status" where
  "overall_health hs =
    (if list_ex (\<lambda>h. h = Critical) hs then Critical
     else if list_ex (\<lambda>h. h = HealthWarning) hs then HealthWarning
     else if list_all (\<lambda>h. h = Healthy) hs then Healthy
     else HealthUnknown)"

definition shutdown_stack :: "isdn_stack \<Rightarrow> isdn_stack" where
  "shutdown_stack s =
     s\<lparr>st_timers := fold (\<lambda>call tm. snd (cancel_call_timers (ic_call_reference call) tm))
        (concat (map (\<lambda>(_, cc). map snd cc) (st_calls s))) (st_timers s)\<rparr>"

section \<open>What each handler does to calls and timers\<close>

lemma call_at_put [simp]:
  "call_at (put_calls c cc s) c' crv = (if c' = c then map_of cc crv else call_at s c' crv)"
  "call_at (s\<lparr>st_timers := tm\<rparr>) c' crv = call_at s c' crv"
  "call_at (s\<lparr>st_statistics := st\<rparr>) c' crv = call_at s c' crv"
  by (simp_all add: call_at_def circuit_calls_def put_calls_def)

lemma put_calls_simps [simp]:
  "st_timers (put_calls c cc s) = st_timers s"
  "st_lapd_managers (put_calls c cc s) = st_lapd_managers s"
  "st_statistics (put_calls c cc s) = st_statistics s"
  by (simp_all add: put_calls_def)

lemma circuit_calls_stat [simp]:
  "circuit_calls (s\<lparr>st_statistics := st\<rparr>) c = circuit_calls s c"
  "circuit_calls (s\<lparr>st_timers := tm\<rparr>) c = circuit_calls s c"
  "circuit_calls (put_calls c' cc s) c = (if c = c' then cc else circuit_calls s c)"
  by (simp_all add: circuit_calls_def put_calls_def)

lemma map_of_circuit_calls [simp]: "map_of (circuit_calls s c) crv = call_at s c crv"
  by (simp add: call_at_def)

lemmas handler_defs [step_simps] = handle_setup_def handle_call_proceeding_def handle_alerting_def
  handle_connect_def handle_disconnect_def handle_release_def

text \<open>The calls that a message does not name stay as they are.\<close>

lemma process_q931_other_call:
  "c' \<noteq> c \<or> crv' \<noteq> cr_value (call_ref msg) \<Longrightarrow>
    call_at (snd (process_q931_message now c msg s)) c' crv' = call_at s c' crv'"
  by (cases "message_type msg")
    (auto simp: process_q931_message_def handler_defs Let_def split_beta split: option.splits)

text \<open>a Connect for a call that exists makes it active, announces it once with its numbers,
  and leaves no timer of its call reference running; the other calls keep their state.\<close>

theorem isdn_connect:
  assumes "timer_inv (st_timers s)" and "call_at s c crv = Some call"
    and "message_type msg = MT_Connect" and "cr_value (call_ref msg) = crv"
  shows "fst (process_q931_message now c msg s) =
      [CallEstablished c crv (ic_calling_number call) (ic_called_number call)
        (case ic_bearer_channel call of Some b \<Rightarrow> b | None \<Rightarrow> 1)] \<and>
    (\<exists>call'. call_at (snd (process_q931_message now c msg s)) c crv = Some call' \<and>
      ic_state call' = CS_Active \<and> ic_active_timers call' = []) \<and>
    get_call_timers crv (st_timers (snd (process_q931_message now c msg s))) = [] \<and>
    (\<forall>c' crv'. (c', crv') \<noteq> (c, crv) \<longrightarrow>
      call_at (snd (process_q931_message now c msg s)) c' crv' = call_at s c' crv')"
proof -
  have tm: "st_timers (snd (process_q931_message now c msg s)) = snd (cancel_call_timers crv (st_timers s))"
    using assms by (simp add: process_q931_message_def handle_connect_def split_beta Let_def)
  have "get_call_timers crv (snd (cancel_call_timers crv (st_timers s))) = []"
    unfolding get_call_timers_def
    using cancel_matching(1) [OF timer_inv_distinct [OF assms(1)], of "\<lambda>t. at_call_reference t = crv"]
    by (auto simp: cancel_call_timers_def filter_empty_conv)
  with tm assms process_q931_other_call [of _ c _ msg now s] show ?thesis
    by (auto simp: process_q931_message_def handle_connect_def split_beta Let_def update_state_def)
qed

theorem isdn_connect_witness:
  "\<exists>s. fst (process_q931_message 9 1 (new_q931_message (new_call_reference 7 True) MT_Connect []) s) =
      [CallEstablished 1 7 '''' '''' 1] \<and>
    get_call_timers 7 (st_timers s) \<noteq> [] \<and>
    get_call_timers 7 (st_timers (snd (process_q931_message 9 1
      (new_q931_message (new_call_reference 7 True) MT_Connect []) s))) = []"
proof -
  let ?su = "new_q931_message (new_call_reference 7 True) MT_Setup []"
  let ?s = "snd (process_q931_message 5 1 ?su (new_isdn_stack NI2 SideUser))"
  have tm: "st_timers ?s = snd (start_timer 5 T303 7 1 None (ClearCall 102) (new_timer_manager NI2 SideUser))"
    by (simp add: process_q931_message_def handle_setup_def split_beta Let_def new_q931_message_def
        new_call_reference_def new_isdn_stack_def clear_call_action_def)
  have call: "call_at ?s 1 7 = Some \<lparr>ic_call_reference = 7, ic_circuit_id = 1, ic_state = CS_CallPresent,
      ic_calling_number = '''', ic_called_number = '''', ic_start_time = 5, ic_last_activity = 5,
      ic_active_timers = [generate_timer_id T303 7 1], ic_bearer_channel = None\<rparr>"
    by (simp add: process_q931_message_def handle_setup_def split_beta Let_def new_q931_message_def
        new_call_reference_def find_ie_def new_isdn_call_def update_state_def start_timer_simps)
  have "timer_inv (st_timers ?s)" unfolding tm by (intro start_timer_inv timer_inv_new)
  from isdn_connect [OF this call, of "new_q931_message (new_call_reference 7 True) MT_Connect []" 9]
  have "fst (process_q931_message 9 1 (new_q931_message (new_call_reference 7 True) MT_Connect []) ?s) =
      [CallEstablished 1 7 '''' '''' 1]"
    and "get_call_timers 7 (st_timers (snd (process_q931_message 9 1
      (new_q931_message (new_call_reference 7 True) MT_Connect []) ?s))) = []"
    by (simp_all add: new_q931_message_def new_call_reference_def)
  moreover have "get_call_timers 7 (st_timers ?s) \<noteq> []"
    unfolding tm by (simp add: get_call_timers_def start_timer_simps) (simp add: new_timer_manager_def)
  ultimately show ?thesis by blast
qed

text \<open>the same Connect also takes away the timers of a call of another circuit that has the
  same call reference; that call stays, in its state, with no timer left that could clear it.\<close>

theorem isdn_cross_circuit_timers:
  assumes "timer_inv (st_timers s)" and "call_at s c crv = Some call" and "call_at s c' crv = Some call'"
    and "c' \<noteq> c" and "message_type msg = MT_Connect" and "cr_value (call_ref msg) = crv"
  shows "call_at (snd (process_q931_message now c msg s)) c' crv = Some call' \<and>
    map_of (tm_active (st_timers (snd (process_q931_message now c msg s)))) (generate_timer_id ty crv c') = None"
proof -
  have tm: "st_timers (snd (process_q931_message now c msg s)) = snd (cancel_call_timers crv (st_timers s))"
    using assms by (simp add: process_q931_message_def handle_connect_def split_beta Let_def)
  have "map_of (tm_active (snd (cancel_call_timers crv (st_timers s)))) (generate_timer_id ty crv c') = None"
  proof (rule ccontr)
    assume "\<not> ?thesis"
    then obtain t where t: "map_of (tm_active (snd (cancel_call_timers crv (st_timers s))))
        (generate_timer_id ty crv c') = Some t" by blast
    from pri.none_after_cancel [OF assms(1) t] timer_inv_id [OF pri.ok_cancel [OF assms(1)] t]
    show False by (auto dest: generate_timer_id_inject)
  qed
  with tm process_q931_other_call [of c' c crv msg now s] assms show ?thesis by simp
qed

text \<open>A stack with the call of a reference on each of two circuits, for concrete inputs.\<close>

definition setup_msg :: "u16 \<Rightarrow> q931_message" where
  "setup_msg crv = \<lparr>protocol_discriminator = 8, call_ref = \<lparr>cr_value = crv, cr_flag = 0, cr_length = 2\<rparr>,
     message_type = MT_Setup, information_elements = []\<rparr>"

definition two_circuits :: isdn_stack where
  "two_circuits = snd (process_q931_message 6 2 (setup_msg 7)
     (snd (process_q931_message 5 1 (setup_msg 7) (new_isdn_stack NI2 SideUser))))"

definition setup_call :: "nat \<Rightarrow> u16 \<Rightarrow> u16 \<Rightarrow> isdn_call" where
  "setup_call now c crv = \<lparr>ic_call_reference = crv, ic_circuit_id = c, ic_state = CS_CallPresent,
     ic_calling_number = '''', ic_called_number = '''', ic_start_time = now, ic_last_activity = now,
     ic_active_timers = [generate_timer_id T303 crv c], ic_bearer_channel = None\<rparr>"

lemma process_setup_msg [simp]:
  "call_at (snd (process_q931_message now c (setup_msg crv) s)) c crv = Some (setup_call now c crv)"
  "st_timers (snd (process_q931_message now c (setup_msg crv) s)) =
     snd (start_timer now T303 crv c None (ClearCall 102) (st_timers s))"
  by (simp_all add: process_q931_message_def handle_setup_def split_beta Let_def setup_msg_def
      find_ie_def new_isdn_call_def update_state_def start_timer_simps setup_call_def clear_call_action_def)

lemma two_circuits_calls:
  "call_at two_circuits 1 7 = Some (setup_call 5 1 7)" "call_at two_circuits 2 7 = Some (setup_call 6 2 7)"
  "timer_inv (st_timers two_circuits)"
  by (simp_all add: two_circuits_def process_q931_other_call start_timer_inv timer_inv_new)
    (simp add: new_isdn_stack_def timer_inv_new start_timer_inv)

theorem isdn_cross_circuit_timers_witness:
  "map_of (tm_active (st_timers two_circuits)) (generate_timer_id T303 7 2) \<noteq> None \<and>
   map_of (tm_active (st_timers (snd (process_q931_message 9 1
     ((setup_msg 7)\<lparr>message_type := MT_Connect\<rparr>) two_circuits)))) (generate_timer_id T303 7 2) = None"
  using isdn_cross_circuit_timers [OF two_circuits_calls(3,1,2), of "(setup_msg 7)\<lparr>message_type := MT_Connect\<rparr>" 9 T303]
  by (simp add: setup_msg_def) (simp add: two_circuits_def start_timer_simps flip: setup_msg_def)

lemma call_at_SomeD: "call_at s c crv = Some call \<Longrightarrow> \<exists>cc. map_of (st_calls s) c = Some cc \<and> map_of cc crv = Some call"
  by (auto simp: call_at_def circuit_calls_def split: option.splits)

lemma process_call_proceeding:
  assumes "call_at s c crv = Some call" "message_type m = MT_CallProceeding" "cr_value (call_ref m) = crv"
  shows "st_timers (snd (process_q931_message now c m s)) =
      snd (start_timer now T310 crv c None (ClearCall 102) (snd (cancel_call_timers crv (st_timers s))))"
    and "call_at (snd (process_q931_message now c m s)) c crv =
      Some ((update_state now CS_IncomingCallProceeding call)\<lparr>ic_active_timers :=
        ic_active_timers call @ [generate_timer_id T310 crv c]\<rparr>)"
  using assms by (simp_all add: process_q931_message_def handle_call_proceeding_def split_beta Let_def
      start_timer_simps clear_call_action_def update_state_def)

lemma process_alerting:
  assumes "call_at s c crv = Some call" "message_type m = MT_Alerting" "cr_value (call_ref m) = crv"
  shows "st_timers (snd (process_q931_message now c m s)) =
      snd (start_timer now T301 crv c None (ClearCall 19) (st_timers s))"
    and "call_at (snd (process_q931_message now c m s)) c crv =
      Some ((update_state now CS_CallDelivered call)\<lparr>ic_active_timers :=
        ic_active_timers call @ [generate_timer_id T301 crv c]\<rparr>)"
  using assms by (simp_all add: process_q931_message_def handle_alerting_def split_beta Let_def
      start_timer_simps clear_call_action_def update_state_def)

lemma timer_clears_call:
  assumes "call_at s c crv = Some call" "at_action t = ClearCall cause" "at_circuit_id t = c"
    "at_call_reference t = crv"
  shows "fst (process_timer_event now \<lparr>te_timer = t, te_timestamp = ts\<rparr> s) =
      [CallReleased c crv (timer_cause cause) (now - ic_start_time call)]"
    and "call_at (snd (process_timer_event now \<lparr>te_timer = t, te_timestamp = ts\<rparr> s)) c crv = None"
  using call_at_SomeD [OF assms(1)] assms(2-4) by (auto simp: process_timer_event_def Let_def)

text \<open>Alerting does not stop the timer T310 that Call Proceeding started. When its duration
  has passed, the event of T310 clears the ringing call, long before the answer timer T301
  would.\<close>

theorem isdn_t310_clears_ringing_call:
  assumes "timer_inv (st_timers s)" and "call_at s c crv = Some call"
    and "message_type m1 = MT_CallProceeding" "cr_value (call_ref m1) = crv"
    and "message_type m2 = MT_Alerting" "cr_value (call_ref m2) = crv"
    and "s' = snd (process_q931_message t2 c m2 (snd (process_q931_message t1 c m1 s)))"
  shows "\<exists>t310 t301. map_of (tm_active (st_timers s')) (generate_timer_id T310 crv c) = Some t310 \<and>
      map_of (tm_active (st_timers s')) (generate_timer_id T301 crv c) = Some t301 \<and>
      at_start_time t310 = t1 \<and> at_duration t310 < at_duration t301 \<and>
      (\<exists>r. call_at s' c crv = Some r \<and> ic_state r = CS_CallDelivered) \<and>
      fst (process_timer_event now \<lparr>te_timer = t310, te_timestamp = now\<rparr> s') =
        [CallReleased c crv Cause_RecoveryOnTimerExpiry (now - ic_start_time call)] \<and>
      call_at (snd (process_timer_event now \<lparr>te_timer = t310, te_timestamp = now\<rparr> s')) c crv = None"
proof -
  define s1 where "s1 = snd (process_q931_message t1 c m1 s)"
  note s1 = process_call_proceeding [OF assms(2-4), of t1, folded s1_def]
  have s': "s' = snd (process_q931_message t2 c m2 s1)" using assms(7) by (simp add: s1_def)
  note s2 = process_alerting [OF s1(2) assms(5,6), of t2, folded s']
  define tm where "tm = snd (cancel_call_timers crv (st_timers s))"
  define t310 where "t310 = new_active_timer t1 T310 crv c
      (default_duration T310 (tm_variant tm) (tm_side_type tm)) (ClearCall 102)"
  define t301 where "t301 = new_active_timer t2 T301 crv c
      (default_duration T301 (tm_variant tm) (tm_side_type tm)) (ClearCall 19)"
  have ne: "generate_timer_id T310 crv c \<noteq> generate_timer_id T301 crv c"
    by (auto dest: generate_timer_id_inject)
  have act: "map_of (tm_active (st_timers s')) (generate_timer_id T310 crv c) = Some t310"
    "map_of (tm_active (st_timers s')) (generate_timer_id T301 crv c) = Some t301"
    using ne unfolding s2(1) s1(1) t310_def t301_def tm_def [symmetric] by (simp_all add: start_timer_simps)
  have "default_duration T310 v sd < default_duration T301 v sd" for v sd
    by (cases v; cases sd; simp add: from_secs_def)
  then have "at_start_time t310 = t1 \<and> at_duration t310 < at_duration t301"
    by (simp add: t310_def t301_def)
  moreover have "at_action t310 = ClearCall 102" "at_circuit_id t310 = c" "at_call_reference t310 = crv"
    by (simp_all add: t310_def)
  note timer_clears_call [OF s2(2) this, of now now]
  ultimately show ?thesis
    using act s2(2) by (auto simp: timer_cause_def update_state_def)
qed

theorem isdn_t310_clears_ringing_call_witness:
  "\<exists>t310. map_of (tm_active (st_timers (snd (process_q931_message 20 1 ((setup_msg 7)\<lparr>message_type := MT_Alerting\<rparr>)
      (snd (process_q931_message 10 1 ((setup_msg 7)\<lparr>message_type := MT_CallProceeding\<rparr>) two_circuits))))))
      (generate_timer_id T310 7 1) = Some t310 \<and> at_start_time t310 = 10"
proof -
  have m: "message_type ((setup_msg 7)\<lparr>message_type := MT_CallProceeding\<rparr>) = MT_CallProceeding"
    "cr_value (call_ref ((setup_msg 7)\<lparr>message_type := MT_CallProceeding\<rparr>)) = 7"
    "message_type ((setup_msg 7)\<lparr>message_type := MT_Alerting\<rparr>) = MT_Alerting"
    "cr_value (call_ref ((setup_msg 7)\<lparr>message_type := MT_Alerting\<rparr>)) = 7"
    by (simp_all add: setup_msg_def)
  from isdn_t310_clears_ringing_call [OF two_circuits_calls(3,1) m refl, of 20 10 0] show ?thesis by blast
qed

text \<open>the stack stores the raw octets of the called party element as the number. For an
  element built from any type and plan of number and ASCII digits, the stored number begins with
  the replacement character of the undecodable header octet, while the element's own parser gives
  the digits.\<close>

theorem isdn_number_has_header:
  assumes "create_called_party_number_ie ton npi digits = Inr ie" and "ascii_str digits"
    and "message_type msg = MT_Setup" and "cr_value (call_ref msg) = crv"
    and "find_ie msg IE_CalledPartyNumber = Some ie"
  shows "\<exists>call. call_at (snd (process_q931_message now c msg s)) c crv = Some call \<and>
      ic_called_number call = bytes_str utf8_replacement @ digits \<and>
      (\<exists>t n. parse_called_party_number (ie_data ie) = Inr (t, n, digits))"
proof -
  obtain b where d: "ie_data ie = b # str_bytes digits" "bit b 7"
    using assms(1) by (auto simp: create_called_party_number_ie_def new_ie_def bit_simps split: if_splits)
  have "0x80 \<le> b" using d(2) u8_lt_pow2(1) [of b] by (simp add: not_less [symmetric])
  moreover have "list_all (\<lambda>c. c < 0x80) (str_bytes digits)"
    using assms(2) by (simp add: ascii_str_def str_bytes_def list_all_iff word_less_nat_alt)
  ultimately have "from_utf8_lossy (ie_data ie) = bytes_str utf8_replacement @ digits"
    using utf8_lossy_header [of b "str_bytes digits"] utf8_lossy_ascii [OF assms(2)]
    by (simp add: from_utf8_lossy_def d(1)) (simp add: bytes_str_def str_bytes_def comp_def)
  moreover have "parse_called_party_number (ie_data ie) = Inr (drop_bit 4 b AND 7, b AND 15, digits)"
    using assms(2) by (simp add: d(1) parse_called_party_number_def from_utf8_str_bytes utf8_valid_ascii)
  ultimately show ?thesis
    using assms(3-5)
    by (simp add: process_q931_message_def handle_setup_def split_beta Let_def
        update_state_def new_isdn_call_def split: option.splits)
qed

theorem isdn_number_has_header_witness:
  "\<exists>call. call_at (snd (process_q931_message 5 1 ((setup_msg 7)\<lparr>information_elements :=
       [new_ie IE_CalledPartyNumber (0x81 # str_bytes ''911'')]\<rparr>) (new_isdn_stack NI2 SideUser))) 1 7 = Some call \<and>
     ic_called_number call = [CHR 0xEF, CHR 0xBF, CHR 0xBD] @ ''911''"
proof -
  have "create_called_party_number_ie 0 1 ''911'' = Inr (new_ie IE_CalledPartyNumber (0x81 # str_bytes ''911''))"
    by (simp add: create_called_party_number_ie_def)
  moreover have "bytes_str utf8_replacement = [CHR 0xEF, CHR 0xBF, CHR 0xBD]" by code_simp
  ultimately show ?thesis
    using isdn_number_has_header [of 0 1 "''911''" _ "(setup_msg 7)\<lparr>information_elements :=
       [new_ie IE_CalledPartyNumber (0x81 # str_bytes ''911'')]\<rparr>" 7 5 1]
    by (fastforce simp: setup_msg_def find_ie_def new_ie_def ascii_str_def)
qed

section \<open>The stack as a state machine\<close>

text \<open>One step: a Q.931 message, an event of a layer below, a timer task, or a new circuit.\<close>

inductive isdn_step :: "isdn_stack \<Rightarrow> stack_event list \<Rightarrow> isdn_stack \<Rightarrow> bool" where
  lapd: "process_lapd_event now c ev s = (evs, s') \<Longrightarrow> isdn_step s evs s'"
| wake: "timer_task_wakes now h (st_timers s) = (tevs, tm) \<Longrightarrow> isdn_step s [] (s\<lparr>st_timers := tm\<rparr>)"
| expired: "process_timer_event now ev s = (evs, s') \<Longrightarrow> isdn_step s evs s'"
| circuit: "initialize_circuit a b now c v side s = (r, s') \<Longrightarrow> isdn_step s [] s'"

inductive_cases isdn_stepE: "isdn_step s evs s'"

definition call_inv :: "u16 \<Rightarrow> u16 \<Rightarrow> isdn_call \<Rightarrow> bool" where
  "call_inv c crv call \<longleftrightarrow>
     ic_circuit_id call = c \<and> ic_call_reference call = crv \<and> ic_bearer_channel call = None \<and>
     ic_state call \<in> {CS_CallPresent, CS_IncomingCallProceeding, CS_CallDelivered, CS_Active,
       CS_DisconnectIndication} \<and>
     (\<forall>i \<in> set (ic_active_timers call). \<exists>ty. i = generate_timer_id ty crv c)"

definition isdn_inv :: "isdn_stack \<Rightarrow> bool" where
  "isdn_inv s \<longleftrightarrow> timer_inv (st_timers s) \<and>
     (\<forall>c crv call. call_at s c crv = Some call \<longrightarrow> call_inv c crv call)"

lemma process_q931_call_inv:
  assumes "\<forall>c crv call. call_at s c crv = Some call \<longrightarrow> call_inv c crv call"
    and "call_at (snd (process_q931_message now c msg s)) c' crv' = Some call"
  shows "call_inv c' crv' call"
proof (cases "c' = c \<and> crv' = cr_value (call_ref msg)")
  case False
  then show ?thesis using assms process_q931_other_call [of c' c crv' msg now s] by auto
next
  case True
  then show ?thesis
    using assms
    by (cases "message_type msg")
      (auto simp: process_q931_message_def handler_defs Let_def split_beta start_timer_simps call_inv_def
        update_state_def new_isdn_call_def split: option.splits if_splits)
qed

lemma process_q931_timer_inv:
  "timer_inv (st_timers s) \<Longrightarrow> timer_inv (st_timers (snd (process_q931_message now c msg s)))"
  by (cases "message_type msg")
    (auto simp: process_q931_message_def handler_defs Let_def split_beta start_timer_inv cancel_call_timers_inv
      split: option.splits)

lemma process_timer_event_inv: "isdn_inv s \<Longrightarrow> isdn_inv (snd (process_timer_event now ev s))"
  by (auto simp: isdn_inv_def process_timer_event_def Let_def call_at_def circuit_calls_def put_calls_def
      split: pri_timer_action.splits option.splits if_splits)

lemma process_lapd_event_inv: "isdn_inv s \<Longrightarrow> isdn_inv (snd (process_lapd_event now c ev s))"
proof (cases ev)
  case (DataReceived sapi tei data)
  assume inv: "isdn_inv s"
  let ?s = "\<lambda>msg. s\<lparr>st_statistics := (st_statistics s)\<lparr>is_q931_messages :=
      bump (message_type msg) (is_q931_messages (st_statistics s))\<rparr>\<rparr>"
  have "isdn_inv (snd (process_q931_message now c msg (?s msg)))" for msg
    using inv process_q931_call_inv [of "?s msg" now c msg] process_q931_timer_inv [of "?s msg" now c msg]
    by (auto simp: isdn_inv_def)
  then show ?thesis
    using inv DataReceived
    by (auto simp: process_lapd_event_def isdn_inv_def split_beta split: sum.splits)
qed (simp_all add: process_lapd_event_def)

lemma initialize_circuit_inv: "isdn_inv s \<Longrightarrow> isdn_inv (snd (initialize_circuit a b now c v side s))"
  by (auto simp: isdn_inv_def initialize_circuit_def split_beta Let_def call_at_def circuit_calls_def
      split: option.splits if_splits)

interpretation isdn: invariant_machine "\<lambda>s. \<exists>v side. s = new_isdn_stack v side"
  "\<lambda>s s'. \<exists>evs. isdn_step s evs s'" isdn_inv
proof unfold_locales
  show "isdn_inv s" if "\<exists>v side. s = new_isdn_stack v side" for s
    using that by (auto simp: isdn_inv_def new_isdn_stack_def timer_inv_new call_at_def circuit_calls_def)
  show "isdn_inv t" if inv: "isdn_inv s" and step: "\<exists>evs. isdn_step s evs t" for s t
  proof -
    from step obtain evs where "isdn_step s evs t" by blast
    then show ?thesis
    proof cases
      case (lapd now c ev)
      then show ?thesis using process_lapd_event_inv [OF inv, of now c ev] by simp
    next
      case (wake now h tevs tm)
      with inv timer_task_wakes_inv [of "st_timers s" now h] show ?thesis
        by (simp add: isdn_inv_def)
    next
      case (expired now ev)
      then show ?thesis using process_timer_event_inv [OF inv, of now ev] by simp
    next
      case (circuit a b now c v side r)
      then show ?thesis using initialize_circuit_inv [OF inv, of a b now c v side] by simp
    qed
  qed
qed

text \<open>C17: in every reachable state of the stack each call is filed under its circuit and call
  reference, is in one of the five states the message handlers use, names only timers of its own,
  and has no bearer channel: the handlers never read the channel identification, so every call is
  announced on channel 1.\<close>

theorem isdn_stack_invariant:
  assumes "(\<lambda>s s'. \<exists>evs. isdn_step s evs s')\<^sup>*\<^sup>* (new_isdn_stack v side) s"
  shows "(call_at s c crv = Some call \<longrightarrow>
      ic_circuit_id call = c \<and> ic_call_reference call = crv \<and>
      ic_state call \<in> {CS_CallPresent, CS_IncomingCallProceeding, CS_CallDelivered, CS_Active,
        CS_DisconnectIndication} \<and>
      (\<forall>i \<in> set (ic_active_timers call). \<exists>ty. i = generate_timer_id ty crv c)) \<and>
    (\<forall>now msg c' crv' a b ch. CallEstablished c' crv' a b ch \<in> set (fst (process_q931_message now c msg s)) \<longrightarrow> ch = 1)"
proof -
  have inv: "isdn_inv s" using isdn.reachable_inv [OF _ assms] by blast
  have "ch = 1" if "CallEstablished c' crv' a b ch \<in> set (fst (process_q931_message now c msg s))"
    for now msg c' crv' a b ch
  proof (cases "message_type msg = MT_Connect")
    case True
    with that obtain k where "call_at s c (cr_value (call_ref msg)) = Some k"
      and "ch = (case ic_bearer_channel k of Some b \<Rightarrow> b | None \<Rightarrow> 1)"
      by (auto simp: process_q931_message_def handle_connect_def Let_def split_beta update_state_def
          split: option.splits)
    with inv show ?thesis by (auto simp: isdn_inv_def call_inv_def)
  next
    case False
    with that show ?thesis
      by (cases "message_type msg")
        (auto simp: process_q931_message_def handler_defs Let_def split_beta split: option.splits)
  qed
  with inv show ?thesis by (auto simp: isdn_inv_def call_inv_def)
qed

theorem isdn_stack_invariant_witness:
  "\<exists>s call. (\<lambda>s s'. \<exists>evs. isdn_step s evs s')\<^sup>*\<^sup>* (new_isdn_stack NI2 SideUser) s \<and>
     call_at s 1 0 = Some call \<and> ic_circuit_id call = 1"
proof -
  let ?s = "snd (process_lapd_event 5 1 (DataReceived 0 0 [8, 0, 5]) (new_isdn_stack NI2 SideUser))"
  have "isdn_step (new_isdn_stack NI2 SideUser)
      (fst (process_lapd_event 5 1 (DataReceived 0 0 [8, 0, 5]) (new_isdn_stack NI2 SideUser))) ?s"
    by (rule isdn_step.lapd) simp
  then have r: "(\<lambda>s s'. \<exists>evs. isdn_step s evs s')\<^sup>*\<^sup>* (new_isdn_stack NI2 SideUser) ?s"
    by blast
  have "parse_message [8, 0, 5] = Inr ((setup_msg 0)\<lparr>call_ref := \<lparr>cr_value = 0, cr_flag = 0, cr_length = 0\<rparr>\<rparr>)"
    by (simp add: parse_message_def q931_protocol_discriminator_def parse_call_reference_def
        mt_from_u8_def parse_ies.simps setup_msg_def)
  then obtain call where c: "call_at ?s 1 0 = Some call"
    by (simp add: process_lapd_event_def process_q931_message_def handle_setup_def split_beta Let_def setup_msg_def)
  with isdn_stack_invariant [OF r, of 1 0 call] r show ?thesis by blast
qed

section \<open>Released calls were set up\<close>

text \<open>The Setup messages of a call in a sequence of inputs and its CallReleased events.\<close>

datatype isdn_input = InMessage nat u16 q931_message | InTimer nat timer_expired_event

fun isdn_handle :: "isdn_input \<Rightarrow> isdn_stack \<Rightarrow> stack_event list \<times> isdn_stack" where
  "isdn_handle (InMessage now c msg) s = process_q931_message now c msg s"
| "isdn_handle (InTimer now ev) s = process_timer_event now ev s"

fun isdn_run :: "isdn_input list \<Rightarrow> isdn_stack \<Rightarrow> stack_event list \<times> isdn_stack" where
  "isdn_run [] s = ([], s)"
| "isdn_run (i # is) s =
    (let (evs, s') = isdn_handle i s; (evs', s'') = isdn_run is s' in (evs @ evs', s''))"

fun is_setup :: "u16 \<Rightarrow> u16 \<Rightarrow> isdn_input \<Rightarrow> bool" where
  "is_setup c crv (InMessage _ c' msg) \<longleftrightarrow> c' = c \<and> message_type msg = MT_Setup \<and> cr_value (call_ref msg) = crv"
| "is_setup c crv (InTimer _ _) \<longleftrightarrow> False"

fun is_released :: "u16 \<Rightarrow> u16 \<Rightarrow> stack_event \<Rightarrow> bool" where
  "is_released c crv (CallReleased c' crv' _ _) \<longleftrightarrow> c' = c \<and> crv' = crv"
| "is_released c crv _ \<longleftrightarrow> False"

definition present :: "isdn_stack \<Rightarrow> u16 \<Rightarrow> u16 \<Rightarrow> nat" where
  "present s c crv = (if call_at s c crv = None then 0 else 1)"

definition count :: "('a \<Rightarrow> bool) \<Rightarrow> 'a list \<Rightarrow> nat" where
  "count P xs = length (filter P xs)"

lemma count_simps [simp]:
  "count P [] = 0" "count P (x # xs) = (if P x then 1 else 0) + count P xs"
  "count P (xs @ ys) = count P xs + count P ys"
  by (simp_all add: count_def)

lemma isdn_handle_balance:
  "count (is_released c crv) (fst (isdn_handle i s)) + present (snd (isdn_handle i s)) c crv
     \<le> (if is_setup c crv i then 1 else 0) + present s c crv"
proof (cases i)
  case (InMessage now c' msg)
  show ?thesis
  proof (cases "c = c' \<and> crv = cr_value (call_ref msg)")
    case True
    then show ?thesis
      by (cases "message_type msg")
        (auto simp: InMessage process_q931_message_def handler_defs Let_def split_beta present_def
          split: option.splits)
  next
    case False
    then have "call_at (snd (process_q931_message now c' msg s)) c crv = call_at s c crv"
      by (intro process_q931_other_call) auto
    with False show ?thesis
      by (cases "message_type msg")
        (auto simp: InMessage process_q931_message_def handler_defs Let_def split_beta present_def
          split: option.splits)
  qed
next
  case (InTimer now ev)
  show ?thesis
    by (auto simp: InTimer process_timer_event_def Let_def present_def call_at_def circuit_calls_def put_calls_def
        split: pri_timer_action.splits option.splits)
qed

text \<open>C18: whatever messages and timer expirations the stack handles, in any order, it reports
  the release of a call at most once for each Setup it received for the call.\<close>

theorem isdn_released_were_set_up:
  "count (is_released c crv) (fst (isdn_run is (new_isdn_stack v side))) \<le> count (is_setup c crv) is"
proof -
  have "count (is_released c crv) (fst (isdn_run is s)) + present (snd (isdn_run is s)) c crv
      \<le> count (is_setup c crv) is + present s c crv" for s
  proof (induction "is" arbitrary: s)
    case (Cons i "is")
    from Cons.IH [of "snd (isdn_handle i s)"] isdn_handle_balance [of c crv i s]
    show ?case by (simp add: split_beta Let_def)
  qed simp
  from this [of "new_isdn_stack v side"] show ?thesis
    by (simp add: present_def call_at_def circuit_calls_def new_isdn_stack_def)
qed

section \<open>The D-channel of an initialized circuit\<close>

lemma tx_closed_step: "lapd_step m m' \<Longrightarrow> \<not> lm_tx_open m \<Longrightarrow> \<not> lm_tx_open m'"
  by (erule lapd_stepE)
    (auto simp: process_d_channel_data_def send_q931_message_def establish_connection_def put_connection_def
      split_beta Let_def split: sum.splits option.splits prod.splits)

lemma send_frame_closed [simp]: "send_lapd_frame False f = (Some DChannelSendFailed, [])"
  by (simp add: send_lapd_frame_def)

text \<open>the D-channel sender of an initialized circuit has no receiver. Whatever the LAPD
  manager of the circuit goes through afterwards, it sends no frame, never announces an
  established link, and every attempt to send a Q.931 message fails.\<close>

theorem isdn_circuit_is_mute:
  assumes "initialize_circuit True ok now c v side s = (r, s')"
    and "map_of (st_lapd_managers s') c = Some m" and "lapd_step\<^sup>*\<^sup>* m m'"
  shows "(\<forall>s t. LapdEv (LinkEstablished s t) \<notin> set (snd (snd (process_d_channel_data m' t1 data)))) \<and>
    (\<forall>bs. DChannel bs \<notin> set (snd (snd (process_d_channel_data m' t1 data)))) \<and>
    fst (send_q931_message m' t2 sapi tei msg) \<noteq> None"
proof -
  have "\<not> lm_tx_open m"
    using assms(1,2) by (auto simp: initialize_circuit_def split_beta Let_def establish_connection_def
        send_lapd_frame_def new_lapd_manager_def split: if_splits)
  from assms(3) this have closed: "\<not> lm_tx_open m'"
    by (induction rule: rtranclp_induct) (auto dest: tx_closed_step)
  have "(\<forall>s t. LapdEv (LinkEstablished s t) \<notin> set (snd (snd (process_d_channel_data m' t1 data)))) \<and>
    (\<forall>bs. DChannel bs \<notin> set (snd (snd (process_d_channel_data m' t1 data))))"
    using closed
    by (auto simp: process_d_channel_data_def Let_def split_beta process_i_frame_def process_u_frame_def
        send_supervisory_frame_def split: sum.splits lapd_control.splits unnumbered_function.splits
          option.splits if_splits)
  moreover have "fst (send_q931_message m' t2 sapi tei msg) \<noteq> None"
    using closed by (auto simp: send_q931_message_def Let_def split: option.splits)
  ultimately show ?thesis by blast
qed

theorem isdn_circuit_is_mute_witness:
  "\<exists>m. map_of (st_lapd_managers (snd (initialize_circuit True True 5 1 NI2 SideUser (new_isdn_stack NI2 SideUser)))) 1 = Some m \<and>
     fst (send_q931_message m 9 0 0 (setup_msg 1)) \<noteq> None"
proof -
  let ?i = "initialize_circuit True True 5 1 NI2 SideUser (new_isdn_stack NI2 SideUser)"
  obtain m where m: "map_of (st_lapd_managers (snd ?i)) 1 = Some m"
    by (simp add: initialize_circuit_def split_beta Let_def establish_connection_def send_lapd_frame_def
        new_lapd_manager_def)
  have "?i = (fst ?i, snd ?i)" by simp
  from isdn_circuit_is_mute [OF this m rtranclp.rtrancl_refl, of 0 "[]" 9 0 0 "setup_msg 1"] m
  show ?thesis by blast
qed

end
