(* ===== verification/RustStrings.thy ===== *)
theory RustStrings
  imports Redfire_Prelude
begin

text \<open>
  The string functions of the Rust standard library that the switch uses: \<open>starts_with\<close>,
  \<open>contains\<close>, \<open>find\<close>, \<open>split\<close>, \<open>trim\<close>, \<open>lines\<close>,
  \<open>parse\<close> and \<open>to_string\<close> of integers. A string is its UTF-8 bytes, so its length
  and the positions in it are counted in bytes, as Rust does; \<open>utf8_chars\<close> gives its characters.
  White space is that of ASCII.
\<close>

section \<open>Prefixes and digits\<close>

text \<open>\<open>chars().filter(is_ascii_digit).collect()\<close> and \<open>starts_with\<close>.\<close>

definition only_digits :: "string \<Rightarrow> string" where
  "only_digits s = filter is_digit s"

definition starts_with :: "'a list \<Rightarrow> 'a list \<Rightarrow> bool" where
  "starts_with s p \<longleftrightarrow> take (length p) s = p"

lemma only_digits_idem [simp]: "only_digits (only_digits s) = only_digits s"
  by (simp add: only_digits_def)

lemma only_digits_id: "list_all is_digit s \<Longrightarrow> only_digits s = s"
  by (simp add: only_digits_def list_all_iff)

lemma list_all_only_digits [simp]: "list_all is_digit (only_digits s)"
  by (simp add: only_digits_def list_all_iff)

lemma starts_with_iff: "starts_with s p \<longleftrightarrow> (\<exists>r. s = p @ r)"
  by (metis append_eq_conv_conj append_take_drop_id starts_with_def)

lemma starts_with_simps [simp]:
  "starts_with s []" "starts_with (x # s) (y # p) \<longleftrightarrow> x = y \<and> starts_with s p"
  "\<not> starts_with [] (y # p)"
  by (auto simp: starts_with_def)

lemma starts_with_length: "starts_with s p \<Longrightarrow> length p \<le> length s"
  by (auto simp: starts_with_iff)

lemma starts_with_take: "starts_with s (take n s)"
  by (metis append_take_drop_id starts_with_iff)

lemma starts_with_eq_take: "starts_with s p \<longleftrightarrow> p = take (length p) s"
  by (auto simp: starts_with_def)

section \<open>Searching and splitting\<close>

fun find_sub :: "string \<Rightarrow> string \<Rightarrow> nat option" where
  "find_sub pat [] = (if pat = [] then Some 0 else None)"
| "find_sub pat (c # s) =
    (if take (length pat) (c # s) = pat then Some 0 else map_option Suc (find_sub pat s))"

definition is_space :: "char \<Rightarrow> bool" where
  "is_space c \<longleftrightarrow> (let n = of_char c :: nat in n = 32 \<or> (9 \<le> n \<and> n \<le> 13))"

text \<open>\<open>str::trim\<close> on the white space of ASCII.\<close>

definition trim_space :: "string \<Rightarrow> string" where
  "trim_space s = rev (dropWhile is_space (rev (dropWhile is_space s)))"

definition ends_with :: "'a list \<Rightarrow> 'a list \<Rightarrow> bool" where
  "ends_with s p \<longleftrightarrow> starts_with (rev s) (rev p)"

definition contains_str :: "string \<Rightarrow> string \<Rightarrow> bool" where
  "contains_str s p \<longleftrightarrow> find_sub p s \<noteq> None"

fun find_char :: "char \<Rightarrow> string \<Rightarrow> nat option" where
  "find_char c [] = None"
| "find_char c (x # s) = (if x = c then Some 0 else map_option Suc (find_char c s))"

definition rfind_char :: "char \<Rightarrow> string \<Rightarrow> nat option" where
  "rfind_char c s = map_option (\<lambda>i. length s - 1 - i) (find_char c (rev s))"

text \<open>\<open>split\<close> at a character: one piece more than there are separators.\<close>

fun split_char :: "char \<Rightarrow> string \<Rightarrow> string list" where
  "split_char c [] = [[]]"
| "split_char c (x # s) =
    (if x = c then [] # split_char c s
     else case split_char c s of [] \<Rightarrow> [[x]] | p # ps \<Rightarrow> (x # p) # ps)"

text \<open>\<open>join\<close> with a separator.\<close>

fun join_str :: "string \<Rightarrow> string list \<Rightarrow> string" where
  "join_str sep [] = []"
| "join_str sep [p] = p"
| "join_str sep (p # ps) = p @ sep @ join_str sep ps"

text \<open>\<open>split_whitespace\<close>: the pieces between runs of white space.\<close>

definition split_space :: "string \<Rightarrow> string list" where
  "split_space s = filter (\<lambda>p. p \<noteq> []) (split_char CHR '' '' (map (\<lambda>c. if is_space c then CHR '' '' else c) s))"

text \<open>\<open>lines\<close>: split at line feeds, without a carriage return at the end of a line and without the
  empty piece after a final line feed.\<close>

definition strip_cr :: "string \<Rightarrow> string" where
  "strip_cr s = (if s \<noteq> [] \<and> last s = CHR 0x0D then butlast s else s)"

definition str_lines :: "string \<Rightarrow> string list" where
  "str_lines s =
    (let ps = split_char CHR 0x0A s
     in map strip_cr (butlast ps) @ (if last ps = [] then [] else [last ps]))"

text \<open>\<open>trim_end_matches\<close> and \<open>replace\<close> of a character by nothing.\<close>

definition trim_end_char :: "char \<Rightarrow> string \<Rightarrow> string" where
  "trim_end_char c s = rev (dropWhile (\<lambda>x. x = c) (rev s))"

definition remove_char :: "char \<Rightarrow> string \<Rightarrow> string" where
  "remove_char c s = filter (\<lambda>x. x \<noteq> c) s"

section \<open>Characters\<close>

definition is_alpha :: "char \<Rightarrow> bool" where
  "is_alpha c \<longleftrightarrow> (let n = of_char c :: nat in 65 \<le> n \<and> n \<le> 90 \<or> 97 \<le> n \<and> n \<le> 122)"

definition ascii_lower :: "char \<Rightarrow> char" where
  "ascii_lower c = (let n = of_char c :: nat in if 65 \<le> n \<and> n \<le> 90 then char_of (n + 32) else c)"

definition ascii_upper :: "char \<Rightarrow> char" where
  "ascii_upper c = (let n = of_char c :: nat in if 97 \<le> n \<and> n \<le> 122 then char_of (n - 32) else c)"

definition eq_ignore_case :: "string \<Rightarrow> string \<Rightarrow> bool" where
  "eq_ignore_case s t \<longleftrightarrow> map ascii_lower s = map ascii_lower t"

text \<open>The characters of a well-formed string: a byte with its continuation bytes.\<close>

definition is_cont :: "char \<Rightarrow> bool" where
  "is_cont c \<longleftrightarrow> 128 \<le> (of_char c :: nat) \<and> (of_char c :: nat) < 192"

function utf8_chars :: "string \<Rightarrow> string list" where
  "utf8_chars [] = []"
| "utf8_chars (c # s) = (c # takeWhile is_cont s) # utf8_chars (dropWhile is_cont s)"
  by pat_completeness auto

termination
  by (relation "measure length") (auto simp: le_imp_less_Suc length_dropWhile_le)

lemma concat_utf8_chars: "concat (utf8_chars s) = s"
  by (induction s rule: utf8_chars.induct) simp_all

lemma utf8_chars_ascii: "ascii_str s \<Longrightarrow> utf8_chars s = map (\<lambda>c. [c]) s"
proof (induction s)
  case (Cons c s)
  then have "takeWhile is_cont s = []" "dropWhile is_cont s = s"
    by (cases s; simp add: ascii_str_def is_cont_def)+
  with Cons show ?case by (simp add: ascii_str_def)
qed simp

section \<open>Integers\<close>

text \<open>\<open>parse::<uN>()\<close>: an optional plus sign and at least one digit, at most the largest value.\<close>

definition parse_digits :: "nat \<Rightarrow> string \<Rightarrow> nat option" where
  "parse_digits bound s = (if s \<noteq> [] \<and> list_all is_digit s \<and> undec s \<le> bound then Some (undec s) else None)"

definition parse_unsigned :: "nat \<Rightarrow> string \<Rightarrow> nat option" where
  "parse_unsigned bound s = parse_digits bound (if starts_with s ''+'' then drop 1 s else s)"

abbreviation parse_u8 :: "string \<Rightarrow> nat option" where "parse_u8 \<equiv> parse_unsigned 0xFF"
abbreviation parse_u16 :: "string \<Rightarrow> nat option" where "parse_u16 \<equiv> parse_unsigned 0xFFFF"
abbreviation parse_u32 :: "string \<Rightarrow> nat option" where "parse_u32 \<equiv> parse_unsigned 0xFFFFFFFF"
abbreviation parse_u64 :: "string \<Rightarrow> nat option" where "parse_u64 \<equiv> parse_unsigned 0xFFFFFFFFFFFFFFFF"

definition parse_i32 :: "string \<Rightarrow> int option" where
  "parse_i32 s =
    (if starts_with s ''-'' then map_option (\<lambda>n. - int n) (parse_digits 0x80000000 (drop 1 s))
     else map_option int (parse_unsigned 0x7FFFFFFF s))"

definition int_text :: "int \<Rightarrow> string" where
  "int_text i = (if i < 0 then CHR ''-'' # dec (nat (- i)) else dec (nat i))"

section \<open>Facts\<close>

lemma findD: "List.find P xs = Some x \<Longrightarrow> x \<in> set xs \<and> P x"
  by (induction xs) (auto split: if_splits)

lemma parse_digits_dec [simp]: "parse_digits bound (dec n) = (if n \<le> bound then Some n else None)"
  by (simp add: parse_digits_def list_all_iff dec_digits)

lemma dec_not_sign: "\<not> is_digit c \<Longrightarrow> \<not> starts_with (dec n) [c]"
  using dec_digits [of c n] by (auto simp: starts_with_iff)

lemma parse_unsigned_dec [simp]: "parse_unsigned bound (dec n) = (if n \<le> bound then Some n else None)"
  by (simp add: parse_unsigned_def dec_not_sign is_digit_def)

lemma parse_i32_text: "- 0x80000000 \<le> i \<Longrightarrow> i \<le> 0x7FFFFFFF \<Longrightarrow> parse_i32 (int_text i) = Some i"
  by (auto simp: parse_i32_def int_text_def dec_not_sign is_digit_def)

lemma split_char_not_Nil [simp]: "split_char c s \<noteq> []"
  by (cases s) (auto split: list.splits)

lemma split_char_none: "c \<notin> set s \<Longrightarrow> split_char c s = [s]"
  by (induction s) auto

lemma split_char_append: "c \<notin> set p \<Longrightarrow> split_char c (p @ c # s) = p # split_char c s"
  by (induction p) auto

lemma join_Cons: "ps \<noteq> [] \<Longrightarrow> join_str sep (p # ps) = p @ sep @ join_str sep ps"
  by (cases ps) simp_all

lemma split_char_join:
  "ps \<noteq> [] \<Longrightarrow> \<forall>p \<in> set ps. c \<notin> set p \<Longrightarrow> split_char c (join_str [c] ps) = ps"
proof (induction ps)
  case (Cons p ps)
  then show ?case by (cases ps) (auto simp: split_char_none split_char_append)
qed simp

lemma join_split_char: "join_str [c] (split_char c s) = s"
proof (induction s)
  case (Cons x s)
  then show ?case
    by (cases "split_char c s") (auto simp: join_Cons, (cases "tl (split_char c s)"; simp)+)
qed simp

lemma find_char_iff: "find_char c s = Some n \<longleftrightarrow> n < length s \<and> s ! n = c \<and> c \<notin> set (take n s)"
  by (induction s arbitrary: n) (auto simp: nth_Cons take_Cons split: nat.splits)

lemma find_char_None [simp]: "find_char c s = None \<longleftrightarrow> c \<notin> set s"
  by (induction s) auto

lemma find_char_append: "c \<notin> set p \<Longrightarrow> find_char c (p @ c # s) = Some (length p)"
  by (simp add: find_char_iff)

lemma rfind_char_append: "c \<notin> set s \<Longrightarrow> rfind_char c (p @ c # s) = Some (length p)"
  by (simp add: rfind_char_def find_char_append)

lemma contains_str_iff: "contains_str s p \<longleftrightarrow> (\<exists>a b. s = a @ p @ b)"
proof (induction s)
  case Nil
  then show ?case by (simp add: contains_str_def)
next
  case (Cons c s)
  have "contains_str (c # s) p \<longleftrightarrow> starts_with (c # s) p \<or> contains_str s p"
    by (simp add: contains_str_def starts_with_def)
  also have "\<dots> \<longleftrightarrow> (\<exists>b. c # s = p @ b) \<or> (\<exists>a b. s = a @ p @ b)"
    by (simp add: starts_with_iff Cons.IH)
  also have "\<dots> \<longleftrightarrow> (\<exists>a b. c # s = a @ p @ b)"
    by (metis append_Cons append_Nil list.sel(3) list.exhaust)
  finally show ?case .
qed

section \<open>Hexadecimal text\<close>

text \<open>\<open>is_ascii_hexdigit\<close>, \<open>from_str_radix\<close> and \<open>hex::decode\<close>, which reads two digits for each octet.\<close>

definition hex_value :: "char \<Rightarrow> nat option" where
  "hex_value c =
    (let n = of_char c :: nat
     in if 48 \<le> n \<and> n \<le> 57 then Some (n - 48)
        else if 97 \<le> n \<and> n \<le> 102 then Some (n - 87)
        else if 65 \<le> n \<and> n \<le> 70 then Some (n - 55)
        else None)"

fun hex_decode :: "string \<Rightarrow> byte list option" where
  "hex_decode [] = Some []"
| "hex_decode [c] = None"
| "hex_decode (c # d # s) =
    (case (hex_value c, hex_value d, hex_decode s) of
       (Some x, Some y, Some bs) \<Rightarrow> Some (word_of_nat (16 * x + y) # bs)
     | _ \<Rightarrow> None)"

definition hex_digit :: "nat \<Rightarrow> char" where
  "hex_digit n = char_of (if n < 10 then 48 + n else 87 + n)"

definition hex_encode :: "byte list \<Rightarrow> string" where
  "hex_encode bs = concat (map (\<lambda>b. [hex_digit (unat b div 16), hex_digit (unat b mod 16)]) bs)"

lemma hex_value_digit: "n < 16 \<Longrightarrow> hex_value (hex_digit n) = Some n \<and> \<not> is_space (hex_digit n)"
  by (auto simp: hex_value_def hex_digit_def is_space_def Let_def)

lemma hex_decode_encode: "hex_decode (hex_encode bs) = Some bs"
proof (induction bs)
  case (Cons b bs)
  have "unat b < 256" using unsigned_less [of b, where ?'a = nat] by simp
  then have "unat b div 16 < 16" "unat b mod 16 < 16" by simp_all
  with Cons show ?case by (simp add: hex_encode_def hex_value_digit)
qed (simp add: hex_encode_def)

lemma unat_byte_nibbles: "unat (b :: byte) div 16 < 16" "unat b mod 16 < 16"
  using unsigned_less [of b, where ?'a = nat] by simp_all

lemma hex_encode_chars: "c \<in> set (hex_encode bs) \<Longrightarrow> hex_value c \<noteq> None \<and> \<not> is_space c"
  by (induction bs) (auto simp: hex_encode_def hex_value_digit unat_byte_nibbles)

lemma length_hex_encode [simp]: "length (hex_encode bs) = 2 * length bs"
  by (induction bs) (simp_all add: hex_encode_def)

end
