(* ===== verification/LcrTypes.thy ===== *)
theory LcrTypes
  imports Complex_Main RustStrings
begin

text \<open>
  The data of the least-cost routing engine (\<open>src/lcr/types.rs\<close>) and what its modules
  do with number strings. Money (\<open>rust_decimal::Decimal\<close>) is a rational; identifiers
  and times (\<open>i32\<close>, \<open>DateTime\<close>) are integers, since the code only
  compares them. A \<open>String\<close> is its bytes, so its length is the number of bytes.
\<close>

section \<open>Rates and decks\<close>

datatype rate_type = Rate_LRN | Rate_DNIS

datatype route_type = Route_NANPA | Route_AZ | Route_OTHER

datatype call_jurisdiction = J_Interstate | J_Intrastate | J_Indeterminate | J_Local | J_International

definition toll_free_flat_code :: string where
  "toll_free_flat_code = ''TOLLFREE''"

record nanpa_rate =
  nr_id :: int
  nr_deck_id :: int
  nr_code :: string
  nr_inter_rate :: rat
  nr_intra_rate :: rat
  nr_ij_rate :: rat
  nr_local_rate :: "rat option"
  nr_min_increment :: int
  nr_interval :: int
  nr_setup_fee :: "rat option"

datatype international_jurisdiction = IJ_EEA | IJ_ROW

record international_rate =
  ir_id :: int
  ir_deck_id :: int
  ir_country_code :: string
  ir_destination_code :: "string option"
  ir_destination_name :: string
  ir_jurisdiction :: international_jurisdiction
  ir_rate :: rat
  ir_initial_increment :: int
  ir_subsequent_increment :: int
  ir_setup_fee :: "rat option"
  ir_created_at :: int

text \<open>The fields of a deck that routing and the cache read.\<close>

record rate_deck =
  rd_id :: int
  rd_name :: string
  rd_owner_id :: int
  rd_rate_type :: rate_type
  rd_effective_date :: int
  rd_end_date :: "int option"
  rd_deck_version :: int
  rd_active :: bool

section \<open>Trunks and routes\<close>

datatype transport_protocol = TP_Udp | TP_Tcp | TP_Tls | TP_Ws | TP_Wss

record egress_trunk =
  et_id :: int
  et_name :: string
  et_vendor_id :: int
  et_host :: string
  et_port :: u16
  et_transport :: transport_protocol
  et_capacity_limit :: int
  et_cps_limit :: rat
  et_active :: bool
  et_priority :: int
  et_weight :: int
  et_tech_prefix :: "string option"
  et_supports_international :: bool

record ingress_trunk =
  it_id :: int
  it_name :: string
  it_client_id :: int
  it_ip_address :: string
  it_capacity_limit :: int
  it_cps_limit :: rat
  it_profit_protection :: bool
  it_min_profit_margin :: rat
  it_active :: bool
  it_auth_username :: "string option"
  it_auth_password :: "string option"
  it_supports_international :: bool

datatype route_position = Before | After

record static_route =
  sr_id :: int
  sr_ingress_trunk_id :: "int option"
  sr_egress_trunk_id :: int
  sr_pattern :: string
  sr_priority :: int
  sr_position :: route_position
  sr_description :: "string option"
  sr_active :: bool

record call_route =
  rt_trunk :: egress_trunk
  rt_vendor :: string
  rt_vendor_rate :: "nanpa_rate option"
  rt_client_rate :: "nanpa_rate option"
  rt_cost_per_minute :: rat
  rt_selling_per_minute :: rat
  rt_profit_margin :: rat
  rt_priority :: int
  rt_setup_fee :: rat
  rt_min_increment :: int
  rt_interval :: int

record trunk_rate_association =
  ta_id :: int
  ta_egress_trunk_id :: "int option"
  ta_ingress_trunk_id :: "int option"
  ta_vendor_deck_id :: "int option"
  ta_client_deck_id :: "int option"
  ta_priority :: int

record lcr_route_trunk =
  lt_id :: int
  lt_lcr_route_id :: int
  lt_egress_trunk_id :: int
  lt_vendor_deck_id :: int
  lt_priority :: int
  lt_weight :: int

datatype trunk_type = Ingress | Egress

section \<open>Numbers and their jurisdiction data\<close>

record nanpa_static =
  ns_npa :: string
  ns_nxx :: "string option"
  ns_state :: string
  ns_country :: string
  ns_lata :: "string option"
  ns_ocn :: "string option"
  ns_rate_center :: "string option"
  ns_switch_clli :: "string option"

record lrn_cache_entry =
  le_tn :: string
  le_lrn :: string
  le_cached_at :: int
  le_expires_at :: int
  le_ported :: bool

record phone_validation_config =
  pv_enabled :: bool
  pv_strict_validation :: bool
  pv_default_region :: string
  pv_use_country_detection :: bool

text \<open>The fields of a routing plan and of a country preference that routing reads.\<close>

record international_routing_plan =
  ip_id :: int
  ip_name :: string
  ip_phone_validation_enabled :: bool
  ip_phone_validation_strict :: bool
  ip_phone_validation_default_region :: string
  ip_phone_validation_use_country_detection :: bool
  ip_active :: bool

record country_routing_preference =
  cp_id :: int
  cp_routing_plan_id :: int
  cp_country_code :: string
  cp_cost_multiplier :: rat
  cp_require_validation :: bool

section \<open>Configurations by scope\<close>

datatype config_scope = ScopeGlobal | ScopeIngressTrunk | ScopeEgressTrunk

record route_advance_config =
  ac_id :: int
  ac_scope :: config_scope
  ac_scope_id :: "int option"
  ac_advance_on_codes :: "string list"
  ac_stop_on_codes :: "string list"

record timer_config =
  tc_id :: int
  tc_scope :: config_scope
  tc_scope_id :: "int option"
  tc_100_to_183_ms :: int
  tc_max_call_duration_sec :: int
  tc_post_dial_delay_ms :: int
  tc_ringing_timeout_sec :: int
  tc_transaction_timeout_ms :: int

text \<open>The response codes of the engine itself, a smaller set than that of termination routing.\<close>

datatype lcr_sip_code =
  L_NotFound | L_BusyHere | L_Unauthorized | L_Forbidden | L_PaymentRequired
| L_TemporarilyUnavailable | L_CallDoesNotExist | L_RequestTerminated | L_InternalServerError
| L_BadGateway | L_ServiceUnavailable | L_ServerTimeout | L_BusyEverywhere | L_Decline
| L_DoesNotExistAnywhere | L_NotAcceptable

fun lcr_code :: "lcr_sip_code \<Rightarrow> nat" where
  "lcr_code L_NotFound = 404" | "lcr_code L_BusyHere = 486" | "lcr_code L_Unauthorized = 401"
| "lcr_code L_Forbidden = 403" | "lcr_code L_PaymentRequired = 402"
| "lcr_code L_TemporarilyUnavailable = 480" | "lcr_code L_CallDoesNotExist = 481"
| "lcr_code L_RequestTerminated = 487" | "lcr_code L_InternalServerError = 500"
| "lcr_code L_BadGateway = 502" | "lcr_code L_ServiceUnavailable = 503"
| "lcr_code L_ServerTimeout = 504" | "lcr_code L_BusyEverywhere = 600" | "lcr_code L_Decline = 603"
| "lcr_code L_DoesNotExistAnywhere = 604" | "lcr_code L_NotAcceptable = 606"

definition lcr_should_advance :: "route_advance_config \<Rightarrow> lcr_sip_code \<Rightarrow> bool" where
  "lcr_should_advance c r \<longleftrightarrow> dec (lcr_code r) \<in> set (ac_advance_on_codes c)"

definition lcr_should_stop :: "route_advance_config \<Rightarrow> lcr_sip_code \<Rightarrow> bool" where
  "lcr_should_stop c r \<longleftrightarrow> dec (lcr_code r) \<in> set (ac_stop_on_codes c)"

section \<open>Requests and answers\<close>

record route_request =
  rq_ani :: string
  rq_dnis :: string
  rq_ingress_trunk_id :: int
  rq_client_deck_id :: "int option"
  rq_route_type :: route_type
  rq_require_profit_protection :: bool
  rq_min_profit_margin :: "rat option"
  rq_effective_time :: "int option"
  rq_phone_validation :: "phone_validation_config option"
  rq_routing_plan_id :: "int option"

record lcr_response =
  lr_routes :: "call_route list"
  lr_jurisdiction :: call_jurisdiction
  lr_lrn :: "string option"
  lr_total_routes :: nat
  lr_ani :: string
  lr_dnis :: string
  lr_ingress_trunk :: string
  lr_routing_decision :: string

section \<open>The order of routes\<close>

text \<open>Routes are compared by priority, then by cost: a linear order on the pair of the two.\<close>

datatype route_rank = RouteRank (rank_priority: int) (rank_cost: rat)

instantiation route_rank :: linorder
begin

definition less_eq_route_rank :: "route_rank \<Rightarrow> route_rank \<Rightarrow> bool" where
  "less_eq_route_rank a b \<longleftrightarrow> rank_priority a < rank_priority b \<or>
     rank_priority a = rank_priority b \<and> rank_cost a \<le> rank_cost b"

definition less_route_rank :: "route_rank \<Rightarrow> route_rank \<Rightarrow> bool" where
  "less_route_rank a b \<longleftrightarrow> rank_priority a < rank_priority b \<or>
     rank_priority a = rank_priority b \<and> rank_cost a < rank_cost b"

instance
proof
  fix a b c :: route_rank
  show "(a < b) = (a \<le> b \<and> \<not> b \<le> a)" and "a \<le> a" and "a \<le> b \<or> b \<le> a"
    by (auto simp: less_eq_route_rank_def less_route_rank_def)
  show "a \<le> b \<Longrightarrow> b \<le> c \<Longrightarrow> a \<le> c"
    by (auto simp: less_eq_route_rank_def)
  show "a \<le> b \<Longrightarrow> b \<le> a \<Longrightarrow> a = b"
    by (auto simp: less_eq_route_rank_def intro: route_rank.expand)
qed

end

definition route_rank_of :: "call_route \<Rightarrow> route_rank" where
  "route_rank_of r = RouteRank (rt_priority r) (rt_cost_per_minute r)"

lemma route_rank_le:
  "route_rank_of r \<le> route_rank_of s \<longleftrightarrow> rt_priority r < rt_priority s \<or>
     rt_priority r = rt_priority s \<and> rt_cost_per_minute r \<le> rt_cost_per_minute s"
  by (simp add: route_rank_of_def less_eq_route_rank_def)

end
