(* ===== verification/RateWindow.thy ===== *)
theory RateWindow
  imports Main
begin

text \<open>
  The interface of the fixed-window rate limiters of the switch (termination routing, the security
  utilities, and the limiter of the security module), with the count of
  what one window admits, proved once for all of them.
\<close>

text \<open>The interface of a fixed-window limiter: the beginning of its window (if it has one), the calls
  counted in it, its limit, and when a new window begins.\<close>

locale rate_window =
  fixes admit :: "nat \<Rightarrow> 's \<Rightarrow> bool \<times> 's"
    and stamp :: "'s \<Rightarrow> nat \<Rightarrow> 'b"
    and begins :: "'s \<Rightarrow> 'b"
    and calls :: "'s \<Rightarrow> nat"
    and limit :: "'s \<Rightarrow> nat"
    and expired :: "nat \<Rightarrow> 'b \<Rightarrow> bool"
  assumes admit_limit: "limit (snd (admit now s)) = limit s"
    and admit_same: "\<not> expired now (begins s) \<Longrightarrow> begins (snd (admit now s)) = begins s \<and>
      fst (admit now s) = (calls s < limit s) \<and>
      calls (snd (admit now s)) = (if calls s < limit s then calls s + 1 else calls s)"
    and admit_new: "expired now (begins s) \<Longrightarrow> 0 < limit s \<Longrightarrow>
      fst (admit now s) \<and> begins (snd (admit now s)) = stamp s now \<and> calls (snd (admit now s)) = 1"
begin

lemma admit_bounded:
  "\<not> expired now (begins s) \<Longrightarrow> calls s \<le> limit s \<Longrightarrow> calls (snd (admit now s)) \<le> limit (snd (admit now s))"
  using admit_same [of now s] admit_limit [of now s] by (auto split: if_splits)

primrec run :: "nat list \<Rightarrow> 's \<Rightarrow> bool list \<times> 's" where
  "run [] s = ([], s)"
| "run (t # ts) s =
    (fst (admit t s) # fst (run ts (snd (admit t s))), snd (run ts (snd (admit t s))))"

lemma run_window:
  "\<forall>t \<in> set ts. \<not> expired t (begins s) \<Longrightarrow> calls s \<le> limit s \<Longrightarrow>
    length (filter (\<lambda>a. a) (fst (run ts s))) = min (length ts) (limit s - calls s)"
proof (induction ts arbitrary: s)
  case (Cons t ts)
  let ?s = "snd (admit t s)"
  from Cons.prems have ok: "begins ?s = begins s" "calls ?s \<le> limit ?s" "limit ?s = limit s"
    using admit_same [of t s] admit_limit [of t s] admit_bounded [of t s] by auto
  then have "length (filter (\<lambda>a. a) (fst (run ts ?s))) = min (length ts) (limit s - calls ?s)"
    using Cons.IH [of ?s] Cons.prems(1) by simp
  with Cons.prems admit_same [of t s] show ?case by auto
qed simp

end

end
