(* ===== verification/TerminationRouting.thy ===== *)
theory TerminationRouting
  imports LcrTypes RateWindow
begin

text \<open>
  The termination routing service (\<open>src/termination_routing.rs\<close>): SIP response codes and
  when they advance a route, call-rate trackers, trunks with their call counters, the choice of a
  route among those the LCR engine offers, and the reaction to a final response. The LCR engine is
  an argument: a function from the request to an error text or an answer with its routes. Money
  (\<open>rust_decimal::Decimal\<close>) is a rational, trunk identifiers (\<open>i32\<close>, only
  compared) are integers, counters are words of their width.
\<close>

section \<open>SIP response codes\<close>

datatype (plugins only: code size) sip_response_code =
  R_BadRequest | R_Unauthorized | R_PaymentRequired | R_Forbidden | R_NotFound
  | R_MethodNotAllowed | R_NotAcceptable | R_RequestTimeout | R_Gone | R_RequestEntityTooLarge
  | R_RequestUriTooLong | R_UnsupportedMediaType | R_UnsupportedUriScheme | R_BadExtension
  | R_ExtensionRequired | R_IntervalTooBrief | R_TemporarilyUnavailable
  | R_CallTransactionDoesNotExist | R_LoopDetected | R_TooManyHops | R_AddressIncomplete
  | R_Ambiguous | R_BusyHere | R_RequestTerminated | R_NotAcceptableHere | R_InternalServerError
  | R_NotImplemented | R_BadGateway | R_ServiceUnavailable | R_ServerTimeout
  | R_VersionNotSupported | R_MessageTooLarge | R_BusyEverywhere | R_Decline
  | R_DoesNotExistAnywhere | R_NotAcceptableGlobal

fun sip_code :: "sip_response_code \<Rightarrow> u16" where
  "sip_code R_BadRequest = 400"
| "sip_code R_Unauthorized = 401"
| "sip_code R_PaymentRequired = 402"
| "sip_code R_Forbidden = 403"
| "sip_code R_NotFound = 404"
| "sip_code R_MethodNotAllowed = 405"
| "sip_code R_NotAcceptable = 406"
| "sip_code R_RequestTimeout = 408"
| "sip_code R_Gone = 410"
| "sip_code R_RequestEntityTooLarge = 413"
| "sip_code R_RequestUriTooLong = 414"
| "sip_code R_UnsupportedMediaType = 415"
| "sip_code R_UnsupportedUriScheme = 416"
| "sip_code R_BadExtension = 420"
| "sip_code R_ExtensionRequired = 421"
| "sip_code R_IntervalTooBrief = 423"
| "sip_code R_TemporarilyUnavailable = 480"
| "sip_code R_CallTransactionDoesNotExist = 481"
| "sip_code R_LoopDetected = 482"
| "sip_code R_TooManyHops = 483"
| "sip_code R_AddressIncomplete = 484"
| "sip_code R_Ambiguous = 485"
| "sip_code R_BusyHere = 486"
| "sip_code R_RequestTerminated = 487"
| "sip_code R_NotAcceptableHere = 488"
| "sip_code R_InternalServerError = 500"
| "sip_code R_NotImplemented = 501"
| "sip_code R_BadGateway = 502"
| "sip_code R_ServiceUnavailable = 503"
| "sip_code R_ServerTimeout = 504"
| "sip_code R_VersionNotSupported = 505"
| "sip_code R_MessageTooLarge = 513"
| "sip_code R_BusyEverywhere = 600"
| "sip_code R_Decline = 603"
| "sip_code R_DoesNotExistAnywhere = 604"
| "sip_code R_NotAcceptableGlobal = 606"

fun should_advance_code :: "sip_response_code \<Rightarrow> bool" where
  "should_advance_code R_BadRequest = True"
| "should_advance_code R_Unauthorized = False"
| "should_advance_code R_PaymentRequired = False"
| "should_advance_code R_Forbidden = False"
| "should_advance_code R_NotFound = True"
| "should_advance_code R_MethodNotAllowed = True"
| "should_advance_code R_NotAcceptable = True"
| "should_advance_code R_RequestTimeout = True"
| "should_advance_code R_Gone = True"
| "should_advance_code R_RequestEntityTooLarge = True"
| "should_advance_code R_RequestUriTooLong = True"
| "should_advance_code R_UnsupportedMediaType = True"
| "should_advance_code R_UnsupportedUriScheme = True"
| "should_advance_code R_BadExtension = True"
| "should_advance_code R_ExtensionRequired = True"
| "should_advance_code R_IntervalTooBrief = True"
| "should_advance_code R_TemporarilyUnavailable = True"
| "should_advance_code R_CallTransactionDoesNotExist = True"
| "should_advance_code R_LoopDetected = True"
| "should_advance_code R_TooManyHops = True"
| "should_advance_code R_AddressIncomplete = True"
| "should_advance_code R_Ambiguous = False"
| "should_advance_code R_BusyHere = True"
| "should_advance_code R_RequestTerminated = False"
| "should_advance_code R_NotAcceptableHere = True"
| "should_advance_code R_InternalServerError = True"
| "should_advance_code R_NotImplemented = True"
| "should_advance_code R_BadGateway = True"
| "should_advance_code R_ServiceUnavailable = True"
| "should_advance_code R_ServerTimeout = True"
| "should_advance_code R_VersionNotSupported = True"
| "should_advance_code R_MessageTooLarge = True"
| "should_advance_code R_BusyEverywhere = False"
| "should_advance_code R_Decline = False"
| "should_advance_code R_DoesNotExistAnywhere = False"
| "should_advance_code R_NotAcceptableGlobal = False"

definition sip_try_from :: "u16 \<Rightarrow> sip_response_code option" where
  "sip_try_from code =
    (if code = 400 then Some R_BadRequest
     else if code = 401 then Some R_Unauthorized
     else if code = 402 then Some R_PaymentRequired
     else if code = 403 then Some R_Forbidden
     else if code = 404 then Some R_NotFound
     else if code = 405 then Some R_MethodNotAllowed
     else if code = 406 then Some R_NotAcceptable
     else if code = 408 then Some R_RequestTimeout
     else if code = 410 then Some R_Gone
     else if code = 413 then Some R_RequestEntityTooLarge
     else if code = 414 then Some R_RequestUriTooLong
     else if code = 415 then Some R_UnsupportedMediaType
     else if code = 416 then Some R_UnsupportedUriScheme
     else if code = 420 then Some R_BadExtension
     else if code = 421 then Some R_ExtensionRequired
     else if code = 423 then Some R_IntervalTooBrief
     else if code = 480 then Some R_TemporarilyUnavailable
     else if code = 481 then Some R_CallTransactionDoesNotExist
     else if code = 482 then Some R_LoopDetected
     else if code = 483 then Some R_TooManyHops
     else if code = 484 then Some R_AddressIncomplete
     else if code = 485 then Some R_Ambiguous
     else if code = 486 then Some R_BusyHere
     else if code = 487 then Some R_RequestTerminated
     else if code = 488 then Some R_NotAcceptableHere
     else if code = 500 then Some R_InternalServerError
     else if code = 501 then Some R_NotImplemented
     else if code = 502 then Some R_BadGateway
     else if code = 503 then Some R_ServiceUnavailable
     else if code = 504 then Some R_ServerTimeout
     else if code = 505 then Some R_VersionNotSupported
     else if code = 513 then Some R_MessageTooLarge
     else if code = 600 then Some R_BusyEverywhere
     else if code = 603 then Some R_Decline
     else if code = 604 then Some R_DoesNotExistAnywhere
     else if code = 606 then Some R_NotAcceptableGlobal
     else None)"

datatype response_category = ClientError | ServerError | GlobalFailure | UnknownCategory

definition sip_category :: "sip_response_code \<Rightarrow> response_category" where
  "sip_category c =
    (let code = sip_code c in
     if 400 \<le> code \<and> code \<le> 499 then ClientError
     else if 500 \<le> code \<and> code \<le> 599 then ServerError
     else if 600 \<le> code \<and> code \<le> 699 then GlobalFailure
     else UnknownCategory)"

section \<open>Trunks, routes, requests and answers\<close>

record failed_attempt =
  fa_trunk_id :: int
  fa_trunk_name :: string
  fa_response_code :: u16
  fa_response_reason :: string
  fa_attempt_time :: nat
  fa_duration_ms :: nat

record 'q termination_request =
  tq_call_id :: string
  tq_ani :: string
  tq_dnis :: string
  tq_route_request :: 'q
  tq_attempt_number :: u32
  tq_previous_responses :: "failed_attempt list"
  tq_max_attempts :: u32
  tq_timestamp :: nat

datatype routing_decision =
  RouteFound | NoRoutesAvailable | AllRoutesFailed | MaxAttemptsReached | PolicyBlocked | ProfitProtection

record termination_response =
  tr_success :: bool
  tr_selected_route :: "call_route option"
  tr_routing_decision :: routing_decision
  tr_remaining_routes :: "call_route list"
  tr_total_attempts :: u32
  tr_reason :: string
  tr_jurisdiction :: call_jurisdiction
  tr_lrn :: "string option"

datatype dtmf_relay_method = Relay_Rfc2833 | Relay_SipInfo | Relay_Inband

record trunk_codec_config =
  cc_preferred_codecs :: "string list"
  cc_allow_transcoding :: bool
  cc_dtmf_relay_method :: dtmf_relay_method
  cc_silence_suppression :: bool
  cc_echo_cancellation :: bool

datatype cnam_lookup_method = Cnam_Database | Cnam_Sip | Cnam_External | Cnam_None

record trunk_cnam_config =
  cn_enabled :: bool
  cn_lookup_method :: cnam_lookup_method
  cn_cache_ttl_seconds :: u32
  cn_default_name :: "string option"

text \<open>The loss percentage, an \<open>f32\<close> that routing never reads, is kept as its bits.\<close>

record qos_requirements =
  qos_dscp_marking :: u8
  qos_max_latency_ms :: u32
  qos_max_jitter_ms :: u32
  qos_max_packet_loss_percent :: u32
  qos_bandwidth_kbps :: u32

record termination_trunk =
  tk_id :: int
  tk_name :: string
  tk_enabled :: bool
  tk_destination_ip :: string
  tk_destination_port :: u16
  tk_codec_config :: trunk_codec_config
  tk_cnam_config :: "trunk_cnam_config option"
  tk_qos_requirements :: qos_requirements
  tk_cps_limit :: "u32 option"
  tk_concurrent_call_limit :: "u32 option"
  tk_route_advance_codes :: "u16 list"

section \<open>Call-rate trackers\<close>

text \<open>Time of the first tracker is in nanoseconds, of the second in whole seconds.\<close>

record cps_tracker =
  ct_calls_this_second :: u32
  ct_last_reset :: nat
  ct_limit :: u32

definition new_cps_tracker :: "nat \<Rightarrow> u32 \<Rightarrow> cps_tracker" where
  "new_cps_tracker now limit = \<lparr>ct_calls_this_second = 0, ct_last_reset = now, ct_limit = limit\<rparr>"

definition can_place_call :: "nat \<Rightarrow> cps_tracker \<Rightarrow> bool \<times> cps_tracker" where
  "can_place_call now t =
    (let t = (if 1000000000 \<le> now - ct_last_reset t
              then t\<lparr>ct_calls_this_second := 0, ct_last_reset := now\<rparr> else t)
     in if ct_calls_this_second t < ct_limit t
        then (True, t\<lparr>ct_calls_this_second := ct_calls_this_second t + 1\<rparr>)
        else (False, t))"

record cps_tracker_atomic =
  ca_calls_this_second :: u32
  ca_last_reset :: nat
  ca_limit :: u32

definition new_cps_tracker_atomic :: "nat \<Rightarrow> u32 \<Rightarrow> cps_tracker_atomic" where
  "new_cps_tracker_atomic now_secs limit =
     \<lparr>ca_calls_this_second = 0, ca_last_reset = now_secs, ca_limit = limit\<rparr>"

text \<open>\<open>cas_ok\<close> is whether the weak compare-and-exchange succeeds.\<close>

definition can_admit_call ::
    "bool \<Rightarrow> nat \<Rightarrow> cps_tracker_atomic \<Rightarrow> bool \<times> cps_tracker_atomic" where
  "can_admit_call cas_ok now t =
    (let t = (if ca_last_reset t < now \<and> cas_ok
              then t\<lparr>ca_last_reset := now, ca_calls_this_second := 0\<rparr> else t)
     in (ca_calls_this_second t < ca_limit t, t))"

definition cps_increment :: "cps_tracker_atomic \<Rightarrow> cps_tracker_atomic" where
  "cps_increment t = t\<lparr>ca_calls_this_second := ca_calls_this_second t + 1\<rparr>"

section \<open>The service\<close>

record termination_service =
  sv_trunks :: "int \<rightharpoonup> termination_trunk"
  sv_cps_trackers :: "int \<rightharpoonup> cps_tracker_atomic"
  sv_active_calls :: "int \<rightharpoonup> u32"

definition new_termination_service :: termination_service where
  "new_termination_service =
     \<lparr>sv_trunks = (\<lambda>_. None), sv_cps_trackers = (\<lambda>_. None), sv_active_calls = (\<lambda>_. None)\<rparr>"

definition add_trunk :: "nat \<Rightarrow> termination_trunk \<Rightarrow> termination_service \<Rightarrow> termination_service" where
  "add_trunk now_secs k s =
    (let s = (case tk_cps_limit k of
                Some l \<Rightarrow> s\<lparr>sv_cps_trackers := (sv_cps_trackers s)(tk_id k \<mapsto> new_cps_tracker_atomic now_secs l)\<rparr>
              | None \<Rightarrow> s);
         s = s\<lparr>sv_active_calls := (sv_active_calls s)(tk_id k \<mapsto> 0)\<rparr>
     in s\<lparr>sv_trunks := (sv_trunks s)(tk_id k \<mapsto> k)\<rparr>)"

definition active_of :: "termination_service \<Rightarrow> int \<Rightarrow> u32" where
  "active_of s i = (case sv_active_calls s i of Some n \<Rightarrow> n | None \<Rightarrow> 0)"

definition can_trunk_accept_call ::
    "bool \<Rightarrow> nat \<Rightarrow> int \<Rightarrow> termination_service \<Rightarrow> bool \<times> termination_service" where
  "can_trunk_accept_call cas_ok now trunk_id s =
    (case sv_trunks s trunk_id of
       None \<Rightarrow> (False, s)
     | Some k \<Rightarrow>
         if \<not> tk_enabled k then (False, s)
         else if (case tk_concurrent_call_limit k of
                    Some l \<Rightarrow> l \<le> active_of s trunk_id | None \<Rightarrow> False) then (False, s)
         else case sv_cps_trackers s trunk_id of
                None \<Rightarrow> (True, s)
              | Some t \<Rightarrow>
                  let (ok, t) = can_admit_call cas_ok now t
                  in (ok, s\<lparr>sv_cps_trackers := (sv_cps_trackers s)(trunk_id \<mapsto> t)\<rparr>))"

text \<open>The two parts of \<open>register_call\<close> after its check.\<close>

definition register_increment :: "int \<Rightarrow> termination_service \<Rightarrow> termination_service" where
  "register_increment trunk_id s =
    (let s = (case sv_active_calls s trunk_id of
                Some n \<Rightarrow> s\<lparr>sv_active_calls := (sv_active_calls s)(trunk_id \<mapsto> n + 1)\<rparr> | None \<Rightarrow> s)
     in case sv_cps_trackers s trunk_id of
          Some t \<Rightarrow> s\<lparr>sv_cps_trackers := (sv_cps_trackers s)(trunk_id \<mapsto> cps_increment t)\<rparr>
        | None \<Rightarrow> s)"

definition register_call ::
    "bool \<Rightarrow> nat \<Rightarrow> int \<Rightarrow> termination_service \<Rightarrow> bool \<times> termination_service" where
  "register_call cas_ok now trunk_id s =
    (let (ok, s) = can_trunk_accept_call cas_ok now trunk_id s
     in if \<not> ok then (False, s) else (True, register_increment trunk_id s))"

definition end_call :: "int \<Rightarrow> termination_service \<Rightarrow> termination_service" where
  "end_call trunk_id s =
    (case sv_active_calls s trunk_id of
       Some n \<Rightarrow> s\<lparr>sv_active_calls := (sv_active_calls s)(trunk_id \<mapsto> n - 1)\<rparr> | None \<Rightarrow> s)"

section \<open>Choosing a route\<close>

definition should_retry_response_code :: "u16 \<Rightarrow> bool" where
  "should_retry_response_code code =
    (case sip_try_from code of
       Some c \<Rightarrow> should_advance_code c
     | None \<Rightarrow> 400 \<le> code \<and> code \<le> 599)"

definition filter_available_routes ::
    "call_route list \<Rightarrow> failed_attempt list \<Rightarrow> call_route list" where
  "filter_available_routes routes previous =
     filter (\<lambda>r. \<not> list_ex (\<lambda>a. fa_trunk_id a = et_id (rt_trunk r) \<and>
               \<not> should_retry_response_code (fa_response_code a)) previous) routes"

definition route_passes :: "termination_service \<Rightarrow> call_route \<Rightarrow> bool" where
  "route_passes s r =
    (case sv_trunks s (et_id (rt_trunk r)) of
       None \<Rightarrow> False
     | Some k \<Rightarrow>
         if \<not> tk_enabled k then False
         else if rt_selling_per_minute r < rt_cost_per_minute r then False
         else case tk_concurrent_call_limit k of
                Some l \<Rightarrow> \<not> l \<le> active_of s (et_id (rt_trunk r)) | None \<Rightarrow> True)"

fun select_best_route :: "termination_service \<Rightarrow> call_route list \<Rightarrow> call_route option" where
  "select_best_route s [] = None"
| "select_best_route s (r # rs) = (if route_passes s r then Some r else select_best_route s rs)"

definition reject_response ::
    "u32 \<Rightarrow> routing_decision \<Rightarrow> call_route list \<Rightarrow> string \<Rightarrow> call_jurisdiction \<Rightarrow> string option \<Rightarrow>
     termination_response" where
  "reject_response attempts decision remaining reason juris lrn =
     \<lparr>tr_success = False, tr_selected_route = None, tr_routing_decision = decision,
      tr_remaining_routes = remaining, tr_total_attempts = attempts, tr_reason = reason,
      tr_jurisdiction = juris, tr_lrn = lrn\<rparr>"

definition route_termination ::
    "('q \<Rightarrow> string + lcr_response) \<Rightarrow> 'q termination_request \<Rightarrow> termination_service \<Rightarrow>
     termination_response \<times> termination_service" where
  "route_termination find_routes q s =
    (let n = tq_attempt_number q in
     if tq_max_attempts q \<le> n then
       (reject_response n MaxAttemptsReached [] ''Maximum routing attempts reached'' J_Indeterminate None, s)
     else case find_routes (tq_route_request q) of
       Inl e \<Rightarrow>
         (reject_response n NoRoutesAvailable [] (''LCR routing failed: '' @ e) J_Indeterminate None, s)
     | Inr lcr \<Rightarrow>
         if lr_routes lcr = [] then
           (reject_response n NoRoutesAvailable [] ''No routes available for destination''
              (lr_jurisdiction lcr) (lr_lrn lcr), s)
         else
           let available = filter_available_routes (lr_routes lcr) (tq_previous_responses q) in
           if available = [] then
             (reject_response n AllRoutesFailed [] ''All available routes have been attempted and failed''
                (lr_jurisdiction lcr) (lr_lrn lcr), s)
           else case select_best_route s available of
             None \<Rightarrow>
               if list_all (\<lambda>r. rt_selling_per_minute r < rt_cost_per_minute r) available then
                 (reject_response n ProfitProtection available
                    ''All routes would result in loss - profit protection activated''
                    (lr_jurisdiction lcr) (lr_lrn lcr), s)
               else
                 (reject_response n PolicyBlocked available
                    ''No routes pass policy checks (CPS limits, capacity, etc.)''
                    (lr_jurisdiction lcr) (lr_lrn lcr), s)
           | Some r \<Rightarrow>
               let i = et_id (rt_trunk r) in
               (\<lparr>tr_success = True, tr_selected_route = Some r, tr_routing_decision = RouteFound,
                 tr_remaining_routes = filter (\<lambda>x. et_id (rt_trunk x) \<noteq> i) available,
                 tr_total_attempts = n, tr_reason = ''Route successfully selected'',
                 tr_jurisdiction = lr_jurisdiction lcr, tr_lrn = lr_lrn lcr\<rparr>,
                s\<lparr>sv_active_calls := (sv_active_calls s)(i \<mapsto> active_of s i + 1)\<rparr>))"

section \<open>Responses\<close>

datatype route_advance_decision = AdvanceToNextRoute | CompleteCallDecision

definition service_handle_sip_response ::
    "int \<Rightarrow> u16 \<Rightarrow> termination_service \<Rightarrow> route_advance_decision \<times> termination_service" where
  "service_handle_sip_response trunk_id code s =
    (let s' = (if 300 \<le> code \<and> code \<le> 699 then
                 (case sv_active_calls s trunk_id of
                    Some n \<Rightarrow> if 0 < n then s\<lparr>sv_active_calls := (sv_active_calls s)(trunk_id \<mapsto> n - 1)\<rparr> else s
                  | None \<Rightarrow> s)
               else s);
         advance = (case sip_try_from code of
             Some c \<Rightarrow> should_advance_code c
           | None \<Rightarrow>
               (case sv_trunks s' trunk_id of
                  Some k \<Rightarrow> code \<in> set (tk_route_advance_codes k)
                | None \<Rightarrow> 400 \<le> code \<and> code \<le> 599))
     in (if advance then AdvanceToNextRoute else CompleteCallDecision, s'))"

record trunk_stats =
  tst_trunk_id :: int
  tst_trunk_name :: string
  tst_enabled :: bool
  tst_active_calls :: u32
  tst_concurrent_limit :: "u32 option"
  tst_cps_limit :: "u32 option"

definition get_trunk_stats :: "int \<Rightarrow> termination_service \<Rightarrow> trunk_stats option" where
  "get_trunk_stats i s =
     map_option (\<lambda>k. \<lparr>tst_trunk_id = i, tst_trunk_name = tk_name k, tst_enabled = tk_enabled k,
       tst_active_calls = active_of s i, tst_concurrent_limit = tk_concurrent_call_limit k,
       tst_cps_limit = tk_cps_limit k\<rparr>) (sv_trunks s i)"

section \<open>Codes\<close>

lemma sip_try_from_code [simp]: "sip_try_from (sip_code c) = Some c"
  by (cases c) (simp_all add: sip_try_from_def)

lemma sip_try_from_SomeD: "sip_try_from code = Some c \<Longrightarrow> sip_code c = code"
  by (auto simp: sip_try_from_def split: if_splits)

lemma should_advance_range: "should_advance_code c \<Longrightarrow> 400 \<le> sip_code c \<and> sip_code c \<le> 599"
  by (cases c) (simp_all add: word_le_nat_alt)

text \<open>The interface of a policy that maps a response code to advancing the route or not: on the
  codes of the enumeration it is the table of the code, on others the class of the code.\<close>

locale advance_policy =
  fixes decide :: "u16 \<Rightarrow> bool"
  assumes known: "sip_try_from code = Some c \<Longrightarrow> decide code = should_advance_code c"
    and unknown: "sip_try_from code = None \<Longrightarrow> decide code = (400 \<le> code \<and> code \<le> 599)"
begin

lemma decide_range: "decide code \<Longrightarrow> 400 \<le> code \<and> code \<le> 599"
proof (cases "sip_try_from code")
  case None
  assume "decide code"
  with None show ?thesis by (simp add: unknown)
next
  case (Some c)
  assume "decide code"
  with Some show ?thesis using should_advance_range [of c] sip_try_from_SomeD [OF Some] by (simp add: known)
qed

lemma decide_eq: "decide code = (case sip_try_from code of Some c \<Rightarrow> should_advance_code c
    | None \<Rightarrow> 400 \<le> code \<and> code \<le> 599)"
  by (simp add: known unknown split: option.splits)

end

interpretation retry: advance_policy should_retry_response_code
  by unfold_locales (simp_all add: should_retry_response_code_def)

section \<open>Call-rate windows\<close>

interpretation cps: rate_window can_place_call "\<lambda>s t. t" ct_last_reset "\<lambda>t. unat (ct_calls_this_second t)"
  "\<lambda>t. unat (ct_limit t)" "\<lambda>now b. 1000000000 \<le> now - b"
  by unfold_locales
    (auto simp: can_place_call_def Let_def word_less_nat_alt unat_Suc_less unat_gt_0)

text \<open>The check and the increment of the atomic tracker, the way \<open>register_call\<close> uses
  them when nothing intervenes.\<close>

definition admit_and_count :: "nat \<Rightarrow> cps_tracker_atomic \<Rightarrow> bool \<times> cps_tracker_atomic" where
  "admit_and_count now t =
     (let (ok, t) = can_admit_call True now t in if ok then (True, cps_increment t) else (False, t))"

interpretation cpsa: rate_window admit_and_count "\<lambda>s t. t" ca_last_reset "\<lambda>t. unat (ca_calls_this_second t)"
  "\<lambda>t. unat (ca_limit t)" "\<lambda>now b. b < now"
  by unfold_locales
    (auto simp: admit_and_count_def can_admit_call_def cps_increment_def Let_def word_less_nat_alt
      unat_Suc_less unat_gt_0)

text \<open>the call-rate trackers admit, within one window, exactly as many calls as the limit
  leaves: the smaller of the number of calls that arrive and of the limit less the calls already
  counted. This holds of the tracker with a clock and of the atomic one.\<close>

theorem cps_window_exact:
  assumes "unat (ct_calls_this_second t) \<le> unat (ct_limit t)"
    and "\<forall>now \<in> set ts. now - ct_last_reset t < 1000000000"
    and "unat (ca_calls_this_second a) \<le> unat (ca_limit a)" and "\<forall>now \<in> set us. now \<le> ca_last_reset a"
  shows "length (filter (\<lambda>b. b) (fst (cps.run ts t))) =
      min (length ts) (unat (ct_limit t) - unat (ct_calls_this_second t)) \<and>
    length (filter (\<lambda>b. b) (fst (cpsa.run us a))) =
      min (length us) (unat (ca_limit a) - unat (ca_calls_this_second a))"
  using cps.run_window [of ts t] cpsa.run_window [of us a] assms by (auto simp: not_le not_less)

theorem cps_window_exact_witness:
  "length (filter (\<lambda>b. b) (fst (cps.run [0, 5, 9] (new_cps_tracker 0 2)))) = 2 \<and>
   length (filter (\<lambda>b. b) (fst (cpsa.run [7, 7, 7] (new_cps_tracker_atomic 7 1)))) = 1"
  using cps_window_exact [of "new_cps_tracker 0 2" "[0, 5, 9]" "new_cps_tracker_atomic 7 1" "[7, 7, 7]"]
  by (simp add: new_cps_tracker_def new_cps_tracker_atomic_def)

section \<open>Counters of a trunk\<close>

lemma can_trunk_accept_active [simp]:
  "sv_active_calls (snd (can_trunk_accept_call cas now i s)) = sv_active_calls s"
  "sv_trunks (snd (can_trunk_accept_call cas now i s)) = sv_trunks s"
  "active_of (snd (can_trunk_accept_call cas now i s)) j = active_of s j"
  by (auto simp: can_trunk_accept_call_def active_of_def split_beta Let_def split: option.splits)

lemma register_increment_simps [simp]:
  "sv_trunks (register_increment i s) = sv_trunks s"
  "sv_active_calls (register_increment i s) j =
     (if j = i then map_option (\<lambda>n. n + 1) (sv_active_calls s i) else sv_active_calls s j)"
  by (auto simp: register_increment_def Let_def split: option.splits)

text \<open>registering calls one after the other never takes a trunk over its limit of
  concurrent calls: a registration is accepted only below the limit and then adds one call to this
  trunk and to no other; a refused one changes no call counter.\<close>

theorem register_call_respects_limit:
  assumes "sv_trunks s i = Some k" and "tk_concurrent_call_limit k = Some l" and "sv_active_calls s i = Some n"
  shows "case register_call cas now i s of
      (True, s') \<Rightarrow> n < l \<and> sv_active_calls s' i = Some (n + 1) \<and> unat (n + 1) \<le> unat l \<and>
        (\<forall>j. j \<noteq> i \<longrightarrow> sv_active_calls s' j = sv_active_calls s j)
    | (False, s') \<Rightarrow> sv_active_calls s' = sv_active_calls s"
proof (cases "fst (can_trunk_accept_call cas now i s)")
  case True
  then have "n < l"
    using assms by (auto simp: can_trunk_accept_call_def active_of_def not_le split: if_splits)
  then have "unat (n + 1) \<le> unat l" using unat_Suc_less [of n l] by (simp add: word_less_nat_alt)
  with True \<open>n < l\<close> assms(3) show ?thesis by (simp add: register_call_def split_beta Let_def)
next
  case False
  then show ?thesis by (simp add: register_call_def split_beta Let_def)
qed

definition plain_trunk :: "int \<Rightarrow> u32 option \<Rightarrow> termination_trunk" where
  "plain_trunk i l = \<lparr>tk_id = i, tk_name = ''t'', tk_enabled = True, tk_destination_ip = ''10.0.0.1'',
     tk_destination_port = 5060,
     tk_codec_config = \<lparr>cc_preferred_codecs = [], cc_allow_transcoding = True, cc_dtmf_relay_method = Relay_Rfc2833,
       cc_silence_suppression = False, cc_echo_cancellation = True\<rparr>,
     tk_cnam_config = None,
     tk_qos_requirements = \<lparr>qos_dscp_marking = 46, qos_max_latency_ms = 150, qos_max_jitter_ms = 50,
       qos_max_packet_loss_percent = 0, qos_bandwidth_kbps = 64\<rparr>,
     tk_cps_limit = None, tk_concurrent_call_limit = l, tk_route_advance_codes = []\<rparr>"

lemma add_plain_trunk:
  "sv_trunks (add_trunk 0 (plain_trunk i l) s) i = Some (plain_trunk i l)"
  "sv_active_calls (add_trunk 0 (plain_trunk i l) s) i = Some 0"
  "sv_cps_trackers (add_trunk 0 (plain_trunk i l) s) = sv_cps_trackers s"
  by (simp_all add: add_trunk_def plain_trunk_def)

theorem register_call_respects_limit_witness:
  "sv_active_calls (snd (register_call True 0 4 (add_trunk 0 (plain_trunk 4 (Some 2)) new_termination_service))) 4 = Some 1"
  using register_call_respects_limit [OF add_plain_trunk(1) _ add_plain_trunk(2), of 4 "Some 2" 2 new_termination_service True 0]
  by (simp add: plain_trunk_def register_call_def can_trunk_accept_call_def add_plain_trunk active_of_def
      add_trunk_def new_termination_service_def register_increment_def)

text \<open>the check and the increment are separate operations on the atomic counters. Two
  callers that both check a trunk with one free place before either increments are both accepted,
  and the trunk is one call over its limit.\<close>

theorem register_call_race:
  assumes "sv_trunks s i = Some k" and "tk_enabled k" and "tk_concurrent_call_limit k = Some (n + 1)"
    and "sv_active_calls s i = Some n" and "n < n + 1" and "n + 1 < n + 2" and "sv_cps_trackers s i = None"
  shows "fst (can_trunk_accept_call cas now i s) \<and>
    fst (can_trunk_accept_call cas now i (snd (can_trunk_accept_call cas now i s))) \<and>
    (\<exists>m. sv_active_calls (register_increment i (register_increment i
        (snd (can_trunk_accept_call cas now i (snd (can_trunk_accept_call cas now i s)))))) i = Some m \<and>
      n + 1 < m)"
  using assms by (simp add: can_trunk_accept_call_def active_of_def not_le add.assoc)

theorem register_call_race_witness:
  "fst (can_trunk_accept_call True 0 4 (add_trunk 0 (plain_trunk 4 (Some 1)) new_termination_service)) \<and>
   (\<exists>m. sv_active_calls (register_increment 4 (register_increment 4
      (snd (can_trunk_accept_call True 0 4 (snd (can_trunk_accept_call True 0 4
        (add_trunk 0 (plain_trunk 4 (Some 1)) new_termination_service))))))) 4 = Some m \<and> 1 < m)"
  using register_call_race [OF add_plain_trunk(1), of 4 "Some 1" 0 new_termination_service True 0]
  by (simp add: plain_trunk_def add_trunk_def new_termination_service_def word_less_nat_alt)

text \<open>ending a call on a trunk whose counter is zero wraps the counter to the largest
  word; from then on a trunk with any limit of concurrent calls refuses every call.\<close>

theorem end_call_wraps:
  assumes "sv_active_calls s i = Some 0" and "sv_trunks s i = Some k" and "tk_concurrent_call_limit k = Some l"
  shows "sv_active_calls (end_call i s) i = Some (- 1) \<and>
    \<not> fst (can_trunk_accept_call cas now i (end_call i s))"
proof -
  have "l \<le> - 1" by simp
  with assms show ?thesis
    by (simp add: end_call_def can_trunk_accept_call_def active_of_def)
qed

theorem end_call_wraps_witness:
  "\<not> fst (can_trunk_accept_call True 0 4 (end_call 4 (add_trunk 0 (plain_trunk 4 (Some 1000)) new_termination_service)))"
  using end_call_wraps [OF add_plain_trunk(2,1), of 4 "Some 1000" 1000 new_termination_service True 0]
  by (simp add: plain_trunk_def)

section \<open>The chosen route\<close>

lemma select_best_route_find: "select_best_route s rs = List.find (route_passes s) rs"
  by (induction rs) simp_all

lemma filter_available_subset: "r \<in> set (filter_available_routes rs ps) \<Longrightarrow> r \<in> set rs"
  by (simp add: filter_available_routes_def)

text \<open>A successful routing, with the service it leaves.\<close>

lemma route_termination_success:
  assumes "route_termination find_routes q s = (resp, s')" and "tr_success resp"
  shows "\<exists>lcr r. tq_attempt_number q < tq_max_attempts q \<and> find_routes (tq_route_request q) = Inr lcr \<and>
    List.find (route_passes s) (filter_available_routes (lr_routes lcr) (tq_previous_responses q)) = Some r \<and>
    tr_selected_route resp = Some r \<and>
    tr_remaining_routes resp = filter (\<lambda>x. et_id (rt_trunk x) \<noteq> et_id (rt_trunk r))
      (filter_available_routes (lr_routes lcr) (tq_previous_responses q)) \<and>
    s' = s\<lparr>sv_active_calls := (sv_active_calls s)(et_id (rt_trunk r) \<mapsto> active_of s (et_id (rt_trunk r)) + 1)\<rparr>"
proof -
  let ?n = "tq_attempt_number q"
  have n: "\<not> tq_max_attempts q \<le> ?n"
    using assms by (auto simp: route_termination_def reject_response_def)
  obtain lcr where lcr: "find_routes (tq_route_request q) = Inr lcr"
    using assms n by (cases "find_routes (tq_route_request q)") (auto simp: route_termination_def reject_response_def)
  define av where "av = filter_available_routes (lr_routes lcr) (tq_previous_responses q)"
  have ne: "lr_routes lcr \<noteq> []"
    using assms n lcr by (auto simp: route_termination_def reject_response_def)
  have av: "av \<noteq> []"
    using assms n lcr ne by (auto simp: route_termination_def reject_response_def Let_def simp flip: av_def)
  obtain r where r: "select_best_route s av = Some r"
  proof (cases "select_best_route s av")
    case None
    with assms n lcr ne av have False
      by (auto simp: route_termination_def reject_response_def Let_def simp flip: av_def split: if_splits)
    then show thesis ..
  qed
  with assms n lcr ne av show ?thesis
    by (intro exI [of _ lcr] exI [of _ r])
      (auto simp add: route_termination_def Let_def not_le simp flip: av_def select_best_route_find)
qed

text \<open>C23: a successful routing picks the first route of the LCR answer that is not excluded by
  an earlier failure and passes the checks: its trunk is known and enabled, it does not sell below
  cost, and its trunk is below its limit. It counts one call on this trunk and on no other, and
  offers the remaining routes of the other trunks.\<close>

theorem route_termination_sound:
  assumes "route_termination find_routes q s = (resp, s')" and "tr_success resp"
  shows "\<exists>lcr r. find_routes (tq_route_request q) = Inr lcr \<and> tr_selected_route resp = Some r \<and>
    tq_attempt_number q < tq_max_attempts q \<and> r \<in> set (lr_routes lcr) \<and>
    List.find (route_passes s) (filter_available_routes (lr_routes lcr) (tq_previous_responses q)) = Some r \<and>
    (\<exists>k. sv_trunks s (et_id (rt_trunk r)) = Some k \<and> tk_enabled k \<and>
       (\<forall>l. tk_concurrent_call_limit k = Some l \<longrightarrow> active_of s (et_id (rt_trunk r)) < l)) \<and>
    rt_cost_per_minute r \<le> rt_selling_per_minute r \<and>
    active_of s' (et_id (rt_trunk r)) = active_of s (et_id (rt_trunk r)) + 1 \<and>
    (\<forall>j. j \<noteq> et_id (rt_trunk r) \<longrightarrow> active_of s' j = active_of s j) \<and>
    (\<forall>x \<in> set (tr_remaining_routes resp). et_id (rt_trunk x) \<noteq> et_id (rt_trunk r) \<and> x \<in> set (lr_routes lcr))"
proof -
  from route_termination_success [OF assms] obtain lcr r where *: "tq_attempt_number q < tq_max_attempts q"
      "find_routes (tq_route_request q) = Inr lcr"
      "List.find (route_passes s) (filter_available_routes (lr_routes lcr) (tq_previous_responses q)) = Some r"
      "tr_selected_route resp = Some r"
      "tr_remaining_routes resp = filter (\<lambda>x. et_id (rt_trunk x) \<noteq> et_id (rt_trunk r))
         (filter_available_routes (lr_routes lcr) (tq_previous_responses q))"
      "s' = s\<lparr>sv_active_calls := (sv_active_calls s)(et_id (rt_trunk r) \<mapsto> active_of s (et_id (rt_trunk r)) + 1)\<rparr>"
    by blast
  then have r: "route_passes s r" "r \<in> set (lr_routes lcr)"
    by (auto simp: find_Some_iff dest: nth_mem filter_available_subset)
  from r(1) have p: "(\<exists>k. sv_trunks s (et_id (rt_trunk r)) = Some k \<and> tk_enabled k \<and>
       (\<forall>l. tk_concurrent_call_limit k = Some l \<longrightarrow> active_of s (et_id (rt_trunk r)) < l)) \<and>
    rt_cost_per_minute r \<le> rt_selling_per_minute r"
    by (auto simp: route_passes_def not_le not_less split: option.splits if_splits)
  show ?thesis
    using * r p by (intro exI [of _ lcr] exI [of _ r]) (auto simp: active_of_def dest: filter_available_subset)
qed

text \<open>A concrete service with two trunks, and the routes of a request to them.\<close>

definition plain_route :: "int \<Rightarrow> call_route" where
  "plain_route i = \<lparr>rt_trunk = \<lparr>et_id = i, et_name = ''t'', et_vendor_id = 1, et_host = ''10.0.0.1'', et_port = 5060,
       et_transport = TP_Udp, et_capacity_limit = 100, et_cps_limit = 10, et_active = True, et_priority = 1,
       et_weight = 1, et_tech_prefix = None, et_supports_international = False\<rparr>,
     rt_vendor = ''v'', rt_vendor_rate = None, rt_client_rate = None, rt_cost_per_minute = 1, rt_selling_per_minute = 2, rt_profit_margin = 1,
     rt_priority = 1, rt_setup_fee = 0, rt_min_increment = 6, rt_interval = 6\<rparr>"

definition two_trunks :: termination_service where
  "two_trunks = add_trunk 0 (plain_trunk 2 None) (add_trunk 0 (plain_trunk 1 None) new_termination_service)"

definition two_routes :: "nat \<Rightarrow> string + lcr_response" where
  "two_routes _ = Inr \<lparr>lr_routes = [plain_route 1, plain_route 2], lr_jurisdiction = J_Interstate, lr_lrn = None,
     lr_total_routes = 2, lr_ani = ''1'', lr_dnis = ''2'', lr_ingress_trunk = ''i'', lr_routing_decision = ''ROUTE_FOUND''\<rparr>"

definition plain_request :: "u32 \<Rightarrow> failed_attempt list \<Rightarrow> nat termination_request" where
  "plain_request n fs = \<lparr>tq_call_id = ''c'', tq_ani = ''1'', tq_dnis = ''2'', tq_route_request = 0,
     tq_attempt_number = n, tq_previous_responses = fs, tq_max_attempts = 3, tq_timestamp = 0\<rparr>"

lemma two_trunks_pass [simp]: "route_passes two_trunks (plain_route 1)" "route_passes two_trunks (plain_route 2)"
  by (simp_all add: route_passes_def two_trunks_def plain_route_def add_trunk_def plain_trunk_def)

theorem route_termination_sound_witness:
  "tr_selected_route (fst (route_termination two_routes (plain_request 1 []) two_trunks)) = Some (plain_route 1) \<and>
   rt_cost_per_minute (plain_route 1) \<le> rt_selling_per_minute (plain_route 1)"
proof -
  let ?r = "route_termination two_routes (plain_request 1 []) two_trunks"
  have sel: "tr_selected_route (fst ?r) = Some (plain_route 1)" "tr_success (fst ?r)"
    by (simp_all add: route_termination_def plain_request_def two_routes_def filter_available_routes_def
        Let_def word_le_nat_alt)
  have "?r = (fst ?r, snd ?r)" by simp
  from route_termination_sound [OF this sel(2)] sel(1) show ?thesis by auto
qed

end
