(* ===== verification/RouteAdvancement.thy ===== *)
theory RouteAdvancement
  imports TerminationRouting
begin

text \<open>
  The route advancement engine (\<open>src/route_advancement.rs\<close>): the routing state of each
  call, started by the first routing decision and moved on by the SIP responses of the egress
  trunk. Each operation takes the LCR engine and the time as arguments and returns its result, the
  engine and the termination service, whose lock it holds while it routes. Times are in
  milliseconds.
\<close>

section \<open>State\<close>

record 'q call_routing_state =
  rs_call_id :: string
  rs_ani :: string
  rs_dnis :: string
  rs_original_request :: 'q
  rs_current_attempt :: u32
  rs_failed_attempts :: "failed_attempt list"
  rs_current_route :: "call_route option"
  rs_remaining_routes :: "call_route list"
  rs_routing_started_at :: nat
  rs_last_attempt_at :: "nat option"

datatype advancement_action = RouteToNext | RetryCurrentRoute | CompleteCall | RejectCall

record advancement_result =
  ar_call_id :: string
  ar_action :: advancement_action
  ar_new_route :: "call_route option"
  ar_total_attempts :: u32
  ar_routing_complete :: bool
  ar_final_response_code :: "u16 option"
  ar_reason :: string

datatype advancement_error = StateNotFound string | NoCurrentRoute string

record 'q advancement_engine =
  ae_active_calls :: "(string \<times> 'q call_routing_state) list"
  ae_max_route_attempts :: u32

definition new_advancement_engine :: "u32 \<Rightarrow> 'q advancement_engine" where
  "new_advancement_engine n = \<lparr>ae_active_calls = [], ae_max_route_attempts = n\<rparr>"

section \<open>Operations\<close>

definition start_call_routing ::
    "('q \<Rightarrow> string + lcr_response) \<Rightarrow> nat \<Rightarrow> string \<Rightarrow> string \<Rightarrow> string \<Rightarrow> 'q \<Rightarrow>
     'q advancement_engine \<Rightarrow> termination_service \<Rightarrow>
     advancement_result \<times> 'q advancement_engine \<times> termination_service" where
  "start_call_routing find_routes now call_id ani dnis q e s =
    (let req = \<lparr>tq_call_id = call_id, tq_ani = ani, tq_dnis = dnis, tq_route_request = q,
           tq_attempt_number = 1, tq_previous_responses = [],
           tq_max_attempts = ae_max_route_attempts e, tq_timestamp = now\<rparr>;
         (resp, s) = route_termination find_routes req s;
         st = \<lparr>rs_call_id = call_id, rs_ani = ani, rs_dnis = dnis, rs_original_request = q,
           rs_current_attempt = 1, rs_failed_attempts = [],
           rs_current_route = tr_selected_route resp,
           rs_remaining_routes = tr_remaining_routes resp, rs_routing_started_at = now,
           rs_last_attempt_at = Some now\<rparr>;
         result =
           (if tr_success resp then
              \<lparr>ar_call_id = call_id, ar_action = RouteToNext, ar_new_route = tr_selected_route resp,
               ar_total_attempts = 1, ar_routing_complete = False, ar_final_response_code = None,
               ar_reason = ''Initial route selected''\<rparr>
            else
              \<lparr>ar_call_id = call_id, ar_action = RejectCall, ar_new_route = None,
               ar_total_attempts = 1, ar_routing_complete = True, ar_final_response_code = Some 503,
               ar_reason = tr_reason resp\<rparr>)
     in (result, e\<lparr>ae_active_calls := AList.update call_id st (ae_active_calls e)\<rparr>, s))"

definition complete_call_routing ::
    "string \<Rightarrow> u16 \<Rightarrow> string \<Rightarrow> advancement_action \<Rightarrow> 'q advancement_engine \<Rightarrow>
     (advancement_error + advancement_result) \<times> 'q advancement_engine" where
  "complete_call_routing call_id code reason action e =
    (case map_of (ae_active_calls e) call_id of
       None \<Rightarrow> (Inl (StateNotFound call_id), e)
     | Some st \<Rightarrow>
         (Inr \<lparr>ar_call_id = call_id, ar_action = action, ar_new_route = None,
            ar_total_attempts = rs_current_attempt st, ar_routing_complete = True,
            ar_final_response_code = Some code, ar_reason = reason\<rparr>,
          e\<lparr>ae_active_calls := AList.delete call_id (ae_active_calls e)\<rparr>))"

definition engine_should_advance :: "u16 \<Rightarrow> route_advance_decision" where
  "engine_should_advance code =
    (if 200 \<le> code \<and> code < 300 then CompleteCallDecision
     else case sip_try_from code of
       Some c \<Rightarrow> if should_advance_code c then AdvanceToNextRoute else CompleteCallDecision
     | None \<Rightarrow>
         if 100 \<le> code \<and> code \<le> 199 then CompleteCallDecision
         else if 300 \<le> code \<and> code \<le> 399 then CompleteCallDecision
         else if 400 \<le> code \<and> code \<le> 499 then AdvanceToNextRoute
         else if 500 \<le> code \<and> code \<le> 599 then AdvanceToNextRoute
         else if 600 \<le> code \<and> code \<le> 699 then CompleteCallDecision
         else CompleteCallDecision)"

definition advance_to_next_route ::
    "('q \<Rightarrow> string + lcr_response) \<Rightarrow> nat \<Rightarrow> string \<Rightarrow> u16 \<Rightarrow> 'q advancement_engine \<Rightarrow>
     termination_service \<Rightarrow>
     (advancement_error + advancement_result) \<times> 'q advancement_engine \<times> termination_service" where
  "advance_to_next_route find_routes now call_id last_code e s =
    (case map_of (ae_active_calls e) call_id of
       None \<Rightarrow> (Inl (StateNotFound call_id), e, s)
     | Some st \<Rightarrow>
         if ae_max_route_attempts e \<le> rs_current_attempt st then
           let (r, e) = complete_call_routing call_id last_code ''Maximum route attempts exceeded'' RejectCall e
           in (r, e, s)
         else
           let st = st\<lparr>rs_current_attempt := rs_current_attempt st + 1, rs_last_attempt_at := Some now\<rparr>;
               e = e\<lparr>ae_active_calls := AList.update call_id st (ae_active_calls e)\<rparr>;
               failed_trunk_ids = map fa_trunk_id (rs_failed_attempts st);
               req = \<lparr>tq_call_id = call_id, tq_ani = rs_ani st, tq_dnis = rs_dnis st,
                 tq_route_request = rs_original_request st,
                 tq_attempt_number = rs_current_attempt st,
                 tq_previous_responses = rs_failed_attempts st,
                 tq_max_attempts = ae_max_route_attempts e, tq_timestamp = now\<rparr>;
               (resp, s) = route_termination find_routes req s
           in if (case tr_selected_route resp of
                    Some r \<Rightarrow> et_id (rt_trunk r) \<in> set failed_trunk_ids | None \<Rightarrow> False) then
                let (r, e) = complete_call_routing call_id last_code ''No more untried routes available'' RejectCall e
                in (r, e, s)
              else if tr_success resp then
                let st = st\<lparr>rs_current_route := tr_selected_route resp,
                            rs_remaining_routes := tr_remaining_routes resp\<rparr>;
                    name = (case tr_selected_route resp of Some r \<Rightarrow> et_name (rt_trunk r) | None \<Rightarrow> '''')
                in (Inr \<lparr>ar_call_id = call_id, ar_action = RouteToNext,
                       ar_new_route = tr_selected_route resp,
                       ar_total_attempts = rs_current_attempt st, ar_routing_complete = False,
                       ar_final_response_code = None,
                       ar_reason = ''Advanced to next available route: '' @ name\<rparr>,
                    e\<lparr>ae_active_calls := AList.update call_id st (ae_active_calls e)\<rparr>, s)
              else
                let (r, e) = complete_call_routing call_id last_code (tr_reason resp) RejectCall e
                in (r, e, s))"

definition engine_handle_sip_response ::
    "('q \<Rightarrow> string + lcr_response) \<Rightarrow> nat \<Rightarrow> string \<Rightarrow> u16 \<Rightarrow> string \<Rightarrow> 'q advancement_engine \<Rightarrow>
     termination_service \<Rightarrow>
     (advancement_error + advancement_result) \<times> 'q advancement_engine \<times> termination_service" where
  "engine_handle_sip_response find_routes now call_id code reason e s =
    (case map_of (ae_active_calls e) call_id of
       None \<Rightarrow> (Inl (StateNotFound call_id), e, s)
     | Some st \<Rightarrow>
         let proceed = (\<lambda>e.
               case engine_should_advance code of
                 CompleteCallDecision \<Rightarrow>
                   let (r, e) = complete_call_routing call_id code reason CompleteCall e in (r, e, s)
               | AdvanceToNextRoute \<Rightarrow> advance_to_next_route find_routes now call_id code e s)
         in if 300 \<le> code then
              (case rs_current_route st of
                 None \<Rightarrow> (Inl (NoCurrentRoute call_id), e, s)
               | Some r \<Rightarrow>
                   let fa = \<lparr>fa_trunk_id = et_id (rt_trunk r), fa_trunk_name = et_name (rt_trunk r),
                         fa_response_code = code, fa_response_reason = reason, fa_attempt_time = now,
                         fa_duration_ms = (case rs_last_attempt_at st of Some t \<Rightarrow> now - t | None \<Rightarrow> 0)\<rparr>;
                       st = st\<lparr>rs_failed_attempts := rs_failed_attempts st @ [fa]\<rparr>
                   in proceed (e\<lparr>ae_active_calls := AList.update call_id st (ae_active_calls e)\<rparr>))
            else proceed e)"

record call_routing_stats =
  cs_call_id :: string
  cs_current_attempt :: u32
  cs_total_failed_attempts :: u32
  cs_routing_duration_ms :: nat
  cs_current_trunk_name :: "string option"
  cs_remaining_routes :: u32

definition get_call_routing_stats :: "nat \<Rightarrow> string \<Rightarrow> 'q advancement_engine \<Rightarrow> call_routing_stats option" where
  "get_call_routing_stats now call_id e =
     map_option (\<lambda>st. \<lparr>cs_call_id = call_id, cs_current_attempt = rs_current_attempt st,
       cs_total_failed_attempts = word_of_nat (length (rs_failed_attempts st)),
       cs_routing_duration_ms = now - rs_routing_started_at st,
       cs_current_trunk_name = map_option (\<lambda>r. et_name (rt_trunk r)) (rs_current_route st),
       cs_remaining_routes = word_of_nat (length (rs_remaining_routes st))\<rparr>)
       (map_of (ae_active_calls e) call_id)"

definition get_active_calls :: "'q advancement_engine \<Rightarrow> string list" where
  "get_active_calls e = map fst (ae_active_calls e)"

definition cleanup_expired_calls :: "nat \<Rightarrow> nat \<Rightarrow> 'q advancement_engine \<Rightarrow> 'q advancement_engine" where
  "cleanup_expired_calls now max_age_minutes e =
    (let cutoff = now - max_age_minutes * 60000;
         expired = map fst (filter (\<lambda>(_, st). rs_routing_started_at st < cutoff) (ae_active_calls e))
     in e\<lparr>ae_active_calls := fold AList.delete expired (ae_active_calls e)\<rparr>)"

section \<open>The two advance policies are one\<close>

lemma sip_code_ge_400: "400 \<le> sip_code c"
  by (cases c) (simp_all add: word_le_nat_alt)

interpretation engine: advance_policy "\<lambda>code. engine_should_advance code = AdvanceToNextRoute"
proof unfold_locales
  fix code c assume c: "sip_try_from code = Some c"
  then have "400 \<le> code" using sip_code_ge_400 [of c] sip_try_from_SomeD [OF c] by simp
  then have "\<not> (200 \<le> code \<and> code < 300)" by (simp add: word_le_nat_alt word_less_nat_alt)
  with c show "(engine_should_advance code = AdvanceToNextRoute) = should_advance_code c"
    by (simp add: engine_should_advance_def)
next
  fix code assume "sip_try_from code = None"
  then show "(engine_should_advance code = AdvanceToNextRoute) = (400 \<le> code \<and> code \<le> 599)"
    by (auto simp: engine_should_advance_def word_le_nat_alt word_less_nat_alt)
qed

text \<open>C24: the engine advances a call on exactly the response codes that the service regards as
  worth a retry of the same trunk. So the failures that make a call advance never exclude a route:
  the service's filter lets every route through.\<close>

theorem advance_iff_retry:
  "(engine_should_advance code = AdvanceToNextRoute \<longleftrightarrow> should_retry_response_code code) \<and>
   filter_available_routes rs (filter (\<lambda>a. engine_should_advance (fa_response_code a) = AdvanceToNextRoute) fs) = rs"
proof -
  have eq: "engine_should_advance c = AdvanceToNextRoute \<longleftrightarrow> should_retry_response_code c" for c
    unfolding engine.decide_eq retry.decide_eq ..
  then show ?thesis
    by (auto simp: filter_available_routes_def list_ex_iff intro!: filter_True)
qed

lemma advance_iff_retry': "engine_should_advance c = AdvanceToNextRoute \<longleftrightarrow> should_retry_response_code c"
  unfolding engine.decide_eq retry.decide_eq ..

section \<open>A failed first attempt\<close>

text \<open>Counting a call on the trunk of the chosen route does not let an earlier route pass.\<close>

lemma find_same_route:
  assumes "List.find (route_passes s) rs = Some r" and "route_passes s' r"
    and "sv_trunks s' = sv_trunks s" and "\<forall>j. j \<noteq> et_id (rt_trunk r) \<longrightarrow> active_of s' j = active_of s j"
  shows "List.find (route_passes s') rs = Some r"
  using assms(1)
proof (induction rs)
  case (Cons x xs)
  show ?case
  proof (cases "route_passes s x")
    case True
    with Cons.prems assms(2) show ?thesis by simp
  next
    case False
    with Cons.prems have f: "List.find (route_passes s) xs = Some r" by simp
    then have r: "route_passes s r" by (auto simp: find_Some_iff)
    have "\<not> route_passes s' x"
    proof (cases "et_id (rt_trunk x) = et_id (rt_trunk r)")
      case True
      with False r show ?thesis using assms(3)
        by (auto simp: route_passes_def split: option.splits if_splits)
    next
      case False
      then have "active_of s' (et_id (rt_trunk x)) = active_of s (et_id (rt_trunk x))"
        using assms(4) by simp
      then have "route_passes s' x = route_passes s x" by (simp only: route_passes_def assms(3))
      with \<open>\<not> route_passes s x\<close> show ?thesis by simp
    qed
    with Cons.IH [OF f] show ?thesis by simp
  qed
qed simp

lemma route_termination_trunks [simp]: "sv_trunks (snd (route_termination f q s)) = sv_trunks s"
  by (simp add: route_termination_def Let_def split: sum.splits option.splits)

lemma route_termination_active:
  "sv_active_calls (snd (route_termination f q s)) = sv_active_calls s \<or>
   (\<exists>r. tr_selected_route (fst (route_termination f q s)) = Some r \<and>
     sv_active_calls (snd (route_termination f q s)) =
       (sv_active_calls s)(et_id (rt_trunk r) \<mapsto> active_of s (et_id (rt_trunk r)) + 1))"
  by (simp add: route_termination_def Let_def split: sum.splits option.splits)

lemma route_termination_select:
  "tr_success (fst (route_termination f q s)) \<longleftrightarrow> tr_selected_route (fst (route_termination f q s)) \<noteq> None"
  by (simp add: route_termination_def reject_response_def Let_def split: sum.splits option.splits)

lemma complete_call_present:
  "map_of (ae_active_calls e) i = Some st \<Longrightarrow>
    \<exists>x. complete_call_routing i code reason action e = (Inr x, e\<lparr>ae_active_calls := AList.delete i (ae_active_calls e)\<rparr>)
      \<and> ar_action x = action \<and> ar_final_response_code x = Some code \<and> ar_routing_complete x"
  by (simp add: complete_call_routing_def)

text \<open>a call whose first trunk fails is never moved on while that trunk still has room. The
  engine asks for routes again, gets the failed trunk back as the best one, and rejects the call
  with the failure of the first trunk, whatever other routes there are.\<close>

theorem first_failure_rejects_call:
  assumes "start_call_routing find_routes t0 i ani dnis q e s = (res, e1, s1)"
    and "ar_action res = RouteToNext" and "ar_new_route res = Some r" and "route_passes s1 r"
    and "300 \<le> code" and "engine_should_advance code = AdvanceToNextRoute"
  shows "\<exists>x. fst (engine_handle_sip_response find_routes t1 i code reason e1 s1) = Inr x \<and>
    ar_action x = RejectCall \<and> ar_new_route x = None \<and> ar_final_response_code x = Some code"
proof -
  define req where "req = \<lparr>tq_call_id = i, tq_ani = ani, tq_dnis = dnis, tq_route_request = q,
    tq_attempt_number = 1, tq_previous_responses = [], tq_max_attempts = ae_max_route_attempts e, tq_timestamp = t0\<rparr>"
  define resp where "resp = fst (route_termination find_routes req s)"
  have s1: "s1 = snd (route_termination find_routes req s)" and e1: "e1 = e\<lparr>ae_active_calls :=
      AList.update i \<lparr>rs_call_id = i, rs_ani = ani, rs_dnis = dnis, rs_original_request = q,
        rs_current_attempt = 1, rs_failed_attempts = [], rs_current_route = tr_selected_route resp,
        rs_remaining_routes = tr_remaining_routes resp, rs_routing_started_at = t0,
        rs_last_attempt_at = Some t0\<rparr> (ae_active_calls e)\<rparr>" and ok: "tr_success resp"
    and sel: "tr_selected_route resp = Some r"
    using assms(1-3) by (auto simp: start_call_routing_def Let_def split_beta req_def resp_def split: if_splits)
  have "route_termination find_routes req s = (resp, s1)" by (simp add: resp_def s1)
  from route_termination_sound [OF this ok] obtain lcr where lcr: "find_routes q = Inr lcr"
      "List.find (route_passes s) (filter_available_routes (lr_routes lcr) []) = Some r"
      "\<forall>j. j \<noteq> et_id (rt_trunk r) \<longrightarrow> active_of s1 j = active_of s j" "r \<in> set (lr_routes lcr)"
    using sel by (auto simp: req_def)
  have all: "filter_available_routes (lr_routes lcr) [] = lr_routes lcr"
    by (simp add: filter_available_routes_def)
  have same: "select_best_route s1 (lr_routes lcr) = Some r"
    unfolding select_best_route_find
    using find_same_route [OF _ assms(4)] lcr(2,3) all by (simp add: s1)
  have retry: "should_retry_response_code code" using assms(6) advance_iff_retry' by blast
  have av: "filter_available_routes (lr_routes lcr) [fa] = lr_routes lcr"
    if "fa_response_code fa = code" for fa
    using that retry by (simp add: filter_available_routes_def)
  have ne: "lr_routes lcr \<noteq> []" using lcr(4) by auto
  show ?thesis
    using assms(5,6) lcr(1) same ne sel
    by (auto simp: engine_handle_sip_response_def advance_to_next_route_def e1 Let_def split_beta
        complete_call_routing_def route_termination_def reject_response_def av)
qed

definition started :: "advancement_result \<times> nat advancement_engine \<times> termination_service" where
  "started = start_call_routing two_routes 0 ''c'' ''1'' ''2'' 0 (new_advancement_engine 5) two_trunks"

lemma started_route:
  "ar_action (fst started) = RouteToNext" "ar_new_route (fst started) = Some (plain_route 1)"
  "route_passes (snd (snd started)) (plain_route 1)"
  by (simp_all add: started_def start_call_routing_def route_termination_def two_routes_def Let_def
      filter_available_routes_def new_advancement_engine_def word_le_nat_alt)
    (simp add: route_passes_def two_trunks_def plain_route_def add_trunk_def plain_trunk_def)

theorem first_failure_rejects_call_witness:
  "\<exists>x. fst (engine_handle_sip_response two_routes 9 ''c'' 503 ''Unavailable'' (fst (snd started)) (snd (snd started))) = Inr x \<and>
     ar_action x = RejectCall"
proof -
  have "start_call_routing two_routes 0 ''c'' ''1'' ''2'' 0 (new_advancement_engine 5) two_trunks =
      (fst started, fst (snd started), snd (snd started))" by (simp add: started_def)
  moreover have "engine_should_advance 503 = AdvanceToNextRoute"
    by (simp add: engine_should_advance_def sip_try_from_def word_le_nat_alt word_less_nat_alt)
  ultimately show ?thesis
    using first_failure_rejects_call [OF _ started_route, of two_routes 0 "''c''" "''1''" "''2''" 0
        "new_advancement_engine 5" two_trunks "fst (snd started)" 503 9 "''Unavailable''"]
    by (auto simp: word_le_nat_alt)
qed

section \<open>Attempts, counters, provisional responses\<close>

text \<open>a route is only ever handed out on an attempt below the configured maximum, so a
  maximum of n allows n - 1 attempts; with a maximum of one the first attempt is already refused
  and the LCR engine is not asked.\<close>

theorem attempts_below_maximum:
  "(ar_action (fst (start_call_routing f t i ani dnis q e s)) = RouteToNext \<longrightarrow>
      ar_total_attempts (fst (start_call_routing f t i ani dnis q e s)) < ae_max_route_attempts e) \<and>
   (\<forall>x. fst (engine_handle_sip_response f t i code reason e s) = Inr x \<and> ar_action x = RouteToNext \<longrightarrow>
      ar_total_attempts x < ae_max_route_attempts e)"
proof -
  have lt: "tq_attempt_number r < tq_max_attempts r" if "tr_success (fst (route_termination f r s))" for r
    using that by (auto simp: route_termination_def reject_response_def Let_def not_le split: if_splits)
  have adv: "ar_total_attempts x < ae_max_route_attempts e'"
    if "fst (advance_to_next_route f t i c e' s) = Inr x" "ar_action x = RouteToNext" for e' x c
  proof (cases "map_of (ae_active_calls e') i")
    case None
    with that show ?thesis by (simp add: advance_to_next_route_def)
  next
    case (Some st)
    with that show ?thesis
      by (auto simp: advance_to_next_route_def Let_def split_beta complete_call_routing_def
          split: if_splits dest!: lt)
  qed
  have "ar_total_attempts (fst (start_call_routing f t i ani dnis q e s)) < ae_max_route_attempts e"
    if "ar_action (fst (start_call_routing f t i ani dnis q e s)) = RouteToNext"
    using that by (auto simp: start_call_routing_def Let_def split_beta split: if_splits dest!: lt)
  moreover have "ar_total_attempts x < ae_max_route_attempts e"
    if "fst (engine_handle_sip_response f t i code reason e s) = Inr x" "ar_action x = RouteToNext" for x
    using that
    by (auto simp: engine_handle_sip_response_def Let_def split_beta complete_call_routing_def
        split: option.splits route_advance_decision.splits if_splits dest!: adv)
  ultimately show ?thesis by blast
qed

theorem attempts_below_maximum_witness:
  "ar_action (fst started) = RouteToNext \<and> ar_total_attempts (fst started) < 5"
  using attempts_below_maximum [of two_routes 0 "''c''" "''1''" "''2''" 0 "new_advancement_engine 5" two_trunks 503 "''x''"]
    started_route(1)
  by (simp add: started_def new_advancement_engine_def)

definition gained_at_most_one :: "termination_service \<Rightarrow> termination_service \<Rightarrow> bool" where
  "gained_at_most_one s s' \<longleftrightarrow> sv_active_calls s' = sv_active_calls s \<or>
     (\<exists>j. sv_active_calls s' = (sv_active_calls s)(j \<mapsto> active_of s j + 1))"

lemma gained_refl [simp]: "gained_at_most_one s s"
  by (simp add: gained_at_most_one_def)

lemma gained_route [simp]: "gained_at_most_one s (snd (route_termination f q s))"
  using route_termination_active [of f q s] by (auto simp: gained_at_most_one_def)

lemma gained_advance: "gained_at_most_one s (snd (snd (advance_to_next_route f t i code e s)))"
  by (simp add: advance_to_next_route_def Let_def split_beta split: option.split)

text \<open>handling a response never gives a place on a trunk back. The call counters stay as
  they are, or the trunk of a newly selected route gains one; the call that failed stays counted
  on its trunk.\<close>

theorem failed_calls_stay_counted:
  assumes "engine_handle_sip_response f t i code reason e s = (res, e', s')"
  shows "sv_active_calls s' = sv_active_calls s \<or>
    (\<exists>j. sv_active_calls s' = (sv_active_calls s)(j \<mapsto> active_of s j + 1))"
proof -
  have "gained_at_most_one s (snd (snd (engine_handle_sip_response f t i code reason e s)))"
    by (auto simp: engine_handle_sip_response_def Let_def split_beta gained_advance
        split: option.split route_advance_decision.split)
  with assms show ?thesis by (simp add: gained_at_most_one_def)
qed

theorem failed_calls_stay_counted_witness:
  "\<exists>res e' s'. engine_handle_sip_response two_routes 9 ''c'' 503 ''x'' (fst (snd started)) (snd (snd started)) = (res, e', s') \<and>
    (sv_active_calls s' = sv_active_calls (snd (snd started)) \<or>
      (\<exists>j. sv_active_calls s' = (sv_active_calls (snd (snd started)))(j \<mapsto> active_of (snd (snd started)) j + 1)))"
  using failed_calls_stay_counted [of two_routes 9 "''c''" 503 "''x''" "fst (snd started)" "snd (snd started)"]
  by (metis prod_cases3)

text \<open>a provisional response completes the routing of a call and drops its state, so the
  final response that follows is answered with an error.\<close>

theorem provisional_drops_call:
  assumes "map_of (ae_active_calls e) i = Some st" and "100 \<le> code" and "code < 200"
  shows "\<exists>x e'. engine_handle_sip_response f t i code reason e s = (Inr x, e', s) \<and>
    ar_action x = CompleteCall \<and> ar_routing_complete x \<and>
    fst (engine_handle_sip_response f t' i code' reason' e' s) = Inl (StateNotFound i)"
proof -
  have "sip_try_from code = None"
  proof (rule ccontr)
    assume "sip_try_from code \<noteq> None"
    then obtain c where "sip_code c = code" using sip_try_from_SomeD by blast
    with sip_code_ge_400 [of c] assms(3) show False by (simp add: word_le_nat_alt word_less_nat_alt)
  qed
  then have "engine_should_advance code = CompleteCallDecision"
    using assms(2,3) by (auto simp: engine_should_advance_def word_le_nat_alt word_less_nat_alt)
  moreover have "\<not> 300 \<le> code" using assms(3) by (simp add: word_le_nat_alt word_less_nat_alt)
  ultimately show ?thesis
    using assms(1) by (simp add: engine_handle_sip_response_def complete_call_routing_def Let_def)
qed

theorem provisional_drops_call_witness:
  "\<exists>x e'. engine_handle_sip_response two_routes 3 ''c'' 180 ''Ringing'' (fst (snd started)) (snd (snd started)) =
      (Inr x, e', snd (snd started)) \<and>
    fst (engine_handle_sip_response two_routes 9 ''c'' 200 ''OK'' e' (snd (snd started))) = Inl (StateNotFound ''c'')"
proof -
  obtain st where "map_of (ae_active_calls (fst (snd started))) ''c'' = Some st"
    by (simp add: started_def start_call_routing_def split_beta Let_def)
  from provisional_drops_call [OF this, of 180 two_routes 3 "''Ringing''" "snd (snd started)" 9 200 "''OK''"]
  show ?thesis by (auto simp: word_le_nat_alt word_less_nat_alt)
qed

end
