(* ===== verification/LcrCache.thy ===== *)
theory LcrCache
  imports LcrTypes
begin

text \<open>
  The in-memory rate cache (\<open>src/lcr/cache.rs\<close>) and the search for a rate by number
  prefix, in the cache and in the rate tables (\<open>src/lcr/routing.rs\<close>). Maps that routing
  iterates are association lists; the order of a hash map is any order, so no statement depends on
  it. The tables of the database are an argument, a record of query results.
\<close>

section \<open>Prefix search\<close>

text \<open>Prefixes of a code from the longest of \<open>n\<close> characters down to \<open>lo\<close>.\<close>

fun prefix_search :: "(string \<Rightarrow> 'r option) \<Rightarrow> string \<Rightarrow> nat \<Rightarrow> nat \<Rightarrow> 'r option" where
  "prefix_search look code lo 0 = None"
| "prefix_search look code lo (Suc n) =
    (if Suc n < lo then None
     else case look (take (Suc n) code) of Some r \<Rightarrow> Some r | None \<Rightarrow> prefix_search look code lo n)"

definition find_rate :: "nanpa_rate list \<Rightarrow> string \<Rightarrow> nanpa_rate option" where
  "find_rate rates code = List.find (\<lambda>r. nr_code r = code) rates"

text \<open>The search in a rate table of the database: the code itself, then its prefixes of at
  least three characters.\<close>

definition load_rate_from_db :: "(int \<Rightarrow> string \<Rightarrow> nanpa_rate option) \<Rightarrow> int \<Rightarrow> string \<Rightarrow> nanpa_rate option" where
  "load_rate_from_db row deck_id code =
    (case row deck_id code of
       Some r \<Rightarrow> Some r
     | None \<Rightarrow> prefix_search (row deck_id) code 3 (length code - 1))"

section \<open>The cache\<close>

record lcr_route =
  lo_id :: int
  lo_name :: string
  lo_route_type :: route_type
  lo_description :: "string option"
  lo_active :: bool
  lo_priority :: int

record lcr_cache =
  ch_vendor_decks :: "int \<rightharpoonup> rate_deck"
  ch_vendor_nanpa_rates :: "int \<rightharpoonup> nanpa_rate list"
  ch_client_decks :: "int \<rightharpoonup> rate_deck"
  ch_client_nanpa_rates :: "int \<rightharpoonup> nanpa_rate list"
  ch_egress_trunks :: "(int \<times> egress_trunk) list"
  ch_ingress_trunks :: "(int \<times> ingress_trunk) list"
  ch_lcr_routes :: "int \<rightharpoonup> lcr_route"
  ch_static_routes :: "static_route list"
  ch_route_advance_configs :: "(config_scope \<times> int option) \<rightharpoonup> route_advance_config"
  ch_timer_configs :: "(config_scope \<times> int option) \<rightharpoonup> timer_config"
  ch_nanpa_static :: "string \<rightharpoonup> nanpa_static"
  ch_trunk_rate_associations :: "trunk_rate_association list"
  ch_lcr_route_trunks :: "int \<rightharpoonup> lcr_route_trunk list"
  ch_lrn_cache :: "string \<rightharpoonup> lrn_cache_entry"

definition new_lcr_cache :: lcr_cache where
  "new_lcr_cache = \<lparr>ch_vendor_decks = Map.empty, ch_vendor_nanpa_rates = Map.empty,
     ch_client_decks = Map.empty, ch_client_nanpa_rates = Map.empty, ch_egress_trunks = [],
     ch_ingress_trunks = [], ch_lcr_routes = Map.empty, ch_static_routes = [],
     ch_route_advance_configs = Map.empty, ch_timer_configs = Map.empty, ch_nanpa_static = Map.empty,
     ch_trunk_rate_associations = [], ch_lcr_route_trunks = Map.empty, ch_lrn_cache = Map.empty\<rparr>"

subsection \<open>Loading\<close>

text \<open>The results of the queries, an error text or the rows.\<close>

record lcr_tables =
  db_vendor_decks :: "string + rate_deck list"
  db_vendor_rates :: "int \<Rightarrow> string + nanpa_rate list"
  db_client_decks :: "string + rate_deck list"
  db_client_rates :: "int \<Rightarrow> string + nanpa_rate list"
  db_egress_trunks :: "string + egress_trunk list"
  db_ingress_trunks :: "string + ingress_trunk list"
  db_lcr_routes :: "string + lcr_route list"
  db_static_routes :: "string + static_route list"
  db_route_advance_configs :: "string + route_advance_config list"
  db_timer_configs :: "string + timer_config list"
  db_nanpa_static :: "string + nanpa_static list"
  db_trunk_rate_associations :: "string + trunk_rate_association list"
  db_lcr_route_trunks :: "string + lcr_route_trunk list"

text \<open>The loop over the decks: the map of decks is stored only when the loop ends, the rates of
  a deck as soon as they are read.\<close>

fun load_decks ::
    "(int \<Rightarrow> string + nanpa_rate list) \<Rightarrow> rate_deck list \<Rightarrow> (int \<rightharpoonup> rate_deck) \<Rightarrow> (int \<rightharpoonup> nanpa_rate list) \<Rightarrow>
     string option \<times> (int \<rightharpoonup> rate_deck) \<times> (int \<rightharpoonup> nanpa_rate list)" where
  "load_decks load_rates [] decks rates = (None, decks, rates)"
| "load_decks load_rates (d # ds) decks rates =
    (case load_rates (rd_id d) of
       Inl e \<Rightarrow> (Some e, decks, rates)
     | Inr rs \<Rightarrow> load_decks load_rates ds (decks(rd_id d \<mapsto> d)) (rates(rd_id d \<mapsto> rs)))"

definition then_load ::
    "string + 'a \<Rightarrow> ('a \<Rightarrow> lcr_cache \<Rightarrow> string option \<times> lcr_cache) \<Rightarrow> lcr_cache \<Rightarrow> string option \<times> lcr_cache" where
  "then_load result k c = (case result of Inl e \<Rightarrow> (Some e, c) | Inr x \<Rightarrow> k x c)"

definition keyed :: "('a \<Rightarrow> 'k) \<Rightarrow> 'a list \<Rightarrow> ('k \<times> 'a) list" where
  "keyed key xs = fold (\<lambda>x al. AList.update (key x) x al) xs []"

definition nanpa_key :: "nanpa_static \<Rightarrow> string" where
  "nanpa_key e = (case ns_nxx e of Some nxx \<Rightarrow> ns_npa e @ nxx | None \<Rightarrow> ns_npa e)"

definition group_route_trunks :: "lcr_route_trunk list \<Rightarrow> int \<rightharpoonup> lcr_route_trunk list" where
  "group_route_trunks rts = fold (\<lambda>rt m.
     m(lt_lcr_route_id rt \<mapsto> (case m (lt_lcr_route_id rt) of Some l \<Rightarrow> l | None \<Rightarrow> []) @ [rt])) rts Map.empty"

definition load_tables :: "lcr_tables \<Rightarrow> lcr_cache \<Rightarrow> string option \<times> lcr_cache" where
  "load_tables db =
     then_load (db_egress_trunks db) (\<lambda>xs c. let c = c\<lparr>ch_egress_trunks := keyed et_id xs\<rparr> in
     then_load (db_ingress_trunks db) (\<lambda>xs c. let c = c\<lparr>ch_ingress_trunks := keyed it_id xs\<rparr> in
     then_load (db_lcr_routes db) (\<lambda>xs c. let c = c\<lparr>ch_lcr_routes := map_of (keyed lo_id xs)\<rparr> in
     then_load (db_static_routes db) (\<lambda>xs c. let c = c\<lparr>ch_static_routes := xs\<rparr> in
     then_load (db_route_advance_configs db) (\<lambda>xs c.
       let c = c\<lparr>ch_route_advance_configs := map_of (keyed (\<lambda>x. (ac_scope x, ac_scope_id x)) xs)\<rparr> in
     then_load (db_timer_configs db) (\<lambda>xs c.
       let c = c\<lparr>ch_timer_configs := map_of (keyed (\<lambda>x. (tc_scope x, tc_scope_id x)) xs)\<rparr> in
     then_load (db_nanpa_static db) (\<lambda>xs c. let c = c\<lparr>ch_nanpa_static := map_of (keyed nanpa_key xs)\<rparr> in
     then_load (db_trunk_rate_associations db) (\<lambda>xs c. let c = c\<lparr>ch_trunk_rate_associations := xs\<rparr> in
     then_load (db_lcr_route_trunks db) (\<lambda>xs c.
       (None, c\<lparr>ch_lcr_route_trunks := group_route_trunks xs\<rparr>)) c) c) c) c) c) c) c) c)"

definition load_from_database :: "lcr_tables \<Rightarrow> lcr_cache \<Rightarrow> string option \<times> lcr_cache" where
  "load_from_database db =
     then_load (db_vendor_decks db) (\<lambda>decks c.
       let (err, m, rates) = load_decks (db_vendor_rates db) decks Map.empty (ch_vendor_nanpa_rates c);
           c = c\<lparr>ch_vendor_nanpa_rates := rates\<rparr>
       in case err of Some e \<Rightarrow> (Some e, c) | None \<Rightarrow>
     let c = c\<lparr>ch_vendor_decks := m\<rparr> in
     then_load (db_client_decks db) (\<lambda>decks c.
       let (err, m, rates) = load_decks (db_client_rates db) decks Map.empty (ch_client_nanpa_rates c);
           c = c\<lparr>ch_client_nanpa_rates := rates\<rparr>
       in case err of Some e \<Rightarrow> (Some e, c) | None \<Rightarrow>
     load_tables db (c\<lparr>ch_client_decks := m\<rparr>)) c)"

subsection \<open>Reading\<close>

definition get_vendor_rate :: "lcr_cache \<Rightarrow> int \<Rightarrow> string \<Rightarrow> nanpa_rate option" where
  "get_vendor_rate c deck_id code =
    (case ch_vendor_nanpa_rates c deck_id of
       None \<Rightarrow> None
     | Some rates \<Rightarrow> prefix_search (find_rate rates) code 1 (length code))"

definition get_client_rate :: "lcr_cache \<Rightarrow> int \<Rightarrow> string \<Rightarrow> nanpa_rate option" where
  "get_client_rate c deck_id code =
    (case ch_client_nanpa_rates c deck_id of
       None \<Rightarrow> None
     | Some rates \<Rightarrow> prefix_search (find_rate rates) code 1 (length code))"

definition get_egress_trunk :: "lcr_cache \<Rightarrow> int \<Rightarrow> egress_trunk option" where
  "get_egress_trunk c i = map_of (ch_egress_trunks c) i"

definition get_ingress_trunk :: "lcr_cache \<Rightarrow> int \<Rightarrow> ingress_trunk option" where
  "get_ingress_trunk c i = map_of (ch_ingress_trunks c) i"

definition get_all_egress_trunks :: "lcr_cache \<Rightarrow> egress_trunk list" where
  "get_all_egress_trunks c = map snd (ch_egress_trunks c)"

definition get_all_ingress_trunks :: "lcr_cache \<Rightarrow> ingress_trunk list" where
  "get_all_ingress_trunks c = map snd (ch_ingress_trunks c)"

definition get_static_routes_for_ingress :: "lcr_cache \<Rightarrow> int option \<Rightarrow> static_route list" where
  "get_static_routes_for_ingress c i =
     filter (\<lambda>r. sr_ingress_trunk_id r = i \<or> sr_ingress_trunk_id r = None) (ch_static_routes c)"

definition get_route_advance_config :: "lcr_cache \<Rightarrow> config_scope \<Rightarrow> int option \<Rightarrow> route_advance_config" where
  "get_route_advance_config c scope scope_id =
    (case ch_route_advance_configs c (scope, scope_id) of
       Some x \<Rightarrow> x
     | None \<Rightarrow>
         (case ch_route_advance_configs c (ScopeGlobal, None) of
            Some x \<Rightarrow> x
          | None \<Rightarrow>
              \<lparr>ac_id = 0, ac_scope = ScopeGlobal, ac_scope_id = None,
               ac_advance_on_codes = [''503'', ''504'', ''603'', ''606'', ''480'', ''487'', ''502'', ''500''],
               ac_stop_on_codes = [''404'', ''486'', ''600'', ''604'', ''403'', ''401'', ''402'']\<rparr>))"

definition get_timer_config :: "lcr_cache \<Rightarrow> config_scope \<Rightarrow> int option \<Rightarrow> timer_config" where
  "get_timer_config c scope scope_id =
    (case ch_timer_configs c (scope, scope_id) of
       Some x \<Rightarrow> x
     | None \<Rightarrow>
         (case ch_timer_configs c (ScopeGlobal, None) of
            Some x \<Rightarrow> x
          | None \<Rightarrow>
              \<lparr>tc_id = 0, tc_scope = ScopeGlobal, tc_scope_id = None, tc_100_to_183_ms = 30000,
               tc_max_call_duration_sec = 10800, tc_post_dial_delay_ms = 5000,
               tc_ringing_timeout_sec = 120, tc_transaction_timeout_ms = 32000\<rparr>))"

definition get_nanpa_info :: "lcr_cache \<Rightarrow> string \<Rightarrow> nanpa_static option" where
  "get_nanpa_info c number =
    (case (if 6 \<le> length number then ch_nanpa_static c (take 6 number) else None) of
       Some e \<Rightarrow> Some e
     | None \<Rightarrow> if 3 \<le> length number then ch_nanpa_static c (take 3 number) else None)"

definition get_lrn_cached :: "lcr_cache \<Rightarrow> string \<Rightarrow> lrn_cache_entry option" where
  "get_lrn_cached c tn = ch_lrn_cache c tn"

definition update_lrn_cache :: "lrn_cache_entry \<Rightarrow> lcr_cache \<Rightarrow> lcr_cache" where
  "update_lrn_cache e c = c\<lparr>ch_lrn_cache := (ch_lrn_cache c)(le_tn e \<mapsto> e)\<rparr>"

definition get_vendor_decks_for_trunk :: "lcr_cache \<Rightarrow> int \<Rightarrow> int list" where
  "get_vendor_decks_for_trunk c i =
     List.map_filter ta_vendor_deck_id (filter (\<lambda>a. ta_egress_trunk_id a = Some i) (ch_trunk_rate_associations c))"

definition get_client_decks_for_trunk :: "lcr_cache \<Rightarrow> int \<Rightarrow> int list" where
  "get_client_decks_for_trunk c i =
     List.map_filter ta_client_deck_id (filter (\<lambda>a. ta_ingress_trunk_id a = Some i) (ch_trunk_rate_associations c))"

definition get_route_trunks :: "lcr_cache \<Rightarrow> int \<Rightarrow> lcr_route_trunk list" where
  "get_route_trunks c i = (case ch_lcr_route_trunks c i of Some l \<Rightarrow> l | None \<Rightarrow> [])"

section \<open>The longest matching prefix\<close>

text \<open>
  The contract of a rate source: \<open>look\<close> answers for one exact code, \<open>tried\<close> says
  which prefix lengths of a number are looked at, and \<open>lookup\<close> answers with the longest
  of these prefixes that has a rate.
\<close>

locale longest_match =
  fixes look :: "string \<Rightarrow> 'r option"
    and tried :: "string \<Rightarrow> nat \<Rightarrow> bool"
    and lookup :: "string \<Rightarrow> 'r option"
  assumes found: "lookup code = Some r \<Longrightarrow> \<exists>n. n \<le> length code \<and> tried code n \<and> look (take n code) = Some r \<and>
      (\<forall>m. n < m \<and> m \<le> length code \<and> tried code m \<longrightarrow> look (take m code) = None)"
    and missing: "lookup code = None \<Longrightarrow> n \<le> length code \<Longrightarrow> tried code n \<Longrightarrow> look (take n code) = None"
begin

lemma lookup_determined:
  assumes "n \<le> length code" and "tried code n" and "look (take n code) = Some r"
    and "\<And>m. n < m \<Longrightarrow> m \<le> length code \<Longrightarrow> tried code m \<Longrightarrow> look (take m code) = None"
  shows "lookup code = Some r"
proof (cases "lookup code")
  case None
  with missing assms(1-3) show ?thesis by fastforce
next
  case (Some s)
  from found [OF this] obtain k where k: "k \<le> length code" "tried code k" "look (take k code) = Some s"
    "\<And>m. k < m \<Longrightarrow> m \<le> length code \<Longrightarrow> tried code m \<Longrightarrow> look (take m code) = None" by blast
  have "\<not> n < k" using assms(4) [of k] k by auto
  moreover have "\<not> k < n" using k(4) [of n] assms by auto
  ultimately show ?thesis using Some k assms(3) by (simp add: not_less)
qed

lemma lookup_Some_iff: "lookup code = Some r \<longleftrightarrow> (\<exists>n. n \<le> length code \<and> tried code n \<and> look (take n code) = Some r \<and>
    (\<forall>m. n < m \<and> m \<le> length code \<and> tried code m \<longrightarrow> look (take m code) = None))"
  using found lookup_determined by blast

lemma lookup_exact: "tried code (length code) \<Longrightarrow> look code = Some r \<Longrightarrow> lookup code = Some r"
  by (rule lookup_determined [of "length code"]) simp_all

lemma lookup_None_iff: "lookup code = None \<longleftrightarrow> (\<forall>n. n \<le> length code \<and> tried code n \<longrightarrow> look (take n code) = None)"
  using found missing by (metis not_None_eq)

end

lemma prefix_search_SomeD:
  "prefix_search look code lo n = Some r \<Longrightarrow> \<exists>k. lo \<le> k \<and> 0 < k \<and> k \<le> n \<and> look (take k code) = Some r \<and>
     (\<forall>m. k < m \<and> m \<le> n \<longrightarrow> look (take m code) = None)"
proof (induction n)
  case (Suc n)
  show ?case
  proof (cases "look (take (Suc n) code)")
    case None
    with Suc obtain k where "lo \<le> k" "0 < k" "k \<le> n" "look (take k code) = Some r"
      "\<forall>m. k < m \<and> m \<le> n \<longrightarrow> look (take m code) = None"
      by (auto split: if_splits)
    with None show ?thesis by (intro exI [of _ k]) (auto simp: le_Suc_eq)
  next
    case (Some s)
    with Suc.prems show ?thesis by (intro exI [of _ "Suc n"]) (auto split: if_splits)
  qed
qed simp

lemma prefix_search_NoneD:
  "prefix_search look code lo n = None \<Longrightarrow> lo \<le> k \<Longrightarrow> 0 < k \<Longrightarrow> k \<le> n \<Longrightarrow> look (take k code) = None"
  by (induction n) (auto simp: le_Suc_eq split: if_splits option.splits)

lemma longest_match_prefix_search:
  "longest_match look (\<lambda>code n. 0 < n) (\<lambda>code. prefix_search look code 1 (length code))"
proof
  fix code r assume "prefix_search look code 1 (length code) = Some r"
  from prefix_search_SomeD [OF this] show "\<exists>n. n \<le> length code \<and> 0 < n \<and> look (take n code) = Some r \<and>
      (\<forall>m. n < m \<and> m \<le> length code \<and> 0 < m \<longrightarrow> look (take m code) = None)" by blast
next
  fix code n assume "prefix_search look code 1 (length code) = None" "n \<le> length code" "0 < n"
  then show "look (take n code) = None" by (intro prefix_search_NoneD [of look code 1]) simp_all
qed

definition cached_rate :: "(int \<rightharpoonup> nanpa_rate list) \<Rightarrow> int \<Rightarrow> string \<Rightarrow> nanpa_rate option" where
  "cached_rate rates deck_id code = (case rates deck_id of None \<Rightarrow> None | Some rs \<Rightarrow> find_rate rs code)"

lemma get_rate_prefix_search:
  "get_vendor_rate c d code = prefix_search (cached_rate (ch_vendor_nanpa_rates c) d) code 1 (length code)"
  "get_client_rate c d code = prefix_search (cached_rate (ch_client_nanpa_rates c) d) code 1 (length code)"
proof -
  have "prefix_search (\<lambda>p. None :: nanpa_rate option) code lo n = None" for lo n
    by (induction n) simp_all
  then have "(case m d of None \<Rightarrow> None | Some rs \<Rightarrow> prefix_search (find_rate rs) code 1 (length code)) =
      prefix_search (cached_rate m d) code 1 (length code)" for m
    by (cases "m d") (simp_all add: cached_rate_def [abs_def])
  then show "get_vendor_rate c d code = prefix_search (cached_rate (ch_vendor_nanpa_rates c) d) code 1 (length code)"
    "get_client_rate c d code = prefix_search (cached_rate (ch_client_nanpa_rates c) d) code 1 (length code)"
    by (simp_all add: get_vendor_rate_def get_client_rate_def)
qed

interpretation vendor_cache: longest_match "cached_rate (ch_vendor_nanpa_rates c) d" "\<lambda>code n. 0 < n"
  "get_vendor_rate c d" for c d
  using longest_match_prefix_search [of "cached_rate (ch_vendor_nanpa_rates c) d"]
  by (simp add: get_rate_prefix_search [abs_def])

interpretation client_cache: longest_match "cached_rate (ch_client_nanpa_rates c) d" "\<lambda>code n. 0 < n"
  "get_client_rate c d" for c d
  using longest_match_prefix_search [of "cached_rate (ch_client_nanpa_rates c) d"]
  by (simp add: get_rate_prefix_search [abs_def])

interpretation rate_table: longest_match "row d" "\<lambda>code n. n = length code \<or> 3 \<le> n" "load_rate_from_db row d" for row d
proof
  fix code r assume r: "load_rate_from_db row d code = Some r"
  show "\<exists>n. n \<le> length code \<and> (n = length code \<or> 3 \<le> n) \<and> row d (take n code) = Some r \<and>
      (\<forall>m. n < m \<and> m \<le> length code \<and> (m = length code \<or> 3 \<le> m) \<longrightarrow> row d (take m code) = None)"
  proof (cases "row d code")
    case (Some s)
    with r show ?thesis by (intro exI [of _ "length code"]) (simp add: load_rate_from_db_def)
  next
    case None
    with r have "prefix_search (row d) code 3 (length code - 1) = Some r" by (simp add: load_rate_from_db_def)
    from prefix_search_SomeD [OF this] obtain k where k: "3 \<le> k" "k \<le> length code - 1" "row d (take k code) = Some r"
      "\<And>m. k < m \<Longrightarrow> m \<le> length code - 1 \<Longrightarrow> row d (take m code) = None" by blast
    have "row d (take m code) = None" if "k < m" "m \<le> length code" for m
      using that None k(4) [of m] by (cases "m = length code") auto
    with k show ?thesis by (intro exI [of _ k]) auto
  qed
next
  fix code n assume "load_rate_from_db row d code = None" and n: "n \<le> length code" "n = length code \<or> 3 \<le> n"
  then have *: "row d code = None" "prefix_search (row d) code 3 (length code - 1) = None"
    by (auto simp: load_rate_from_db_def split: option.splits)
  show "row d (take n code) = None"
  proof (cases "n = length code")
    case False
    with n show ?thesis using prefix_search_NoneD [OF *(2), of n] by simp
  qed (simp add: *)
qed

lemma find_rate_SomeD: "find_rate rs code = Some r \<Longrightarrow> r \<in> set rs \<and> nr_code r = code"
  by (auto simp: find_rate_def find_Some_iff)

lemma find_rate_None_iff: "find_rate rs code = None \<longleftrightarrow> (\<forall>r \<in> set rs. nr_code r \<noteq> code)"
  by (auto simp: find_rate_def find_None_iff)

text \<open>C21: A loaded deck prices a number by the longest of its codes that is a prefix of the
  number, and answers nothing exactly if none of its non-empty codes is.\<close>

theorem vendor_rate_longest_prefix:
  assumes "ch_vendor_nanpa_rates c d = Some rates"
  shows "case get_vendor_rate c d code of
     Some r \<Rightarrow> r \<in> set rates \<and> nr_code r \<noteq> [] \<and> starts_with code (nr_code r) \<and>
       (\<forall>s \<in> set rates. starts_with code (nr_code s) \<longrightarrow> length (nr_code s) \<le> length (nr_code r))
   | None \<Rightarrow> (\<forall>s \<in> set rates. nr_code s \<noteq> [] \<longrightarrow> \<not> starts_with code (nr_code s))"
proof (cases "get_vendor_rate c d code")
  case None
  have "\<not> starts_with code (nr_code s)" if "s \<in> set rates" "nr_code s \<noteq> []" for s
  proof
    assume "starts_with code (nr_code s)"
    then have "nr_code s = take (length (nr_code s)) code" "length (nr_code s) \<le> length code"
      by (simp_all add: starts_with_def starts_with_length)
    with vendor_cache.missing [OF None, of "length (nr_code s)"] that assms show False
      by (auto simp: cached_rate_def find_rate_None_iff)
  qed
  with None show ?thesis by simp
next
  case (Some r)
  from vendor_cache.found [OF Some] obtain n where n: "n \<le> length code" "0 < n" "find_rate rates (take n code) = Some r"
    "\<And>m. n < m \<Longrightarrow> m \<le> length code \<Longrightarrow> find_rate rates (take m code) = None"
    using assms by (auto simp: cached_rate_def)
  have r: "r \<in> set rates" "nr_code r = take n code" using find_rate_SomeD [OF n(3)] by auto
  have "length (nr_code s) \<le> n" if "s \<in> set rates" "starts_with code (nr_code s)" for s
  proof (rule ccontr)
    assume "\<not> length (nr_code s) \<le> n"
    moreover from that(2) have "nr_code s = take (length (nr_code s)) code" "length (nr_code s) \<le> length code"
      by (simp_all add: starts_with_def starts_with_length)
    ultimately show False
      using n(4) [of "length (nr_code s)"] that(1) by (auto simp: find_rate_None_iff)
  qed
  with Some r n show ?thesis by (auto simp: starts_with_take)
qed

theorem vendor_rate_longest_prefix_witness:
  "get_vendor_rate (new_lcr_cache\<lparr>ch_vendor_nanpa_rates := [7 \<mapsto>
      [\<lparr>nr_id = 1, nr_deck_id = 7, nr_code = ''1'', nr_inter_rate = 1, nr_intra_rate = 1, nr_ij_rate = 1,
        nr_local_rate = None, nr_min_increment = 6, nr_interval = 6, nr_setup_fee = None\<rparr>]]\<rparr>) 7 ''1702'' \<noteq> None"
proof -
  let ?r = "\<lparr>nr_id = 1, nr_deck_id = 7, nr_code = ''1'', nr_inter_rate = 1, nr_intra_rate = 1, nr_ij_rate = 1,
        nr_local_rate = None, nr_min_increment = 6, nr_interval = 6, nr_setup_fee = None\<rparr>"
  let ?c = "new_lcr_cache\<lparr>ch_vendor_nanpa_rates := [7 \<mapsto> [?r]]\<rparr>"
  show ?thesis
    using vendor_rate_longest_prefix [of ?c 7 "[?r]" "''1702''"] by (cases "get_vendor_rate ?c 7 ''1702''") simp_all
qed

text \<open>When the cache holds the rows of a deck and no code of the deck has fewer than three
  characters, the cached search and the search in the table price every number alike.\<close>

theorem cache_agrees_with_table:
  assumes "\<And>p. cached_rate (ch_client_nanpa_rates c) d p = row d p"
    and "\<And>p. row d p \<noteq> None \<Longrightarrow> 3 \<le> length p"
  shows "get_client_rate c d code = load_rate_from_db row d code"
proof (cases "get_client_rate c d code")
  case None
  then have "load_rate_from_db row d code = None"
    using assms(1) assms(2) [of "[]"] unfolding client_cache.lookup_None_iff rate_table.lookup_None_iff
    by (metis (no_types, lifting) bot_nat_0.not_eq_extremum list.size(3) not_numeral_le_zero take_0)
  with None show ?thesis by simp
next
  case (Some r)
  from client_cache.found [OF this] obtain n where n: "n \<le> length code" "row d (take n code) = Some r"
    "\<And>m. n < m \<Longrightarrow> m \<le> length code \<Longrightarrow> row d (take m code) = None"
    using assms(1) by (metis less_nat_zero_code neq0_conv)
  then have "3 \<le> n" using assms(2) [of "take n code"] by simp
  with n have "load_rate_from_db row d code = Some r"
    by (intro rate_table.lookup_determined [of n]) auto
  with Some show ?thesis by simp
qed

definition sample_rate :: "int \<Rightarrow> string \<Rightarrow> rat \<Rightarrow> nanpa_rate" where
  "sample_rate d code x = \<lparr>nr_id = 1, nr_deck_id = d, nr_code = code, nr_inter_rate = x, nr_intra_rate = x,
     nr_ij_rate = x, nr_local_rate = None, nr_min_increment = 6, nr_interval = 6, nr_setup_fee = None\<rparr>"

theorem cache_agrees_with_table_witness:
  "get_client_rate (new_lcr_cache\<lparr>ch_client_nanpa_rates := [7 \<mapsto> [sample_rate 7 ''1702'' 1]]\<rparr>) 7 ''17025551234'' =
   load_rate_from_db (\<lambda>d p. if d = 7 \<and> p = ''1702'' then Some (sample_rate 7 ''1702'' 1) else None) 7 ''17025551234''"
  by (rule cache_agrees_with_table)
    (auto simp: cached_rate_def find_rate_def new_lcr_cache_def sample_rate_def split: if_splits)

section \<open>Reloading\<close>

lemma load_decks_rates:
  "load_decks f ds m rs = (None, m', rs') \<Longrightarrow>
    rs' d = (if d \<in> rd_id ` set ds then (case f d of Inr x \<Rightarrow> Some x | Inl _ \<Rightarrow> None) else rs d) \<and>
    (d \<in> rd_id ` set ds \<longrightarrow> (\<exists>x. f d = Inr x))"
proof (induction ds arbitrary: m rs)
  case (Cons a ds)
  then obtain x where "f (rd_id a) = Inr x" "load_decks f ds (m(rd_id a \<mapsto> a)) (rs(rd_id a \<mapsto> x)) = (None, m', rs')"
    by (auto split: sum.splits)
  with Cons.IH [OF this(2)] show ?case by (auto split: if_splits)
qed simp

lemma then_load_rates:
  assumes "\<And>x c. ch_vendor_nanpa_rates (snd (k x c)) = ch_vendor_nanpa_rates c"
    and "\<And>x c. ch_client_nanpa_rates (snd (k x c)) = ch_client_nanpa_rates c"
  shows "ch_vendor_nanpa_rates (snd (then_load r k c)) = ch_vendor_nanpa_rates c \<and>
    ch_client_nanpa_rates (snd (then_load r k c)) = ch_client_nanpa_rates c"
  using assms by (simp add: then_load_def split: sum.split)

lemma load_tables_rates:
  "ch_vendor_nanpa_rates (snd (load_tables db c)) = ch_vendor_nanpa_rates c \<and>
   ch_client_nanpa_rates (snd (load_tables db c)) = ch_client_nanpa_rates c"
  by (simp add: load_tables_def Let_def then_load_def split: sum.split)

text \<open>A successful reload gives every listed deck the rates just read. The rates of a deck
  that is no longer listed are not dropped: the cache keeps answering with them.\<close>

theorem reload_keeps_unlisted_decks:
  assumes "load_from_database db c = (None, c')"
  shows "\<exists>vs cs. db_vendor_decks db = Inr vs \<and> db_client_decks db = Inr cs \<and>
    (\<forall>d. ch_vendor_nanpa_rates c' d = (if d \<in> rd_id ` set vs
       then (case db_vendor_rates db d of Inr x \<Rightarrow> Some x | Inl _ \<Rightarrow> None) else ch_vendor_nanpa_rates c d)) \<and>
    (\<forall>d. ch_client_nanpa_rates c' d = (if d \<in> rd_id ` set cs
       then (case db_client_rates db d of Inr x \<Rightarrow> Some x | Inl _ \<Rightarrow> None) else ch_client_nanpa_rates c d))"
proof -
  from assms obtain vs vm vr where v: "db_vendor_decks db = Inr vs"
      "load_decks (db_vendor_rates db) vs Map.empty (ch_vendor_nanpa_rates c) = (None, vm, vr)"
    by (auto simp: load_from_database_def then_load_def Let_def split: sum.splits option.splits prod.splits)
  from assms v obtain cs cm cr where cl: "db_client_decks db = Inr cs"
      "load_decks (db_client_rates db) cs Map.empty (ch_client_nanpa_rates c) = (None, cm, cr)"
    by (auto simp: load_from_database_def then_load_def Let_def split: sum.splits option.splits prod.splits)
  have "ch_vendor_nanpa_rates c' = vr \<and> ch_client_nanpa_rates c' = cr"
    using assms v cl load_tables_rates [of db "c\<lparr>ch_vendor_nanpa_rates := vr, ch_vendor_decks := vm,
      ch_client_nanpa_rates := cr, ch_client_decks := cm\<rparr>"]
    by (simp add: load_from_database_def then_load_def)
  with v cl load_decks_rates [OF v(2)] load_decks_rates [OF cl(2)] show ?thesis by auto
qed

definition sample_tables :: "rate_deck list \<Rightarrow> lcr_tables" where
  "sample_tables ds = \<lparr>db_vendor_decks = Inr ds, db_vendor_rates = (\<lambda>d. Inr [sample_rate d ''1702'' 1]),
     db_client_decks = Inr [], db_client_rates = (\<lambda>d. Inr []), db_egress_trunks = Inr [],
     db_ingress_trunks = Inr [], db_lcr_routes = Inr [], db_static_routes = Inr [],
     db_route_advance_configs = Inr [], db_timer_configs = Inr [], db_nanpa_static = Inr [],
     db_trunk_rate_associations = Inr [], db_lcr_route_trunks = Inr []\<rparr>"

theorem reload_keeps_unlisted_decks_witness:
  "get_vendor_rate (snd (load_from_database (sample_tables [])
      (new_lcr_cache\<lparr>ch_vendor_nanpa_rates := [7 \<mapsto> [sample_rate 7 ''1702'' 1]]\<rparr>))) 7 ''1702'' \<noteq> None"
proof -
  let ?c = "new_lcr_cache\<lparr>ch_vendor_nanpa_rates := [7 \<mapsto> [sample_rate 7 ''1702'' 1]]\<rparr>"
  have "fst (load_from_database (sample_tables []) ?c) = None"
    by (simp add: load_from_database_def load_tables_def then_load_def sample_tables_def Let_def)
  then have "load_from_database (sample_tables []) ?c = (None, snd (load_from_database (sample_tables []) ?c))"
    by (simp add: prod_eq_iff)
  from reload_keeps_unlisted_decks [OF this]
  have "ch_vendor_nanpa_rates (snd (load_from_database (sample_tables []) ?c)) 7 = Some [sample_rate 7 ''1702'' 1]"
    by (simp add: sample_tables_def)
  then show ?thesis
    by (simp add: get_vendor_rate_def find_rate_def sample_rate_def eval_nat_numeral)
qed

end
