(* ===== verification/LcrJurisdiction.thy ===== *)
theory LcrJurisdiction
  imports LcrCache
begin

text \<open>
  The jurisdiction of a call (\<open>src/lcr/jurisdiction.rs\<close>): normalization of NANPA
  numbers, special numbers, the state and local-calling rules, and the jurisdiction by the ported
  number (LRN). The dip to an LRN server is an argument: it answers the ported number if it finds
  one. The two tables of the database variant are predicates on area codes.
\<close>

section \<open>Numbers\<close>

definition normalize_nanpa_number :: "string \<Rightarrow> string" where
  "normalize_nanpa_number number =
    (let digits = only_digits number in
     if starts_with digits ''1'' \<and> length digits = 11 then digits
     else if length digits = 10 then CHR ''1'' # digits
     else if starts_with digits ''011'' then digits
     else digits)"

definition extract_npanxx :: "string \<Rightarrow> string option" where
  "extract_npanxx number =
    (let normalized = normalize_nanpa_number number in
     if length normalized = 11 \<and> starts_with normalized ''1'' then Some (take 6 (drop 1 normalized))
     else if length normalized = 10 then Some (take 6 normalized)
     else None)"

definition extract_npa :: "string \<Rightarrow> string option" where
  "extract_npa number =
    (let normalized = normalize_nanpa_number number in
     if length normalized = 11 \<and> starts_with normalized ''1'' then Some (take 3 (drop 1 normalized))
     else if length normalized = 10 then Some (take 3 normalized)
     else None)"

definition indeterminate_npas :: "string set" where
  "indeterminate_npas = {''1800'', ''1888'', ''1877'', ''1866'', ''1855'', ''1844'', ''1833'', ''1822'',
     ''1880'', ''1881'', ''1882'', ''1883'', ''1884'', ''1885'', ''1886'', ''1887'', ''1889''}"

definition is_indeterminate_number :: "string \<Rightarrow> bool" where
  "is_indeterminate_number number \<longleftrightarrow>
    (let normalized = normalize_nanpa_number number in
     if length normalized < 4 then False else take 4 normalized \<in> indeterminate_npas)"

definition is_indeterminate_number_db :: "(string \<Rightarrow> bool) \<Rightarrow> (string \<Rightarrow> bool) \<Rightarrow> string \<Rightarrow> bool" where
  "is_indeterminate_number_db special canadian number \<longleftrightarrow>
    (let normalized = normalize_nanpa_number number in
     if length normalized < 10 \<or> 15 < length normalized then True
     else
       let npa = (if starts_with normalized ''1'' \<and> 4 \<le> length normalized
                  then CHR ''1'' # take 3 (drop 1 normalized) else CHR ''1'' # take 3 normalized)
       in if starts_with normalized ''011'' \<or> starts_with normalized ''01'' then True
          else if special npa then True
          else if canadian npa then True
          else length npa = 4 \<and>
            (let npa_digits = drop 1 npa in
             starts_with npa_digits ''0'' \<or> starts_with npa_digits ''1'' \<or> drop 1 npa_digits = ''11''))"

section \<open>Jurisdiction rules\<close>

definition determine_jurisdiction :: "nanpa_static option \<Rightarrow> nanpa_static option \<Rightarrow> call_jurisdiction" where
  "determine_jurisdiction ani_info dnis_info =
    (case (ani_info, dnis_info) of
       (Some ani, Some dnis) \<Rightarrow> if ns_state ani = ns_state dnis then J_Intrastate else J_Interstate
     | _ \<Rightarrow> J_Indeterminate)"

definition determine_jurisdiction_enhanced ::
    "string \<Rightarrow> string \<Rightarrow> nanpa_static option \<Rightarrow> nanpa_static option \<Rightarrow> call_jurisdiction" where
  "determine_jurisdiction_enhanced ani dnis ani_info dnis_info =
    (if is_indeterminate_number ani \<or> is_indeterminate_number dnis then J_Indeterminate
     else determine_jurisdiction ani_info dnis_info)"

definition determine_jurisdiction_enhanced_db ::
    "(string \<Rightarrow> bool) \<Rightarrow> (string \<Rightarrow> bool) \<Rightarrow> string \<Rightarrow> string \<Rightarrow> nanpa_static option \<Rightarrow>
     nanpa_static option \<Rightarrow> call_jurisdiction" where
  "determine_jurisdiction_enhanced_db special canadian ani dnis ani_info dnis_info =
    (if is_indeterminate_number_db special canadian ani \<or> is_indeterminate_number_db special canadian dnis
     then J_Indeterminate
     else determine_jurisdiction ani_info dnis_info)"

definition is_local_by_lata :: "string \<Rightarrow> string \<Rightarrow> string \<Rightarrow> bool" where
  "is_local_by_lata state ani_lata dnis_lata \<longleftrightarrow>
     ani_lata = dnis_lata \<and> state \<in> {''CA'', ''NY'', ''FL'', ''TX'', ''IL''}"

definition metro_areas :: "string set list" where
  "metro_areas = [{''MANHATTAN'', ''BROOKLYN'', ''QUEENS'', ''BRONX'', ''STATEN IS''},
     {''LOS ANGELES'', ''HOLLYWOOD'', ''BEVERLY HILLS'', ''SANTA MONICA''},
     {''SAN FRANCISCO'', ''OAKLAND'', ''SAN JOSE'', ''PALO ALTO''}]"

definition is_local_by_metro_area :: "nanpa_static \<Rightarrow> nanpa_static \<Rightarrow> bool" where
  "is_local_by_metro_area ani_info dnis_info \<longleftrightarrow>
    (case (ns_rate_center ani_info, ns_rate_center dnis_info) of
       (Some ani_rc, Some dnis_rc) \<Rightarrow> list_ex (\<lambda>metro. ani_rc \<in> metro \<and> dnis_rc \<in> metro) metro_areas
     | _ \<Rightarrow> False)"

definition same_rate_center :: "nanpa_static \<Rightarrow> nanpa_static \<Rightarrow> bool" where
  "same_rate_center a d \<longleftrightarrow>
    (case (ns_rate_center a, ns_rate_center d) of (Some x, Some y) \<Rightarrow> x = y | _ \<Rightarrow> False)"

definition same_lata :: "nanpa_static \<Rightarrow> nanpa_static \<Rightarrow> string option" where
  "same_lata a d =
    (if ns_state a = ns_state d then
       (case (ns_lata a, ns_lata d) of (Some x, Some y) \<Rightarrow> if x = y then Some x else None | _ \<Rightarrow> None)
     else None)"

definition determine_local_jurisdiction :: "nanpa_static option \<Rightarrow> nanpa_static option \<Rightarrow> bool" where
  "determine_local_jurisdiction ani_info dnis_info \<longleftrightarrow>
    (case (ani_info, dnis_info) of
       (Some a, Some d) \<Rightarrow>
         if same_rate_center a d then True
         else (case same_lata a d of
             Some lata \<Rightarrow> is_local_by_lata (ns_state a) lata lata
           | None \<Rightarrow> is_local_by_metro_area a d)
     | _ \<Rightarrow> False)"

section \<open>Jurisdiction with the ported number\<close>

definition nanpa_info_of :: "lcr_cache \<Rightarrow> string \<Rightarrow> nanpa_static option" where
  "nanpa_info_of c number = Option.bind (extract_npanxx number) (get_nanpa_info c)"

definition rated_jurisdiction :: "lcr_cache \<Rightarrow> string \<Rightarrow> string \<Rightarrow> call_jurisdiction" where
  "rated_jurisdiction c ani rating_dnis =
    (let ani_info = nanpa_info_of c ani; dnis_info = nanpa_info_of c rating_dnis;
         jurisdiction = determine_jurisdiction_enhanced ani rating_dnis ani_info dnis_info
     in if determine_local_jurisdiction ani_info dnis_info then J_Local else jurisdiction)"

definition get_jurisdiction_with_lrn ::
    "lcr_cache \<Rightarrow> string \<Rightarrow> string \<Rightarrow> bool \<Rightarrow> call_jurisdiction \<times> string option" where
  "get_jurisdiction_with_lrn c ani dnis use_lrn =
    (let (rating_dnis, lrn_number) =
       (if use_lrn then
          (case get_lrn_cached c dnis of Some e \<Rightarrow> (le_lrn e, Some (le_lrn e)) | None \<Rightarrow> (dnis, None))
        else (dnis, None))
     in (rated_jurisdiction c ani rating_dnis, lrn_number))"

definition get_jurisdiction_with_lrn_dip ::
    "lcr_cache \<Rightarrow> (string \<Rightarrow> string \<Rightarrow> string option) option \<Rightarrow> string \<Rightarrow> string \<Rightarrow> bool \<Rightarrow>
     call_jurisdiction \<times> string option" where
  "get_jurisdiction_with_lrn_dip c service ani dnis use_lrn =
    (let (rating_dnis, lrn_number) =
       (if use_lrn then
          (case get_lrn_cached c dnis of
             Some e \<Rightarrow> (le_lrn e, Some (le_lrn e))
           | None \<Rightarrow>
               (case service of
                  Some dip \<Rightarrow> (case dip dnis ani of Some lrn \<Rightarrow> (lrn, Some lrn) | None \<Rightarrow> (dnis, None))
                | None \<Rightarrow> (dnis, None)))
        else (dnis, None))
     in (rated_jurisdiction c ani rating_dnis, lrn_number))"

section \<open>Properties\<close>

lemma normalize_nanpa_digits [simp]: "list_all is_digit (normalize_nanpa_number number)"
proof -
  have "is_digit CHR ''1''" by (simp add: is_digit_def)
  then show ?thesis by (simp add: normalize_nanpa_number_def Let_def)
qed

lemma normalize_nanpa_only_digits: "normalize_nanpa_number (only_digits number) = normalize_nanpa_number number"
  by (simp add: normalize_nanpa_number_def)

lemma extract_only_digits:
  "extract_npanxx (only_digits number) = extract_npanxx number" "extract_npa (only_digits number) = extract_npa number"
  "is_indeterminate_number (only_digits number) = is_indeterminate_number number"
  by (simp_all add: extract_npanxx_def extract_npa_def is_indeterminate_number_def normalize_nanpa_only_digits)

text \<open>Normalizing a number is idempotent up to the leading 1: the normal form of a normal
  form is itself, and the six digits taken from a number depend only on its digits, with or
  without the leading 1.\<close>

theorem nanpa_normal_form:
  "normalize_nanpa_number (normalize_nanpa_number number) = normalize_nanpa_number number \<and>
   extract_npanxx (only_digits number) = extract_npanxx number \<and>
   (length (only_digits number) \<noteq> 10 \<or>
     extract_npanxx (CHR ''1'' # number) = extract_npanxx number \<and>
     extract_npanxx number = Some (take 6 (only_digits number)))"
proof -
  have "is_digit CHR ''1''" by (simp add: is_digit_def)
  then have o: "only_digits (CHR ''1'' # number) = CHR ''1'' # only_digits number"
    by (simp add: only_digits_def)
  have n: "only_digits (normalize_nanpa_number number) = normalize_nanpa_number number"
    by (simp add: only_digits_id)
  have "normalize_nanpa_number (normalize_nanpa_number number) = normalize_nanpa_number number"
  proof (cases "length (normalize_nanpa_number number) = 10")
    case True
    then show ?thesis by (auto simp: normalize_nanpa_number_def Let_def split: if_splits)
  next
    case False
    then show ?thesis by (simp add: normalize_nanpa_number_def [of "normalize_nanpa_number number"] n Let_def)
  qed
  then show ?thesis
    by (simp add: extract_only_digits) (simp add: extract_npanxx_def normalize_nanpa_number_def o)
qed

lemma determine_jurisdiction_sym: "determine_jurisdiction a d = determine_jurisdiction d a"
  by (auto simp: determine_jurisdiction_def split: option.split)

lemma determine_local_sym: "determine_local_jurisdiction a d = determine_local_jurisdiction d a"
proof (cases a; cases d)
  fix x y assume xy: "a = Some x" "d = Some y"
  have "same_rate_center x y = same_rate_center y x"
    by (auto simp: same_rate_center_def split: option.split)
  moreover have "same_lata x y = same_lata y x"
    by (auto simp: same_lata_def split: option.split)
  moreover have "is_local_by_metro_area x y = is_local_by_metro_area y x"
    by (auto simp: is_local_by_metro_area_def list_ex_iff split: option.split)
  moreover have "same_lata x y \<noteq> None \<Longrightarrow> ns_state x = ns_state y"
    by (auto simp: same_lata_def split: if_splits)
  ultimately show ?thesis
    using xy by (auto simp: determine_local_jurisdiction_def split: option.split)
qed (auto simp: determine_local_jurisdiction_def)

text \<open>The jurisdiction of a call without a ported number does not depend on its direction.\<close>

theorem jurisdiction_symmetric:
  "get_jurisdiction_with_lrn_dip c service ani dnis False = get_jurisdiction_with_lrn_dip c service dnis ani False"
  by (auto simp: get_jurisdiction_with_lrn_dip_def rated_jurisdiction_def determine_jurisdiction_enhanced_def
      Let_def determine_jurisdiction_sym [of "nanpa_info_of c ani"] determine_local_sym [of "nanpa_info_of c ani"])

end
