(* ===== verification/LcrTrunks.thy ===== *)
theory LcrTrunks
  imports LcrTypes
begin

text \<open>
  The trunk manager of the LCR engine (\<open>src/lcr/trunk_manager.rs\<close>): the calls in
  progress on each trunk and the sliding window of its call times. Times are nanoseconds; signed
  counters are integers wrapped to their width, as a release build does.
\<close>

definition wrap_signed :: "nat \<Rightarrow> int \<Rightarrow> int" where
  "wrap_signed w x = (x + 2 ^ (w - 1)) mod 2 ^ w - 2 ^ (w - 1)"

definition one_second :: int where
  "one_second = 1000000000"

record trunk_usage =
  tu_current_calls :: int
  tu_capacity_limit :: int
  tu_current_cps :: rat
  tu_cps_limit :: rat
  tu_total_calls :: int
  tu_total_minutes :: rat
  tu_last_call_at :: "int option"
  tu_cps_window :: "int list"

record trunk_manager =
  tm_egress_stats :: "(int \<times> trunk_usage) list"
  tm_ingress_stats :: "(int \<times> trunk_usage) list"

definition new_trunk_manager :: trunk_manager where
  "new_trunk_manager = \<lparr>tm_egress_stats = [], tm_ingress_stats = []\<rparr>"

definition stats_map :: "trunk_type \<Rightarrow> trunk_manager \<Rightarrow> (int \<times> trunk_usage) list" where
  "stats_map ty m = (case ty of Egress \<Rightarrow> tm_egress_stats m | Ingress \<Rightarrow> tm_ingress_stats m)"

definition put_stats :: "trunk_type \<Rightarrow> (int \<times> trunk_usage) list \<Rightarrow> trunk_manager \<Rightarrow> trunk_manager" where
  "put_stats ty al m =
    (case ty of Egress \<Rightarrow> m\<lparr>tm_egress_stats := al\<rparr> | Ingress \<Rightarrow> m\<lparr>tm_ingress_stats := al\<rparr>)"

definition can_accept_call :: "int \<Rightarrow> int \<Rightarrow> trunk_type \<Rightarrow> trunk_manager \<Rightarrow> bool" where
  "can_accept_call now i ty m \<longleftrightarrow>
    (case map_of (stats_map ty m) i of
       None \<Rightarrow> True
     | Some s \<Rightarrow>
         if tu_capacity_limit s \<le> tu_current_calls s then False
         else let live_cps = length (filter (\<lambda>t. now - one_second < t) (tu_cps_window s))
              in \<not> tu_cps_limit s \<le> of_nat live_cps)"

definition fresh_usage :: "int \<Rightarrow> rat \<Rightarrow> trunk_usage" where
  "fresh_usage capacity cps =
     \<lparr>tu_current_calls = 0, tu_capacity_limit = capacity, tu_current_cps = 0, tu_cps_limit = cps,
      tu_total_calls = 0, tu_total_minutes = 0, tu_last_call_at = None, tu_cps_window = []\<rparr>"

definition count_call :: "int \<Rightarrow> trunk_usage \<Rightarrow> trunk_usage" where
  "count_call now s =
    (let window = filter (\<lambda>t. now - one_second < t) (tu_cps_window s) @ [now]
     in s\<lparr>tu_current_calls := wrap_signed 32 (tu_current_calls s + 1),
          tu_total_calls := wrap_signed 64 (tu_total_calls s + 1), tu_last_call_at := Some now,
          tu_cps_window := window, tu_current_cps := of_nat (length window)\<rparr>)"

definition increment_call :: "int \<Rightarrow> int \<Rightarrow> trunk_type \<Rightarrow> int \<Rightarrow> rat \<Rightarrow> trunk_manager \<Rightarrow> trunk_manager" where
  "increment_call now i ty capacity cps m =
    (let s = (case map_of (stats_map ty m) i of Some s \<Rightarrow> s | None \<Rightarrow> fresh_usage capacity cps)
     in put_stats ty (AList.update i (count_call now s) (stats_map ty m)) m)"

definition decrement_call :: "int \<Rightarrow> trunk_type \<Rightarrow> int \<Rightarrow> trunk_manager \<Rightarrow> trunk_manager" where
  "decrement_call i ty seconds m =
    (case map_of (stats_map ty m) i of
       None \<Rightarrow> m
     | Some s \<Rightarrow>
         let s = (if 0 < tu_current_calls s then s\<lparr>tu_current_calls := tu_current_calls s - 1\<rparr> else s);
             s = s\<lparr>tu_total_minutes := tu_total_minutes s + of_int seconds / 60\<rparr>
         in put_stats ty (AList.update i s (stats_map ty m)) m)"

record trunk_usage_stats =
  us_trunk_id :: int
  us_trunk_type :: trunk_type
  us_current_calls :: int
  us_current_cps :: rat
  us_total_calls :: int
  us_total_minutes :: rat
  us_last_call_at :: "int option"

definition usage_stats :: "int \<Rightarrow> trunk_type \<Rightarrow> trunk_usage \<Rightarrow> trunk_usage_stats" where
  "usage_stats i ty s =
     \<lparr>us_trunk_id = i, us_trunk_type = ty, us_current_calls = tu_current_calls s,
      us_current_cps = tu_current_cps s, us_total_calls = tu_total_calls s,
      us_total_minutes = tu_total_minutes s, us_last_call_at = tu_last_call_at s\<rparr>"

definition get_usage_stats :: "int \<Rightarrow> trunk_type \<Rightarrow> trunk_manager \<Rightarrow> trunk_usage_stats option" where
  "get_usage_stats i ty m = map_option (usage_stats i ty) (map_of (stats_map ty m) i)"

definition reset_trunk_stats :: "int \<Rightarrow> trunk_type \<Rightarrow> trunk_manager \<Rightarrow> trunk_manager" where
  "reset_trunk_stats i ty m =
    (case map_of (stats_map ty m) i of
       None \<Rightarrow> m
     | Some s \<Rightarrow> put_stats ty (AList.update i
         (s\<lparr>tu_current_calls := 0, tu_current_cps := 0, tu_cps_window := []\<rparr>) (stats_map ty m)) m)"

definition get_all_stats :: "trunk_manager \<Rightarrow> trunk_usage_stats list" where
  "get_all_stats m = map (\<lambda>(i, s). usage_stats i Egress s) (tm_egress_stats m) @
     map (\<lambda>(i, s). usage_stats i Ingress s) (tm_ingress_stats m)"

section \<open>Stores of the two directions\<close>

lemma stats_map_put [simp]:
  "stats_map ty (put_stats ty' al m) = (if ty = ty' then al else stats_map ty m)"
  by (cases ty; cases ty') (simp_all add: stats_map_def put_stats_def)

lemma increment_usage:
  "map_of (stats_map ty (increment_call now i ty capacity cps m)) i =
    Some (count_call now (case map_of (stats_map ty m) i of Some s \<Rightarrow> s | None \<Rightarrow> fresh_usage capacity cps))"
  by (simp add: increment_call_def Let_def)

lemma count_call_simps [simp]:
  "tu_capacity_limit (count_call now s) = tu_capacity_limit s"
  "tu_cps_limit (count_call now s) = tu_cps_limit s"
  "tu_cps_window (count_call now s) = filter (\<lambda>t. now - one_second < t) (tu_cps_window s) @ [now]"
  by (simp_all add: count_call_def Let_def)

text \<open>A trunk keeps the limits of its first call: counting a call with other limits, as after
  a change of the configuration, leaves the limits of a known trunk as they were.\<close>

theorem first_limits_stick:
  assumes "map_of (stats_map ty m) i = Some s"
  shows "\<exists>t. map_of (stats_map ty (increment_call now i ty capacity cps m)) i = Some t \<and>
    tu_capacity_limit t = tu_capacity_limit s \<and> tu_cps_limit t = tu_cps_limit s \<and>
    tu_current_calls t = wrap_signed 32 (tu_current_calls s + 1)"
  using assms by (simp add: increment_usage) (simp add: count_call_def Let_def)

theorem first_limits_stick_witness:
  "\<exists>t. map_of (stats_map Egress (increment_call 5 1 Egress 100 50
      (increment_call 0 1 Egress 1 1 new_trunk_manager))) 1 = Some t \<and> tu_capacity_limit t = 1"
  using first_limits_stick [of Egress "increment_call 0 1 Egress 1 1 new_trunk_manager" 1 _ 5 100 50]
  by (simp add: increment_usage) (simp add: new_trunk_manager_def stats_map_def fresh_usage_def)

section \<open>The sliding window\<close>

text \<open>A call that asks first and is counted only if it is accepted, and the times of the accepted
  calls of a list of arrivals.\<close>

definition place_call :: "int \<Rightarrow> int \<Rightarrow> trunk_type \<Rightarrow> int \<Rightarrow> rat \<Rightarrow> trunk_manager \<Rightarrow> bool \<times> trunk_manager" where
  "place_call now i ty capacity cps m =
    (if can_accept_call now i ty m then (True, increment_call now i ty capacity cps m) else (False, m))"

fun accepted_times :: "int \<Rightarrow> trunk_type \<Rightarrow> int \<Rightarrow> rat \<Rightarrow> int list \<Rightarrow> trunk_manager \<Rightarrow> int list" where
  "accepted_times i ty capacity cps [] m = []"
| "accepted_times i ty capacity cps (t # ts) m =
    (let (ok, m') = place_call t i ty capacity cps m
     in (if ok then [t] else []) @ accepted_times i ty capacity cps ts m')"

definition in_window :: "int \<Rightarrow> int list \<Rightarrow> nat" where
  "in_window u ts = length (filter (\<lambda>t. u - one_second < t \<and> t \<le> u) ts)"

text \<open>What the accepted calls so far (\<open>hist\<close>, all before \<open>now\<close>) say of the state.\<close>

definition window_inv :: "int \<Rightarrow> trunk_type \<Rightarrow> rat \<Rightarrow> int list \<Rightarrow> int \<Rightarrow> trunk_manager \<Rightarrow> bool" where
  "window_inv i ty cps hist now m \<longleftrightarrow>
    (\<forall>t \<in> set hist. t \<le> now) \<and>
    (case map_of (stats_map ty m) i of
       None \<Rightarrow> hist = []
     | Some s \<Rightarrow> tu_cps_limit s = cps \<and>
         (\<forall>u \<ge> now. filter (\<lambda>t. u - one_second < t) (tu_cps_window s) = filter (\<lambda>t. u - one_second < t) hist)) \<and>
    (\<forall>u. rat_of_nat (in_window u hist) < cps + 1 \<or> in_window u hist \<le> 1)"

lemma window_inv_later: "window_inv i ty cps hist now m \<Longrightarrow> now \<le> now' \<Longrightarrow> window_inv i ty cps hist now' m"
  unfolding window_inv_def by (cases "map_of (stats_map ty m) i") fastforce+

lemma window_count_step:
  assumes hist: "\<forall>t \<in> set hist. t \<le> now"
    and bound: "\<forall>u. rat_of_nat (in_window u hist) < cps + 1 \<or> in_window u hist \<le> 1"
    and live: "hist = [] \<or> rat_of_nat (length (filter (\<lambda>t. now - one_second < t) hist)) < cps"
  shows "rat_of_nat (in_window u (hist @ [now])) < cps + 1 \<or> in_window u (hist @ [now]) \<le> 1"
proof (cases "u - one_second < now \<and> now \<le> u")
  case False
  then show ?thesis using bound by (auto simp: in_window_def)
next
  case True
  show ?thesis
  proof (cases "hist = []")
    case False
    have "in_window u hist \<le> length (filter (\<lambda>t. now - one_second < t) hist)"
      unfolding in_window_def using True by (induction hist) auto
    then have "rat_of_nat (in_window u hist) \<le> rat_of_nat (length (filter (\<lambda>t. now - one_second < t) hist))"
      by (simp only: of_nat_le_iff)
    with live False have "rat_of_nat (in_window u hist) < cps" by simp
    moreover have "in_window u (hist @ [now]) = Suc (in_window u hist)" using True by (simp add: in_window_def)
    ultimately show ?thesis by simp
  qed (simp add: in_window_def)
qed

lemma window_inv_step:
  assumes inv: "window_inv i ty cps hist now m" and ok: "can_accept_call now i ty m"
  shows "window_inv i ty cps (hist @ [now]) now (increment_call now i ty capacity cps m)"
proof -
  let ?s = "case map_of (stats_map ty m) i of Some s \<Rightarrow> s | None \<Rightarrow> fresh_usage capacity cps"
  from inv have hist: "\<forall>t \<in> set hist. t \<le> now"
    and bound: "\<forall>u. rat_of_nat (in_window u hist) < cps + 1 \<or> in_window u hist \<le> 1"
    by (simp_all add: window_inv_def)
  have w: "filter (\<lambda>t. u - one_second < t) (tu_cps_window ?s) = filter (\<lambda>t. u - one_second < t) hist"
    if "now \<le> u" for u
    using inv that by (auto simp: window_inv_def fresh_usage_def split: option.splits)
  have "hist = [] \<or> rat_of_nat (length (filter (\<lambda>t. now - one_second < t) hist)) < cps"
    using inv ok w [of now] by (auto simp: window_inv_def can_accept_call_def Let_def not_le split: option.splits if_splits)
  note step = window_count_step [OF hist bound this]
  have "filter (\<lambda>t. u - one_second < t) (filter (\<lambda>t. now - one_second < t) (tu_cps_window ?s)) =
      filter (\<lambda>t. u - one_second < t) hist" if "now \<le> u" for u
  proof -
    have "filter (\<lambda>t. u - one_second < t) (filter (\<lambda>t. now - one_second < t) (tu_cps_window ?s)) =
        filter (\<lambda>t. u - one_second < t) (tu_cps_window ?s)"
      unfolding filter_filter using that by (intro filter_cong) auto
    with w [OF that] show ?thesis by simp
  qed
  moreover have "tu_cps_limit ?s = cps"
    using inv by (auto simp: window_inv_def fresh_usage_def split: option.splits)
  ultimately show ?thesis
    using hist step by (simp add: window_inv_def increment_usage)
qed

lemma accepted_inv:
  "window_inv i ty cps hist now m \<Longrightarrow> sorted (now # ts) \<Longrightarrow>
    (\<forall>u. rat_of_nat (in_window u (hist @ accepted_times i ty capacity cps ts m)) < cps + 1 \<or>
      in_window u (hist @ accepted_times i ty capacity cps ts m) \<le> 1)"
proof (induction ts arbitrary: hist now m)
  case Nil
  then show ?case by (simp add: window_inv_def)
next
  case (Cons t ts)
  then have inv: "window_inv i ty cps hist t m" and s: "sorted (t # ts)"
    using window_inv_later by auto
  show ?case
  proof (cases "can_accept_call t i ty m")
    case True
    from Cons.IH [OF window_inv_step [OF inv True] s] True show ?thesis
      by (simp add: place_call_def)
  next
    case False
    from Cons.IH [OF inv s] False show ?thesis by (simp add: place_call_def)
  qed
qed

text \<open>C22: When the calls of a fresh manager are asked for and counted one after the other, in the order of time,
  any window of one second holds fewer accepted calls of a trunk than its limit plus one, or a single one: a
  limit of 2.5 lets three calls through, and a limit of 0 a call that finds its window empty. Calls asked
  for before one of them is counted are outside this statement.\<close>

theorem sliding_window_limits_rate:
  assumes "sorted ts"
  shows "rat_of_nat (in_window u (accepted_times i ty capacity cps ts new_trunk_manager)) < cps + 1 \<or>
    in_window u (accepted_times i ty capacity cps ts new_trunk_manager) \<le> 1"
proof (cases ts)
  case (Cons t r)
  have "window_inv i ty cps [] t new_trunk_manager"
    by (cases ty) (simp_all add: window_inv_def in_window_def new_trunk_manager_def stats_map_def)
  from accepted_inv [OF this, of ts] assms Cons show ?thesis by simp
qed (simp add: in_window_def)

theorem sliding_window_limits_rate_witness:
  "in_window 30 (accepted_times 1 Egress 100 2 [0, 10, 20, 30] new_trunk_manager) \<le> 2"
proof -
  let ?n = "in_window 30 (accepted_times 1 Egress 100 2 [0, 10, 20, 30] new_trunk_manager)"
  have "rat_of_nat ?n < rat_of_nat 3 \<or> ?n \<le> 1"
    using sliding_window_limits_rate [of "[0, 10, 20, 30]" 30 1 Egress 100 2] by simp
  then show ?thesis unfolding of_nat_less_iff by linarith
qed

end
