(* ===== verification/PhoneValidation.thy ===== *)
theory PhoneValidation
  imports LcrTypes
begin

text \<open>
  The phone number validator (\<open>src/lcr/phone_validation.rs\<close>): normalization of access
  prefixes, the two levels of validation, country detection and formatting.
\<close>

record validation_result =
  vr_original :: string
  vr_is_valid :: bool
  vr_country_code :: "string option"
  vr_region_code :: "string option"
  vr_number_type :: "string option"
  vr_e164_format :: "string option"
  vr_international_format :: "string option"
  vr_error :: "string option"

definition default_phone_config :: phone_validation_config where
  "default_phone_config = \<lparr>pv_enabled = True, pv_strict_validation = False,
     pv_default_region = ''US'', pv_use_country_detection = True\<rparr>"

definition normalize_number :: "string \<Rightarrow> string" where
  "normalize_number number =
    (let digits = only_digits number in
     if starts_with digits ''011'' \<and> 3 < length digits then CHR ''+'' # drop 3 digits
     else if starts_with digits ''00'' \<and> 2 < length digits then CHR ''+'' # drop 2 digits
     else if starts_with number ''+'' then CHR ''+'' # digits
     else digits)"

definition contains_invalid_chars :: "string \<Rightarrow> bool" where
  "contains_invalid_chars number \<longleftrightarrow>
     list_ex (\<lambda>c. \<not> is_digit c \<and> c \<notin> {CHR ''+'', CHR ''-'', CHR ''('', CHR '')'', CHR '' '', CHR ''.''}) number"

definition digits_part :: "string \<Rightarrow> string" where
  "digits_part normalized = (if starts_with normalized ''+'' then drop 1 normalized else normalized)"

definition is_reasonable_number :: "string \<Rightarrow> bool" where
  "is_reasonable_number normalized \<longleftrightarrow>
     (if normalized = [] then False
      else let digits = digits_part normalized; len = length digits
           in if len < 3 \<or> 20 < len then False else list_all is_digit digits)"

definition basic_validate :: "string \<Rightarrow> bool" where
  "basic_validate normalized \<longleftrightarrow>
     (if normalized = [] then False
      else let digits = digits_part normalized; len = length digits
           in if len < 5 \<or> 15 < len then False else list_all is_digit digits)"

definition detect_country_code :: "phone_validation_config \<Rightarrow> string \<Rightarrow> string option" where
  "detect_country_code c normalized =
    (if \<not> starts_with normalized ''+'' then Some (pv_default_region c)
     else let digits = drop 1 normalized in
       if starts_with digits ''1'' then Some ''US''
       else if starts_with digits ''44'' then Some ''GB''
       else if starts_with digits ''49'' then Some ''DE''
       else if starts_with digits ''33'' then Some ''FR''
       else if starts_with digits ''39'' then Some ''IT''
       else if starts_with digits ''34'' then Some ''ES''
       else if starts_with digits ''31'' then Some ''NL''
       else if starts_with digits ''32'' then Some ''BE''
       else if starts_with digits ''43'' then Some ''AT''
       else if starts_with digits ''41'' then Some ''CH''
       else if starts_with digits ''46'' then Some ''SE''
       else if starts_with digits ''47'' then Some ''NO''
       else if starts_with digits ''45'' then Some ''DK''
       else if starts_with digits ''358'' then Some ''FI''
       else None)"

definition format_international :: "phone_validation_config \<Rightarrow> string \<Rightarrow> string" where
  "format_international c normalized =
    (if starts_with normalized ''+'' then normalized
     else if length normalized = 10 \<and> pv_default_region c = ''US''
     then ''+1 '' @ take 3 normalized @ '' '' @ take 3 (drop 3 normalized) @ '' '' @ drop 6 normalized
     else CHR ''+'' # normalized)"

definition validate :: "phone_validation_config \<Rightarrow> string \<Rightarrow> validation_result" where
  "validate c number =
    (if \<not> pv_enabled c then
       \<lparr>vr_original = number, vr_is_valid = True, vr_country_code = None, vr_region_code = None,
        vr_number_type = None, vr_e164_format = None, vr_international_format = None, vr_error = None\<rparr>
     else
       let normalized = normalize_number number;
           invalid_chars = contains_invalid_chars number;
           is_valid = (basic_validate normalized \<and> \<not> invalid_chars);
           country = (if pv_use_country_detection c then detect_country_code c normalized else None)
       in if pv_strict_validation c \<and> \<not> is_valid then
            \<lparr>vr_original = number, vr_is_valid = False, vr_country_code = country, vr_region_code = country,
             vr_number_type = None, vr_e164_format = None, vr_international_format = None,
             vr_error = Some ''Number failed strict validation''\<rparr>
          else
            \<lparr>vr_original = number,
             vr_is_valid = (if pv_strict_validation c then is_valid
                            else \<not> invalid_chars \<and> is_reasonable_number normalized),
             vr_country_code = country, vr_region_code = country, vr_number_type = Some ''unknown'',
             vr_e164_format = (if is_valid then Some normalized else None),
             vr_international_format = (if is_valid then Some (format_international c normalized) else None),
             vr_error = (if \<not> is_valid \<and> pv_strict_validation c then Some ''Number failed validation'' else None)\<rparr>)"

definition get_country_code :: "phone_validation_config \<Rightarrow> string \<Rightarrow> string option" where
  "get_country_code c number =
    (if \<not> pv_use_country_detection c then None else detect_country_code c (normalize_number number))"

definition phone_is_international :: "phone_validation_config \<Rightarrow> string \<Rightarrow> bool" where
  "phone_is_international c number \<longleftrightarrow>
    (let normalized = normalize_number number in
     starts_with normalized ''00'' \<or> starts_with number ''+'' \<or> starts_with normalized ''011'' \<or>
     (case detect_country_code c normalized of None \<Rightarrow> False | Some cc \<Rightarrow> cc \<noteq> pv_default_region c))"

definition normalize_to_e164 :: "string \<Rightarrow> string + string" where
  "normalize_to_e164 number =
    (let normalized = normalize_number number in
     if basic_validate normalized
     then Inr (if starts_with normalized ''+'' then normalized else CHR ''+'' # normalized)
     else Inl (''Invalid phone number: '' @ number))"

definition extract_country_prefix :: "string \<Rightarrow> string option" where
  "extract_country_prefix number =
    (let normalized = normalize_number number in
     if starts_with normalized ''+'' then
       let digits = drop 1 normalized in
       if starts_with digits ''1'' then Some ''1''
       else if 2 \<le> length digits then Some (take 2 digits) else None
     else None)"

section \<open>Properties\<close>

lemma digits_not_plus: "list_all is_digit s \<Longrightarrow> \<not> starts_with s ''+''"
  by (cases s) (auto simp: is_digit_def)

lemma normalize_number_form:
  "\<exists>ds. list_all is_digit ds \<and> (normalize_number number = CHR ''+'' # ds \<or> normalize_number number = ds)"
proof -
  have "list_all is_digit (drop n (only_digits number))" for n
    using list_all_only_digits [of number] by (auto simp: list_all_iff dest: in_set_dropD)
  moreover have "normalize_number number \<in> {CHR ''+'' # drop 3 (only_digits number),
      CHR ''+'' # drop 2 (only_digits number), CHR ''+'' # drop 0 (only_digits number), drop 0 (only_digits number)}"
    by (simp add: normalize_number_def Let_def)
  ultimately show ?thesis by blast
qed

lemma digits_part_digits [simp]: "list_all is_digit (digits_part (normalize_number number))"
  using normalize_number_form [of number] by (auto simp: digits_part_def dest: digits_not_plus)

text \<open>
  What the validator accepts, in terms of the digits after the access prefix: 5 to 15 of them in
  strict mode, 3 to 20 otherwise, and no character outside the usual punctuation.
\<close>

theorem phone_validation_exact:
  assumes "pv_enabled c"
  shows "vr_is_valid (validate c number) \<longleftrightarrow> \<not> contains_invalid_chars number \<and>
    (let n = length (digits_part (normalize_number number)) in
     if pv_strict_validation c then 5 \<le> n \<and> n \<le> 15 else 3 \<le> n \<and> n \<le> 20)"
proof -
  have e: "normalize_number number = [] \<Longrightarrow> digits_part (normalize_number number) = []"
    by (simp add: digits_part_def)
  show ?thesis
    using assms e
    by (auto simp: validate_def Let_def basic_validate_def is_reasonable_number_def)
qed

lemma phone_validation_exact_witness:
  "vr_is_valid (validate default_phone_config ''+44 20 7946 0958'') = True"
  using phone_validation_exact [of default_phone_config "''+44 20 7946 0958''"]
  by (simp add: default_phone_config_def contains_invalid_chars_def normalize_number_def digits_part_def
      only_digits_def is_digit_def starts_with_def)

text \<open>
  A number dialled with an access prefix to a country that the detection does not list is not
  international, although the same number written with a plus sign is.
\<close>

theorem access_prefix_not_international:
  assumes "list_all is_digit ds" and "ds \<noteq> []" and "detect_country_code c (CHR ''+'' # ds) = None"
    and "p = ''011'' \<or> p = ''00'' \<and> \<not> starts_with ds ''1''"
  shows "\<not> phone_is_international c (p @ ds) \<and> phone_is_international c (CHR ''+'' # ds)"
proof -
  have d: "only_digits (p @ ds) = p @ ds"
    using assms(1,4) by (auto intro!: only_digits_id simp: is_digit_def)
  have "normalize_number (p @ ds) = CHR ''+'' # ds"
    using assms(2,4) unfolding normalize_number_def d Let_def by (auto simp: Suc_le_eq)
  with assms show ?thesis
    by (auto simp: phone_is_international_def Let_def)
qed

lemma access_prefix_not_international_witness:
  "\<not> phone_is_international default_phone_config ''011381112345''"
  using access_prefix_not_international [of "''381112345''" default_phone_config "''011''"]
  by (simp add: is_digit_def detect_country_code_def starts_with_def)

end
