(* ===== verification/LcrRouting.thy ===== *)
theory LcrRouting
  imports "HOL-Library.Multiset" LcrJurisdiction LcrTrunks PhoneValidation
begin

text \<open>
  The least-cost routing engine (\<open>src/lcr/routing.rs\<close>): static routes, rates by deck
  and time, the candidate routes of every egress trunk, profit protection, and their order. The
  database is an argument, a record of its tables, and every query answers; the regular
  expressions (crate \<open>regex\<close>) and the LRN dip are functions in this record. One request sees
  one time \<open>now\<close>.
\<close>

section \<open>The tables\<close>

record lcr_env =
  env_client_decks :: "rate_deck list"
  env_vendor_decks :: "rate_deck list"
  env_route_trunks :: "lcr_route_trunk list"
  env_associations :: "trunk_rate_association list"
  env_client_nanpa :: "int \<Rightarrow> string \<Rightarrow> nanpa_rate option"
  env_vendor_nanpa :: "int \<Rightarrow> string \<Rightarrow> nanpa_rate option"
  env_client_international :: "int \<Rightarrow> international_rate list"
  env_vendor_international :: "int \<Rightarrow> international_rate list"
  env_plans :: "international_routing_plan list"
  env_preferences :: "country_routing_preference list"
  env_regex :: "string \<Rightarrow> (string \<Rightarrow> bool) option"
  env_dip :: "(string \<Rightarrow> string \<Rightarrow> string option) option"

text \<open>\<open>ORDER BY key DESC LIMIT 1\<close>; among equal keys the first row.\<close>

fun first_max :: "('a \<Rightarrow> 'k :: linorder) \<Rightarrow> 'a list \<Rightarrow> 'a option" where
  "first_max key [] = None"
| "first_max key (x # xs) =
    (case first_max key xs of
       None \<Rightarrow> Some x
     | Some y \<Rightarrow> if key y \<le> key x then Some x else Some y)"

definition in_force :: "int \<Rightarrow> rate_deck \<Rightarrow> bool" where
  "in_force t d \<longleftrightarrow> rd_effective_date d \<le> t \<and>
     (case rd_end_date d of None \<Rightarrow> True | Some e \<Rightarrow> t < e) \<and> rd_active d"

definition newest_deck :: "rate_deck list \<Rightarrow> rate_deck option" where
  "newest_deck ds = first_max rd_deck_version ds"

section \<open>Rates at a time\<close>

definition client_rate_of_deck :: "lcr_env \<Rightarrow> lcr_cache \<Rightarrow> int \<Rightarrow> string \<Rightarrow> nanpa_rate option" where
  "client_rate_of_deck env c deck_id code =
    (case get_client_rate c deck_id code of
       Some r \<Rightarrow> Some r
     | None \<Rightarrow> load_rate_from_db (env_client_nanpa env) deck_id code)"

definition vendor_rate_of_deck :: "lcr_env \<Rightarrow> lcr_cache \<Rightarrow> int \<Rightarrow> string \<Rightarrow> nanpa_rate option" where
  "vendor_rate_of_deck env c deck_id code =
    (case get_vendor_rate c deck_id code of
       Some r \<Rightarrow> Some r
     | None \<Rightarrow> load_rate_from_db (env_vendor_nanpa env) deck_id code)"

definition get_client_rate_at_time ::
    "lcr_env \<Rightarrow> lcr_cache \<Rightarrow> int \<Rightarrow> string \<Rightarrow> int \<Rightarrow> nanpa_rate option" where
  "get_client_rate_at_time env c deck_id code t =
    (if list_ex (\<lambda>d. rd_id d = deck_id \<and> in_force t d) (env_client_decks env)
     then client_rate_of_deck env c deck_id code
     else
       (case newest_deck [a. l \<leftarrow> env_client_decks env, rd_id l = deck_id, a \<leftarrow> env_client_decks env,
              rd_name a = rd_name l, rd_owner_id a = rd_owner_id l, in_force t a] of
          Some d \<Rightarrow> client_rate_of_deck env c (rd_id d) code
        | None \<Rightarrow> None))"

text \<open>The deck family the trunk is linked to, and its version in force.\<close>

definition linked_vendor_decks :: "lcr_env \<Rightarrow> int \<Rightarrow> rate_deck list" where
  "linked_vendor_decks env trunk_id =
     [l. rt \<leftarrow> env_route_trunks env, lt_egress_trunk_id rt = trunk_id,
         l \<leftarrow> env_vendor_decks env, rd_id l = lt_vendor_deck_id rt]"

definition get_vendor_rate_for_trunk_at_time ::
    "lcr_env \<Rightarrow> lcr_cache \<Rightarrow> int \<Rightarrow> string \<Rightarrow> int \<Rightarrow> (nanpa_rate \<times> rate_type) option" where
  "get_vendor_rate_for_trunk_at_time env c trunk_id code t =
    (case newest_deck [a. l \<leftarrow> linked_vendor_decks env trunk_id, a \<leftarrow> env_vendor_decks env,
            rd_name a = rd_name l, rd_owner_id a = rd_owner_id l, in_force t a] of
       None \<Rightarrow> None
     | Some d \<Rightarrow> map_option (\<lambda>r. (r, rd_rate_type d)) (vendor_rate_of_deck env c (rd_id d) code))"

definition get_client_deck_for_trunk :: "lcr_env \<Rightarrow> int \<Rightarrow> int \<Rightarrow> int option" where
  "get_client_deck_for_trunk env trunk_id t =
     map_option rd_id (newest_deck [d. a \<leftarrow> env_associations env, ta_ingress_trunk_id a = Some trunk_id,
       d \<leftarrow> env_client_decks env, ta_client_deck_id a = Some (rd_id d), in_force t d])"

definition get_client_rate_for_trunk_at_time ::
    "lcr_env \<Rightarrow> lcr_cache \<Rightarrow> int \<Rightarrow> string \<Rightarrow> int \<Rightarrow> nanpa_rate option" where
  "get_client_rate_for_trunk_at_time env c trunk_id code t =
    (case get_client_deck_for_trunk env trunk_id t of
       Some d \<Rightarrow> client_rate_of_deck env c d code
     | None \<Rightarrow> None)"

definition get_vendor_deck_for_trunk :: "lcr_env \<Rightarrow> int \<Rightarrow> int \<Rightarrow> int option" where
  "get_vendor_deck_for_trunk env trunk_id t =
     map_option rd_id (newest_deck (filter (in_force t) (linked_vendor_decks env trunk_id)))"

fun calculate_cost :: "nanpa_rate \<Rightarrow> call_jurisdiction \<Rightarrow> rat" where
  "calculate_cost r J_Interstate = nr_inter_rate r"
| "calculate_cost r J_Intrastate = nr_intra_rate r"
| "calculate_cost r J_Indeterminate = nr_ij_rate r"
| "calculate_cost r J_Local = (case nr_local_rate r of Some x \<Rightarrow> x | None \<Rightarrow> nr_intra_rate r)"
| "calculate_cost r J_International = nr_ij_rate r"

section \<open>Numbers\<close>

definition normalize_international_number :: "string \<Rightarrow> string" where
  "normalize_international_number number =
    (let digits = only_digits number in
     if starts_with digits ''011'' \<and> 3 < length digits then drop 3 digits
     else if starts_with digits ''00'' \<and> 2 < length digits then drop 2 digits
     else digits)"

definition international_code :: "international_rate \<Rightarrow> string" where
  "international_code r =
     ir_country_code r @ (case ir_destination_code r of Some d \<Rightarrow> d | None \<Rightarrow> [])"

definition load_international_rate_row ::
    "(int \<Rightarrow> international_rate list) \<Rightarrow> int \<Rightarrow> string \<Rightarrow> international_rate option" where
  "load_international_rate_row table deck_id dnis =
    (let normalized = normalize_international_number dnis in
     first_max (\<lambda>r. length (international_code r))
       (filter (\<lambda>r. starts_with normalized (international_code r)) (table deck_id)))"

definition is_international_number :: "string \<Rightarrow> bool" where
  "is_international_number dnis \<longleftrightarrow>
    (let normalized = only_digits dnis in
     if starts_with normalized ''011'' \<or> starts_with normalized ''00'' \<or> starts_with dnis ''+'' then True
     else if length normalized = 10 then hd normalized \<in> {CHR ''0'', CHR ''1''}
     else if length normalized = 11 \<and> starts_with normalized ''1'' then normalized ! 1 \<in> {CHR ''0'', CHR ''1''}
     else True)"

definition toll_free_npas :: "string set" where
  "toll_free_npas = {''800'', ''822'', ''833'', ''844'', ''855'', ''866'', ''877'', ''888''}"

definition is_toll_free_number :: "string \<Rightarrow> bool" where
  "is_toll_free_number dnis \<longleftrightarrow>
    (let normalized = only_digits dnis in
     if length normalized = 11 \<and> starts_with normalized ''1'' then take 3 (drop 1 normalized) \<in> toll_free_npas
     else if length normalized = 10 then take 3 normalized \<in> toll_free_npas
     else False)"

section \<open>Static routes\<close>

text \<open>The cache of compiled patterns holds, for a route identifier, the pattern that was compiled.\<close>

type_synonym pattern_cache = "int \<rightharpoonup> string"

definition pattern_matches :: "lcr_env \<Rightarrow> string \<Rightarrow> string \<Rightarrow> bool" where
  "pattern_matches env pat dnis = (case env_regex env pat of Some is_match \<Rightarrow> is_match dnis | None \<Rightarrow> False)"

definition static_route_matches ::
    "lcr_env \<Rightarrow> static_route \<Rightarrow> string \<Rightarrow> pattern_cache \<Rightarrow> bool \<times> pattern_cache" where
  "static_route_matches env r dnis pats =
    (case pats (sr_id r) of
       Some pat \<Rightarrow> (pattern_matches env pat dnis, pats)
     | None \<Rightarrow>
         (case env_regex env (sr_pattern r) of
            Some is_match \<Rightarrow> (is_match dnis, pats(sr_id r \<mapsto> sr_pattern r))
          | None \<Rightarrow> (False, pats)))"

fun check_static_routes ::
    "lcr_env \<Rightarrow> string \<Rightarrow> int option \<Rightarrow> route_position \<Rightarrow> static_route list \<Rightarrow> pattern_cache \<Rightarrow>
     static_route option \<times> pattern_cache" where
  "check_static_routes env dnis ingress pos [] pats = (None, pats)"
| "check_static_routes env dnis ingress pos (r # rs) pats =
    (if sr_position r = pos \<and> (sr_ingress_trunk_id r = None \<or> sr_ingress_trunk_id r = ingress) then
       (case static_route_matches env r dnis pats of
          (True, pats) \<Rightarrow> (Some r, pats)
        | (False, pats) \<Rightarrow> check_static_routes env dnis ingress pos rs pats)
     else check_static_routes env dnis ingress pos rs pats)"

definition dec_int :: "int \<Rightarrow> string" where
  "dec_int i = (if i < 0 then CHR ''-'' # dec (nat (- i)) else dec (nat i))"

definition build_static_route_response ::
    "lcr_cache \<Rightarrow> static_route \<Rightarrow> route_request \<Rightarrow> string + lcr_response" where
  "build_static_route_response c r q =
    (case get_egress_trunk c (sr_egress_trunk_id r) of
       None \<Rightarrow> Inl (''Egress trunk '' @ dec_int (sr_egress_trunk_id r) @ '' not found for static route'')
     | Some e \<Rightarrow>
         Inr \<lparr>lr_routes = [\<lparr>rt_trunk = e, rt_vendor = ''Vendor '' @ dec_int (et_vendor_id e), rt_vendor_rate = None,
                rt_client_rate = None, rt_cost_per_minute = 0, rt_selling_per_minute = 0, rt_profit_margin = 0,
                rt_priority = sr_priority r, rt_setup_fee = 0, rt_min_increment = 6, rt_interval = 6\<rparr>],
              lr_jurisdiction = J_Indeterminate, lr_lrn = None, lr_total_routes = 1, lr_ani = rq_ani q,
              lr_dnis = rq_dnis q,
              lr_ingress_trunk = (case get_ingress_trunk c (rq_ingress_trunk_id q) of
                 Some t \<Rightarrow> it_name t | None \<Rightarrow> dec_int (rq_ingress_trunk_id q)),
              lr_routing_decision = ''STATIC_ROUTE''\<rparr>)"

section \<open>The candidate of one trunk\<close>

text \<open>What one turn of the loop over the trunks does: nothing, or it reports a jurisdiction and a
  ported number and, unless profit protection drops it, a route.\<close>

datatype trunk_outcome = Skipped | Offered call_jurisdiction "string option" "call_route option"

definition dnis_jurisdiction :: "lcr_cache \<Rightarrow> string \<Rightarrow> string \<Rightarrow> call_jurisdiction" where
  "dnis_jurisdiction c ani dnis =
    (let ani_info = nanpa_info_of c ani; dnis_info = nanpa_info_of c dnis
     in if determine_local_jurisdiction ani_info dnis_info then J_Local
        else determine_jurisdiction ani_info dnis_info)"

definition below_margin :: "ingress_trunk \<Rightarrow> route_request \<Rightarrow> rat \<Rightarrow> bool" where
  "below_margin i q profit \<longleftrightarrow>
     (rq_require_profit_protection q \<or> it_profit_protection i) \<and>
     profit < (case rq_min_profit_margin q of Some m \<Rightarrow> m | None \<Rightarrow> it_min_profit_margin i)"

definition trunk_supports_nanpa :: "egress_trunk \<Rightarrow> bool" where
  "trunk_supports_nanpa e = True"

definition vendor_rate_or_toll_free ::
    "lcr_env \<Rightarrow> lcr_cache \<Rightarrow> int \<Rightarrow> string \<Rightarrow> bool \<Rightarrow> int \<Rightarrow> (nanpa_rate \<times> rate_type) option" where
  "vendor_rate_or_toll_free env c trunk_id code toll_free t =
    (let specific = get_vendor_rate_for_trunk_at_time env c trunk_id code t in
     if specific = None \<and> toll_free
     then get_vendor_rate_for_trunk_at_time env c trunk_id toll_free_flat_code t else specific)"

definition nanpa_outcome ::
    "lcr_env \<Rightarrow> lcr_cache \<Rightarrow> ingress_trunk \<Rightarrow> route_request \<Rightarrow> nanpa_rate option \<Rightarrow> string \<Rightarrow> bool \<Rightarrow> int \<Rightarrow>
     egress_trunk \<Rightarrow> trunk_outcome" where
  "nanpa_outcome env c i q client_rate code toll_free t e =
    (if \<not> trunk_supports_nanpa e then Skipped
     else case vendor_rate_or_toll_free env c (et_id e) code toll_free t of
       None \<Rightarrow> Skipped
     | Some (rate, ty) \<Rightarrow>
         let (jurisdiction, lrn) =
               (if ty = Rate_LRN
                then get_jurisdiction_with_lrn_dip c (env_dip env) (rq_ani q) (rq_dnis q) True
                else (dnis_jurisdiction c (rq_ani q) (rq_dnis q), None));
             cost = calculate_cost rate jurisdiction;
             sell = (case client_rate of Some cr \<Rightarrow> calculate_cost cr jurisdiction | None \<Rightarrow> cost);
             profit = sell - cost
         in Offered jurisdiction lrn
              (if below_margin i q profit then None
               else Some \<lparr>rt_trunk = e, rt_vendor = ''Vendor '' @ dec_int (et_vendor_id e),
                 rt_vendor_rate = Some rate, rt_client_rate = client_rate, rt_cost_per_minute = cost,
                 rt_selling_per_minute = sell, rt_profit_margin = profit, rt_priority = et_priority e,
                 rt_setup_fee = (case nr_setup_fee rate of Some f \<Rightarrow> f | None \<Rightarrow> 0),
                 rt_min_increment = nr_min_increment rate, rt_interval = nr_interval rate\<rparr>))"

text \<open>The validation of an international number: whether the trunk is skipped, the country, and
  whether the number passed.\<close>

definition get_routing_plan :: "lcr_env \<Rightarrow> int \<Rightarrow> international_routing_plan option" where
  "get_routing_plan env plan_id = List.find (\<lambda>p. ip_id p = plan_id \<and> ip_active p) (env_plans env)"

definition validated :: "phone_validation_config \<Rightarrow> string \<Rightarrow> bool \<times> string option \<times> bool" where
  "validated cfg dnis =
    (let r = validate cfg dnis
     in (\<not> vr_is_valid r \<and> pv_strict_validation cfg, vr_country_code r, vr_is_valid r))"

definition phone_check :: "lcr_env \<Rightarrow> route_request \<Rightarrow> bool \<times> string option \<times> bool" where
  "phone_check env q =
    (case rq_routing_plan_id q of
       Some pid \<Rightarrow>
         (case get_routing_plan env pid of
            Some p \<Rightarrow>
              if ip_phone_validation_enabled p then
                validated \<lparr>pv_enabled = ip_phone_validation_enabled p,
                  pv_strict_validation = ip_phone_validation_strict p,
                  pv_default_region = ip_phone_validation_default_region p,
                  pv_use_country_detection = ip_phone_validation_use_country_detection p\<rparr> (rq_dnis q)
              else (False, None, True)
          | None \<Rightarrow> (False, None, True))
     | None \<Rightarrow>
         (case rq_phone_validation q of
            Some cfg \<Rightarrow> if pv_enabled cfg then validated cfg (rq_dnis q) else (False, None, True)
          | None \<Rightarrow> (False, None, True)))"

definition get_country_routing_preferences ::
    "lcr_env \<Rightarrow> int \<Rightarrow> string \<Rightarrow> country_routing_preference option" where
  "get_country_routing_preferences env plan_id country =
     List.find (\<lambda>p. cp_routing_plan_id p = plan_id \<and> cp_country_code p = country) (env_preferences env)"

definition az_outcome ::
    "lcr_env \<Rightarrow> ingress_trunk \<Rightarrow> route_request \<Rightarrow> int \<Rightarrow> egress_trunk \<Rightarrow> trunk_outcome" where
  "az_outcome env i q t e =
    (if \<not> et_supports_international e then Skipped
     else let (skip, country, passed) = phone_check env q in
       if skip then Skipped
       else case get_vendor_deck_for_trunk env (et_id e) t of
         None \<Rightarrow> Skipped
       | Some vendor_deck \<Rightarrow>
         (case load_international_rate_row (env_vendor_international env) vendor_deck (rq_dnis q) of
            None \<Rightarrow> Skipped
          | Some intl \<Rightarrow>
              let client_rate = (case get_client_deck_for_trunk env (rq_ingress_trunk_id q) t of
                     Some d \<Rightarrow> load_international_rate_row (env_client_international env) d (rq_dnis q)
                   | None \<Rightarrow> None);
                  pref = (case (rq_routing_plan_id q, country) of
                     (Some pid, Some cc) \<Rightarrow> get_country_routing_preferences env pid cc
                   | _ \<Rightarrow> None);
                  cost = (case pref of Some p \<Rightarrow> ir_rate intl * cp_cost_multiplier p | None \<Rightarrow> ir_rate intl);
                  skip_route = (case pref of Some p \<Rightarrow> cp_require_validation p \<and> \<not> passed | None \<Rightarrow> False)
              in if skip_route then Skipped
                 else let sell = (case client_rate of Some cr \<Rightarrow> ir_rate cr | None \<Rightarrow> cost);
                          profit = sell - cost
                      in Offered J_International None
                        (if below_margin i q profit then None
                         else Some \<lparr>rt_trunk = e, rt_vendor = ''Vendor '' @ dec_int (et_vendor_id e),
                           rt_vendor_rate = None, rt_client_rate = None, rt_cost_per_minute = cost,
                           rt_selling_per_minute = sell, rt_profit_margin = profit,
                           rt_priority = et_priority e,
                           rt_setup_fee = (case ir_setup_fee intl of Some f \<Rightarrow> f | None \<Rightarrow> 0),
                           rt_min_increment = ir_initial_increment intl,
                           rt_interval = ir_subsequent_increment intl\<rparr>)))"

section \<open>Finding routes\<close>

fun collect_routes ::
    "(egress_trunk \<Rightarrow> trunk_outcome) \<Rightarrow> egress_trunk list \<Rightarrow> call_route list \<times> call_jurisdiction \<times> string option \<Rightarrow>
     call_route list \<times> call_jurisdiction \<times> string option" where
  "collect_routes f [] acc = acc"
| "collect_routes f (e # es) (routes, juris, lrn) =
    (case f e of
       Skipped \<Rightarrow> collect_routes f es (routes, juris, lrn)
     | Offered j l r \<Rightarrow>
         collect_routes f es
           (routes @ (case r of Some r \<Rightarrow> [r] | None \<Rightarrow> []),
            (if juris = J_Indeterminate then j else juris), (if lrn = None then l else lrn)))"

definition effective_route_type :: "route_request \<Rightarrow> route_type" where
  "effective_route_type q =
    (if rq_route_type q = Route_OTHER
     then (if is_international_number (rq_dnis q) then Route_AZ else Route_NANPA)
     else rq_route_type q)"

definition client_rate_for ::
    "lcr_env \<Rightarrow> lcr_cache \<Rightarrow> route_request \<Rightarrow> string \<Rightarrow> int \<Rightarrow> nanpa_rate option" where
  "client_rate_for env c q code t =
    (case rq_client_deck_id q of
       Some d \<Rightarrow> get_client_rate_at_time env c d code t
     | None \<Rightarrow> get_client_rate_for_trunk_at_time env c (rq_ingress_trunk_id q) code t)"

definition request_client_rate ::
    "lcr_env \<Rightarrow> lcr_cache \<Rightarrow> route_request \<Rightarrow> route_type \<Rightarrow> string \<Rightarrow> bool \<Rightarrow> int \<Rightarrow> nanpa_rate option" where
  "request_client_rate env c q ty code toll_free t =
    (if ty = Route_NANPA then
       let specific = client_rate_for env c q code t in
       if specific = None \<and> toll_free then client_rate_for env c q toll_free_flat_code t else specific
     else None)"

definition trunk_candidate ::
    "lcr_env \<Rightarrow> lcr_cache \<Rightarrow> trunk_manager \<Rightarrow> int \<Rightarrow> ingress_trunk \<Rightarrow> route_request \<Rightarrow> egress_trunk \<Rightarrow> trunk_outcome" where
  "trunk_candidate env c m now i q e =
    (let t = (case rq_effective_time q of Some t \<Rightarrow> t | None \<Rightarrow> now);
         ty = effective_route_type q;
         code = (if ty = Route_NANPA then normalize_nanpa_number (rq_dnis q) else rq_dnis q);
         toll_free = (ty = Route_NANPA \<and> is_toll_free_number (rq_dnis q))
     in if \<not> et_active e then Skipped
        else if \<not> can_accept_call now (et_id e) Egress m then Skipped
        else case ty of
          Route_NANPA \<Rightarrow> nanpa_outcome env c i q (request_client_rate env c q ty code toll_free t) code toll_free t e
        | Route_AZ \<Rightarrow> az_outcome env i q t e
        | Route_OTHER \<Rightarrow> Skipped)"

definition dynamic_response ::
    "lcr_env \<Rightarrow> lcr_cache \<Rightarrow> trunk_manager \<Rightarrow> int \<Rightarrow> ingress_trunk \<Rightarrow> route_request \<Rightarrow> lcr_response" where
  "dynamic_response env c m now i q =
    (let (routes, juris, lrn) = collect_routes (trunk_candidate env c m now i q) (get_all_egress_trunks c)
           ([], J_Indeterminate, None);
         routes = sort_key route_rank_of routes
     in \<lparr>lr_routes = routes, lr_jurisdiction = juris, lr_lrn = lrn, lr_total_routes = length routes,
         lr_ani = rq_ani q, lr_dnis = rq_dnis q, lr_ingress_trunk = it_name i,
         lr_routing_decision = (if 0 < length routes then ''ROUTE_FOUND'' else ''NO_ROUTES_AVAILABLE'')\<rparr>)"

definition find_routes ::
    "lcr_env \<Rightarrow> lcr_cache \<Rightarrow> trunk_manager \<Rightarrow> int \<Rightarrow> route_request \<Rightarrow> pattern_cache \<Rightarrow>
     (string + lcr_response) \<times> pattern_cache" where
  "find_routes env c m now q pats =
    (case get_ingress_trunk c (rq_ingress_trunk_id q) of
       None \<Rightarrow> (Inl (''Ingress trunk '' @ dec_int (rq_ingress_trunk_id q) @ '' not found''), pats)
     | Some i \<Rightarrow>
         (case check_static_routes env (rq_dnis q) (Some (rq_ingress_trunk_id q)) Before (ch_static_routes c) pats of
            (Some r, pats) \<Rightarrow> (build_static_route_response c r q, pats)
          | (None, pats) \<Rightarrow>
              let response = dynamic_response env c m now i q in
              if lr_routes response = [] then
                (case check_static_routes env (rq_dnis q) (Some (rq_ingress_trunk_id q)) After (ch_static_routes c) pats of
                   (Some r, pats) \<Rightarrow> (build_static_route_response c r q, pats)
                 | (None, pats) \<Rightarrow> (Inr response, pats))
              else (Inr response, pats)))"

section \<open>Simulation\<close>

record simulated_route =
  sm_egress_trunk :: string
  sm_vendor :: string
  sm_cost_per_minute :: rat
  sm_selling_per_minute :: rat
  sm_profit_margin :: rat
  sm_priority :: int
  sm_setup_fee :: rat
  sm_min_increment :: int
  sm_interval :: int

record call_simulation =
  cs_ani :: string
  cs_dnis :: string
  cs_lrn :: "string option"
  cs_jurisdiction :: call_jurisdiction
  cs_ingress_trunk :: string
  cs_total_routes :: nat
  cs_routes :: "simulated_route list"
  cs_routing_decision :: string

definition simulate_call ::
    "lcr_env \<Rightarrow> lcr_cache \<Rightarrow> trunk_manager \<Rightarrow> int \<Rightarrow> string \<Rightarrow> string \<Rightarrow> string option \<Rightarrow> pattern_cache \<Rightarrow>
     (string + call_simulation) \<times> pattern_cache" where
  "simulate_call env c m now ani dnis name pats =
    (case (case name of
             Some n \<Rightarrow> (case List.find (\<lambda>t. it_name t = n) (get_all_ingress_trunks c) of
                 Some t \<Rightarrow> Inr t | None \<Rightarrow> Inl (''Ingress trunk '' @ n @ '' not found''))
           | None \<Rightarrow> (case get_all_ingress_trunks c of t # _ \<Rightarrow> Inr t | [] \<Rightarrow> Inl ''No ingress trunks configured'')) of
       Inl e \<Rightarrow> (Inl e, pats)
     | Inr i \<Rightarrow>
         let q = \<lparr>rq_ani = ani, rq_dnis = dnis, rq_ingress_trunk_id = it_id i, rq_client_deck_id = None,
                  rq_route_type = Route_NANPA, rq_require_profit_protection = it_profit_protection i,
                  rq_min_profit_margin = Some (it_min_profit_margin i), rq_effective_time = None,
                  rq_phone_validation = None, rq_routing_plan_id = None\<rparr>
         in (case find_routes env c m now q pats of
               (Inl e, pats) \<Rightarrow> (Inl e, pats)
             | (Inr r, pats) \<Rightarrow>
                 (Inr \<lparr>cs_ani = ani, cs_dnis = dnis, cs_lrn = lr_lrn r, cs_jurisdiction = lr_jurisdiction r,
                   cs_ingress_trunk = it_name i, cs_total_routes = lr_total_routes r,
                   cs_routes = map (\<lambda>x. \<lparr>sm_egress_trunk = et_name (rt_trunk x),
                     sm_vendor = ''Vendor '' @ dec_int (et_vendor_id (rt_trunk x)),
                     sm_cost_per_minute = rt_cost_per_minute x, sm_selling_per_minute = rt_selling_per_minute x,
                     sm_profit_margin = rt_profit_margin x, sm_priority = rt_priority x,
                     sm_setup_fee = rt_setup_fee x, sm_min_increment = rt_min_increment x,
                     sm_interval = rt_interval x\<rparr>) (lr_routes r),
                   cs_routing_decision = (if 0 < lr_total_routes r then ''ROUTE_FOUND'' else ''NO_ROUTES_AVAILABLE'')\<rparr>,
                  pats)))"

section \<open>The routes that are offered\<close>

lemma first_max_None_iff [simp]: "first_max key xs = None \<longleftrightarrow> xs = []"
  by (cases xs) (auto split: option.splits)

lemma first_max_SomeD: "first_max key xs = Some x \<Longrightarrow> x \<in> set xs \<and> (\<forall>y \<in> set xs. key y \<le> key x)"
proof (induction xs arbitrary: x)
  case (Cons a xs)
  show ?case
  proof (cases "first_max key xs")
    case None
    with Cons.prems show ?thesis by simp
  next
    case (Some y)
    with Cons.IH [OF Some] Cons.prems show ?thesis
      by (auto split: if_splits intro: order_trans)
  qed
qed simp

definition offered_route :: "trunk_outcome \<Rightarrow> call_route option" where
  "offered_route x = (case x of Skipped \<Rightarrow> None | Offered j l r \<Rightarrow> r)"

lemma collect_routes_fst:
  "fst (collect_routes f es (routes, j, l)) = routes @ List.map_filter (\<lambda>e. offered_route (f e)) es"
  by (induction es arbitrary: routes j l)
    (auto simp: map_filter_simps offered_route_def split: trunk_outcome.split option.split)

lemma dynamic_routes:
  "lr_routes (dynamic_response env c m now i q) =
    sort_key route_rank_of (List.map_filter (\<lambda>e. offered_route (trunk_candidate env c m now i q e)) (get_all_egress_trunks c))"
  using collect_routes_fst [of "trunk_candidate env c m now i q" "get_all_egress_trunks c" "[]" J_Indeterminate None]
  by (simp add: dynamic_response_def split_beta Let_def)

text \<open>C20: The dynamic routes are exactly the candidates of the trunks, each trunk contributing its
  candidate once, ordered by priority and then by cost.\<close>

theorem dynamic_routes_exact:
  "sorted (map route_rank_of (lr_routes (dynamic_response env c m now i q))) \<and>
   mset (lr_routes (dynamic_response env c m now i q)) =
     mset (List.map_filter (\<lambda>e. offered_route (trunk_candidate env c m now i q e)) (get_all_egress_trunks c)) \<and>
   lr_total_routes (dynamic_response env c m now i q) = length (lr_routes (dynamic_response env c m now i q)) \<and>
   length (lr_routes (dynamic_response env c m now i q)) \<le> length (ch_egress_trunks c)"
proof -
  have "length (List.map_filter f xs) \<le> length xs" for f :: "egress_trunk \<Rightarrow> call_route option" and xs
    by (induction xs) (auto simp: map_filter_simps split: option.split)
  from this [of _ "get_all_egress_trunks c"] show ?thesis
    by (simp add: dynamic_routes)
      (simp add: dynamic_response_def Let_def split_beta get_all_egress_trunks_def collect_routes_fst)
qed

definition proper_route :: "ingress_trunk \<Rightarrow> route_request \<Rightarrow> egress_trunk \<Rightarrow> call_route \<Rightarrow> bool" where
  "proper_route i q e r \<longleftrightarrow> rt_trunk r = e \<and> rt_priority r = et_priority e \<and>
     rt_profit_margin r = rt_selling_per_minute r - rt_cost_per_minute r \<and> \<not> below_margin i q (rt_profit_margin r)"

lemma nanpa_outcome_route:
  "offered_route (nanpa_outcome env c i q cr code tf t e) = Some r \<Longrightarrow> proper_route i q e r"
  by (auto simp: proper_route_def nanpa_outcome_def offered_route_def Let_def split_beta split: option.splits if_splits)

lemma az_outcome_route:
  "offered_route (az_outcome env i q t e) = Some r \<Longrightarrow> proper_route i q e r"
  by (simp add: proper_route_def az_outcome_def offered_route_def Let_def split_beta split: option.splits if_splits) auto

lemma trunk_candidate_route:
  assumes "offered_route (trunk_candidate env c m now i q e) = Some r"
  shows "et_active e \<and> can_accept_call now (et_id e) Egress m \<and> proper_route i q e r"
proof -
  have "et_active e" and acc: "can_accept_call now (et_id e) Egress m"
    using assms by (auto simp: trunk_candidate_def offered_route_def Let_def split: if_splits)
  then show ?thesis
    using assms nanpa_outcome_route [of env c i q _ _ _ _ e r] az_outcome_route [of env i q _ e r]
    by (cases "effective_route_type q") (auto simp: trunk_candidate_def Let_def offered_route_def [of Skipped])
qed

lemma set_dynamic_routes:
  "r \<in> set (lr_routes (dynamic_response env c m now i q)) \<longleftrightarrow>
    (\<exists>e \<in> set (get_all_egress_trunks c). offered_route (trunk_candidate env c m now i q e) = Some r)"
  unfolding dynamic_routes by (simp add: map_filter_def image_iff) force

text \<open>Every dynamic route leads over an active trunk of the cache that may take a call now,
  carries this trunk's priority, and its margin is its price minus its cost; under profit protection
  the margin is at least the required one.\<close>

theorem dynamic_routes_sound:
  assumes "r \<in> set (lr_routes (dynamic_response env c m now i q))"
  shows "rt_trunk r \<in> set (get_all_egress_trunks c) \<and> et_active (rt_trunk r) \<and>
    can_accept_call now (et_id (rt_trunk r)) Egress m \<and> rt_priority r = et_priority (rt_trunk r) \<and>
    rt_profit_margin r = rt_selling_per_minute r - rt_cost_per_minute r \<and>
    (\<not> (rq_require_profit_protection q \<or> it_profit_protection i) \<or>
      (case rq_min_profit_margin q of Some x \<Rightarrow> x | None \<Rightarrow> it_min_profit_margin i) \<le> rt_profit_margin r)"
proof -
  from assms obtain e where e: "e \<in> set (get_all_egress_trunks c)"
    "offered_route (trunk_candidate env c m now i q e) = Some r"
    by (auto simp: set_dynamic_routes)
  from trunk_candidate_route [OF e(2)] e(1) show ?thesis
    by (auto simp: proper_route_def below_margin_def not_less)
qed

text \<open>A call for which no client rate is found is not refused: with a vendor rate, and no
  positive margin required, it is routed at the vendor's cost with zero margin.\<close>

theorem unpriced_call_sold_at_cost:
  assumes "vendor_rate_or_toll_free env c (et_id e) code toll_free t = Some (rate, ty)"
    and "\<not> below_margin i q 0"
  shows "\<exists>r. offered_route (nanpa_outcome env c i q None code toll_free t e) = Some r \<and>
    rt_selling_per_minute r = rt_cost_per_minute r \<and> rt_profit_margin r = 0"
  using assms by (simp add: nanpa_outcome_def offered_route_def trunk_supports_nanpa_def split_beta Let_def)

section \<open>Static routes\<close>

lemma static_route_matches_keeps:
  "pats k = Some p \<Longrightarrow> snd (static_route_matches env r dnis pats) k = Some p"
  by (auto simp: static_route_matches_def split: option.split)

lemma check_static_routes_keeps:
  "pats k = Some p \<Longrightarrow> snd (check_static_routes env dnis ingress pos rs pats) k = Some p"
proof (induction rs arbitrary: pats)
  case (Cons r rs)
  from static_route_matches_keeps [where env = env and r = r and dnis = dnis and pats = pats and k = k and p = p] Cons show ?case
    by (cases "static_route_matches env r dnis pats"; cases "fst (static_route_matches env r dnis pats)") auto
qed simp

lemma find_routes_keeps:
  "pats k = Some p \<Longrightarrow> snd (find_routes env c m now q pats) k = Some p"
proof -
  assume p: "pats k = Some p"
  let ?keeps = "\<lambda>pos pats. snd (check_static_routes env (rq_dnis q) (Some (rq_ingress_trunk_id q)) pos (ch_static_routes c) pats)"
  have b: "?keeps Before pats k = Some p" by (rule check_static_routes_keeps) (rule p)
  have a: "?keeps After (?keeps Before pats) k = Some p" by (rule check_static_routes_keeps) (rule b)
  from p b a show ?thesis
    by (auto simp: find_routes_def Let_def split_beta split: option.split)
qed

text \<open>A static route is matched by the pattern that was compiled for its identifier first.
  Once compiled, the pattern stays for every later request, so that a route whose pattern is
  changed in the database and reloaded keeps matching by the old one.\<close>

theorem compiled_pattern_is_kept:
  assumes "pats (sr_id r) = Some p"
  shows "fst (static_route_matches env (r\<lparr>sr_pattern := new_pattern\<rparr>) dnis
      (snd (find_routes env c m now q pats))) = pattern_matches env p dnis"
proof -
  have "snd (find_routes env c m now q pats) (sr_id r) = Some p" by (rule find_routes_keeps) (rule assms)
  then show ?thesis by (simp add: static_route_matches_def)
qed

section \<open>Decks, toll-free numbers and prefixes\<close>

lemma newest_deck_in:
  assumes "newest_deck ds = Some d"
  shows "d \<in> set ds"
  using first_max_SomeD [of rd_deck_version ds d] assms by (simp add: newest_deck_def)

text \<open>When every deck linked to a trunk is out of force but a newer version of one of them
  is in force, NANPA calls are priced by a version in force, while international calls find no
  deck and skip the trunk: only the NANPA search follows the versions of a deck.\<close>

theorem superseded_deck_skips_international:
  assumes "\<forall>l \<in> set (linked_vendor_decks env (et_id e)). \<not> in_force t l"
    and "l \<in> set (linked_vendor_decks env (et_id e))" and "a \<in> set (env_vendor_decks env)"
    and "rd_name a = rd_name l" and "rd_owner_id a = rd_owner_id l" and "in_force t a"
  shows "az_outcome env i q t e = Skipped \<and>
    (\<exists>d \<in> set (env_vendor_decks env). in_force t d \<and>
      get_vendor_rate_for_trunk_at_time env c (et_id e) code t =
        map_option (\<lambda>r. (r, rd_rate_type d)) (vendor_rate_of_deck env c (rd_id d) code))"
proof -
  have "get_vendor_deck_for_trunk env (et_id e) t = None"
    using assms(1) by (simp add: get_vendor_deck_for_trunk_def newest_deck_def filter_empty_conv)
  then have "az_outcome env i q t e = Skipped"
    by (simp add: az_outcome_def split_beta)
  moreover let ?fam = "[a. l \<leftarrow> linked_vendor_decks env (et_id e), a \<leftarrow> env_vendor_decks env,
            rd_name a = rd_name l, rd_owner_id a = rd_owner_id l, in_force t a]"
  have "a \<in> set ?fam" using assms(2-6) by auto
  then obtain d where d: "newest_deck ?fam = Some d"
    by (cases "newest_deck ?fam") (auto simp: newest_deck_def)
  from newest_deck_in [OF d] have "d \<in> set (env_vendor_decks env) \<and> in_force t d" by auto
  ultimately show ?thesis
    using d by (auto simp: get_vendor_rate_for_trunk_at_time_def)
qed

lemma toll_free_indeterminate: "is_toll_free_number dnis \<Longrightarrow> is_indeterminate_number dnis"
proof -
  assume tf: "is_toll_free_number dnis"
  obtain n where n: "take 4 (normalize_nanpa_number dnis) = CHR ''1'' # n" "n \<in> toll_free_npas"
    "4 \<le> length (normalize_nanpa_number dnis)"
  proof (cases "length (only_digits dnis) = 10")
    case True
    then have "normalize_nanpa_number dnis = CHR ''1'' # only_digits dnis"
      by (auto simp: normalize_nanpa_number_def Let_def)
    with tf True that [of "take 3 (only_digits dnis)"] show thesis
      by (simp add: is_toll_free_number_def Let_def)
  next
    case False
    with tf have *: "length (only_digits dnis) = 11" "starts_with (only_digits dnis) ''1''"
      "take 3 (drop 1 (only_digits dnis)) \<in> toll_free_npas"
      by (auto simp: is_toll_free_number_def Let_def split: if_splits)
    then have "normalize_nanpa_number dnis = only_digits dnis" by (simp add: normalize_nanpa_number_def)
    moreover obtain r where "only_digits dnis = CHR ''1'' # r" using *(2) by (auto simp: starts_with_iff)
    ultimately show thesis using * that by simp
  qed
  then show ?thesis
    by (auto simp: is_indeterminate_number_def Let_def toll_free_npas_def indeterminate_npas_def)
qed

text \<open>A toll-free call between different, non-local places is rated as indeterminate on a
  trunk with an LRN deck and as interstate on a trunk with a DNIS deck.\<close>

theorem toll_free_jurisdiction_depends_on_deck:
  assumes "is_toll_free_number dnis" and "get_lrn_cached c dnis = None"
    and "nanpa_info_of c ani = Some a" and "nanpa_info_of c dnis = Some d" and "ns_state a \<noteq> ns_state d"
    and "\<not> determine_local_jurisdiction (Some a) (Some d)"
  shows "get_jurisdiction_with_lrn_dip c None ani dnis True = (J_Indeterminate, None) \<and>
    dnis_jurisdiction c ani dnis = J_Interstate"
  using assms toll_free_indeterminate [OF assms(1)]
  by (simp add: get_jurisdiction_with_lrn_dip_def rated_jurisdiction_def determine_jurisdiction_enhanced_def
      dnis_jurisdiction_def determine_jurisdiction_def)

text \<open>An international rate is that of the longest code of the deck that is a prefix of the
  number after its access prefix, and there is none exactly if no code is.\<close>

theorem international_rate_longest_prefix:
  "case load_international_rate_row table d dnis of
     Some r \<Rightarrow> r \<in> set (table d) \<and> starts_with (normalize_international_number dnis) (international_code r) \<and>
       (\<forall>s \<in> set (table d). \<not> starts_with (normalize_international_number dnis) (international_code s) \<or>
          length (international_code s) \<le> length (international_code r))
   | None \<Rightarrow> (\<forall>s \<in> set (table d). \<not> starts_with (normalize_international_number dnis) (international_code s))"
proof (cases "load_international_rate_row table d dnis")
  case None
  then show ?thesis by (simp add: load_international_rate_row_def Let_def filter_empty_conv)
next
  case (Some r)
  then have "first_max (\<lambda>r. length (international_code r))
      (filter (\<lambda>r. starts_with (normalize_international_number dnis) (international_code r)) (table d)) = Some r"
    by (simp add: load_international_rate_row_def Let_def)
  from first_max_SomeD [OF this] Some show ?thesis by auto
qed

section \<open>A concrete engine\<close>

text \<open>Two trunks of equal priority, each linked to a deck of its own; the second is cheaper.\<close>

definition demo_deck :: "int \<Rightarrow> int \<Rightarrow> int option \<Rightarrow> rate_deck" where
  "demo_deck d version ends = \<lparr>rd_id = d, rd_name = ''deck'', rd_owner_id = d mod 10, rd_rate_type = Rate_DNIS,
     rd_effective_date = 0, rd_end_date = ends, rd_deck_version = version, rd_active = True\<rparr>"

definition demo_link :: "int \<Rightarrow> int \<Rightarrow> lcr_route_trunk" where
  "demo_link e d = \<lparr>lt_id = e, lt_lcr_route_id = 1, lt_egress_trunk_id = e, lt_vendor_deck_id = d,
     lt_priority = 1, lt_weight = 1\<rparr>"

definition demo_trunk :: "int \<Rightarrow> egress_trunk" where
  "demo_trunk e = \<lparr>et_id = e, et_name = ''t'', et_vendor_id = e, et_host = ''h'', et_port = 5060,
     et_transport = TP_Udp, et_capacity_limit = 10, et_cps_limit = 10, et_active = True, et_priority = 1,
     et_weight = 1, et_tech_prefix = None, et_supports_international = True\<rparr>"

definition demo_ingress :: ingress_trunk where
  "demo_ingress = \<lparr>it_id = 9, it_name = ''in'', it_client_id = 1, it_ip_address = ''10.0.0.9'',
     it_capacity_limit = 10, it_cps_limit = 10, it_profit_protection = False, it_min_profit_margin = 0,
     it_active = True, it_auth_username = None, it_auth_password = None, it_supports_international = True\<rparr>"

definition demo_env :: "rate_deck list \<Rightarrow> lcr_route_trunk list \<Rightarrow> lcr_env" where
  "demo_env decks links = \<lparr>env_client_decks = [], env_vendor_decks = decks, env_route_trunks = links,
     env_associations = [], env_client_nanpa = (\<lambda>d p. None), env_vendor_nanpa = (\<lambda>d p. None),
     env_client_international = (\<lambda>d. []), env_vendor_international = (\<lambda>d. []), env_plans = [],
     env_preferences = [], env_regex = (\<lambda>p. Some (\<lambda>s. p = s)), env_dip = None\<rparr>"

definition two_decks :: lcr_env where
  "two_decks = demo_env [demo_deck 1 1 None, demo_deck 2 1 None] [demo_link 1 1, demo_link 2 2]"

definition demo_cache :: lcr_cache where
  "demo_cache = new_lcr_cache\<lparr>ch_vendor_nanpa_rates := [1 \<mapsto> [sample_rate 1 ''1702'' 2], 2 \<mapsto> [sample_rate 2 ''1702'' 1]],
     ch_egress_trunks := [(1, demo_trunk 1), (2, demo_trunk 2)], ch_ingress_trunks := [(9, demo_ingress)]\<rparr>"

definition demo_request :: "string \<Rightarrow> route_request" where
  "demo_request dnis = \<lparr>rq_ani = ''12125551234'', rq_dnis = dnis, rq_ingress_trunk_id = 9, rq_client_deck_id = None,
     rq_route_type = Route_NANPA, rq_require_profit_protection = False, rq_min_profit_margin = None,
     rq_effective_time = None, rq_phone_validation = None, rq_routing_plan_id = None\<rparr>"

definition demo_routes :: "call_route list" where
  "demo_routes = lr_routes (dynamic_response two_decks demo_cache new_trunk_manager 5 demo_ingress (demo_request ''17025551234''))"

lemma demo_routes:
  "map (\<lambda>r. (et_id (rt_trunk r), rt_cost_per_minute r, rt_selling_per_minute r)) demo_routes = [(2, 1, 1), (1, 2, 2)]"
  by code_simp

lemma demo_offered:
  "\<exists>r s. demo_routes = [r, s] \<and> et_id (rt_trunk r) = 2 \<and> rt_cost_per_minute r = 1 \<and> rt_selling_per_minute r = 1 \<and>
     et_id (rt_trunk s) = 1 \<and> rt_cost_per_minute s = 2 \<and> rt_selling_per_minute s = 2"
  using demo_routes by (auto simp: map_eq_Cons_conv)

theorem dynamic_routes_sound_witness:
  "et_active (rt_trunk (hd demo_routes)) \<and>
   rt_profit_margin (hd demo_routes) = rt_selling_per_minute (hd demo_routes) - rt_cost_per_minute (hd demo_routes)"
proof -
  from demo_offered have "hd demo_routes \<in> set demo_routes"
    by (metis list.sel(1) list.set_intros(1))
  from dynamic_routes_sound [OF this [unfolded demo_routes_def]] show ?thesis
    by (simp add: demo_routes_def)
qed

lemma demo_vendor_rate:
  "vendor_rate_or_toll_free two_decks demo_cache 2 ''17025551234'' False 5 = Some (sample_rate 2 ''1702'' 1, Rate_DNIS)"
  by code_simp

theorem unpriced_call_sold_at_cost_witness:
  "\<exists>r. offered_route (nanpa_outcome two_decks demo_cache demo_ingress (demo_request ''17025551234'') None
      ''17025551234'' False 5 (demo_trunk 2)) = Some r \<and> rt_profit_margin r = 0"
proof -
  have "\<not> below_margin demo_ingress (demo_request ''17025551234'') 0" "et_id (demo_trunk 2) = 2"
    by (simp_all add: below_margin_def demo_request_def demo_ingress_def demo_trunk_def)
  with unpriced_call_sold_at_cost [of two_decks demo_cache "demo_trunk 2" "''17025551234''" False 5
      "sample_rate 2 ''1702'' 1" Rate_DNIS demo_ingress "demo_request ''17025551234''"] demo_vendor_rate
  show ?thesis by auto
qed

theorem compiled_pattern_is_kept_witness:
  "fst (static_route_matches two_decks
      \<lparr>sr_id = 3, sr_ingress_trunk_id = None, sr_egress_trunk_id = 1, sr_pattern = ''911'', sr_priority = 1,
       sr_position = Before, sr_description = None, sr_active = True\<rparr> ''911''
      (snd (find_routes two_decks demo_cache new_trunk_manager 5 (demo_request ''411'') [3 \<mapsto> ''411''])))
    = False"
  using compiled_pattern_is_kept [of "[3 \<mapsto> ''411'']"
      "\<lparr>sr_id = 3, sr_ingress_trunk_id = None, sr_egress_trunk_id = 1, sr_pattern = ''411'', sr_priority = 1,
        sr_position = Before, sr_description = None, sr_active = True\<rparr>" "''411''" two_decks "''911''" "''911''"
      demo_cache new_trunk_manager 5 "demo_request ''411''"]
  by (simp add: pattern_matches_def two_decks_def demo_env_def)

definition versioned_decks :: lcr_env where
  "versioned_decks = demo_env [demo_deck 1 1 (Some 3), demo_deck 11 2 None] [demo_link 1 1]"

theorem superseded_deck_skips_international_witness:
  "az_outcome versioned_decks demo_ingress (demo_request ''01144207'') 5 (demo_trunk 1) = Skipped \<and>
   (\<exists>d \<in> set (env_vendor_decks versioned_decks). in_force 5 d)"
proof -
  have l: "linked_vendor_decks versioned_decks (et_id (demo_trunk 1)) = [demo_deck 1 1 (Some 3)]"
    by (simp add: linked_vendor_decks_def versioned_decks_def demo_env_def demo_link_def demo_deck_def demo_trunk_def)
  have "\<not> in_force 5 (demo_deck 1 1 (Some 3))" "in_force 5 (demo_deck 11 2 None)"
    by (simp_all add: in_force_def demo_deck_def)
  moreover have "demo_deck 11 2 None \<in> set (env_vendor_decks versioned_decks)"
    by (simp add: versioned_decks_def demo_env_def)
  ultimately show ?thesis
    using superseded_deck_skips_international [of versioned_decks "demo_trunk 1" 5 "demo_deck 1 1 (Some 3)"
        "demo_deck 11 2 None" demo_ingress "demo_request ''01144207''" demo_cache "''1''"]
    by (auto simp: l) (simp_all add: demo_deck_def)
qed

definition toll_free_cache :: lcr_cache where
  "toll_free_cache = new_lcr_cache\<lparr>ch_nanpa_static := [
     ''212'' \<mapsto> \<lparr>ns_npa = ''212'', ns_nxx = None, ns_state = ''NY'', ns_country = ''US'', ns_lata = None,
        ns_ocn = None, ns_rate_center = None, ns_switch_clli = None\<rparr>,
     ''800'' \<mapsto> \<lparr>ns_npa = ''800'', ns_nxx = None, ns_state = ''TF'', ns_country = ''US'', ns_lata = None,
        ns_ocn = None, ns_rate_center = None, ns_switch_clli = None\<rparr>]\<rparr>"

theorem toll_free_jurisdiction_depends_on_deck_witness:
  "fst (get_jurisdiction_with_lrn_dip toll_free_cache None ''12125551234'' ''18005551234'' True) = J_Indeterminate \<and>
   dnis_jurisdiction toll_free_cache ''12125551234'' ''18005551234'' = J_Interstate"
proof -
  have tf: "is_toll_free_number ''18005551234''"
    by (simp add: is_toll_free_number_def only_digits_def is_digit_def starts_with_def toll_free_npas_def Let_def)
  have n: "extract_npanxx ''12125551234'' = Some ''212555''" "extract_npanxx ''18005551234'' = Some ''800555''"
    by (simp_all add: extract_npanxx_def normalize_nanpa_number_def only_digits_def is_digit_def starts_with_def Let_def)
  show ?thesis
    using toll_free_jurisdiction_depends_on_deck [OF tf, of toll_free_cache "''12125551234''"
      "\<lparr>ns_npa = ''212'', ns_nxx = None, ns_state = ''NY'', ns_country = ''US'', ns_lata = None,
        ns_ocn = None, ns_rate_center = None, ns_switch_clli = None\<rparr>"
      "\<lparr>ns_npa = ''800'', ns_nxx = None, ns_state = ''TF'', ns_country = ''US'', ns_lata = None,
        ns_ocn = None, ns_rate_center = None, ns_switch_clli = None\<rparr>"]
    by (simp add: n nanpa_info_of_def get_nanpa_info_def toll_free_cache_def new_lcr_cache_def get_lrn_cached_def
      determine_local_jurisdiction_def same_rate_center_def same_lata_def is_local_by_metro_area_def)
qed

end
