(* ===== verification/Rtp.thy ===== *)
theory Rtp
  imports Redfire_Prelude
begin

text \<open>
  RTP packets (\<open>src/rtp.rs\<close>): the packet and its extension header, the parser, the
  serializer, and the receive statistics. The parser reads the buffer through a cursor; a read
  past its end is the I/O error. The \<open>u16\<close> product that gives the length of the extension
  and the \<open>u8\<close> difference that counts the padding wrap around, as in a release build.
  Floating-point figures (jitter, round trip time, loss rate) are not modelled.
\<close>

section \<open>Packets\<close>

record rtp_extension =
  rx_profile :: u16
  rx_length :: u16
  rx_data :: "byte list"

record rtp_packet =
  rp_version :: u8
  rp_padding :: bool
  rp_extension :: bool
  rp_csrc_count :: u8
  rp_marker :: bool
  rp_payload_type :: u8
  rp_sequence_number :: u16
  rp_timestamp :: u32
  rp_ssrc :: u32
  rp_csrc :: "u32 list"
  rp_extension_header :: "rtp_extension option"
  rp_payload :: "byte list"
  rp_padding_bytes :: u8

definition new_rtp_packet :: "u8 \<Rightarrow> u16 \<Rightarrow> u32 \<Rightarrow> u32 \<Rightarrow> byte list \<Rightarrow> rtp_packet" where
  "new_rtp_packet pt seq ts ssrc payload =
     \<lparr>rp_version = 2, rp_padding = False, rp_extension = False, rp_csrc_count = 0, rp_marker = False,
      rp_payload_type = pt, rp_sequence_number = seq, rp_timestamp = ts, rp_ssrc = ssrc, rp_csrc = [],
      rp_extension_header = None, rp_payload = payload, rp_padding_bytes = 0\<rparr>"

datatype rtp_error = RtpTooShort nat | RtpInvalidVersion u8 | RtpIoError

section \<open>Parsing\<close>

text \<open>The readers of the cursor: the value and what remains.\<close>

fun read_u16 :: "byte list \<Rightarrow> rtp_error + u16 \<times> byte list" where
  "read_u16 (a # b # rest) = Inr (of_be16 a b, rest)"
| "read_u16 _ = Inl RtpIoError"

fun read_u32 :: "byte list \<Rightarrow> rtp_error + u32 \<times> byte list" where
  "read_u32 (a # b # c # d # rest) = Inr (of_be32 a b c d, rest)"
| "read_u32 _ = Inl RtpIoError"

fun read_csrcs :: "nat \<Rightarrow> byte list \<Rightarrow> rtp_error + u32 list \<times> byte list" where
  "read_csrcs 0 bs = Inr ([], bs)"
| "read_csrcs (Suc n) bs =
    (case read_u32 bs of
       Inl e \<Rightarrow> Inl e
     | Inr (c, bs) \<Rightarrow>
         (case read_csrcs n bs of Inl e \<Rightarrow> Inl e | Inr (cs, bs) \<Rightarrow> Inr (c # cs, bs)))"

definition read_extension :: "bool \<Rightarrow> byte list \<Rightarrow> rtp_error + rtp_extension option \<times> byte list" where
  "read_extension extension bs =
    (if extension then
       (case read_u16 bs of
          Inl e \<Rightarrow> Inl e
        | Inr (profile, bs) \<Rightarrow>
            (case read_u16 bs of
               Inl e \<Rightarrow> Inl e
             | Inr (len, bs) \<Rightarrow>
                 let n = unat (len * 4) in
                 if length bs < n then Inl RtpIoError
                 else Inr (Some \<lparr>rx_profile = profile, rx_length = len, rx_data = take n bs\<rparr>, drop n bs)))
     else Inr (None, bs))"

definition strip_padding :: "bool \<Rightarrow> byte list \<Rightarrow> byte list \<times> u8" where
  "strip_padding padding payload =
    (if padding \<and> payload \<noteq> [] then
       let pad_count = payload ! (length payload - 1) in
       if unat pad_count \<le> length payload
       then (take (length payload - unat pad_count) payload, pad_count)
       else (payload, 0)
     else (payload, 0))"

definition parse_rtp :: "byte list \<Rightarrow> rtp_error + rtp_packet" where
  "parse_rtp data =
    (if length data < 12 then Inl (RtpTooShort (length data))
     else
       let b0 = data ! 0; b1 = data ! 1;
           version = drop_bit 6 b0 AND 0x03;
           padding = (drop_bit 5 b0 AND 0x01 \<noteq> 0);
           extension = (drop_bit 4 b0 AND 0x01 \<noteq> 0);
           csrc_count = b0 AND 0x0F
       in if version \<noteq> 2 then Inl (RtpInvalidVersion version)
          else case read_u16 (drop 2 data) of
            Inl e \<Rightarrow> Inl e
          | Inr (seq, bs) \<Rightarrow>
            (case read_u32 bs of
               Inl e \<Rightarrow> Inl e
             | Inr (ts, bs) \<Rightarrow>
               (case read_u32 bs of
                  Inl e \<Rightarrow> Inl e
                | Inr (ssrc, bs) \<Rightarrow>
                  (case read_csrcs (unat csrc_count) bs of
                     Inl e \<Rightarrow> Inl e
                   | Inr (csrc, bs) \<Rightarrow>
                     (case read_extension extension bs of
                        Inl e \<Rightarrow> Inl e
                      | Inr (ext, bs) \<Rightarrow>
                        let (payload, padding_bytes) = strip_padding padding bs in
                        Inr \<lparr>rp_version = version, rp_padding = padding, rp_extension = extension,
                          rp_csrc_count = csrc_count, rp_marker = (drop_bit 7 b1 AND 0x01 \<noteq> 0),
                          rp_payload_type = b1 AND 0x7F, rp_sequence_number = seq,
                          rp_timestamp = ts, rp_ssrc = ssrc, rp_csrc = csrc,
                          rp_extension_header = ext, rp_payload = payload,
                          rp_padding_bytes = padding_bytes\<rparr>)))))"

section \<open>Serializing\<close>

definition flag_byte :: "bool \<Rightarrow> u8" where
  "flag_byte b = (if b then 1 else 0)"

definition serialize_rtp :: "rtp_packet \<Rightarrow> byte list" where
  "serialize_rtp p =
     [push_bit 6 (rp_version p) OR push_bit 5 (flag_byte (rp_padding p)) OR
        push_bit 4 (flag_byte (rp_extension p)) OR (rp_csrc_count p AND 0x0F),
      push_bit 7 (flag_byte (rp_marker p)) OR (rp_payload_type p AND 0x7F)] @
     be16 (rp_sequence_number p) @ be32 (rp_timestamp p) @ be32 (rp_ssrc p) @
     concat (map be32 (rp_csrc p)) @
     (case rp_extension_header p of
        Some x \<Rightarrow> be16 (rx_profile x) @ be16 (rx_length x) @ rx_data x | None \<Rightarrow> []) @
     rp_payload p @
     (if rp_padding p
      then replicate (unat (rp_padding_bytes p - 1)) 0 @ [rp_padding_bytes p] else [])"

definition rtp_header_size :: "rtp_packet \<Rightarrow> nat" where
  "rtp_header_size p = 12 + length (rp_csrc p) * 4 +
     (case rp_extension_header p of Some x \<Rightarrow> 4 + length (rx_data x) | None \<Rightarrow> 0)"

definition rtp_is_valid :: "rtp_packet \<Rightarrow> bool" where
  "rtp_is_valid p \<longleftrightarrow> rp_version p = 2 \<and> rp_csrc_count p = word_of_nat (length (rp_csrc p))"

text \<open>The seconds and nanoseconds since the Unix epoch are arguments.\<close>

definition current_ntp_timestamp :: "u64 \<Rightarrow> u64 \<Rightarrow> u64" where
  "current_ntp_timestamp secs nanos =
    (let ntp_seconds = secs + 2208988800;
         ntp_fraction = push_bit 32 nanos div 1000000000
     in push_bit 32 ntp_seconds OR ntp_fraction)"

section \<open>Statistics\<close>

record rtp_stats =
  rs_packets_sent :: u64
  rs_packets_received :: u64
  rs_bytes_sent :: u64
  rs_bytes_received :: u64
  rs_packets_lost :: u64
  rs_last_sequence_number :: u16
  rs_last_timestamp :: u32

definition new_rtp_stats :: rtp_stats where
  "new_rtp_stats = \<lparr>rs_packets_sent = 0, rs_packets_received = 0, rs_bytes_sent = 0,
     rs_bytes_received = 0, rs_packets_lost = 0, rs_last_sequence_number = 0, rs_last_timestamp = 0\<rparr>"

definition update_sent :: "rtp_packet \<Rightarrow> rtp_stats \<Rightarrow> rtp_stats" where
  "update_sent p s = s\<lparr>rs_packets_sent := rs_packets_sent s + 1,
     rs_bytes_sent := rs_bytes_sent s + word_of_nat (length (rp_payload p))\<rparr>"

definition update_received :: "rtp_packet \<Rightarrow> rtp_stats \<Rightarrow> rtp_stats" where
  "update_received p s =
    (let s = s\<lparr>rs_packets_received := rs_packets_received s + 1,
               rs_bytes_received := rs_bytes_received s + word_of_nat (length (rp_payload p))\<rparr>;
         expected_seq = rs_last_sequence_number s + 1;
         s = (if rp_sequence_number p \<noteq> expected_seq \<and> 1 < rs_packets_received s
              then s\<lparr>rs_packets_lost := rs_packets_lost s + ucast (rp_sequence_number p - expected_seq)\<rparr>
              else s)
     in s\<lparr>rs_last_sequence_number := rp_sequence_number p, rs_last_timestamp := rp_timestamp p\<rparr>)"

section \<open>Round trips\<close>

text \<open>The packets whose fields agree with each other.\<close>

definition rtp_wf :: "rtp_packet \<Rightarrow> bool" where
  "rtp_wf p \<longleftrightarrow> rp_version p = 2 \<and> length (rp_csrc p) < 16 \<and>
     rp_csrc_count p = word_of_nat (length (rp_csrc p)) \<and> rp_payload_type p < 128 \<and>
     (rp_extension p \<longleftrightarrow> rp_extension_header p \<noteq> None) \<and>
     (\<forall>x. rp_extension_header p = Some x \<longrightarrow> length (rx_data x) = unat (rx_length x * 4)) \<and>
     (if rp_padding p then rp_padding_bytes p \<noteq> 0 else rp_padding_bytes p = 0)"

lemma read_u16_be16 [simp]: "read_u16 (be16 w @ bs) = Inr (w, bs)"
  by (simp add: be16_def)

lemma read_u32_be32 [simp]: "read_u32 (be32 w @ bs) = Inr (w, bs)"
  by (simp add: be32_def)

lemma read_csrcs_concat [simp]:
  "read_csrcs (length cs) (concat (map be32 cs) @ bs) = Inr (cs, bs)"
  by (induction cs) simp_all

lemma read_extension_serialized:
  assumes "\<And>x. e = Some x \<Longrightarrow> length (rx_data x) = unat (rx_length x * 4)"
  shows "read_extension (e \<noteq> None)
      ((case e of Some x \<Rightarrow> be16 (rx_profile x) @ be16 (rx_length x) @ rx_data x | None \<Rightarrow> []) @ bs) = Inr (e, bs)"
  using assms by (cases e) (simp_all add: read_extension_def)

lemma strip_padding_serialized:
  assumes "n \<noteq> 0"
  shows "strip_padding True (payload @ replicate (unat (n - 1)) 0 @ [n]) = (payload, n)"
proof -
  have "Suc (unat (n - 1)) = unat n"
    using assms by (simp add: unat_minus_one unat_gt_0)
  then show ?thesis by (simp add: strip_padding_def nth_append flip: \<open>Suc (unat (n - 1)) = unat n\<close>)
qed

definition rtp_first_byte :: "bool \<Rightarrow> bool \<Rightarrow> u8 \<Rightarrow> u8" where
  "rtp_first_byte p x c = push_bit 6 2 OR push_bit 5 (flag_byte p) OR push_bit 4 (flag_byte x) OR (c AND 0x0F)"

lemma rtp_first_byte_bits:
  "bit (rtp_first_byte p x c) 7" "\<not> bit (rtp_first_byte p x c) 6" "bit (rtp_first_byte p x c) 5 = p"
  "bit (rtp_first_byte p x c) 4 = x" "k < 4 \<Longrightarrow> bit (rtp_first_byte p x c) k = bit c k"
proof -
  show "bit (rtp_first_byte p x c) 7" "\<not> bit (rtp_first_byte p x c) 6" "bit (rtp_first_byte p x c) 5 = p"
    "bit (rtp_first_byte p x c) 4 = x"
    by (simp_all add: rtp_first_byte_def flag_byte_def bit_simps)
  assume "k < 4"
  then have "k = 0 \<or> k = 1 \<or> k = 2 \<or> k = 3" by auto
  then show "bit (rtp_first_byte p x c) k = bit c k"
    by (auto simp: rtp_first_byte_def flag_byte_def bit_simps)
qed

lemma rtp_first_byte_fields:
  assumes "c < 16"
  shows "drop_bit 6 (rtp_first_byte p x c) AND 0x03 = 2"
    and "drop_bit 5 (rtp_first_byte p x c) AND 0x01 \<noteq> 0 \<longleftrightarrow> p"
    and "drop_bit 4 (rtp_first_byte p x c) AND 0x01 \<noteq> 0 \<longleftrightarrow> x"
    and "rtp_first_byte p x c AND 0x0F = c"
proof -
  have c: "\<not> bit c 4" "\<not> bit c 5" "\<not> bit c 6" "\<not> bit c 7" using assms(1) by (simp_all add: u8_lt_pow2)
  note b = rtp_first_byte_bits [where p = p and x = x and c = c]
  show "drop_bit 6 (rtp_first_byte p x c) AND 0x03 = 2"
    using b by (intro u8_eqI; simp add: bit_simps)
  show "drop_bit 5 (rtp_first_byte p x c) AND 0x01 \<noteq> 0 \<longleftrightarrow> p"
    "drop_bit 4 (rtp_first_byte p x c) AND 0x01 \<noteq> 0 \<longleftrightarrow> x"
    using b by (simp_all add: bit_simps)
  show "rtp_first_byte p x c AND 0x0F = c"
    using b c by (intro u8_eqI; simp add: bit_simps)
qed

text \<open>C38: a packet with agreeing fields is read back from its serialization, exactly: CSRC
  list, extension, payload and padding included.\<close>

theorem rtp_roundtrip:
  assumes "rtp_wf p"
  shows "parse_rtp (serialize_rtp p) = Inr p"
proof -
  note wf = assms [unfolded rtp_wf_def]
  define extb where "extb = (case rp_extension_header p of
        Some x \<Rightarrow> be16 (rx_profile x) @ be16 (rx_length x) @ rx_data x | None \<Rightarrow> [])"
  define padb where "padb = (if rp_padding p
        then replicate (unat (rp_padding_bytes p - 1)) 0 @ [rp_padding_bytes p] else [])"
  define b1 where "b1 = push_bit 7 (flag_byte (rp_marker p)) OR (rp_payload_type p AND 0x7F)"
  define b0 where "b0 = rtp_first_byte (rp_padding p) (rp_extension p) (rp_csrc_count p)"
  have s: "serialize_rtp p = b0 # b1 # be16 (rp_sequence_number p) @ be32 (rp_timestamp p) @
      be32 (rp_ssrc p) @ concat (map be32 (rp_csrc p)) @ extb @ rp_payload p @ padb"
    using wf by (simp add: serialize_rtp_def b0_def b1_def extb_def padb_def rtp_first_byte_def)
  have cnt: "unat (rp_csrc_count p) = length (rp_csrc p)"
    using wf by (simp add: unsigned_of_nat take_bit_nat_eq_self)
  then have "rp_csrc_count p < 16" using wf by (simp add: word_less_nat_alt)
  note f0 = rtp_first_byte_fields [OF this, of "rp_padding p" "rp_extension p", folded b0_def]
  have nb: "\<not> bit (rp_payload_type p) 7" using wf by (simp add: u8_lt_pow2)
  have f1: "drop_bit 7 b1 AND 0x01 \<noteq> 0 \<longleftrightarrow> rp_marker p"
    unfolding b1_def flag_byte_def by (simp add: bit_simps)
  have f2: "b1 AND 0x7F = rp_payload_type p"
    using nb unfolding b1_def flag_byte_def by (intro u8_eqI; cases "rp_marker p"; simp add: bit_simps)
  have pad: "strip_padding (rp_padding p) (rp_payload p @ padb) = (rp_payload p, rp_padding_bytes p)"
    using wf strip_padding_serialized [of "rp_padding_bytes p" "rp_payload p"]
    by (auto simp: strip_padding_def padb_def)
  have ext: "read_extension (rp_extension p) (extb @ bs) = Inr (rp_extension_header p, bs)" for bs
    using wf read_extension_serialized [of "rp_extension_header p" bs] by (simp add: extb_def)
  have v: "rp_version p = 2" using wf by simp
  show ?thesis
    unfolding s parse_rtp_def Let_def
    by (simp add: f0 f1 f2 cnt ext pad del: and_mask_flag) (simp add: v [symmetric])
qed

theorem rtp_roundtrip_witness:
  "parse_rtp (serialize_rtp (new_rtp_packet 0 1 160 99 [1, 2, 3])) = Inr (new_rtp_packet 0 1 160 99 [1, 2, 3])"
  by (rule rtp_roundtrip) (simp add: rtp_wf_def new_rtp_packet_def)

lemma read_u16_Inr: "read_u16 bs = Inr (w, r) \<Longrightarrow> bs = be16 w @ r"
  by (cases bs rule: read_u16.cases) auto

lemma read_u32_Inr: "read_u32 bs = Inr (w, r) \<Longrightarrow> bs = be32 w @ r"
  by (cases bs rule: read_u32.cases) auto

lemma read_csrcs_Inr: "read_csrcs n bs = Inr (cs, r) \<Longrightarrow> bs = concat (map be32 cs) @ r \<and> length cs = n"
  by (induction n arbitrary: bs cs) (auto split: sum.splits prod.splits dest!: read_u32_Inr)

lemma read_extension_Inr:
  "read_extension x bs = Inr (e, r) \<Longrightarrow>
    bs = (case e of Some x \<Rightarrow> be16 (rx_profile x) @ be16 (rx_length x) @ rx_data x | None \<Rightarrow> []) @ r \<and>
    x = (e \<noteq> None) \<and> (\<forall>y. e = Some y \<longrightarrow> length (rx_data y) = unat (rx_length y * 4))"
  by (auto simp: read_extension_def Let_def dest!: read_u16_Inr split: if_splits sum.splits prod.splits)

lemma rtp_first_byte_canonical:
  "drop_bit 6 b AND 0x03 = (2 :: u8) \<Longrightarrow> rtp_first_byte (bit b 5) (bit b 4) (b AND 0x0F) = b"
  by (auto simp: u8_eq_iff rtp_first_byte_def flag_byte_def bit_simps)

lemma rtp_second_byte_canonical: "push_bit 7 (flag_byte (bit b 7)) OR (b AND 0x7F) = (b :: u8)"
  by (rule u8_eqI; simp add: flag_byte_def bit_simps)

text \<open>a packet without padding that the parser accepts has agreeing fields and serializes
  to the very bytes it was read from.\<close>

theorem rtp_parse_canonical:
  assumes "parse_rtp bs = Inr p" and "\<not> rp_padding p"
  shows "rtp_wf p \<and> serialize_rtp p = bs"
proof -
  let ?b0 = "bs ! 0" and ?b1 = "bs ! 1"
  from assms obtain r1 r2 r3 r4 r5 where *: "12 \<le> length bs" "drop_bit 6 ?b0 AND 0x03 = 2"
      "read_u16 (drop 2 bs) = Inr (rp_sequence_number p, r1)" "read_u32 r1 = Inr (rp_timestamp p, r2)"
      "read_u32 r2 = Inr (rp_ssrc p, r3)" "read_csrcs (unat (?b0 AND 0x0F)) r3 = Inr (rp_csrc p, r4)"
      "read_extension (bit ?b0 4) r4 = Inr (rp_extension_header p, r5)"
    and p: "rp_version p = 2" "rp_padding p = bit ?b0 5" "rp_extension p = bit ?b0 4"
      "rp_csrc_count p = ?b0 AND 0x0F" "rp_marker p = bit ?b1 7" "rp_payload_type p = ?b1 AND 0x7F"
      "rp_payload p = r5" "rp_padding_bytes p = 0"
    by (auto simp: parse_rtp_def Let_def bit_simps strip_padding_def split: if_splits sum.splits prod.splits)
  from read_csrcs_Inr [OF *(6)] have cs: "r3 = concat (map be32 (rp_csrc p)) @ r4"
    "length (rp_csrc p) = unat (?b0 AND 0x0F)" by simp_all
  have "?b0 AND 0x0F < 16" by (simp add: u8_lt_pow2 bit_simps)
  then have lt: "unat (?b0 AND 0x0F) < 16" by (simp add: word_less_nat_alt)
  from read_extension_Inr [OF *(7)] have x: "bit ?b0 4 = (rp_extension_header p \<noteq> None)"
    "\<forall>y. rp_extension_header p = Some y \<longrightarrow> length (rx_data y) = unat (rx_length y * 4)"
    "r4 = (case rp_extension_header p of
       Some x \<Rightarrow> be16 (rx_profile x) @ be16 (rx_length x) @ rx_data x | None \<Rightarrow> []) @ r5" by simp_all
  have d: "drop 2 bs = be16 (rp_sequence_number p) @ be32 (rp_timestamp p) @ be32 (rp_ssrc p) @ r3"
    using read_u16_Inr [OF *(3)] read_u32_Inr [OF *(4)] read_u32_Inr [OF *(5)] by simp
  have bs: "bs = ?b0 # ?b1 # drop 2 bs"
    using *(1) by (cases bs; cases "tl bs") auto
  have "rp_payload_type p < 128" unfolding p(6) by (simp add: u8_lt_pow2 bit_simps)
  then have "rtp_wf p"
    using p assms(2) cs(2) lt x by (simp add: rtp_wf_def)
  moreover have "serialize_rtp p = ?b0 # ?b1 # drop 2 bs"
    unfolding d cs(1) x(3) serialize_rtp_def
    using rtp_first_byte_canonical [OF *(2)] rtp_second_byte_canonical [of ?b1] assms(2) p
    by (simp add: rtp_first_byte_def)
  ultimately show ?thesis using bs by simp
qed

theorem rtp_parse_canonical_witness:
  "serialize_rtp (new_rtp_packet 0 1 160 99 [7]) = [0x80, 0, 0, 1, 0, 0, 0, 160, 0, 0, 0, 99, 7]"
proof -
  have "parse_rtp [0x80, 0, 0, 1, 0, 0, 0, 160, 0, 0, 0, 99, 7] = Inr (new_rtp_packet 0 1 160 99 [7])"
    by code_simp
  from rtp_parse_canonical [OF this] show ?thesis by (simp add: new_rtp_packet_def)
qed

section \<open>Loss accounting\<close>

fun receive_all :: "rtp_packet list \<Rightarrow> rtp_stats \<Rightarrow> rtp_stats" where
  "receive_all [] s = s"
| "receive_all (p # ps) s = receive_all ps (update_received p s)"

text \<open>packets with consecutive sequence numbers, across the wrap of the sequence number,
  are counted as no loss; but two packets that arrive in swapped order are counted as more than
  65000 lost ones, although every packet arrived.\<close>

theorem rtp_loss_accounting:
  assumes "rs_packets_received s \<noteq> 0" and "rs_packets_received s < 0xFFFFFFFFFFFFFF00"
    and "rp_sequence_number a = rs_last_sequence_number s + 1" and "rp_sequence_number b = rs_last_sequence_number s + 2"
    and "rp_sequence_number c = rs_last_sequence_number s + 3"
  shows "rs_packets_lost (receive_all [a, b, c] s) = rs_packets_lost s \<and>
    rs_packets_lost (receive_all [b, a, c] s) = rs_packets_lost s + 65536"
proof -
  let ?n = "rs_last_sequence_number s" and ?r = "rs_packets_received s"
  have r: "1 < ?r + 1" "1 < ?r + 2" "1 < ?r + 3"
    using assms(1,2) by (simp_all add: word_less_nat_alt unat_word_ariths unat_gt_0)
  have g: "?n + 2 - (?n + 1) = 1" "?n + 1 - (?n + 3) = 65534" "?n + 3 - (?n + 2) = 1"
    and ne: "?n + 2 \<noteq> ?n + 1" "?n + 1 \<noteq> ?n + 3" "?n + 3 \<noteq> ?n + 2"
    by simp_all
  show ?thesis
    using r g ne assms(3-5) by (simp add: update_received_def Let_def add.assoc)
qed

theorem rtp_loss_accounting_witness:
  "rs_packets_lost (receive_all [new_rtp_packet 0 9 0 1 [], new_rtp_packet 0 8 0 1 [], new_rtp_packet 0 10 0 1 []]
     (update_received (new_rtp_packet 0 7 0 1 []) new_rtp_stats)) = 65536"
proof -
  let ?s = "update_received (new_rtp_packet 0 7 0 1 []) new_rtp_stats"
  have s: "rs_packets_received ?s = 1" "rs_last_sequence_number ?s = 7" "rs_packets_lost ?s = 0"
    by (simp_all add: update_received_def new_rtp_stats_def new_rtp_packet_def Let_def)
  show ?thesis
    using rtp_loss_accounting [of ?s "new_rtp_packet 0 8 0 1 []" "new_rtp_packet 0 9 0 1 []" "new_rtp_packet 0 10 0 1 []"]
    by (simp add: s) (simp add: new_rtp_packet_def word_less_nat_alt)
qed

text \<open>The serializer writes 256 octets of padding for a packet with the padding flag and no
  padding octets, which is what the parser makes of a packet with the flag and an empty payload.\<close>

lemma serialize_zero_padding:
  assumes "rp_padding p" and "rp_padding_bytes p = 0"
  shows "length (serialize_rtp p) = rtp_header_size p + length (rp_payload p) + 256"
proof -
  have "unat (- 1 :: u8) = 255" by (simp add: unsigned_minus_1_eq_mask mask_eq_exp_minus_1)
  moreover have "length (concat (map be32 cs)) = 4 * length cs" for cs
    by (induction cs) simp_all
  ultimately show ?thesis
    using assms by (simp add: serialize_rtp_def rtp_header_size_def split: option.splits)
qed

end
