(* ===== verification/Rfc2833.thy ===== *)
theory Rfc2833
  imports Complex_Main Redfire_Prelude
begin

text \<open>
  RFC 2833 telephone events (\<open>src/rfc2833_events.rs\<close>): event identifiers, the four-octet
  event payload, the processor that follows the active event of each session and reports digits,
  and the generator of the packets of a digit. Times are in nanoseconds, durations reported with a
  digit in milliseconds. The confidence, an \<open>f32\<close> in the code, is the exact rational;
  the negotiation of SDP attributes is not modelled.
\<close>

section \<open>Events\<close>

datatype payload_type = TelephoneEvent u8 | TonePayload u8

datatype (plugins only: code size) event_id =
  E_Dtmf0 | E_Dtmf1 | E_Dtmf2 | E_Dtmf3 | E_Dtmf4 | E_Dtmf5 | E_Dtmf6 | E_Dtmf7 | E_Dtmf8
| E_Dtmf9 | E_DtmfStar | E_DtmfHash | E_DtmfA | E_DtmfB | E_DtmfC | E_DtmfD | E_Flash
| E_Reserved17 | E_Reserved18 | E_Reserved19 | E_Reserved20 | E_Reserved21 | E_Reserved22
| E_Reserved23 | E_Reserved24 | E_Reserved25 | E_Reserved26 | E_Reserved27 | E_Reserved28
| E_Reserved29 | E_Reserved30 | E_Reserved31 | E_DialTone | E_RingbackTone | E_BusyTone
| E_CongestionTone | E_SpecialInfoTone | E_WarningTone | E_IntrusivenessLevel0
| E_IntrusivenessLevel1 | E_IntrusivenessLevel2 | E_IntrusivenessLevel3 | E_Reserved42
| E_Reserved43 | E_Reserved44 | E_Reserved45 | E_Reserved46 | E_Reserved47 | E_CountryTone48
| E_CountryTone49 | E_CountryTone50 | E_CountryTone51 | E_CountryTone52 | E_CountryTone53
| E_CountryTone54 | E_CountryTone55 | E_CountryTone56 | E_CountryTone57 | E_CountryTone58
| E_CountryTone59 | E_CountryTone60 | E_CountryTone61 | E_CountryTone62 | E_CountryTone63

fun event_code :: "event_id \<Rightarrow> u8" where
  "event_code E_Dtmf0 = 0" | "event_code E_Dtmf1 = 1" | "event_code E_Dtmf2 = 2"
| "event_code E_Dtmf3 = 3" | "event_code E_Dtmf4 = 4" | "event_code E_Dtmf5 = 5"
| "event_code E_Dtmf6 = 6" | "event_code E_Dtmf7 = 7" | "event_code E_Dtmf8 = 8"
| "event_code E_Dtmf9 = 9" | "event_code E_DtmfStar = 10" | "event_code E_DtmfHash = 11"
| "event_code E_DtmfA = 12" | "event_code E_DtmfB = 13" | "event_code E_DtmfC = 14"
| "event_code E_DtmfD = 15" | "event_code E_Flash = 16" | "event_code E_Reserved17 = 17"
| "event_code E_Reserved18 = 18" | "event_code E_Reserved19 = 19"
| "event_code E_Reserved20 = 20" | "event_code E_Reserved21 = 21"
| "event_code E_Reserved22 = 22" | "event_code E_Reserved23 = 23"
| "event_code E_Reserved24 = 24" | "event_code E_Reserved25 = 25"
| "event_code E_Reserved26 = 26" | "event_code E_Reserved27 = 27"
| "event_code E_Reserved28 = 28" | "event_code E_Reserved29 = 29"
| "event_code E_Reserved30 = 30" | "event_code E_Reserved31 = 31"
| "event_code E_DialTone = 32" | "event_code E_RingbackTone = 33"
| "event_code E_BusyTone = 34" | "event_code E_CongestionTone = 35"
| "event_code E_SpecialInfoTone = 36" | "event_code E_WarningTone = 37"
| "event_code E_IntrusivenessLevel0 = 38" | "event_code E_IntrusivenessLevel1 = 39"
| "event_code E_IntrusivenessLevel2 = 40" | "event_code E_IntrusivenessLevel3 = 41"
| "event_code E_Reserved42 = 42" | "event_code E_Reserved43 = 43"
| "event_code E_Reserved44 = 44" | "event_code E_Reserved45 = 45"
| "event_code E_Reserved46 = 46" | "event_code E_Reserved47 = 47"
| "event_code E_CountryTone48 = 48" | "event_code E_CountryTone49 = 49"
| "event_code E_CountryTone50 = 50" | "event_code E_CountryTone51 = 51"
| "event_code E_CountryTone52 = 52" | "event_code E_CountryTone53 = 53"
| "event_code E_CountryTone54 = 54" | "event_code E_CountryTone55 = 55"
| "event_code E_CountryTone56 = 56" | "event_code E_CountryTone57 = 57"
| "event_code E_CountryTone58 = 58" | "event_code E_CountryTone59 = 59"
| "event_code E_CountryTone60 = 60" | "event_code E_CountryTone61 = 61"
| "event_code E_CountryTone62 = 62" | "event_code E_CountryTone63 = 63"

definition from_dtmf_char :: "char \<Rightarrow> event_id option" where
  "from_dtmf_char c =
    (if c = CHR ''0'' then Some E_Dtmf0
     else if c = CHR ''1'' then Some E_Dtmf1
     else if c = CHR ''2'' then Some E_Dtmf2
     else if c = CHR ''3'' then Some E_Dtmf3
     else if c = CHR ''4'' then Some E_Dtmf4
     else if c = CHR ''5'' then Some E_Dtmf5
     else if c = CHR ''6'' then Some E_Dtmf6
     else if c = CHR ''7'' then Some E_Dtmf7
     else if c = CHR ''8'' then Some E_Dtmf8
     else if c = CHR ''9'' then Some E_Dtmf9
     else if c = CHR ''*'' then Some E_DtmfStar
     else if c = CHR ''#'' then Some E_DtmfHash
     else if c = CHR ''A'' \<or> c = CHR ''a'' then Some E_DtmfA
     else if c = CHR ''B'' \<or> c = CHR ''b'' then Some E_DtmfB
     else if c = CHR ''C'' \<or> c = CHR ''c'' then Some E_DtmfC
     else if c = CHR ''D'' \<or> c = CHR ''d'' then Some E_DtmfD
     else None)"

definition to_dtmf_char :: "event_id \<Rightarrow> char option" where
  "to_dtmf_char e =
    (case e of
       E_Dtmf0 \<Rightarrow> Some CHR ''0''
     | E_Dtmf1 \<Rightarrow> Some CHR ''1''
     | E_Dtmf2 \<Rightarrow> Some CHR ''2''
     | E_Dtmf3 \<Rightarrow> Some CHR ''3''
     | E_Dtmf4 \<Rightarrow> Some CHR ''4''
     | E_Dtmf5 \<Rightarrow> Some CHR ''5''
     | E_Dtmf6 \<Rightarrow> Some CHR ''6''
     | E_Dtmf7 \<Rightarrow> Some CHR ''7''
     | E_Dtmf8 \<Rightarrow> Some CHR ''8''
     | E_Dtmf9 \<Rightarrow> Some CHR ''9''
     | E_DtmfStar \<Rightarrow> Some CHR ''*''
     | E_DtmfHash \<Rightarrow> Some CHR ''#''
     | E_DtmfA \<Rightarrow> Some CHR ''A''
     | E_DtmfB \<Rightarrow> Some CHR ''B''
     | E_DtmfC \<Rightarrow> Some CHR ''C''
     | E_DtmfD \<Rightarrow> Some CHR ''D''
     | _ \<Rightarrow> None)"

definition is_dtmf :: "event_id \<Rightarrow> bool" where
  "is_dtmf e \<longleftrightarrow> event_code e \<le> 15"

definition is_telephony :: "event_id \<Rightarrow> bool" where
  "is_telephony e \<longleftrightarrow> 16 \<le> event_code e \<and> event_code e \<le> 31"

definition is_tone :: "event_id \<Rightarrow> bool" where
  "is_tone e \<longleftrightarrow> 32 \<le> event_code e \<and> event_code e \<le> 63"

record rfc2833_event =
  ev_id :: event_id
  ev_end :: bool
  ev_reserved :: bool
  ev_volume :: u8
  ev_duration :: u16

definition new_event :: "event_id \<Rightarrow> u8 \<Rightarrow> u16 \<Rightarrow> rfc2833_event" where
  "new_event e volume duration =
     \<lparr>ev_id = e, ev_end = False, ev_reserved = False, ev_volume = min volume 63, ev_duration = duration\<rparr>"

definition end_event :: "event_id \<Rightarrow> u8 \<Rightarrow> u16 \<Rightarrow> rfc2833_event" where
  "end_event e volume duration =
     \<lparr>ev_id = e, ev_end = True, ev_reserved = False, ev_volume = min volume 63, ev_duration = duration\<rparr>"

definition event_to_bytes :: "rfc2833_event \<Rightarrow> byte list" where
  "event_to_bytes e =
    (let flags_volume = ev_volume e AND 0x3F;
         flags_volume = (if ev_end e then flags_volume OR 0x80 else flags_volume);
         flags_volume = (if ev_reserved e then flags_volume OR 0x40 else flags_volume)
     in [event_code (ev_id e), flags_volume] @ be16 (ev_duration e))"

datatype rfc2833_error = EventTooShort nat | UnknownEventId u8 | InvalidDigit char

definition event_from_code :: "u8 \<Rightarrow> event_id option" where
  "event_from_code v =
    (if v = 0 then Some E_Dtmf0
     else if v = 1 then Some E_Dtmf1
     else if v = 2 then Some E_Dtmf2
     else if v = 3 then Some E_Dtmf3
     else if v = 4 then Some E_Dtmf4
     else if v = 5 then Some E_Dtmf5
     else if v = 6 then Some E_Dtmf6
     else if v = 7 then Some E_Dtmf7
     else if v = 8 then Some E_Dtmf8
     else if v = 9 then Some E_Dtmf9
     else if v = 10 then Some E_DtmfStar
     else if v = 11 then Some E_DtmfHash
     else if v = 12 then Some E_DtmfA
     else if v = 13 then Some E_DtmfB
     else if v = 14 then Some E_DtmfC
     else if v = 15 then Some E_DtmfD
     else if v = 16 then Some E_Flash
     else if v = 32 then Some E_DialTone
     else if v = 33 then Some E_RingbackTone
     else if v = 34 then Some E_BusyTone
     else if v = 35 then Some E_CongestionTone
     else if v = 36 then Some E_SpecialInfoTone
     else if v = 37 then Some E_WarningTone
     else None)"

definition event_from_bytes :: "byte list \<Rightarrow> rfc2833_error + rfc2833_event" where
  "event_from_bytes data =
    (if length data < 4 then Inl (EventTooShort (length data))
     else case event_from_code (data ! 0) of
       None \<Rightarrow> Inl (UnknownEventId (data ! 0))
     | Some e \<Rightarrow>
         Inr \<lparr>ev_id = e, ev_end = (data ! 1 AND 0x80 \<noteq> 0), ev_reserved = (data ! 1 AND 0x40 \<noteq> 0),
              ev_volume = data ! 1 AND 0x3F, ev_duration = of_be16 (data ! 2) (data ! 3)\<rparr>)"

section \<open>The processor\<close>

record active_event =
  ae_event :: rfc2833_event
  ae_start_timestamp :: u32
  ae_last_timestamp :: u32
  ae_start_time :: nat
  ae_packet_count :: u32

record processor =
  pr_payload_types :: "u8 \<rightharpoonup> payload_type"
  pr_active_events :: "(string \<times> active_event) list"
  pr_clock_rate :: u32

definition new_processor :: processor where
  "new_processor = \<lparr>pr_payload_types = [101 \<mapsto> TelephoneEvent 101], pr_active_events = [],
     pr_clock_rate = 8000\<rparr>"

definition add_payload_type :: "u8 \<Rightarrow> payload_type \<Rightarrow> processor \<Rightarrow> processor" where
  "add_payload_type pt ty p = p\<lparr>pr_payload_types := (pr_payload_types p)(pt \<mapsto> ty)\<rparr>"

definition remove_payload_type :: "u8 \<Rightarrow> processor \<Rightarrow> processor" where
  "remove_payload_type pt p = p\<lparr>pr_payload_types := (pr_payload_types p)(pt := None)\<rparr>"

definition volume_to_confidence :: "u8 \<Rightarrow> rat" where
  "volume_to_confidence v = 1 / 2 + (of_nat (unat (63 - min v 63)) / 63) * (1 / 2)"

text \<open>The digit, its duration in milliseconds, the start of the event, the confidence.\<close>

datatype dtmf_event = DigitDetected char nat nat rat

definition duration_millis :: "u16 \<Rightarrow> u32 \<Rightarrow> nat" where
  "duration_millis d clock_rate = unat d * 1000 div unat clock_rate"

definition handle_incoming_event ::
    "nat \<Rightarrow> string \<Rightarrow> u32 \<Rightarrow> rfc2833_event \<Rightarrow> processor \<Rightarrow> dtmf_event list \<times> processor" where
  "handle_incoming_event now session timestamp e p =
    (if ev_end e then
       (case map_of (pr_active_events p) session of
          None \<Rightarrow> ([], p)
        | Some a \<Rightarrow>
            ((case to_dtmf_char (ev_id e) of
                Some d \<Rightarrow> [DigitDetected d (duration_millis (ev_duration e) (pr_clock_rate p))
                             (ae_start_time a) (volume_to_confidence (ev_volume e))]
              | None \<Rightarrow> []),
             p\<lparr>pr_active_events := AList.delete session (pr_active_events p)\<rparr>))
     else
       (case map_of (pr_active_events p) session of
          Some a \<Rightarrow>
            let a = a\<lparr>ae_last_timestamp := timestamp, ae_packet_count := ae_packet_count a + 1,
                      ae_event := (ae_event a)\<lparr>ev_duration := ev_duration e\<rparr>\<rparr>
            in ([], p\<lparr>pr_active_events := AList.update session a (pr_active_events p)\<rparr>)
        | None \<Rightarrow>
            let a = \<lparr>ae_event = e, ae_start_timestamp = timestamp, ae_last_timestamp = timestamp,
                     ae_start_time = now, ae_packet_count = 1\<rparr>
            in ([], p\<lparr>pr_active_events := AList.update session a (pr_active_events p)\<rparr>)))"

definition process_incoming_packet ::
    "nat \<Rightarrow> string \<Rightarrow> u8 \<Rightarrow> u32 \<Rightarrow> byte list \<Rightarrow> processor \<Rightarrow>
     rfc2833_error option \<times> dtmf_event list \<times> processor" where
  "process_incoming_packet now session pt timestamp payload p =
    (if pr_payload_types p pt = None then (None, [], p)
     else case event_from_bytes payload of
       Inl e \<Rightarrow> (Some e, [], p)
     | Inr e \<Rightarrow> let (out, p) = handle_incoming_event now session timestamp e p in (None, out, p))"

definition generate_outgoing_packets ::
    "char \<Rightarrow> u32 \<Rightarrow> u8 \<Rightarrow> u32 \<Rightarrow> processor \<Rightarrow> rfc2833_error + (u32 \<times> byte list) list" where
  "generate_outgoing_packets digit duration_ms volume start_timestamp p =
    (case from_dtmf_char digit of
       None \<Rightarrow> Inl (InvalidDigit digit)
     | Some e \<Rightarrow>
         let duration_samples = unat duration_ms * unat (pr_clock_rate p) div 1000;
             packet_interval = pr_clock_rate p div 50;
             total_packets = word_of_nat (max (duration_samples div unat packet_interval) 1) :: u32;
             packet = (\<lambda>i.
               let timestamp = start_timestamp + i * packet_interval;
                   current_duration = min ((i + 1) * packet_interval) (word_of_nat duration_samples);
                   ev = (if i = total_packets - 1 then end_event e volume (ucast current_duration)
                         else new_event e volume (ucast current_duration))
               in (timestamp, event_to_bytes ev));
             packets = map (\<lambda>i. packet (word_of_nat i)) [0..<unat total_packets];
             copies = (if 0 < total_packets then
               replicate 3 (start_timestamp + word_of_nat duration_samples,
                            event_to_bytes (end_event e volume (word_of_nat duration_samples)))
               else [])
         in Inr (packets @ copies))"

record event_stats =
  es_session_id :: string
  es_event_id :: event_id
  es_start_time :: nat
  es_duration :: nat
  es_packet_count :: u32
  es_volume :: u8

definition get_active_events :: "processor \<Rightarrow> (string \<times> event_stats) list" where
  "get_active_events p =
     map (\<lambda>(i, a). (i, \<lparr>es_session_id = i, es_event_id = ev_id (ae_event a), es_start_time = ae_start_time a,
        es_duration = duration_millis (ev_duration (ae_event a)) (pr_clock_rate p),
        es_packet_count = ae_packet_count a, es_volume = ev_volume (ae_event a)\<rparr>)) (pr_active_events p)"

definition cleanup_stale_events :: "nat \<Rightarrow> nat \<Rightarrow> processor \<Rightarrow> processor" where
  "cleanup_stale_events now max_age p =
     p\<lparr>pr_active_events := fold AList.delete
        (map fst (filter (\<lambda>(_, a). max_age < now - ae_start_time a) (pr_active_events p))) (pr_active_events p)\<rparr>"

section \<open>The codec of events\<close>

lemma event_from_code_SomeD: "event_from_code v = Some e \<Longrightarrow> event_code e = v"
  by (auto simp: event_from_code_def split: if_splits)

definition event_wf :: "rfc2833_event \<Rightarrow> bool" where
  "event_wf e \<longleftrightarrow> event_from_code (event_code (ev_id e)) = Some (ev_id e) \<and> ev_volume e < 64"

lemma event_roundtrip: "event_wf e \<Longrightarrow> event_from_bytes (event_to_bytes e @ rest) = Inr e"
proof -
  assume wf: "event_wf e"
  then have v: "\<not> bit (ev_volume e) 6" "\<not> bit (ev_volume e) 7"
    by (simp_all add: event_wf_def u8_lt_pow2)
  define b where "b = (ev_volume e AND 0x3F) OR (if ev_end e then 0x80 else 0) OR (if ev_reserved e then 0x40 else 0)"
  have "b AND 0x3F = ev_volume e"
    using v unfolding b_def by (intro u8_eqI; simp add: bit_simps)
  moreover have "bit b 7 = ev_end e" "bit b 6 = ev_reserved e"
    using v unfolding b_def by (simp_all add: bit_simps)
  moreover have "event_to_bytes e = [event_code (ev_id e), b] @ be16 (ev_duration e)"
    by (simp add: event_to_bytes_def b_def Let_def or.assoc)
  ultimately show ?thesis
    using wf by (cases e) (simp add: event_from_bytes_def event_wf_def be16_def)
qed

interpretation event_codec: prefix_codec event_to_bytes
  "\<lambda>bs. case event_from_bytes bs of Inl e \<Rightarrow> Inl e | Inr e \<Rightarrow> Inr (e, 4)" event_wf
  by unfold_locales (simp add: event_roundtrip, simp add: event_to_bytes_def Let_def)

section \<open>From the generator to the processor\<close>

text \<open>A session that receives packets one after the other, each with its time stamp.\<close>

fun feed :: "nat \<Rightarrow> string \<Rightarrow> u8 \<Rightarrow> (u32 \<times> byte list) list \<Rightarrow> processor \<Rightarrow> dtmf_event list \<times> processor" where
  "feed now session pt [] p = ([], p)"
| "feed now session pt ((ts, bs) # xs) p =
    (let (_, out, p) = process_incoming_packet now session pt ts bs p; (out', p) = feed now session pt xs p
     in (out @ out', p))"

fun digit_of :: "dtmf_event \<Rightarrow> char" where
  "digit_of (DigitDetected d _ _ _) = d"

definition carries :: "bool \<Rightarrow> event_id \<Rightarrow> u32 \<times> byte list \<Rightarrow> bool" where
  "carries fin e x \<longleftrightarrow> (\<exists>ev. event_from_bytes (snd x) = Inr ev \<and> ev_end ev = fin \<and> ev_id ev = e)"

lemma feed_append: "feed now s pt (xs @ ys) p =
    (fst (feed now s pt xs p) @ fst (feed now s pt ys (snd (feed now s pt xs p))),
     snd (feed now s pt ys (snd (feed now s pt xs p))))"
  by (induction xs arbitrary: p) (auto simp: split_beta Let_def)

lemma process_regular:
  assumes "pr_payload_types p pt \<noteq> None" and "carries False e x"
  shows "fst (snd (process_incoming_packet now s pt (fst x) (snd x) p)) = [] \<and>
    map_of (pr_active_events (snd (snd (process_incoming_packet now s pt (fst x) (snd x) p)))) s \<noteq> None \<and>
    pr_payload_types (snd (snd (process_incoming_packet now s pt (fst x) (snd x) p))) = pr_payload_types p"
  using assms by (auto simp: process_incoming_packet_def carries_def handle_incoming_event_def Let_def
      split: option.splits)

lemma feed_regular:
  "pr_payload_types p pt \<noteq> None \<Longrightarrow> list_all (carries False e) xs \<Longrightarrow>
    fst (feed now s pt xs p) = [] \<and> pr_payload_types (snd (feed now s pt xs p)) = pr_payload_types p \<and>
    (xs \<noteq> [] \<longrightarrow> map_of (pr_active_events (snd (feed now s pt xs p))) s \<noteq> None) \<and>
    (xs = [] \<longrightarrow> snd (feed now s pt xs p) = p)"
proof (induction xs arbitrary: p)
  case (Cons x xs)
  obtain ts bs where x: "x = (ts, bs)" by (cases x)
  let ?p = "snd (snd (process_incoming_packet now s pt ts bs p))"
  have one: "fst (snd (process_incoming_packet now s pt ts bs p)) = []" "map_of (pr_active_events ?p) s \<noteq> None"
    "pr_payload_types ?p = pr_payload_types p"
    using process_regular [OF Cons.prems(1), of e x now s] Cons.prems(2) x by auto
  from Cons.IH [of ?p] one Cons.prems show ?case
    by (cases "xs = []") (auto simp: x split_beta Let_def simp del: not_None_eq)
qed simp

lemma process_end:
  assumes "pr_payload_types p pt \<noteq> None" and "carries True e x" and "to_dtmf_char e = Some d"
  shows "map digit_of (fst (snd (process_incoming_packet now s pt (fst x) (snd x) p))) =
      (if map_of (pr_active_events p) s = None then [] else [d]) \<and>
    map_of (pr_active_events (snd (snd (process_incoming_packet now s pt (fst x) (snd x) p)))) s = None \<and>
    pr_payload_types (snd (snd (process_incoming_packet now s pt (fst x) (snd x) p))) = pr_payload_types p"
  using assms by (auto simp: process_incoming_packet_def carries_def handle_incoming_event_def Let_def
      split: option.splits)

lemma feed_ends:
  "pr_payload_types p pt \<noteq> None \<Longrightarrow> list_all (carries True e) xs \<Longrightarrow> to_dtmf_char e = Some d \<Longrightarrow>
    map digit_of (fst (feed now s pt xs p)) =
      (if xs = [] \<or> map_of (pr_active_events p) s = None then [] else [d])"
proof (induction xs arbitrary: p)
  case (Cons x xs)
  obtain ts bs where x: "x = (ts, bs)" by (cases x)
  let ?p = "snd (snd (process_incoming_packet now s pt ts bs p))"
  have one: "map digit_of (fst (snd (process_incoming_packet now s pt ts bs p))) =
      (if map_of (pr_active_events p) s = None then [] else [d])"
    "map_of (pr_active_events ?p) s = None" "pr_payload_types ?p = pr_payload_types p"
    using process_end [OF Cons.prems(1), of e x d now s] Cons.prems(2,3) x by auto
  from Cons.IH [of ?p] one Cons.prems show ?case
    by (auto simp: x split_beta Let_def)
qed simp

lemma dtmf_event_code: "from_dtmf_char c = Some e \<Longrightarrow> event_from_code (event_code e) = Some e"
  by (auto simp: from_dtmf_char_def event_from_code_def split: if_splits)

lemma dtmf_has_char: "from_dtmf_char c = Some e \<Longrightarrow> \<exists>d. to_dtmf_char e = Some d"
  by (auto simp: from_dtmf_char_def to_dtmf_char_def split: if_splits)

lemma min_63: "min v 63 < (64 :: u8)"
  by (simp add: min_def word_less_nat_alt word_le_nat_alt)

lemma carries_event:
  assumes "from_dtmf_char c = Some e"
  shows "carries False e (ts, event_to_bytes (new_event e v d))" "carries True e (ts, event_to_bytes (end_event e v d))"
proof -
  have "event_wf (new_event e v d)" "event_wf (end_event e v d)"
    using dtmf_event_code [OF assms] min_63 by (simp_all add: event_wf_def new_event_def end_event_def)
  then have "event_from_bytes (event_to_bytes (new_event e v d)) = Inr (new_event e v d)"
    "event_from_bytes (event_to_bytes (end_event e v d)) = Inr (end_event e v d)"
    using event_roundtrip [of _ "[]"] by auto
  then show "carries False e (ts, event_to_bytes (new_event e v d))"
    "carries True e (ts, event_to_bytes (end_event e v d))"
    by (auto simp: carries_def new_event_def end_event_def)
qed

text \<open>The packets of a digit: all but the last carry a running event, the last one and the
  three copies carry its end.\<close>

lemma packet_count_bound:
  fixes duration_ms :: u32
  shows "max (unat duration_ms * 8 div 160) 1 < 2 ^ 32"
  using unsigned_less [of duration_ms, where 'a = nat] by simp

lemma generated_packets:
  fixes duration_ms :: u32
  assumes e: "from_dtmf_char digit = Some e" and rate: "pr_clock_rate p = 8000"
    and n: "n = max (unat duration_ms * 8 div 160) 1"
  shows "\<exists>xs ys. generate_outgoing_packets digit duration_ms v start p = Inr (xs @ ys) \<and>
    list_all (carries False e) xs \<and> length xs = n - 1 \<and> list_all (carries True e) ys \<and> ys \<noteq> []"
proof -
  obtain f where f: "f = (\<lambda>i :: u32. (start + i * 160,
      event_to_bytes (if i = word_of_nat n - 1
        then end_event e v (ucast (min ((i + 1) * 160) (word_of_nat (unat duration_ms * 8))))
        else new_event e v (ucast (min ((i + 1) * 160) (word_of_nat (unat duration_ms * 8)))))))" by blast
  obtain c where c: "c = (start + word_of_nat (unat duration_ms * 8),
      event_to_bytes (end_event e v (word_of_nat (unat duration_ms * 8))))" by blast
  have n1: "1 \<le> n" "n < 2 ^ 32" using packet_count_bound [of duration_ms] n by simp_all
  have un: "unat (word_of_nat n :: u32) = n"
    using n1 by (simp add: unsigned_of_nat take_bit_nat_eq_self)
  then have pos: "0 < (word_of_nat n :: u32)" using n1 by (simp add: word_less_nat_alt)
  have ix: "(word_of_nat i :: u32) = word_of_nat n - 1 \<longleftrightarrow> i = n - 1" if "i < n" for i
  proof -
    have "(word_of_nat n - 1 :: u32) = word_of_nat (n - 1)" using n1 by (simp add: of_nat_diff)
    moreover have "unat (word_of_nat i :: u32) = i"
      using that n1 by (simp add: unsigned_of_nat take_bit_nat_eq_self)
    moreover have "n - 1 < 2 ^ 32" using n1 by simp
    then have "unat (word_of_nat (n - 1) :: u32) = n - 1"
      by (simp only: unsigned_of_nat take_bit_nat_eq_self len_of_numeral_defs) (simp add: take_bit_nat_eq_self)
    ultimately show ?thesis by metis
  qed
  have gen: "generate_outgoing_packets digit duration_ms v start p =
      Inr (map (\<lambda>i. f (word_of_nat i)) [0..<n] @ replicate 3 c)"
    using pos un e rate
    by (simp add: generate_outgoing_packets_def Let_def f c n if_distrib [of event_to_bytes] split: if_split)
      (simp add: mult.commute)
  have split: "[0..<n] = [0..<n - 1] @ [n - 1]" using n1 by (metis Suc_diff_le diff_Suc_1 le_add1 plus_1_eq_Suc upt_Suc_append zero_le Suc_pred less_le_trans zero_less_one)
  have run: "list_all (carries False e) (map (\<lambda>i. f (word_of_nat i)) [0..<n - 1])"
    using ix carries_event(1) [OF e] by (auto simp: list_all_iff f)
  have fin: "list_all (carries True e) (f (word_of_nat (n - 1)) # replicate 3 c)"
    using ix [of "n - 1"] n1 carries_event(2) [OF e] by (auto simp: list_all_iff f c)
  show ?thesis
    using gen run fin unfolding split by (intro exI [of _ "map (\<lambda>i. f (word_of_nat i)) [0..<n - 1]"]
      exI [of _ "f (word_of_nat (n - 1)) # replicate 3 c"]) simp
qed

definition reported :: "char \<Rightarrow> char list" where
  "reported c = (case from_dtmf_char c of None \<Rightarrow> []
     | Some e \<Rightarrow> (case to_dtmf_char e of None \<Rightarrow> [] | Some d \<Rightarrow> [d]))"

text \<open>C40: Feeding the generated packets of a digit, in order, to a processor at 8 kHz that knows the
  payload type: the session reports the digit once. The exception is a digit of less than 40
  milliseconds on a session with no active event: its packets are all end packets and
  nothing is reported at all.\<close>

theorem generated_digit_reported:
  assumes "from_dtmf_char digit \<noteq> None" and "pr_clock_rate g = 8000"
    and "pr_payload_types p pt \<noteq> None"
  shows "\<exists>packets. generate_outgoing_packets digit duration_ms v start g = Inr packets \<and>
    map digit_of (fst (feed now s pt packets p)) =
      (if map_of (pr_active_events p) s = None \<and> unat duration_ms < 40 then [] else reported digit)"
proof -
  obtain e where e: "from_dtmf_char digit = Some e" using assms(1) by auto
  obtain d where d: "to_dtmf_char e = Some d" using dtmf_has_char [OF e] by auto
  obtain xs ys where g: "generate_outgoing_packets digit duration_ms v start g = Inr (xs @ ys)"
    and xs: "list_all (carries False e) xs" "length xs = max (unat duration_ms * 8 div 160) 1 - 1"
    and ys: "list_all (carries True e) ys" "ys \<noteq> []"
    using generated_packets [OF e assms(2) refl] by blast
  have short: "xs = [] \<longleftrightarrow> unat duration_ms < 40"
    using arg_cong [OF xs(2), of "\<lambda>n. n = 0"] by (auto simp: max_def split: if_splits)
  note r = feed_regular [OF assms(3) xs(1), of now s]
  have "pr_payload_types (snd (feed now s pt xs p)) pt \<noteq> None" using r assms(3) by metis
  note n = feed_ends [OF this ys(1) d, of now s]
  have "map digit_of (fst (feed now s pt (xs @ ys) p)) =
      (if map_of (pr_active_events p) s = None \<and> unat duration_ms < 40 then [] else reported digit)"
  proof (cases "xs = []")
    case True
    then show ?thesis using r n ys(2) short e d by (simp add: feed_append reported_def)
  next
    case False
    then have "map_of (pr_active_events (snd (feed now s pt xs p))) s \<noteq> None" using r by blast
    then show ?thesis using r n ys(2) short e d False by (simp add: feed_append reported_def)
  qed
  with g show ?thesis by blast
qed

lemma generated_digit_reported_witness:
  "\<exists>packets. generate_outgoing_packets CHR ''5'' 100 10 0 new_processor = Inr packets \<and>
    map digit_of (fst (feed 0 ''a'' 101 packets new_processor)) = ''5''"
  using generated_digit_reported [of "CHR ''5''" new_processor new_processor 101 100 10 0 0 "''a''"]
  by (simp add: from_dtmf_char_def new_processor_def reported_def to_dtmf_char_def)

lemma u8_between_iff:
  assumes "j < 256"
  shows "word_of_nat i \<le> (v :: u8) \<and> v \<le> word_of_nat j \<longleftrightarrow> v \<in> word_of_nat ` set [i mod 256..<Suc j]"
proof -
  have v: "unat v < 256" using unsigned_less [of v, where ?'a = nat] by simp
  have "word_of_nat i \<le> v \<and> v \<le> word_of_nat j \<longleftrightarrow> i mod 256 \<le> unat v \<and> unat v \<le> j"
    using assms by (simp add: word_le_nat_alt unsigned_of_nat take_bit_eq_mod)
  also have "\<dots> \<longleftrightarrow> unat v \<in> set [i mod 256..<Suc j]" by auto
  also have "\<dots> \<longleftrightarrow> v \<in> word_of_nat ` set [i mod 256..<Suc j]"
  proof
    assume "unat v \<in> set [i mod 256..<Suc j]"
    then have "word_of_nat (unat v) \<in> (word_of_nat :: nat \<Rightarrow> u8) ` set [i mod 256..<Suc j]" by (rule imageI)
    then show "v \<in> word_of_nat ` set [i mod 256..<Suc j]" by simp
  next
    assume "v \<in> word_of_nat ` set [i mod 256..<Suc j]"
    then show "unat v \<in> set [i mod 256..<Suc j]"
      using assms by (auto simp: unsigned_of_nat take_bit_eq_mod)
  qed
  finally show ?thesis .
qed

lemma event_from_code_iff: "event_from_code v \<noteq> None \<longleftrightarrow> v \<le> 16 \<or> 32 \<le> v \<and> v \<le> 37"
proof -
  have "v \<le> 16 \<longleftrightarrow> v \<in> word_of_nat ` set [0..<17]" "32 \<le> v \<and> v \<le> 37 \<longleftrightarrow> v \<in> word_of_nat ` set [32..<38]"
    using u8_between_iff [of 16 0 v] u8_between_iff [of 37 32 v] by simp_all
  then show ?thesis by (simp add: event_from_code_def upt_rec)
qed

lemma flags_back: "(b AND 0x3F AND 0x3F) OR (if b AND 0x80 \<noteq> 0 then 0x80 else 0) OR
    (if b AND 0x40 \<noteq> 0 then 0x40 else 0) = (b :: u8)"
proof -
  have "(b AND 0x80 \<noteq> 0) = bit b 7" "(b AND 0x40 \<noteq> 0) = bit b 6"
    using bit_iff_and_push_bit_not_eq_0 [of b 7] bit_iff_and_push_bit_not_eq_0 [of b 6] by simp_all
  then show ?thesis by (simp split: if_split) (intro conjI impI u8_eqI; simp add: bit_simps)
qed

text \<open>The event decoder accepts exactly the payloads of at least four octets whose first
  octet is at most 16 or in 32..37; what it accepts is well formed and encodes to the first four
  octets of the payload again. The other identifiers of the enumeration, 17 to 31 and 38 to 63,
  can be sent but not received.\<close>

theorem event_decoder_exact:
  "case event_from_bytes bs of
     Inl _ \<Rightarrow> \<not> (4 \<le> length bs \<and> (bs ! 0 \<le> 16 \<or> 32 \<le> bs ! 0 \<and> bs ! 0 \<le> 37))
   | Inr e \<Rightarrow> (4 \<le> length bs \<and> (bs ! 0 \<le> 16 \<or> 32 \<le> bs ! 0 \<and> bs ! 0 \<le> 37)) \<and>
       event_wf e \<and> event_to_bytes e = take 4 bs"
proof (cases "4 \<le> length bs")
  case True
  then obtain b0 b1 b2 b3 r where bs: "bs = b0 # b1 # b2 # b3 # r"
    by (auto simp: numeral_eq_Suc Suc_le_length_iff)
  show ?thesis
  proof (cases "event_from_code b0")
    case None
    then show ?thesis using event_from_code_iff [of b0] by (simp add: bs event_from_bytes_def)
  next
    case (Some e)
    have "b1 AND 0x3F < 64" by (simp add: u8_lt_pow2 bit_simps)
    then show ?thesis
      using Some event_from_code_iff [of b0] event_from_code_SomeD [OF Some] flags_back [of b1]
      by (simp add: bs event_from_bytes_def event_wf_def event_to_bytes_def Let_def or.assoc split: if_splits)
  qed
qed (simp add: event_from_bytes_def)

end
