(* ===== verification/Billing.thy ===== *)
theory Billing
  imports LcrCache
begin

text \<open>
  Billing (\<open>src/billing.rs\<close>): authorization of a call against the account of its
  customer, the cache of accounts, the statistics, and the rating engine. The database is an
  argument, the rows its query returns; amounts (\<open>f64\<close>, \<open>Decimal\<close>) are
  rationals, so rounding is not modelled; the time of a call is an argument, in nanoseconds. An
  operation that never returns is \<open>None\<close>.
\<close>

section \<open>Accounts\<close>

datatype account_status =
    Acc_Active
  | Acc_LowBalance
  | Acc_Suspended
  | Acc_Closed
  | Acc_UnderReview
  | Acc_GracePeriod

datatype account_type = Acc_Postpaid | Acc_Prepaid | Acc_Test | Acc_Internal

record billing_profile =
  bp_billing_cycle :: string
  bp_auto_pay :: bool
  bp_payment_method :: "string option"
  bp_tax_rate :: rat
  bp_discount_rate :: rat
  bp_minimum_balance :: rat
  bp_max_call_value :: "rat option"

definition default_billing_profile :: billing_profile where
  "default_billing_profile = \<lparr>bp_billing_cycle = ''monthly'', bp_auto_pay = False, bp_payment_method = None,
     bp_tax_rate = 0, bp_discount_rate = 0, bp_minimum_balance = 0, bp_max_call_value = Some 100\<rparr>"

record customer_account =
  ca_customer_id :: string
  ca_account_type :: account_type
  ca_status :: account_status
  ca_balance :: rat
  ca_credit_limit :: "rat option"
  ca_low_balance_threshold :: rat
  ca_currency :: string
  ca_created_at :: int
  ca_last_payment_date :: "int option"
  ca_suspended_at :: "int option"
  ca_grace_period_end :: "int option"
  ca_billing_profile :: billing_profile
  ca_metadata :: "string \<rightharpoonup> string"

text \<open>The columns of a row of \<open>customer_accounts\<close>.\<close>

record account_row =
  row_customer_id :: string
  row_account_type :: string
  row_status :: string
  row_balance :: "rat option"
  row_credit_limit :: "rat option"
  row_low_balance_threshold :: "rat option"
  row_currency :: "string option"
  row_created_at :: "int option"
  row_last_payment_date :: "int option"
  row_suspended_at :: "int option"
  row_grace_period_end :: "int option"

section \<open>The service\<close>

record suspension_config =
  sc_grace_period :: u64
  sc_allow_emergency_calls :: bool
  sc_emergency_numbers :: "string list"

record payment_required_config =
  pc_enabled :: bool
  pc_custom_headers :: "string \<rightharpoonup> string"
  pc_payment_url :: "string option"
  pc_reason_phrase :: string
  pc_include_balance :: bool
  pc_include_payment_instructions :: bool

record billing_config =
  bc_enabled :: bool
  bc_realtime_checks :: bool
  bc_enforce_credit_limits :: bool
  bc_prepaid_support :: bool
  bc_cache_duration :: u64
  bc_payment_required :: payment_required_config
  bc_suspension :: suspension_config

definition default_suspension_config :: suspension_config where
  "default_suspension_config = \<lparr>sc_grace_period = 86400, sc_allow_emergency_calls = True,
     sc_emergency_numbers = [''911'', ''933'', ''+1911'']\<rparr>"

definition default_payment_required_config :: payment_required_config where
  "default_payment_required_config = \<lparr>pc_enabled = True,
     pc_custom_headers = [''P-Billing-Info'' \<mapsto> ''Payment Required'', ''Retry-After'' \<mapsto> ''3600''],
     pc_payment_url = Some ''https://billing.carrierone.com/payment'',
     pc_reason_phrase = ''Payment Required - Account Suspended'', pc_include_balance = True,
     pc_include_payment_instructions = True\<rparr>"

definition default_billing_config :: billing_config where
  "default_billing_config = \<lparr>bc_enabled = True, bc_realtime_checks = True, bc_enforce_credit_limits = True,
     bc_prepaid_support = True, bc_cache_duration = 300,
     bc_payment_required = default_payment_required_config, bc_suspension = default_suspension_config\<rparr>"

text \<open>The texts of the results carry formatted amounts; here they are constructors with the
  amounts.\<close>

datatype billing_reason =
    PrepaidBalance rat rat
  | BelowMinimumBalance rat
  | LimitExceeded rat rat
  | Reason string

datatype billing_check_result =
    Approved
  | InsufficientFunds billing_reason
  | AccountSuspended billing_reason
  | CreditLimitExceeded billing_reason
  | AccountClosed billing_reason
  | EmergencyAllowed billing_reason

record call_auth_request =
  aq_customer_id :: string
  aq_from_number :: string
  aq_to_number :: string
  aq_estimated_cost :: rat
  aq_is_emergency :: bool
  aq_trunk_id :: "string option"
  aq_metadata :: "string \<rightharpoonup> string"

record cached_account_status =
  cs_account :: customer_account
  cs_cached_at :: int
  cs_expires_at :: int

record billing_stats =
  bs_total_checks :: u64
  bs_approved_calls :: u64
  bs_blocked_calls :: u64
  bs_insufficient_funds_blocks :: u64
  bs_suspended_account_blocks :: u64
  bs_credit_limit_blocks :: u64
  bs_emergency_overrides :: u64
  bs_cache_hits :: u64
  bs_cache_misses :: u64
  bs_payment_required_responses :: u64
  bs_last_updated :: "int option"

definition no_billing_stats :: billing_stats where
  "no_billing_stats = \<lparr>bs_total_checks = 0, bs_approved_calls = 0, bs_blocked_calls = 0,
     bs_insufficient_funds_blocks = 0, bs_suspended_account_blocks = 0, bs_credit_limit_blocks = 0,
     bs_emergency_overrides = 0, bs_cache_hits = 0, bs_cache_misses = 0,
     bs_payment_required_responses = 0, bs_last_updated = None\<rparr>"

record billing_service =
  bl_config :: billing_config
  bl_account_cache :: "string \<rightharpoonup> cached_account_status"
  bl_stats :: billing_stats

definition new_billing_service :: "billing_config \<Rightarrow> billing_service" where
  "new_billing_service config = \<lparr>bl_config = config, bl_account_cache = Map.empty, bl_stats = no_billing_stats\<rparr>"

text \<open>The database: not connected, or the answer of the query for a customer, an error text or
  the row if there is one.\<close>

type_synonym billing_db = "(string \<Rightarrow> string + account_row option) option"

subsection \<open>Funds and emergency numbers\<close>

definition check_call_funds :: "customer_account \<Rightarrow> rat \<Rightarrow> billing_check_result" where
  "check_call_funds a cost =
    (case ca_account_type a of
       Acc_Prepaid \<Rightarrow>
         if ca_balance a < cost then InsufficientFunds (PrepaidBalance cost (ca_balance a))
         else if ca_balance a < bp_minimum_balance (ca_billing_profile a)
         then InsufficientFunds (BelowMinimumBalance (bp_minimum_balance (ca_billing_profile a)))
         else Approved
     | Acc_Postpaid \<Rightarrow>
         (case ca_credit_limit a of
            Some limit \<Rightarrow>
              let current_debt = - ca_balance a; potential_debt = current_debt + cost
              in if limit < potential_debt then CreditLimitExceeded (LimitExceeded limit potential_debt)
                 else Approved
          | None \<Rightarrow> Approved)
     | Acc_Test \<Rightarrow> Approved
     | Acc_Internal \<Rightarrow> Approved)"

definition trim_start_matches :: "char \<Rightarrow> string \<Rightarrow> string" where
  "trim_start_matches c s = dropWhile (\<lambda>x. x = c) s"

definition is_emergency_number :: "billing_config \<Rightarrow> string \<Rightarrow> bool" where
  "is_emergency_number config number =
    (let normalized = trim_start_matches CHR ''1'' (trim_start_matches CHR ''+'' number)
     in list_ex (\<lambda>p. normalized = p \<or> number = p) (sc_emergency_numbers (bc_suspension config)))"

subsection \<open>The account of a customer\<close>

definition read_account_type :: "string \<Rightarrow> account_type" where
  "read_account_type s = (if s = ''prepaid'' then Acc_Prepaid else Acc_Postpaid)"

definition read_account_status :: "string \<Rightarrow> account_status" where
  "read_account_status s =
    (if s = ''active'' then Acc_Active
     else if s = ''suspended'' then Acc_Suspended
     else if s = ''closed'' then Acc_Closed
     else if s = ''low_balance'' then Acc_LowBalance
     else if s = ''grace_period'' then Acc_GracePeriod
     else if s = ''under_review'' then Acc_UnderReview
     else Acc_Active)"

definition nanos :: "int \<Rightarrow> int" where
  "nanos seconds = seconds * 1000000000"

definition account_of_row :: "int \<Rightarrow> account_row \<Rightarrow> customer_account" where
  "account_of_row now r =
     \<lparr>ca_customer_id = row_customer_id r, ca_account_type = read_account_type (row_account_type r),
      ca_status = read_account_status (row_status r),
      ca_balance = (case row_balance r of Some b \<Rightarrow> b | None \<Rightarrow> 0),
      ca_credit_limit = row_credit_limit r,
      ca_low_balance_threshold = (case row_low_balance_threshold r of Some t \<Rightarrow> t | None \<Rightarrow> 10),
      ca_currency = (case row_currency r of Some c \<Rightarrow> c | None \<Rightarrow> ''USD''),
      ca_created_at = (case row_created_at r of Some t \<Rightarrow> t | None \<Rightarrow> now),
      ca_last_payment_date = row_last_payment_date r, ca_suspended_at = row_suspended_at r,
      ca_grace_period_end = row_grace_period_end r, ca_billing_profile = default_billing_profile,
      ca_metadata = Map.empty\<rparr>"

definition mock_account :: "int \<Rightarrow> string \<Rightarrow> customer_account" where
  "mock_account now customer_id =
     \<lparr>ca_customer_id = customer_id, ca_account_type = Acc_Postpaid, ca_status = Acc_Active,
      ca_balance = 50, ca_credit_limit = Some 1000, ca_low_balance_threshold = 10,
      ca_currency = ''USD'', ca_created_at = now - nanos (30 * 86400),
      ca_last_payment_date = Some (now - nanos (15 * 86400)), ca_suspended_at = None,
      ca_grace_period_end = None, ca_billing_profile = default_billing_profile, ca_metadata = Map.empty\<rparr>"

definition fetch_account_from_database :: "billing_db \<Rightarrow> int \<Rightarrow> string \<Rightarrow> string + customer_account" where
  "fetch_account_from_database db now customer_id =
    (case db of
       Some query \<Rightarrow>
         (case query customer_id of
            Inl e \<Rightarrow> Inl (''Database query failed: '' @ e)
          | Inr (Some row) \<Rightarrow> Inr (account_of_row now row)
          | Inr None \<Rightarrow> Inl (''Customer account not found: '' @ customer_id))
     | None \<Rightarrow> Inr (mock_account now customer_id))"

definition count_stat :: "(billing_stats \<Rightarrow> billing_stats) \<Rightarrow> billing_service \<Rightarrow> billing_service" where
  "count_stat f b = b\<lparr>bl_stats := f (bl_stats b)\<rparr>"

text \<open>On an expired entry the code removes the entry while the reference that \<open>get\<close>
  returned is alive; it holds the lock of the shard of the map that \<open>remove\<close> asks for, so
  the call does not return. Otherwise the result is the cached account or a miss.\<close>

definition look_up_account ::
    "int \<Rightarrow> string \<Rightarrow> billing_service \<Rightarrow> (customer_account option \<times> billing_service) option" where
  "look_up_account now customer_id b =
    (case bl_account_cache b customer_id of
       Some cached \<Rightarrow>
         if now < cs_expires_at cached
         then Some (Some (cs_account cached), count_stat (\<lambda>s. s\<lparr>bs_cache_hits := bs_cache_hits s + 1\<rparr>) b)
         else None
     | None \<Rightarrow> Some (None, count_stat (\<lambda>s. s\<lparr>bs_cache_misses := bs_cache_misses s + 1\<rparr>) b))"

definition fetch_and_cache ::
    "billing_db \<Rightarrow> int \<Rightarrow> string \<Rightarrow> billing_service \<Rightarrow> (string + customer_account) \<times> billing_service" where
  "fetch_and_cache db now customer_id b =
    (case fetch_account_from_database db now customer_id of
       Inl e \<Rightarrow> (Inl e, b)
     | Inr account \<Rightarrow>
         let expires_at = now + nanos (sint (bc_cache_duration (bl_config b)));
             cached = \<lparr>cs_account = account, cs_cached_at = now, cs_expires_at = expires_at\<rparr>
         in (Inr account, b\<lparr>bl_account_cache := (bl_account_cache b)(customer_id \<mapsto> cached)\<rparr>))"

definition get_account_status ::
    "billing_db \<Rightarrow> int \<Rightarrow> string \<Rightarrow> billing_service \<Rightarrow> ((string + customer_account) \<times> billing_service) option" where
  "get_account_status db now customer_id b =
    (case look_up_account now customer_id b of
       None \<Rightarrow> None
     | Some (Some account, b) \<Rightarrow> Some (Inr account, b)
     | Some (None, b) \<Rightarrow> Some (fetch_and_cache db now customer_id b))"

lemmas account_status_defs = get_account_status_def look_up_account_def fetch_and_cache_def

subsection \<open>Authorization of a call\<close>

definition account_decision :: "int \<Rightarrow> customer_account \<Rightarrow> rat \<Rightarrow> billing_check_result" where
  "account_decision now a cost =
    (case ca_status a of
       Acc_Closed \<Rightarrow> AccountClosed (Reason ''Account has been closed'')
     | Acc_Suspended \<Rightarrow> AccountSuspended (Reason ''Account suspended for non-payment'')
     | Acc_UnderReview \<Rightarrow> AccountSuspended (Reason ''Account under review'')
     | Acc_GracePeriod \<Rightarrow>
         (case ca_grace_period_end a of
            Some grace_end \<Rightarrow>
              if grace_end < now then AccountSuspended (Reason ''Grace period expired'')
              else check_call_funds a cost
          | None \<Rightarrow> check_call_funds a cost)
     | Acc_Active \<Rightarrow> check_call_funds a cost
     | Acc_LowBalance \<Rightarrow> check_call_funds a cost)"

definition count_result :: "billing_check_result \<Rightarrow> billing_stats \<Rightarrow> billing_stats" where
  "count_result r s =
    (case r of
       Approved \<Rightarrow> s\<lparr>bs_approved_calls := bs_approved_calls s + 1\<rparr>
     | InsufficientFunds _ \<Rightarrow> s\<lparr>bs_blocked_calls := bs_blocked_calls s + 1,
         bs_insufficient_funds_blocks := bs_insufficient_funds_blocks s + 1\<rparr>
     | AccountSuspended _ \<Rightarrow> s\<lparr>bs_blocked_calls := bs_blocked_calls s + 1,
         bs_suspended_account_blocks := bs_suspended_account_blocks s + 1\<rparr>
     | CreditLimitExceeded _ \<Rightarrow> s\<lparr>bs_blocked_calls := bs_blocked_calls s + 1,
         bs_credit_limit_blocks := bs_credit_limit_blocks s + 1\<rparr>
     | AccountClosed _ \<Rightarrow> s\<lparr>bs_blocked_calls := bs_blocked_calls s + 1\<rparr>
     | EmergencyAllowed _ \<Rightarrow> s)"

definition count_check :: "int \<Rightarrow> billing_service \<Rightarrow> billing_service" where
  "count_check now = count_stat (\<lambda>s. s\<lparr>bs_total_checks := bs_total_checks s + 1, bs_last_updated := Some now\<rparr>)"

definition count_override :: "billing_service \<Rightarrow> billing_service" where
  "count_override = count_stat (\<lambda>s. s\<lparr>bs_emergency_overrides := bs_emergency_overrides s + 1,
     bs_approved_calls := bs_approved_calls s + 1\<rparr>)"

definition count_unverified :: "billing_service \<Rightarrow> billing_service" where
  "count_unverified = count_stat (\<lambda>s. s\<lparr>bs_blocked_calls := bs_blocked_calls s + 1\<rparr>)"

definition is_emergency_request :: "billing_config \<Rightarrow> call_auth_request \<Rightarrow> bool" where
  "is_emergency_request config q \<longleftrightarrow>
     (aq_is_emergency q \<or> is_emergency_number config (aq_to_number q)) \<and> sc_allow_emergency_calls (bc_suspension config)"

text \<open>A check whose account can not be looked up never returns, although it has been counted.\<close>

definition check_call_authorization ::
    "billing_db \<Rightarrow> int \<Rightarrow> call_auth_request \<Rightarrow> billing_service \<Rightarrow> (billing_check_result \<times> billing_service) option" where
  "check_call_authorization db now q b =
    (if \<not> bc_enabled (bl_config b) then Some (Approved, b)
     else
       let b = count_check now b
       in if is_emergency_request (bl_config b) q
          then Some (EmergencyAllowed (Reason ''Emergency call allowed regardless of account status''), count_override b)
          else case get_account_status db now (aq_customer_id q) b of
            None \<Rightarrow> None
          | Some (Inl e, b) \<Rightarrow> Some (AccountClosed (Reason ''Unable to verify account status''), count_unverified b)
          | Some (Inr a, b) \<Rightarrow>
              let result = account_decision now a (aq_estimated_cost q)
              in Some (result, count_stat (count_result result) b))"

subsection \<open>The other operations\<close>

definition invalidate_account_cache :: "string \<Rightarrow> billing_service \<Rightarrow> billing_service" where
  "invalidate_account_cache customer_id b = b\<lparr>bl_account_cache := (bl_account_cache b)(customer_id := None)\<rparr>"

definition suspend_account :: "string \<Rightarrow> billing_service \<Rightarrow> billing_service" where
  "suspend_account customer_id b = invalidate_account_cache customer_id b"

definition reactivate_account :: "string \<Rightarrow> billing_service \<Rightarrow> billing_service" where
  "reactivate_account customer_id b = invalidate_account_cache customer_id b"

definition cleanup_expired_cache :: "int \<Rightarrow> billing_service \<Rightarrow> billing_service" where
  "cleanup_expired_cache now b = b\<lparr>bl_account_cache := (\<lambda>i.
     case bl_account_cache b i of
       Some cached \<Rightarrow> if cs_expires_at cached \<le> now then None else Some cached
     | None \<Rightarrow> None)\<rparr>"

record payment_required_response =
  pr_status_code :: u16
  pr_reason_phrase :: string
  pr_headers :: "string \<rightharpoonup> string"
  pr_body :: "string option"

definition generate_payment_required_response ::
    "string \<Rightarrow> string \<Rightarrow> billing_service \<Rightarrow> payment_required_response \<times> billing_service" where
  "generate_payment_required_response customer_id reason b =
    (let b = count_stat (\<lambda>s. s\<lparr>bs_payment_required_responses := bs_payment_required_responses s + 1\<rparr>) b;
         pc = bc_payment_required (bl_config b);
         headers = pc_custom_headers pc;
         headers = (case pc_payment_url pc of Some url \<Rightarrow> headers(''P-Payment-URL'' \<mapsto> url) | None \<Rightarrow> headers);
         headers = headers(''P-Customer-ID'' \<mapsto> customer_id);
         headers = headers(''P-Block-Reason'' \<mapsto> reason)
     in (\<lparr>pr_status_code = 402, pr_reason_phrase = pc_reason_phrase pc, pr_headers = headers,
          pr_body = (if pc_include_payment_instructions pc
            then Some (''Payment required for customer '' @ customer_id @ ''. Reason: '' @ reason @
              ''. Please visit '' @ (case pc_payment_url pc of Some url \<Rightarrow> url | None \<Rightarrow> ''your billing portal'') @
              '' to make a payment.'')
            else None)\<rparr>, b))"

definition calculate_estimated_cost :: "rat \<Rightarrow> rat \<Rightarrow> rat" where
  "calculate_estimated_cost rate_per_minute minutes = rate_per_minute * minutes + 1 / 100"

definition needs_low_balance_warning :: "customer_account \<Rightarrow> bool" where
  "needs_low_balance_warning a =
    (case ca_account_type a of
       Acc_Prepaid \<Rightarrow> ca_balance a \<le> ca_low_balance_threshold a
     | Acc_Postpaid \<Rightarrow>
         (case ca_credit_limit a of
            Some limit \<Rightarrow> limit - - ca_balance a \<le> ca_low_balance_threshold a
          | None \<Rightarrow> False)
     | _ \<Rightarrow> False)"

section \<open>The rating engine\<close>

record rate_table =
  ra_destination_name :: string
  ra_prefix :: string
  ra_rate_per_minute :: rat
  ra_minimum_duration_seconds :: u32
  ra_billing_increment_seconds :: u32
  ra_setup_fee :: rat
  ra_effective_date :: int
  ra_expiry_date :: "int option"

record default_rates =
  dr_domestic_rate_per_minute :: rat
  dr_international_rate_per_minute :: rat
  dr_premium_rate_per_minute :: rat
  dr_minimum_charge :: rat
  dr_setup_fee :: rat

definition standard_default_rates :: default_rates where
  "standard_default_rates = \<lparr>dr_domestic_rate_per_minute = 1 / 100, dr_international_rate_per_minute = 5 / 100,
     dr_premium_rate_per_minute = 25 / 100, dr_minimum_charge = 1 / 100, dr_setup_fee = 5 / 1000\<rparr>"

record call_pricing =
  cp_destination :: string
  cp_rate_per_minute :: rat
  cp_setup_fee :: rat
  cp_minimum_charge :: rat
  cp_billing_increment :: u32
  cp_estimated_cost :: rat
  cp_matched_prefix :: "string option"

text \<open>The tables by their key, in the order in which the hash map is iterated.\<close>

record rating_engine =
  re_rate_tables :: "(string \<times> rate_table) list"
  re_default_rates :: default_rates

definition new_rating_engine :: rating_engine where
  "new_rating_engine = \<lparr>re_rate_tables = [], re_default_rates = standard_default_rates\<rparr>"

fun match_loop :: "string \<Rightarrow> (string \<times> rate_table) list \<Rightarrow> nat \<Rightarrow> rate_table option \<Rightarrow> rate_table option" where
  "match_loop destination [] longest best = best"
| "match_loop destination ((prefix, t) # entries) longest best =
    (if starts_with destination prefix \<and> longest < length prefix
     then match_loop destination entries (length prefix) (Some t)
     else match_loop destination entries longest best)"

definition best_match :: "(string \<times> rate_table) list \<Rightarrow> string \<Rightarrow> rate_table option" where
  "best_match tables destination = match_loop destination tables 0 None"

definition calculate_pricing :: "string \<Rightarrow> u32 \<Rightarrow> rating_engine \<Rightarrow> call_pricing" where
  "calculate_pricing destination duration_seconds e =
    (case best_match (re_rate_tables e) destination of
       Some t \<Rightarrow>
         let minutes = of_nat (unat duration_seconds) / 60;
             total = ra_rate_per_minute t * minutes + ra_setup_fee t
         in \<lparr>cp_destination = ra_destination_name t, cp_rate_per_minute = ra_rate_per_minute t,
             cp_setup_fee = ra_setup_fee t, cp_minimum_charge = 1 / 100,
             cp_billing_increment = ra_billing_increment_seconds t,
             cp_estimated_cost = max total (1 / 100), cp_matched_prefix = Some (ra_prefix t)\<rparr>
     | None \<Rightarrow>
         let d = re_default_rates e;
             rate = (if starts_with destination ''1'' then dr_domestic_rate_per_minute d
                     else if starts_with destination ''900'' \<or> starts_with destination ''976''
                     then dr_premium_rate_per_minute d
                     else dr_international_rate_per_minute d);
             minutes = of_nat (unat duration_seconds) / 60;
             total = rate * minutes + dr_setup_fee d
         in \<lparr>cp_destination = ''Unknown Destination'', cp_rate_per_minute = rate,
             cp_setup_fee = dr_setup_fee d, cp_minimum_charge = dr_minimum_charge d,
             cp_billing_increment = 60, cp_estimated_cost = max total (dr_minimum_charge d),
             cp_matched_prefix = None\<rparr>)"

definition update_rate :: "rate_table \<Rightarrow> rating_engine \<Rightarrow> rating_engine" where
  "update_rate t e = e\<lparr>re_rate_tables := AList.update (ra_prefix t) t (re_rate_tables e)\<rparr>"

definition remove_rate :: "string \<Rightarrow> rating_engine \<Rightarrow> rating_engine" where
  "remove_rate prefix e = e\<lparr>re_rate_tables := AList.delete prefix (re_rate_tables e)\<rparr>"

definition update_default_rates :: "default_rates \<Rightarrow> rating_engine \<Rightarrow> rating_engine" where
  "update_default_rates d e = e\<lparr>re_default_rates := d\<rparr>"

section \<open>Accounting\<close>

text \<open>Checks of several calls run side by side and take the locks of the statistics and of the cache one after
  the other, so a check is the sequence of its parts, with parts of other checks in between. The state has
  the number of checks that are counted and have not looked up the account (\<open>early\<close>), and of those that have,
  and are not decided (\<open>late\<close>). A check may stay where it is for ever: at an expired entry, at a shard of the
  cache that such a check has locked, or at a query of the database. A run of the cleanup that meets
  a locked shard has removed the expired entries of some customers only.\<close>

inductive billing_step :: "billing_service \<times> nat \<times> nat \<Rightarrow> billing_service \<times> nat \<times> nat \<Rightarrow> bool" where
  bill_counted: "bc_enabled (bl_config b) \<Longrightarrow> billing_step (b, early, late) (count_check now b, Suc early, late)"
| bill_override: "is_emergency_request (bl_config b) q \<Longrightarrow>
    billing_step (b, Suc early, late) (count_override b, early, late)"
| bill_looked_up: "look_up_account now i b = Some (x, b') \<Longrightarrow>
    billing_step (b, Suc early, late) (b', early, Suc late)"
| bill_fetched: "fetch_and_cache db now i b = (Inr a, b') \<Longrightarrow> billing_step (b, early, Suc late) (b', early, Suc late)"
| bill_unverified: "fetch_and_cache db now i b = (Inl e, b') \<Longrightarrow>
    billing_step (b, early, Suc late) (count_unverified b', early, late)"
| bill_decided: "billing_step (b, early, Suc late)
    (count_stat (count_result (account_decision now a cost)) b, early, late)"
| bill_suspend: "billing_step (b, early, late) (suspend_account i b, early, late)"
| bill_reactivate: "billing_step (b, early, late) (reactivate_account i b, early, late)"
| bill_cleanup: "billing_step (b, early, late)
    (b\<lparr>bl_account_cache := (\<lambda>i. if i \<in> seen then bl_account_cache (cleanup_expired_cache now b) i
       else bl_account_cache b i)\<rparr>, early, late)"
| bill_payment: "billing_step (b, early, late) (snd (generate_payment_required_response i reason b), early, late)"

text \<open>Every counted check is approved, blocked or on its way, and is an emergency call, a cache hit, a cache miss
  or has not looked up the account; cached accounts expire the configured time after they were read.\<close>

definition all_decided :: "billing_service \<times> nat \<times> nat \<Rightarrow> bool" where
  "all_decided x \<longleftrightarrow> (case x of (b, early, late) \<Rightarrow> bs_total_checks (bl_stats b) =
     bs_approved_calls (bl_stats b) + bs_blocked_calls (bl_stats b) + of_nat (early + late))"

definition all_looked_up :: "billing_service \<times> nat \<times> nat \<Rightarrow> bool" where
  "all_looked_up x \<longleftrightarrow> (case x of (b, early, late) \<Rightarrow> bs_total_checks (bl_stats b) =
     bs_emergency_overrides (bl_stats b) + bs_cache_hits (bl_stats b) + bs_cache_misses (bl_stats b) + of_nat early)"

definition expiry_ok :: "billing_config \<Rightarrow> billing_service \<times> nat \<times> nat \<Rightarrow> bool" where
  "expiry_ok config x \<longleftrightarrow> bl_config (fst x) = config \<and> (\<forall>i e. bl_account_cache (fst x) i = Some e \<longrightarrow>
     cs_expires_at e = cs_cached_at e + nanos (sint (bc_cache_duration config)))"

definition billing_inv :: "billing_config \<Rightarrow> billing_service \<times> nat \<times> nat \<Rightarrow> bool" where
  "billing_inv config x \<longleftrightarrow> all_decided x \<and> all_looked_up x \<and> expiry_ok config x"

lemma count_stat_simps [simp]:
  "bl_config (count_stat f b) = bl_config b" "bl_account_cache (count_stat f b) = bl_account_cache b"
  "bl_stats (count_stat f b) = f (bl_stats b)"
  by (simp_all add: count_stat_def)

lemma count_result_simps:
  "bs_total_checks (count_result r s) = bs_total_checks s"
  "bs_emergency_overrides (count_result r s) = bs_emergency_overrides s"
  "bs_cache_hits (count_result r s) = bs_cache_hits s" "bs_cache_misses (count_result r s) = bs_cache_misses s"
  "\<not> (\<exists>x. r = EmergencyAllowed x) \<Longrightarrow>
     bs_approved_calls (count_result r s) + bs_blocked_calls (count_result r s) =
     bs_approved_calls s + bs_blocked_calls s + 1"
  by (cases r; simp add: count_result_def)+

lemma account_decision_not_emergency: "account_decision now a cost \<noteq> EmergencyAllowed x"
  by (simp add: account_decision_def check_call_funds_def Let_def
      split: account_status.split account_type.split option.split)

lemma count_result_decided:
  "bs_approved_calls (count_result (account_decision now a cost) s) =
     bs_approved_calls s + bs_blocked_calls s + 1 - bs_blocked_calls (count_result (account_decision now a cost) s)"
  using count_result_simps(5) [of "account_decision now a cost" s]
  by (metis account_decision_not_emergency add_diff_cancel_right')

text \<open>The three ways of a check.\<close>

lemma check_disabled [simp]:
  "\<not> bc_enabled (bl_config b) \<Longrightarrow> check_call_authorization db now q b = Some (Approved, b)"
  by (simp add: check_call_authorization_def)

lemma check_count_simps [simp]:
  "bl_config (count_check now b) = bl_config b" "bl_account_cache (count_check now b) = bl_account_cache b"
  "bl_stats (count_check now b) = (bl_stats b)\<lparr>bs_total_checks := bs_total_checks (bl_stats b) + 1, bs_last_updated := Some now\<rparr>"
  "bl_config (count_override b) = bl_config b" "bl_account_cache (count_override b) = bl_account_cache b"
  "bl_stats (count_override b) = (bl_stats b)\<lparr>bs_emergency_overrides := bs_emergency_overrides (bl_stats b) + 1,
     bs_approved_calls := bs_approved_calls (bl_stats b) + 1\<rparr>"
  "bl_config (count_unverified b) = bl_config b" "bl_account_cache (count_unverified b) = bl_account_cache b"
  "bl_stats (count_unverified b) = (bl_stats b)\<lparr>bs_blocked_calls := bs_blocked_calls (bl_stats b) + 1\<rparr>"
  by (simp_all add: count_check_def count_override_def count_unverified_def)

lemma check_emergency [simp]:
  "bc_enabled (bl_config b) \<Longrightarrow> is_emergency_request (bl_config b) q \<Longrightarrow>
    check_call_authorization db now q b =
      Some (EmergencyAllowed (Reason ''Emergency call allowed regardless of account status''),
        count_override (count_check now b))"
  by (simp add: check_call_authorization_def Let_def)

lemma check_account:
  "bc_enabled (bl_config b) \<Longrightarrow> \<not> is_emergency_request (bl_config b) q \<Longrightarrow>
    check_call_authorization db now q b =
      map_option (\<lambda>(r, b). case r of
          Inl e \<Rightarrow> (AccountClosed (Reason ''Unable to verify account status''), count_unverified b)
        | Inr a \<Rightarrow> (account_decision now a (aq_estimated_cost q),
            count_stat (count_result (account_decision now a (aq_estimated_cost q))) b))
        (get_account_status db now (aq_customer_id q) (count_check now b))"
  by (auto simp: check_call_authorization_def Let_def split: option.split sum.split prod.split)

text \<open>A check with nothing in between is a run of these steps; one that does not return stays counted.\<close>

lemma account_steps:
  assumes "get_account_status db now i b = Some (x, b')"
  shows "\<exists>c. billing_step (b, Suc early, late) (c, early, Suc late) \<and>
    (case x of Inl e \<Rightarrow> billing_step (c, early, Suc late) (count_unverified b', early, late)
     | Inr a \<Rightarrow> c = b' \<or> billing_step (c, early, Suc late) (b', early, Suc late))"
proof -
  obtain y c where y: "look_up_account now i b = Some (y, c)"
    using assms by (auto simp: get_account_status_def split: option.splits)
  with assms have "case y of Some a \<Rightarrow> x = Inr a \<and> b' = c | None \<Rightarrow> fetch_and_cache db now i c = (x, b')"
    by (auto simp: get_account_status_def split: option.splits)
  with y show ?thesis
    by (intro exI [of _ c]) (auto intro: bill_looked_up bill_fetched bill_unverified split: option.splits sum.splits)
qed

lemma check_steps:
  assumes "bc_enabled (bl_config b)"
  shows "case check_call_authorization db now q b of
      None \<Rightarrow> billing_step (b, early, late) (count_check now b, Suc early, late)
    | Some (r, b') \<Rightarrow> billing_step\<^sup>*\<^sup>* (b, early, late) (b', early, late)"
proof -
  have start: "billing_step (b, early, late) (count_check now b, Suc early, late)"
    using assms by (rule bill_counted)
  show ?thesis
  proof (cases "is_emergency_request (bl_config b) q")
    case True
    then have "billing_step (count_check now b, Suc early, late) (count_override (count_check now b), early, late)"
      by (intro bill_override) simp
    with start True assms show ?thesis by simp
  next
    case False
    show ?thesis
    proof (cases "get_account_status db now (aq_customer_id q) (count_check now b)")
      case None
      with start False assms show ?thesis by (simp add: check_account)
    next
      case (Some p)
      then obtain x c where p: "get_account_status db now (aq_customer_id q) (count_check now b) = Some (x, c)"
        by (cases p) simp
      from account_steps [OF this, of early late] obtain d
        where d: "billing_step (count_check now b, Suc early, late) (d, early, Suc late)"
          and x: "case x of Inl e \<Rightarrow> billing_step (d, early, Suc late) (count_unverified c, early, late)
            | Inr a \<Rightarrow> d = c \<or> billing_step (d, early, Suc late) (c, early, Suc late)"
        by blast
      from start d have to_d: "billing_step\<^sup>*\<^sup>* (b, early, late) (d, early, Suc late)" by simp
      show ?thesis
      proof (cases x)
        case (Inl e)
        with to_d x p False assms show ?thesis by (simp add: check_account)
      next
        case (Inr a)
        then have "billing_step\<^sup>*\<^sup>* (b, early, late) (c, early, Suc late)"
          using to_d x by (auto intro: rtranclp.rtrancl_into_rtrancl)
        from rtranclp.rtrancl_into_rtrancl [OF this bill_decided] Inr p False assms
        show ?thesis by (simp add: check_account)
      qed
    qed
  qed
qed

lemmas billing_step_defs = look_up_account_def fetch_and_cache_def suspend_account_def reactivate_account_def
  invalidate_account_cache_def generate_payment_required_response_def cleanup_expired_cache_def

lemma billing_step_decided: "billing_step x y \<Longrightarrow> all_decided x \<Longrightarrow> all_decided y"
  by (induction rule: billing_step.induct)
    (auto simp: all_decided_def billing_step_defs count_result_simps count_result_decided Let_def
      split: option.splits sum.splits if_splits)

lemma billing_step_looked_up: "billing_step x y \<Longrightarrow> all_looked_up x \<Longrightarrow> all_looked_up y"
  by (induction rule: billing_step.induct)
    (auto simp: all_looked_up_def billing_step_defs count_result_simps Let_def
      split: option.splits sum.splits if_splits)

lemma billing_step_expiry: "billing_step x y \<Longrightarrow> expiry_ok config x \<Longrightarrow> expiry_ok config y"
  by (induction rule: billing_step.induct)
    (auto simp: expiry_ok_def billing_step_defs Let_def split: option.splits sum.splits if_splits)

lemma billing_step_inv: "billing_step x y \<Longrightarrow> billing_inv config x \<Longrightarrow> billing_inv config y"
  unfolding billing_inv_def using billing_step_decided billing_step_looked_up billing_step_expiry by blast

lemmas billing_inv_defs = billing_inv_def all_decided_def all_looked_up_def expiry_ok_def

interpretation billing: invariant_machine "\<lambda>x. x = (new_billing_service config, 0, 0)" billing_step "billing_inv config"
  for config
proof
  show "billing_inv config x" if "x = (new_billing_service config, 0, 0)" for x
    using that by (simp add: billing_inv_defs new_billing_service_def no_billing_stats_def)
qed (rule billing_step_inv)

text \<open>C35: At any moment of any history, with checks running side by side, every counted check is counted once as
  approved or blocked or is not decided yet, and once as an emergency override, a cache hit or a cache
  miss or has not looked up its account yet (modulo the width of the counters); the checks that never end
  are among those on their way. A cached account expires the configured duration after it was read.\<close>

theorem billing_checks_accounted:
  assumes "billing_step\<^sup>*\<^sup>* (new_billing_service config, 0, 0) (b, early, late)"
  shows "bs_total_checks (bl_stats b) = bs_approved_calls (bl_stats b) + bs_blocked_calls (bl_stats b) + of_nat (early + late) \<and>
    bs_total_checks (bl_stats b) = bs_emergency_overrides (bl_stats b) + bs_cache_hits (bl_stats b) +
      bs_cache_misses (bl_stats b) + of_nat early \<and>
    (\<forall>i e. bl_account_cache b i = Some e \<longrightarrow>
       cs_expires_at e = cs_cached_at e + nanos (sint (bc_cache_duration config)))"
  using billing.reachable_inv [OF refl assms] unfolding billing_inv_defs prod.case fst_conv by blast

definition ordinary_request :: "string \<Rightarrow> rat \<Rightarrow> call_auth_request" where
  "ordinary_request customer cost = \<lparr>aq_customer_id = customer, aq_from_number = ''12125550100'',
     aq_to_number = ''17025550100'', aq_estimated_cost = cost, aq_is_emergency = False,
     aq_trunk_id = None, aq_metadata = Map.empty\<rparr>"

definition first_check :: "(billing_check_result \<times> billing_service) option" where
  "first_check = check_call_authorization None 0 (ordinary_request ''c'' 5) (new_billing_service default_billing_config)"

lemma first_check_result:
  "fst (the first_check) = Approved" "first_check \<noteq> None"
  "bl_account_cache (snd (the first_check)) ''c'' =
     Some \<lparr>cs_account = mock_account 0 ''c'', cs_cached_at = 0, cs_expires_at = 300000000000\<rparr>"
  "bl_stats (snd (the first_check)) = no_billing_stats\<lparr>bs_total_checks := 1, bs_approved_calls := 1,
     bs_cache_misses := 1, bs_last_updated := Some 0\<rparr>"
  by (simp_all add: first_check_def check_call_authorization_def is_emergency_request_def count_check_def count_override_def count_unverified_def ordinary_request_def new_billing_service_def
      default_billing_config_def default_suspension_config_def is_emergency_number_def trim_start_matches_def
      account_status_defs fetch_account_from_database_def account_decision_def mock_account_def
      check_call_funds_def count_result_def count_stat_def no_billing_stats_def nanos_def)

theorem billing_checks_accounted_witness:
  "bs_total_checks (bl_stats (snd (the first_check))) = 1 \<and>
   bs_approved_calls (bl_stats (snd (the first_check))) + bs_blocked_calls (bl_stats (snd (the first_check))) = 1"
proof -
  have "bc_enabled (bl_config (new_billing_service default_billing_config))"
    by (simp add: new_billing_service_def default_billing_config_def)
  from check_steps [OF this, where db = None and now = 0 and q = "ordinary_request ''c'' 5" and early = 0 and late = 0]
  have "billing_step\<^sup>*\<^sup>* (new_billing_service default_billing_config, 0, 0) (snd (the first_check), 0, 0)"
    using first_check_result(2) unfolding first_check_def by (auto split: option.splits)
  from billing_checks_accounted [OF this] show ?thesis
    by (simp add: first_check_result no_billing_stats_def)
qed

section \<open>Requests that return\<close>

lemma get_account_status_returns:
  "get_account_status db now i b = None \<longleftrightarrow> (\<exists>e. bl_account_cache b i = Some e \<and> cs_expires_at e \<le> now)"
  by (auto simp: account_status_defs Let_def split: option.split)

lemma authorization_returns:
  "check_call_authorization db now q b = None \<longleftrightarrow>
    bc_enabled (bl_config b) \<and> \<not> is_emergency_request (bl_config b) q \<and>
    (\<exists>e. bl_account_cache b (aq_customer_id q) = Some e \<and> cs_expires_at e \<le> now)"
  by (cases "bc_enabled (bl_config b)"; cases "is_emergency_request (bl_config b) q")
    (simp_all add: check_account get_account_status_returns)

text \<open>A request that reads the account of a customer from the database makes every ordinary
  request of that customer after the cache duration block for ever, whatever the database answers,
  unless the cleanup task removed the expired entry before; after the cleanup every request
  returns.\<close>

theorem expired_account_blocks_requests:
  assumes "check_call_authorization db t q b = Some (r, b')"
    and "bc_enabled (bl_config b)" and "\<not> is_emergency_request (bl_config b) q"
    and "bl_account_cache b (aq_customer_id q) = None"
    and "fetch_account_from_database db t (aq_customer_id q) = Inr a"
    and "aq_customer_id q' = aq_customer_id q" and "\<not> is_emergency_request (bl_config b) q'"
    and "t + nanos (sint (bc_cache_duration (bl_config b))) \<le> t'"
  shows "check_call_authorization db' t' q' b' = None \<and>
    (\<exists>r' b''. check_call_authorization db' t' p (cleanup_expired_cache t' b') = Some (r', b''))"
proof -
  from assms(1-5) have "bl_config b' = bl_config b" and
    "bl_account_cache b' (aq_customer_id q) = Some \<lparr>cs_account = a, cs_cached_at = t,
       cs_expires_at = t + nanos (sint (bc_cache_duration (bl_config b)))\<rparr>"
    by (auto simp: check_account account_status_defs Let_def)
  then have "check_call_authorization db' t' q' b' = None"
    using assms(2,6-8) by (simp add: authorization_returns)
  moreover have "check_call_authorization db' t' p (cleanup_expired_cache t' b') \<noteq> None"
    by (auto simp: authorization_returns cleanup_expired_cache_def split: option.splits if_splits)
  ultimately show ?thesis by fastforce
qed

theorem expired_account_blocks_requests_witness:
  "check_call_authorization None (nanos 300) (ordinary_request ''c'' 1) (snd (the first_check)) = None"
proof -
  have c: "first_check = Some (fst (the first_check), snd (the first_check))"
    using first_check_result(2) by auto
  have e: "\<not> is_emergency_request default_billing_config (ordinary_request ''c'' x)" for x
    by (simp add: is_emergency_request_def ordinary_request_def is_emergency_number_def
        trim_start_matches_def default_billing_config_def default_suspension_config_def)
  have q: "aq_customer_id (ordinary_request ''c'' x) = ''c''" for x
    by (simp add: ordinary_request_def)
  have n: "bl_config (new_billing_service default_billing_config) = default_billing_config"
    "bl_account_cache (new_billing_service default_billing_config) = Map.empty"
    by (simp_all add: new_billing_service_def)
  from c have "check_call_authorization None 0 (ordinary_request ''c'' 5) (new_billing_service default_billing_config) =
      Some (fst (the first_check), snd (the first_check))"
    by (simp add: first_check_def)
  from expired_account_blocks_requests [OF this, of "mock_account 0 ''c''" "ordinary_request ''c'' 1" "nanos 300"] e
  show ?thesis
    by (simp add: n q fetch_account_from_database_def nanos_def) (simp add: default_billing_config_def)
qed

section \<open>Emergency numbers\<close>

lemma dropWhile_replicate: "\<exists>k. s = replicate k c @ dropWhile (\<lambda>x. x = c) s"
proof (induction s)
  case (Cons a s)
  then obtain k where "s = replicate k c @ dropWhile (\<lambda>x. x = c) s" by blast
  then show ?case
    by (cases "a = c") (auto intro: exI [of _ "Suc k"] exI [of _ 0])
qed simp

lemma dropWhile_replicate_append: "dropWhile (\<lambda>x. x = c) (replicate k c @ p) = dropWhile (\<lambda>x. x = c) p"
  by (induction k) simp_all

lemma starts_with_dropWhile: "\<not> starts_with (dropWhile (\<lambda>x. x = c) s) [c]"
  by (induction s) auto

lemma dropWhile_not_start: "\<not> starts_with s [c] \<Longrightarrow> dropWhile (\<lambda>x. x = c) s = s"
  by (cases s) auto

text \<open>What remains of a number without its plus signs and leading ones.\<close>

lemma trimmed_iff:
  "p = trim_start_matches CHR ''1'' (trim_start_matches CHR ''+'' n) \<longleftrightarrow>
    (\<exists>i j. n = replicate i CHR ''+'' @ replicate j CHR ''1'' @ p \<and> \<not> starts_with p ''1'' \<and> \<not> (j = 0 \<and> starts_with p ''+''))"
    (is "p = ?n \<longleftrightarrow> ?R")
proof
  assume p: "p = ?n"
  obtain i where i: "n = replicate i CHR ''+'' @ trim_start_matches CHR ''+'' n"
    using dropWhile_replicate [of n "CHR ''+''"] unfolding trim_start_matches_def by (elim exE)
  obtain j where j: "trim_start_matches CHR ''+'' n = replicate j CHR ''1'' @ p"
    using dropWhile_replicate [of "trim_start_matches CHR ''+'' n" "CHR ''1''"]
    unfolding p trim_start_matches_def by (elim exE)
  have "\<not> starts_with p ''1''" unfolding p trim_start_matches_def by (rule starts_with_dropWhile)
  moreover have "\<not> (j = 0 \<and> starts_with p ''+'')"
    using j starts_with_dropWhile [of "CHR ''+''" n] by (auto simp: trim_start_matches_def)
  moreover have "n = replicate i CHR ''+'' @ replicate j CHR ''1'' @ p"
    using i unfolding j .
  ultimately show ?R by (intro exI conjI)
next
  assume ?R
  then obtain i j where n: "n = replicate i CHR ''+'' @ replicate j CHR ''1'' @ p"
    and p: "\<not> starts_with p ''1''" "\<not> (j = 0 \<and> starts_with p ''+'')" by blast
  have "\<not> starts_with (replicate j CHR ''1'' @ p) ''+''"
    using p by (cases j) simp_all
  then show "p = ?n"
    using p(1) by (simp add: n trim_start_matches_def dropWhile_replicate_append dropWhile_not_start)
qed

text \<open>A number is an emergency number exactly if it is listed, or is a listed number that begins
  neither with a plus sign nor with the digit one after any number of plus signs and of ones. A
  listed number with a leading one (\<open>112\<close>, \<open>110\<close>) is only recognised as it is
  listed, while any number of leading ones is accepted before \<open>911\<close>.\<close>

theorem emergency_numbers_exact:
  "is_emergency_number config n \<longleftrightarrow>
    n \<in> set (sc_emergency_numbers (bc_suspension config)) \<or>
    (\<exists>i j p. n = replicate i CHR ''+'' @ replicate j CHR ''1'' @ p \<and>
       p \<in> set (sc_emergency_numbers (bc_suspension config)) \<and>
       \<not> starts_with p ''1'' \<and> \<not> (j = 0 \<and> starts_with p ''+''))"
    (is "_ \<longleftrightarrow> ?listed \<or> (\<exists>i j p. ?form i j p)")
proof -
  let ?n = "trim_start_matches CHR ''1'' (trim_start_matches CHR ''+'' n)"
  have "?n \<in> set (sc_emergency_numbers (bc_suspension config)) \<longleftrightarrow> (\<exists>i j p. ?form i j p)"
    using trimmed_iff [of _ n] by metis
  then show ?thesis
    by (auto simp: is_emergency_number_def Let_def list_ex_iff)
qed

section \<open>Stale accounts\<close>

text \<open>While the cached account is valid it alone decides, whatever the database says; a
  suspension only drops the cached account, so the next request is decided by the database, where
  nothing was suspended.\<close>

lemma cached_account_decides:
  assumes "bc_enabled (bl_config b)" and "\<not> is_emergency_request (bl_config b) q"
    and "bl_account_cache b (aq_customer_id q) = Some e" and "now < cs_expires_at e"
  shows "map_option fst (check_call_authorization db now q b) =
    Some (account_decision now (cs_account e) (aq_estimated_cost q))"
  using assms by (simp add: check_account account_status_defs)

lemma suspended_account_still_served:
  assumes "bc_enabled (bl_config b)" and "\<not> is_emergency_request (bl_config b) q"
    and "fetch_account_from_database db now (aq_customer_id q) = Inr a"
  shows "map_option fst (check_call_authorization db now q (suspend_account (aq_customer_id q) b)) =
    Some (account_decision now a (aq_estimated_cost q))"
  using assms
  by (simp add: check_account account_status_defs suspend_account_def invalidate_account_cache_def Let_def)

section \<open>Rates by prefix\<close>

lemma match_loop_spec:
  "match_loop d es n best = Some t \<Longrightarrow>
    (best = Some t \<and> (\<forall>p r. (p, r) \<in> set es \<and> starts_with d p \<longrightarrow> length p \<le> n)) \<or>
    (\<exists>p. n < length p \<and> starts_with d p \<and> map_of es p = Some t \<and>
      (\<forall>q r. (q, r) \<in> set es \<and> starts_with d q \<longrightarrow> length q \<le> length p))"
proof (induction es arbitrary: n best)
  case (Cons e es)
  obtain p r where e: "e = (p, r)" by force
  show ?case
  proof (cases "starts_with d p \<and> n < length p")
    case True
    with Cons.prems e have "match_loop d es (length p) (Some r) = Some t" by simp
    from Cons.IH [OF this] show ?thesis
    proof (elim disjE exE conjE)
      assume "Some r = Some t" "\<forall>q r. (q, r) \<in> set es \<and> starts_with d q \<longrightarrow> length q \<le> length p"
      with True e show ?thesis by (intro disjI2 exI [of _ p]) auto
    next
      fix k assume k: "length p < length k" "starts_with d k" "map_of es k = Some t"
        "\<forall>q r. (q, r) \<in> set es \<and> starts_with d q \<longrightarrow> length q \<le> length k"
      with True e show ?thesis by (intro disjI2 exI [of _ k]) auto
    qed
  next
    case False
    with Cons.prems e have "match_loop d es n best = Some t" by (simp split: if_splits)
    from Cons.IH [OF this] show ?thesis
    proof (elim disjE exE conjE)
      assume "best = Some t" "\<forall>q r. (q, r) \<in> set es \<and> starts_with d q \<longrightarrow> length q \<le> n"
      with False e show ?thesis by auto
    next
      fix k assume k: "n < length k" "starts_with d k" "map_of es k = Some t"
        "\<forall>q r. (q, r) \<in> set es \<and> starts_with d q \<longrightarrow> length q \<le> length k"
      moreover from k False have "p \<noteq> k" by auto
      ultimately show ?thesis using False e by (intro disjI2 exI [of _ k]) auto
    qed
  qed
qed simp

lemma match_loop_None: "match_loop d es n best = None \<Longrightarrow>
    best = None \<and> (\<forall>p r. (p, r) \<in> set es \<and> starts_with d p \<longrightarrow> length p \<le> n)"
proof (induction es arbitrary: n best)
  case (Cons e es)
  obtain p r where e: "e = (p, r)" by force
  from Cons.prems e have *: "\<not> (starts_with d p \<and> n < length p)" "match_loop d es n best = None"
    using Cons.IH [of "length p" "Some r"] by (auto split: if_splits)
  from Cons.IH [OF *(2)] *(1) e show ?case by auto
qed simp

interpretation rating: longest_match "map_of tables" "\<lambda>code n. 0 < n" "best_match tables" for tables
proof
  fix code r assume "best_match tables code = Some r"
  from match_loop_spec [OF this [unfolded best_match_def]]
  obtain p where p: "0 < length p" "starts_with code p" "map_of tables p = Some r"
    "\<forall>q s. (q, s) \<in> set tables \<and> starts_with code q \<longrightarrow> length q \<le> length p" by auto
  have "map_of tables (take m code) = None" if "length p < m" "m \<le> length code" for m
  proof (rule ccontr)
    assume "map_of tables (take m code) \<noteq> None"
    then obtain s where "(take m code, s) \<in> set tables" by (auto dest: map_of_SomeD)
    with p(4) starts_with_take [of code m] that show False by fastforce
  qed
  with p show "\<exists>n. n \<le> length code \<and> 0 < n \<and> map_of tables (take n code) = Some r \<and>
      (\<forall>m. n < m \<and> m \<le> length code \<and> 0 < m \<longrightarrow> map_of tables (take m code) = None)"
    using starts_with_length [OF p(2)] by (intro exI [of _ "length p"]) (auto simp: starts_with_def)
next
  fix code n assume "best_match tables code = None" "n \<le> length code" "0 < n"
  with match_loop_None [of code tables 0 None] show "map_of tables (take n code) = None"
    by (metis best_match_def length_take map_of_SomeD min.absorb2 not_None_eq not_le starts_with_take)
qed

text \<open>The rating engine prices a call by the longest non-empty prefix with a rate table,
  in whatever order the hash map of the tables is iterated.\<close>

theorem rating_longest_prefix:
  "best_match tables code = Some t \<longleftrightarrow>
    (\<exists>n. n \<le> length code \<and> 0 < n \<and> map_of tables (take n code) = Some t \<and>
      (\<forall>m. n < m \<and> m \<le> length code \<longrightarrow> map_of tables (take m code) = None))"
  unfolding rating.lookup_Some_iff by (auto dest: order.strict_trans)

lemma rating_order_irrelevant:
  assumes "distinct (map fst tables)" and "distinct (map fst tables')" and "set tables = set tables'"
  shows "best_match tables = best_match tables'"
proof
  fix code
  have "map_of tables = map_of tables'" using assms by (simp add: map_of_inject_set)
  then have "best_match tables code = Some t \<longleftrightarrow> best_match tables' code = Some t" for t
    unfolding rating.lookup_Some_iff by simp
  then show "best_match tables code = best_match tables' code" by (metis not_Some_eq)
qed

text \<open>A premium number dialled with the country code is priced as a domestic call.\<close>

lemma premium_number_priced_domestic:
  "re_rate_tables e = [] \<Longrightarrow>
    cp_rate_per_minute (calculate_pricing (''1900'' @ n) d e) = dr_domestic_rate_per_minute (re_default_rates e)"
  by (simp add: calculate_pricing_def best_match_def Let_def)

lemma dialled_without_country_code_premium:
  "re_rate_tables e = [] \<Longrightarrow>
    cp_rate_per_minute (calculate_pricing (''900'' @ n) d e) = dr_premium_rate_per_minute (re_default_rates e)"
  by (simp add: calculate_pricing_def best_match_def Let_def)

end
