(* ===== verification/SipState.thy ===== *)
theory SipState
  imports RustStrings
begin

text \<open>
  The SIP stack's message checks and its state of dialogs and transactions
  (\<open>redfire-sip-stack/src/parser.rs\<close>, \<open>redfire-sip-stack/src/state.rs\<close>). A
  message is what the code reads of the message the \<open>rsip\<close> library parsed: the method or
  status code and the text of the headers it asks for. The handlers take the function that names the
  transaction of a message as an argument, since the code has a placeholder for it; the code's
  handlers are their instance \<open>sip_process\<close>. The time of an operation is an argument, in
  nanoseconds.
\<close>

section \<open>Messages\<close>

text \<open>The methods the code names, and any other one.\<close>

datatype sip_method = M_Invite | M_Ack | M_Bye | M_Cancel | M_Register | M_Options | M_Other string

datatype sip_kind = SipRequest sip_method | SipResponse u16

record sip_message =
  sg_kind :: sip_kind
  sg_via :: "string option"
  sg_from :: "string option"
  sg_to :: "string option"
  sg_call_id :: "string option"
  sg_cseq :: "string option"
  sg_max_forwards :: "string option"
  sg_contact :: "string option"
  sg_content_lengths :: "nat list"
  sg_has_content_type :: bool

subsection \<open>Validation\<close>

definition validate_invite_request :: "sip_message \<Rightarrow> string option" where
  "validate_invite_request m =
    (if sg_contact m = None then Some ''INVITE request missing required Contact header''
     else if list_ex (\<lambda>n. 0 < n) (sg_content_lengths m) \<and> \<not> sg_has_content_type m
     then Some ''INVITE with body missing Content-Type header'' else None)"

definition validate_register_request :: "sip_message \<Rightarrow> string option" where
  "validate_register_request m =
    (if sg_contact m = None then Some ''REGISTER request missing required Contact header'' else None)"

definition validate_request :: "sip_method \<Rightarrow> sip_message \<Rightarrow> string option" where
  "validate_request method m =
    (if sg_via m = None then Some ''Missing required Via header''
     else if sg_from m = None then Some ''Missing required From header''
     else if sg_to m = None then Some ''Missing required To header''
     else if sg_call_id m = None then Some ''Missing required Call-ID header''
     else if sg_cseq m = None then Some ''Missing required CSeq header''
     else if sg_max_forwards m = None then Some ''Missing required Max-Forwards header''
     else case method of
       M_Invite \<Rightarrow> validate_invite_request m
     | M_Register \<Rightarrow> validate_register_request m
     | _ \<Rightarrow> None)"

definition validate_response :: "sip_message \<Rightarrow> string option" where
  "validate_response m =
    (if sg_via m = None then Some ''Response missing required Via header''
     else if sg_from m = None then Some ''Response missing required From header''
     else if sg_to m = None then Some ''Response missing required To header''
     else if sg_call_id m = None then Some ''Response missing required Call-ID header''
     else if sg_cseq m = None then Some ''Response missing required CSeq header''
     else None)"

definition validate_message :: "sip_message \<Rightarrow> string option" where
  "validate_message m =
    (case sg_kind m of SipRequest method \<Rightarrow> validate_request method m | SipResponse _ \<Rightarrow> validate_response m)"

subsection \<open>Tags and the identity of a message\<close>

definition extract_tag_from_header :: "string \<Rightarrow> string option" where
  "extract_tag_from_header header =
    (case find_sub ''tag='' header of
       None \<Rightarrow> None
     | Some start \<Rightarrow>
         let tag_value = drop (start + 4) header
         in case find_sub '';'' tag_value of
              Some end_pos \<Rightarrow> Some (take end_pos tag_value)
            | None \<Rightarrow> Some (trim_space tag_value))"

definition extract_call_id :: "sip_message \<Rightarrow> string + string" where
  "extract_call_id m = (case sg_call_id m of None \<Rightarrow> Inl ''No Call-ID header'' | Some c \<Rightarrow> Inr c)"

definition extract_from_tag :: "sip_message \<Rightarrow> string + string option" where
  "extract_from_tag m =
    (case sg_from m of None \<Rightarrow> Inl ''No From header'' | Some h \<Rightarrow> Inr (extract_tag_from_header h))"

definition extract_to_tag :: "sip_message \<Rightarrow> string + string option" where
  "extract_to_tag m =
    (case sg_to m of None \<Rightarrow> Inl ''No To header'' | Some h \<Rightarrow> Inr (extract_tag_from_header h))"

definition is_provisional_response :: "sip_message \<Rightarrow> bool" where
  "is_provisional_response m = (case sg_kind m of SipResponse s \<Rightarrow> 100 \<le> s \<and> s < 200 | SipRequest _ \<Rightarrow> False)"

definition is_success_response :: "sip_message \<Rightarrow> bool" where
  "is_success_response m = (case sg_kind m of SipResponse s \<Rightarrow> 200 \<le> s \<and> s < 300 | SipRequest _ \<Rightarrow> False)"

definition is_failure_response :: "sip_message \<Rightarrow> bool" where
  "is_failure_response m = (case sg_kind m of SipResponse s \<Rightarrow> 300 \<le> s | SipRequest _ \<Rightarrow> False)"

definition requests_match :: "sip_message \<Rightarrow> sip_message \<Rightarrow> bool" where
  "requests_match m p \<longleftrightarrow> sg_kind m = sg_kind p \<and> sg_call_id m = sg_call_id p \<and> sg_cseq m = sg_cseq p \<and> sg_from m = sg_from p"

definition responses_match :: "sip_message \<Rightarrow> sip_message \<Rightarrow> bool" where
  "responses_match m p \<longleftrightarrow> sg_kind m = sg_kind p \<and> sg_call_id m = sg_call_id p \<and> sg_cseq m = sg_cseq p \<and>
     sg_from m = sg_from p \<and> sg_to m = sg_to p"

definition is_retransmission :: "sip_message \<Rightarrow> sip_message list \<Rightarrow> bool" where
  "is_retransmission m previous =
    (case sg_kind m of
       SipRequest _ \<Rightarrow> list_ex (\<lambda>p. (case sg_kind p of SipRequest _ \<Rightarrow> requests_match m p | SipResponse _ \<Rightarrow> False)) previous
     | SipResponse _ \<Rightarrow> list_ex (\<lambda>p. (case sg_kind p of SipResponse _ \<Rightarrow> responses_match m p | SipRequest _ \<Rightarrow> False)) previous)"

section \<open>Dialogs and transactions\<close>

datatype dialog_state = D_None | D_Early | D_Confirmed | D_Terminated

datatype invite_state = I_Calling | I_Proceeding | I_Completed | I_Terminated

datatype non_invite_state = N_Trying | N_Completed | N_Terminated

datatype transaction_state = T_Invite invite_state | T_NonInvite non_invite_state

text \<open>The addresses and the route set of a dialog are left out: they are always the defaults and
  nothing reads them.\<close>

record sip_dialog =
  dg_dialog_id :: string
  dg_call_id :: string
  dg_local_tag :: string
  dg_remote_tag :: string
  dg_local_seq :: u32
  dg_remote_seq :: u32
  dg_state :: dialog_state
  dg_created_at :: int
  dg_last_activity :: int

text \<open>The timer fields of a transaction are left out: they are always empty.\<close>

record sip_transaction =
  tx_transaction_id :: string
  tx_method :: sip_method
  tx_state :: transaction_state
  tx_request :: sip_message
  tx_responses :: "sip_message list"
  tx_created_at :: int

record sip_state_config =
  ss_timer_t1 :: u64
  ss_timer_t2 :: u64
  ss_timer_t4 :: u64
  ss_max_dialog_lifetime :: u64
  ss_max_transaction_lifetime :: u64
  ss_cleanup_interval :: u64

definition default_sip_state_config :: sip_state_config where
  "default_sip_state_config = \<lparr>ss_timer_t1 = 500, ss_timer_t2 = 4000, ss_timer_t4 = 5000,
     ss_max_dialog_lifetime = 3600, ss_max_transaction_lifetime = 300, ss_cleanup_interval = 60\<rparr>"

record sip_state_manager =
  sm_dialogs :: "string \<rightharpoonup> sip_dialog"
  sm_transactions :: "string \<rightharpoonup> sip_transaction"
  sm_config :: sip_state_config

definition new_sip_state_manager :: "sip_state_config \<Rightarrow> sip_state_manager" where
  "new_sip_state_manager config = \<lparr>sm_dialogs = Map.empty, sm_transactions = Map.empty, sm_config = config\<rparr>"

datatype sip_state_action =
    ProcessNewInvite string
  | ProcessReInvite string string
  | ProcessAck string
  | ProcessBye string string
  | ProcessCancel string string
  | ProcessOtherRequest string sip_method
  | ProcessResponse string "string option" bool
  | RetransmitLastResponse string
  | DropMessage

type_synonym sip_result = "(string + sip_state_action) \<times> sip_state_manager"

text \<open>The code's function: the branch parameter is not read.\<close>

definition extract_transaction_id :: "sip_message \<Rightarrow> string + string" where
  "extract_transaction_id m =
    (if sg_via m = None then Inl ''No Via header'' else Inl ''No branch parameter in Via header'')"

definition dialog_id_of :: "string \<Rightarrow> string \<Rightarrow> string \<Rightarrow> string" where
  "dialog_id_of call_id from_tag to_tag = call_id @ '':'' @ from_tag @ '':'' @ to_tag"

definition new_transaction :: "int \<Rightarrow> string \<Rightarrow> sip_method \<Rightarrow> transaction_state \<Rightarrow> sip_message \<Rightarrow> sip_transaction" where
  "new_transaction now i method st m = \<lparr>tx_transaction_id = i, tx_method = method, tx_state = st, tx_request = m,
     tx_responses = [], tx_created_at = now\<rparr>"

definition put_transaction :: "string \<Rightarrow> sip_transaction \<Rightarrow> sip_state_manager \<Rightarrow> sip_state_manager" where
  "put_transaction i t s = s\<lparr>sm_transactions := (sm_transactions s)(i \<mapsto> t)\<rparr>"

definition put_dialog :: "string \<Rightarrow> sip_dialog \<Rightarrow> sip_state_manager \<Rightarrow> sip_state_manager" where
  "put_dialog i d s = s\<lparr>sm_dialogs := (sm_dialogs s)(i \<mapsto> d)\<rparr>"

definition touch_dialog :: "int \<Rightarrow> dialog_state \<Rightarrow> sip_dialog \<Rightarrow> sip_dialog" where
  "touch_dialog now st d = d\<lparr>dg_state := st, dg_last_activity := now\<rparr>"

subsection \<open>Requests\<close>

definition process_invite_request ::
    "(sip_message \<Rightarrow> string + string) \<Rightarrow> int \<Rightarrow> sip_message \<Rightarrow> string \<Rightarrow> string option \<Rightarrow> string option \<Rightarrow> sip_state_manager \<Rightarrow> sip_result" where
  "process_invite_request branch now m call_id from_tag to_tag s =
    (case branch m of
       Inl e \<Rightarrow> (Inl e, s)
     | Inr i \<Rightarrow>
         if sm_transactions s i \<noteq> None then (Inr (RetransmitLastResponse i), s)
         else
           let s = put_transaction i (new_transaction now i M_Invite (T_Invite I_Proceeding) m) s
           in (case (from_tag, to_tag) of
                 (Some from_tag, Some to_tag) \<Rightarrow>
                   let d = dialog_id_of call_id from_tag to_tag
                   in if sm_dialogs s d \<noteq> None then (Inr (ProcessReInvite i d), s)
                      else (Inr (ProcessNewInvite i), s)
               | _ \<Rightarrow> (Inr (ProcessNewInvite i), s)))"

definition process_ack_request ::
    "int \<Rightarrow> string \<Rightarrow> string option \<Rightarrow> string option \<Rightarrow> sip_state_manager \<Rightarrow> sip_result" where
  "process_ack_request now call_id from_tag to_tag s =
    (case (from_tag, to_tag) of
       (Some from_tag, Some to_tag) \<Rightarrow>
         let d = dialog_id_of call_id from_tag to_tag
         in (case sm_dialogs s d of
               Some dialog \<Rightarrow> (Inr (ProcessAck d), put_dialog d (touch_dialog now D_Confirmed dialog) s)
             | None \<Rightarrow> (Inr (ProcessAck ''unknown''), s))
     | _ \<Rightarrow> (Inr (ProcessAck ''unknown''), s))"

definition process_bye_request ::
    "(sip_message \<Rightarrow> string + string) \<Rightarrow> int \<Rightarrow> sip_message \<Rightarrow> string \<Rightarrow> string option \<Rightarrow> string option \<Rightarrow> sip_state_manager \<Rightarrow> sip_result" where
  "process_bye_request branch now m call_id from_tag to_tag s =
    (case branch m of
       Inl e \<Rightarrow> (Inl e, s)
     | Inr i \<Rightarrow>
         let s = put_transaction i (new_transaction now i M_Bye (T_NonInvite N_Trying) m) s
         in (case (from_tag, to_tag) of
               (Some from_tag, Some to_tag) \<Rightarrow>
                 let d = dialog_id_of call_id from_tag to_tag
                 in (case sm_dialogs s d of
                       Some dialog \<Rightarrow> (Inr (ProcessBye i d), put_dialog d (touch_dialog now D_Terminated dialog) s)
                     | None \<Rightarrow> (Inr (ProcessBye i ''unknown''), s))
             | _ \<Rightarrow> (Inr (ProcessBye i ''unknown''), s)))"

definition process_cancel_request ::
    "(sip_message \<Rightarrow> string + string) \<Rightarrow> sip_message \<Rightarrow> sip_state_manager \<Rightarrow> sip_result" where
  "process_cancel_request branch m s =
    (case branch m of
       Inl e \<Rightarrow> (Inl e, s)
     | Inr i \<Rightarrow>
         (case sm_transactions s i of
            Some t \<Rightarrow>
              if tx_method t = M_Invite
              then (Inr (ProcessCancel i i), put_transaction i (t\<lparr>tx_state := T_Invite I_Completed\<rparr>) s)
              else (Inr DropMessage, s)
          | None \<Rightarrow> (Inr DropMessage, s)))"

definition process_other_request ::
    "(sip_message \<Rightarrow> string + string) \<Rightarrow> int \<Rightarrow> sip_method \<Rightarrow> sip_message \<Rightarrow> sip_state_manager \<Rightarrow> sip_result" where
  "process_other_request branch now method m s =
    (case branch m of
       Inl e \<Rightarrow> (Inl e, s)
     | Inr i \<Rightarrow>
         if sm_transactions s i \<noteq> None then (Inr (RetransmitLastResponse i), s)
         else (Inr (ProcessOtherRequest i method),
               put_transaction i (new_transaction now i method (T_NonInvite N_Trying) m) s))"

definition process_request ::
    "(sip_message \<Rightarrow> string + string) \<Rightarrow> int \<Rightarrow> sip_method \<Rightarrow> sip_message \<Rightarrow> sip_state_manager \<Rightarrow> sip_result" where
  "process_request branch now method m s =
    (case extract_call_id m of
       Inl e \<Rightarrow> (Inl e, s)
     | Inr call_id \<Rightarrow> (case extract_from_tag m of
       Inl e \<Rightarrow> (Inl e, s)
     | Inr from_tag \<Rightarrow> (case extract_to_tag m of
       Inl e \<Rightarrow> (Inl e, s)
     | Inr to_tag \<Rightarrow> (case method of
         M_Invite \<Rightarrow> process_invite_request branch now m call_id from_tag to_tag s
       | M_Ack \<Rightarrow> process_ack_request now call_id from_tag to_tag s
       | M_Bye \<Rightarrow> process_bye_request branch now m call_id from_tag to_tag s
       | M_Cancel \<Rightarrow> process_cancel_request branch m s
       | _ \<Rightarrow> process_other_request branch now method m s))))"

subsection \<open>Responses\<close>

definition next_transaction_state :: "u16 \<Rightarrow> transaction_state \<Rightarrow> transaction_state" where
  "next_transaction_state status st =
    (case st of
       T_Invite I_Calling \<Rightarrow>
         if 100 \<le> status \<and> status < 200 then T_Invite I_Proceeding
         else if 200 \<le> status then T_Invite I_Completed else st
     | T_Invite I_Proceeding \<Rightarrow> if 200 \<le> status then T_Invite I_Completed else st
     | T_NonInvite N_Trying \<Rightarrow> if 200 \<le> status then T_NonInvite N_Completed else st
     | _ \<Rightarrow> st)"

definition update_transaction_state_for_response :: "u16 \<Rightarrow> sip_message \<Rightarrow> sip_transaction \<Rightarrow> sip_transaction" where
  "update_transaction_state_for_response status m t =
     t\<lparr>tx_state := next_transaction_state status (tx_state t), tx_responses := tx_responses t @ [m]\<rparr>"

definition create_or_update_dialog ::
    "int \<Rightarrow> string \<Rightarrow> string \<Rightarrow> string option \<Rightarrow> string option \<Rightarrow> sip_state_manager \<Rightarrow> sip_state_manager" where
  "create_or_update_dialog now d call_id from_tag to_tag s =
    (case sm_dialogs s d of
       Some dialog \<Rightarrow> put_dialog d (touch_dialog now D_Confirmed dialog) s
     | None \<Rightarrow> put_dialog d
         \<lparr>dg_dialog_id = d, dg_call_id = call_id,
          dg_local_tag = (case from_tag of Some t \<Rightarrow> t | None \<Rightarrow> []),
          dg_remote_tag = (case to_tag of Some t \<Rightarrow> t | None \<Rightarrow> []),
          dg_local_seq = 1, dg_remote_seq = 1, dg_state = D_Early, dg_created_at = now, dg_last_activity = now\<rparr> s)"

definition process_response ::
    "(sip_message \<Rightarrow> string + string) \<Rightarrow> int \<Rightarrow> u16 \<Rightarrow> sip_message \<Rightarrow> sip_state_manager \<Rightarrow> sip_result" where
  "process_response branch now status m s =
    (case extract_call_id m of
       Inl e \<Rightarrow> (Inl e, s)
     | Inr call_id \<Rightarrow> (case extract_from_tag m of
       Inl e \<Rightarrow> (Inl e, s)
     | Inr from_tag \<Rightarrow> (case extract_to_tag m of
       Inl e \<Rightarrow> (Inl e, s)
     | Inr to_tag \<Rightarrow> (case branch m of
       Inl e \<Rightarrow> (Inl e, s)
     | Inr i \<Rightarrow> (case sm_transactions s i of
         None \<Rightarrow> (Inr DropMessage, s)
       | Some t \<Rightarrow>
           let s = put_transaction i (update_transaction_state_for_response status m t) s;
               s = (if is_success_response m then
                      (case to_tag of
                         Some tag \<Rightarrow> create_or_update_dialog now
                           (dialog_id_of call_id (case from_tag of Some f \<Rightarrow> f | None \<Rightarrow> []) tag)
                           call_id from_tag (Some tag) s
                       | None \<Rightarrow> s)
                    else s)
           in (Inr (ProcessResponse i None (is_success_response m \<and> tx_method t = M_Invite)), s))))))"

definition process_message ::
    "(sip_message \<Rightarrow> string + string) \<Rightarrow> int \<Rightarrow> sip_message \<Rightarrow> sip_state_manager \<Rightarrow> sip_result" where
  "process_message branch now m s =
    (case sg_kind m of
       SipRequest method \<Rightarrow> process_request branch now method m s
     | SipResponse status \<Rightarrow> process_response branch now status m s)"

definition sip_process :: "int \<Rightarrow> sip_message \<Rightarrow> sip_state_manager \<Rightarrow> sip_result" where
  "sip_process = process_message extract_transaction_id"

subsection \<open>Cleanup\<close>

definition seconds_ns :: "u64 \<Rightarrow> int" where
  "seconds_ns w = sint w * 1000000000"

definition cleanup_expired_state :: "int \<Rightarrow> sip_state_manager \<Rightarrow> sip_state_manager" where
  "cleanup_expired_state now s =
    (let dialog_cutoff = now - seconds_ns (ss_max_dialog_lifetime (sm_config s));
         transaction_cutoff = now - seconds_ns (ss_max_transaction_lifetime (sm_config s))
     in s\<lparr>sm_dialogs := (\<lambda>i. case sm_dialogs s i of
            Some d \<Rightarrow> if dg_last_activity d < dialog_cutoff \<or> dg_state d = D_Terminated then None else Some d
          | None \<Rightarrow> None),
          sm_transactions := (\<lambda>i. case sm_transactions s i of
            Some t \<Rightarrow> if tx_created_at t < transaction_cutoff then None else Some t
          | None \<Rightarrow> None)\<rparr>)"

section \<open>No transaction is ever created\<close>

lemma new_sip_simps [simp]:
  "sm_transactions (new_sip_state_manager config) = Map.empty" "sm_dialogs (new_sip_state_manager config) = Map.empty"
  by (simp_all add: new_sip_state_manager_def)

lemma extract_transaction_id_fails: "\<exists>e. extract_transaction_id m = Inl e"
  by (simp add: extract_transaction_id_def)

lemma no_transaction_request:
  assumes "branch m = Inl e"
  shows "process_invite_request branch now m c f t s = (Inl e, s)" "process_bye_request branch now m c f t s = (Inl e, s)"
    "process_cancel_request branch m s = (Inl e, s)" "process_other_request branch now method m s = (Inl e, s)"
  using assms by (simp_all add: process_invite_request_def process_bye_request_def process_cancel_request_def
      process_other_request_def)

lemma ack_unknown_dialog:
  "sm_dialogs s = Map.empty \<Longrightarrow> process_ack_request now c f t s = (Inr (ProcessAck ''unknown''), s)"
  by (simp add: process_ack_request_def Let_def split: option.split)

lemma sip_process_unchanged: "sm_dialogs s = Map.empty \<Longrightarrow> snd (sip_process now m s) = s"
  using extract_transaction_id_fails [of m]
  by (auto simp: sip_process_def process_message_def process_request_def process_response_def
      no_transaction_request ack_unknown_dialog split: sip_kind.split sum.split sip_method.split)

lemma validate_headers:
  assumes "validate_message m = None"
  shows "sg_via m \<noteq> None \<and> sg_from m \<noteq> None \<and> sg_to m \<noteq> None \<and> sg_call_id m \<noteq> None"
  using assms by (cases "sg_kind m")
    (simp_all add: validate_message_def validate_request_def validate_response_def split: if_splits)

lemma sip_process_result:
  assumes "sm_dialogs s = Map.empty" and "validate_message m = None"
  shows "fst (sip_process now m s) =
      (if sg_kind m = SipRequest M_Ack then Inr (ProcessAck ''unknown'') else Inl ''No branch parameter in Via header'')"
proof -
  from validate_headers [OF assms(2)]
  have e: "extract_transaction_id m = Inl ''No branch parameter in Via header''"
    and "\<exists>c f t. extract_call_id m = Inr c \<and> extract_from_tag m = Inr f \<and> extract_to_tag m = Inr t"
    by (auto simp: extract_transaction_id_def extract_call_id_def extract_from_tag_def extract_to_tag_def)
  then show ?thesis
    by (auto simp: sip_process_def process_message_def process_request_def process_response_def
        no_transaction_request [where branch = extract_transaction_id] e ack_unknown_dialog [OF assms(1)] split: sip_kind.split sip_method.split)
qed

definition sip_run :: "(int \<times> sip_message) list \<Rightarrow> sip_state_manager \<Rightarrow> sip_state_manager" where
  "sip_run = fold (\<lambda>(now, m) s. snd (sip_process now m s))"

lemma sip_run_new: "sip_run ms (new_sip_state_manager config) = new_sip_state_manager config"
  by (induction ms) (auto simp: sip_run_def sip_process_unchanged)

text \<open>Whatever messages the manager has processed, it holds no transaction and no dialog; each
  valid message after them is an error because of its transaction identifier, except an ACK, which
  is reported for an unknown dialog.\<close>

theorem sip_state_stays_empty:
  assumes "validate_message m = None"
  shows "sip_run ms (new_sip_state_manager config) = new_sip_state_manager config \<and>
    fst (sip_process now m (sip_run ms (new_sip_state_manager config))) =
      (if sg_kind m = SipRequest M_Ack then Inr (ProcessAck ''unknown'') else Inl ''No branch parameter in Via header'')"
  using assms by (simp add: sip_run_new sip_process_result)

definition plain_sip_message :: "sip_kind \<Rightarrow> sip_message" where
  "plain_sip_message kind = \<lparr>sg_kind = kind, sg_via = Some ''SIP/2.0/UDP a;branch=z9hG4bK-1'',
     sg_from = Some ''<sip:a@b>;tag=f'', sg_to = Some ''<sip:c@d>;tag=t'', sg_call_id = Some ''x'',
     sg_cseq = Some ''1 INVITE'', sg_max_forwards = Some ''70'', sg_contact = Some ''<sip:a@b>'',
     sg_content_lengths = [0], sg_has_content_type = False\<rparr>"

lemma valid_plain: "validate_message (plain_sip_message (SipRequest M_Bye)) = None"
  "sg_kind (plain_sip_message k) = k"
  by (simp_all add: plain_sip_message_def validate_message_def validate_request_def)

theorem sip_state_stays_empty_witness:
  "fst (sip_process 0 (plain_sip_message (SipRequest M_Bye))
      (sip_run [(0, plain_sip_message (SipRequest M_Invite))] (new_sip_state_manager default_sip_state_config))) =
    Inl ''No branch parameter in Via header''"
  using sip_state_stays_empty [OF valid_plain(1), THEN conjunct2] by (simp add: valid_plain(2))

section \<open>The state machine with transaction identifiers\<close>

text \<open>The handlers with any function that names the transaction of a message.\<close>

inductive sip_step :: "(sip_message \<Rightarrow> string + string) \<Rightarrow> sip_state_manager \<Rightarrow> sip_state_manager \<Rightarrow> bool"
  for branch where
  sip_message_step: "sip_step branch s (snd (process_message branch now m s))"
| sip_cleanup_step: "sip_step branch s (cleanup_expired_state now s)"

inductive_simps sip_step_iff: "sip_step branch s t"

definition transaction_typed :: "string \<Rightarrow> sip_transaction \<Rightarrow> bool" where
  "transaction_typed i t \<longleftrightarrow> tx_transaction_id t = i \<and>
     (if tx_method t = M_Invite then tx_state t = T_Invite I_Proceeding \<or> tx_state t = T_Invite I_Completed
      else tx_state t = T_NonInvite N_Trying \<or> tx_state t = T_NonInvite N_Completed)"

definition dialog_typed :: "string \<Rightarrow> sip_dialog \<Rightarrow> bool" where
  "dialog_typed i d \<longleftrightarrow> dg_dialog_id d = i \<and> i = dialog_id_of (dg_call_id d) (dg_local_tag d) (dg_remote_tag d) \<and>
     dg_state d \<noteq> D_None"

definition sip_typed :: "sip_state_manager \<Rightarrow> bool" where
  "sip_typed s \<longleftrightarrow> (\<forall>i t. sm_transactions s i = Some t \<longrightarrow> transaction_typed i t) \<and>
     (\<forall>i d. sm_dialogs s i = Some d \<longrightarrow> dialog_typed i d)"

lemma put_transaction_typed: "sip_typed s \<Longrightarrow> transaction_typed i t \<Longrightarrow> sip_typed (put_transaction i t s)"
  by (simp add: sip_typed_def put_transaction_def)

lemma put_dialog_typed: "sip_typed s \<Longrightarrow> dialog_typed i d \<Longrightarrow> sip_typed (put_dialog i d s)"
  by (simp add: sip_typed_def put_dialog_def)

lemma dialog_of_put_transaction [simp]: "sm_dialogs (put_transaction i t s) = sm_dialogs s"
  by (simp add: put_transaction_def)

lemma sip_typed_transaction: "sip_typed s \<Longrightarrow> sm_transactions s i = Some t \<Longrightarrow> transaction_typed i t"
  by (simp add: sip_typed_def)

lemma touch_typed:
  "sip_typed s \<Longrightarrow> sm_dialogs s i = Some d \<Longrightarrow> st \<noteq> D_None \<Longrightarrow> sip_typed (put_dialog i (touch_dialog now st d) s)"
  by (rule put_dialog_typed) (auto simp: sip_typed_def dialog_typed_def touch_dialog_def)

lemma new_transaction_typed:
  "transaction_typed i (new_transaction now i M_Invite (T_Invite I_Proceeding) m)"
  "method \<noteq> M_Invite \<Longrightarrow> transaction_typed i (new_transaction now i method (T_NonInvite N_Trying) m)"
  by (auto simp: transaction_typed_def new_transaction_def)

lemma process_request_typed:
  assumes "sip_typed s" shows "sip_typed (snd (process_request branch now method m s))"
proof -
  have "sip_typed (snd (process_invite_request branch now m c f t s))" for c f t
    using assms by (auto simp: process_invite_request_def Let_def new_transaction_typed
        intro!: put_transaction_typed split: sum.split option.split)
  moreover have "sip_typed (snd (process_ack_request now c f t s))" for c f t
    using assms by (auto simp: process_ack_request_def Let_def intro: touch_typed split: option.split)
  moreover have "sip_typed (snd (process_bye_request branch now m c f t s))" for c f t
  proof (cases "branch m")
    case (Inr i)
    have "sip_typed (put_transaction i (new_transaction now i M_Bye (T_NonInvite N_Trying) m) s)"
      by (simp add: assms put_transaction_typed new_transaction_typed)
    with Inr show ?thesis
      by (auto simp: process_bye_request_def Let_def intro: touch_typed split: option.split)
  qed (simp add: process_bye_request_def assms)
  moreover have "sip_typed (snd (process_cancel_request branch m s))"
    using assms by (auto simp: process_cancel_request_def Let_def transaction_typed_def
        dest: sip_typed_transaction intro!: put_transaction_typed split: sum.split option.split)
  moreover have "sip_typed (snd (process_other_request branch now method m s))" if "method \<noteq> M_Invite"
    using assms that by (auto simp: process_other_request_def Let_def new_transaction_typed
        intro!: put_transaction_typed split: sum.split)
  ultimately show ?thesis
    using assms by (auto simp: process_request_def split: sum.split sip_method.split)
qed

lemma next_state_typed:
  "transaction_typed i t \<Longrightarrow> transaction_typed i (update_transaction_state_for_response status m t)"
  by (auto simp: transaction_typed_def update_transaction_state_for_response_def next_transaction_state_def
      split: if_splits)

lemma create_or_update_typed:
  "sip_typed s \<Longrightarrow> d = dialog_id_of c (case f of Some x \<Rightarrow> x | None \<Rightarrow> []) t \<Longrightarrow>
    sip_typed (create_or_update_dialog now d c f (Some t) s)"
  by (auto simp: create_or_update_dialog_def dialog_typed_def intro: touch_typed put_dialog_typed split: option.split)

lemma process_response_typed:
  assumes "sip_typed s" shows "sip_typed (snd (process_response branch now status m s))"
proof -
  have "sip_typed (put_transaction i (update_transaction_state_for_response status m t) s)"
    if "sm_transactions s i = Some t" for i t
    using assms that by (intro put_transaction_typed next_state_typed) (auto dest: sip_typed_transaction)
  then show ?thesis
    using assms by (auto simp: process_response_def Let_def create_or_update_typed split: sum.split option.split)
qed

interpretation sip: invariant_machine "\<lambda>s. s = new_sip_state_manager config" "sip_step branch" sip_typed
  for config branch
proof
  show "sip_typed s" if "s = new_sip_state_manager config" for s
    using that by (simp add: sip_typed_def new_sip_state_manager_def)
  fix s t assume s: "sip_typed s" "sip_step branch s t"
  have "sip_typed (cleanup_expired_state now s)" for now
    using s(1) by (auto simp: sip_typed_def cleanup_expired_state_def Let_def split: option.splits if_splits)
  with s show "sip_typed t"
    by (auto simp: sip_step_iff process_message_def process_request_typed process_response_typed split: sip_kind.split)
qed

text \<open>C36: However transactions are named, every stored transaction is filed under its own
  identifier and has a state of its kind, and that state is never a terminated one: transactions end
  only by their age. Every dialog is filed under its call identifier and tags.\<close>

theorem sip_transactions_typed:
  assumes "(sip_step branch)\<^sup>*\<^sup>* (new_sip_state_manager config) s"
  shows "(\<forall>i t. sm_transactions s i = Some t \<longrightarrow> tx_transaction_id t = i \<and>
      (if tx_method t = M_Invite then tx_state t = T_Invite I_Proceeding \<or> tx_state t = T_Invite I_Completed
       else tx_state t = T_NonInvite N_Trying \<or> tx_state t = T_NonInvite N_Completed)) \<and>
    (\<forall>i d. sm_dialogs s i = Some d \<longrightarrow> i = dialog_id_of (dg_call_id d) (dg_local_tag d) (dg_remote_tag d))"
  using sip.reachable_inv [OF refl assms]
  unfolding sip_typed_def transaction_typed_def dialog_typed_def by blast

definition invite_then_ok :: "sip_state_manager" where
  "invite_then_ok = snd (process_message (\<lambda>m. Inr ''z'') 1 (plain_sip_message (SipResponse 200))
     (snd (process_message (\<lambda>m. Inr ''z'') 0 (plain_sip_message (SipRequest M_Invite))
       (new_sip_state_manager default_sip_state_config))))"

lemma plain_tags [simp]:
  "extract_call_id (plain_sip_message k) = Inr ''x''" "extract_from_tag (plain_sip_message k) = Inr (Some ''f'')"
  "extract_to_tag (plain_sip_message k) = Inr (Some ''t'')" "sg_kind (plain_sip_message k) = k"
  by (simp_all add: plain_sip_message_def extract_call_id_def extract_from_tag_def extract_to_tag_def)
    (code_simp+)

lemma invite_then_ok:
  "sm_transactions invite_then_ok ''z'' \<noteq> None"
  "map_option dg_state (sm_dialogs invite_then_ok ''x:f:t'') = Some D_Early"
  by (simp_all add: invite_then_ok_def process_message_def process_request_def process_invite_request_def
      process_response_def put_transaction_def put_dialog_def new_transaction_def
      update_transaction_state_for_response_def next_transaction_state_def is_success_response_def
      create_or_update_dialog_def dialog_id_of_def Let_def)

theorem sip_transactions_typed_witness:
  "\<exists>t. sm_transactions invite_then_ok ''z'' = Some t \<and> tx_transaction_id t = ''z''"
proof -
  have "(sip_step (\<lambda>m. Inr ''z''))\<^sup>*\<^sup>* (new_sip_state_manager default_sip_state_config) invite_then_ok"
    unfolding invite_then_ok_def
    by (rule rtranclp.rtrancl_into_rtrancl [OF r_into_rtranclp]) (rule sip_message_step)+
  from sip_transactions_typed [OF this] invite_then_ok(1) show ?thesis by auto
qed

section \<open>Retransmissions and dialogs\<close>

text \<open>An INVITE whose transaction is known changes nothing and asks for the last response.\<close>

lemma invite_retransmission:
  assumes "branch m = Inr i" and "fst (process_invite_request branch now m c f t s) \<noteq> Inr (RetransmitLastResponse i)"
  shows "process_invite_request branch now' m c f' t' (snd (process_invite_request branch now m c f t s)) =
    (Inr (RetransmitLastResponse i), snd (process_invite_request branch now m c f t s))"
  using assms by (auto simp: process_invite_request_def Let_def put_transaction_def split: option.split)

text \<open>A BYE repeated with the same branch is not recognised as a retransmission: it starts its
  transaction anew and is reported again.\<close>

lemma bye_retransmission_processed_again:
  "branch m = Inr i \<Longrightarrow> fst (process_bye_request branch now m c f t s) \<noteq> Inr (RetransmitLastResponse i)"
  by (auto simp: process_bye_request_def Let_def split: option.split)

text \<open>An ACK that arrives after the BYE confirms the terminated dialog again.\<close>

lemma late_ack_revives_dialog:
  assumes "branch m = Inr i" and "sm_dialogs s (dialog_id_of c f t) = Some d"
  shows "\<exists>d'. sm_dialogs (snd (process_bye_request branch now m c (Some f) (Some t) s)) (dialog_id_of c f t) = Some d' \<and>
      dg_state d' = D_Terminated"
    and "\<exists>d'. sm_dialogs (snd (process_ack_request now' c (Some f) (Some t)
      (snd (process_bye_request branch now m c (Some f) (Some t) s)))) (dialog_id_of c f t) = Some d' \<and>
      dg_state d' = D_Confirmed"
  using assms
  by (auto simp: process_bye_request_def process_ack_request_def Let_def put_dialog_def touch_dialog_def)

end
