(* ===== verification/DdosProtection.thy ===== *)
theory DdosProtection
  imports Complex_Main Redfire_Prelude
begin

text \<open>
  Protection against floods (\<open>src/ddos_protection.rs\<close>): black list, sliding window and
  burst counter of each address, anomaly score, connection counts. An address and a subnet are their
  texts; parsing subnets and testing membership belong to the \<open>ipnetwork\<close> library and are
  arguments. The monotonic time \<open>now\<close> and the calendar time \<open>utc\<close> of an operation
  are arguments, in nanoseconds; floating point numbers are reals.
\<close>

section \<open>Data\<close>

record anomaly_detection_config =
  an_enabled :: bool
  an_baseline_window_minutes :: u32
  an_deviation_threshold :: real
  an_min_samples_required :: u32

record ddos_config =
  dc_enabled :: bool
  dc_detection_window_seconds :: u64
  dc_max_requests_per_second :: u32
  dc_max_concurrent_connections :: u32
  dc_burst_allowance :: u32
  dc_blacklist_duration_minutes :: u32
  dc_whitelist_subnets :: "string list"
  dc_anomaly_detection :: anomaly_detection_config

definition default_ddos_config :: ddos_config where
  "default_ddos_config = \<lparr>dc_enabled = True, dc_detection_window_seconds = 60, dc_max_requests_per_second = 100,
     dc_max_concurrent_connections = 10000, dc_burst_allowance = 50, dc_blacklist_duration_minutes = 60,
     dc_whitelist_subnets = [''127.0.0.0/8'', ''10.0.0.0/8'', ''172.16.0.0/12'', ''192.168.0.0/16''],
     dc_anomaly_detection = \<lparr>an_enabled = True, an_baseline_window_minutes = 60, an_deviation_threshold = 3,
       an_min_samples_required = 100\<rparr>\<rparr>"

record burst_tracker =
  bt_requests_in_burst :: u32
  bt_burst_start :: int
  bt_last_request :: int

datatype blacklist_reason =
    RateLimitExceeded
  | DDoSAttackDetected
  | AnomalousTraffic
  | GeoBlocked
  | ManualBlacklist

record blacklist_entry =
  be_reason :: blacklist_reason
  be_created_at :: int
  be_expires_at :: int
  be_violation_count :: u32

record baseline_metric =
  bm_samples :: "real list"
  bm_mean :: real
  bm_std_dev :: real
  bm_last_updated :: int

record protection_statistics =
  ps_total_requests :: u64
  ps_blocked_requests :: u64
  ps_rate_limited_requests :: u64
  ps_blacklisted_ips :: u64
  ps_anomalies_detected :: u64
  ps_concurrent_connections :: u32

definition no_protection_statistics :: protection_statistics where
  "no_protection_statistics = \<lparr>ps_total_requests = 0, ps_blocked_requests = 0, ps_rate_limited_requests = 0,
     ps_blacklisted_ips = 0, ps_anomalies_detected = 0, ps_concurrent_connections = 0\<rparr>"

text \<open>The tracker and the analyzer, with their maps; the counts of connections are iterated,
  the only metric is the size of requests.\<close>

record ddos_service =
  ds_config :: ddos_config
  ds_active_connections :: "(string \<times> u32) list"
  ds_request_windows :: "string \<rightharpoonup> int list"
  ds_burst_trackers :: "string \<rightharpoonup> burst_tracker"
  ds_baseline_metrics :: "string \<rightharpoonup> baseline_metric"
  ds_current_metrics :: "string \<rightharpoonup> real"
  ds_anomaly_scores :: "(int \<times> real) list"
  ds_blacklist :: "string \<rightharpoonup> blacklist_entry"
  ds_whitelist :: "string list"
  ds_statistics :: protection_statistics

datatype protection_decision = Allow | Block blacklist_reason | RateLimit string

section \<open>Operations\<close>

definition parse_whitelist_subnets :: "(string \<Rightarrow> bool) \<Rightarrow> string list \<Rightarrow> string + string list" where
  "parse_whitelist_subnets valid subnets =
    (case List.find (\<lambda>s. \<not> valid s) subnets of
       Some s \<Rightarrow> Inl (''Invalid subnet '' @ s) | None \<Rightarrow> Inr subnets)"

definition new_ddos_service :: "(string \<Rightarrow> bool) \<Rightarrow> ddos_config \<Rightarrow> string + ddos_service" where
  "new_ddos_service valid config =
    (case parse_whitelist_subnets valid (dc_whitelist_subnets config) of
       Inl e \<Rightarrow> Inl e
     | Inr whitelist \<Rightarrow> Inr \<lparr>ds_config = config, ds_active_connections = [], ds_request_windows = Map.empty,
         ds_burst_trackers = Map.empty, ds_baseline_metrics = Map.empty, ds_current_metrics = Map.empty,
         ds_anomaly_scores = [], ds_blacklist = Map.empty, ds_whitelist = whitelist,
         ds_statistics = no_protection_statistics\<rparr>)"

definition count_ddos :: "(protection_statistics \<Rightarrow> protection_statistics) \<Rightarrow> ddos_service \<Rightarrow> ddos_service" where
  "count_ddos f s = s\<lparr>ds_statistics := f (ds_statistics s)\<rparr>"

definition ns_of_seconds :: "u64 \<Rightarrow> int" where
  "ns_of_seconds w = int (unat w) * 1000000000"

definition ns_of_minutes :: "u32 \<Rightarrow> int" where
  "ns_of_minutes w = int (unat w) * 60000000000"

definition is_whitelisted :: "(string \<Rightarrow> string \<Rightarrow> bool) \<Rightarrow> string \<Rightarrow> ddos_service \<Rightarrow> bool" where
  "is_whitelisted in_network ip s = list_ex (\<lambda>network. in_network network ip) (ds_whitelist s)"

definition is_blacklisted :: "int \<Rightarrow> string \<Rightarrow> ddos_service \<Rightarrow> blacklist_reason option \<times> ddos_service" where
  "is_blacklisted utc ip s =
    (case ds_blacklist s ip of
       Some e \<Rightarrow>
         if utc < be_expires_at e then (Some (be_reason e), s)
         else (None, s\<lparr>ds_blacklist := (ds_blacklist s)(ip := None)\<rparr>)
     | None \<Rightarrow> (None, s))"

definition add_to_blacklist :: "int \<Rightarrow> string \<Rightarrow> blacklist_reason \<Rightarrow> ddos_service \<Rightarrow> ddos_service" where
  "add_to_blacklist utc ip reason s =
    (let expires_at = utc + ns_of_minutes (dc_blacklist_duration_minutes (ds_config s));
         violations = (case ds_blacklist s ip of Some e \<Rightarrow> be_violation_count e + 1 | None \<Rightarrow> 1)
     in count_ddos (\<lambda>t. t\<lparr>ps_blacklisted_ips := ps_blacklisted_ips t + 1\<rparr>)
          (s\<lparr>ds_blacklist := (ds_blacklist s)(ip \<mapsto> \<lparr>be_reason = reason, be_created_at = utc,
             be_expires_at = expires_at, be_violation_count = violations\<rparr>)\<rparr>))"

definition next_burst :: "int \<Rightarrow> burst_tracker \<Rightarrow> burst_tracker" where
  "next_burst now b =
    (let b = (if 5000000000 < now - bt_last_request b
              then b\<lparr>bt_requests_in_burst := 1, bt_burst_start := now\<rparr>
              else b\<lparr>bt_requests_in_burst := bt_requests_in_burst b + 1\<rparr>)
     in b\<lparr>bt_last_request := now\<rparr>)"

definition check_rate_limits :: "int \<Rightarrow> int \<Rightarrow> string \<Rightarrow> ddos_service \<Rightarrow> string option \<times> ddos_service" where
  "check_rate_limits now utc ip s =
    (let window = (case ds_request_windows s ip of Some w \<Rightarrow> w | None \<Rightarrow> []);
         window_start = now - ns_of_seconds (dc_detection_window_seconds (ds_config s));
         window = filter (\<lambda>t. window_start < t) window @ [now];
         s = s\<lparr>ds_request_windows := (ds_request_windows s)(ip \<mapsto> window)\<rparr>
     in if unat (ucast (dc_max_requests_per_second (ds_config s)) * dc_detection_window_seconds (ds_config s)) < length window
        then (Some ''DDoS attack pattern detected'', add_to_blacklist utc ip DDoSAttackDetected s)
        else
          let b = (case ds_burst_trackers s ip of
                     Some b \<Rightarrow> b
                   | None \<Rightarrow> \<lparr>bt_requests_in_burst = 0, bt_burst_start = now, bt_last_request = now\<rparr>);
              b = next_burst now b;
              s = s\<lparr>ds_burst_trackers := (ds_burst_trackers s)(ip \<mapsto> b)\<rparr>
          in if dc_burst_allowance (ds_config s) < bt_requests_in_burst b
             then (Some ''Burst limit exceeded'', s)
             else (None, s))"

definition mean_of :: "real list \<Rightarrow> real" where
  "mean_of xs = sum_list xs / real (length xs)"

definition variance_of :: "real list \<Rightarrow> real" where
  "variance_of xs = sum_list (map (\<lambda>x. (x - mean_of xs) * (x - mean_of xs)) xs) / real (length xs)"

definition detect_anomaly :: "int \<Rightarrow> nat \<Rightarrow> ddos_service \<Rightarrow> real option \<times> ddos_service" where
  "detect_anomaly utc bytes s =
    (let an = dc_anomaly_detection (ds_config s);
         s = s\<lparr>ds_current_metrics := (ds_current_metrics s)(''request_size'' \<mapsto> real bytes)\<rparr>;
         b = (case ds_baseline_metrics s ''request_size'' of
                Some b \<Rightarrow> b
              | None \<Rightarrow> \<lparr>bm_samples = [], bm_mean = 0, bm_std_dev = 0, bm_last_updated = utc\<rparr>);
         window_start = utc - ns_of_minutes (an_baseline_window_minutes an);
         b = b\<lparr>bm_samples := (if window_start < bm_last_updated b then bm_samples b @ [real bytes] else [])\<rparr>
     in if length (bm_samples b) < unat (an_min_samples_required an)
        then (None, s\<lparr>ds_baseline_metrics := (ds_baseline_metrics s)(''request_size'' \<mapsto> b)\<rparr>)
        else
          let b = b\<lparr>bm_mean := mean_of (bm_samples b), bm_std_dev := sqrt (variance_of (bm_samples b))\<rparr>;
              s = s\<lparr>ds_baseline_metrics := (ds_baseline_metrics s)(''request_size'' \<mapsto> b)\<rparr>
          in if 0 < bm_std_dev b
             then
               let z = \<bar>(real bytes - bm_mean b) / bm_std_dev b\<bar>
               in (Some z, s\<lparr>ds_anomaly_scores := filter (\<lambda>(t, _). window_start < t) (ds_anomaly_scores s @ [(utc, z)])\<rparr>)
             else (None, s))"

definition should_allow_request ::
    "(string \<Rightarrow> string \<Rightarrow> bool) \<Rightarrow> int \<Rightarrow> int \<Rightarrow> string \<Rightarrow> nat \<Rightarrow> ddos_service \<Rightarrow> protection_decision \<times> ddos_service" where
  "should_allow_request in_network now utc ip bytes s =
    (if \<not> dc_enabled (ds_config s) then (Allow, s)
     else
       let s = count_ddos (\<lambda>t. t\<lparr>ps_total_requests := ps_total_requests t + 1\<rparr>) s
       in if is_whitelisted in_network ip s then (Allow, s)
          else case is_blacklisted utc ip s of
            (Some reason, s) \<Rightarrow> (Block reason, count_ddos (\<lambda>t. t\<lparr>ps_blocked_requests := ps_blocked_requests t + 1\<rparr>) s)
          | (None, s) \<Rightarrow> (case check_rate_limits now utc ip s of
            (Some reason, s) \<Rightarrow>
              (RateLimit reason, count_ddos (\<lambda>t. t\<lparr>ps_rate_limited_requests := ps_rate_limited_requests t + 1\<rparr>) s)
          | (None, s) \<Rightarrow>
              if an_enabled (dc_anomaly_detection (ds_config s))
              then (case detect_anomaly utc bytes s of
                      (Some score, s) \<Rightarrow>
                        if an_deviation_threshold (dc_anomaly_detection (ds_config s)) < score
                        then (Block AnomalousTraffic, add_to_blacklist utc ip AnomalousTraffic s)
                        else (Allow, s)
                    | (None, s) \<Rightarrow> (Allow, s))
              else (Allow, s)))"

subsection \<open>Connections\<close>

definition total_connections :: "ddos_service \<Rightarrow> u32" where
  "total_connections s = sum_list (map snd (ds_active_connections s))"

definition register_connection :: "string \<Rightarrow> ddos_service \<Rightarrow> bool \<times> ddos_service" where
  "register_connection ip s =
    (if \<not> dc_enabled (ds_config s) then (True, s)
     else
       let total = total_connections s
       in if dc_max_concurrent_connections (ds_config s) \<le> total then (False, s)
          else
            let current = (case map_of (ds_active_connections s) ip of Some n \<Rightarrow> n | None \<Rightarrow> 0);
                s = s\<lparr>ds_active_connections := AList.update ip (current + 1) (ds_active_connections s)\<rparr>
            in (True, count_ddos (\<lambda>t. t\<lparr>ps_concurrent_connections := total + 1\<rparr>) s))"

definition saturating_dec :: "u32 \<Rightarrow> u32" where
  "saturating_dec n = (if n = 0 then 0 else n - 1)"

definition unregister_connection :: "string \<Rightarrow> ddos_service \<Rightarrow> ddos_service" where
  "unregister_connection ip s =
    (let s = (case map_of (ds_active_connections s) ip of
                Some n \<Rightarrow>
                  let n = saturating_dec n
                  in s\<lparr>ds_active_connections :=
                       (if n = 0 then AList.delete ip (ds_active_connections s)
                        else AList.update ip n (ds_active_connections s))\<rparr>
              | None \<Rightarrow> s)
     in count_ddos (\<lambda>t. t\<lparr>ps_concurrent_connections := saturating_dec (ps_concurrent_connections t)\<rparr>) s)"

subsection \<open>Maintenance\<close>

definition keep_entries :: "('v \<Rightarrow> bool) \<Rightarrow> (string \<rightharpoonup> 'v) \<Rightarrow> string \<rightharpoonup> 'v" where
  "keep_entries P m = (\<lambda>k. case m k of Some v \<Rightarrow> if P v then Some v else None | None \<Rightarrow> None)"

definition cleanup_expired_blacklist_entries :: "int \<Rightarrow> ddos_service \<Rightarrow> ddos_service" where
  "cleanup_expired_blacklist_entries utc s =
     s\<lparr>ds_blacklist := keep_entries (\<lambda>e. utc < be_expires_at e) (ds_blacklist s)\<rparr>"

definition cleanup_old_tracking_data :: "int \<Rightarrow> ddos_service \<Rightarrow> ddos_service" where
  "cleanup_old_tracking_data now s =
    (let cutoff = now - ns_of_seconds (dc_detection_window_seconds (ds_config s) * 2)
     in s\<lparr>ds_request_windows := keep_entries (\<lambda>w. w \<noteq> [])
            (\<lambda>k. map_option (filter (\<lambda>t. cutoff < t)) (ds_request_windows s k)),
          ds_burst_trackers := keep_entries (\<lambda>b. cutoff < bt_last_request b) (ds_burst_trackers s)\<rparr>)"

definition update_baseline_metrics :: "int \<Rightarrow> ddos_service \<Rightarrow> ddos_service" where
  "update_baseline_metrics utc s =
     s\<lparr>ds_baseline_metrics := (\<lambda>k. map_option (bm_last_updated_update (\<lambda>_. utc)) (ds_baseline_metrics s k))\<rparr>"

definition maintenance_cycle :: "int \<Rightarrow> int \<Rightarrow> ddos_service \<Rightarrow> ddos_service" where
  "maintenance_cycle now utc s =
     update_baseline_metrics utc (cleanup_old_tracking_data now (cleanup_expired_blacklist_entries utc s))"

section \<open>The connection limit\<close>

lemma count_ddos_simps [simp]:
  "ds_config (count_ddos f s) = ds_config s" "ds_active_connections (count_ddos f s) = ds_active_connections s"
  "ds_request_windows (count_ddos f s) = ds_request_windows s" "ds_burst_trackers (count_ddos f s) = ds_burst_trackers s"
  "ds_blacklist (count_ddos f s) = ds_blacklist s" "ds_whitelist (count_ddos f s) = ds_whitelist s"
  by (simp_all add: count_ddos_def)

lemma add_to_blacklist_simps [simp]:
  "ds_config (add_to_blacklist utc ip r s) = ds_config s"
  "ds_active_connections (add_to_blacklist utc ip r s) = ds_active_connections s"
  by (simp_all add: add_to_blacklist_def)

lemma checks_keep_connections [simp]:
  "ds_config (snd (is_blacklisted utc ip s)) = ds_config s"
  "ds_active_connections (snd (is_blacklisted utc ip s)) = ds_active_connections s"
  "ds_config (snd (check_rate_limits now utc ip s)) = ds_config s"
  "ds_active_connections (snd (check_rate_limits now utc ip s)) = ds_active_connections s"
  "ds_config (snd (detect_anomaly utc bytes s)) = ds_config s"
  "ds_active_connections (snd (detect_anomaly utc bytes s)) = ds_active_connections s"
  by (simp_all add: is_blacklisted_def check_rate_limits_def detect_anomaly_def Let_def split: option.split)

text \<open>The stages of a request, each with the state the one before leaves.\<close>

lemma should_allow_request_stages:
  "should_allow_request in_network now utc ip bytes s =
    (let s0 = count_ddos (\<lambda>t. t\<lparr>ps_total_requests := ps_total_requests t + 1\<rparr>) s;
         (black, s1) = is_blacklisted utc ip s0;
         (limit, s2) = check_rate_limits now utc ip s1;
         (score, s3) = detect_anomaly utc bytes s2
     in if \<not> dc_enabled (ds_config s) then (Allow, s)
        else if is_whitelisted in_network ip s0 then (Allow, s0)
        else if black \<noteq> None
        then (Block (the black), count_ddos (\<lambda>t. t\<lparr>ps_blocked_requests := ps_blocked_requests t + 1\<rparr>) s1)
        else if limit \<noteq> None
        then (RateLimit (the limit), count_ddos (\<lambda>t. t\<lparr>ps_rate_limited_requests := ps_rate_limited_requests t + 1\<rparr>) s2)
        else if \<not> an_enabled (dc_anomaly_detection (ds_config s2)) then (Allow, s2)
        else if score \<noteq> None \<and> an_deviation_threshold (dc_anomaly_detection (ds_config s3)) < the score
        then (Block AnomalousTraffic, add_to_blacklist utc ip AnomalousTraffic s3)
        else (Allow, s3))"
  unfolding should_allow_request_def Let_def
  by (auto split: prod.split option.split)

lemma request_keeps_connections:
  "ds_config (snd (should_allow_request n now utc ip bytes s)) = ds_config s \<and>
   ds_active_connections (snd (should_allow_request n now utc ip bytes s)) = ds_active_connections s"
  using checks_keep_connections
  by (auto simp: should_allow_request_stages Let_def split_beta)

definition nat_connections :: "(string \<times> u32) list \<Rightarrow> nat" where
  "nat_connections al = sum_list (map (\<lambda>(_, n). unat n) al)"

lemma nat_connections_simps [simp]:
  "nat_connections [] = 0" "nat_connections ((k, n) # al) = unat n + nat_connections al"
  by (simp_all add: nat_connections_def)

lemma total_connections_nat: "total_connections s = word_of_nat (nat_connections (ds_active_connections s))"
proof -
  have "sum_list (map snd al) = (word_of_nat (nat_connections al) :: u32)" for al :: "(string \<times> u32) list"
    by (induction al) auto
  then show ?thesis by (simp add: total_connections_def)
qed

lemma nat_connections_update:
  "nat_connections (AList.update k v al) + (case map_of al k of Some w \<Rightarrow> unat w | None \<Rightarrow> 0) =
    nat_connections al + unat v"
  by (induction al) auto

lemma nat_connections_delete: "nat_connections (AList.delete k al) \<le> nat_connections al"
  by (induction al) (auto simp: AList.delete_eq)

inductive ddos_step :: "(string \<Rightarrow> string \<Rightarrow> bool) \<Rightarrow> ddos_service \<Rightarrow> ddos_service \<Rightarrow> bool" for in_network where
  ddos_request: "ddos_step in_network s (snd (should_allow_request in_network now utc ip bytes s))"
| ddos_register: "ddos_step in_network s (snd (register_connection ip s))"
| ddos_unregister: "ddos_step in_network s (unregister_connection ip s)"
| ddos_maintenance: "ddos_step in_network s (maintenance_cycle now utc s)"

inductive_simps ddos_step_iff: "ddos_step in_network s t"

definition connections_inv :: "ddos_config \<Rightarrow> ddos_service \<Rightarrow> bool" where
  "connections_inv config s \<longleftrightarrow> ds_config s = config \<and>
     nat_connections (ds_active_connections s) \<le> unat (dc_max_concurrent_connections config)"

lemma register_inv:
  assumes "connections_inv config s" shows "connections_inv config (snd (register_connection ip s))"
proof (cases "dc_enabled (ds_config s) \<and> total_connections s < dc_max_concurrent_connections (ds_config s)")
  case True
  let ?al = "ds_active_connections s"
  let ?n = "case map_of ?al ip of Some n \<Rightarrow> n | None \<Rightarrow> 0"
  have "unat (dc_max_concurrent_connections config) < 2 ^ LENGTH(32)" by (rule unsigned_less)
  with assms have "nat_connections ?al < 2 ^ 32" by (simp add: connections_inv_def)
  then have "unat (total_connections s) = nat_connections ?al"
    by (simp add: total_connections_nat unsigned_of_nat take_bit_nat_eq_self_iff)
  with True assms have lt: "nat_connections ?al < unat (dc_max_concurrent_connections config)"
    by (simp add: connections_inv_def word_less_nat_alt)
  have "unat (?n + 1) \<le> unat ?n + 1"
    by (simp add: unat_word_ariths mod_less_eq_dividend [THEN order.trans])
  with nat_connections_update [of ip "?n + 1" ?al]
  have "nat_connections (AList.update ip (?n + 1) ?al) \<le> nat_connections ?al + 1"
    by (auto split: option.splits)
  with lt True assms show ?thesis
    by (simp add: register_connection_def connections_inv_def Let_def not_le)
qed (use assms in \<open>auto simp: register_connection_def Let_def not_less\<close>)

lemma unregister_inv:
  assumes "connections_inv config s" shows "connections_inv config (unregister_connection ip s)"
proof (cases "map_of (ds_active_connections s) ip")
  case None
  with assms show ?thesis by (simp add: unregister_connection_def connections_inv_def)
next
  case (Some n)
  have "unat (saturating_dec n) \<le> unat n"
    by (simp add: saturating_dec_def unat_minus_one)
  with Some nat_connections_update [of ip "saturating_dec n" "ds_active_connections s"]
    nat_connections_delete [of ip "ds_active_connections s"] assms
  show ?thesis by (auto simp: unregister_connection_def connections_inv_def Let_def)
qed

interpretation ddos: invariant_machine "\<lambda>s. new_ddos_service valid config = Inr s" "ddos_step in_network" "connections_inv config"
  for valid config in_network
proof
  show "connections_inv config s" if "new_ddos_service valid config = Inr s" for s
    using that by (auto simp: new_ddos_service_def connections_inv_def split: sum.splits)
  fix s t assume s: "connections_inv config s" "ddos_step in_network s t"
  have "connections_inv config (maintenance_cycle now utc s)" for now utc
    using s(1) by (simp add: connections_inv_def maintenance_cycle_def update_baseline_metrics_def
        cleanup_old_tracking_data_def cleanup_expired_blacklist_entries_def Let_def)
  moreover have "connections_inv config (snd (should_allow_request in_network now utc ip bytes s))" for now utc ip bytes
    using s(1) request_keeps_connections by (simp add: connections_inv_def)
  ultimately show "connections_inv config t"
    using s by (auto simp: ddos_step_iff register_inv unregister_inv)
qed

text \<open>Whatever requests, connections and maintenance the service has seen, the connections it
  counts for all addresses together never exceed the configured limit.\<close>

theorem connections_bounded:
  assumes "new_ddos_service valid config = Inr s" and "(ddos_step in_network)\<^sup>*\<^sup>* s t"
  shows "sum_list (map (\<lambda>(_, n). unat n) (ds_active_connections t)) \<le> unat (dc_max_concurrent_connections config)"
  using ddos.reachable_inv [OF assms] by (simp add: connections_inv_def nat_connections_def)

section \<open>Bursts that never end\<close>

fun request_run ::
    "(string \<Rightarrow> string \<Rightarrow> bool) \<Rightarrow> string \<Rightarrow> (int \<times> int \<times> nat) list \<Rightarrow> ddos_service \<Rightarrow>
     protection_decision list \<times> ddos_service" where
  "request_run in_network ip [] s = ([], s)"
| "request_run in_network ip ((now, utc, bytes) # rs) s =
    (let (d, s) = should_allow_request in_network now utc ip bytes s;
         (ds, s) = request_run in_network ip rs s
     in (d # ds, s))"

text \<open>A service in which an address made \<open>k\<close> requests, the last one at \<open>last\<close>.\<close>

definition after_requests :: "string \<Rightarrow> nat \<Rightarrow> int \<Rightarrow> ddos_service \<Rightarrow> bool" where
  "after_requests ip k last_time s \<longleftrightarrow> ds_blacklist s ip = None \<and>
     length (case ds_request_windows s ip of Some w \<Rightarrow> w | None \<Rightarrow> []) \<le> k \<and>
     (case ds_burst_trackers s ip of
        None \<Rightarrow> k = 0
      | Some b \<Rightarrow> unat (bt_requests_in_burst b) = k \<and> bt_last_request b = last_time)"

lemma after_requests_count [simp]: "after_requests ip k t (count_ddos f s) = after_requests ip k t s"
  by (simp add: after_requests_def)

definition burst_decision :: "ddos_config \<Rightarrow> nat \<Rightarrow> protection_decision" where
  "burst_decision config k =
    (if k < unat (dc_burst_allowance config) then Allow else RateLimit ''Burst limit exceeded'')"

definition request_budget :: "ddos_config \<Rightarrow> nat" where
  "request_budget config = unat (ucast (dc_max_requests_per_second config) * dc_detection_window_seconds config)"

lemma steady_check:
  assumes st: "after_requests ip k last_time s" and gap: "k = 0 \<or> now - last_time \<le> 5000000000"
    and budget: "k < request_budget (ds_config s)" and small: "k < 2 ^ 32 - 1"
  shows "fst (check_rate_limits now utc ip s) =
      (if k < unat (dc_burst_allowance (ds_config s)) then None else Some ''Burst limit exceeded'')"
    and "after_requests ip (Suc k) now (snd (check_rate_limits now utc ip s))"
proof -
  let ?w = "filter (\<lambda>t. now - ns_of_seconds (dc_detection_window_seconds (ds_config s)) < t)
    (case ds_request_windows s ip of Some w \<Rightarrow> w | None \<Rightarrow> []) @ [now]"
  let ?b = "next_burst now (case ds_burst_trackers s ip of Some b \<Rightarrow> b
    | None \<Rightarrow> \<lparr>bt_requests_in_burst = 0, bt_burst_start = now, bt_last_request = now\<rparr>)"
  have w: "length ?w \<le> Suc k"
    using st by (auto simp: after_requests_def intro: le_trans [OF length_filter_le])
  have b: "unat (bt_requests_in_burst ?b) = Suc k" "bt_last_request ?b = now"
    using st gap small
    by (auto simp: after_requests_def next_burst_def Let_def unat_word_ariths split: option.splits)
  have lt: "dc_burst_allowance (ds_config s) < bt_requests_in_burst ?b \<longleftrightarrow>
      \<not> k < unat (dc_burst_allowance (ds_config s))"
    by (simp add: word_less_nat_alt b(1) less_Suc_eq_le not_less)
  have u: "check_rate_limits now utc ip s =
      (if dc_burst_allowance (ds_config s) < bt_requests_in_burst ?b then Some ''Burst limit exceeded'' else None,
       s\<lparr>ds_request_windows := (ds_request_windows s)(ip \<mapsto> ?w), ds_burst_trackers := (ds_burst_trackers s)(ip \<mapsto> ?b)\<rparr>)"
    using w budget by (simp add: check_rate_limits_def request_budget_def Let_def)
  show "fst (check_rate_limits now utc ip s) =
      (if k < unat (dc_burst_allowance (ds_config s)) then None else Some ''Burst limit exceeded'')"
    unfolding u lt by simp
  show "after_requests ip (Suc k) now (snd (check_rate_limits now utc ip s))"
    unfolding u using st w b by (simp add: after_requests_def)
qed

lemma steady_request:
  assumes "after_requests ip k last_time s" and "k = 0 \<or> now - last_time \<le> 5000000000"
    and "k < request_budget (ds_config s)" and "k < 2 ^ 32 - 1"
    and "dc_enabled (ds_config s)" and "\<not> an_enabled (dc_anomaly_detection (ds_config s))"
    and "\<not> is_whitelisted in_network ip s"
  shows "fst (should_allow_request in_network now utc ip bytes s) = burst_decision (ds_config s) k"
    and "after_requests ip (Suc k) now (snd (should_allow_request in_network now utc ip bytes s))"
    and "\<not> is_whitelisted in_network ip (snd (should_allow_request in_network now utc ip bytes s))"
proof -
  let ?s = "count_ddos (\<lambda>t. t\<lparr>ps_total_requests := ps_total_requests t + 1\<rparr>) s"
  from assms(1) have st: "after_requests ip k last_time ?s" by simp
  have black: "is_blacklisted utc ip ?s = (None, ?s)"
    using assms(1) by (simp add: is_blacklisted_def after_requests_def)
  obtain limit s2 where r: "check_rate_limits now utc ip ?s = (limit, s2)" by force
  have white: "\<not> is_whitelisted in_network ip ?s" "ds_whitelist s2 = ds_whitelist s"
    using assms(7) arg_cong [OF r, of "\<lambda>x. ds_whitelist (snd x)"]
    by (auto simp: is_whitelisted_def check_rate_limits_def add_to_blacklist_def Let_def split: if_splits)
  have cfg: "ds_config s2 = ds_config s"
    using arg_cong [OF r, of "\<lambda>x. ds_config (snd x)"] by simp
  note check = steady_check [OF st, of now utc, unfolded r fst_conv snd_conv]
  have req: "should_allow_request in_network now utc ip bytes s =
      (case limit of Some e \<Rightarrow> (RateLimit e, count_ddos (\<lambda>t. t\<lparr>ps_rate_limited_requests := ps_rate_limited_requests t + 1\<rparr>) s2)
       | None \<Rightarrow> (Allow, s2))"
    using assms(5,6) white(1) black r cfg
    by (simp add: should_allow_request_def Let_def split: option.split)
  show "fst (should_allow_request in_network now utc ip bytes s) = burst_decision (ds_config s) k"
    using check(1) assms(2-4) by (simp add: req burst_decision_def split: if_splits)
  show "after_requests ip (Suc k) now (snd (should_allow_request in_network now utc ip bytes s))"
    using check(2) assms(2-4) by (auto simp: req split: option.split)
  show "\<not> is_whitelisted in_network ip (snd (should_allow_request in_network now utc ip bytes s))"
    using assms(7) white(2) by (auto simp: req is_whitelisted_def count_ddos_def split: option.split)
qed

lemma steady_run:
  assumes "after_requests ip k last_time s" and "k = 0 \<or> rs = [] \<or> fst (hd rs) - last_time \<le> 5000000000"
    and "successively (\<lambda>r r'. fst r' - fst r \<le> 5000000000) rs"
    and "k + length rs \<le> request_budget (ds_config s)" and "k + length rs < 2 ^ 32"
    and "dc_enabled (ds_config s)" and "\<not> an_enabled (dc_anomaly_detection (ds_config s))"
    and "\<not> is_whitelisted in_network ip s"
  shows "fst (request_run in_network ip rs s) = map (burst_decision (ds_config s)) [k..<k + length rs]"
  using assms
proof (induction rs arbitrary: k last_time s)
  case (Cons r rs)
  obtain now utc bytes where r: "r = (now, utc, bytes)" by (cases r)
  obtain d t where dt: "should_allow_request in_network now utc ip bytes s = (d, t)" by force
  have k: "k < request_budget (ds_config s)" "k < 2 ^ 32 - 1" "k = 0 \<or> now - last_time \<le> 5000000000"
    using Cons.prems(2,4,5) r by auto
  note step = steady_request [OF Cons.prems(1) k(3,1,2) Cons.prems(6,7,8), of utc bytes, unfolded dt fst_conv snd_conv]
  have cfg: "ds_config t = ds_config s"
    using request_keeps_connections [of in_network now utc ip bytes s] dt by simp
  have "fst (request_run in_network ip rs t) = map (burst_decision (ds_config t)) [Suc k..<Suc k + length rs]"
    using Cons.prems r cfg step(2,3)
    by (intro Cons.IH [where last_time = now]) (auto simp: successively_Cons)
  moreover have "[k..<k + length (r # rs)] = k # [Suc k..<Suc k + length rs]"
    by (simp add: upt_conv_Cons del: upt_Suc)
  ultimately show ?case
    using step(1) r dt cfg by (simp add: case_prod_beta del: upt_Suc)
qed simp

text \<open>A client whose requests are never more than five seconds apart is served the burst
  allowance and then refused every further request, however slowly it sends (here with the anomaly
  score off, for an address that is not white-listed and stays within the window limit): the burst
  counter is only reset by a pause.\<close>

theorem steady_client_starved:
  assumes "new_ddos_service valid config = Inr s" and "dc_enabled config"
    and "\<not> an_enabled (dc_anomaly_detection config)" and "\<not> is_whitelisted in_network ip s"
    and "successively (\<lambda>r r'. fst r' - fst r \<le> 5000000000) rs"
    and "length rs \<le> request_budget config" and "length rs < 2 ^ 32"
  shows "fst (request_run in_network ip rs s) =
    map (\<lambda>k. if k < unat (dc_burst_allowance config) then Allow else RateLimit ''Burst limit exceeded'') [0..<length rs]"
proof -
  from assms(1) have s: "ds_config s = config" "after_requests ip 0 0 s"
    by (auto simp: new_ddos_service_def after_requests_def split: sum.splits)
  from steady_run [OF s(2)] assms s(1) show ?thesis
    by (simp add: burst_decision_def [abs_def])
qed

text \<open>One request every four seconds against an allowance of one.\<close>

definition tight_config :: ddos_config where
  "tight_config = default_ddos_config\<lparr>dc_burst_allowance := 1, dc_anomaly_detection :=
     (dc_anomaly_detection default_ddos_config)\<lparr>an_enabled := False\<rparr>\<rparr>"

definition slow_requests :: "(int \<times> int \<times> nat) list" where
  "slow_requests = [(0, 0, 400), (4000000000, 4000000000, 400), (8000000000, 8000000000, 400)]"

definition tight_service :: ddos_service where
  "tight_service = (case new_ddos_service (\<lambda>_. True) tight_config of Inr s \<Rightarrow> s)"

lemma new_tight_service: "new_ddos_service (\<lambda>_. True) tight_config = Inr tight_service"
proof -
  have "parse_whitelist_subnets (\<lambda>_. True) xs = Inr xs" for xs
    by (auto simp: parse_whitelist_subnets_def find_None_iff split: option.split)
  then show ?thesis by (simp add: tight_service_def new_ddos_service_def)
qed

theorem steady_client_starved_witness:
  "fst (request_run (\<lambda>_ _. False) ''203.0.113.7'' slow_requests tight_service) =
    [Allow, RateLimit ''Burst limit exceeded'', RateLimit ''Burst limit exceeded'']"
proof -
  have b: "request_budget tight_config = 6000" "dc_enabled tight_config" "dc_burst_allowance tight_config = 1"
    "\<not> an_enabled (dc_anomaly_detection tight_config)"
    by (simp_all add: request_budget_def tight_config_def default_ddos_config_def)
  have w: "\<not> is_whitelisted (\<lambda>_ _. False) ''203.0.113.7'' tight_service"
    by (simp add: is_whitelisted_def list_ex_iff)
  have r: "successively (\<lambda>r r'. fst r' - fst r \<le> 5000000000) slow_requests" "length slow_requests = 3"
    by (simp_all add: slow_requests_def)
  have "[0..<3] = [0, 1, 2 :: nat]" by (simp add: upt_rec)
  with steady_client_starved [OF new_tight_service b(2,4) w r(1)] show ?thesis
    by (simp add: b r(2))
qed

theorem connections_bounded_witness:
  "sum_list (map (\<lambda>(_, n). unat n) (ds_active_connections (snd (register_connection ''203.0.113.7'' tight_service)))) \<le> 10000"
proof -
  from connections_bounded [OF new_tight_service r_into_rtranclp, OF ddos_register] show ?thesis
    by (simp add: tight_config_def default_ddos_config_def)
qed

end
