(* ===== verification/CallControl.thy ===== *)
theory CallControl
  imports Redfire_Prelude
begin

text \<open>
  Call admission and sessions (\<open>src/call_control.rs\<close>, with the session records of
  \<open>src/performance/memory_pools.rs\<close>). The identifier that a registration draws, the time
  (nanoseconds since the epoch) and whether the weak exchange of the rate reset succeeds are
  arguments. The interned symbol of a trunk name stands for the name; the load that a decision
  reports (a quotient of floating point numbers that nothing reads) is left out.
\<close>

record call_control_config =
  cl_enabled :: bool
  cl_max_concurrent_calls :: u64
  cl_max_calls_per_second :: u64
  cl_call_timeout_seconds :: u64
  cl_enable_admission_control :: bool
  cl_enable_resource_monitoring :: bool

definition default_call_control_config :: call_control_config where
  "default_call_control_config = \<lparr>cl_enabled = True, cl_max_concurrent_calls = 10000, cl_max_calls_per_second = 100,
     cl_call_timeout_seconds = 1800, cl_enable_admission_control = True, cl_enable_resource_monitoring = True\<rparr>"

record trunk_group_limits =
  tg_max_concurrent :: u64
  tg_cps_limit :: u64
  tg_max_bandwidth_kbps :: "u32 option"

datatype session_state = S_Establishing | S_Active | S_Terminating | S_Failed

text \<open>Session and trunk identifiers, and addresses as their texts.\<close>

type_synonym uuid = nat

record call_session =
  cc_id :: uuid
  cc_call_id :: string
  cc_from_addr :: string
  cc_to_addr :: string
  cc_start_time :: int
  cc_last_activity :: int
  cc_state :: session_state
  cc_trunk_id :: "string option"
  cc_codec_pair :: "(string \<times> string) option"

record call_control =
  cn_config :: call_control_config
  cn_active_sessions :: "(uuid \<times> call_session) list"
  cn_trunk_limits :: "string \<rightharpoonup> trunk_group_limits"
  cn_active_calls :: u64
  cn_total_calls_established :: u64
  cn_total_calls_failed :: u64
  cn_calls_per_second_current :: u64
  cn_last_cps_reset :: u64

datatype admission_reason = Admitted | GlobalLimit | TrunkLimit | CpsLimit | ResourceLimit | AdmissionDisabled

record admission_decision =
  ad_admit :: bool
  ad_reason :: admission_reason

definition timestamp_of :: "int \<Rightarrow> u64" where
  "timestamp_of now = word_of_int (now div 1000000000)"

definition new_call_control :: "int \<Rightarrow> call_control_config \<Rightarrow> call_control" where
  "new_call_control now config = \<lparr>cn_config = config, cn_active_sessions = [], cn_trunk_limits = Map.empty,
     cn_active_calls = 0, cn_total_calls_established = 0, cn_total_calls_failed = 0,
     cn_calls_per_second_current = 0, cn_last_cps_reset = timestamp_of now\<rparr>"

definition get_trunk_call_count :: "string \<Rightarrow> call_control \<Rightarrow> nat" where
  "get_trunk_call_count trunk c = length (filter (\<lambda>(_, s). cc_trunk_id s = Some trunk) (cn_active_sessions c))"

definition reset_cps :: "bool \<Rightarrow> int \<Rightarrow> call_control \<Rightarrow> call_control" where
  "reset_cps cas_ok now c =
    (if cn_last_cps_reset c < timestamp_of now \<and> cas_ok
     then c\<lparr>cn_last_cps_reset := timestamp_of now, cn_calls_per_second_current := 0\<rparr> else c)"

definition can_admit_call_fast ::
    "bool \<Rightarrow> int \<Rightarrow> string \<Rightarrow> string option \<Rightarrow> call_control \<Rightarrow> admission_decision \<times> call_control" where
  "can_admit_call_fast cas_ok now from_addr trunk_id c =
    (if \<not> cl_enabled (cn_config c) then (\<lparr>ad_admit = True, ad_reason = Admitted\<rparr>, c)
     else if cl_max_concurrent_calls (cn_config c) \<le> cn_active_calls c
     then (\<lparr>ad_admit = False, ad_reason = GlobalLimit\<rparr>, c)
     else
       let c = reset_cps cas_ok now c
       in if cl_max_calls_per_second (cn_config c) \<le> cn_calls_per_second_current c
          then (\<lparr>ad_admit = False, ad_reason = CpsLimit\<rparr>, c)
          else case trunk_id of
            Some trunk \<Rightarrow>
              (case cn_trunk_limits c trunk of
                 Some limits \<Rightarrow>
                   if unat (tg_max_concurrent limits) \<le> get_trunk_call_count trunk c
                   then (\<lparr>ad_admit = False, ad_reason = TrunkLimit\<rparr>, c)
                   else (\<lparr>ad_admit = True, ad_reason = Admitted\<rparr>, c)
               | None \<Rightarrow> (\<lparr>ad_admit = True, ad_reason = Admitted\<rparr>, c))
          | None \<Rightarrow> (\<lparr>ad_admit = True, ad_reason = Admitted\<rparr>, c))"

definition register_session ::
    "uuid \<Rightarrow> int \<Rightarrow> string \<Rightarrow> string \<Rightarrow> string \<Rightarrow> string option \<Rightarrow> call_control \<Rightarrow> uuid \<times> call_control" where
  "register_session session_id now call_id from_addr to_addr trunk_id c =
    (let session = \<lparr>cc_id = session_id, cc_call_id = call_id, cc_from_addr = from_addr, cc_to_addr = to_addr,
           cc_start_time = now, cc_last_activity = now, cc_state = S_Establishing, cc_trunk_id = trunk_id,
           cc_codec_pair = None\<rparr>
     in (session_id, c\<lparr>cn_active_sessions := AList.update session_id session (cn_active_sessions c),
           cn_active_calls := cn_active_calls c + 1,
           cn_total_calls_established := cn_total_calls_established c + 1,
           cn_calls_per_second_current := cn_calls_per_second_current c + 1\<rparr>))"

definition end_call_session :: "uuid \<Rightarrow> call_control \<Rightarrow> call_control" where
  "end_call_session session_id c =
    (case map_of (cn_active_sessions c) session_id of
       Some _ \<Rightarrow> c\<lparr>cn_active_sessions := AList.delete session_id (cn_active_sessions c),
                   cn_active_calls := cn_active_calls c - 1\<rparr>
     | None \<Rightarrow> c)"

definition update_call_state :: "int \<Rightarrow> uuid \<Rightarrow> session_state \<Rightarrow> call_control \<Rightarrow> call_control" where
  "update_call_state now session_id new_state c =
    (case map_of (cn_active_sessions c) session_id of
       Some s \<Rightarrow> c\<lparr>cn_active_sessions := AList.update session_id
                    (s\<lparr>cc_state := new_state, cc_last_activity := now\<rparr>) (cn_active_sessions c)\<rparr>
     | None \<Rightarrow> c)"

definition set_trunk_limits :: "string \<Rightarrow> trunk_group_limits \<Rightarrow> call_control \<Rightarrow> call_control" where
  "set_trunk_limits trunk limits c = c\<lparr>cn_trunk_limits := (cn_trunk_limits c)(trunk \<mapsto> limits)\<rparr>"

record call_stats =
  ct_active_calls :: u64
  ct_total_calls_established :: u64
  ct_total_calls_failed :: u64
  ct_calls_per_second_current :: u64
  ct_session_count :: nat

definition get_call_stats :: "call_control \<Rightarrow> call_stats" where
  "get_call_stats c = \<lparr>ct_active_calls = cn_active_calls c,
     ct_total_calls_established = cn_total_calls_established c, ct_total_calls_failed = cn_total_calls_failed c,
     ct_calls_per_second_current = cn_calls_per_second_current c,
     ct_session_count = length (cn_active_sessions c)\<rparr>"

section \<open>Admitted calls and their limits\<close>

text \<open>A call is admitted first and registered later, under a fresh identifier; in between other calls are
  admitted, registered and ended and limits are changed. The calls that are admitted and not yet
  registered are kept with their trunks: at most \<open>p\<close> at a time. No trunk \<open>t\<close> is given a limit above \<open>most t\<close>.\<close>

inductive call_step ::
    "nat \<Rightarrow> (string \<Rightarrow> nat) \<Rightarrow> call_control \<times> string option list \<Rightarrow> call_control \<times> string option list \<Rightarrow> bool"
  for p most where
  call_admitted: "can_admit_call_fast cas_ok now from_addr trunk c = (d, c') \<Longrightarrow> ad_admit d \<Longrightarrow> length pending < p \<Longrightarrow>
    call_step p most (c, pending) (c', trunk # pending)"
| call_refused: "can_admit_call_fast cas_ok now from_addr trunk c = (d, c') \<Longrightarrow> \<not> ad_admit d \<Longrightarrow>
    call_step p most (c, pending) (c', pending)"
| call_registered: "trunk \<in> set pending \<Longrightarrow> map_of (cn_active_sessions c) i = None \<Longrightarrow>
    call_step p most (c, pending) (snd (register_session i now call_id from_addr to_addr trunk c), remove1 trunk pending)"
| call_ended: "call_step p most (c, pending) (end_call_session i c, pending)"
| call_changed: "call_step p most (c, pending) (update_call_state now i st c, pending)"
| limits_set: "unat (tg_max_concurrent l) \<le> most t \<Longrightarrow> call_step p most (c, pending) (set_trunk_limits t l c, pending)"

text \<open>Admission changes the counters of the rate only.\<close>

definition same_sessions :: "call_control \<Rightarrow> call_control \<Rightarrow> bool" where
  "same_sessions c c' \<longleftrightarrow> cn_config c' = cn_config c \<and> cn_active_sessions c' = cn_active_sessions c \<and>
     cn_trunk_limits c' = cn_trunk_limits c \<and> cn_active_calls c' = cn_active_calls c \<and>
     cn_total_calls_failed c' = cn_total_calls_failed c"

lemma admission_same_sessions:
  "same_sessions c (snd (can_admit_call_fast cas_ok now from_addr trunk c))"
  by (auto simp: same_sessions_def can_admit_call_fast_def reset_cps_def Let_def split: option.split)

lemma admitted_below_limits:
  assumes "can_admit_call_fast cas_ok now from_addr trunk c = (d, c')" and "ad_admit d" and "cl_enabled (cn_config c)"
  shows "cn_active_calls c < cl_max_concurrent_calls (cn_config c) \<and>
    (\<forall>t l. trunk = Some t \<and> cn_trunk_limits c t = Some l \<longrightarrow> get_trunk_call_count t c < unat (tg_max_concurrent l))"
  using assms
  by (auto simp: can_admit_call_fast_def reset_cps_def get_trunk_call_count_def Let_def split: if_splits option.splits)

lemma map_of_None_update: "map_of al k = None \<Longrightarrow> AList.update k v al = al @ [(k, v)]"
  by (induction al) (auto split: if_splits)

lemma filter_update_same:
  "map_of al k = Some w \<Longrightarrow> P (k, v) \<longleftrightarrow> P (k, w) \<Longrightarrow>
    length (filter P (AList.update k v al)) = length (filter P al)"
  by (induction al) (auto split: if_splits)

text \<open>The sessions and the calls still to be registered exceed a limit by less than \<open>p\<close>.\<close>

definition calls_inv ::
    "nat \<Rightarrow> (string \<Rightarrow> nat) \<Rightarrow> (string \<rightharpoonup> trunk_group_limits) \<Rightarrow> call_control_config \<Rightarrow> call_control \<times> string option list \<Rightarrow> bool" where
  "calls_inv p most limits config x \<longleftrightarrow> (case x of (c, pending) \<Rightarrow>
     cn_config c = config \<and> distinct (map fst (cn_active_sessions c)) \<and>
     unat (cn_active_calls c) = length (cn_active_sessions c) \<and>
     length (cn_active_sessions c) + length pending < unat (cl_max_concurrent_calls config) + p \<and>
     (\<forall>t. limits t \<noteq> None \<longrightarrow>
        (\<exists>l. cn_trunk_limits c t = Some l \<and> unat (tg_max_concurrent l) \<le> most t) \<and>
        get_trunk_call_count t c + count_list pending (Some t) < most t + p) \<and>
     cn_total_calls_failed c = 0)"

lemma count_list_le: "count_list xs x \<le> length xs"
  by (induction xs) auto

lemma admit_calls_inv:
  assumes a: "can_admit_call_fast cas_ok now from_addr trunk c = (d, c')" "ad_admit d"
    and inv: "calls_inv p most limits config (c, pending)" and "cl_enabled config" and room: "length pending < p"
  shows "calls_inv p most limits config (c', trunk # pending)"
proof -
  from admission_same_sessions [of c cas_ok now from_addr trunk] a(1) have same: "same_sessions c c'" by simp
  have config: "cn_config c = config" using inv by (simp add: calls_inv_def)
  from admitted_below_limits [OF a] assms(4) config
  have all: "cn_active_calls c < cl_max_concurrent_calls config"
    and one: "trunk = Some t \<Longrightarrow> cn_trunk_limits c t = Some l \<Longrightarrow> get_trunk_call_count t c < unat (tg_max_concurrent l)" for t l
    by auto
  have "length (cn_active_sessions c) < unat (cl_max_concurrent_calls config)"
    using all inv by (simp add: calls_inv_def word_less_nat_alt)
  moreover have "get_trunk_call_count t c + count_list (trunk # pending) (Some t) < most t + p" if "limits t \<noteq> None" for t
  proof (cases "trunk = Some t")
    case True
    have "\<exists>l. cn_trunk_limits c t = Some l \<and> unat (tg_max_concurrent l) \<le> most t"
      using inv that unfolding calls_inv_def prod.case by blast
    then obtain l where l: "cn_trunk_limits c t = Some l" and most: "unat (tg_max_concurrent l) \<le> most t" by blast
    from one [OF True l] most True room count_list_le [of pending "Some t"] show ?thesis by simp
  qed (use inv that in \<open>auto simp: calls_inv_def\<close>)
  ultimately show ?thesis
    using inv same room by (simp add: calls_inv_def same_sessions_def get_trunk_call_count_def)
qed

lemma refuse_calls_inv:
  assumes "can_admit_call_fast cas_ok now from_addr trunk c = (d, c')" and "calls_inv p most limits config (c, pending)"
  shows "calls_inv p most limits config (c', pending)"
  using admission_same_sessions [of c cas_ok now from_addr trunk] assms
  by (simp add: calls_inv_def same_sessions_def get_trunk_call_count_def)

lemma count_list_remove1: "count_list (remove1 y xs) x = (if x = y then count_list xs x - 1 else count_list xs x)"
  by (induction xs) auto

lemma count_list_pos: "x \<in> set xs \<Longrightarrow> 0 < count_list xs x"
  by (induction xs) auto

lemma register_calls_inv:
  assumes member: "trunk \<in> set pending" and fresh: "map_of (cn_active_sessions c) i = None"
    and inv: "calls_inv p most limits config (c, pending)"
    and wide: "unat (cl_max_concurrent_calls config) + p \<le> 2 ^ 64"
  shows "calls_inv p most limits config
    (snd (register_session i now call_id from_addr to_addr trunk c), remove1 trunk pending)"
proof -
  let ?c = "snd (register_session i now call_id from_addr to_addr trunk c)"
  have pos: "0 < length pending" using member by (cases pending) auto
  then have len: "length (remove1 trunk pending) + 1 = length pending" using member by (simp add: length_remove1)
  have n: "unat (cn_active_calls c) = length (cn_active_sessions c)"
    "length (cn_active_sessions c) + length pending < unat (cl_max_concurrent_calls config) + p"
    using inv by (simp_all add: calls_inv_def)
  then have "unat (cn_active_calls c) + 1 < 2 ^ 64" using pos wide by linarith
  then have succ: "unat (cn_active_calls c + 1) = unat (cn_active_calls c) + 1" by (simp add: unat_word_ariths)
  have here: "get_trunk_call_count t ?c = (if trunk = Some t then get_trunk_call_count t c + 1 else get_trunk_call_count t c)" for t
    using fresh by (simp add: register_session_def get_trunk_call_count_def map_of_None_update Let_def)
  have "get_trunk_call_count t ?c + count_list (remove1 trunk pending) (Some t) =
      get_trunk_call_count t c + count_list pending (Some t)" for t
    using count_list_pos [OF member] by (auto simp: here count_list_remove1)
  then show ?thesis
    using inv n succ len fresh
    by (simp add: calls_inv_def register_session_def Let_def map_of_None_update map_of_eq_None_iff)
qed

lemma unat_pred: "0 < unat (n :: 'a :: len word) \<Longrightarrow> unat (n - 1) = unat n - 1"
  by (metis unat_gt_0 unat_minus_one)

lemma length_delete:
  "distinct (map fst al) \<Longrightarrow> map_of al k = Some v \<Longrightarrow> Suc (length (AList.delete k al)) = length al"
  by (induction al) (auto simp: AList.delete_id)

lemma length_filter_both: "length (filter (\<lambda>x. P x \<and> Q x) xs) \<le> length (filter Q xs)"
  by (induction xs) auto

lemma end_call_inv:
  assumes inv: "calls_inv p most limits config (c, pending)" shows "calls_inv p most limits config (end_call_session i c, pending)"
proof (cases "map_of (cn_active_sessions c) i")
  case (Some s)
  with inv have l: "Suc (length (AList.delete i (cn_active_sessions c))) = length (cn_active_sessions c)"
    by (intro length_delete) (simp_all add: calls_inv_def)
  have fewer: "get_trunk_call_count t (end_call_session i c) \<le> get_trunk_call_count t c" for t
    using Some by (simp add: end_call_session_def get_trunk_call_count_def AList.delete_eq length_filter_both)
  have "unat (cn_active_calls c - 1) = length (AList.delete i (cn_active_sessions c))"
  proof -
    have n: "unat (cn_active_calls c) = length (cn_active_sessions c)" using inv by (simp add: calls_inv_def)
    with l have "unat (cn_active_calls c - 1) = unat (cn_active_calls c) - 1" by (intro unat_pred) linarith
    with n l show ?thesis by linarith
  qed
  moreover have ended: "end_call_session i c = c\<lparr>cn_active_sessions := AList.delete i (cn_active_sessions c),
      cn_active_calls := cn_active_calls c - 1\<rparr>"
    using Some by (simp add: end_call_session_def)
  moreover have "get_trunk_call_count t (end_call_session i c) + count_list pending (Some t) < most t + p"
    if "limits t \<noteq> None" for t
    using fewer [of t] inv that by (fastforce simp: calls_inv_def)
  ultimately show ?thesis
    using inv l unfolding calls_inv_def by auto
qed (use inv in \<open>simp add: end_call_session_def\<close>)

lemma update_call_inv:
  assumes inv: "calls_inv p most limits config (c, pending)"
  shows "calls_inv p most limits config (update_call_state now i st c, pending)"
proof (cases "map_of (cn_active_sessions c) i")
  case (Some s)
  then have "get_trunk_call_count t (update_call_state now i st c) = get_trunk_call_count t c" for t
    unfolding get_trunk_call_count_def by (simp add: update_call_state_def filter_update_same)
  moreover have "length (AList.update i v (cn_active_sessions c)) = length (cn_active_sessions c)" for v
    using filter_update_same [OF Some, of "\<lambda>_. True" v] by simp
  ultimately show ?thesis
    using inv Some by (simp add: update_call_state_def calls_inv_def)
qed (use inv in \<open>simp add: update_call_state_def\<close>)

lemma limits_calls_inv:
  "calls_inv p most limits config (c, pending) \<Longrightarrow> unat (tg_max_concurrent l) \<le> most t \<Longrightarrow>
    calls_inv p most limits config (set_trunk_limits t l c, pending)"
  by (simp add: calls_inv_def set_trunk_limits_def get_trunk_call_count_def)

interpretation calls: invariant_machine "calls_inv p most limits config"
  "\<lambda>x y. cl_enabled config \<and> unat (cl_max_concurrent_calls config) + p \<le> 2 ^ 64 \<and> call_step p most x y"
  "calls_inv p most limits config" for p most limits config
proof
  fix x y
  assume inv: "calls_inv p most limits config x"
    and "cl_enabled config \<and> unat (cl_max_concurrent_calls config) + p \<le> 2 ^ 64 \<and> call_step p most x y"
  then have step: "call_step p most x y" and ok: "cl_enabled config" "unat (cl_max_concurrent_calls config) + p \<le> 2 ^ 64"
    by simp_all
  from step show "calls_inv p most limits config y"
  proof cases
    case call_admitted
    then show ?thesis using admit_calls_inv inv ok(1) by blast
  next
    case call_refused
    then show ?thesis using refuse_calls_inv inv by blast
  next
    case call_registered
    then show ?thesis using register_calls_inv inv ok(2) by blast
  qed (use inv in \<open>auto intro: end_call_inv update_call_inv limits_calls_inv\<close>)
qed

text \<open>C37: In an enabled service with at most \<open>p\<close> calls at a time between their admission and their
  registration, the sessions exceed the global limit by less than \<open>p\<close>, and those of a trunk that was limited
  from the start exceed the largest limit it was ever given by less than \<open>p\<close>: not at all when each call is
  registered before the next is admitted. The counter of active calls is the number of sessions, as long
  as the limit and \<open>p\<close> fit in 64 bits, and no call is ever counted as failed.\<close>

theorem admission_respects_limits:
  assumes "(call_step p most)\<^sup>*\<^sup>* ((new_call_control now config)\<lparr>cn_trunk_limits := limits\<rparr>, []) (c, pending)"
    and "cl_enabled config" and "0 < p" and "unat (cl_max_concurrent_calls config) + p \<le> 2 ^ 64"
    and "\<And>t l. limits t = Some l \<Longrightarrow> unat (tg_max_concurrent l) \<le> most t"
  shows "unat (cn_active_calls c) = length (cn_active_sessions c) \<and>
    length (cn_active_sessions c) < unat (cl_max_concurrent_calls config) + p \<and>
    (\<forall>t. limits t \<noteq> None \<longrightarrow> get_trunk_call_count t c < most t + p) \<and>
    cn_total_calls_failed c = 0"
proof -
  let ?x = "((new_call_control now config)\<lparr>cn_trunk_limits := limits\<rparr>, [])"
  have "calls_inv p most limits config ?x"
    using assms(3,5) by (auto simp: calls_inv_def new_call_control_def get_trunk_call_count_def)
  moreover have "(\<lambda>x y. cl_enabled config \<and> unat (cl_max_concurrent_calls config) + p \<le> 2 ^ 64 \<and> call_step p most x y)\<^sup>*\<^sup>* ?x (c, pending)"
    using assms(1,2,4) by simp
  ultimately have "calls_inv p most limits config (c, pending)" by (rule calls.reachable_inv)
  then show ?thesis by (fastforce simp: calls_inv_def)
qed

definition one_line :: call_control where
  "one_line = (new_call_control 0 default_call_control_config)\<lparr>cn_trunk_limits := [''t'' \<mapsto> \<lparr>tg_max_concurrent = 1,
     tg_cps_limit = 1, tg_max_bandwidth_kbps = None\<rparr>]\<rparr>"

definition one_call :: call_control where
  "one_call = snd (register_session 7 0 ''c'' ''a'' ''b'' (Some ''t'')
     (snd (can_admit_call_fast True 0 ''a'' (Some ''t'') one_line)))"

theorem admission_respects_limits_witness:
  "get_trunk_call_count ''t'' one_call \<le> 1 \<and> unat (cn_active_calls one_call) = length (cn_active_sessions one_call)"
proof -
  have a: "can_admit_call_fast True 0 ''a'' (Some ''t'') one_line = (\<lparr>ad_admit = True, ad_reason = Admitted\<rparr>, one_line)"
    by (simp add: can_admit_call_fast_def reset_cps_def one_line_def new_call_control_def
        default_call_control_config_def get_trunk_call_count_def timestamp_of_def)
  have one: "one_call = snd (register_session 7 0 ''c'' ''a'' ''b'' (Some ''t'') one_line)"
    by (simp add: one_call_def a)
  have "call_step 1 (\<lambda>_. 1) (one_line, []) (one_line, [Some ''t''])"
    by (rule call_admitted [OF a]) simp_all
  moreover have "call_step 1 (\<lambda>_. 1) (one_line, [Some ''t'']) (one_call, remove1 (Some ''t'') [Some ''t''])"
    unfolding one by (rule call_registered) (simp_all add: one_line_def new_call_control_def)
  ultimately have "(call_step 1 (\<lambda>_. 1))\<^sup>*\<^sup>* (one_line, []) (one_call, [])"
    by (simp add: converse_rtranclp_into_rtranclp)
  from admission_respects_limits [OF this [unfolded one_line_def]] show ?thesis
    by (fastforce simp: default_call_control_config_def less_Suc_eq_le split: if_splits)
qed

text \<open>Admission counts nothing: any number of calls that are checked before the first of them is
  registered are all admitted, beyond every limit.\<close>

lemma admission_counts_nothing:
  "can_admit_call_fast cas_ok now from_addr trunk c = (d, c') \<Longrightarrow> ad_admit d \<Longrightarrow>
    ad_admit (fst (can_admit_call_fast cas_ok' now from_addr' trunk c'))"
  by (auto simp: can_admit_call_fast_def reset_cps_def get_trunk_call_count_def Let_def split: if_splits option.splits)

end
