(* ===== verification/Fail2Ban.thy ===== *)
theory Fail2Ban
  imports Redfire_Prelude
begin

text \<open>
  The log for an external ban daemon (\<open>src/fail2ban.rs\<close>): failures of each address
  within a window, the log lines, manual bans and the cleanup. An address is its text; parsing an
  address and membership in a subnet are arguments. The time of an operation is an argument in
  nanoseconds, and so is its text in the log. The log is the text of the
  file; writing it does not fail.
\<close>

section \<open>Data\<close>

record failure_config =
  fc_max_failures :: u32
  fc_time_window_seconds :: u64
  fc_ban_duration_seconds :: u64
  fc_log_pattern :: string

text \<open>The switches of the kinds of failure are two per configuration; a kind without a switch is
  always logged.\<close>

record fail2ban_config =
  fb_enabled :: bool
  fb_sip :: failure_config
  fb_monitor_invite_failures :: bool
  fb_monitor_register_failures :: bool
  fb_monitor_subscribe_failures :: bool
  fb_sms :: failure_config
  fb_monitor_smpp_bind_failures :: bool
  fb_monitor_http_failures :: bool
  fb_whitelist :: "string list"
  fb_auto_cleanup :: bool
  fb_cleanup_interval_seconds :: u64

definition default_sip_failure_config :: failure_config where
  "default_sip_failure_config = \<lparr>fc_max_failures = 5, fc_time_window_seconds = 300, fc_ban_duration_seconds = 3600,
     fc_log_pattern = ''SIP authentication failure from <HOST> - user: {user}, method: {method}, reason: {reason}''\<rparr>"

definition default_sms_failure_config :: failure_config where
  "default_sms_failure_config = \<lparr>fc_max_failures = 10, fc_time_window_seconds = 300, fc_ban_duration_seconds = 1800,
     fc_log_pattern = ''SMS authentication failure from <HOST> - system_id: {system_id}, reason: {reason}''\<rparr>"

definition default_fail2ban_config :: fail2ban_config where
  "default_fail2ban_config = \<lparr>fb_enabled = True, fb_sip = default_sip_failure_config,
     fb_monitor_invite_failures = True, fb_monitor_register_failures = True, fb_monitor_subscribe_failures = True,
     fb_sms = default_sms_failure_config, fb_monitor_smpp_bind_failures = True, fb_monitor_http_failures = True,
     fb_whitelist = [''127.0.0.1'', ''::1'', ''10.0.0.0/8'', ''172.16.0.0/12'', ''192.168.0.0/16''],
     fb_auto_cleanup = True, fb_cleanup_interval_seconds = 3600\<rparr>"

datatype failure_type = F_SipInvite | F_SipRegister | F_SipSubscribe | F_SipOptions | F_SmppBind | F_SmsHttp

record auth_failure =
  af_ip :: string
  af_failure_type :: failure_type
  af_user :: "string option"
  af_method :: string
  af_reason :: string
  af_user_agent :: "string option"
  af_timestamp :: int

record ip_failure_tracker =
  ft_failures :: "auth_failure list"
  ft_first_failure :: int
  ft_last_failure :: int
  ft_total_failures :: u32
  ft_is_banned :: bool
  ft_ban_expires :: "int option"

definition new_ip_failure_tracker :: "int \<Rightarrow> ip_failure_tracker" where
  "new_ip_failure_tracker now = \<lparr>ft_failures = [], ft_first_failure = now, ft_last_failure = now,
     ft_total_failures = 0, ft_is_banned = False, ft_ban_expires = None\<rparr>"

record fail2ban_service =
  fs_config :: fail2ban_config
  fs_failure_tracking :: "string \<rightharpoonup> ip_failure_tracker"
  fs_log :: string

definition new_fail2ban_service :: "fail2ban_config \<Rightarrow> fail2ban_service" where
  "new_fail2ban_service config = \<lparr>fs_config = config, fs_failure_tracking = Map.empty, fs_log = []\<rparr>"

section \<open>Log lines\<close>

text \<open>\<open>str::replace\<close> with a non-empty pattern: every occurrence from the left; the
  replacement is not searched again.\<close>

fun str_replace :: "string \<Rightarrow> string \<Rightarrow> string \<Rightarrow> string" where
  "str_replace pat new [] = []"
| "str_replace pat new (c # s) =
    (if take (length pat) (c # s) = pat then new @ str_replace pat new (drop (length pat - 1) s)
     else c # str_replace pat new s)"

definition user_text :: "auth_failure \<Rightarrow> string" where
  "user_text f = (case af_user f of Some u \<Rightarrow> u | None \<Rightarrow> ''unknown'')"

definition format_sip_log_entry :: "(int \<Rightarrow> string) \<Rightarrow> fail2ban_config \<Rightarrow> auth_failure \<Rightarrow> string" where
  "format_sip_log_entry stamp config f =
     str_replace ''{timestamp}'' (stamp (af_timestamp f))
       (str_replace ''{reason}'' (af_reason f)
         (str_replace ''{method}'' (af_method f)
           (str_replace ''{user}'' (user_text f)
             (str_replace ''<HOST>'' (af_ip f) (fc_log_pattern (fb_sip config))))))"

definition format_sms_log_entry :: "(int \<Rightarrow> string) \<Rightarrow> fail2ban_config \<Rightarrow> auth_failure \<Rightarrow> string" where
  "format_sms_log_entry stamp config f =
     str_replace ''{timestamp}'' (stamp (af_timestamp f))
       (str_replace ''{protocol}'' (af_method f)
         (str_replace ''{reason}'' (af_reason f)
           (str_replace ''{system_id}'' (user_text f)
             (str_replace ''<HOST>'' (af_ip f) (fc_log_pattern (fb_sms config))))))"

definition write_log_entry :: "(int \<Rightarrow> string) \<Rightarrow> int \<Rightarrow> string \<Rightarrow> fail2ban_service \<Rightarrow> fail2ban_service" where
  "write_log_entry stamp now entry s = s\<lparr>fs_log := fs_log s @ ''['' @ stamp now @ ''] '' @ entry @ [CHR 0x0A]\<rparr>"

section \<open>Failures and bans\<close>

definition window_ns :: "u64 \<Rightarrow> int" where
  "window_ns seconds = sint seconds * 1000000000"

definition time_window :: "fail2ban_config \<Rightarrow> failure_type \<Rightarrow> int" where
  "time_window config ty =
    (case ty of
       F_SmppBind \<Rightarrow> window_ns (fc_time_window_seconds (fb_sms config))
     | F_SmsHttp \<Rightarrow> window_ns (fc_time_window_seconds (fb_sms config))
     | _ \<Rightarrow> window_ns (fc_time_window_seconds (fb_sip config)))"

definition update_failure_tracking :: "auth_failure \<Rightarrow> fail2ban_service \<Rightarrow> fail2ban_service" where
  "update_failure_tracking f s =
    (let now = af_timestamp f;
         t = (case fs_failure_tracking s (af_ip f) of Some t \<Rightarrow> t | None \<Rightarrow> new_ip_failure_tracker now);
         cutoff = now - time_window (fs_config s) (af_failure_type f);
         failures = dropWhile (\<lambda>x. af_timestamp x < cutoff) (ft_failures t) @ [f];
         t = t\<lparr>ft_failures := failures, ft_last_failure := now, ft_total_failures := ft_total_failures t + 1\<rparr>;
         t = (if length failures = 1 then t\<lparr>ft_first_failure := now\<rparr> else t)
     in s\<lparr>fs_failure_tracking := (fs_failure_tracking s)(af_ip f \<mapsto> t)\<rparr>)"

definition is_ip_whitelisted ::
    "(string \<Rightarrow> string option) \<Rightarrow> (string \<Rightarrow> string \<Rightarrow> bool) \<Rightarrow> fail2ban_config \<Rightarrow> string \<Rightarrow> bool" where
  "is_ip_whitelisted parse_ip in_network config ip =
     list_ex (\<lambda>entry. case parse_ip entry of
         Some a \<Rightarrow> ip = a
       | None \<Rightarrow> CHR ''/'' \<in> set entry \<and> in_network entry ip) (fb_whitelist config)"

definition should_log_sip_failure :: "fail2ban_config \<Rightarrow> failure_type \<Rightarrow> bool" where
  "should_log_sip_failure config ty =
    (case ty of
       F_SipInvite \<Rightarrow> fb_monitor_invite_failures config
     | F_SipRegister \<Rightarrow> fb_monitor_register_failures config
     | F_SipSubscribe \<Rightarrow> fb_monitor_subscribe_failures config
     | _ \<Rightarrow> True)"

definition should_log_sms_failure :: "fail2ban_config \<Rightarrow> failure_type \<Rightarrow> bool" where
  "should_log_sms_failure config ty =
    (case ty of
       F_SmppBind \<Rightarrow> fb_monitor_smpp_bind_failures config
     | F_SmsHttp \<Rightarrow> fb_monitor_http_failures config
     | _ \<Rightarrow> True)"

definition log_if_reached :: "(int \<Rightarrow> string) \<Rightarrow> u32 \<Rightarrow> string \<Rightarrow> auth_failure \<Rightarrow> fail2ban_service \<Rightarrow> fail2ban_service" where
  "log_if_reached stamp max_failures entry f s =
    (case fs_failure_tracking s (af_ip f) of
       Some t \<Rightarrow> if unat max_failures \<le> length (ft_failures t) then write_log_entry stamp (af_timestamp f) entry s else s
     | None \<Rightarrow> s)"

definition record_sip_failure ::
    "(string \<Rightarrow> string option) \<Rightarrow> (string \<Rightarrow> string \<Rightarrow> bool) \<Rightarrow> (int \<Rightarrow> string) \<Rightarrow> auth_failure \<Rightarrow>
     fail2ban_service \<Rightarrow> fail2ban_service" where
  "record_sip_failure parse_ip in_network stamp f s =
    (if \<not> fb_enabled (fs_config s) then s
     else if is_ip_whitelisted parse_ip in_network (fs_config s) (af_ip f) then s
     else
       let s = update_failure_tracking f s
       in if should_log_sip_failure (fs_config s) (af_failure_type f)
          then log_if_reached stamp (fc_max_failures (fb_sip (fs_config s)))
                 (format_sip_log_entry stamp (fs_config s) f) f s
          else s)"

definition record_sms_failure ::
    "(string \<Rightarrow> string option) \<Rightarrow> (string \<Rightarrow> string \<Rightarrow> bool) \<Rightarrow> (int \<Rightarrow> string) \<Rightarrow> auth_failure \<Rightarrow>
     fail2ban_service \<Rightarrow> fail2ban_service" where
  "record_sms_failure parse_ip in_network stamp f s =
    (if \<not> fb_enabled (fs_config s) then s
     else if is_ip_whitelisted parse_ip in_network (fs_config s) (af_ip f) then s
     else
       let s = update_failure_tracking f s
       in if should_log_sms_failure (fs_config s) (af_failure_type f)
          then log_if_reached stamp (fc_max_failures (fb_sms (fs_config s)))
                 (format_sms_log_entry stamp (fs_config s) f) f s
          else s)"

definition lift_ban :: "ip_failure_tracker \<Rightarrow> ip_failure_tracker" where
  "lift_ban t = t\<lparr>ft_is_banned := False, ft_ban_expires := None\<rparr>"

definition is_banned :: "int \<Rightarrow> string \<Rightarrow> fail2ban_service \<Rightarrow> bool \<times> fail2ban_service" where
  "is_banned now ip s =
    (case fs_failure_tracking s ip of
       Some t \<Rightarrow>
         if ft_is_banned t then
           (case ft_ban_expires t of
              Some e \<Rightarrow> if now < e then (True, s)
                        else (False, s\<lparr>fs_failure_tracking := (fs_failure_tracking s)(ip \<mapsto> lift_ban t)\<rparr>)
            | None \<Rightarrow> (False, s))
         else (False, s)
     | None \<Rightarrow> (False, s))"

definition manual_ban :: "(int \<Rightarrow> string) \<Rightarrow> int \<Rightarrow> string \<Rightarrow> u64 \<Rightarrow> string \<Rightarrow> fail2ban_service \<Rightarrow> fail2ban_service" where
  "manual_ban stamp now ip duration_seconds reason s =
    (let t = (case fs_failure_tracking s ip of Some t \<Rightarrow> t | None \<Rightarrow> new_ip_failure_tracker now);
         t = t\<lparr>ft_is_banned := True, ft_ban_expires := Some (now + window_ns duration_seconds)\<rparr>;
         s = s\<lparr>fs_failure_tracking := (fs_failure_tracking s)(ip \<mapsto> t)\<rparr>
     in write_log_entry stamp now (''Manual ban applied to '' @ ip @ '' for '' @ dec (unat duration_seconds) @
          '' seconds - reason: '' @ reason) s)"

definition manual_unban :: "(int \<Rightarrow> string) \<Rightarrow> int \<Rightarrow> string \<Rightarrow> string \<Rightarrow> fail2ban_service \<Rightarrow> fail2ban_service" where
  "manual_unban stamp now ip reason s =
    (case fs_failure_tracking s ip of
       Some t \<Rightarrow> write_log_entry stamp now (''Manual unban applied to '' @ ip @ '' - reason: '' @ reason)
                  (s\<lparr>fs_failure_tracking := (fs_failure_tracking s)(ip \<mapsto> lift_ban t)\<rparr>)
     | None \<Rightarrow> s)"

definition clear_failures :: "string \<Rightarrow> fail2ban_service \<Rightarrow> fail2ban_service" where
  "clear_failures ip s = s\<lparr>fs_failure_tracking := (fs_failure_tracking s)(ip := None)\<rparr>"

text \<open>One round of the cleanup task: old trackers that are not banned go, expired bans are
  lifted.\<close>

definition cleanup_round :: "int \<Rightarrow> fail2ban_service \<Rightarrow> fail2ban_service" where
  "cleanup_round now s =
    (let max_window = max (fc_time_window_seconds (fb_sip (fs_config s))) (fc_time_window_seconds (fb_sms (fs_config s)));
         cutoff = now - window_ns (max_window * 2)
     in s\<lparr>fs_failure_tracking := (\<lambda>ip. case fs_failure_tracking s ip of
          None \<Rightarrow> None
        | Some t \<Rightarrow>
            if ft_last_failure t < cutoff \<and> \<not> ft_is_banned t then None
            else if ft_is_banned t \<and> (case ft_ban_expires t of Some e \<Rightarrow> e \<le> now | None \<Rightarrow> False)
            then Some (lift_ban t) else Some t)\<rparr>)"

section \<open>The failures within the window\<close>

lemma dropWhile_sorted:
  "sorted (map key xs) \<Longrightarrow> dropWhile (\<lambda>x. key x < (c :: int)) xs = filter (\<lambda>x. c \<le> key x) xs"
  by (induction xs) (auto intro!: filter_True [symmetric])

lemma sorted_map_filter: "sorted (map key xs) \<Longrightarrow> sorted (map key (filter P xs))"
  by (simp add: sorted_filter)

text \<open>What the tracker of an address holds after the failures \<open>fs\<close>, with windows of
  \<open>w\<close>.\<close>

definition tracks :: "int \<Rightarrow> auth_failure list \<Rightarrow> fail2ban_service \<Rightarrow> bool" where
  "tracks w fs s \<longleftrightarrow> (\<forall>ip. case fs_failure_tracking s ip of
       None \<Rightarrow> filter (\<lambda>x. af_ip x = ip) fs = []
     | Some t \<Rightarrow> \<not> ft_is_banned t \<and> unat (ft_total_failures t) = length (filter (\<lambda>x. af_ip x = ip) fs) mod 2 ^ 32 \<and>
         (\<exists>y \<in> set fs. ft_failures t = filter (\<lambda>x. af_ip x = ip \<and> af_timestamp y - w \<le> af_timestamp x) fs))"

lemma update_failure_tracking_simps:
  "fs_config (update_failure_tracking f s) = fs_config s"
  "ip \<noteq> af_ip f \<Longrightarrow> fs_failure_tracking (update_failure_tracking f s) ip = fs_failure_tracking s ip"
  "fs_failure_tracking (update_failure_tracking f s) (af_ip f) = Some t \<Longrightarrow>
    t = (let old = (case fs_failure_tracking s (af_ip f) of Some t \<Rightarrow> t | None \<Rightarrow> new_ip_failure_tracker (af_timestamp f));
             failures = dropWhile (\<lambda>x. af_timestamp x < af_timestamp f - time_window (fs_config s) (af_failure_type f))
               (ft_failures old) @ [f]
         in old\<lparr>ft_failures := failures, ft_first_failure := (if length failures = 1 then af_timestamp f else ft_first_failure old),
              ft_last_failure := af_timestamp f, ft_total_failures := ft_total_failures old + 1\<rparr>)"
  by (auto simp: update_failure_tracking_def Let_def)

lemma tracks_other:
  assumes "tracks w fs s" and "ip \<noteq> af_ip f"
  shows "case fs_failure_tracking s ip of
       None \<Rightarrow> filter (\<lambda>x. af_ip x = ip) (fs @ [f]) = []
     | Some t \<Rightarrow> \<not> ft_is_banned t \<and> unat (ft_total_failures t) = length (filter (\<lambda>x. af_ip x = ip) (fs @ [f])) mod 2 ^ 32 \<and>
         (\<exists>y \<in> set (fs @ [f]). ft_failures t = filter (\<lambda>x. af_ip x = ip \<and> af_timestamp y - w \<le> af_timestamp x) (fs @ [f]))"
  using assms unfolding tracks_def by (fastforce split: option.splits)

lemma window_after_failure:
  assumes "sorted (map af_timestamp (fs @ [f]))" and "y \<in> set fs"
  shows "dropWhile (\<lambda>x. af_timestamp x < af_timestamp f - w)
      (filter (\<lambda>x. af_ip x = ip \<and> af_timestamp y - w \<le> af_timestamp x) fs) =
    filter (\<lambda>x. af_ip x = ip \<and> af_timestamp f - w \<le> af_timestamp x) fs"
proof -
  from assms have "af_timestamp y \<le> af_timestamp f" "sorted (map af_timestamp fs)"
    by (auto simp: sorted_append)
  then show ?thesis
    by (subst dropWhile_sorted) (auto simp: sorted_map_filter intro!: filter_cong)
qed

lemma tracks_update:
  assumes t: "tracks w fs s" and sorted: "sorted (map af_timestamp (fs @ [f]))"
    and w: "time_window (fs_config s) (af_failure_type f) = w" and pos: "0 \<le> w"
  shows "tracks w (fs @ [f]) (update_failure_tracking f s)"
    and "map_option ft_failures (fs_failure_tracking (update_failure_tracking f s) (af_ip f)) =
      Some (filter (\<lambda>x. af_ip x = af_ip f \<and> af_timestamp f - w \<le> af_timestamp x) (fs @ [f]))"
proof -
  let ?ip = "af_ip f"
  let ?new = "filter (\<lambda>x. af_ip x = ?ip \<and> af_timestamp f - w \<le> af_timestamp x) (fs @ [f])"
  have "\<exists>u. fs_failure_tracking (update_failure_tracking f s) ?ip = Some u \<and> \<not> ft_is_banned u \<and>
      unat (ft_total_failures u) = length (filter (\<lambda>x. af_ip x = ?ip) (fs @ [f])) mod 2 ^ 32 \<and> ft_failures u = ?new"
  proof (cases "fs_failure_tracking s ?ip")
    case None
    with t have "filter (\<lambda>x. af_ip x = ?ip) fs = []" by (force simp: tracks_def split: option.splits)
    then have "filter (\<lambda>x. af_ip x = ?ip) fs = []" "filter (\<lambda>x. af_ip x = ?ip \<and> P x) fs = []" for P
      by (auto simp: filter_empty_conv)
    with None pos show ?thesis
      by (auto simp: update_failure_tracking_def new_ip_failure_tracker_def Let_def)
  next
    case (Some u)
    from t have "case fs_failure_tracking s ?ip of
       None \<Rightarrow> filter (\<lambda>x. af_ip x = ?ip) fs = []
     | Some t \<Rightarrow> \<not> ft_is_banned t \<and> unat (ft_total_failures t) = length (filter (\<lambda>x. af_ip x = ?ip) fs) mod 2 ^ 32 \<and>
         (\<exists>y \<in> set fs. ft_failures t = filter (\<lambda>x. af_ip x = ?ip \<and> af_timestamp y - w \<le> af_timestamp x) fs)"
      unfolding tracks_def by blast
    with Some obtain y where u: "\<not> ft_is_banned u" "unat (ft_total_failures u) = length (filter (\<lambda>x. af_ip x = ?ip) fs) mod 2 ^ 32"
      "y \<in> set fs" "ft_failures u = filter (\<lambda>x. af_ip x = ?ip \<and> af_timestamp y - w \<le> af_timestamp x) fs"
      by auto
    have "unat (ft_total_failures u + 1) = Suc (length (filter (\<lambda>x. af_ip x = ?ip) fs)) mod 2 ^ 32"
      by (simp add: unat_word_ariths u(2) mod_Suc_eq)
    with Some u window_after_failure [OF sorted u(3)] w pos show ?thesis
      by (auto simp: update_failure_tracking_def Let_def)
  qed
  then obtain u where u: "fs_failure_tracking (update_failure_tracking f s) ?ip = Some u" "\<not> ft_is_banned u"
      "unat (ft_total_failures u) = length (filter (\<lambda>x. af_ip x = ?ip) (fs @ [f])) mod 2 ^ 32" "ft_failures u = ?new"
    by blast
  then show "map_option ft_failures (fs_failure_tracking (update_failure_tracking f s) ?ip) = Some ?new" by simp
  show "tracks w (fs @ [f]) (update_failure_tracking f s)"
    unfolding tracks_def
  proof
    fix ip
    show "case fs_failure_tracking (update_failure_tracking f s) ip of
       None \<Rightarrow> filter (\<lambda>x. af_ip x = ip) (fs @ [f]) = []
     | Some t \<Rightarrow> \<not> ft_is_banned t \<and> unat (ft_total_failures t) = length (filter (\<lambda>x. af_ip x = ip) (fs @ [f])) mod 2 ^ 32 \<and>
         (\<exists>y \<in> set (fs @ [f]). ft_failures t = filter (\<lambda>x. af_ip x = ip \<and> af_timestamp y - w \<le> af_timestamp x) (fs @ [f]))"
    proof (cases "ip = ?ip")
      case True
      with u show ?thesis by auto
    next
      case False
      with tracks_other [OF t False] show ?thesis by (simp add: update_failure_tracking_simps(2))
    qed
  qed
qed

text \<open>When failures are recorded in the order of their times and both kinds have the same window,
  the tracker of the address that failed last holds exactly its failures of both kinds within the
  window before that last failure; so the line is logged when they reach the maximum. Failures never
  ban an address: the ban is left to the reader of the log.\<close>

theorem failures_within_window:
  assumes "sorted (map af_timestamp (fs @ [f]))"
    and "\<And>ty. time_window config ty = w" and "0 \<le> w"
  shows "map_option ft_failures (fs_failure_tracking
      (fold update_failure_tracking (fs @ [f]) (new_fail2ban_service config)) (af_ip f)) =
    Some (filter (\<lambda>x. af_ip x = af_ip f \<and> af_timestamp f - w \<le> af_timestamp x) (fs @ [f])) \<and>
    \<not> fst (is_banned now ip (fold update_failure_tracking (fs @ [f]) (new_fail2ban_service config)))"
proof -
  have cfg: "fs_config (fold update_failure_tracking xs (new_fail2ban_service config)) = config" for xs
    by (induction xs rule: rev_induct) (simp_all add: update_failure_tracking_simps new_fail2ban_service_def)
  have tr: "tracks w xs (fold update_failure_tracking xs (new_fail2ban_service config))"
    if "sorted (map af_timestamp xs)" for xs
    using that
  proof (induction xs rule: rev_induct)
    case Nil
    show ?case by (simp add: tracks_def new_fail2ban_service_def)
  next
    case (snoc x xs)
    then have "tracks w xs (fold update_failure_tracking xs (new_fail2ban_service config))"
      by (simp add: sorted_append)
    from tracks_update(1) [OF this snoc.prems] assms(2,3) show ?case by (simp add: cfg)
  qed
  have "tracks w fs (fold update_failure_tracking fs (new_fail2ban_service config))"
    using assms(1) by (intro tr) (simp add: sorted_append)
  from tracks_update(2) [OF this assms(1)] assms(2,3) tr [OF assms(1)] show ?thesis
    by (force simp: cfg tracks_def is_banned_def split: option.splits)
qed

definition plain_failure :: "int \<Rightarrow> auth_failure" where
  "plain_failure t = \<lparr>af_ip = ''203.0.113.7'', af_failure_type = F_SipRegister, af_user = Some ''bob'',
     af_method = ''REGISTER'', af_reason = ''bad password'', af_user_agent = None, af_timestamp = t\<rparr>"

theorem failures_within_window_witness:
  "map_option ft_failures (fs_failure_tracking (fold update_failure_tracking
      [plain_failure 0, plain_failure 200000000000, plain_failure 400000000000]
      (new_fail2ban_service default_fail2ban_config)) ''203.0.113.7'') =
    Some [plain_failure 200000000000, plain_failure 400000000000]"
proof -
  have w: "time_window default_fail2ban_config ty = 300000000000" for ty
    by (cases ty) (simp_all add: time_window_def window_ns_def default_fail2ban_config_def
        default_sip_failure_config_def default_sms_failure_config_def)
  have s: "sorted (map af_timestamp ([plain_failure 0, plain_failure 200000000000] @ [plain_failure 400000000000]))"
    by (simp add: plain_failure_def)
  have p: "af_ip (plain_failure t) = ''203.0.113.7''" "af_timestamp (plain_failure t) = t" for t
    by (simp_all add: plain_failure_def)
  from failures_within_window [OF s w, THEN conjunct1] show ?thesis by (simp add: p)
qed

section \<open>Bans\<close>

lemma manual_ban_lasts:
  "fst (is_banned now' ip (manual_ban stamp now ip d reason s)) \<longleftrightarrow> now' < now + window_ns d"
  by (simp add: manual_ban_def write_log_entry_def is_banned_def Let_def)

lemma unbanned_at_once: "\<not> fst (is_banned now' ip (manual_unban stamp now ip reason s))"
  by (simp add: manual_unban_def write_log_entry_def is_banned_def lift_ban_def split: option.split)

lemma whitelisted_address_ignored:
  "is_ip_whitelisted parse_ip in_network (fs_config s) (af_ip f) \<Longrightarrow>
    record_sip_failure parse_ip in_network stamp f s = s \<and> record_sms_failure parse_ip in_network stamp f s = s"
  by (simp add: record_sip_failure_def record_sms_failure_def)


lemma recording_tracks:
  "fb_enabled (fs_config s) \<Longrightarrow> \<not> is_ip_whitelisted parse_ip in_network (fs_config s) (af_ip f) \<Longrightarrow>
    fs_failure_tracking (record_sip_failure parse_ip in_network stamp f s) =
      fs_failure_tracking (update_failure_tracking f s) \<and>
    fs_failure_tracking (record_sms_failure parse_ip in_network stamp f s) =
      fs_failure_tracking (update_failure_tracking f s)"
  by (simp add: record_sip_failure_def record_sms_failure_def log_if_reached_def write_log_entry_def Let_def
      split: option.split)

end
