(* ===== verification/Isup.thy ===== *)
theory Isup
  imports Redfire_Prelude
begin

text \<open>
  ISUP messages for SIP-T and SIP-I (\<open>src/sipt_sipi.rs\<close>): message and parameter types,
  the parser and the encoder of messages, telephone numbers in BCD digits, the IAM built for an
  INVITE, and the choice of a circuit. Not here: the MIME bodies, whose payload is written with the
  \<open>hex\<close> library, and the debug text.
\<close>

section \<open>Types of messages and parameters\<close>

datatype (plugins only: code size) isup_message_type =
    IM_IAM | IM_SAM | IM_INR | IM_INF | IM_COT | IM_ACM | IM_CON | IM_FOT | IM_ANM | IM_REL |
    IM_SUS | IM_RES | IM_RLC | IM_CCR | IM_RSC | IM_BLO | IM_UBL | IM_BLA | IM_UBA | IM_GRS |
    IM_GRA | IM_CGB | IM_CGU | IM_CGBA | IM_CGUA | IM_CPG | IM_USR | IM_UCIC | IM_CFN | IM_OLM |
    IM_CRG | IM_NRM | IM_FAC | IM_UPT | IM_UPA | IM_IDR | IM_IRS | IM_SGM | IM_LPR | IM_APT |
    IM_PRI | IM_SDN

fun isup_message_code :: "isup_message_type \<Rightarrow> u8" where
  "isup_message_code IM_IAM = 0x01"
| "isup_message_code IM_SAM = 0x02"
| "isup_message_code IM_INR = 0x03"
| "isup_message_code IM_INF = 0x04"
| "isup_message_code IM_COT = 0x05"
| "isup_message_code IM_ACM = 0x06"
| "isup_message_code IM_CON = 0x07"
| "isup_message_code IM_FOT = 0x08"
| "isup_message_code IM_ANM = 0x09"
| "isup_message_code IM_REL = 0x0C"
| "isup_message_code IM_SUS = 0x0D"
| "isup_message_code IM_RES = 0x0E"
| "isup_message_code IM_RLC = 0x10"
| "isup_message_code IM_CCR = 0x11"
| "isup_message_code IM_RSC = 0x12"
| "isup_message_code IM_BLO = 0x13"
| "isup_message_code IM_UBL = 0x14"
| "isup_message_code IM_BLA = 0x15"
| "isup_message_code IM_UBA = 0x16"
| "isup_message_code IM_GRS = 0x17"
| "isup_message_code IM_GRA = 0x29"
| "isup_message_code IM_CGB = 0x18"
| "isup_message_code IM_CGU = 0x19"
| "isup_message_code IM_CGBA = 0x1A"
| "isup_message_code IM_CGUA = 0x1B"
| "isup_message_code IM_CPG = 0x2C"
| "isup_message_code IM_USR = 0x2D"
| "isup_message_code IM_UCIC = 0x2E"
| "isup_message_code IM_CFN = 0x2F"
| "isup_message_code IM_OLM = 0x30"
| "isup_message_code IM_CRG = 0x31"
| "isup_message_code IM_NRM = 0x32"
| "isup_message_code IM_FAC = 0x33"
| "isup_message_code IM_UPT = 0x34"
| "isup_message_code IM_UPA = 0x35"
| "isup_message_code IM_IDR = 0x36"
| "isup_message_code IM_IRS = 0x37"
| "isup_message_code IM_SGM = 0x38"
| "isup_message_code IM_LPR = 0x40"
| "isup_message_code IM_APT = 0x41"
| "isup_message_code IM_PRI = 0x42"
| "isup_message_code IM_SDN = 0x43"

definition isup_message_table :: "(u8 \<times> isup_message_type) list" where
  "isup_message_table =
    [(0x01, IM_IAM), (0x02, IM_SAM), (0x03, IM_INR), (0x04, IM_INF), (0x05, IM_COT),
     (0x06, IM_ACM), (0x07, IM_CON), (0x08, IM_FOT), (0x09, IM_ANM), (0x0C, IM_REL),
     (0x0D, IM_SUS), (0x0E, IM_RES), (0x10, IM_RLC), (0x11, IM_CCR), (0x12, IM_RSC),
     (0x13, IM_BLO), (0x14, IM_UBL), (0x15, IM_BLA), (0x16, IM_UBA), (0x17, IM_GRS),
     (0x29, IM_GRA), (0x18, IM_CGB), (0x19, IM_CGU), (0x1A, IM_CGBA), (0x1B, IM_CGUA),
     (0x2C, IM_CPG), (0x2D, IM_USR), (0x2E, IM_UCIC), (0x2F, IM_CFN), (0x30, IM_OLM),
     (0x31, IM_CRG), (0x32, IM_NRM), (0x33, IM_FAC), (0x34, IM_UPT), (0x35, IM_UPA),
     (0x36, IM_IDR), (0x37, IM_IRS), (0x38, IM_SGM), (0x40, IM_LPR), (0x41, IM_APT),
     (0x42, IM_PRI), (0x43, IM_SDN)]"

definition isup_message_of :: "u8 \<Rightarrow> isup_message_type" where
  "isup_message_of v = (case map_of isup_message_table v of Some t \<Rightarrow> t | None \<Rightarrow> IM_IAM)"

datatype (plugins only: code size) isup_parameter_type =
    IP_EndOfOptionalParameters | IP_CallReference | IP_TransmissionMediumRequirement |
    IP_AccessTransport | IP_CalledPartyNumber | IP_SubsequentNumber |
    IP_NatureOfConnectionIndicators | IP_ForwardCallIndicators | IP_OptionalForwardCallIndicators |
    IP_CallingPartyCategory | IP_CallingPartyNumber | IP_RedirectingNumber | IP_RedirectionNumber |
    IP_ConnectionRequest | IP_InformationRequestIndicators | IP_InformationIndicators |
    IP_ContinuityIndicators | IP_BackwardCallIndicators | IP_CauseIndicators |
    IP_RedirectionInformation | IP_CircuitGroupSupervisionMessageTypeIndicator |
    IP_RangeAndStatus | IP_FacilityIndicator | IP_UserServiceInformation | IP_SignallingPointCode |
    IP_UserToUserInformation | IP_ConnectedNumber | IP_SuspendResumeIndicators |
    IP_TransitNetworkSelection | IP_EventInformation | IP_CircuitAssignmentMap |
    IP_CircuitStateIndicator | IP_AutomaticCongestionLevel | IP_OptionalBackwardCallIndicators |
    IP_UserToUserIndicators | IP_OriginationIscPointCode | IP_GenericNotificationIndicator |
    IP_CallHistoryInformation | IP_AccessDeliveryInformation | IP_NetworkSpecificFacility |
    IP_UserServiceInformationPrime | IP_PropagationDelayCounter | IP_RemoteOperations |
    IP_ServiceActivation | IP_UserTeleserviceInformation | IP_TransmissionMediumUsed |
    IP_CallDiversionInformation | IP_EchoControlInformation | IP_MessageCompatibilityInformation |
    IP_ParameterCompatibilityInformation | IP_MlppPrecedence | IP_McidRequestIndicators |
    IP_McidResponseIndicators | IP_HopCounter | IP_TransmissionMediumRequirementPrime |
    IP_LocationNumber | IP_RedirectionNumberRestriction | IP_CallTransferReference |
    IP_LoopPreventionIndicators | IP_CallTransferNumber | IP_Ccss | IP_ForwardGvns |
    IP_BackwardGvns | IP_RedirectCapability | IP_NetworkManagementControls |
    IP_CircuitIdentificationCode | IP_SccpMethod

fun isup_parameter_code :: "isup_parameter_type \<Rightarrow> u8" where
  "isup_parameter_code IP_EndOfOptionalParameters = 0x00"
| "isup_parameter_code IP_CallReference = 0x01"
| "isup_parameter_code IP_TransmissionMediumRequirement = 0x02"
| "isup_parameter_code IP_AccessTransport = 0x03"
| "isup_parameter_code IP_CalledPartyNumber = 0x04"
| "isup_parameter_code IP_SubsequentNumber = 0x05"
| "isup_parameter_code IP_NatureOfConnectionIndicators = 0x06"
| "isup_parameter_code IP_ForwardCallIndicators = 0x07"
| "isup_parameter_code IP_OptionalForwardCallIndicators = 0x08"
| "isup_parameter_code IP_CallingPartyCategory = 0x09"
| "isup_parameter_code IP_CallingPartyNumber = 0x0A"
| "isup_parameter_code IP_RedirectingNumber = 0x0B"
| "isup_parameter_code IP_RedirectionNumber = 0x0C"
| "isup_parameter_code IP_ConnectionRequest = 0x0D"
| "isup_parameter_code IP_InformationRequestIndicators = 0x0E"
| "isup_parameter_code IP_InformationIndicators = 0x0F"
| "isup_parameter_code IP_ContinuityIndicators = 0x10"
| "isup_parameter_code IP_BackwardCallIndicators = 0x11"
| "isup_parameter_code IP_CauseIndicators = 0x12"
| "isup_parameter_code IP_RedirectionInformation = 0x13"
| "isup_parameter_code IP_CircuitGroupSupervisionMessageTypeIndicator = 0x15"
| "isup_parameter_code IP_RangeAndStatus = 0x16"
| "isup_parameter_code IP_FacilityIndicator = 0x18"
| "isup_parameter_code IP_UserServiceInformation = 0x1D"
| "isup_parameter_code IP_SignallingPointCode = 0x1E"
| "isup_parameter_code IP_UserToUserInformation = 0x20"
| "isup_parameter_code IP_ConnectedNumber = 0x21"
| "isup_parameter_code IP_SuspendResumeIndicators = 0x22"
| "isup_parameter_code IP_TransitNetworkSelection = 0x23"
| "isup_parameter_code IP_EventInformation = 0x24"
| "isup_parameter_code IP_CircuitAssignmentMap = 0x25"
| "isup_parameter_code IP_CircuitStateIndicator = 0x26"
| "isup_parameter_code IP_AutomaticCongestionLevel = 0x27"
| "isup_parameter_code IP_OptionalBackwardCallIndicators = 0x29"
| "isup_parameter_code IP_UserToUserIndicators = 0x2A"
| "isup_parameter_code IP_OriginationIscPointCode = 0x2B"
| "isup_parameter_code IP_GenericNotificationIndicator = 0x2C"
| "isup_parameter_code IP_CallHistoryInformation = 0x2D"
| "isup_parameter_code IP_AccessDeliveryInformation = 0x2E"
| "isup_parameter_code IP_NetworkSpecificFacility = 0x2F"
| "isup_parameter_code IP_UserServiceInformationPrime = 0x30"
| "isup_parameter_code IP_PropagationDelayCounter = 0x31"
| "isup_parameter_code IP_RemoteOperations = 0x32"
| "isup_parameter_code IP_ServiceActivation = 0x33"
| "isup_parameter_code IP_UserTeleserviceInformation = 0x34"
| "isup_parameter_code IP_TransmissionMediumUsed = 0x35"
| "isup_parameter_code IP_CallDiversionInformation = 0x36"
| "isup_parameter_code IP_EchoControlInformation = 0x37"
| "isup_parameter_code IP_MessageCompatibilityInformation = 0x38"
| "isup_parameter_code IP_ParameterCompatibilityInformation = 0x39"
| "isup_parameter_code IP_MlppPrecedence = 0x3A"
| "isup_parameter_code IP_McidRequestIndicators = 0x3B"
| "isup_parameter_code IP_McidResponseIndicators = 0x3C"
| "isup_parameter_code IP_HopCounter = 0x3D"
| "isup_parameter_code IP_TransmissionMediumRequirementPrime = 0x3E"
| "isup_parameter_code IP_LocationNumber = 0x3F"
| "isup_parameter_code IP_RedirectionNumberRestriction = 0x40"
| "isup_parameter_code IP_CallTransferReference = 0x43"
| "isup_parameter_code IP_LoopPreventionIndicators = 0x44"
| "isup_parameter_code IP_CallTransferNumber = 0x45"
| "isup_parameter_code IP_Ccss = 0x4B"
| "isup_parameter_code IP_ForwardGvns = 0x4C"
| "isup_parameter_code IP_BackwardGvns = 0x4D"
| "isup_parameter_code IP_RedirectCapability = 0x4E"
| "isup_parameter_code IP_NetworkManagementControls = 0x5B"
| "isup_parameter_code IP_CircuitIdentificationCode = 0x5C"
| "isup_parameter_code IP_SccpMethod = 0x83"

definition isup_parameter_table :: "(u8 \<times> isup_parameter_type) list" where
  "isup_parameter_table =
    [(0x00, IP_EndOfOptionalParameters), (0x01, IP_CallReference),
     (0x02, IP_TransmissionMediumRequirement), (0x03, IP_AccessTransport),
     (0x04, IP_CalledPartyNumber), (0x05, IP_SubsequentNumber),
     (0x06, IP_NatureOfConnectionIndicators), (0x07, IP_ForwardCallIndicators),
     (0x08, IP_OptionalForwardCallIndicators), (0x09, IP_CallingPartyCategory),
     (0x0A, IP_CallingPartyNumber), (0x0B, IP_RedirectingNumber), (0x0C, IP_RedirectionNumber),
     (0x0D, IP_ConnectionRequest), (0x0E, IP_InformationRequestIndicators),
     (0x0F, IP_InformationIndicators), (0x10, IP_ContinuityIndicators),
     (0x11, IP_BackwardCallIndicators), (0x12, IP_CauseIndicators),
     (0x13, IP_RedirectionInformation), (0x15, IP_CircuitGroupSupervisionMessageTypeIndicator),
     (0x16, IP_RangeAndStatus), (0x18, IP_FacilityIndicator), (0x1D, IP_UserServiceInformation),
     (0x1E, IP_SignallingPointCode), (0x20, IP_UserToUserInformation), (0x21, IP_ConnectedNumber),
     (0x22, IP_SuspendResumeIndicators), (0x23, IP_TransitNetworkSelection),
     (0x24, IP_EventInformation), (0x25, IP_CircuitAssignmentMap),
     (0x26, IP_CircuitStateIndicator), (0x27, IP_AutomaticCongestionLevel),
     (0x29, IP_OptionalBackwardCallIndicators), (0x2A, IP_UserToUserIndicators),
     (0x2B, IP_OriginationIscPointCode), (0x2C, IP_GenericNotificationIndicator),
     (0x2D, IP_CallHistoryInformation), (0x2E, IP_AccessDeliveryInformation),
     (0x2F, IP_NetworkSpecificFacility), (0x30, IP_UserServiceInformationPrime),
     (0x31, IP_PropagationDelayCounter), (0x32, IP_RemoteOperations), (0x33, IP_ServiceActivation),
     (0x34, IP_UserTeleserviceInformation), (0x35, IP_TransmissionMediumUsed),
     (0x36, IP_CallDiversionInformation), (0x37, IP_EchoControlInformation),
     (0x38, IP_MessageCompatibilityInformation), (0x39, IP_ParameterCompatibilityInformation),
     (0x3A, IP_MlppPrecedence), (0x3B, IP_McidRequestIndicators),
     (0x3C, IP_McidResponseIndicators), (0x3D, IP_HopCounter),
     (0x3E, IP_TransmissionMediumRequirementPrime), (0x3F, IP_LocationNumber),
     (0x40, IP_RedirectionNumberRestriction), (0x43, IP_CallTransferReference),
     (0x44, IP_LoopPreventionIndicators), (0x45, IP_CallTransferNumber), (0x4B, IP_Ccss),
     (0x4C, IP_ForwardGvns), (0x4D, IP_BackwardGvns), (0x4E, IP_RedirectCapability),
     (0x5B, IP_NetworkManagementControls), (0x5C, IP_CircuitIdentificationCode),
     (0x83, IP_SccpMethod)]"

definition isup_parameter_of :: "u8 \<Rightarrow> isup_parameter_type" where
  "isup_parameter_of v = (case map_of isup_parameter_table v of Some t \<Rightarrow> t | None \<Rightarrow> IP_EndOfOptionalParameters)"

record isup_parameter =
  ip_param_type :: isup_parameter_type
  ip_length :: u8
  ip_data :: "byte list"

record isup_message =
  im_cic :: u16
  im_message_type :: isup_message_type
  im_mandatory_fixed :: "byte list"
  im_mandatory_variable :: "isup_parameter list"
  im_optional :: "isup_parameter list"
  im_raw_data :: "byte list"

datatype isup_error =
    IsupTooShort
  | FixedTooShort
  | PointersTooShort
  | InvalidPointer
  | InvalidVariableLength
  | InvalidOptionalLength
  | EmptyPhoneNumber
  | InvalidCic
  | IamWithoutCalledParty
  | IamFixedIncomplete
  | RelWithoutCause

section \<open>Parsing\<close>

definition mandatory_fixed_length :: "isup_message_type \<Rightarrow> nat" where
  "mandatory_fixed_length ty =
    (case ty of IM_IAM \<Rightarrow> 4 | IM_ACM \<Rightarrow> 2 | IM_ANM \<Rightarrow> 1 | IM_REL \<Rightarrow> 1 | IM_CPG \<Rightarrow> 1 | IM_COT \<Rightarrow> 1
     | IM_GRS \<Rightarrow> 1 | IM_GRA \<Rightarrow> 1 | _ \<Rightarrow> 0)"

definition mandatory_variable_count :: "isup_message_type \<Rightarrow> nat" where
  "mandatory_variable_count ty = (case ty of IM_IAM \<Rightarrow> 1 | IM_SAM \<Rightarrow> 1 | _ \<Rightarrow> 0)"

definition variable_parameter_type :: "isup_message_type \<Rightarrow> nat \<Rightarrow> isup_parameter_type" where
  "variable_parameter_type ty position =
    (case (ty, position) of
       (IM_IAM, 0) \<Rightarrow> IP_CalledPartyNumber
     | (IM_SAM, 0) \<Rightarrow> IP_SubsequentNumber
     | _ \<Rightarrow> IP_EndOfOptionalParameters)"

definition parse_mandatory_fixed :: "isup_message_type \<Rightarrow> byte list \<Rightarrow> isup_error + byte list \<times> byte list" where
  "parse_mandatory_fixed ty data =
    (let n = mandatory_fixed_length ty
     in if length data < n then Inl FixedTooShort else Inr (drop n data, take n data))"

text \<open>The parameters the pointers name, after those already read.\<close>

fun read_pointers ::
    "isup_message_type \<Rightarrow> byte list \<Rightarrow> byte list \<Rightarrow> isup_parameter list \<Rightarrow> isup_error + isup_parameter list" where
  "read_pointers ty current [] params = Inr params"
| "read_pointers ty current (p # ps) params =
    (if p = 0 then read_pointers ty current ps params
     else
       let offset = unat p - 1
       in if length current \<le> offset then Inl InvalidPointer
          else
            let d = drop offset current; n = unat (d ! 0)
            in if length d < n + 1 then Inl InvalidVariableLength
               else read_pointers ty current ps
                 (params @ [\<lparr>ip_param_type = variable_parameter_type ty (length params),
                    ip_length = d ! 0, ip_data = take n (drop 1 d)\<rparr>]))"

definition parse_mandatory_variable ::
    "isup_message_type \<Rightarrow> byte list \<Rightarrow> isup_error + byte list \<times> isup_parameter list" where
  "parse_mandatory_variable ty data =
    (let n = mandatory_variable_count ty
     in if n = 0 then Inr (data, [])
        else if length data < n then Inl PointersTooShort
        else case read_pointers ty (drop n data) (take n data) [] of
          Inl e \<Rightarrow> Inl e
        | Inr params \<Rightarrow> Inr (drop n data, params))"

fun parse_optional_parameters :: "byte list \<Rightarrow> isup_error + isup_parameter list" where
  "parse_optional_parameters [] = Inr []"
| "parse_optional_parameters [t] = Inr []"
| "parse_optional_parameters (t # l # body) =
    (if t = 0 then Inr []
     else if length body < unat l then Inl InvalidOptionalLength
     else case parse_optional_parameters (drop (unat l) body) of
       Inl e \<Rightarrow> Inl e
     | Inr ps \<Rightarrow> Inr (\<lparr>ip_param_type = isup_parameter_of t, ip_length = l, ip_data = take (unat l) body\<rparr> # ps))"

definition parse_isup_message :: "byte list \<Rightarrow> isup_error + isup_message" where
  "parse_isup_message data =
    (if length data < 3 then Inl IsupTooShort
     else
       let cic = of_be16 (data ! 0) (data ! 1); ty = isup_message_of (data ! 2)
       in case parse_mandatory_fixed ty (drop 3 data) of
            Inl e \<Rightarrow> Inl e
          | Inr (remaining, fixed) \<Rightarrow> (case parse_mandatory_variable ty remaining of
            Inl e \<Rightarrow> Inl e
          | Inr (remaining, variable) \<Rightarrow> (case parse_optional_parameters remaining of
            Inl e \<Rightarrow> Inl e
          | Inr optional \<Rightarrow> Inr \<lparr>im_cic = cic, im_message_type = ty, im_mandatory_fixed = fixed,
              im_mandatory_variable = variable, im_optional = optional, im_raw_data = data\<rparr>)))"

section \<open>Encoding\<close>

text \<open>The pointers and the data of the variable parameters, after those already written.\<close>

fun encode_variable :: "nat \<Rightarrow> isup_parameter list \<Rightarrow> byte list \<Rightarrow> byte list \<Rightarrow> byte list \<times> byte list" where
  "encode_variable base [] pointers var_data = (pointers, var_data)"
| "encode_variable base (p # ps) pointers var_data =
    (if ip_data p = [] then encode_variable base ps (pointers @ [0]) var_data
     else encode_variable base ps (pointers @ [word_of_nat (base + length var_data + 1)])
            (var_data @ ip_length p # ip_data p))"

definition encode_optional :: "isup_parameter \<Rightarrow> byte list" where
  "encode_optional p = isup_parameter_code (ip_param_type p) # ip_length p # ip_data p"

definition create_isup_message :: "isup_message \<Rightarrow> byte list" where
  "create_isup_message m =
     be16 (im_cic m) @ [isup_message_code (im_message_type m)] @ im_mandatory_fixed m @
     (if im_mandatory_variable m = [] then []
      else let (pointers, var_data) = encode_variable (length (im_mandatory_variable m)) (im_mandatory_variable m) [] []
           in pointers @ var_data) @
     concat (map encode_optional (im_optional m)) @ (if im_optional m = [] then [] else [0])"

section \<open>Telephone numbers\<close>

fun pack_digits :: "u8 list \<Rightarrow> byte list" where
  "pack_digits [] = []"
| "pack_digits [a] = [a OR push_bit 4 0x0F]"
| "pack_digits (a # b # ds) = (a OR push_bit 4 b) # pack_digits ds"

definition digit_values :: "string \<Rightarrow> u8 list" where
  "digit_values s = map (\<lambda>c. word_of_nat (of_char c - 48)) (filter is_digit s)"

definition clean_number :: "string \<Rightarrow> string" where
  "clean_number s = filter (\<lambda>c. c \<notin> set '' -()'') (dropWhile (\<lambda>c. c = CHR ''+'') s)"

definition encode_phone_number :: "string \<Rightarrow> isup_error + byte list" where
  "encode_phone_number number =
    (let cleaned = clean_number number
     in if cleaned = [] then Inl EmptyPhoneNumber
        else Inr (0x03 # 0x10 # pack_digits (digit_values cleaned)))"

fun unpack_digits :: "byte list \<Rightarrow> string" where
  "unpack_digits [] = []"
| "unpack_digits (b # bs) =
    (let first = b AND 0x0F; second = drop_bit 4 (b AND 0xF0);
         out = (if first \<le> 9 then [digit_char (unat first)] else [])
     in if second \<le> 9 then out @ [digit_char (unat second)] @ unpack_digits bs
        else if second = 0x0F then out
        else out @ unpack_digits bs)"

definition decode_phone_number :: "byte list \<Rightarrow> string option" where
  "decode_phone_number data =
    (if length data < 2 then None
     else let number = unpack_digits (drop 2 data) in if number = [] then None else Some number)"

definition find_number :: "isup_parameter_type \<Rightarrow> isup_parameter list \<Rightarrow> string option" where
  "find_number ty params =
    (case List.find (\<lambda>p. ip_param_type p = ty) params of
       Some p \<Rightarrow> decode_phone_number (ip_data p) | None \<Rightarrow> None)"

definition extract_calling_number :: "isup_message \<Rightarrow> string option" where
  "extract_calling_number m = find_number IP_CallingPartyNumber (im_optional m)"

definition extract_called_number :: "isup_message \<Rightarrow> string option" where
  "extract_called_number m = find_number IP_CalledPartyNumber (im_mandatory_variable m)"

definition number_parameter :: "isup_parameter_type \<Rightarrow> byte list \<Rightarrow> isup_parameter" where
  "number_parameter ty data = \<lparr>ip_param_type = ty, ip_length = word_of_nat (length data), ip_data = data\<rparr>"

definition sip_to_iam :: "string \<Rightarrow> string \<Rightarrow> u16 \<Rightarrow> isup_error + isup_message" where
  "sip_to_iam from_number to_number cic =
    (case encode_phone_number to_number of
       Inl e \<Rightarrow> Inl e
     | Inr called \<Rightarrow> (case encode_phone_number from_number of
       Inl e \<Rightarrow> Inl e
     | Inr calling \<Rightarrow> Inr \<lparr>im_cic = cic, im_message_type = IM_IAM,
         im_mandatory_fixed = [0x00, 0x60, 0x01, 0x0A, 0x03],
         im_mandatory_variable = [number_parameter IP_CalledPartyNumber called],
         im_optional = [number_parameter IP_CallingPartyNumber calling], im_raw_data = []\<rparr>))"

section \<open>Utilities\<close>

record sipt_config =
  st_sipt_enabled :: bool
  st_sipi_enabled :: bool
  st_originating_point_code :: u32
  st_destination_point_code :: u32
  st_cic_range_start :: u16
  st_cic_range_end :: u16
  st_validate_isup :: bool
  st_multipart_support :: bool
  st_max_isup_size :: u64

definition default_sipt_config :: sipt_config where
  "default_sipt_config = \<lparr>st_sipt_enabled = False, st_sipi_enabled = False, st_originating_point_code = 0x001234,
     st_destination_point_code = 0x005678, st_cic_range_start = 1, st_cic_range_end = 4095,
     st_validate_isup = True, st_multipart_support = True, st_max_isup_size = 65535\<rparr>"

definition isup_to_sip_method :: "isup_message_type \<Rightarrow> string" where
  "isup_to_sip_method ty =
    (case ty of IM_IAM \<Rightarrow> ''INVITE'' | IM_REL \<Rightarrow> ''BYE'' | IM_ACM \<Rightarrow> ''183'' | IM_ANM \<Rightarrow> ''200''
     | IM_CPG \<Rightarrow> ''183'' | _ \<Rightarrow> ''INFO'')"

definition get_next_cic :: "sipt_config \<Rightarrow> u16 list \<Rightarrow> u16 option" where
  "get_next_cic config used =
     List.find (\<lambda>c. c \<notin> set used)
       (map word_of_nat [unat (st_cic_range_start config)..<Suc (unat (st_cic_range_end config))])"

definition validate_isup_message :: "isup_message \<Rightarrow> isup_error option" where
  "validate_isup_message m =
    (if im_cic m = 0 then Some InvalidCic
     else case im_message_type m of
       IM_IAM \<Rightarrow>
         if im_mandatory_variable m = [] then Some IamWithoutCalledParty
         else if length (im_mandatory_fixed m) < 4 then Some IamFixedIncomplete else None
     | IM_REL \<Rightarrow> if im_mandatory_fixed m = [] then Some RelWithoutCause else None
     | _ \<Rightarrow> None)"

section \<open>Round trips\<close>

lemma isup_message_of_code [simp]: "isup_message_of (isup_message_code ty) = ty"
  by (cases ty) (simp_all add: isup_message_of_def isup_message_table_def)

lemma isup_parameter_of_code [simp]: "isup_parameter_of (isup_parameter_code ty) = ty"
  by (cases ty) (simp_all add: isup_parameter_of_def isup_parameter_table_def)

lemma isup_parameter_code_zero [simp]: "isup_parameter_code ty = 0 \<longleftrightarrow> ty = IP_EndOfOptionalParameters"
  by (cases ty) simp_all

definition optional_wf :: "isup_parameter \<Rightarrow> bool" where
  "optional_wf p \<longleftrightarrow> ip_param_type p \<noteq> IP_EndOfOptionalParameters \<and> unat (ip_length p) = length (ip_data p)"

lemma parse_optional_step:
  "optional_wf p \<Longrightarrow> parse_optional_parameters (encode_optional p @ rest) =
    (case parse_optional_parameters rest of Inl e \<Rightarrow> Inl e | Inr ps \<Rightarrow> Inr (p # ps))"
  by (auto simp: encode_optional_def optional_wf_def split: sum.split)

lemma parse_optional_encoded:
  "list_all optional_wf ps \<Longrightarrow> parse_optional_parameters (concat (map encode_optional ps) @ (if ps = [] then [] else [0])) = Inr ps"
proof -
  have "list_all optional_wf ps \<Longrightarrow> parse_optional_parameters (concat (map encode_optional ps) @ [0]) = Inr ps"
    by (induction ps) (simp_all add: parse_optional_step)
  moreover assume "list_all optional_wf ps"
  ultimately show ?thesis by simp
qed

definition isup_wf :: "isup_message \<Rightarrow> bool" where
  "isup_wf m \<longleftrightarrow> mandatory_variable_count (im_message_type m) = 0 \<and> im_mandatory_variable m = [] \<and>
     length (im_mandatory_fixed m) = mandatory_fixed_length (im_message_type m) \<and> list_all optional_wf (im_optional m)"

text \<open>A message of a type without variable parameters, with fixed parameters of the length of the
  type and optional parameters of known types with their true lengths, is read back from its encoding
  (the parser adds the bytes it read).\<close>

theorem isup_roundtrip:
  assumes "isup_wf m"
  shows "parse_isup_message (create_isup_message m) = Inr (m\<lparr>im_raw_data := create_isup_message m\<rparr>)"
proof -
  obtain a b where cic: "be16 (im_cic m) = [a, b]" "of_be16 a b = im_cic m"
    by (simp add: be16_def)
  have "create_isup_message m = a # b # isup_message_code (im_message_type m) # im_mandatory_fixed m @
      concat (map encode_optional (im_optional m)) @ (if im_optional m = [] then [] else [0])"
    using assms by (simp add: create_isup_message_def isup_wf_def cic)
  with assms show ?thesis
    by (simp add: parse_isup_message_def parse_mandatory_fixed_def parse_mandatory_variable_def isup_wf_def
        parse_optional_encoded cic Let_def)
qed

definition release_message :: isup_message where
  "release_message = \<lparr>im_cic = 7, im_message_type = IM_REL, im_mandatory_fixed = [0x10], im_mandatory_variable = [],
     im_optional = [\<lparr>ip_param_type = IP_CauseIndicators, ip_length = 2, ip_data = [0x80, 0x90]\<rparr>], im_raw_data = []\<rparr>"

theorem isup_roundtrip_witness:
  "\<exists>m. parse_isup_message (create_isup_message release_message) = Inr m \<and> im_cic m = 7 \<and> im_mandatory_fixed m = [0x10]"
proof -
  have "isup_wf release_message"
    by (simp add: isup_wf_def release_message_def mandatory_variable_count_def mandatory_fixed_length_def optional_wf_def)
  from isup_roundtrip [OF this] show ?thesis by (simp add: release_message_def)
qed

subsection \<open>Digits\<close>

definition small_digit :: "u8 \<Rightarrow> bool" where
  "small_digit d \<longleftrightarrow> d \<le> 9"

lemma u8_le_9_cases: "small_digit d \<Longrightarrow> d = 0 \<or> d = 1 \<or> d = 2 \<or> d = 3 \<or> d = 4 \<or> d = 5 \<or> d = 6 \<or> d = 7 \<or> d = 8 \<or> d = 9"
proof -
  have n: "n \<le> 9 \<Longrightarrow> n = 0 \<or> n = 1 \<or> n = 2 \<or> n = 3 \<or> n = 4 \<or> n = 5 \<or> n = 6 \<or> n = 7 \<or> n = 8 \<or> n = 9" for n :: nat
    by presburger
  assume "small_digit d"
  then have "unat d \<le> 9" by (simp add: small_digit_def word_le_nat_alt)
  from n [OF this] show ?thesis by (simp add: word_unat_eq_iff)
qed

lemma packed_nibbles:
  assumes "small_digit a" and "small_digit b"
  shows "(a OR push_bit 4 b) AND 0x0F = a" "drop_bit 4 ((a OR push_bit 4 b) AND 0xF0) = b"
  using u8_le_9_cases [OF assms(1)] u8_le_9_cases [OF assms(2)] by (elim disjE; simp)+

lemma packed_filler:
  assumes "small_digit a"
  shows "(a OR push_bit 4 0x0F) AND 0x0F = a" "drop_bit 4 ((a OR push_bit 4 0x0F) AND 0xF0) = 0x0F"
  using u8_le_9_cases [OF assms] by (elim disjE; simp)+

lemma unpack_two:
  assumes "small_digit a" and "small_digit b"
  shows "unpack_digits ((a OR push_bit 4 b) # bs) = digit_char (unat a) # digit_char (unat b) # unpack_digits bs"
  unfolding unpack_digits.simps packed_nibbles [OF assms] Let_def
  using assms by (simp add: small_digit_def)

lemma unpack_last:
  assumes "small_digit a"
  shows "unpack_digits ((a OR push_bit 4 0x0F) # bs) = [digit_char (unat a)]"
  unfolding unpack_digits.simps packed_filler [OF assms] Let_def
  using assms by (simp add: small_digit_def)

lemma unpack_pack: "list_all small_digit ds \<Longrightarrow> unpack_digits (pack_digits ds) = map (\<lambda>d. digit_char (unat d)) ds"
proof (induction ds rule: pack_digits.induct)
  case (2 a)
  then show ?case unfolding pack_digits.simps by (subst unpack_last) simp_all
next
  case (3 a b ds)
  then show ?case unfolding pack_digits.simps by (subst unpack_two) simp_all
qed simp

lemma digit_value:
  assumes "is_digit c"
  shows "small_digit (word_of_nat (of_char c - 48))" "digit_char (unat (word_of_nat (of_char c - 48) :: u8)) = c"
proof -
  from assms have c: "48 \<le> (of_char c :: nat)" "(of_char c :: nat) \<le> 57" by (simp_all add: is_digit_def)
  define n where "n = (of_char c :: nat) - 48"
  with c have n: "n \<le> 9" "of_char c = 48 + n" by simp_all
  have u: "unat (word_of_nat n :: u8) = n" using n(1) by (simp add: unsigned_of_nat take_bit_nat_eq_self)
  show "small_digit (word_of_nat (of_char c - 48))"
    unfolding n_def [symmetric] by (simp add: small_digit_def word_le_nat_alt u n(1))
  show "digit_char (unat (word_of_nat (of_char c - 48) :: u8)) = c"
    unfolding n_def [symmetric] u digit_char_def using n(2) by (metis char_of_char)
qed

lemma digit_values_small: "list_all small_digit (digit_values s)"
  by (simp add: digit_values_def list_all_iff digit_value(1) del: of_nat_diff)

lemma digit_values_chars: "map (\<lambda>d. digit_char (unat d)) (digit_values s) = filter is_digit s"
  unfolding digit_values_def map_map by (rule map_idI) (simp only: o_apply set_filter mem_Collect_eq digit_value(2))

lemma clean_keeps_digits: "filter is_digit (clean_number s) = filter is_digit s"
proof -
  have "filter is_digit (dropWhile (\<lambda>c. c = CHR ''+'') s) = filter is_digit s"
    by (induction s) (auto simp: is_digit_def)
  moreover have "filter is_digit (filter (\<lambda>c. c \<notin> set '' -()'') xs) = filter is_digit xs" for xs
    by (induction xs) (auto simp: is_digit_def)
  ultimately show ?thesis by (simp only: clean_number_def)
qed

lemma encoded_digits:
  "encode_phone_number s = Inr d \<Longrightarrow> d = 0x03 # 0x10 # pack_digits (digit_values s)"
  by (auto simp: encode_phone_number_def digit_values_def clean_keeps_digits Let_def split: if_splits)

text \<open>Decoding an encoded telephone number gives its digits back, of an odd and of an even
  count.\<close>

theorem isup_number_roundtrip:
  assumes "encode_phone_number s = Inr d" and "filter is_digit s \<noteq> []"
  shows "decode_phone_number d = Some (filter is_digit s)"
  using assms encoded_digits [OF assms(1)]
  by (simp add: decode_phone_number_def unpack_pack digit_values_small digit_values_chars)


theorem isup_number_roundtrip_witness:
  "decode_phone_number [0x03, 0x10, 0x51, 0xF5] = Some ''155''"
proof -
  have "encode_phone_number ''+1 (5)5'' = Inr [0x03, 0x10, 0x51, 0xF5]" "filter is_digit ''+1 (5)5'' = ''155''"
    by code_simp+
  from isup_number_roundtrip [OF this(1)] this(2) show ?thesis by simp
qed

section \<open>An IAM of the encoder, read by the parser\<close>

lemma pack_three_digits:
  assumes "3 \<le> length ds"
  obtains b1 b2 bs where "pack_digits ds = b1 # b2 # bs"
    "list_all small_digit ds \<Longrightarrow> unpack_digits [b2] = map (\<lambda>d. digit_char (unat d)) (take 2 (drop 2 ds))"
proof -
  from assms obtain d1 d2 d3 es where ds: "ds = d1 # d2 # d3 # es"
    by (metis Suc_le_length_iff eval_nat_numeral(3) numeral_2_eq_2 numeral_3_eq_3)
  show thesis
  proof (cases es)
    case Nil
    with ds show thesis
      using unpack_last [of d3 "[]"] by (intro that) (auto simp del: unpack_digits.simps)
  next
    case (Cons d4 fs)
    with ds show thesis
      using unpack_two [of d3 d4 "[]"] by (intro that) (auto simp del: unpack_digits.simps(2))
  qed
qed

text \<open>The bytes of the IAM after the header.\<close>

lemma create_iam:
  assumes "encode_phone_number t = Inr called" and "encode_phone_number f = Inr calling" and "be16 cic = [a, b]"
  shows "\<exists>iam. sip_to_iam f t cic = Inr iam \<and>
    create_isup_message iam = a # b # 0x01 # 0x00 # 0x60 # 0x01 # 0x0A # 0x03 # 0x02 # word_of_nat (length called) #
      called @ 0x0A # word_of_nat (length calling) # calling @ [0] \<and>
    im_mandatory_variable iam = [number_parameter IP_CalledPartyNumber called]"
  using assms encoded_digits [OF assms(1)]
  by (simp add: sip_to_iam_def create_isup_message_def number_parameter_def encode_optional_def)

text \<open>The IAM that \<open>sip_to_iam\<close> builds and \<open>create_isup_message\<close> encodes is
  accepted by \<open>parse_isup_message\<close>, but the called number that is read from it is the third
  and the fourth digit only; the calling number survives.\<close>

theorem iam_called_number_misread:
  assumes called: "encode_phone_number t = Inr called" "length called < 256" "3 \<le> length (filter is_digit t)"
    and calling: "encode_phone_number f = Inr calling" "length calling < 256" "filter is_digit f \<noteq> []"
  shows "\<exists>iam m. sip_to_iam f t cic = Inr iam \<and> extract_called_number iam = Some (filter is_digit t) \<and>
    parse_isup_message (create_isup_message iam) = Inr m \<and>
    extract_called_number m = Some (take 2 (drop 2 (filter is_digit t))) \<and>
    extract_calling_number m = Some (filter is_digit f)"
proof -
  obtain a b where cic: "be16 cic = [a, b]" "of_be16 a b = cic" by (simp add: be16_def)
  from create_iam [OF called(1) calling(1) cic(1)] obtain iam where iam: "sip_to_iam f t cic = Inr iam"
    "create_isup_message iam = a # b # 0x01 # 0x00 # 0x60 # 0x01 # 0x0A # 0x03 # 0x02 # word_of_nat (length called) #
      called @ 0x0A # word_of_nat (length calling) # calling @ [0]"
    "im_mandatory_variable iam = [number_parameter IP_CalledPartyNumber called]" by blast
  have "3 \<le> length (digit_values t)" using called(3) by (simp add: digit_values_def)
  then obtain b1 b2 bs where p: "pack_digits (digit_values t) = b1 # b2 # bs"
    and b2: "unpack_digits [b2] = map (\<lambda>d. digit_char (unat d)) (take 2 (drop 2 (digit_values t)))"
    using pack_three_digits digit_values_small by metis
  then have c: "called = 0x03 # 0x10 # b1 # b2 # bs" using encoded_digits [OF called(1)] by simp
  have num: "decode_phone_number called = Some (filter is_digit t)" "decode_phone_number calling = Some (filter is_digit f)"
    using called calling encoded_digits [OF called(1)] encoded_digits [OF calling(1)]
    by (auto simp: decode_phone_number_def unpack_pack digit_values_small digit_values_chars Let_def)
  have "unpack_digits [b2] = take 2 (drop 2 (filter is_digit t))"
    unfolding b2 digit_values_chars [symmetric] by (simp add: take_map drop_map)
  then have two: "decode_phone_number [0x10, b1, b2] = Some (take 2 (drop 2 (filter is_digit t)))"
    using called(3) by (simp add: decode_phone_number_def del: unpack_digits.simps)
  have opt: "parse_optional_parameters (0x02 # word_of_nat (length called) # called @ 0x0A # word_of_nat (length calling) # calling @ [0]) =
      Inr [number_parameter IP_TransmissionMediumRequirement called, number_parameter IP_CallingPartyNumber calling]"
    using parse_optional_encoded [of "[number_parameter IP_TransmissionMediumRequirement called, number_parameter IP_CallingPartyNumber calling]"]
      called(2) calling(2)
    by (simp add: optional_wf_def number_parameter_def encode_optional_def unsigned_of_nat take_bit_nat_eq_self)
  have "read_pointers IM_IAM (0x02 # word_of_nat (length called) # called @ rest) [0x03] [] =
      Inr [\<lparr>ip_param_type = IP_CalledPartyNumber, ip_length = 0x03, ip_data = [0x10, b1, b2]\<rparr>]" for rest
    by (simp add: c variable_parameter_type_def)
  with opt have "parse_isup_message (create_isup_message iam) = Inr
      \<lparr>im_cic = cic, im_message_type = IM_IAM, im_mandatory_fixed = [0x00, 0x60, 0x01, 0x0A],
       im_mandatory_variable = [\<lparr>ip_param_type = IP_CalledPartyNumber, ip_length = 0x03, ip_data = [0x10, b1, b2]\<rparr>],
       im_optional = [number_parameter IP_TransmissionMediumRequirement called, number_parameter IP_CallingPartyNumber calling],
       im_raw_data = create_isup_message iam\<rparr>"
    unfolding iam(2)
    by (simp add: parse_isup_message_def parse_mandatory_fixed_def parse_mandatory_variable_def
        isup_message_of_def isup_message_table_def mandatory_fixed_length_def mandatory_variable_count_def cic(2) Let_def
        del: read_pointers.simps parse_optional_parameters.simps)
  with iam(1,3) num two show ?thesis
    by (auto simp: extract_called_number_def extract_calling_number_def find_number_def number_parameter_def)
qed

theorem iam_called_number_misread_witness:
  "\<exists>iam m. sip_to_iam ''12125550100'' ''17025551234'' 7 = Inr iam \<and>
     parse_isup_message (create_isup_message iam) = Inr m \<and> extract_called_number m = Some ''02''"
proof -
  have e: "encode_phone_number ''17025551234'' = Inr [0x03, 0x10, 0x71, 0x20, 0x55, 0x15, 0x32, 0xF4]"
    "encode_phone_number ''12125550100'' = Inr [0x03, 0x10, 0x21, 0x21, 0x55, 0x05, 0x01, 0xF0]"
    by code_simp+
  have d: "filter is_digit ''17025551234'' = ''17025551234''" "filter is_digit ''12125550100'' = ''12125550100''"
    by code_simp+
  from iam_called_number_misread [OF e(1) _ _ e(2), of 7] d show ?thesis by fastforce
qed

section \<open>Circuits\<close>

lemma find_map_upt:
  "List.find P (map g [m..<n]) = Some x \<longleftrightarrow>
    (\<exists>k. m \<le> k \<and> k < n \<and> x = g k \<and> P (g k) \<and> (\<forall>j. m \<le> j \<and> j < k \<longrightarrow> \<not> P (g j)))" (is "_ \<longleftrightarrow> ?R")
proof -
  have "List.find P (map g [m..<n]) = Some x \<longleftrightarrow>
      (\<exists>i < n - m. P (g (m + i)) \<and> x = g (m + i) \<and> (\<forall>j < i. \<not> P (g (m + j))))"
    unfolding find_Some_iff by (intro iff_exI) auto
  also have "\<dots> \<longleftrightarrow> ?R"
  proof
    assume "\<exists>i < n - m. P (g (m + i)) \<and> x = g (m + i) \<and> (\<forall>j < i. \<not> P (g (m + j)))"
    then obtain i where i: "i < n - m" "P (g (m + i))" "x = g (m + i)" "\<forall>j < i. \<not> P (g (m + j))" by blast
    have "\<not> P (g j)" if "m \<le> j" "j < m + i" for j
      using i(4) that by (metis le_add_diff_inverse less_diff_conv2 add.commute)
    with i show ?R by (intro exI [of _ "m + i"]) auto
  next
    assume ?R
    then obtain k where k: "m \<le> k" "k < n" "x = g k" "P (g k)" "\<forall>j. m \<le> j \<and> j < k \<longrightarrow> \<not> P (g j)" by blast
    then show "\<exists>i < n - m. P (g (m + i)) \<and> x = g (m + i) \<and> (\<forall>j < i. \<not> P (g (m + j)))"
      by (intro exI [of _ "k - m"]) auto
  qed
  finally show ?thesis .
qed

text \<open>The next circuit is the least unused one of the configured range; there is none exactly
  if every circuit of the range is in use.\<close>

theorem next_cic_least:
  "(get_next_cic config used = Some c \<longleftrightarrow>
     st_cic_range_start config \<le> c \<and> c \<le> st_cic_range_end config \<and> c \<notin> set used \<and>
     {st_cic_range_start config..<c} \<subseteq> set used) \<and>
   (get_next_cic config used = None \<longleftrightarrow> {st_cic_range_start config..st_cic_range_end config} \<subseteq> set used)"
proof (rule conjI)
  let ?a = "st_cic_range_start config" and ?b = "st_cic_range_end config"
  have w: "word_of_nat (unat c) = c" for c :: u16 by simp
  have u: "unat (word_of_nat k :: u16) = k" if "k \<le> unat ?b" for k
  proof -
    have "unat ?b < 2 ^ LENGTH(16)" by (rule unsigned_less)
    with that show ?thesis by (simp add: unsigned_of_nat take_bit_nat_eq_self)
  qed
  show "get_next_cic config used = Some c \<longleftrightarrow> ?a \<le> c \<and> c \<le> ?b \<and> c \<notin> set used \<and> {?a..<c} \<subseteq> set used" (is "?L \<longleftrightarrow> ?R")
  proof
    assume ?L
    then obtain k where k: "unat ?a \<le> k" "k \<le> unat ?b" "c = word_of_nat k" "c \<notin> set used"
      "\<forall>j. unat ?a \<le> j \<and> j < k \<longrightarrow> word_of_nat j \<in> set used"
      unfolding get_next_cic_def find_map_upt by (auto simp: less_Suc_eq_le)
    then have c: "unat c = k" by (simp add: u)
    have "d \<in> set used" if "?a \<le> d" "d < c" for d
      using k(5) [rule_format, of "unat d"] that by (simp add: c [symmetric] word_le_nat_alt word_less_nat_alt)
    with k(1,2,4) c show ?R by (auto simp: word_le_nat_alt)
  next
    assume r: ?R
    have "word_of_nat j \<in> set used" if "unat ?a \<le> j" "j < unat c" for j
    proof -
      have "j \<le> unat ?b" using r that by (simp add: word_le_nat_alt)
      then show ?thesis using r that u [of j] by (auto simp: word_le_nat_alt word_less_nat_alt subset_iff)
    qed
    with r show ?L
      unfolding get_next_cic_def find_map_upt
      by (intro exI [of _ "unat c"]) (auto simp: word_le_nat_alt less_Suc_eq_le)
  qed
  show "get_next_cic config used = None \<longleftrightarrow> {?a..?b} \<subseteq> set used" (is "?L \<longleftrightarrow> ?R")
  proof
    assume ?L
    then have n: "word_of_nat k \<in> set used" if "unat ?a \<le> k" "k \<le> unat ?b" for k
      using that unfolding get_next_cic_def find_None_iff by (auto simp: less_Suc_eq_le simp del: upt_Suc)
    have "d \<in> set used" if "?a \<le> d" "d \<le> ?b" for d
      using n [of "unat d"] that by (simp add: word_le_nat_alt)
    then show ?R by auto
  next
    assume r: ?R
    have "word_of_nat k \<in> set used" if "unat ?a \<le> k" "k \<le> unat ?b" for k
      using r that u [of k] by (auto simp: word_le_nat_alt subset_iff)
    then show ?L
      unfolding get_next_cic_def find_None_iff by (auto simp: less_Suc_eq_le simp del: upt_Suc)
  qed
qed

end
