(* ===== verification/Cesopsn.thy ===== *)
theory Cesopsn
  imports Redfire_Prelude "HOL-Library.Multiset" "HOL-Library.AList"
begin

text \<open>
  TDM circuits over packets (\<open>src/cesopsn.rs\<close>): the packet format, the jitter buffer,
  and the sending and receiving side of a circuit. A datagram that is sent is returned; the time of an
  operation and the SSRC the service draws are arguments.
\<close>

section \<open>Packets\<close>

record cesopsn_header =
  ch_sequence_number :: u16
  ch_timestamp :: u32
  ch_ssrc :: u32
  ch_circuit_id :: u16
  ch_payload_type :: u8
  ch_marker :: bool
  ch_extension :: bool
  ch_version :: u8

definition new_cesopsn_header :: "u16 \<Rightarrow> u32 \<Rightarrow> cesopsn_header" where
  "new_cesopsn_header circuit_id ssrc = \<lparr>ch_sequence_number = 0, ch_timestamp = 0, ch_ssrc = ssrc,
     ch_circuit_id = circuit_id, ch_payload_type = 0, ch_marker = False, ch_extension = False, ch_version = 0\<rparr>"

definition header_to_bytes :: "cesopsn_header \<Rightarrow> byte list" where
  "header_to_bytes h =
     [push_bit 6 (ch_version h) OR (if ch_extension h then 0x10 else 0x00) OR 0x00,
      (if ch_marker h then 0x80 else 0x00) OR (ch_payload_type h AND 0x7F)] @
     be16 (ch_sequence_number h) @ be32 (ch_timestamp h) @ be32 (ch_ssrc h)"

datatype cesopsn_error = HeaderTooShort nat | UnsupportedVersion u8 | SendFailed

definition header_from_bytes :: "byte list \<Rightarrow> cesopsn_error + cesopsn_header" where
  "header_from_bytes bytes =
    (if length bytes < 12 then Inl (HeaderTooShort (length bytes))
     else
       let version = drop_bit 6 (bytes ! 0) AND 0x03
       in if version \<noteq> 0 then Inl (UnsupportedVersion version)
          else Inr \<lparr>ch_sequence_number = of_be16 (bytes ! 2) (bytes ! 3),
            ch_timestamp = of_be32 (bytes ! 4) (bytes ! 5) (bytes ! 6) (bytes ! 7),
            ch_ssrc = of_be32 (bytes ! 8) (bytes ! 9) (bytes ! 10) (bytes ! 11), ch_circuit_id = 0,
            ch_payload_type = bytes ! 1 AND 0x7F, ch_marker = (bytes ! 1 AND 0x80 \<noteq> 0),
            ch_extension = (bytes ! 0 AND 0x10 \<noteq> 0), ch_version = version\<rparr>)"

record cesopsn_packet =
  cp_header :: cesopsn_header
  cp_payload :: "byte list"
  cp_received_at :: "int option"

definition packet_to_bytes :: "cesopsn_packet \<Rightarrow> byte list" where
  "packet_to_bytes p = header_to_bytes (cp_header p) @ cp_payload p"

definition packet_from_bytes :: "int \<Rightarrow> byte list \<Rightarrow> cesopsn_error + cesopsn_packet" where
  "packet_from_bytes now bytes =
    (case header_from_bytes bytes of
       Inl e \<Rightarrow> Inl e
     | Inr h \<Rightarrow> Inr \<lparr>cp_header = h, cp_payload = drop 12 bytes, cp_received_at = Some now\<rparr>)"

abbreviation seq_of :: "cesopsn_packet \<Rightarrow> u16" where
  "seq_of p \<equiv> ch_sequence_number (cp_header p)"

section \<open>The jitter buffer\<close>

record jitter_buffer =
  jb_buffer :: "cesopsn_packet list"
  jb_max_size :: nat
  jb_target_depth :: nat
  jb_next_sequence :: u16
  jb_packets_received :: u64
  jb_packets_dropped :: u64
  jb_packets_late :: u64
  jb_last_playout_time :: "int option"

definition new_jitter_buffer :: "nat \<Rightarrow> jitter_buffer" where
  "new_jitter_buffer max_size = \<lparr>jb_buffer = [], jb_max_size = max_size, jb_target_depth = max_size div 2,
     jb_next_sequence = 0, jb_packets_received = 0, jb_packets_dropped = 0, jb_packets_late = 0,
     jb_last_playout_time = None\<rparr>"

definition is_sequence_late :: "u16 \<Rightarrow> jitter_buffer \<Rightarrow> bool" where
  "is_sequence_late seq j \<longleftrightarrow> 32768 < seq - jb_next_sequence j"

definition sequence_compare :: "u16 \<Rightarrow> u16 \<Rightarrow> int" where
  "sequence_compare a b = sint (a - b)"

text \<open>The packet goes before the first one it precedes.\<close>

fun insert_in_order :: "cesopsn_packet \<Rightarrow> cesopsn_packet list \<Rightarrow> cesopsn_packet list" where
  "insert_in_order p [] = [p]"
| "insert_in_order p (q # qs) =
    (if sequence_compare (seq_of p) (seq_of q) < 0 then p # q # qs else q # insert_in_order p qs)"

definition add_packet :: "int \<Rightarrow> cesopsn_packet \<Rightarrow> jitter_buffer \<Rightarrow> jitter_buffer" where
  "add_packet now p j =
    (let j = j\<lparr>jb_packets_received := jb_packets_received j + 1\<rparr>;
         p = p\<lparr>cp_received_at := Some now\<rparr>
     in if is_sequence_late (seq_of p) j then j\<lparr>jb_packets_late := jb_packets_late j + 1\<rparr>
        else
          let j = (if jb_max_size j \<le> length (jb_buffer j) \<and> jb_buffer j \<noteq> []
                   then j\<lparr>jb_buffer := tl (jb_buffer j), jb_packets_dropped := jb_packets_dropped j + 1\<rparr>
                   else j)
          in j\<lparr>jb_buffer := insert_in_order p (jb_buffer j)\<rparr>)"

definition get_next_packet :: "int \<Rightarrow> jitter_buffer \<Rightarrow> cesopsn_packet option \<times> jitter_buffer" where
  "get_next_packet now j =
    (case jb_buffer j of
       [] \<Rightarrow> (None, j)
     | p # ps \<Rightarrow>
         if seq_of p = jb_next_sequence j
         then (Some p, j\<lparr>jb_buffer := ps, jb_next_sequence := jb_next_sequence j + 1, jb_last_playout_time := Some now\<rparr>)
         else if jb_target_depth j < length (jb_buffer j)
         then (Some p, j\<lparr>jb_buffer := ps, jb_next_sequence := seq_of p + 1, jb_last_playout_time := Some now\<rparr>)
         else (None, j))"

record jitter_buffer_stats =
  js_buffer_depth :: nat
  js_packets_received :: u64
  js_packets_dropped :: u64
  js_packets_late :: u64
  js_next_sequence :: u16

definition jitter_stats :: "jitter_buffer \<Rightarrow> jitter_buffer_stats" where
  "jitter_stats j = \<lparr>js_buffer_depth = length (jb_buffer j), js_packets_received = jb_packets_received j,
     js_packets_dropped = jb_packets_dropped j, js_packets_late = jb_packets_late j,
     js_next_sequence = jb_next_sequence j\<rparr>"

section \<open>A circuit\<close>

datatype cesopsn_payload_type = PT_StructuredT1E1 | PT_UnstructuredT1E1 | PT_T1SuperFrame | PT_T1ExtendedSuperFrame
  | PT_E1WithCAS | PT_E1WithoutCAS

fun cesopsn_payload_code :: "cesopsn_payload_type \<Rightarrow> u8" where
  "cesopsn_payload_code PT_StructuredT1E1 = 0"
| "cesopsn_payload_code PT_UnstructuredT1E1 = 1"
| "cesopsn_payload_code PT_T1SuperFrame = 2"
| "cesopsn_payload_code PT_T1ExtendedSuperFrame = 3"
| "cesopsn_payload_code PT_E1WithCAS = 4"
| "cesopsn_payload_code PT_E1WithoutCAS = 5"

text \<open>The settings the service reads.\<close>

record cesopsn_config =
  cf_circuit_id :: u16
  cf_payload_type :: cesopsn_payload_type
  cf_frame_size :: nat
  cf_frames_per_packet :: nat
  cf_jitter_buffer_ms :: u32

definition default_cesopsn_config :: cesopsn_config where
  "default_cesopsn_config = \<lparr>cf_circuit_id = 1, cf_payload_type = PT_StructuredT1E1, cf_frame_size = 32,
     cf_frames_per_packet = 4, cf_jitter_buffer_ms = 20\<rparr>"

datatype cesopsn_circuit_state = CC_Down | CC_Initializing | CC_Active | CC_Degraded | CC_Failed

record cesopsn_service =
  cv_config :: cesopsn_config
  cv_jitter_buffer :: jitter_buffer
  cv_tx_sequence :: u16
  cv_ssrc :: u32
  cv_packets_sent :: u64
  cv_packets_received :: u64
  cv_bytes_sent :: u64
  cv_bytes_received :: u64
  cv_circuit_state :: cesopsn_circuit_state

definition new_cesopsn_service :: "u32 \<Rightarrow> cesopsn_config \<Rightarrow> cesopsn_service" where
  "new_cesopsn_service ssrc config = \<lparr>cv_config = config,
     cv_jitter_buffer = new_jitter_buffer (unat (cf_jitter_buffer_ms config * 50)), cv_tx_sequence = 1,
     cv_ssrc = ssrc, cv_packets_sent = 0, cv_packets_received = 0, cv_bytes_sent = 0, cv_bytes_received = 0,
     cv_circuit_state = CC_Down\<rparr>"

definition start_cesopsn :: "cesopsn_service \<Rightarrow> cesopsn_service" where
  "start_cesopsn s = s\<lparr>cv_circuit_state := CC_Active\<rparr>"

text \<open>Ticks of 125 microseconds since the epoch, from the time in nanoseconds.\<close>

definition generate_timestamp :: "nat \<Rightarrow> u32" where
  "generate_timestamp now = word_of_nat (now div 1000000000 * 8000 + now mod 1000000000 div 125000)"

definition send_tdm_data ::
    "bool \<Rightarrow> nat \<Rightarrow> byte list \<Rightarrow> cesopsn_service \<Rightarrow> (cesopsn_error + byte list) \<times> cesopsn_service" where
  "send_tdm_data socket_ok now data s =
    (let h = new_cesopsn_header (cf_circuit_id (cv_config s)) (cv_ssrc s);
         h = h\<lparr>ch_payload_type := cesopsn_payload_code (cf_payload_type (cv_config s)),
               ch_timestamp := generate_timestamp now, ch_sequence_number := cv_tx_sequence s\<rparr>;
         s = s\<lparr>cv_tx_sequence := cv_tx_sequence s + 1\<rparr>;
         bytes = packet_to_bytes \<lparr>cp_header = h, cp_payload = data, cp_received_at = None\<rparr>
     in if socket_ok
        then (Inr bytes, s\<lparr>cv_packets_sent := cv_packets_sent s + 1,
                cv_bytes_sent := cv_bytes_sent s + word_of_nat (length bytes)\<rparr>)
        else (Inl SendFailed, s))"

text \<open>A received datagram, cut to the receive buffer.\<close>

definition receive_datagram :: "int \<Rightarrow> byte list \<Rightarrow> cesopsn_service \<Rightarrow> cesopsn_service" where
  "receive_datagram now datagram s =
    (let bytes = take 1440 datagram
     in case packet_from_bytes now bytes of
          Inl e \<Rightarrow> s
        | Inr p \<Rightarrow> s\<lparr>cv_packets_received := cv_packets_received s + 1,
            cv_bytes_received := cv_bytes_received s + word_of_nat (length bytes),
            cv_jitter_buffer := add_packet now p (cv_jitter_buffer s)\<rparr>)"

text \<open>The playout task at a tick: the payload handed to the upper layer.\<close>

definition playout_tick :: "int \<Rightarrow> cesopsn_service \<Rightarrow> byte list option \<times> cesopsn_service" where
  "playout_tick now s =
    (let (p, j) = get_next_packet now (cv_jitter_buffer s)
     in (map_option cp_payload p, s\<lparr>cv_jitter_buffer := j\<rparr>))"

text \<open>A receive error ends the receiving task and marks the circuit as failed.\<close>

definition receive_failed :: "cesopsn_service \<Rightarrow> cesopsn_service" where
  "receive_failed s = s\<lparr>cv_circuit_state := CC_Failed\<rparr>"

text \<open>The period of the playout task in microseconds.\<close>

definition playout_interval_us :: "cesopsn_config \<Rightarrow> u64" where
  "playout_interval_us c = 125 * word_of_nat (cf_frames_per_packet c)"

section \<open>The circuits of a manager\<close>

type_synonym cesopsn_manager = "(u16 \<times> cesopsn_service) list"

definition add_circuit :: "u32 \<Rightarrow> cesopsn_config \<Rightarrow> cesopsn_manager \<Rightarrow> cesopsn_manager" where
  "add_circuit ssrc config m =
    AList.update (cf_circuit_id config) (start_cesopsn (new_cesopsn_service ssrc config)) m"

datatype circuit_error = CircuitNotFound u16 | CircuitError cesopsn_error

definition manager_send_tdm_data ::
    "bool \<Rightarrow> nat \<Rightarrow> u16 \<Rightarrow> byte list \<Rightarrow> cesopsn_manager \<Rightarrow> (circuit_error + byte list) \<times> cesopsn_manager" where
  "manager_send_tdm_data socket_ok now circuit_id data m =
    (case map_of m circuit_id of
       None \<Rightarrow> (Inl (CircuitNotFound circuit_id), m)
     | Some s \<Rightarrow>
         (case send_tdm_data socket_ok now data s of
            (Inl e, s') \<Rightarrow> (Inl (CircuitError e), AList.update circuit_id s' m)
          | (Inr bytes, s') \<Rightarrow> (Inr bytes, AList.update circuit_id s' m)))"

section \<open>The packet format\<close>

definition header_wf :: "cesopsn_header \<Rightarrow> bool" where
  "header_wf h \<longleftrightarrow> ch_version h = 0 \<and> \<not> bit (ch_payload_type h) 7"

lemma cesopsn_payload_type_mask: "\<not> bit (w :: u8) 7 \<Longrightarrow> w AND 0x7F = w"
  by (simp add: u8_eq_iff bit_simps)

lemma marker_octet:
  assumes "\<not> bit (w :: u8) 7"
  shows "((if m then 0x80 else 0x00) OR w AND 0x7F) AND 0x7F = w"
    and "(((if m then 0x80 else 0x00) OR w AND 0x7F) AND 0x80 \<noteq> 0) = m"
  using assms by (simp_all add: u8_eq_iff bit_simps)

lemma length_header [simp]: "length (header_to_bytes h) = 12"
  by (simp add: header_to_bytes_def)

lemma header_roundtrip:
  assumes "header_wf h"
  shows "header_from_bytes (header_to_bytes h @ rest) = Inr (h\<lparr>ch_circuit_id := 0\<rparr>)"
proof (cases h)
  case (fields sn ts ssrc cid pt m x v)
  then have h: "v = 0" "\<not> bit pt 7" using assms by (simp_all add: header_wf_def)
  then have "(if m then 0x80 else 0x00) OR pt AND 0x7F = (if m then 0x80 else 0x00) OR pt"
    by (simp add: cesopsn_payload_type_mask)
  with fields h show ?thesis
    by (auto simp: header_from_bytes_def header_to_bytes_def be16_def be32_def cesopsn_payload_type_mask bit_simps
        simp flip: One_nat_def) (simp_all add: u8_eq_iff bit_simps)
qed

text \<open>A packet of version zero is read back from its bytes with the time of its arrival, and with
  circuit identifier zero whatever circuit it was sent for.\<close>

theorem cesopsn_packet_roundtrip:
  assumes "header_wf (cp_header p)"
  shows "packet_from_bytes now (packet_to_bytes p) =
    Inr (p\<lparr>cp_header := (cp_header p)\<lparr>ch_circuit_id := 0\<rparr>, cp_received_at := Some now\<rparr>)"
  using assms by (cases p) (simp add: packet_from_bytes_def packet_to_bytes_def header_roundtrip)

section \<open>Playout in order\<close>

text \<open>How far a packet is ahead of sequence number \<open>d\<close>.\<close>

definition ahead :: "u16 \<Rightarrow> cesopsn_packet \<Rightarrow> nat" where
  "ahead d p = unat (seq_of p - d)"

lemma ahead_received [simp]: "ahead d (p\<lparr>cp_received_at := t\<rparr>) = ahead d p"
  by (simp add: ahead_def)

lemma seq_of_ahead: "seq_of p = d + of_nat (ahead d p)"
  by (simp add: ahead_def)

lemma u16_sint_neg: "sint (w :: u16) < 0 \<longleftrightarrow> 32768 \<le> unat w"
proof -
  have less: "unat w < 65536" using unsigned_less [of w, where ?'a = nat] by simp
  have "sint w < 0 \<longleftrightarrow> bit (uint w) 15"
    by (simp only: sint_uint signed_take_bit_negative_iff) simp
  also have "\<dots> \<longleftrightarrow> bit (unat w) 15" by (simp only: uint_nat bit_of_nat_iff_bit)
  also have "\<dots> \<longleftrightarrow> odd (unat w div 32768)" by (simp only: bit_iff_odd) simp
  also have "unat w div 32768 = (if 32768 \<le> unat w then 1 else 0)"
    using less by (simp add: div_eq_0_iff div_nat_eqI not_le)
  finally show ?thesis by (simp only: split: if_splits) auto
qed

text \<open>Within half of the number space the comparison modulo \<open>2 ^ 16\<close> is the comparison of distances.\<close>

lemma u16_half_window:
  fixes a b :: u16
  assumes "unat a < 32768" "unat b < 32768"
  shows "sint (a - b) < 0 \<longleftrightarrow> unat a < unat b"
proof (cases "unat b \<le> unat a")
  case True
  then have "b \<le> a" by (simp add: word_le_nat_alt)
  with True assms show ?thesis by (simp add: u16_sint_neg unat_sub)
next
  case False
  then have "unat (a - b) = 65536 + unat a - unat b" by (simp add: unat_sub_if')
  with False assms show ?thesis by (simp add: u16_sint_neg)
qed

lemma sequence_compare_ahead:
  assumes "ahead d p < 32768" "ahead d q < 32768"
  shows "sequence_compare (seq_of p) (seq_of q) < 0 \<longleftrightarrow> ahead d p < ahead d q"
  using u16_half_window [of "seq_of p - d" "seq_of q - d"] assms
  by (simp add: sequence_compare_def ahead_def)

lemma insert_in_order_window:
  assumes "ahead d p < 32768" "\<And>q. q \<in> set qs \<Longrightarrow> ahead d q < 32768 \<and> ahead d q \<noteq> ahead d p"
  shows "insert_in_order p qs = insort_key (ahead d) p qs"
  using assms(2)
proof (induction qs)
  case (Cons q qs)
  have q: "ahead d q < 32768" "ahead d q \<noteq> ahead d p" using Cons.prems [of q] by simp_all
  then have "sequence_compare (seq_of p) (seq_of q) < 0 \<longleftrightarrow> ahead d p \<le> ahead d q"
    using sequence_compare_ahead [OF assms(1) q(1)] by linarith
  with Cons show ?case by simp
qed simp

lemma add_packet_on_time:
  assumes "ahead (jb_next_sequence j) p < 32768" "length (jb_buffer j) < jb_max_size j"
  shows "add_packet now p j = j\<lparr>jb_packets_received := jb_packets_received j + 1,
    jb_buffer := insert_in_order (p\<lparr>cp_received_at := Some now\<rparr>) (jb_buffer j)\<rparr>"
  using assms by (simp add: add_packet_def is_sequence_late_def word_less_nat_alt ahead_def)

definition add_all :: "(int \<times> cesopsn_packet) list \<Rightarrow> jitter_buffer \<Rightarrow> jitter_buffer" where
  "add_all arrivals j = fold (\<lambda>(now, p). add_packet now p) arrivals j"

text \<open>The buffer after on-time packets: the ones it had and the new ones, by distance.\<close>

text \<open>The buffer of a stream with no losses: what it holds, by distance from \<open>d\<close>.\<close>

definition holds_window :: "u16 \<Rightarrow> (nat \<times> byte list) multiset \<Rightarrow> jitter_buffer \<Rightarrow> bool" where
  "holds_window d M j \<longleftrightarrow> sorted (map (ahead d) (jb_buffer j)) \<and> jb_next_sequence j = d \<and>
     mset (map (\<lambda>p. (ahead d p, cp_payload p)) (jb_buffer j)) = M"

lemma mset_insort_key: "mset (insort_key f x xs) = add_mset x (mset xs)"
  by (induction xs) simp_all

lemma add_packet_window:
  assumes "holds_window d M j" "size M < jb_max_size j" "ahead d p < 32768"
    and "\<And>n x. (n, x) \<in># M \<Longrightarrow> n < 32768 \<and> n \<noteq> ahead d p"
  shows "holds_window d (add_mset (ahead d p, cp_payload p) M) (add_packet now p j)"
    and "jb_max_size (add_packet now p j) = jb_max_size j"
proof -
  let ?p = "p\<lparr>cp_received_at := Some now\<rparr>"
  have M: "M = mset (map (\<lambda>p. (ahead d p, cp_payload p)) (jb_buffer j))"
    using assms(1) by (simp add: holds_window_def)
  have "insert_in_order ?p (jb_buffer j) = insort_key (ahead d) ?p (jb_buffer j)"
    using assms(3,4) by (intro insert_in_order_window) (auto simp: M)
  moreover have "size M = length (jb_buffer j)" by (simp add: M)
  ultimately have "add_packet now p j = j\<lparr>jb_packets_received := jb_packets_received j + 1,
      jb_buffer := insort_key (ahead d) ?p (jb_buffer j)\<rparr>"
    using assms by (simp add: add_packet_on_time holds_window_def)
  then show "holds_window d (add_mset (ahead d p, cp_payload p) M) (add_packet now p j)"
    "jb_max_size (add_packet now p j) = jb_max_size j"
    using assms(1) by (simp_all add: holds_window_def sorted_insort_key mset_map mset_insort_key)
qed

lemma add_all_window:
  assumes "holds_window d M j" "size M + length arrivals \<le> jb_max_size j"
    and "distinct (map (\<lambda>(t, p). ahead d p) arrivals)"
    and "\<And>t p. (t, p) \<in> set arrivals \<Longrightarrow> ahead d p < 32768 \<and> ahead d p \<notin> fst ` set_mset M"
    and "\<And>n x. (n, x) \<in># M \<Longrightarrow> n < 32768"
  shows "holds_window d (M + mset (map (\<lambda>(t, p). (ahead d p, cp_payload p)) arrivals)) (add_all arrivals j)"
  using assms
proof (induction arrivals arbitrary: M j)
  case Nil
  then show ?case by (simp add: add_all_def)
next
  case (Cons a arrivals)
  obtain now p where a: "a = (now, p)" by fastforce
  let ?M = "add_mset (ahead d p, cp_payload p) M" and ?j = "add_packet now p j"
  have p: "ahead d p < 32768" "ahead d p \<notin> fst ` set_mset M" using Cons.prems(4) a by auto
  have inv: "holds_window d ?M ?j" "jb_max_size ?j = jb_max_size j"
    using Cons.prems(1,2,5) p by (auto intro!: add_packet_window simp: image_iff)
  have "holds_window d (?M + mset (map (\<lambda>(t, p). (ahead d p, cp_payload p)) arrivals)) (add_all arrivals ?j)"
  proof (rule Cons.IH [OF inv(1)])
    show "ahead d q < 32768 \<and> ahead d q \<notin> fst ` set_mset ?M" if "(t, q) \<in> set arrivals" for t q
      using that Cons.prems(3) Cons.prems(4) [of t q] a by (force simp: image_iff)
  qed (use Cons.prems inv(2) p a in auto)
  then show ?case by (simp add: add_all_def a)
qed

text \<open>The packets handed out at successive ticks, until one has nothing to play.\<close>

fun play_out :: "int list \<Rightarrow> jitter_buffer \<Rightarrow> cesopsn_packet list" where
  "play_out [] j = []"
| "play_out (now # ticks) j =
    (case get_next_packet now j of
       (Some p, j') \<Rightarrow> p # play_out ticks j'
     | (None, j') \<Rightarrow> [])"

definition seq_run :: "u16 \<Rightarrow> nat \<Rightarrow> u16 list" where
  "seq_run d n = map (\<lambda>i. d + of_nat i) [0..<n]"

lemma seq_run_Suc: "seq_run d (Suc n) = d # seq_run (d + 1) n"
  by (simp add: seq_run_def upt_conv_Cons map_Suc_upt [symmetric] del: upt_Suc)

lemma play_out_run:
  assumes "map seq_of (jb_buffer j) = seq_run (jb_next_sequence j) (length ticks)"
  shows "play_out ticks j = jb_buffer j"
  using assms
proof (induction ticks arbitrary: j)
  case Nil
  then show ?case by (simp add: seq_run_def)
next
  case (Cons now ticks)
  then obtain p ps where "jb_buffer j = p # ps" "seq_of p = jb_next_sequence j"
    "map seq_of ps = seq_run (jb_next_sequence j + 1) (length ticks)"
    by (auto simp: seq_run_Suc)
  then show ?case by (simp add: get_next_packet_def Cons.IH)
qed

lemma seq_run_ahead: "n \<le> 65536 \<Longrightarrow> map (\<lambda>s. unat (s - d)) (seq_run d n) = [0..<n]"
  by (auto simp: seq_run_def unat_of_nat intro!: map_idI)

text \<open>C39: When the packets that arrive at an empty buffer before its first tick have exactly the consecutive numbers
  from the one it waits for, without a gap and each once, in any order, and are at most as many as the
  buffer takes and as half of the number space, they are played in order and none is lost. (A sender of the
  repository starts with number 1 and the buffer waits for 0, so its first packets are not such.)\<close>

theorem jitter_buffer_reorders:
  assumes "jb_buffer j = []" "length arrivals \<le> jb_max_size j" "length arrivals \<le> 32768"
    and "mset (map (\<lambda>(t, p). seq_of p) arrivals) = mset (seq_run (jb_next_sequence j) (length arrivals))"
    and "length ticks = length arrivals"
  shows "map seq_of (play_out ticks (add_all arrivals j)) = seq_run (jb_next_sequence j) (length arrivals) \<and>
    mset (map (\<lambda>p. (seq_of p, cp_payload p)) (play_out ticks (add_all arrivals j))) =
      mset (map (\<lambda>(t, p). (seq_of p, cp_payload p)) arrivals)"
proof -
  let ?d = "jb_next_sequence j" and ?n = "length arrivals" and ?j = "add_all arrivals j"
  have "image_mset (\<lambda>s. unat (s - ?d)) (mset (map (\<lambda>(t, p). seq_of p) arrivals)) = mset [0..<?n]"
    using assms(3) by (simp only: assms(4) seq_run_ahead mset_map [symmetric])
  then have offs: "mset (map (\<lambda>(t, p). ahead ?d p) arrivals) = mset [0..<?n]"
    by (simp add: ahead_def image_mset.compositionality comp_def case_prod_unfold)
  have "distinct (map (\<lambda>(t, p). ahead ?d p) arrivals)"
    using mset_eq_imp_distinct_iff [OF offs] by simp
  moreover have less: "ahead ?d p < 32768" if "(t, p) \<in> set arrivals" for t p
  proof -
    have "ahead ?d p \<in> set (map (\<lambda>(t, p). ahead ?d p) arrivals)"
      unfolding set_map using that by (rule rev_image_eqI) simp
    with mset_eq_setD [OF offs] have "ahead ?d p < ?n" by simp
    with assms(3) show ?thesis by simp
  qed
  ultimately have inv: "holds_window ?d (mset (map (\<lambda>(t, p). (ahead ?d p, cp_payload p)) arrivals)) ?j"
    using add_all_window [of ?d "{#}" j arrivals] assms(1,2) by (simp add: holds_window_def)
  then have buf: "mset (map (\<lambda>p. (ahead ?d p, cp_payload p)) (jb_buffer ?j)) =
      mset (map (\<lambda>(t, p). (ahead ?d p, cp_payload p)) arrivals)" and nxt: "jb_next_sequence ?j = ?d"
    by (simp_all add: holds_window_def)
  from arg_cong [OF buf, of "image_mset fst"] offs
  have "mset (map (ahead ?d) (jb_buffer ?j)) = mset [0..<?n]"
    by (simp add: image_mset.compositionality comp_def case_prod_unfold)
  moreover have "sorted (map (ahead ?d) (jb_buffer ?j))" using inv by (simp add: holds_window_def)
  ultimately have "sort [0..<?n] = map (ahead ?d) (jb_buffer ?j)" by (rule properties_for_sort)
  then have "map (ahead ?d) (jb_buffer ?j) = [0..<?n]" by (simp add: sorted_sort_id)
  then have "map (\<lambda>i. ?d + of_nat i) (map (ahead ?d) (jb_buffer ?j)) = seq_run ?d ?n"
    by (simp only: seq_run_def)
  then have run: "map seq_of (jb_buffer ?j) = seq_run ?d ?n"
    by (simp add: seq_of_ahead [of _ ?d, symmetric] comp_def)
  with assms(5) nxt have "play_out ticks ?j = jb_buffer ?j" by (simp add: play_out_run)
  moreover from arg_cong [OF buf, of "image_mset (\<lambda>(n, x). (?d + of_nat n, x))"]
  have "mset (map (\<lambda>p. (seq_of p, cp_payload p)) (jb_buffer ?j)) =
      mset (map (\<lambda>(t, p). (seq_of p, cp_payload p)) arrivals)"
    by (simp add: image_mset.compositionality comp_def case_prod_unfold seq_of_ahead [of _ ?d, symmetric])
  ultimately show ?thesis using run by simp
qed

theorem cesopsn_packet_roundtrip_witness:
  "packet_from_bytes 5 (packet_to_bytes \<lparr>cp_header = (new_cesopsn_header 7 9)\<lparr>ch_payload_type := 4\<rparr>,
     cp_payload = [1, 2], cp_received_at = None\<rparr>) =
   Inr \<lparr>cp_header = (new_cesopsn_header 0 9)\<lparr>ch_payload_type := 4\<rparr>, cp_payload = [1, 2], cp_received_at = Some 5\<rparr>"
  using cesopsn_packet_roundtrip [of "\<lparr>cp_header = (new_cesopsn_header 7 9)\<lparr>ch_payload_type := 4\<rparr>,
     cp_payload = [1, 2], cp_received_at = None\<rparr>" 5]
  by (simp add: new_cesopsn_header_def header_wf_def bit_simps)

abbreviation demo_cesopsn_packet :: "u16 \<Rightarrow> cesopsn_packet" where
  "demo_cesopsn_packet n \<equiv> \<lparr>cp_header = (new_cesopsn_header 1 9)\<lparr>ch_sequence_number := n\<rparr>,
     cp_payload = [ucast n], cp_received_at = None\<rparr>"

theorem jitter_buffer_reorders_witness:
  "map seq_of (play_out [20, 21, 22] (add_all [(10, demo_cesopsn_packet 2), (11, demo_cesopsn_packet 0),
     (12, demo_cesopsn_packet 1)] (new_jitter_buffer 8))) = [0, 1, 2]"
  using jitter_buffer_reorders [of "new_jitter_buffer 8"
      "[(10, demo_cesopsn_packet 2), (11, demo_cesopsn_packet 0), (12, demo_cesopsn_packet 1)]" "[20, 21, 22]"]
  by (simp add: new_jitter_buffer_def new_cesopsn_header_def seq_run_def upt_rec)

text \<open>A packet that arrives twice is kept twice: once its first copy has been played, the second one is
  at the head of the buffer, is not late, is not the next one, and holds up the packets behind it.\<close>

lemma duplicate_blocks_playout:
  "map seq_of (play_out [20, 21, 22] (add_all [(10, demo_cesopsn_packet 0), (11, demo_cesopsn_packet 0),
     (12, demo_cesopsn_packet 1)] (new_jitter_buffer 8))) = [0]"
  by (simp add: add_all_def add_packet_def is_sequence_late_def get_next_packet_def sequence_compare_def
      new_jitter_buffer_def new_cesopsn_header_def)

text \<open>What is sent for a circuit carries the circuit's next sequence number and is read back by the
  parser, so a receiver gets the sequence numbers in the order of sending.\<close>

lemma sent_datagram_parsed:
  assumes "send_tdm_data True now data s = (Inr bytes, s')"
  shows "cv_tx_sequence s' = cv_tx_sequence s + 1 \<and>
    (\<exists>p. packet_from_bytes t bytes = Inr p \<and> seq_of p = cv_tx_sequence s \<and> cp_payload p = data)"
proof -
  have "\<not> bit (cesopsn_payload_code (cf_payload_type (cv_config s))) 7"
    by (cases "cf_payload_type (cv_config s)") (simp_all add: bit_simps)
  with assms show ?thesis
    by (auto simp: send_tdm_data_def packet_from_bytes_def packet_to_bytes_def header_roundtrip header_wf_def
        new_cesopsn_header_def)
qed

end
