(* ===== verification/SecurityUtils.thy ===== *)
theory SecurityUtils
  imports RustStrings RateWindow
begin

text \<open>
  Input checks of the signalling code (\<open>src/security_utils.rs\<close>): text for log lines, sizes,
  headers, numbers, URIs, hexadecimal data and tokens, and a rate limiter for each address. The regular
  expressions are written out as functions. An index into the middle of a character, at which the code
  panics, is the value \<open>None\<close>. Which characters outside ASCII are alphanumeric is an argument.
\<close>

definition max_sip_message_size :: nat where "max_sip_message_size = 65536"
definition max_header_length :: nat where "max_header_length = 2048"
definition max_phone_number_length :: nat where "max_phone_number_length = 20"
definition max_isup_size :: nat where "max_isup_size = 4096"
definition max_hex_input_size :: nat where "max_hex_input_size = max_isup_size * 2"
definition max_jwt_size :: nat where "max_jwt_size = 4096"

section \<open>Log lines\<close>

text \<open>The index is at the beginning of a character or at the end of the text.\<close>

definition char_boundary :: "string \<Rightarrow> nat \<Rightarrow> bool" where
  "char_boundary s n \<longleftrightarrow> n = length s \<or> n < length s \<and> \<not> is_cont (s ! n)"

definition log_safe :: "char \<Rightarrow> bool" where
  "log_safe c \<longleftrightarrow> is_alpha c \<or> is_digit c \<or> c \<in> set ''+-(). @:/_''"

definition sanitize_char :: "string \<Rightarrow> string" where
  "sanitize_char ch = (case ch of [c] \<Rightarrow> if log_safe c then [c] else ''_'' | _ \<Rightarrow> ''_'')"

definition sanitize_for_logging :: "string \<Rightarrow> string option" where
  "sanitize_for_logging input =
    (if 256 < length input \<and> \<not> char_boundary input 256 then None
     else Some (concat (map sanitize_char (utf8_chars (take 256 input)))))"

definition mask_phone_number :: "string \<Rightarrow> string" where
  "mask_phone_number number =
    (if number = [] then ''****''
     else
       let digits = only_digits number
       in if 4 < length digits then take 2 digits @ ''****'' @ drop (length digits - 2) digits
          else if 0 < length digits then ''****''
          else ''INVALID'')"

section \<open>Checks\<close>

datatype check_error = TooLarge | BadFormat | BadCharacters | OddLength | EmptyPart nat | BadPart nat

definition validate_message_size :: "string \<Rightarrow> check_error + unit" where
  "validate_message_size message = (if max_sip_message_size < length message then Inl TooLarge else Inr ())"

text \<open>\<open>^[a-zA-Z][a-zA-Z0-9\-]*$\<close>\<close>

definition header_name_pattern :: "string \<Rightarrow> bool" where
  "header_name_pattern s \<longleftrightarrow> s \<noteq> [] \<and> is_alpha (hd s) \<and> list_all (\<lambda>c. is_alpha c \<or> is_digit c \<or> c = CHR ''-'') (tl s)"

definition validate_header :: "string \<Rightarrow> string \<Rightarrow> check_error + unit" where
  "validate_header name value =
    (if \<not> header_name_pattern name then Inl BadFormat
     else if max_header_length < length value then Inl TooLarge
     else if CHR 0x0D \<in> set value \<or> CHR 0x0A \<in> set value then Inl BadCharacters
     else Inr ())"

text \<open>\<open>^\+?[1-9]\d{7,18}$\<close> on text of digits and plus signs\<close>

definition phone_pattern :: "string \<Rightarrow> bool" where
  "phone_pattern s =
    (let d = (if starts_with s ''+'' then drop 1 s else s)
     in 8 \<le> length d \<and> length d \<le> 19 \<and> list_all is_digit d \<and> hd d \<noteq> CHR ''0'')"

definition validate_phone_number :: "string \<Rightarrow> check_error + string" where
  "validate_phone_number number =
    (if max_phone_number_length < length number then Inl TooLarge
     else
       let cleaned = filter (\<lambda>c. is_digit c \<or> c = CHR ''+'') number
       in if phone_pattern cleaned then Inr cleaned else Inl BadFormat)"

text \<open>\<open>^sip:[a-zA-Z0-9+\-._]+@[a-zA-Z0-9.\-]+$\<close>\<close>

definition sip_uri_pattern :: "string \<Rightarrow> bool" where
  "sip_uri_pattern s \<longleftrightarrow> starts_with s ''sip:'' \<and>
     (case find_char CHR ''@'' (drop 4 s) of
        None \<Rightarrow> False
      | Some i \<Rightarrow>
          let user = take i (drop 4 s); host = drop (i + 1) (drop 4 s)
          in user \<noteq> [] \<and> list_all (\<lambda>c. is_alpha c \<or> is_digit c \<or> c \<in> set ''+-._'') user \<and>
             host \<noteq> [] \<and> list_all (\<lambda>c. is_alpha c \<or> is_digit c \<or> c \<in> set ''.-'') host)"

definition validate_sip_uri :: "string \<Rightarrow> check_error + unit" where
  "validate_sip_uri uri =
    (if 256 < length uri then Inl TooLarge else if \<not> sip_uri_pattern uri then Inl BadFormat else Inr ())"

definition validate_and_decode_hex :: "string \<Rightarrow> check_error + byte list" where
  "validate_and_decode_hex hex_input =
    (if max_hex_input_size < length hex_input then Inl TooLarge
     else if \<not> list_all (\<lambda>c. hex_value c \<noteq> None \<or> is_space c) hex_input then Inl BadCharacters
     else
       let cleaned = filter (\<lambda>c. \<not> is_space c) hex_input
       in if length cleaned mod 2 \<noteq> 0 then Inl OddLength
          else case hex_decode cleaned of
            Some data \<Rightarrow> if max_isup_size < length data then Inl TooLarge else Inr data
          | None \<Rightarrow> Inl BadFormat)"

text \<open>A token of three parts; \<open>alnum\<close> says which characters outside ASCII are alphanumeric.\<close>

definition token_char :: "(string \<Rightarrow> bool) \<Rightarrow> string \<Rightarrow> bool" where
  "token_char alnum ch = (case ch of [c] \<Rightarrow> is_alpha c \<or> is_digit c \<or> c = CHR ''-'' \<or> c = CHR ''_'' | _ \<Rightarrow> alnum ch)"

fun check_parts :: "(string \<Rightarrow> bool) \<Rightarrow> nat \<Rightarrow> string list \<Rightarrow> check_error + unit" where
  "check_parts alnum i [] = Inr ()"
| "check_parts alnum i (p # ps) =
    (if p = [] then Inl (EmptyPart i)
     else if \<not> list_all (token_char alnum) (utf8_chars p) then Inl (BadPart i)
     else check_parts alnum (i + 1) ps)"

definition validate_jwt_token :: "(string \<Rightarrow> bool) \<Rightarrow> string \<Rightarrow> check_error + unit" where
  "validate_jwt_token alnum token =
    (if max_jwt_size < length token then Inl TooLarge
     else
       let parts = split_char CHR ''.'' token
       in if length parts \<noteq> 3 then Inl BadFormat else check_parts alnum 0 parts)"

datatype slice_error = StartTooLarge nat nat | EndTooLarge nat nat | StartAfterEnd nat nat

definition safe_slice :: "string \<Rightarrow> nat \<Rightarrow> nat \<Rightarrow> (slice_error + string) option" where
  "safe_slice input start stop =
    (if length input < start then Some (Inl (StartTooLarge start (length input)))
     else if length input < stop then Some (Inl (EndTooLarge stop (length input)))
     else if stop < start then Some (Inl (StartAfterEnd start stop))
     else if char_boundary input start \<and> char_boundary input stop
     then Some (Inr (drop start (take stop input)))
     else None)"

section \<open>The rate limiter\<close>

text \<open>Times and durations are in nanoseconds; the requests of an address with the time of its first
  request in the window.\<close>

record address_limiter =
  al_max_requests :: u32
  al_window_seconds :: nat
  al_requests :: "string \<rightharpoonup> u32 \<times> nat"

definition new_address_limiter :: "u32 \<Rightarrow> nat \<Rightarrow> address_limiter" where
  "new_address_limiter max_requests window_seconds =
    \<lparr>al_max_requests = max_requests, al_window_seconds = window_seconds, al_requests = Map.empty\<rparr>"

definition within_window :: "nat \<Rightarrow> address_limiter \<Rightarrow> nat \<Rightarrow> bool" where
  "within_window now l timestamp \<longleftrightarrow> now - timestamp < al_window_seconds l * 1000000000"

definition check_address_rate :: "string \<Rightarrow> nat \<Rightarrow> address_limiter \<Rightarrow> bool \<times> address_limiter" where
  "check_address_rate ip now l =
    (let l = l\<lparr>al_requests := (\<lambda>k. case al_requests l k of
           Some (count, timestamp) \<Rightarrow> if within_window now l timestamp then Some (count, timestamp) else None
         | None \<Rightarrow> None)\<rparr>
     in case al_requests l ip of
          Some (count, timestamp) \<Rightarrow>
            if within_window now l timestamp then
              (if al_max_requests l \<le> count then (False, l)
               else (True, l\<lparr>al_requests := (al_requests l)(ip \<mapsto> (count + 1, timestamp))\<rparr>))
            else (True, l\<lparr>al_requests := (al_requests l)(ip \<mapsto> (1, now))\<rparr>)
        | None \<Rightarrow> (True, l\<lparr>al_requests := (al_requests l)(ip \<mapsto> (1, now))\<rparr>))"

section \<open>Facts\<close>

text \<open>No control character reaches a log line: what is logged has no line break, whatever the input.\<close>

lemma sanitize_char_safe: "c \<in> set (sanitize_char ch) \<Longrightarrow> log_safe c"
proof -
  have "log_safe CHR ''_''" by (simp add: log_safe_def)
  then show "c \<in> set (sanitize_char ch) \<Longrightarrow> log_safe c"
    by (auto simp: sanitize_char_def split: list.splits if_splits)
qed

lemma sanitized_log_line:
  "sanitize_for_logging input = Some s \<Longrightarrow> list_all log_safe s \<and> CHR 0x0A \<notin> set s \<and> CHR 0x0D \<notin> set s"
proof -
  assume "sanitize_for_logging input = Some s"
  then have safe: "log_safe c" if "c \<in> set s" for c
    using that by (auto simp: sanitize_for_logging_def dest: sanitize_char_safe split: if_splits)
  have "\<not> log_safe CHR 0x0A" "\<not> log_safe CHR 0x0D"
    by (simp_all add: log_safe_def is_alpha_def is_digit_def)
  with safe show ?thesis by (auto simp: list_all_iff)
qed

text \<open>Up to the largest ISUP size the hexadecimal text of data is read back, with white space anywhere.\<close>

lemma hex_roundtrip:
  assumes "filter (\<lambda>c. \<not> is_space c) text = hex_encode bs" "length text \<le> max_hex_input_size"
  shows "validate_and_decode_hex text = Inr bs"
proof -
  have "hex_value c \<noteq> None \<or> is_space c" if "c \<in> set text" for c
  proof (cases "is_space c")
    case False
    with that have "c \<in> set (filter (\<lambda>c. \<not> is_space c) text)" by simp
    then have "c \<in> set (hex_encode bs)" by (simp only: assms(1))
    then show ?thesis using hex_encode_chars by blast
  qed simp
  moreover have "length (hex_encode bs) \<le> length text" using assms(1) length_filter_le by metis
  ultimately show ?thesis
    using assms by (auto simp: validate_and_decode_hex_def hex_decode_encode max_hex_input_size_def
        list_all_iff Let_def)
qed

text \<open>For one address the limiter is a fixed-window limiter that begins with the first request.\<close>

definition window_start :: "string \<Rightarrow> address_limiter \<Rightarrow> (nat \<times> nat) option" where
  "window_start ip l = map_option (\<lambda>(_, timestamp). (timestamp, al_window_seconds l)) (al_requests l ip)"

definition window_count :: "string \<Rightarrow> address_limiter \<Rightarrow> nat" where
  "window_count ip l = (case al_requests l ip of Some (count, _) \<Rightarrow> unat count | None \<Rightarrow> 0)"

definition window_over :: "nat \<Rightarrow> (nat \<times> nat) option \<Rightarrow> bool" where
  "window_over now b = (case b of Some (timestamp, window) \<Rightarrow> window * 1000000000 \<le> now - timestamp | None \<Rightarrow> True)"

interpretation address: rate_window "check_address_rate ip" "\<lambda>l now. Some (now, al_window_seconds l)"
  "window_start ip" "window_count ip" "\<lambda>l. unat (al_max_requests l)" window_over
  by unfold_locales
    (auto simp: check_address_rate_def within_window_def window_start_def window_count_def window_over_def
      Let_def word_less_nat_alt word_le_nat_alt unat_Suc_less not_le not_less split: option.splits prod.splits)

lemma address_window_exact:
  assumes "al_requests l ip = Some (count, start)" "count \<le> al_max_requests l"
    and "\<forall>t \<in> set ts. within_window t l start"
  shows "length (filter (\<lambda>a. a) (fst (address.run ip ts l))) =
    min (length ts) (unat (al_max_requests l) - unat count)"
  using address.run_window [of ts ip l] assms
  by (auto simp: window_over_def window_start_def window_count_def within_window_def word_le_nat_alt not_le)

end
