(* ===== verification/OriginationRouting.thy ===== *)
theory OriginationRouting
  imports LcrTypes SecurityUtils
begin

text \<open>
  Admission of calls by origin (\<open>src/origination_routing.rs\<close>). An address is its text; times, which nothing reads, are
  left out; money and the \<open>f32\<close> fraud score are rationals, which order the sums of the four
  scores against the thresholds as \<open>f32\<close> does.
\<close>

section \<open>Requests, answers and the engine\<close>

record origination_request =
  oq_ani :: string
  oq_dnis :: string
  oq_source_ip :: string
  oq_ingress_trunk_id :: int
  oq_customer_id :: "int option"
  oq_route_type :: route_type

datatype auth_method = Auth_IpBased | Auth_TechnicalPrefix | Auth_DigitalSignature | Auth_None

record auth_result =
  au_authenticated :: bool
  au_method :: auth_method
  au_customer_account :: "string option"
  au_credit_limit :: "rat option"
  au_current_balance :: "rat option"

datatype risk_level = Risk_Low | Risk_Medium | Risk_High | Risk_Critical

datatype fraud_flag = SuspiciousAni | HighVolumeSource | InvalidNumberFormat | BlacklistedSource
  | RapidFireCalls | GeographicAnomaly

record fraud_result =
  fr_risk_level :: risk_level
  fr_fraud_score :: rat
  fr_checks_performed :: "string list"
  fr_flags :: "fraud_flag list"

record origination_response =
  og_allowed :: bool
  og_customer_id :: "int option"
  og_rate_plan_id :: "int option"
  og_routing_plan_id :: "int option"
  og_auth_result :: auth_result
  og_fraud_check_result :: fraud_result
  og_routing_preference :: route_type
  og_tech_prefix :: "string option"
  og_reason :: string

record origination_config =
  gc_enable_fraud_detection :: bool
  gc_enable_ip_authentication :: bool
  gc_enable_tech_prefix_auth :: bool
  gc_default_route_type :: route_type
  gc_max_fraud_score :: rat
  gc_rate_limit_per_minute :: u32

definition default_origination_config :: origination_config where
  "default_origination_config = \<lparr>gc_enable_fraud_detection = True, gc_enable_ip_authentication = True,
     gc_enable_tech_prefix_auth = True, gc_default_route_type = Route_NANPA, gc_max_fraud_score = 8 / 10,
     gc_rate_limit_per_minute = 1000\<rparr>"

record origination_customer =
  oc_id :: int
  oc_name :: string
  oc_enabled :: bool
  oc_rate_plan_id :: int
  oc_routing_plan_id :: int
  oc_credit_limit :: rat
  oc_current_balance :: rat
  oc_allowed_ips :: "string list"
  oc_tech_prefixes :: "string list"
  oc_rate_limit_per_minute :: u32

record toll_free_prefix =
  tf_prefix :: string
  tf_description :: string
  tf_route_type :: route_type
  tf_requires_auth :: bool

record origination_engine =
  oe_config :: origination_config
  oe_customers :: "int \<rightharpoonup> origination_customer"
  oe_ip_to_customer :: "string \<rightharpoonup> int"
  oe_tech_prefix_to_customer :: "string \<rightharpoonup> int"
  oe_toll_free_prefixes :: "toll_free_prefix list"
  oe_call_counts :: "string \<rightharpoonup> u32"

definition default_toll_free_prefixes :: "toll_free_prefix list" where
  "default_toll_free_prefixes =
    [\<lparr>tf_prefix = ''800'', tf_description = ''Toll Free 800'', tf_route_type = Route_NANPA, tf_requires_auth = False\<rparr>,
     \<lparr>tf_prefix = ''888'', tf_description = ''Toll Free 888'', tf_route_type = Route_NANPA, tf_requires_auth = False\<rparr>,
     \<lparr>tf_prefix = ''877'', tf_description = ''Toll Free 877'', tf_route_type = Route_NANPA, tf_requires_auth = False\<rparr>,
     \<lparr>tf_prefix = ''866'', tf_description = ''Toll Free 866'', tf_route_type = Route_NANPA, tf_requires_auth = False\<rparr>]"

definition new_origination_engine :: "origination_config \<Rightarrow> origination_engine" where
  "new_origination_engine config = \<lparr>oe_config = config, oe_customers = Map.empty,
     oe_ip_to_customer = Map.empty, oe_tech_prefix_to_customer = Map.empty,
     oe_toll_free_prefixes = default_toll_free_prefixes, oe_call_counts = Map.empty\<rparr>"

text \<open>Each address and prefix of the customer is mapped to it, whoever had it before.\<close>

definition add_customer :: "origination_customer \<Rightarrow> origination_engine \<Rightarrow> origination_engine" where
  "add_customer c e = e\<lparr>
     oe_ip_to_customer := fold (\<lambda>ip m. m(ip \<mapsto> oc_id c)) (oc_allowed_ips c) (oe_ip_to_customer e),
     oe_tech_prefix_to_customer := fold (\<lambda>p m. m(p \<mapsto> oc_id c)) (oc_tech_prefixes c) (oe_tech_prefix_to_customer e),
     oe_customers := (oe_customers e)(oc_id c \<mapsto> c)\<rparr>"

definition reset_call_counts :: "origination_engine \<Rightarrow> origination_engine" where
  "reset_call_counts e = e\<lparr>oe_call_counts := Map.empty\<rparr>"

section \<open>The checks\<close>

definition check_rate_limit :: "string \<Rightarrow> origination_engine \<Rightarrow> bool \<times> origination_engine" where
  "check_rate_limit ip e =
    (let count = (case oe_call_counts e ip of Some n \<Rightarrow> n | None \<Rightarrow> 0) + 1
     in (count \<le> gc_rate_limit_per_minute (oe_config e), e\<lparr>oe_call_counts := (oe_call_counts e)(ip \<mapsto> count)\<rparr>))"

text \<open>A prefix between two stars, or before the first one.\<close>

definition extract_tech_prefix :: "string \<Rightarrow> string option" where
  "extract_tech_prefix dnis =
    (if starts_with dnis ''*''
     then map_option (\<lambda>pos. take pos (drop 1 dnis)) (find_char CHR ''*'' (drop 1 dnis))
     else map_option (\<lambda>pos. take pos dnis) (find_char CHR ''*'' dnis))"

definition not_authenticated :: auth_result where
  "not_authenticated = \<lparr>au_authenticated = False, au_method = Auth_None, au_customer_account = None,
     au_credit_limit = None, au_current_balance = None\<rparr>"

definition customer_auth :: "auth_method \<Rightarrow> int \<Rightarrow> origination_customer \<Rightarrow> auth_result" where
  "customer_auth method cid c = \<lparr>au_authenticated = True, au_method = method,
     au_customer_account = Some (int_text cid), au_credit_limit = Some (oc_credit_limit c),
     au_current_balance = Some (oc_current_balance c)\<rparr>"

text \<open>The enabled customer a key is mapped to.\<close>

definition enabled_customer :: "origination_engine \<Rightarrow> int option \<Rightarrow> (int \<times> origination_customer) option" where
  "enabled_customer e key =
    (case key of None \<Rightarrow> None
     | Some i \<Rightarrow>
         (case oe_customers e i of
            Some c \<Rightarrow> if oc_enabled c then Some (i, c) else None
          | None \<Rightarrow> None))"

definition customer_by_ip :: "origination_engine \<Rightarrow> origination_request \<Rightarrow> (int \<times> origination_customer) option" where
  "customer_by_ip e q =
    (if gc_enable_ip_authentication (oe_config e)
     then enabled_customer e (oe_ip_to_customer e (oq_source_ip q)) else None)"

definition customer_by_prefix :: "origination_engine \<Rightarrow> origination_request \<Rightarrow> (int \<times> origination_customer) option" where
  "customer_by_prefix e q =
    (if gc_enable_tech_prefix_auth (oe_config e)
     then (case extract_tech_prefix (oq_dnis q) of
             Some p \<Rightarrow> enabled_customer e (oe_tech_prefix_to_customer e p)
           | None \<Rightarrow> None)
     else None)"

definition authenticate :: "origination_engine \<Rightarrow> origination_request \<Rightarrow> auth_result" where
  "authenticate e q =
    (case customer_by_ip e q of
       Some (i, c) \<Rightarrow> customer_auth Auth_IpBased i c
     | None \<Rightarrow>
         (case customer_by_prefix e q of
            Some (i, c) \<Rightarrow> customer_auth Auth_TechnicalPrefix i c
          | None \<Rightarrow> not_authenticated))"

definition is_suspicious_ani :: "string \<Rightarrow> bool" where
  "is_suspicious_ani ani \<longleftrightarrow> ani = ''0000000000'' \<or> ani = ''1111111111'' \<or> starts_with ani ''000'' \<or>
     length ani < 7 \<or> list_all (\<lambda>c. c = hd (utf8_chars ani)) (utf8_chars ani)"

definition high_volume :: "origination_engine \<Rightarrow> string \<Rightarrow> bool" where
  "high_volume e ip = (case oe_call_counts e ip of Some count \<Rightarrow> 100 < count | None \<Rightarrow> False)"

definition fraud_score_of :: "bool \<Rightarrow> bool \<Rightarrow> bool \<Rightarrow> bool \<Rightarrow> rat" where
  "fraud_score_of bad_format suspicious volume authenticated =
    (if bad_format then 3 / 10 else 0) + (if suspicious then 4 / 10 else 0) +
    (if volume then 2 / 10 else 0) + (if \<not> authenticated then 5 / 10 else 0)"

definition risk_of :: "rat \<Rightarrow> risk_level" where
  "risk_of score =
    (if 8 / 10 \<le> score then Risk_Critical else if 6 / 10 \<le> score then Risk_High
     else if 3 / 10 \<le> score then Risk_Medium else Risk_Low)"

definition detect_fraud :: "origination_engine \<Rightarrow> origination_request \<Rightarrow> auth_result \<Rightarrow> fraud_result" where
  "detect_fraud e q a =
    (let bad = (case validate_phone_number (oq_ani q) of Inl _ \<Rightarrow> True | Inr _ \<Rightarrow> False);
         susp = is_suspicious_ani (oq_ani q);
         volume = high_volume e (oq_source_ip q);
         score = fraud_score_of bad susp volume (au_authenticated a)
     in \<lparr>fr_risk_level = risk_of score, fr_fraud_score = score,
         fr_checks_performed = [''ani_format'', ''ani_pattern'', ''call_volume''],
         fr_flags = (if bad then [InvalidNumberFormat] else []) @ (if susp then [SuspiciousAni] else []) @
           (if volume then [HighVolumeSource] else [])\<rparr>)"

definition determine_route_type :: "origination_engine \<Rightarrow> origination_request \<Rightarrow> route_type" where
  "determine_route_type e q =
    (case List.find (\<lambda>p. starts_with (oq_dnis q) (tf_prefix p)) (oe_toll_free_prefixes e) of
       Some p \<Rightarrow> tf_route_type p
     | None \<Rightarrow>
         if starts_with (oq_dnis q) ''+'' \<or> starts_with (oq_dnis q) ''011'' then Route_AZ
         else if oq_route_type q \<noteq> Route_OTHER then oq_route_type q
         else gc_default_route_type (oe_config e))"

section \<open>The decision\<close>

definition rate_limited_response :: "origination_engine \<Rightarrow> origination_response" where
  "rate_limited_response e = \<lparr>og_allowed = False, og_customer_id = None, og_rate_plan_id = None,
     og_routing_plan_id = None, og_auth_result = not_authenticated,
     og_fraud_check_result = \<lparr>fr_risk_level = Risk_Critical, fr_fraud_score = 1,
       fr_checks_performed = [''rate_limit''], fr_flags = [RapidFireCalls]\<rparr>,
     og_routing_preference = gc_default_route_type (oe_config e), og_tech_prefix = None,
     og_reason = ''Rate limit exceeded''\<rparr>"

definition no_fraud :: fraud_result where
  "no_fraud = \<lparr>fr_risk_level = Risk_Low, fr_fraud_score = 0, fr_checks_performed = [], fr_flags = []\<rparr>"

definition account_of :: "origination_engine \<Rightarrow> auth_result \<Rightarrow> origination_customer option" where
  "account_of e a =
    (case au_customer_account a of
       None \<Rightarrow> None
     | Some text \<Rightarrow> (case parse_i32 text of None \<Rightarrow> None | Some i \<Rightarrow> oe_customers e i))"

definition is_allowed :: "origination_engine \<Rightarrow> auth_result \<Rightarrow> fraud_result \<Rightarrow> bool" where
  "is_allowed e a f \<longleftrightarrow> au_authenticated a \<and> fr_fraud_score f \<le> gc_max_fraud_score (oe_config e) \<and>
     fr_risk_level f \<noteq> Risk_Critical"

definition route_origination ::
    "origination_request \<Rightarrow> origination_engine \<Rightarrow> origination_response \<times> origination_engine" where
  "route_origination q e =
    (let (ok, e) = check_rate_limit (oq_source_ip q) e
     in if \<not> ok then (rate_limited_response e, e)
        else
          let a = authenticate e q;
              f = (if gc_enable_fraud_detection (oe_config e) then detect_fraud e q a else no_fraud);
              allowed = is_allowed e a f
          in (\<lparr>og_allowed = allowed,
               og_customer_id = Option.bind (au_customer_account a) parse_i32,
               og_rate_plan_id = map_option oc_rate_plan_id (account_of e a),
               og_routing_plan_id = map_option oc_routing_plan_id (account_of e a),
               og_auth_result = a, og_fraud_check_result = f,
               og_routing_preference = determine_route_type e q,
               og_tech_prefix = extract_tech_prefix (oq_dnis q),
               og_reason = (if allowed then ''Call authorized'' else ''Call blocked by security policy'')\<rparr>, e))"

section \<open>Who is admitted\<close>

definition found_customer :: "origination_engine \<Rightarrow> origination_request \<Rightarrow> bool" where
  "found_customer e q \<longleftrightarrow> customer_by_ip e q \<noteq> None \<or> customer_by_prefix e q \<noteq> None"

lemma authenticate_iff [simp]: "au_authenticated (authenticate e q) \<longleftrightarrow> found_customer e q"
  by (auto simp: authenticate_def found_customer_def customer_auth_def not_authenticated_def split: option.splits)

lemma check_rate_limit_simps [simp]:
  "oe_config (snd (check_rate_limit ip e)) = oe_config e"
  "oe_customers (snd (check_rate_limit ip e)) = oe_customers e"
  "oe_ip_to_customer (snd (check_rate_limit ip e)) = oe_ip_to_customer e"
  "oe_tech_prefix_to_customer (snd (check_rate_limit ip e)) = oe_tech_prefix_to_customer e"
  by (simp_all add: check_rate_limit_def Let_def)

lemma found_customer_counted [simp]: "found_customer (snd (check_rate_limit ip e)) q = found_customer e q"
  by (simp add: found_customer_def customer_by_ip_def customer_by_prefix_def enabled_customer_def
      cong: option.case_cong)

definition calls_counted :: "origination_engine \<Rightarrow> string \<Rightarrow> u32" where
  "calls_counted e ip = (case oe_call_counts e ip of Some n \<Rightarrow> n | None \<Rightarrow> 0)"

text \<open>With the default settings a request is admitted exactly when its address is within the call
  limit, an enabled customer is found by the address or by the prefix of the dialled number, and the
  three signs of fraud (a malformed calling number, a suspicious one, more than a hundred calls from the
  address) are not all present: a single sign, or two, never blocks a customer.\<close>

theorem origination_allowed_exact:
  assumes "oe_config e = default_origination_config"
  shows "og_allowed (fst (route_origination q e)) \<longleftrightarrow>
    calls_counted e (oq_source_ip q) + 1 \<le> 1000 \<and> found_customer e q \<and>
    \<not> ((\<exists>err. validate_phone_number (oq_ani q) = Inl err) \<and> is_suspicious_ani (oq_ani q) \<and>
       100 < calls_counted e (oq_source_ip q) + 1)"
proof -
  let ?e = "snd (check_rate_limit (oq_source_ip q) e)"
  have ok: "fst (check_rate_limit (oq_source_ip q) e) \<longleftrightarrow> calls_counted e (oq_source_ip q) + 1 \<le> 1000"
    using assms by (simp add: check_rate_limit_def calls_counted_def default_origination_config_def Let_def)
  have volume: "high_volume ?e (oq_source_ip q) \<longleftrightarrow> 100 < calls_counted e (oq_source_ip q) + 1"
    by (simp add: high_volume_def check_rate_limit_def calls_counted_def Let_def)
  have score: "fraud_score_of b s v True \<le> 8 / 10 \<and> risk_of (fraud_score_of b s v True) \<noteq> Risk_Critical
      \<longleftrightarrow> \<not> (b \<and> s \<and> v)" for b s v
    by (cases b; cases s; cases v) (simp_all add: fraud_score_of_def risk_of_def)
  have "is_allowed ?e (authenticate ?e q) (detect_fraud ?e q (authenticate ?e q)) \<longleftrightarrow>
      found_customer e q \<and> \<not> ((\<exists>err. validate_phone_number (oq_ani q) = Inl err) \<and>
      is_suspicious_ani (oq_ani q) \<and> high_volume ?e (oq_source_ip q))"
    using assms score [of "\<exists>err. validate_phone_number (oq_ani q) = Inl err" "is_suspicious_ani (oq_ani q)"
        "high_volume ?e (oq_source_ip q)"]
    by (cases "validate_phone_number (oq_ani q)")
      (auto simp: is_allowed_def detect_fraud_def default_origination_config_def Let_def)
  then show ?thesis
    using assms by (simp add: route_origination_def ok volume case_prod_unfold Let_def
        rate_limited_response_def default_origination_config_def)
qed

text \<open>The answers to a sequence of requests.\<close>

fun serve_requests :: "origination_request list \<Rightarrow> origination_engine \<Rightarrow> origination_response list" where
  "serve_requests [] e = []"
| "serve_requests (q # qs) e = (let (r, e') = route_origination q e in r # serve_requests qs e')"

definition calls_from :: "string \<Rightarrow> origination_request list \<Rightarrow> nat" where
  "calls_from ip qs = length (filter (\<lambda>q. oq_source_ip q = ip) qs)"

lemma route_origination_engine: "snd (route_origination q e) = snd (check_rate_limit (oq_source_ip q) e)"
  by (simp add: route_origination_def case_prod_unfold Let_def)

lemma route_origination_limited:
  "og_reason (fst (route_origination q e)) = ''Rate limit exceeded'' \<longleftrightarrow>
     \<not> fst (check_rate_limit (oq_source_ip q) e)"
  by (simp add: route_origination_def case_prod_unfold Let_def rate_limited_response_def)

lemma route_origination_limited_blocked:
  "\<not> fst (check_rate_limit (oq_source_ip q) e) \<Longrightarrow> \<not> og_allowed (fst (route_origination q e))"
  by (simp add: route_origination_def case_prod_unfold Let_def rate_limited_response_def)

lemma calls_counted_after:
  "calls_counted (snd (check_rate_limit ip e)) ip' = calls_counted e ip' + (if ip' = ip then 1 else 0)"
  by (simp add: calls_counted_def check_rate_limit_def Let_def)

lemma serve_requests_limited:
  assumes "i < length qs" "\<And>ip. unat (calls_counted e ip) + length qs < 2 ^ 32"
  shows "(og_reason (serve_requests qs e ! i) = ''Rate limit exceeded'' \<longleftrightarrow>
      unat (gc_rate_limit_per_minute (oe_config e)) <
        unat (calls_counted e (oq_source_ip (qs ! i))) + calls_from (oq_source_ip (qs ! i)) (take (Suc i) qs)) \<and>
    (og_reason (serve_requests qs e ! i) = ''Rate limit exceeded'' \<longrightarrow> \<not> og_allowed (serve_requests qs e ! i))"
  using assms
proof (induction qs arbitrary: i e)
  case (Cons q qs)
  let ?e = "snd (check_rate_limit (oq_source_ip q) e)"
  have Suc: "unat (calls_counted e ip + 1) = Suc (unat (calls_counted e ip))" for ip
    using Cons.prems(2) [of ip] by (simp add: unat_word_ariths)
  have e: "unat (calls_counted ?e ip) = unat (calls_counted e ip) + (if ip = oq_source_ip q then 1 else 0)" for ip
    by (simp add: calls_counted_after Suc)
  show ?case
  proof (cases i)
    case 0
    have "fst (check_rate_limit (oq_source_ip q) e) \<longleftrightarrow>
        calls_counted e (oq_source_ip q) + 1 \<le> gc_rate_limit_per_minute (oe_config e)"
      by (simp add: check_rate_limit_def calls_counted_def Let_def)
    with 0 show ?thesis
      by (simp add: case_prod_unfold Let_def route_origination_limited route_origination_limited_blocked
          calls_from_def word_le_nat_alt Suc not_le)
  next
    case (Suc n)
    have "unat (calls_counted ?e ip) + length qs < 2 ^ 32" for ip
      using Cons.prems(2) [of ip] by (cases "ip = oq_source_ip q") (simp_all add: e)
    with Cons.prems(1) Suc Cons.IH [of n ?e] show ?thesis
      by (simp add: case_prod_unfold Let_def route_origination_engine e calls_from_def)
  qed
qed simp

text \<open>The limit, meant for a minute, holds for the life of the engine: nothing but
  \<open>reset_call_counts\<close>, which the program never calls, lowers a count, so every request of an
  address after the first \<open>rate_limit_per_minute\<close> ones is refused, however long ago those were,
  and refused requests count as well.\<close>

theorem origination_rate_limit_for_ever:
  assumes "oe_call_counts e = Map.empty" "length qs < 2 ^ 32" "i < length qs"
  shows "(og_reason (serve_requests qs e ! i) = ''Rate limit exceeded'' \<longleftrightarrow>
      unat (gc_rate_limit_per_minute (oe_config e)) < calls_from (oq_source_ip (qs ! i)) (take (Suc i) qs)) \<and>
    (unat (gc_rate_limit_per_minute (oe_config e)) < calls_from (oq_source_ip (qs ! i)) (take (Suc i) qs) \<longrightarrow>
      \<not> og_allowed (serve_requests qs e ! i))"
  using serve_requests_limited [of i qs e] assms by (simp add: calls_counted_def)

definition acme_account :: origination_customer where
  "acme_account = \<lparr>oc_id = 7, oc_name = ''Acme'', oc_enabled = True, oc_rate_plan_id = 1, oc_routing_plan_id = 1,
     oc_credit_limit = 100, oc_current_balance = 0, oc_allowed_ips = [''10.0.0.1''], oc_tech_prefixes = [''1001''],
     oc_rate_limit_per_minute = 100\<rparr>"

definition acme_request :: origination_request where
  "acme_request = \<lparr>oq_ani = ''15551234567'', oq_dnis = ''15557654321'', oq_source_ip = ''10.0.0.1'',
     oq_ingress_trunk_id = 1, oq_customer_id = None, oq_route_type = Route_NANPA\<rparr>"

definition acme_engine :: "u32 \<Rightarrow> origination_engine" where
  "acme_engine limit = add_customer acme_account
     (new_origination_engine (default_origination_config\<lparr>gc_rate_limit_per_minute := limit\<rparr>))"

theorem origination_allowed_exact_witness:
  "og_allowed (fst (route_origination acme_request (acme_engine 1000)))"
proof -
  have "oe_config (acme_engine 1000) = default_origination_config"
    by (simp add: acme_engine_def add_customer_def new_origination_engine_def default_origination_config_def)
  moreover have "calls_counted (acme_engine 1000) (oq_source_ip acme_request) = 0"
    by (simp add: acme_engine_def add_customer_def new_origination_engine_def calls_counted_def)
  moreover have "found_customer (acme_engine 1000) acme_request"
    by (simp add: found_customer_def customer_by_ip_def enabled_customer_def acme_engine_def add_customer_def
        new_origination_engine_def default_origination_config_def acme_account_def acme_request_def)
  ultimately show ?thesis using origination_allowed_exact [of "acme_engine 1000" acme_request] by simp
qed

theorem origination_rate_limit_for_ever_witness:
  "\<not> og_allowed (serve_requests [acme_request, acme_request] (acme_engine 1) ! 1)"
  using origination_rate_limit_for_ever [of "acme_engine 1" "[acme_request, acme_request]" 1]
  by (simp add: acme_engine_def add_customer_def new_origination_engine_def default_origination_config_def
      calls_from_def)

end
