(* ===== verification/SecurityRateLimit.thy ===== *)
theory SecurityRateLimit
  imports RateWindow Redfire_Prelude
begin

text \<open>
  Rate and connection limits of the security module (\<open>src/security/rate_limiting.rs\<close>):
  the request windows and the connection counts of each address, the tracker of a connection, and the
  protection that blocks an address which opens too many connections. Times are in nanoseconds and an
  address is its text. A tracker's connection is given back by a task that runs some time after the
  tracker is dropped; it is the operation \<open>drop_tracker\<close>.
\<close>

section \<open>State\<close>

record rate_limit_config =
  lc_enable_rate_limiting :: bool
  lc_max_requests_per_minute :: u32
  lc_max_connections_per_ip :: u32

record rate_limit_bucket =
  rb_tokens :: u32
  rb_last_refill :: nat
  rb_requests_in_window :: u32
  rb_window_start :: nat

definition new_bucket :: "nat \<Rightarrow> u32 \<Rightarrow> rate_limit_bucket" where
  "new_bucket now max_tokens = \<lparr>rb_tokens = max_tokens, rb_last_refill = now, rb_requests_in_window = 0,
     rb_window_start = now\<rparr>"

record rate_limiter =
  rm_config :: rate_limit_config
  rm_buckets :: "(string \<times> rate_limit_bucket) list"
  rm_connections :: "(string \<times> u32) list"

definition new_rate_limiter :: "rate_limit_config \<Rightarrow> rate_limiter" where
  "new_rate_limiter config = \<lparr>rm_config = config, rm_buckets = [], rm_connections = []\<rparr>"

datatype security_error = TooManyRequests string | TooManyConnections string u32 | AccessDenied

section \<open>Requests\<close>

definition try_consume :: "u32 \<Rightarrow> nat \<Rightarrow> rate_limit_bucket \<Rightarrow> bool \<times> rate_limit_bucket" where
  "try_consume max_requests now b =
    (let b = (if 60000000000 \<le> now - rb_window_start b
              then b\<lparr>rb_requests_in_window := 0, rb_window_start := now\<rparr> else b)
     in if max_requests \<le> rb_requests_in_window b then (False, b)
        else (True, b\<lparr>rb_requests_in_window := rb_requests_in_window b + 1\<rparr>))"

definition limiter_check_rate :: "nat \<Rightarrow> string \<Rightarrow> rate_limiter \<Rightarrow> (security_error + unit) \<times> rate_limiter" where
  "limiter_check_rate now ip l =
    (if \<not> lc_enable_rate_limiting (rm_config l) then (Inr (), l)
     else
       let max_requests = lc_max_requests_per_minute (rm_config l);
           b = (case map_of (rm_buckets l) ip of Some b \<Rightarrow> b | None \<Rightarrow> new_bucket now max_requests);
           (ok, b) = try_consume max_requests now b;
           l = l\<lparr>rm_buckets := AList.update ip b (rm_buckets l)\<rparr>
       in (if ok then Inr () else Inl (TooManyRequests ip), l))"

section \<open>Connections\<close>

definition limiter_check_connections :: "string \<Rightarrow> rate_limiter \<Rightarrow> security_error + unit" where
  "limiter_check_connections ip l =
    (case map_of (rm_connections l) ip of
       Some count \<Rightarrow> if lc_max_connections_per_ip (rm_config l) \<le> count
                     then Inl (TooManyConnections ip count) else Inr ()
     | None \<Rightarrow> Inr ())"

definition get_connection_count :: "string \<Rightarrow> rate_limiter \<Rightarrow> u32" where
  "get_connection_count ip l = (case map_of (rm_connections l) ip of Some n \<Rightarrow> n | None \<Rightarrow> 0)"

definition limiter_register :: "string \<Rightarrow> rate_limiter \<Rightarrow> (security_error + unit) \<times> rate_limiter" where
  "limiter_register ip l =
    (case limiter_check_connections ip l of
       Inl e \<Rightarrow> (Inl e, l)
     | Inr _ \<Rightarrow> (Inr (), l\<lparr>rm_connections := AList.update ip (get_connection_count ip l + 1) (rm_connections l)\<rparr>))"

definition limiter_unregister :: "string \<Rightarrow> rate_limiter \<Rightarrow> rate_limiter" where
  "limiter_unregister ip l =
    (case map_of (rm_connections l) ip of
       None \<Rightarrow> l
     | Some count \<Rightarrow>
         if 0 < count then
           (if count - 1 = 0 then l\<lparr>rm_connections := AList.delete ip (rm_connections l)\<rparr>
            else l\<lparr>rm_connections := AList.update ip (count - 1) (rm_connections l)\<rparr>)
         else l)"

definition cleanup_old_entries :: "nat \<Rightarrow> rate_limiter \<Rightarrow> rate_limiter" where
  "cleanup_old_entries now l = l\<lparr>
     rm_buckets := filter (\<lambda>(_, b). \<not> 300000000000 < now - rb_last_refill b) (rm_buckets l),
     rm_connections := filter (\<lambda>(_, count). 0 < count) (rm_connections l)\<rparr>"

record rate_limiter_stats =
  ls_active_buckets :: nat
  ls_connections_total :: u32
  ls_unique_ips :: nat

definition rate_limiter_stats_of :: "rate_limiter \<Rightarrow> rate_limiter_stats" where
  "rate_limiter_stats_of l = \<lparr>ls_active_buckets = length (rm_buckets l),
     ls_connections_total = sum_list (map snd (rm_connections l)), ls_unique_ips = length (rm_connections l)\<rparr>"

record connection_tracker =
  kt_ip :: string
  kt_registered :: bool

definition new_tracker :: "string \<Rightarrow> rate_limiter \<Rightarrow> (security_error + connection_tracker) \<times> rate_limiter" where
  "new_tracker ip l =
    (case limiter_register ip l of
       (Inl e, l) \<Rightarrow> (Inl e, l)
     | (Inr _, l) \<Rightarrow> (Inr \<lparr>kt_ip = ip, kt_registered = True\<rparr>, l))"

definition drop_tracker :: "connection_tracker \<Rightarrow> rate_limiter \<Rightarrow> rate_limiter" where
  "drop_tracker k l = (if kt_registered k then limiter_unregister (kt_ip k) l else l)"

section \<open>Blocking\<close>

record dos_protection =
  dp_rate_limiter :: rate_limiter
  dp_blocked_ips :: "(string \<times> nat) list"
  dp_block_duration :: nat

definition new_dos_protection :: "rate_limit_config \<Rightarrow> dos_protection" where
  "new_dos_protection config = \<lparr>dp_rate_limiter = new_rate_limiter config, dp_blocked_ips = [],
     dp_block_duration = 300000000000\<rparr>"

definition temporarily_block_ip :: "nat \<Rightarrow> string \<Rightarrow> dos_protection \<Rightarrow> dos_protection" where
  "temporarily_block_ip now ip d = d\<lparr>dp_blocked_ips := AList.update ip now (dp_blocked_ips d)\<rparr>"

definition dos_is_blocked :: "nat \<Rightarrow> string \<Rightarrow> dos_protection \<Rightarrow> bool" where
  "dos_is_blocked now ip d =
    (case map_of (dp_blocked_ips d) ip of
       Some blocked_time \<Rightarrow> now - blocked_time < dp_block_duration d
     | None \<Rightarrow> False)"

definition is_rate_error :: "security_error \<Rightarrow> bool" where
  "is_rate_error e = (case e of AccessDenied \<Rightarrow> False | _ \<Rightarrow> True)"

definition dos_check_request ::
    "nat \<Rightarrow> string \<Rightarrow> dos_protection \<Rightarrow> (security_error + connection_tracker) \<times> dos_protection" where
  "dos_check_request now ip d =
    (if dos_is_blocked now ip d then (Inl AccessDenied, d)
     else
       case new_tracker ip (dp_rate_limiter d) of
         (Inr k, l) \<Rightarrow> (Inr k, d\<lparr>dp_rate_limiter := l\<rparr>)
       | (Inl e, l) \<Rightarrow>
           let d = d\<lparr>dp_rate_limiter := l\<rparr>
           in if is_rate_error e then (Inl e, temporarily_block_ip now ip d) else (Inl e, d))"

definition dos_cleanup :: "nat \<Rightarrow> dos_protection \<Rightarrow> dos_protection" where
  "dos_cleanup now d = d\<lparr>
     dp_blocked_ips := filter (\<lambda>(_, blocked_time). \<not> dp_block_duration d \<le> now - blocked_time) (dp_blocked_ips d),
     dp_rate_limiter := cleanup_old_entries now (dp_rate_limiter d)\<rparr>"

section \<open>Facts\<close>

text \<open>The bucket of an address is a fixed-window limiter.\<close>

interpretation bucket: rate_window "try_consume m" "\<lambda>b now. now" rb_window_start
  "\<lambda>b. unat (rb_requests_in_window b)" "\<lambda>b. unat m" "\<lambda>now start. 60000000000 \<le> now - start"
  by unfold_locales
    (auto simp: try_consume_def Let_def word_less_nat_alt word_le_nat_alt unat_Suc_less not_le not_less)

text \<open>Every address is within its connection limit, and no count is zero.\<close>

definition connections_within :: "rate_limiter \<Rightarrow> bool" where
  "connections_within l \<longleftrightarrow>
     all_entries (\<lambda>ip n. 0 < n \<and> n \<le> lc_max_connections_per_ip (rm_config l)) (rm_connections l)"

inductive limiter_step :: "rate_limiter \<Rightarrow> rate_limiter \<Rightarrow> bool" where
  request: "limiter_step l (snd (limiter_check_rate now ip l))"
| register: "limiter_step l (snd (limiter_register ip l))"
| unregister: "limiter_step l (limiter_unregister ip l)"
| cleanup: "limiter_step l (cleanup_old_entries now l)"

lemma limiter_step_config: "limiter_step l l' \<Longrightarrow> rm_config l' = rm_config l"
  by (induction rule: limiter_step.induct)
    (auto simp: limiter_check_rate_def limiter_register_def limiter_unregister_def cleanup_old_entries_def
      Let_def split: option.splits sum.splits prod.splits)

lemma unregister_within: "connections_within l \<Longrightarrow> connections_within (limiter_unregister ip l)"
proof -
  assume inv: "connections_within l"
  have "connections_within (limiter_unregister ip l)" if some: "map_of (rm_connections l) ip = Some c" "0 < c" for c
  proof -
    have le: "c \<le> lc_max_connections_per_ip (rm_config l)"
      using inv some(1) by (auto simp: connections_within_def dest: all_entriesD)
    have "unat (c - 1) = unat c - 1" using some(2) by (simp add: unat_minus_one word_gt_0)
    then have "c - 1 \<le> lc_max_connections_per_ip (rm_config l)" using le by (simp add: word_le_nat_alt)
    with inv some show ?thesis
      by (cases "c - 1 = 0")
        (simp_all add: connections_within_def limiter_unregister_def all_entries_update all_entries_delete word_gt_0)
  qed
  with inv show ?thesis
    by (cases "map_of (rm_connections l) ip") (auto simp: limiter_unregister_def)
qed

interpretation limiter: invariant_machine "\<lambda>l. rm_connections l = [] \<and> 0 < lc_max_connections_per_ip (rm_config l)"
  limiter_step "\<lambda>l. connections_within l \<and> 0 < lc_max_connections_per_ip (rm_config l)"
proof unfold_locales
  fix l l'
  assume inv: "connections_within l \<and> 0 < lc_max_connections_per_ip (rm_config l)" and step: "limiter_step l l'"
  have "rm_config l' = rm_config l" using limiter_step_config step .
  moreover from step inv have "connections_within l'"
  proof cases
    case (request now ip)
    then show ?thesis using inv
      by (simp add: connections_within_def limiter_check_rate_def Let_def case_prod_unfold)
  next
    case (register ip)
    then show ?thesis using inv
      by (auto simp: connections_within_def limiter_register_def limiter_check_connections_def
          get_connection_count_def word_less_nat_alt word_le_nat_alt unat_Suc_less not_le
          split: option.splits sum.splits if_splits intro!: all_entries_update)
  next
    case (unregister ip)
    then show ?thesis using inv unregister_within by blast
  next
    case (cleanup now)
    then show ?thesis using inv
      by (simp add: connections_within_def cleanup_old_entries_def all_entries_filter)
  qed
  ultimately show "connections_within l' \<and> 0 < lc_max_connections_per_ip (rm_config l')" using inv by simp
qed (simp add: connections_within_def)

text \<open>Whatever requests, connections, disconnections and cleanups happen, the connections of an
  address never exceed the limit.\<close>

theorem limiter_connections_bounded:
  assumes "rm_connections l = []" "0 < lc_max_connections_per_ip (rm_config l)" "limiter_step\<^sup>*\<^sup>* l l'"
  shows "get_connection_count ip l' \<le> lc_max_connections_per_ip (rm_config l')"
proof -
  have "connections_within l'" using limiter.reachable_inv [of l l'] assms by simp
  then show ?thesis
    by (auto simp: connections_within_def get_connection_count_def split: option.split dest: all_entriesD)
qed

text \<open>The answer to a connection attempt does not depend on the request windows: the protection, whose
  comment says that it checks rate limits, checks the connection limit only.\<close>

lemma dos_request_ignores_rate:
  "fst (dos_check_request now ip d) =
   fst (dos_check_request now ip (d\<lparr>dp_rate_limiter := (dp_rate_limiter d)\<lparr>rm_buckets := bs\<rparr>\<rparr>))"
  by (simp add: dos_check_request_def dos_is_blocked_def new_tracker_def limiter_register_def
      limiter_check_connections_def get_connection_count_def Let_def split: option.split sum.split)

section \<open>Cleaning up reopens a window\<close>

primrec requests_at :: "nat list \<Rightarrow> string \<Rightarrow> rate_limiter \<Rightarrow> bool list \<times> rate_limiter" where
  "requests_at [] ip l = ([], l)"
| "requests_at (t # ts) ip l =
    (let (r, l) = limiter_check_rate t ip l; (rs, l) = requests_at ts ip l in ((r = Inr ()) # rs, l))"

lemma requests_at_bucket:
  assumes "lc_enable_rate_limiting (rm_config l)" "map_of (rm_buckets l) ip = Some b"
  shows "fst (requests_at ts ip l) = fst (bucket.run (lc_max_requests_per_minute (rm_config l)) ts b) \<and>
    map_of (rm_buckets (snd (requests_at ts ip l))) ip =
      Some (snd (bucket.run (lc_max_requests_per_minute (rm_config l)) ts b)) \<and>
    rm_config (snd (requests_at ts ip l)) = rm_config l"
  using assms
proof (induction ts arbitrary: l b)
  case (Cons t ts)
  let ?m = "lc_max_requests_per_minute (rm_config l)"
  let ?l = "snd (limiter_check_rate t ip l)"
  have "fst (limiter_check_rate t ip l) = Inr () \<longleftrightarrow> fst (try_consume ?m t b)"
    "map_of (rm_buckets ?l) ip = Some (snd (try_consume ?m t b))" "rm_config ?l = rm_config l"
    using Cons.prems by (simp_all add: limiter_check_rate_def case_prod_unfold Let_def)
  with Cons.IH [of ?l "snd (try_consume ?m t b)"] Cons.prems(1) show ?case
    by (simp add: case_prod_unfold Let_def)
qed simp

lemma try_consume_last_refill: "rb_last_refill (snd (try_consume m t b)) = rb_last_refill b"
  by (simp add: try_consume_def Let_def)

lemma run_last_refill: "rb_last_refill (snd (bucket.run m ts b)) = rb_last_refill b"
  by (induction ts arbitrary: b) (simp_all add: try_consume_last_refill)

text \<open>Requests at the time the window began, as many as it has room for.\<close>

lemma all_admitted:
  "length (filter (\<lambda>a. a) as) = length as \<Longrightarrow> list_all (\<lambda>a. a) as"
  by (induction as) (auto split: if_splits dest: le_antisym [OF length_filter_le], metis Suc_n_not_le_n length_filter_le)

lemma run_room:
  assumes "rb_window_start b = t" "unat (rb_requests_in_window b) + n \<le> unat m"
  shows "list_all (\<lambda>a. a) (fst (bucket.run m (replicate n t) b))"
proof (rule all_admitted)
  have "length (fst (bucket.run m ts b)) = length ts" for ts b
    by (induction ts arbitrary: b) simp_all
  then show "length (filter (\<lambda>a. a) (fst (bucket.run m (replicate n t) b))) =
      length (fst (bucket.run m (replicate n t) b))"
    using bucket.run_window [of "replicate n t" b m] assms by simp
qed

lemma positive_limit: "0 < (m :: u32) \<Longrightarrow> \<exists>n. unat m = Suc n"
  by (metis not0_implies_Suc unat_gt_0 neq0_conv word_neq_0_conv)

lemma run_new_window:
  assumes "0 < m" "60000000000 \<le> t - rb_window_start b"
  shows "list_all (\<lambda>a. a) (fst (bucket.run m (replicate (unat m) t) b))"
proof -
  obtain n where n: "unat m = Suc n" using positive_limit [OF assms(1)] by blast
  let ?b = "snd (try_consume m t b)"
  have "rb_window_start ?b = t" "unat (rb_requests_in_window ?b) = 1" "fst (try_consume m t b)"
    using bucket.admit_new [of t b m] assms n by simp_all
  with n show ?thesis using run_room [of ?b t n m] by simp
qed

lemma check_rate_distinct:
  "distinct (map fst (rm_buckets l)) \<Longrightarrow> distinct (map fst (rm_buckets (snd (limiter_check_rate t ip l))))"
  by (simp add: limiter_check_rate_def case_prod_unfold Let_def)

lemma requests_at_distinct:
  "distinct (map fst (rm_buckets l)) \<Longrightarrow> distinct (map fst (rm_buckets (snd (requests_at ts ip l))))"
  by (induction ts arbitrary: l) (simp_all add: case_prod_unfold Let_def check_rate_distinct)

text \<open>The first request of an address without a bucket.\<close>

lemma check_rate_first:
  assumes "lc_enable_rate_limiting (rm_config l)" "map_of (rm_buckets l) ip = None"
    and "m = lc_max_requests_per_minute (rm_config l)" "0 < m"
  shows "fst (limiter_check_rate t ip l) = Inr () \<and> rm_config (snd (limiter_check_rate t ip l)) = rm_config l \<and>
    map_of (rm_buckets (snd (limiter_check_rate t ip l))) ip = Some ((new_bucket t m)\<lparr>rb_requests_in_window := 1\<rparr>)"
  using assms by (simp add: limiter_check_rate_def try_consume_def new_bucket_def Let_def word_gt_0)

text \<open>The bucket of an address carries the time of its creation as the time of its last use, so the
  cleanup removes a bucket in full use once it is five minutes old, and the address may send a second
  full window of requests at once: here twice the limit within eleven seconds.\<close>

theorem cleanup_doubles_rate:
  assumes "lc_enable_rate_limiting c" "m = lc_max_requests_per_minute c" "0 < m"
    and "l1 = snd (limiter_check_rate 0 ip (new_rate_limiter c))"
    and "l2 = snd (requests_at (replicate (unat m) 290000000000) ip l1)"
  shows "list_all (\<lambda>a. a) (fst (requests_at (replicate (unat m) 290000000000) ip l1)) \<and>
    list_all (\<lambda>a. a) (fst (requests_at (replicate (unat m) 301000000000) ip (cleanup_old_entries 301000000000 l2)))"
proof
  let ?b = "(new_bucket 0 m)\<lparr>rb_requests_in_window := 1\<rparr>" and ?t = "301000000000"
  let ?l = "cleanup_old_entries ?t l2"
  have new: "lc_enable_rate_limiting (rm_config (new_rate_limiter c))"
    "map_of (rm_buckets (new_rate_limiter c)) ip = None" "distinct (map fst (rm_buckets (new_rate_limiter c)))"
    "m = lc_max_requests_per_minute (rm_config (new_rate_limiter c))" "rm_config (new_rate_limiter c) = c"
    using assms by (simp_all add: new_rate_limiter_def)
  then have l1: "map_of (rm_buckets l1) ip = Some ?b" "rm_config l1 = c" "distinct (map fst (rm_buckets l1))"
    using check_rate_first [OF new(1,2,4) assms(3)] check_rate_distinct assms(4) by simp_all
  have start: "rb_window_start ?b = 0" "rb_last_refill ?b = 0" by (simp_all add: new_bucket_def)
  show "list_all (\<lambda>a. a) (fst (requests_at (replicate (unat m) 290000000000) ip l1))"
    using requests_at_bucket [of l1 ip ?b] l1 assms run_new_window [OF assms(3), of "290000000000" ?b] start by simp
  obtain b where b: "map_of (rm_buckets l2) ip = Some b" "rb_last_refill b = 0"
    using requests_at_bucket [of l1 ip ?b "replicate (unat m) 290000000000"] l1 assms start
    by (simp add: run_last_refill)
  have "rm_config l2 = c" "distinct (map fst (rm_buckets l2))"
    using requests_at_bucket [of l1 ip ?b "replicate (unat m) 290000000000"] l1 assms requests_at_distinct by simp_all
  with b have l: "map_of (rm_buckets ?l) ip = None" "rm_config ?l = c"
    using map_of_filter_snd [of "rm_buckets l2" "\<lambda>b. 300000000000 < ?t - rb_last_refill b" ip]
    by (simp_all add: cleanup_old_entries_def)
  obtain n where n: "unat m = Suc n" using positive_limit [OF assms(3)] by blast
  let ?c = "(new_bucket ?t m)\<lparr>rb_requests_in_window := 1\<rparr>" and ?l' = "snd (limiter_check_rate ?t ip ?l)"
  have first: "fst (limiter_check_rate ?t ip ?l) = Inr ()" "rm_config ?l' = c" "map_of (rm_buckets ?l') ip = Some ?c"
    using check_rate_first [of ?l ip m ?t] l assms by simp_all
  have "list_all (\<lambda>a. a) (fst (bucket.run m (replicate n ?t) ?c))"
    using run_room [of ?c ?t n m] n by (simp add: new_bucket_def)
  with n first show "list_all (\<lambda>a. a) (fst (requests_at (replicate (unat m) ?t) ip ?l))"
    using requests_at_bucket [of ?l' ip ?c "replicate n ?t"] assms by (simp add: case_prod_unfold Let_def)
qed

abbreviation two_per_minute :: rate_limit_config where
  "two_per_minute \<equiv> \<lparr>lc_enable_rate_limiting = True, lc_max_requests_per_minute = 2, lc_max_connections_per_ip = 2\<rparr>"

theorem limiter_connections_bounded_witness:
  "get_connection_count ''10.0.0.1'' (snd (limiter_register ''10.0.0.1'' (new_rate_limiter two_per_minute))) \<le> 2"
proof -
  have "limiter_step\<^sup>*\<^sup>* (new_rate_limiter two_per_minute)
      (snd (limiter_register ''10.0.0.1'' (new_rate_limiter two_per_minute)))"
    by (rule r_into_rtranclp) (rule limiter_step.register)
  from limiter_connections_bounded [OF _ _ this, of "''10.0.0.1''"] show ?thesis
    by (simp add: new_rate_limiter_def limiter_register_def limiter_check_connections_def)
qed

theorem cleanup_doubles_rate_witness:
  "list_all (\<lambda>a. a) (fst (requests_at (replicate 2 290000000000) ''10.0.0.1''
     (snd (limiter_check_rate 0 ''10.0.0.1'' (new_rate_limiter two_per_minute)))))"
  using cleanup_doubles_rate [of two_per_minute 2 _ "''10.0.0.1''", OF _ _ _ refl refl] by simp

end
