(* ===== verification/AniII.thy ===== *)
theory AniII
  imports Complex_Main RustStrings
begin

text \<open>
  The indicator of the calling line, ANI-II (\<open>src/ani_ii.rs\<close>): its codes, where SIP and SIP-I
  messages carry it, the surcharge for toll-free calls from pay stations, and blocking by code. Amounts
  of money are rationals. The headers of a message are an association list in the order in which the
  hash map is iterated. \<open>to_lowercase\<close> is that of ASCII.
\<close>

type_synonym header_map = "(string \<times> string) list"

section \<open>Codes\<close>

datatype ani_ii_code =
  AC_RegularLine | AC_MultipartyLine | AC_AniNotAvailable | AC_AniNotAvailableSpecial | AC_HotelNonRegistered
| AC_HotelRegistered | AC_WirelessRoaming | AC_CoinNonCoinUncertainty | AC_OriginatingLineUnidentified
| AC_PayStationNetworkCoin | AC_PrisonInmate | AC_CellularHome | AC_CellularRoaming
| AC_PayStationNonNetworkCoin | AC_Reserved

fun to_digit :: "ani_ii_code \<Rightarrow> u8" where
  "to_digit AC_RegularLine = 0" | "to_digit AC_MultipartyLine = 1" | "to_digit AC_AniNotAvailable = 2"
| "to_digit AC_AniNotAvailableSpecial = 6" | "to_digit AC_HotelNonRegistered = 7" | "to_digit AC_HotelRegistered = 8"
| "to_digit AC_WirelessRoaming = 15" | "to_digit AC_CoinNonCoinUncertainty = 23"
| "to_digit AC_OriginatingLineUnidentified = 25" | "to_digit AC_PayStationNetworkCoin = 27"
| "to_digit AC_PrisonInmate = 32" | "to_digit AC_CellularHome = 61" | "to_digit AC_CellularRoaming = 62"
| "to_digit AC_PayStationNonNetworkCoin = 70" | "to_digit AC_Reserved = 99"

definition code_of_digit :: "u8 \<Rightarrow> ani_ii_code option" where
  "code_of_digit d =
    (if d = 0 then Some AC_RegularLine else if d = 1 then Some AC_MultipartyLine
     else if d = 2 then Some AC_AniNotAvailable else if d = 6 then Some AC_AniNotAvailableSpecial
     else if d = 7 then Some AC_HotelNonRegistered else if d = 8 then Some AC_HotelRegistered
     else if d = 15 then Some AC_WirelessRoaming else if d = 23 then Some AC_CoinNonCoinUncertainty
     else if d = 25 then Some AC_OriginatingLineUnidentified else if d = 27 then Some AC_PayStationNetworkCoin
     else if d = 32 then Some AC_PrisonInmate else if d = 61 then Some AC_CellularHome
     else if d = 62 then Some AC_CellularRoaming else if d = 70 then Some AC_PayStationNonNetworkCoin
     else if d = 99 then Some AC_Reserved else None)"

definition is_payphone :: "ani_ii_code \<Rightarrow> bool" where
  "is_payphone c \<longleftrightarrow> c \<in> {AC_CoinNonCoinUncertainty, AC_PayStationNetworkCoin, AC_PayStationNonNetworkCoin}"

definition default_surcharge_amount :: "ani_ii_code \<Rightarrow> rat option" where
  "default_surcharge_amount c =
    (case c of AC_CoinNonCoinUncertainty \<Rightarrow> Some (49 / 100) | AC_PayStationNetworkCoin \<Rightarrow> Some (49 / 100)
     | AC_PayStationNonNetworkCoin \<Rightarrow> Some (49 / 100) | _ \<Rightarrow> None)"

fun code_description :: "ani_ii_code \<Rightarrow> string" where
  "code_description AC_RegularLine = ''Regular residential/business line (POTS)''"
| "code_description AC_MultipartyLine = ''Multiparty line (party line service)''"
| "code_description AC_AniNotAvailable = ''ANI not available or ANI circuit failure''"
| "code_description AC_AniNotAvailableSpecial = ''ANI not available (special information tone)''"
| "code_description AC_HotelNonRegistered = ''Hotel/Motel - non-registered guest''"
| "code_description AC_HotelRegistered = ''Hotel/Motel - registered guest''"
| "code_description AC_WirelessRoaming = ''Wireless/cellular (roaming)''"
| "code_description AC_CoinNonCoinUncertainty = ''Coin/Non-coin status uncertainty (payphone/toll-free)''"
| "code_description AC_OriginatingLineUnidentified = ''Originating line cannot be identified''"
| "code_description AC_PayStationNetworkCoin = ''Pay station with network coin control signaling''"
| "code_description AC_PrisonInmate = ''Prison/Inmate phone''"
| "code_description AC_CellularHome = ''Cellular/Wireless (home)''"
| "code_description AC_CellularRoaming = ''Cellular/Wireless (roaming)''"
| "code_description AC_PayStationNonNetworkCoin = ''Pay station without network coin control signaling''"
| "code_description AC_Reserved = ''Reserved for future use''"

definition code_surcharge_reason :: "ani_ii_code \<Rightarrow> string option" where
  "code_surcharge_reason c =
    (case c of AC_CoinNonCoinUncertainty \<Rightarrow> Some ''ANI-II Code 23 - Coin/Non-coin Uncertainty''
     | AC_PayStationNetworkCoin \<Rightarrow> Some ''ANI-II Code 27 - Pay Station Network Coin''
     | AC_PayStationNonNetworkCoin \<Rightarrow> Some ''ANI-II Code 70 - Pay Station Non-Network Coin''
     | _ \<Rightarrow> None)"

text \<open>\<open>{:02} - {}\<close>\<close>

definition code_text :: "ani_ii_code \<Rightarrow> string" where
  "code_text c =
    (let n = dec (unat (to_digit c)) in (if length n < 2 then CHR ''0'' # n else n) @ '' - '' @ code_description c)"

datatype ani_ii_source = AS_RemotePartyId | AS_PAssertedIdentity | AS_FromHeader | AS_CustomHeader | AS_SipI
  | AS_Default

fun source_text :: "ani_ii_source \<Rightarrow> string" where
  "source_text AS_RemotePartyId = ''Remote-Party-ID''"
| "source_text AS_PAssertedIdentity = ''P-Asserted-Identity''"
| "source_text AS_FromHeader = ''From''"
| "source_text AS_CustomHeader = ''X-ANI-II''"
| "source_text AS_SipI = ''SIP-I ISUP''"
| "source_text AS_Default = ''Default''"

record ani_ii_info =
  ai_code :: ani_ii_code
  ai_raw_digit :: u8
  ai_source :: ani_ii_source
  ai_triggers_surcharge :: bool

definition info_of_digit :: "u8 \<Rightarrow> ani_ii_source \<Rightarrow> ani_ii_info option" where
  "info_of_digit d source =
    map_option (\<lambda>c. \<lparr>ai_code = c, ai_raw_digit = d, ai_source = source, ai_triggers_surcharge = is_payphone c\<rparr>)
      (code_of_digit d)"

definition info_surcharge_amount :: "ani_ii_info \<Rightarrow> rat option" where
  "info_surcharge_amount i = (if ai_triggers_surcharge i then default_surcharge_amount (ai_code i) else None)"

definition info_surcharge_reason :: "ani_ii_info \<Rightarrow> string option" where
  "info_surcharge_reason i = (if ai_triggers_surcharge i then code_surcharge_reason (ai_code i) else None)"

section \<open>Toll-free numbers\<close>

definition toll_free_codes :: "string list" where
  "toll_free_codes = [''800'', ''833'', ''844'', ''855'', ''866'', ''877'', ''888'']"

definition is_toll_free :: "string \<Rightarrow> bool" where
  "is_toll_free dnis \<longleftrightarrow>
    (let clean = only_digits dnis;
         clean = (if length clean = 11 \<and> starts_with clean ''1'' then drop 1 clean else clean)
     in if 3 \<le> length clean then take 3 clean \<in> set toll_free_codes else False)"

section \<open>SIP headers\<close>

text \<open>\<open>trim().parse::<u8>().ok()\<close>\<close>

definition header_u8 :: "string \<Rightarrow> u8 option" where
  "header_u8 s = map_option word_of_nat (parse_u8 (trim_space s))"

definition extract_ani_ii_parameter :: "string \<Rightarrow> ani_ii_source \<Rightarrow> ani_ii_info option" where
  "extract_ani_ii_parameter value source =
    (case find_sub '';ani-ii='' value of
       None \<Rightarrow> None
     | Some start \<Rightarrow>
         let digits = takeWhile is_digit (drop (start + 8) value)
         in if 1 \<le> length digits \<and> length digits \<le> 2
            then Option.bind (map_option word_of_nat (parse_u8 digits)) (\<lambda>d. info_of_digit d source)
            else None)"

definition parameter_of_header :: "header_map \<Rightarrow> string \<Rightarrow> ani_ii_source \<Rightarrow> ani_ii_info option" where
  "parameter_of_header headers name source =
    Option.bind (map_of headers name) (\<lambda>value. extract_ani_ii_parameter value source)"

definition parse_remote_party_id :: "header_map \<Rightarrow> ani_ii_info option" where
  "parse_remote_party_id headers = parameter_of_header headers ''Remote-Party-ID'' AS_RemotePartyId"

definition parse_p_asserted_identity :: "header_map \<Rightarrow> ani_ii_info option" where
  "parse_p_asserted_identity headers = parameter_of_header headers ''P-Asserted-Identity'' AS_PAssertedIdentity"

definition parse_custom_ani_ii_header :: "header_map \<Rightarrow> ani_ii_info option" where
  "parse_custom_ani_ii_header headers =
    Option.bind (map_of headers ''X-ANI-II'') (\<lambda>value. Option.bind (header_u8 value) (\<lambda>d. info_of_digit d AS_CustomHeader))"

definition parse_from_header :: "header_map \<Rightarrow> ani_ii_info option" where
  "parse_from_header headers = parameter_of_header headers ''From'' AS_FromHeader"

text \<open>The first of several attempts that succeeds.\<close>

fun first_some :: "'a option list \<Rightarrow> 'a option" where
  "first_some [] = None"
| "first_some (Some x # xs) = Some x"
| "first_some (None # xs) = first_some xs"

definition parse_ani_ii_from_headers :: "header_map \<Rightarrow> ani_ii_info option" where
  "parse_ani_ii_from_headers headers =
    first_some [parse_remote_party_id headers, parse_p_asserted_identity headers,
      parse_custom_ani_ii_header headers, parse_from_header headers]"

definition validate_ani_ii_digit :: "u8 \<Rightarrow> bool" where
  "validate_ani_ii_digit d \<longleftrightarrow> d \<le> 99"

definition carrier_headers :: "string list" where
  "carrier_headers = [''P-Calling-Party-ID'', ''P-Original-Called'', ''X-Calling-Party'', ''Remote-ID'']"

definition parse_ani_ii_extended :: "header_map \<Rightarrow> ani_ii_info option" where
  "parse_ani_ii_extended headers =
    (case parse_ani_ii_from_headers headers of
       Some i \<Rightarrow> Some i
     | None \<Rightarrow> first_some (map (\<lambda>name. parameter_of_header headers name AS_CustomHeader) carrier_headers))"

definition extract_number_from_header :: "string \<Rightarrow> string option" where
  "extract_number_from_header value =
    (case find_sub ''sip:'' value of
       None \<Rightarrow> None
     | Some start \<Rightarrow>
         let after = drop (start + 4) value
         in case find_char CHR ''@'' after of
              None \<Rightarrow> None
            | Some at_pos \<Rightarrow>
                let cleaned = filter (\<lambda>c. is_digit c \<or> c = CHR ''+'') (take at_pos after)
                in if cleaned \<noteq> [] then Some cleaned else None)"

text \<open>A missing header ends the search (the operator \<open>?\<close>).\<close>

definition ani_calling_number :: "header_map \<Rightarrow> string option" where
  "ani_calling_number headers =
    (case map_of headers ''Remote-Party-ID'' of
       None \<Rightarrow> None
     | Some rpid \<Rightarrow>
         (case extract_number_from_header rpid of
            Some n \<Rightarrow> Some n
          | None \<Rightarrow>
              (case map_of headers ''P-Asserted-Identity'' of
                 None \<Rightarrow> None
               | Some pai \<Rightarrow>
                   (case extract_number_from_header pai of
                      Some n \<Rightarrow> Some n
                    | None \<Rightarrow>
                        (case map_of headers ''From'' of
                           None \<Rightarrow> None
                         | Some from_header \<Rightarrow> extract_number_from_header from_header)))))"

definition parse_calling_info_with_ani_ii :: "header_map \<Rightarrow> string option \<times> ani_ii_info option" where
  "parse_calling_info_with_ani_ii headers = (ani_calling_number headers, parse_ani_ii_extended headers)"

section \<open>SIP-I messages\<close>

definition has_header :: "header_map \<Rightarrow> string \<Rightarrow> bool" where
  "has_header headers name \<longleftrightarrow> map_of headers name \<noteq> None"

definition header_contains :: "header_map \<Rightarrow> string \<Rightarrow> string \<Rightarrow> bool" where
  "header_contains headers name pat =
    (case map_of headers name of Some value \<Rightarrow> contains_str value pat | None \<Rightarrow> False)"

definition is_sip_i_message :: "header_map \<Rightarrow> bool" where
  "is_sip_i_message headers \<longleftrightarrow>
     header_contains headers ''Content-Type'' ''application/isup'' \<or>
     header_contains headers ''Content-Type'' ''application/isdn'' \<or>
     has_header headers ''P-ISUP-OLI'' \<or> has_header headers ''X-ISUP-ANI-II'' \<or>
     header_contains headers ''Content-Encoding'' ''isup''"

definition two_hex_digits :: "string \<Rightarrow> nat \<Rightarrow> u8" where
  "two_hex_digits s i = word_of_nat (16 * the (hex_value (s ! i)) + the (hex_value (s ! (i + 1))))"

definition parse_hex_encoded_isup :: "string \<Rightarrow> ani_ii_info option" where
  "parse_hex_encoded_isup hex_content =
    (let cleaned = filter (\<lambda>c. hex_value c \<noteq> None) hex_content
     in if length cleaned < 20 then None
        else case find_sub ''0a'' (map ascii_lower cleaned) of
          None \<Rightarrow> None
        | Some start_pos \<Rightarrow>
            let param_start = start_pos + 2
            in if param_start + 8 < length cleaned
               then info_of_digit (two_hex_digits cleaned (param_start + 4) AND 0x7F) AS_SipI
               else None)"

definition isup_patterns :: "string list" where
  "isup_patterns = [''ani-ii:'', ''oli:'', ''calling-party-category:'', ''originat-line-info:'']"

definition text_pattern_value :: "string \<Rightarrow> string \<Rightarrow> ani_ii_info option" where
  "text_pattern_value text pat =
    (case find_sub pat (map ascii_lower text) of
       None \<Rightarrow> None
     | Some start \<Rightarrow>
         let digits = takeWhile is_digit (trim_space (drop (start + length pat) text))
         in Option.bind (map_option word_of_nat (parse_u8 digits)) (\<lambda>d. info_of_digit d AS_SipI))"

definition parse_text_encoded_isup :: "string \<Rightarrow> ani_ii_info option" where
  "parse_text_encoded_isup text = first_some (map (text_pattern_value text) isup_patterns)"

definition parse_isup_calling_party_number :: "string \<Rightarrow> ani_ii_info option" where
  "parse_isup_calling_party_number body = first_some [parse_hex_encoded_isup body, parse_text_encoded_isup body]"

definition parse_ani_ii_from_sip_i :: "header_map \<Rightarrow> string \<Rightarrow> ani_ii_info option" where
  "parse_ani_ii_from_sip_i headers body =
    (if \<not> is_sip_i_message headers then None else parse_isup_calling_party_number body)"

text \<open>A header with a number decides, even when the number is no code.\<close>

definition parse_ani_ii_from_sip_i_headers :: "header_map \<Rightarrow> ani_ii_info option" where
  "parse_ani_ii_from_sip_i_headers headers =
    (case Option.bind (map_of headers ''P-ISUP-OLI'') header_u8 of
       Some d \<Rightarrow> info_of_digit d AS_SipI
     | None \<Rightarrow>
         (case Option.bind (map_of headers ''X-ISUP-ANI-II'') header_u8 of
            Some d \<Rightarrow> info_of_digit d AS_SipI
          | None \<Rightarrow>
              (case Option.bind (map_of headers ''P-Calling-Party-Category'') header_u8 of
                 Some d \<Rightarrow> if d = 15 then info_of_digit 70 AS_SipI
                           else if d = 10 then info_of_digit 0 AS_SipI else None
               | None \<Rightarrow> None)))"

definition parse_sip_i_message_complete :: "header_map \<Rightarrow> string \<Rightarrow> ani_ii_info option" where
  "parse_sip_i_message_complete headers body =
    first_some [parse_ani_ii_from_sip_i_headers headers, parse_ani_ii_from_sip_i headers body]"

definition validate_sip_i_format :: "header_map \<Rightarrow> string \<Rightarrow> bool" where
  "validate_sip_i_format headers body \<longleftrightarrow>
     is_sip_i_message headers \<and> body \<noteq> [] \<and>
     (list_ex (\<lambda>c. hex_value c \<noteq> None) body \<or>
      contains_str (map ascii_lower body) ''iam'' \<or> contains_str (map ascii_lower body) ''isup'' \<or>
      contains_str (map ascii_lower body) ''calling'')"

section \<open>The surcharge\<close>

datatype surcharge_source = Surcharge_Default | Surcharge_TrunkOverride | Surcharge_CustomerOverride

record surcharge_result =
  sc_applies :: bool
  sc_amount :: rat
  sc_reason :: string
  sc_ani_ii_code :: "u8 option"
  sc_source :: surcharge_source

definition no_surcharge :: surcharge_result where
  "no_surcharge = \<lparr>sc_applies = False, sc_amount = 0, sc_reason = ''No surcharge applicable'',
     sc_ani_ii_code = None, sc_source = Surcharge_Default\<rparr>"

definition with_surcharge :: "rat \<Rightarrow> string \<Rightarrow> u8 \<Rightarrow> surcharge_source \<Rightarrow> surcharge_result" where
  "with_surcharge amount reason code source = \<lparr>sc_applies = True, sc_amount = amount, sc_reason = reason,
     sc_ani_ii_code = Some code, sc_source = source\<rparr>"

record surcharge_config =
  sf_enabled :: bool
  sf_code_23_amount :: "rat option"
  sf_code_27_amount :: "rat option"
  sf_code_70_amount :: "rat option"
  sf_bill_to_customer :: bool

definition default_surcharge_config :: surcharge_config where
  "default_surcharge_config = \<lparr>sf_enabled = True, sf_code_23_amount = Some (49 / 100),
     sf_code_27_amount = Some (49 / 100), sf_code_70_amount = Some (49 / 100), sf_bill_to_customer = True\<rparr>"

definition get_trunk_surcharge_amount :: "u8 \<Rightarrow> surcharge_config \<Rightarrow> rat option" where
  "get_trunk_surcharge_amount code c =
    (if code = 23 then sf_code_23_amount c else if code = 27 then sf_code_27_amount c
     else if code = 70 then sf_code_70_amount c else None)"

definition surcharge_text :: "string \<Rightarrow> ani_ii_info \<Rightarrow> string" where
  "surcharge_text prefix i = prefix @ dec (unat (ai_raw_digit i)) @ '' - '' @ code_description (ai_code i)"

definition default_surcharge :: "ani_ii_info \<Rightarrow> surcharge_result" where
  "default_surcharge i =
    (case default_surcharge_amount (ai_code i) of
       Some amount \<Rightarrow> with_surcharge amount (surcharge_text ''Default payphone surcharge for ANI-II '' i)
                        (ai_raw_digit i) Surcharge_Default
     | None \<Rightarrow> no_surcharge)"

definition calculate_payphone_surcharge ::
    "ani_ii_info option \<Rightarrow> bool \<Rightarrow> surcharge_config option \<Rightarrow> surcharge_result" where
  "calculate_payphone_surcharge info toll_free config =
    (if \<not> toll_free then no_surcharge
     else case info of
       None \<Rightarrow> no_surcharge
     | Some i \<Rightarrow>
         if \<not> ai_triggers_surcharge i then no_surcharge
         else case config of
           None \<Rightarrow> default_surcharge i
         | Some c \<Rightarrow>
             if \<not> sf_enabled c then no_surcharge
             else case get_trunk_surcharge_amount (ai_raw_digit i) c of
               Some amount \<Rightarrow> with_surcharge amount (surcharge_text ''Trunk-configured surcharge for ANI-II '' i)
                                (ai_raw_digit i) Surcharge_TrunkOverride
             | None \<Rightarrow> default_surcharge i)"

datatype surcharge_error = NegativeSurcharge string rat | SurchargeTooHigh string rat

fun check_amounts :: "(string \<times> rat option) list \<Rightarrow> surcharge_error + unit" where
  "check_amounts [] = Inr ()"
| "check_amounts ((name, None) # rest) = check_amounts rest"
| "check_amounts ((name, Some amount) # rest) =
    (if amount < 0 then Inl (NegativeSurcharge name amount)
     else if 5 < amount then Inl (SurchargeTooHigh name amount)
     else check_amounts rest)"

definition validate_surcharge_config :: "surcharge_config \<Rightarrow> surcharge_error + unit" where
  "validate_surcharge_config c =
    (if sf_enabled c
     then check_amounts [(''Code 23'', sf_code_23_amount c), (''Code 27'', sf_code_27_amount c), (''Code 70'', sf_code_70_amount c)]
     else Inr ())"

record batch_surcharge_result =
  bs_total_calls :: nat
  bs_applicable_calls :: nat
  bs_total_surcharge_amount :: rat
  bs_average_surcharge :: rat
  bs_surcharges_by_code :: "u8 \<rightharpoonup> nat \<times> rat"

definition add_by_code :: "u8 \<Rightarrow> rat \<Rightarrow> (u8 \<rightharpoonup> nat \<times> rat) \<Rightarrow> (u8 \<rightharpoonup> nat \<times> rat)" where
  "add_by_code code amount m =
    (let (n, total) = (case m code of Some e \<Rightarrow> e | None \<Rightarrow> (0, 0)) in m(code \<mapsto> (n + 1, total + amount)))"

definition calculate_batch_surcharges ::
    "(ani_ii_info option \<times> bool \<times> surcharge_config option) list \<Rightarrow> batch_surcharge_result" where
  "calculate_batch_surcharges calls =
    (let results = filter sc_applies (map (\<lambda>(info, toll_free, config). calculate_payphone_surcharge info toll_free config) calls);
         total = sum_list (map sc_amount results);
         n = length results
     in \<lparr>bs_total_calls = length calls, bs_applicable_calls = n, bs_total_surcharge_amount = total,
         bs_average_surcharge = (if 0 < n then total / of_nat n else 0),
         bs_surcharges_by_code = fold (\<lambda>r m. case sc_ani_ii_code r of
             Some code \<Rightarrow> add_by_code code (sc_amount r) m | None \<Rightarrow> m) results Map.empty\<rparr>)"

section \<open>Blocking\<close>

record ani_ii_blocking_config =
  blk_enabled :: bool
  blk_block_all_payphones :: bool
  blk_blocked_codes :: "u8 set"
  blk_block_no_ani_ii :: bool
  blk_block_unknown_codes :: bool
  blk_block_message :: string
  blk_response_code :: u16
  blk_charge_for_blocked :: bool

definition default_blocking_config :: ani_ii_blocking_config where
  "default_blocking_config = \<lparr>blk_enabled = False, blk_block_all_payphones = False, blk_blocked_codes = {},
     blk_block_no_ani_ii = False, blk_block_unknown_codes = False,
     blk_block_message = ''Call blocked due to origination line type restrictions'', blk_response_code = 403,
     blk_charge_for_blocked = False\<rparr>"

record did_ani_ii_blocking =
  db_did_number :: string
  db_blocking_config :: ani_ii_blocking_config
  db_inherit_trunk_rules :: bool

record blocking_result =
  bk_blocked :: bool
  bk_reason :: string
  bk_response_code :: "u16 option"

definition check_ani_ii_blocking :: "ani_ii_blocking_config \<Rightarrow> u8 \<Rightarrow> blocking_result" where
  "check_ani_ii_blocking c code =
    (if \<not> blk_enabled c then \<lparr>bk_blocked = False, bk_reason = ''ANI-II blocking disabled'', bk_response_code = None\<rparr>
     else if code \<in> blk_blocked_codes c then
       \<lparr>bk_blocked = True, bk_reason = ''ANI-II code '' @ dec (unat code) @ '' is blocked by policy'',
        bk_response_code = Some (blk_response_code c)\<rparr>
     else if blk_block_all_payphones c \<and> code \<in> {23, 27, 70} then
       \<lparr>bk_blocked = True, bk_reason = ''Payphone call blocked (ANI-II '' @ dec (unat code) @ '')'',
        bk_response_code = Some (blk_response_code c)\<rparr>
     else if blk_block_unknown_codes c \<and> 100 \<le> code then
       \<lparr>bk_blocked = True, bk_reason = ''Unknown ANI-II code '' @ dec (unat code) @ '' blocked'',
        bk_response_code = Some (blk_response_code c)\<rparr>
     else \<lparr>bk_blocked = False, bk_reason = ''ANI-II code allowed'', bk_response_code = None\<rparr>)"

section \<open>Facts\<close>

lemma code_of_digit_iff: "code_of_digit d = Some c \<longleftrightarrow> d = to_digit c"
  by (cases c) (auto simp: code_of_digit_def split: if_splits)

lemma info_of_digitD:
  "info_of_digit d source = Some i \<Longrightarrow> ai_raw_digit i = d \<and> d = to_digit (ai_code i) \<and> ai_source i = source \<and>
     ai_triggers_surcharge i = is_payphone (ai_code i)"
  by (auto simp: info_of_digit_def code_of_digit_iff)

lemma to_digit_le: "to_digit c \<le> 99"
  by (cases c) simp_all

lemma to_digit_inject: "to_digit c = to_digit d \<longleftrightarrow> c = d"
  by (metis code_of_digit_iff option.inject)

text \<open>The calling number is looked for in later headers only when the earlier ones are there: a message
  with a plain \<open>From\<close> header has none.\<close>

lemma calling_number_needs_rpid:
  "map_of headers ''Remote-Party-ID'' = None \<Longrightarrow> ani_calling_number headers = None"
  by (simp add: ani_calling_number_def)

text \<open>A code that was read from a message is at most 99, so \<open>block_unknown_codes\<close> blocks nothing.\<close>

lemma block_unknown_codes_inert:
  assumes "info_of_digit d source = Some i"
  shows "check_ani_ii_blocking c (ai_raw_digit i) =
    check_ani_ii_blocking (c\<lparr>blk_block_unknown_codes := False\<rparr>) (ai_raw_digit i)"
proof -
  have "ai_raw_digit i \<le> 99" using info_of_digitD [OF assms] to_digit_le by metis
  then have "\<not> 100 \<le> ai_raw_digit i" by (simp add: word_le_nat_alt)
  then show ?thesis by (simp add: check_ani_ii_blocking_def)
qed

end
