(* ===== verification/SipCompliance.thy ===== *)
theory SipCompliance
  imports AniII
begin

text \<open>
  The checks of SIP requests and the reading of URIs and of the originating line information
  (\<open>src/sip_rfc_compliance.rs\<close>). A function that slices a header between two positions in the
  wrong order panics: its result is then \<open>None\<close>. The regular expression of URIs is written out
  as a function.
\<close>

datatype compliance_error =
  InvalidSipVersion | MissingMandatory string | UriControlCharacter | UriInBrackets | UnmatchedBrackets
| NotASipUri | CallIdSpaces | MaxForwardsNotNumeric | UriTooLong | UriFormat | UriEmptyUser | UriPort string

type_synonym 'a outcome = "(compliance_error + 'a) option"

definition outcome_bind :: "'a outcome \<Rightarrow> ('a \<Rightarrow> 'b outcome) \<Rightarrow> 'b outcome" where
  "outcome_bind r f = (case r of None \<Rightarrow> None | Some (Inl e) \<Rightarrow> Some (Inl e) | Some (Inr x) \<Rightarrow> f x)"

definition mandatory_sip_headers :: "string list" where
  "mandatory_sip_headers = [''To'', ''From'', ''CSeq'', ''Call-ID'', ''Max-Forwards'', ''Via'']"

definition valid_sip_version :: string where "valid_sip_version = ''SIP/2.0''"

definition max_uri_length :: nat where "max_uri_length = 8192"

record sip_uri =
  su_scheme :: string
  su_user :: "string option"
  su_host :: string
  su_port :: "nat option"
  su_parameters :: "(string \<times> string) list"
  su_headers :: "(string \<times> string) list"

datatype oli_source = OS_FromUriParam | OS_PIsupOli | OS_RemotePartyId | OS_PAssertedIdentity | OS_IsupBody
  | OS_DiversionHeader

datatype screening_indicator = SI_UserProvidedNotScreened | SI_UserProvidedVerifiedPassed
  | SI_UserProvidedVerifiedFailed | SI_NetworkProvided

datatype presentation_indicator = PI_Allowed | PI_Restricted | PI_AddressNotAvailable | PI_Reserved

record originating_line_info =
  ol_oli_value :: u8
  ol_source :: oli_source
  ol_calling_number :: "string option"
  ol_screening :: "screening_indicator option"
  ol_presentation :: "presentation_indicator option"

section \<open>Headers\<close>

definition get_header_case_insensitive :: "header_map \<Rightarrow> string \<Rightarrow> string option" where
  "get_header_case_insensitive headers name =
    (case map_of headers name of
       Some value \<Rightarrow> Some value
     | None \<Rightarrow> map_option snd (List.find (\<lambda>(key, _). map ascii_lower key = map ascii_lower name) headers))"

section \<open>URIs\<close>

text \<open>\<open>^(sip|sips|tel):(?:([^@;?<>]+)@)?([^;?<>]+)(?:[;?](.+))?$\<close>: the scheme, the user, the host
  part and what follows the first semicolon or question mark.\<close>

definition host_char :: "char \<Rightarrow> bool" where
  "host_char c \<longleftrightarrow> c \<notin> {CHR '';'', CHR ''?'', CHR ''<'', CHR ''>''}"

definition user_char :: "char \<Rightarrow> bool" where
  "user_char c \<longleftrightarrow> host_char c \<and> c \<noteq> CHR ''@''"

definition uri_scheme :: "string \<Rightarrow> string option" where
  "uri_scheme s = List.find (\<lambda>p. starts_with s (p @ '':'')) [''sip'', ''sips'', ''tel'']"

definition uri_rest :: "string \<Rightarrow> string option option" where
  "uri_rest s =
    (case s of
       [] \<Rightarrow> Some None
     | c # r \<Rightarrow> if c \<in> {CHR '';'', CHR ''?''} \<and> r \<noteq> [] \<and> CHR 0x0A \<notin> set r then Some (Some r) else None)"

definition uri_user :: "string \<Rightarrow> string option" where
  "uri_user body =
    (let u = takeWhile user_char body; r = dropWhile user_char body
     in if u \<noteq> [] \<and> starts_with r ''@'' \<and> takeWhile host_char (drop 1 r) \<noteq> [] then Some u else None)"

definition uri_captures :: "string \<Rightarrow> (string \<times> string option \<times> string \<times> string option) option" where
  "uri_captures s =
    (case uri_scheme s of
       None \<Rightarrow> None
     | Some scheme \<Rightarrow>
         let body = drop (length scheme + 1) s;
             user = uri_user body;
             after = (case user of Some u \<Rightarrow> drop (length u + 1) body | None \<Rightarrow> body);
             host = takeWhile host_char after
         in if host = [] then None
            else map_option (\<lambda>rest. (scheme, user, host, rest)) (uri_rest (dropWhile host_char after)))"

text \<open>\<open>splitn(2, c)\<close> and the position of the last occurrence of a character.\<close>

definition split_once :: "char \<Rightarrow> string \<Rightarrow> string \<times> string option" where
  "split_once c s =
    (case find_char c s of None \<Rightarrow> (s, None) | Some i \<Rightarrow> (take i s, Some (drop (i + 1) s)))"

definition key_value :: "string \<Rightarrow> string \<times> string" where
  "key_value p = (let (k, v) = split_once CHR ''='' p in (k, case v of Some x \<Rightarrow> x | None \<Rightarrow> []))"

text \<open>The pairs of a list of pieces; a later value replaces an earlier one.\<close>

definition collect_pairs :: "string list \<Rightarrow> (string \<times> string) list" where
  "collect_pairs ps =
    fold (\<lambda>p m. let (k, v) = key_value p in if k \<noteq> [] then AList.update k v m else m) ps []"

definition parse_host_port :: "string \<Rightarrow> compliance_error + string \<times> nat option" where
  "parse_host_port host_part =
    (if starts_with host_part ''['' \<and> contains_str host_part '']:'' then
       (case find_sub '']:'' host_part of
          Some bracket_end \<Rightarrow>
            let port_str = drop (bracket_end + 2) host_part
            in (case parse_u16 port_str of
                  Some port \<Rightarrow> Inr (drop 1 (take bracket_end host_part), Some port)
                | None \<Rightarrow> Inl (UriPort port_str))
        | None \<Rightarrow> Inr (host_part, None))
     else case rfind_char CHR '':'' host_part of
       None \<Rightarrow> Inr (host_part, None)
     | Some colon_pos \<Rightarrow>
         let left = take colon_pos host_part; port_str = drop (colon_pos + 1) host_part
         in if CHR '':'' \<in> set left \<and> \<not> starts_with host_part ''['' then Inr (host_part, None)
            else case parse_u16 port_str of
              Some port \<Rightarrow> Inr (left, Some port)
            | None \<Rightarrow> Inl (UriPort port_str))"

definition parse_uri :: "string \<Rightarrow> compliance_error + sip_uri" where
  "parse_uri uri_str =
    (if max_uri_length < length uri_str then Inl UriTooLong
     else case uri_captures uri_str of
       None \<Rightarrow> Inl UriFormat
     | Some (scheme, user, host_part, rest) \<Rightarrow>
         if starts_with host_part ''@'' then Inl UriEmptyUser
         else
           let user = (if scheme = ''tel'' \<and> user = None then Some host_part else user)
           in case parse_host_port host_part of
                Inl e \<Rightarrow> Inl e
              | Inr (host, port) \<Rightarrow>
                  let (params, headers) = (case rest of Some r \<Rightarrow> split_once CHR ''?'' r | None \<Rightarrow> ([], None))
                  in Inr \<lparr>su_scheme = map ascii_lower scheme, su_user = user, su_host = host, su_port = port,
                       su_parameters = (if params = [] then [] else collect_pairs (split_char CHR '';'' params)),
                       su_headers = (case headers of
                           Some h \<Rightarrow> if h = [] then [] else collect_pairs (split_char CHR ''&'' h)
                         | None \<Rightarrow> [])\<rparr>)"

text \<open>\<open>trim().trim_matches('"')\<close>\<close>

definition trim_quotes :: "string \<Rightarrow> string" where
  "trim_quotes s = trim_end_char CHR 0x22 (dropWhile (\<lambda>c. c = CHR 0x22) s)"

text \<open>The text between two positions: slicing panics when they are in the wrong order.\<close>

definition slice :: "string \<Rightarrow> nat \<Rightarrow> nat \<Rightarrow> string option" where
  "slice s i j = (if i \<le> j \<and> j \<le> length s then Some (drop i (take j s)) else None)"

definition header_uri_part ::
    "string \<Rightarrow> (string option \<times> string \<times> string) outcome" where
  "header_uri_part header =
    (case find_char CHR ''<'' header of
       Some start \<Rightarrow>
         (case find_char CHR ''>'' header of
            None \<Rightarrow> Some (Inl UnmatchedBrackets)
          | Some stop \<Rightarrow>
              (case slice header (start + 1) stop of
                 None \<Rightarrow> None
               | Some uri \<Rightarrow>
                   Some (Inr (if 0 < start then Some (trim_quotes (trim_space (take start header))) else None,
                     uri, drop (stop + 1) header))))
     | None \<Rightarrow>
         (case find_char CHR '';'' header of
            Some semi_pos \<Rightarrow> Some (Inr (None, take semi_pos header, drop semi_pos header))
          | None \<Rightarrow> Some (Inr (None, header, []))))"

definition header_params_of :: "string \<Rightarrow> (string \<times> string) list" where
  "header_params_of params_str =
    fold (\<lambda>p m. if p = [] then m else let (k, v) = key_value (trim_space p) in AList.update k v m)
      (split_char CHR '';'' params_str) []"

definition parse_header_field :: "string \<Rightarrow> (string option \<times> sip_uri \<times> (string \<times> string) list) outcome" where
  "parse_header_field header =
    outcome_bind (header_uri_part header) (\<lambda>(display_name, uri_str, params_str).
      (case parse_uri uri_str of
         Inl e \<Rightarrow> Some (Inl e)
       | Inr uri \<Rightarrow> Some (Inr (display_name, uri, header_params_of params_str))))"

section \<open>Originating line information\<close>

definition parse_oli_string :: "string \<Rightarrow> u8 option" where
  "parse_oli_string s = (case parse_u8 s of Some n \<Rightarrow> if n \<le> 99 then Some (word_of_nat n) else None | None \<Rightarrow> None)"

definition parse_screening_indicator :: "(string \<times> string) list \<Rightarrow> screening_indicator option" where
  "parse_screening_indicator params =
    map_option (\<lambda>v. let w = map ascii_lower (trim_space v)
       in if w \<in> {''yes'', ''verified'', ''pass''} then SI_NetworkProvided
          else if w \<in> {''no'', ''unverified''} then SI_UserProvidedNotScreened
          else if w \<in> {''fail'', ''failed''} then SI_UserProvidedVerifiedFailed
          else SI_UserProvidedNotScreened) (map_of params ''screen'')"

definition parse_presentation_indicator :: "(string \<times> string) list \<Rightarrow> presentation_indicator option" where
  "parse_presentation_indicator params =
    map_option (\<lambda>v. let w = map ascii_lower (trim_space v)
       in if w \<in> {''off'', ''none''} then PI_Allowed
          else if w \<in> {''full'', ''on'', ''uri'', ''name''} then PI_Restricted
          else PI_Allowed) (map_of params ''privacy'')"

definition parse_isup_calling_party_category :: "string \<Rightarrow> u8 option" where
  "parse_isup_calling_party_category isup_hex =
    (let hex_data = filter (\<lambda>c. c \<notin> {CHR '' '', CHR 0x09, CHR 0x0D, CHR 0x0A}) isup_hex
     in if hex_data = [] \<or> length hex_data mod 2 \<noteq> 0 then None
        else case hex_decode hex_data of
          None \<Rightarrow> None
        | Some bytes \<Rightarrow> if bytes = [] then None else Some (bytes ! (if 13 < length bytes then 13 else 0)))"

definition isup_line_info :: "u8 \<Rightarrow> originating_line_info" where
  "isup_line_info v = \<lparr>ol_oli_value = v, ol_source = OS_IsupBody, ol_calling_number = None,
     ol_screening = None, ol_presentation = None\<rparr>"

text \<open>At each line that names the ISUP type: past the part's headers and the empty lines, the next line
  is the payload.\<close>

definition isup_payload_line :: "string list \<Rightarrow> string option" where
  "isup_payload_line rest =
    (case dropWhile (\<lambda>l. trim_space l = []) (dropWhile (\<lambda>l. trim_space l \<noteq> []) rest) of
       [] \<Rightarrow> None | l # _ \<Rightarrow> Some (trim_space l))"

fun extract_oli_from_lines :: "string list \<Rightarrow> originating_line_info option" where
  "extract_oli_from_lines [] = None"
| "extract_oli_from_lines (l # ls) =
    (if \<not> contains_str l ''application/isup'' then extract_oli_from_lines ls
     else case Option.bind (isup_payload_line ls) parse_isup_calling_party_category of
       Some v \<Rightarrow> Some (isup_line_info v)
     | None \<Rightarrow> extract_oli_from_lines ls)"

definition extract_oli_from_body :: "string \<Rightarrow> originating_line_info option" where
  "extract_oli_from_body body =
    (if \<not> contains_str body ''application/isup'' then None else extract_oli_from_lines (str_lines body))"

text \<open>The attempts in turn: each gives a result, gives none and lets the next one try, or panics.\<close>

definition oli_attempt ::
    "originating_line_info option option \<Rightarrow> originating_line_info option option \<Rightarrow>
     originating_line_info option option" where
  "oli_attempt a b = (case a of None \<Rightarrow> None | Some (Some i) \<Rightarrow> Some (Some i) | Some None \<Rightarrow> b)"

definition p_isup_oli_info :: "header_map \<Rightarrow> originating_line_info option option" where
  "p_isup_oli_info headers = Some (
    case get_header_case_insensitive headers ''P-ISUP-OLI'' of
      None \<Rightarrow> None
    | Some h \<Rightarrow> map_option (\<lambda>v. \<lparr>ol_oli_value = v, ol_source = OS_PIsupOli,
        ol_calling_number = get_header_case_insensitive headers ''From'', ol_screening = None,
        ol_presentation = None\<rparr>) (parse_oli_string (trim_space h)))"

definition uri_oli_info ::
    "header_map \<Rightarrow> string \<Rightarrow> string list \<Rightarrow> oli_source \<Rightarrow> bool \<Rightarrow> originating_line_info option option" where
  "uri_oli_info headers name params source indicators =
    (case get_header_case_insensitive headers name of
       None \<Rightarrow> Some None
     | Some h \<Rightarrow>
         (case parse_header_field h of
            None \<Rightarrow> None
          | Some (Inl e) \<Rightarrow> Some None
          | Some (Inr (_, uri, header_params)) \<Rightarrow> Some (
              case first_some (map (map_of (su_parameters uri)) params) of
                None \<Rightarrow> None
              | Some s \<Rightarrow> map_option (\<lambda>v. \<lparr>ol_oli_value = v, ol_source = source, ol_calling_number = su_user uri,
                  ol_screening = (if indicators then parse_screening_indicator header_params else None),
                  ol_presentation = (if indicators then parse_presentation_indicator header_params else None)\<rparr>)
                  (parse_oli_string s))))"

definition extract_oli_info :: "header_map \<Rightarrow> string option \<Rightarrow> originating_line_info option option" where
  "extract_oli_info headers body =
    oli_attempt (p_isup_oli_info headers)
   (oli_attempt (uri_oli_info headers ''From'' [''oli'', ''isup-oli''] OS_FromUriParam False)
   (oli_attempt (uri_oli_info headers ''P-Asserted-Identity'' [''oli''] OS_PAssertedIdentity False)
   (oli_attempt (uri_oli_info headers ''Remote-Party-ID'' [''oli''] OS_RemotePartyId True)
   (oli_attempt (uri_oli_info headers ''Diversion'' [''oli''] OS_DiversionHeader False)
     (Some (Option.bind body extract_oli_from_body))))))"

section \<open>Validation of requests\<close>

text \<open>\<open>char::is_control\<close>: the control characters of ASCII and of its extension U+0080 to U+009F.\<close>

definition is_control_char :: "string \<Rightarrow> bool" where
  "is_control_char ch =
    (case map of_char ch :: nat list of
       [n] \<Rightarrow> n < 32 \<or> n = 127
     | [m, n] \<Rightarrow> m = 194 \<and> 128 \<le> n \<and> n < 160
     | _ \<Rightarrow> False)"

definition valid_uri_prefix :: "string \<Rightarrow> bool" where
  "valid_uri_prefix s \<longleftrightarrow> starts_with s ''sip:'' \<or> starts_with s ''sips:'' \<or> starts_with s ''tel:''"

definition validate_uri_header :: "string \<Rightarrow> unit outcome" where
  "validate_uri_header header =
    (case find_char CHR ''<'' header of
       Some start \<Rightarrow>
         (case find_char CHR ''>'' header of
            None \<Rightarrow> Some (Inl UnmatchedBrackets)
          | Some stop \<Rightarrow>
              (case slice header (start + 1) stop of
                 None \<Rightarrow> None
               | Some uri_part \<Rightarrow> if valid_uri_prefix uri_part then Some (Inr ()) else Some (Inl NotASipUri)))
     | None \<Rightarrow>
         if valid_uri_prefix (hd (split_char CHR '';'' header)) then Some (Inr ()) else Some (Inl NotASipUri))"

definition check_request_uri :: "string \<Rightarrow> unit outcome" where
  "check_request_uri request_line =
    (case split_space request_line of
       _ # uri_part # _ \<Rightarrow>
         if list_ex is_control_char (utf8_chars uri_part) then Some (Inl UriControlCharacter)
         else if starts_with uri_part ''<'' \<or> ends_with uri_part ''>'' then Some (Inl UriInBrackets)
         else Some (Inr ())
     | _ \<Rightarrow> Some (Inr ()))"

definition optional_check :: "string option \<Rightarrow> (string \<Rightarrow> unit outcome) \<Rightarrow> unit outcome" where
  "optional_check h f = (case h of Some v \<Rightarrow> f v | None \<Rightarrow> Some (Inr ()))"

definition rfc3261_validate :: "header_map \<Rightarrow> string \<Rightarrow> unit outcome" where
  "rfc3261_validate headers request_line =
    (if \<not> ends_with request_line valid_sip_version then Some (Inl InvalidSipVersion)
     else case List.find (\<lambda>h. get_header_case_insensitive headers h = None) mandatory_sip_headers of
       Some h \<Rightarrow> Some (Inl (MissingMandatory h))
     | None \<Rightarrow>
         outcome_bind (check_request_uri request_line) (\<lambda>_.
         outcome_bind (optional_check (get_header_case_insensitive headers ''From'') validate_uri_header) (\<lambda>_.
         outcome_bind (optional_check (get_header_case_insensitive headers ''To'') validate_uri_header) (\<lambda>_.
         outcome_bind (optional_check (get_header_case_insensitive headers ''Call-ID'')
           (\<lambda>c. if CHR '' '' \<in> set c then Some (Inl CallIdSpaces) else Some (Inr ()))) (\<lambda>_.
         optional_check (get_header_case_insensitive headers ''Max-Forwards'')
           (\<lambda>m. if parse_u32 (trim_space m) = None then Some (Inl MaxForwardsNotNumeric) else Some (Inr ())))))))"

section \<open>Facts\<close>

named_theorems outcome_simps

lemma outcome_bind_simps [outcome_simps, simp]:
  "outcome_bind None f = None" "outcome_bind (Some (Inl e)) f = Some (Inl e)" "outcome_bind (Some (Inr x)) f = f x"
  by (simp_all add: outcome_bind_def)

lemma outcome_bind_eq_None:
  "outcome_bind r f = None \<longleftrightarrow> r = None \<or> (\<exists>x. r = Some (Inr x) \<and> f x = None)"
  by (cases r) (auto simp: outcome_bind_def split: sum.splits)

text \<open>A header whose first closing bracket stands before its first opening bracket.\<close>

definition brackets_inverted :: "string \<Rightarrow> bool" where
  "brackets_inverted h \<longleftrightarrow>
    (case (find_char CHR ''<'' h, find_char CHR ''>'' h) of (Some i, Some j) \<Rightarrow> j < i | _ \<Rightarrow> False)"

lemma find_char_less: "find_char c s = Some n \<Longrightarrow> n < length s"
  by (simp add: find_char_iff)

lemma find_char_distinct: "find_char c s = Some i \<Longrightarrow> find_char d s = Some j \<Longrightarrow> c \<noteq> d \<Longrightarrow> i \<noteq> j"
  by (auto simp: find_char_iff)

lemma slice_between_None:
  assumes "find_char c s = Some i" and "find_char d s = Some j" and "c \<noteq> d"
  shows "slice s (i + 1) j = None \<longleftrightarrow> j < i"
  using find_char_less [OF assms(2)] find_char_distinct [OF assms] by (auto simp: slice_def)

lemma validate_uri_header_panics: "validate_uri_header h = None \<longleftrightarrow> brackets_inverted h"
proof (cases "find_char CHR ''<'' h")
  case None
  then show ?thesis by (simp add: validate_uri_header_def brackets_inverted_def del: find_char_None)
next
  case (Some i)
  show ?thesis
  proof (cases "find_char CHR ''>'' h")
    case None
    with Some show ?thesis by (simp add: validate_uri_header_def brackets_inverted_def del: find_char_None)
  next
    case (Some j)
    with \<open>find_char CHR ''<'' h = Some i\<close> slice_between_None [of "CHR ''<''" h i "CHR ''>''" j]
    show ?thesis by (auto simp: validate_uri_header_def brackets_inverted_def split: option.splits)
  qed
qed

lemma parse_header_field_panics: "parse_header_field h = None \<longleftrightarrow> brackets_inverted h"
proof -
  have "header_uri_part h = None \<longleftrightarrow> brackets_inverted h"
  proof (cases "find_char CHR ''<'' h")
    case None
    then show ?thesis
      by (simp add: header_uri_part_def brackets_inverted_def del: find_char_None split: option.splits)
  next
    case (Some i)
    show ?thesis
    proof (cases "find_char CHR ''>'' h")
      case None
      with Some show ?thesis by (simp add: header_uri_part_def brackets_inverted_def del: find_char_None)
    next
      case (Some j)
      with \<open>find_char CHR ''<'' h = Some i\<close> slice_between_None [of "CHR ''<''" h i "CHR ''>''" j]
      show ?thesis by (cases i; auto simp: header_uri_part_def brackets_inverted_def split: option.splits)
    qed
  qed
  then show ?thesis
    by (auto simp: parse_header_field_def outcome_bind_eq_None split: sum.splits) (metis sum.exhaust)
qed

lemma check_request_uri_returns: "check_request_uri l \<noteq> None"
  by (simp add: check_request_uri_def split: list.splits)

abbreviation header_of :: "header_map \<Rightarrow> string \<Rightarrow> string option" where
  "header_of \<equiv> get_header_case_insensitive"

definition well_formed_line :: "header_map \<Rightarrow> string \<Rightarrow> bool" where
  "well_formed_line headers request_line \<longleftrightarrow>
     ends_with request_line valid_sip_version \<and>
     (\<forall>h \<in> set mandatory_sip_headers. header_of headers h \<noteq> None) \<and>
     check_request_uri request_line = Some (Inr ())"

lemma find_mandatory_None:
  "List.find (\<lambda>h. header_of headers h = None) hs = None \<longleftrightarrow> (\<forall>h \<in> set hs. header_of headers h \<noteq> None)"
  by (auto simp: find_None_iff)

lemma unit_outcome_cases:
  fixes r :: "unit outcome"
  obtains "r = None" | e where "r = Some (Inl e)" | "r = Some (Inr ())"
  by (cases r) (auto, metis old.unit.exhaust sum.exhaust)

text \<open>C9: The check of an INVITE panics, which ends the task that serves all calls, exactly when the request
  line and the mandatory headers are in order and the \<open>From\<close> header, or the \<open>To\<close> header after
  an acceptable \<open>From\<close>, has a closing bracket before its first opening bracket.\<close>

theorem invite_check_panics_iff:
  "rfc3261_validate headers request_line = None \<longleftrightarrow>
     well_formed_line headers request_line \<and>
     (\<exists>from to. header_of headers ''From'' = Some from \<and> header_of headers ''To'' = Some to \<and>
       (brackets_inverted from \<or> validate_uri_header from = Some (Inr ()) \<and> brackets_inverted to))"
proof (cases "well_formed_line headers request_line")
  case False
  then show ?thesis
    using check_request_uri_returns [of request_line]
    by (cases "check_request_uri request_line" rule: unit_outcome_cases)
      (auto simp: rfc3261_validate_def well_formed_line_def find_None_iff find_Some_iff split: option.splits)
next
  case True
  then obtain "from" to where h: "header_of headers ''From'' = Some from" "header_of headers ''To'' = Some to"
    by (auto simp: well_formed_line_def mandatory_sip_headers_def)
  from True have "List.find (\<lambda>h. header_of headers h = None) mandatory_sip_headers = None"
    by (simp add: find_mandatory_None well_formed_line_def)
  moreover have "optional_check (header_of headers ''Call-ID'')
      (\<lambda>c. if CHR '' '' \<in> set c then Some (Inl CallIdSpaces) else Some (Inr ())) \<noteq> None"
    "optional_check (header_of headers ''Max-Forwards'')
      (\<lambda>m. if parse_u32 (trim_space m) = None then Some (Inl MaxForwardsNotNumeric) else Some (Inr ())) \<noteq> None"
    by (auto simp: optional_check_def split: option.splits)
  ultimately show ?thesis
    using True h
    by (cases "validate_uri_header from" rule: unit_outcome_cases;
        cases "validate_uri_header to" rule: unit_outcome_cases)
      (auto simp: rfc3261_validate_def well_formed_line_def optional_check_def outcome_bind_eq_None
        simp flip: validate_uri_header_panics)
qed

text \<open>An INVITE of this kind in full.\<close>

definition panicking_invite :: header_map where
  "panicking_invite = [(''Via'', ''SIP/2.0/UDP h''), (''From'', ''x> <sip:1@h>''), (''To'', ''<sip:2@h>''),
     (''Call-ID'', ''c''), (''CSeq'', ''1 INVITE''), (''Max-Forwards'', ''70'')]"

lemma panicking_invite: "rfc3261_validate panicking_invite ''INVITE sip:2@h SIP/2.0'' = None"
  by (simp add: panicking_invite_def rfc3261_validate_def ends_with_def valid_sip_version_def
    mandatory_sip_headers_def get_header_case_insensitive_def check_request_uri_def split_space_def is_space_def
    is_control_char_def optional_check_def validate_uri_header_def slice_def is_cont_def)

end
