(* ===== verification/AniIIRfc.thy ===== *)
theory AniIIRfc
  imports SipCompliance
begin

text \<open>
  The second table of ANI-II codes and the originating line information turned into it
  (\<open>src/ani_ii_rfc_compliant.rs\<close>). This is the table the B2BUA uses; a code that only
  \<open>src/ani_ii.rs\<close> knows is lost on the way.
\<close>

section \<open>Codes\<close>

datatype (plugins only: code size) rfc_code =
  RC_RegularLine | RC_Multiparty | RC_OffHookEmergency | RC_ManualOperator | RC_StationLevelRating
| RC_SpecialOperator | RC_RegionalCenter | RC_ConferencingOperator | RC_IndividualLine
| RC_AutonOperatorIdentified | RC_OnHookCoinOrNonCoin | RC_IntercityRestrictedLine | RC_InmateService
| RC_InmateServiceRestricted | RC_CoinNonCoinUncertainty | RC_TollFreeSpsAccess
| RC_SemiRestrictedLine | RC_PayStationNetworkCoin | RC_PrisonInmateFts | RC_SecondaryIndividual
| RC_NetworkIdentifiedDeniedAnonymity | RC_UnrestrictedUseA | RC_UnrestrictedUseB
| RC_UnrestrictedUseC | RC_UnrestrictedUseD | RC_UnrestrictedUseE | RC_UnrestrictedUseF
| RC_UnrestrictedUseG | RC_UnrestrictedUseH | RC_BusinessPbxCentrex | RC_Roaming | RC_CellularRadio
| RC_CellularRadioType2 | RC_CellularRadioRoaming1 | RC_CellularRadioRoaming2
| RC_PayStationNonNetworkCoin | RC_AiodListed | RC_OnHookCoinLine | RC_VoipPhone | RC_Unknown

text \<open>The discriminants.\<close>

fun rfc_digit :: "rfc_code \<Rightarrow> u8" where
  "rfc_digit RC_RegularLine = 0"
| "rfc_digit RC_Multiparty = 1"
| "rfc_digit RC_OffHookEmergency = 2"
| "rfc_digit RC_ManualOperator = 3"
| "rfc_digit RC_StationLevelRating = 6"
| "rfc_digit RC_SpecialOperator = 7"
| "rfc_digit RC_RegionalCenter = 10"
| "rfc_digit RC_ConferencingOperator = 12"
| "rfc_digit RC_IndividualLine = 17"
| "rfc_digit RC_AutonOperatorIdentified = 18"
| "rfc_digit RC_OnHookCoinOrNonCoin = 19"
| "rfc_digit RC_IntercityRestrictedLine = 20"
| "rfc_digit RC_InmateService = 21"
| "rfc_digit RC_InmateServiceRestricted = 22"
| "rfc_digit RC_CoinNonCoinUncertainty = 23"
| "rfc_digit RC_TollFreeSpsAccess = 24"
| "rfc_digit RC_SemiRestrictedLine = 25"
| "rfc_digit RC_PayStationNetworkCoin = 27"
| "rfc_digit RC_PrisonInmateFts = 29"
| "rfc_digit RC_SecondaryIndividual = 32"
| "rfc_digit RC_NetworkIdentifiedDeniedAnonymity = 34"
| "rfc_digit RC_UnrestrictedUseA = 40"
| "rfc_digit RC_UnrestrictedUseB = 41"
| "rfc_digit RC_UnrestrictedUseC = 42"
| "rfc_digit RC_UnrestrictedUseD = 43"
| "rfc_digit RC_UnrestrictedUseE = 44"
| "rfc_digit RC_UnrestrictedUseF = 45"
| "rfc_digit RC_UnrestrictedUseG = 46"
| "rfc_digit RC_UnrestrictedUseH = 47"
| "rfc_digit RC_BusinessPbxCentrex = 48"
| "rfc_digit RC_Roaming = 52"
| "rfc_digit RC_CellularRadio = 61"
| "rfc_digit RC_CellularRadioType2 = 62"
| "rfc_digit RC_CellularRadioRoaming1 = 63"
| "rfc_digit RC_CellularRadioRoaming2 = 64"
| "rfc_digit RC_PayStationNonNetworkCoin = 70"
| "rfc_digit RC_AiodListed = 80"
| "rfc_digit RC_OnHookCoinLine = 83"
| "rfc_digit RC_VoipPhone = 93"
| "rfc_digit RC_Unknown = 99"

definition rfc_from_digit :: "u8 \<Rightarrow> rfc_code option" where
  "rfc_from_digit d =
    (if d = 0 then Some RC_RegularLine
     else if d = 1 then Some RC_Multiparty
     else if d = 2 then Some RC_OffHookEmergency
     else if d = 3 then Some RC_ManualOperator
     else if d = 6 then Some RC_StationLevelRating
     else if d = 7 then Some RC_SpecialOperator
     else if d = 10 then Some RC_RegionalCenter
     else if d = 12 then Some RC_ConferencingOperator
     else if d = 17 then Some RC_IndividualLine
     else if d = 18 then Some RC_AutonOperatorIdentified
     else if d = 19 then Some RC_OnHookCoinOrNonCoin
     else if d = 20 then Some RC_IntercityRestrictedLine
     else if d = 21 then Some RC_InmateService
     else if d = 22 then Some RC_InmateServiceRestricted
     else if d = 23 then Some RC_CoinNonCoinUncertainty
     else if d = 24 then Some RC_TollFreeSpsAccess
     else if d = 25 then Some RC_SemiRestrictedLine
     else if d = 27 then Some RC_PayStationNetworkCoin
     else if d = 29 then Some RC_PrisonInmateFts
     else if d = 32 then Some RC_SecondaryIndividual
     else if d = 34 then Some RC_NetworkIdentifiedDeniedAnonymity
     else if d = 40 then Some RC_UnrestrictedUseA
     else if d = 41 then Some RC_UnrestrictedUseB
     else if d = 42 then Some RC_UnrestrictedUseC
     else if d = 43 then Some RC_UnrestrictedUseD
     else if d = 44 then Some RC_UnrestrictedUseE
     else if d = 45 then Some RC_UnrestrictedUseF
     else if d = 46 then Some RC_UnrestrictedUseG
     else if d = 47 then Some RC_UnrestrictedUseH
     else if d = 48 then Some RC_BusinessPbxCentrex
     else if d = 52 then Some RC_Roaming
     else if d = 61 then Some RC_CellularRadio
     else if d = 62 then Some RC_CellularRadioType2
     else if d = 63 then Some RC_CellularRadioRoaming1
     else if d = 64 then Some RC_CellularRadioRoaming2
     else if d = 70 then Some RC_PayStationNonNetworkCoin
     else if d = 80 then Some RC_AiodListed
     else if d = 83 then Some RC_OnHookCoinLine
     else if d = 93 then Some RC_VoipPhone
     else None)"

fun rfc_description :: "rfc_code \<Rightarrow> string" where
  "rfc_description RC_RegularLine = ''Regular Line (POTS)''"
| "rfc_description RC_Multiparty = ''Multiparty Line''"
| "rfc_description RC_OffHookEmergency = ''ANI Failure/Emergency''"
| "rfc_description RC_ManualOperator = ''Manual Operator''"
| "rfc_description RC_StationLevelRating = ''Station Level Rating''"
| "rfc_description RC_SpecialOperator = ''Special Operator Required''"
| "rfc_description RC_RegionalCenter = ''Regional Center Test''"
| "rfc_description RC_ConferencingOperator = ''Long Distance Operator''"
| "rfc_description RC_IndividualLine = ''Individual Line''"
| "rfc_description RC_AutonOperatorIdentified = ''Auton Operator''"
| "rfc_description RC_OnHookCoinOrNonCoin = ''Coin or Non-Coin''"
| "rfc_description RC_IntercityRestrictedLine = ''Intercity Restricted''"
| "rfc_description RC_InmateService = ''Inmate Service''"
| "rfc_description RC_InmateServiceRestricted = ''Inmate Service Restricted''"
| "rfc_description RC_CoinNonCoinUncertainty = ''Payphone (Coin Uncertainty)''"
| "rfc_description RC_TollFreeSpsAccess = ''Toll Free Service''"
| "rfc_description RC_SemiRestrictedLine = ''Semi-Restricted Line''"
| "rfc_description RC_PayStationNetworkCoin = ''Payphone (Network Coin)''"
| "rfc_description RC_PrisonInmateFts = ''Prison/Inmate FTS''"
| "rfc_description RC_SecondaryIndividual = ''Secondary/Toll Billing''"
| "rfc_description RC_NetworkIdentifiedDeniedAnonymity = ''Network ID No Anonymity''"
| "rfc_description RC_UnrestrictedUseA = ''Unrestricted Use''"
| "rfc_description RC_UnrestrictedUseB = ''Unrestricted Use B''"
| "rfc_description RC_UnrestrictedUseC = ''Unrestricted Use C''"
| "rfc_description RC_UnrestrictedUseD = ''Unrestricted Use D''"
| "rfc_description RC_UnrestrictedUseE = ''Unrestricted Use E''"
| "rfc_description RC_UnrestrictedUseF = ''Unrestricted Use F''"
| "rfc_description RC_UnrestrictedUseG = ''Unrestricted Use G''"
| "rfc_description RC_UnrestrictedUseH = ''Unrestricted Use H''"
| "rfc_description RC_BusinessPbxCentrex = ''Business PBX/Centrex''"
| "rfc_description RC_Roaming = ''Roaming/Cellular''"
| "rfc_description RC_CellularRadio = ''Cellular/Wireless Type 1''"
| "rfc_description RC_CellularRadioType2 = ''Cellular/Wireless Type 2''"
| "rfc_description RC_CellularRadioRoaming1 = ''Cellular Roaming Type 1''"
| "rfc_description RC_CellularRadioRoaming2 = ''Cellular Roaming Type 2''"
| "rfc_description RC_PayStationNonNetworkCoin = ''Payphone (No Network Control)''"
| "rfc_description RC_AiodListed = ''AIOD Listed DN''"
| "rfc_description RC_OnHookCoinLine = ''On-Hook Coin Line''"
| "rfc_description RC_VoipPhone = ''VoIP Phone''"
| "rfc_description RC_Unknown = ''Unknown/Reserved''"

section \<open>Line information\<close>

record rfc_info =
  ri_code :: rfc_code
  ri_raw_digit :: u8
  ri_source :: string
  ri_calling_number :: "string option"
  ri_is_payphone :: bool
  ri_restricted :: bool

text \<open>\<open>{:?}\<close> of the two kinds of source.\<close>

fun oli_source_debug :: "oli_source \<Rightarrow> string" where
  "oli_source_debug OS_FromUriParam = ''FromUriParam''"
| "oli_source_debug OS_PIsupOli = ''PIsupOli''"
| "oli_source_debug OS_RemotePartyId = ''RemotePartyId''"
| "oli_source_debug OS_PAssertedIdentity = ''PAssertedIdentity''"
| "oli_source_debug OS_IsupBody = ''IsupBody''"
| "oli_source_debug OS_DiversionHeader = ''DiversionHeader''"

fun legacy_source_debug :: "ani_ii_source \<Rightarrow> string" where
  "legacy_source_debug AS_RemotePartyId = ''RemotePartyId''"
| "legacy_source_debug AS_PAssertedIdentity = ''PAssertedIdentity''"
| "legacy_source_debug AS_FromHeader = ''FromHeader''"
| "legacy_source_debug AS_CustomHeader = ''CustomHeader''"
| "legacy_source_debug AS_SipI = ''SipI''"
| "legacy_source_debug AS_Default = ''Default''"

definition payphone_codes :: "rfc_code list" where
  "payphone_codes = [RC_PayStationNetworkCoin, RC_PayStationNonNetworkCoin, RC_CoinNonCoinUncertainty]"

definition restricted_codes :: "rfc_code list" where
  "restricted_codes = [RC_InmateService, RC_InmateServiceRestricted, RC_PrisonInmateFts,
     RC_IntercityRestrictedLine, RC_SemiRestrictedLine]"

text \<open>The first test for pay stations in the code, which also lists 19 and 83, is not used.\<close>

definition from_oli_info :: "originating_line_info \<Rightarrow> rfc_info option" where
  "from_oli_info oli =
    map_option (\<lambda>code. \<lparr>ri_code = code, ri_raw_digit = ol_oli_value oli,
        ri_source = oli_source_debug (ol_source oli), ri_calling_number = ol_calling_number oli,
        ri_is_payphone = (code \<in> set payphone_codes), ri_restricted = (code \<in> set restricted_codes)\<rparr>)
      (rfc_from_digit (ol_oli_value oli))"

definition from_legacy :: "ani_ii_info \<Rightarrow> u8 + rfc_info" where
  "from_legacy legacy =
    (case rfc_from_digit (ai_raw_digit legacy) of
       None \<Rightarrow> Inl (ai_raw_digit legacy)
     | Some code \<Rightarrow> Inr \<lparr>ri_code = code, ri_raw_digit = ai_raw_digit legacy,
         ri_source = legacy_source_debug (ai_source legacy), ri_calling_number = None,
         ri_is_payphone = (code \<in> set payphone_codes), ri_restricted = ai_triggers_surcharge legacy\<rparr>)"

text \<open>The result of a search that may panic.\<close>

definition parse_from_sip_message :: "header_map \<Rightarrow> string option \<Rightarrow> rfc_info option option" where
  "parse_from_sip_message headers body =
    map_option (\<lambda>i. Option.bind i from_oli_info) (extract_oli_info headers body)"

section \<open>The surcharge\<close>

definition rfc_is_toll_free :: "string \<Rightarrow> bool" where
  "rfc_is_toll_free number \<longleftrightarrow>
    (let cleaned = only_digits number
     in if 10 \<le> length cleaned then
          (if starts_with cleaned ''1'' \<and> 11 \<le> length cleaned then take 3 (drop 1 cleaned) else take 3 cleaned)
            \<in> set toll_free_codes
        else False)"

definition rfc_surcharge ::
    "rfc_info option \<Rightarrow> bool \<Rightarrow> (string \<rightharpoonup> rat) option \<Rightarrow> bool \<times> rat \<times> string" where
  "rfc_surcharge info toll_free config =
    (if \<not> toll_free then (False, 0, ''Not a toll-free call'')
     else case info of
       None \<Rightarrow> (False, 0, ''No ANI-II information'')
     | Some i \<Rightarrow>
         if \<not> ri_is_payphone i then (False, 0, ''ANI-II does not trigger surcharge'')
         else
           let key = ''surcharge_'' @ dec (unat (ri_raw_digit i));
               amount = (case Option.bind config (\<lambda>m. m key) of Some x \<Rightarrow> x | None \<Rightarrow> 49 / 100)
           in (True, amount, ''Payphone surcharge for ANI-II '' @ dec (unat (ri_raw_digit i))))"

end
