(* ===== verification/Class4Costs.thy ===== *)
theory Class4Costs
  imports LcrTypes AniIIRfc
begin

text \<open>
  The records of calls of the class 4 B2BUA, their costs, the customer registry and the trunk
  configuration (\<open>src/class4_b2bua.rs\<close>). Amounts of money and rates (\<open>f64\<close>) are rationals,
  times are in milliseconds, a duration in seconds is a natural number (it comes from the difference
  of two times, so it is far below the range of \<open>u64\<close>), an IP address is its text.
\<close>

section \<open>Trunks and customers\<close>

datatype trunk_direction = TD_Ingress | TD_Egress | TD_Bidirectional

datatype business_type = BT_Customer | BT_Carrier | BT_Internal

record trunk_rate_config =
  tg_trunk_id :: u32
  tg_trunk_name :: string
  tg_direction :: trunk_direction
  tg_ip_addresses :: "string list"
  tg_default_rate_per_minute :: rat
  tg_rate_deck_id :: "u32 option"
  tg_rate_overrides :: "(string \<times> rat) list"
  tg_is_revenue_trunk :: bool
  tg_billing_increment :: u32
  tg_minimum_duration :: u32
  tg_trunk_type :: business_type
  tg_our_number_blocks :: "string list"
  tg_customer_number_blocks :: "string list"
  tg_payphone_surcharges_enabled :: bool
  tg_payphone_surcharge_23 :: "rat option"
  tg_payphone_surcharge_27 :: "rat option"
  tg_payphone_surcharge_70 :: "rat option"
  tg_ani_ii_blocking :: "ani_ii_blocking_config option"

type_synonym socket_addr = "string \<times> u16"

record customer_info =
  ci_customer_id :: string
  ci_sip_endpoint :: socket_addr
  ci_customer_name :: string
  ci_did_ani_ii_blocks :: "did_ani_ii_blocking list"

record did_assignment =
  dd_pattern :: string
  dd_customer_id :: string
  dd_customer_name :: string
  dd_sip_endpoint :: string
  dd_active :: bool

record customer_registry =
  cr_did_assignments :: "did_assignment list"
  cr_customer_cache :: "string \<rightharpoonup> customer_info"

definition sample_assignments :: "did_assignment list" where
  "sample_assignments =
    [\<lparr>dd_pattern = ''5551234***'', dd_customer_id = ''CUST001'', dd_customer_name = ''Acme Corporation'',
      dd_sip_endpoint = ''sip.acme.com:5060'', dd_active = True\<rparr>,
     \<lparr>dd_pattern = ''5555678***'', dd_customer_id = ''CUST002'', dd_customer_name = ''TechCorp Solutions'',
      dd_sip_endpoint = ''pbx.techcorp.net:5060'', dd_active = True\<rparr>,
     \<lparr>dd_pattern = ''8001230000-8001239999'', dd_customer_id = ''CUST003'', dd_customer_name = ''Global Communications'',
      dd_sip_endpoint = ''switch.global.com:5060'', dd_active = True\<rparr>]"

definition new_customer_registry :: customer_registry where
  "new_customer_registry = \<lparr>cr_did_assignments = sample_assignments, cr_customer_cache = Map.empty\<rparr>"

definition did_range :: "string \<Rightarrow> (nat \<times> nat) option" where
  "did_range pattern =
    (case split_char CHR ''-'' pattern of
       [a, b] \<Rightarrow> (case (parse_u64 a, parse_u64 b) of (Some x, Some y) \<Rightarrow> Some (x, y) | _ \<Rightarrow> None)
     | _ \<Rightarrow> None)"

definition matches_pattern :: "string \<Rightarrow> string \<Rightarrow> bool" where
  "matches_pattern dnis pattern \<longleftrightarrow>
    (if CHR ''*'' \<in> set pattern then starts_with dnis (remove_char CHR ''*'' pattern)
     else case (if CHR ''-'' \<in> set pattern then did_range pattern else None) of
       Some (a, b) \<Rightarrow> (case parse_u64 dnis of Some n \<Rightarrow> a \<le> n \<and> n \<le> b | None \<Rightarrow> dnis = pattern)
     | None \<Rightarrow> dnis = pattern)"

text \<open>The parser of socket addresses is an argument; a host name is none.\<close>

definition create_customer_info :: "(string \<Rightarrow> socket_addr option) \<Rightarrow> did_assignment \<Rightarrow> customer_info" where
  "create_customer_info parse_addr d = \<lparr>ci_customer_id = dd_customer_id d,
     ci_sip_endpoint = (case parse_addr (dd_sip_endpoint d) of Some a \<Rightarrow> a | None \<Rightarrow> (''127.0.0.1'', 5060)),
     ci_customer_name = dd_customer_name d, ci_did_ani_ii_blocks = []\<rparr>"

definition find_customer_for_did ::
    "(string \<Rightarrow> socket_addr option) \<Rightarrow> customer_registry \<Rightarrow> string \<Rightarrow> customer_info option" where
  "find_customer_for_did parse_addr r dnis =
    (case cr_customer_cache r dnis of
       Some c \<Rightarrow> Some c
     | None \<Rightarrow> map_option (create_customer_info parse_addr)
         (List.find (\<lambda>d. dd_active d \<and> matches_pattern dnis (dd_pattern d)) (cr_did_assignments r)))"

definition add_assignment :: "did_assignment \<Rightarrow> customer_registry \<Rightarrow> customer_registry" where
  "add_assignment d r = r\<lparr>cr_did_assignments := cr_did_assignments r @ [d], cr_customer_cache := Map.empty\<rparr>"

definition load_from_config :: "did_assignment list \<Rightarrow> customer_registry \<Rightarrow> customer_registry" where
  "load_from_config ds r = r\<lparr>cr_did_assignments := ds, cr_customer_cache := Map.empty\<rparr>"

section \<open>Call detail records\<close>

record call_detail_record =
  cd_session_id :: string
  cd_a_leg_call_id :: string
  cd_b_leg_call_id :: "string option"
  cd_ani :: string
  cd_dnis :: string
  cd_start_time :: int
  cd_answer_time :: "int option"
  cd_end_time :: "int option"
  cd_duration_seconds :: "nat option"
  cd_ingress_trunk_id :: u32
  cd_ingress_trunk_name :: string
  cd_ingress_ip :: string
  cd_ingress_rate_per_minute :: rat
  cd_ingress_cost :: rat
  cd_ingress_revenue :: "rat option"
  cd_egress_trunk_id :: "u32 option"
  cd_egress_trunk_name :: "string option"
  cd_egress_ip :: "string option"
  cd_egress_rate_per_minute :: rat
  cd_egress_cost :: rat
  cd_egress_revenue :: "rat option"
  cd_total_cost :: rat
  cd_total_revenue :: rat
  cd_net_margin :: rat
  cd_profit_margin_percent :: rat
  cd_codec_negotiated :: "string option"
  cd_transcoding_used :: bool
  cd_termination_cause :: "u16 option"
  cd_termination_reason :: "string option"
  cd_route_attempts :: u32
  cd_final_route :: "string option"
  cd_ani_ii_ingress :: "u8 option"
  cd_ani_ii_egress :: "u8 option"
  cd_ani_ii_source :: "string option"
  cd_is_toll_free :: bool
  cd_payphone_surcharge_amount :: "rat option"
  cd_payphone_surcharge_reason :: "string option"
  cd_lrn :: "string option"
  cd_jurisdiction :: "call_jurisdiction option"
  cd_client_rate :: "rat option"
  cd_client_billed_seconds :: "nat option"
  cd_client_cost :: "rat option"
  cd_client_rate_deck_version :: "string option"
  cd_vendor_rate :: "rat option"
  cd_vendor_billed_seconds :: "nat option"
  cd_vendor_cost :: "rat option"
  cd_vendor_rate_deck_version :: "string option"

definition calculate_billable_minutes :: "rat \<Rightarrow> u32 \<Rightarrow> rat" where
  "calculate_billable_minutes actual_minutes billing_increment =
    (if billing_increment \<le> 1 then actual_minutes
     else let increment_minutes = of_nat (unat billing_increment) / 60
          in of_int \<lceil>actual_minutes / increment_minutes\<rceil> * increment_minutes)"

definition cost_ingress :: "trunk_rate_config \<Rightarrow> rat \<Rightarrow> call_detail_record \<Rightarrow> call_detail_record" where
  "cost_ingress t minutes c =
    (let amount = tg_default_rate_per_minute t * minutes
     in if tg_is_revenue_trunk t then c\<lparr>cd_ingress_cost := - amount, cd_ingress_revenue := Some amount\<rparr>
        else c\<lparr>cd_ingress_cost := amount, cd_ingress_revenue := None\<rparr>)"

definition cost_egress :: "trunk_rate_config \<Rightarrow> rat \<Rightarrow> call_detail_record \<Rightarrow> call_detail_record" where
  "cost_egress t minutes c =
    (let amount = tg_default_rate_per_minute t * minutes
     in if tg_is_revenue_trunk t then c\<lparr>cd_egress_cost := - amount, cd_egress_revenue := Some amount\<rparr>
        else c\<lparr>cd_egress_cost := amount, cd_egress_revenue := None\<rparr>)"

definition cost_totals :: "call_detail_record \<Rightarrow> call_detail_record" where
  "cost_totals c =
    (let cost = max (cd_ingress_cost c) 0 + max (cd_egress_cost c) 0;
         revenue = (case cd_ingress_revenue c of Some r \<Rightarrow> r | None \<Rightarrow> 0) +
           (case cd_egress_revenue c of Some r \<Rightarrow> r | None \<Rightarrow> 0);
         margin = revenue - cost;
         c = c\<lparr>cd_total_cost := cost, cd_total_revenue := revenue, cd_net_margin := margin\<rparr>
     in if 0 < revenue then c\<lparr>cd_profit_margin_percent := margin / revenue * 100\<rparr> else c)"

definition calculate_costs ::
    "trunk_rate_config \<Rightarrow> trunk_rate_config option \<Rightarrow> call_detail_record \<Rightarrow> call_detail_record" where
  "calculate_costs ingress egress c =
    (case cd_duration_seconds c of
       None \<Rightarrow> c
     | Some duration \<Rightarrow>
         let minutes = of_nat duration / 60;
             billable = calculate_billable_minutes minutes (tg_billing_increment ingress);
             c = cost_ingress ingress billable c;
             c = (case egress of
                    Some t \<Rightarrow> cost_egress t (calculate_billable_minutes minutes (tg_billing_increment t)) c
                  | None \<Rightarrow>
                      if cd_egress_revenue c \<noteq> None
                      then c\<lparr>cd_egress_revenue := Some (cd_egress_rate_per_minute c * billable)\<rparr> else c)
         in cost_totals c)"

definition billed_seconds :: "nat \<Rightarrow> int \<Rightarrow> int \<Rightarrow> nat" where
  "billed_seconds duration initial_seconds increment_seconds =
    (if duration = 0 then 0
     else if increment_seconds \<le> 0 then duration
     else
       let initial = nat (max initial_seconds 0); increment = nat increment_seconds
       in if duration \<le> initial then initial
          else initial + increment * ((duration - initial + (increment - 1)) div increment))"

definition apply_lcr_route_costs ::
    "call_route \<Rightarrow> call_jurisdiction option \<Rightarrow> string option \<Rightarrow> call_detail_record \<Rightarrow> call_detail_record" where
  "apply_lcr_route_costs route jurisdiction lrn c =
    (case cd_duration_seconds c of
       None \<Rightarrow> c
     | Some duration \<Rightarrow>
         let (client_initial, client_interval) =
               (case rt_client_rate route of
                  Some r \<Rightarrow> (nr_min_increment r, nr_interval r)
                | None \<Rightarrow> (rt_min_increment route, rt_interval route));
             client_secs = billed_seconds duration client_initial client_interval;
             vendor_secs = billed_seconds duration (rt_min_increment route) (rt_interval route)
         in c\<lparr>cd_lrn := lrn, cd_jurisdiction := jurisdiction,
              cd_client_rate := Some (rt_selling_per_minute route),
              cd_client_billed_seconds := Some client_secs,
              cd_client_cost := Some (rt_selling_per_minute route * (of_nat client_secs / 60)),
              cd_client_rate_deck_version := map_option (\<lambda>r. int_text (nr_deck_id r)) (rt_client_rate route),
              cd_vendor_rate := Some (rt_cost_per_minute route),
              cd_vendor_billed_seconds := Some vendor_secs,
              cd_vendor_cost := Some (rt_cost_per_minute route * (of_nat vendor_secs / 60)),
              cd_vendor_rate_deck_version := map_option (\<lambda>r. int_text (nr_deck_id r)) (rt_vendor_rate route)\<rparr>)"

text \<open>The longest prefix among the overrides; of two entries of the same length the first one read stays.\<close>

definition best_override :: "(string \<times> rat) list \<Rightarrow> string \<Rightarrow> rat option \<times> nat" where
  "best_override overrides number =
    fold (\<lambda>(prefix, rate) (best, len).
        if starts_with number prefix \<and> len < length prefix then (Some rate, length prefix) else (best, len))
      overrides (None, 0)"

definition apply_rate_overrides :: "trunk_rate_config \<Rightarrow> bool \<Rightarrow> call_detail_record \<Rightarrow> call_detail_record" where
  "apply_rate_overrides t is_ingress c =
    (case fst (best_override (tg_rate_overrides t) (if is_ingress then cd_ani c else cd_dnis c)) of
       Some rate \<Rightarrow>
         if is_ingress then c\<lparr>cd_ingress_rate_per_minute := rate\<rparr> else c\<lparr>cd_egress_rate_per_minute := rate\<rparr>
     | None \<Rightarrow> c)"

fun jurisdiction_str :: "call_jurisdiction \<Rightarrow> string" where
  "jurisdiction_str J_Local = ''local''"
| "jurisdiction_str J_Intrastate = ''intrastate''"
| "jurisdiction_str J_Interstate = ''interstate''"
| "jurisdiction_str J_International = ''international''"
| "jurisdiction_str J_Indeterminate = ''indeterminate''"

definition disposition_str :: "call_detail_record \<Rightarrow> string" where
  "disposition_str c =
    (if cd_answer_time c \<noteq> None then ''answered''
     else case cd_termination_cause c of
       Some n \<Rightarrow> if n = 486 \<or> n = 600 then ''busy'' else if n = 480 \<or> n = 408 then ''no_answer''
                 else if n = 487 then ''canceled'' else ''failed''
     | None \<Rightarrow> ''failed'')"

section \<open>Block billing\<close>

lemma round_up_div: "0 < (n :: nat) \<Longrightarrow> n * ((d + (n - 1)) div n) = (if d mod n = 0 then d else n * (d div n + 1))"
proof -
  assume n: "0 < n"
  have d: "d = n * (d div n) + d mod n" by simp
  show ?thesis
  proof (cases "d mod n = 0")
    case True
    then have "(d + (n - 1)) div n = d div n"
      using n by (metis add.commute add_diff_cancel_left' add_eq_0_iff_both_eq_0 d diff_less div_less div_mult_self2
          less_numeral_extra(1) mult.commute nat_arith.rule0 not_gr_zero)
    with True d show ?thesis by simp
  next
    case False
    have "(d + (n - 1)) div n = (n * (d div n) + (d mod n + (n - 1))) div n" by (metis add.assoc d)
    also have "\<dots> = d div n + (d mod n + (n - 1)) div n" using n by (intro div_mult_self4) simp
    also have "(d mod n + (n - 1)) div n = 1"
      using False n mod_less_divisor [OF n, of d] by (intro div_nat_eqI) auto
    finally show ?thesis using False by simp
  qed
qed

lemma round_up_least:
  fixes n :: nat
  assumes "0 < n"
  shows "d \<le> n * ((d + (n - 1)) div n)" and "d \<le> n * k \<Longrightarrow> n * ((d + (n - 1)) div n) \<le> n * k"
proof -
  show "d \<le> n * ((d + (n - 1)) div n)"
    unfolding round_up_div [OF assms] using assms by (simp add: dividend_less_times_div less_imp_le)
  assume le: "d \<le> n * k"
  have "(d + (n - 1)) div n \<le> (n * k + (n - 1)) div n" using le by (intro div_le_mono) simp
  also have "\<dots> = k" using assms by (intro div_nat_eqI) auto
  finally show "n * ((d + (n - 1)) div n) \<le> n * k" by (rule mult_le_mono2)
qed

lemma billed_block:
  fixes start increment :: int
  assumes "0 < duration" and "0 < increment"
  defines "initial \<equiv> nat (max start 0)" and "n \<equiv> nat increment" and "b \<equiv> billed_seconds duration start increment"
  shows "duration \<le> b \<and> (\<exists>k. b = initial + n * k) \<and> (\<forall>k. duration \<le> initial + n * k \<longrightarrow> b \<le> initial + n * k)"
proof -
  have n: "0 < n" using assms by simp
  show ?thesis
  proof (cases "duration \<le> initial")
    case True
    with assms(1,2) have "b = initial" by (simp add: billed_seconds_def b_def initial_def Let_def)
    with True show ?thesis by auto
  next
    case False
    with assms(1,2) have b: "b = initial + n * ((duration - initial + (n - 1)) div n)"
      by (simp add: billed_seconds_def b_def initial_def n_def Let_def)
    have "b \<le> initial + n * k" if "duration \<le> initial + n * k" for k
      using round_up_least(2) [OF n, of "duration - initial" k] that by (simp add: b)
    with round_up_least(1) [OF n, of "duration - initial"] show ?thesis by (auto simp: b)
  qed
qed

text \<open>C12: In exact arithmetic, a call without duration is billed nothing, and without a positive increment its exact duration;
  otherwise the billed seconds are the least time that covers the call and consists of the initial
  period, or none if it is negative, and whole increments.\<close>

theorem billed_seconds_least_block:
  "billed_seconds duration start increment =
    (if duration = 0 then 0
     else if increment \<le> 0 then duration
     else (LEAST b. duration \<le> b \<and> (\<exists>k. b = nat (max start 0) + nat increment * k)))"
proof (cases "0 < duration \<and> 0 < increment")
  case True
  with billed_block [of duration increment start]
  have "(LEAST b. duration \<le> b \<and> (\<exists>k. b = nat (max start 0) + nat increment * k)) = billed_seconds duration start increment"
    by (intro Least_equality) auto
  with True show ?thesis by auto
qed (auto simp: billed_seconds_def)

lemma ceiling_nat_div: "0 < n \<Longrightarrow> \<lceil>of_nat d / of_nat n :: rat\<rceil> = int ((d + (n - 1)) div n)"
proof -
  assume n: "0 < n"
  let ?k = "(d + (n - 1)) div n"
  have "d \<le> n * ?k" by (rule round_up_least(1) [OF n])
  then have "(of_nat d :: rat) \<le> of_nat n * of_nat ?k" by (metis of_nat_le_iff of_nat_mult)
  then have up: "of_nat d / of_nat n \<le> (of_int (int ?k) :: rat)" using n by (simp add: field_simps)
  have "n * ?k < d + n"
    unfolding round_up_div [OF n] using n by (auto simp: algebra_simps) (metis mult_div_mod_eq mult.commute less_add_same_cancel1 bot_nat_0.not_eq_extremum)
  then have "(of_nat n * of_nat ?k :: rat) < of_nat d + of_nat n"
    by (metis of_nat_add of_nat_less_iff of_nat_mult)
  then have low: "of_int (int ?k) - 1 < (of_nat d / of_nat n :: rat)" using n by (simp add: field_simps)
  show ?thesis using up low by (intro ceiling_unique) simp_all
qed

text \<open>The minutes that the trunk costs are computed from are the block billing of the routed call without
  an initial period.\<close>

lemma billable_blocks:
  assumes "1 < n" and "0 < d"
  shows "of_int \<lceil>of_nat d / 60 / (of_nat n / 60) :: rat\<rceil> * (of_nat n / 60) = (of_nat (billed_seconds d 0 (int n)) / 60 :: rat)"
proof -
  have n: "0 < n" and e: "of_nat d / 60 / (of_nat n / 60) = (of_nat d / of_nat n :: rat)" using assms by simp_all
  have "billed_seconds d 0 (int n) = n * ((d + (n - 1)) div n)"
    using assms by (simp add: billed_seconds_def Let_def)
  then show ?thesis unfolding e ceiling_nat_div [OF n] by simp
qed

lemma billable_minutes_blocks:
  assumes "1 < inc" and "0 < d"
  shows "calculate_billable_minutes (of_nat d / 60) inc = of_nat (billed_seconds d 0 (int (unat inc))) / 60"
proof -
  have n: "1 < unat inc" using assms(1) by (simp add: word_less_nat_alt)
  have "\<not> inc \<le> 1" using assms(1) by simp
  then show ?thesis
    unfolding calculate_billable_minutes_def Let_def using billable_blocks [OF n assms(2)] by presburger
qed

lemma billable_minutes_nonneg: "0 \<le> calculate_billable_minutes (of_nat d / 60) inc"
proof -
  have "0 \<le> (of_nat d / 60 / (of_nat (unat inc) / 60) :: rat)"
    by (intro divide_nonneg_nonneg of_nat_0_le_iff zero_le_numeral)
  then have "0 \<le> (of_int \<lceil>of_nat d / 60 / (of_nat (unat inc) / 60) :: rat\<rceil> :: rat)"
    by (metis ceiling_mono ceiling_zero of_int_0_le_iff)
  then show ?thesis
    unfolding calculate_billable_minutes_def Let_def
    by (cases "inc \<le> 1") (simp_all del: of_nat_unat add: divide_nonneg_nonneg mult_nonneg_nonneg of_nat_0_le_iff)
qed

section \<open>Rate overrides\<close>

definition money_of :: "call_detail_record \<Rightarrow> rat \<times> rat \<times> rat \<times> rat" where
  "money_of c = (cd_total_cost c, cd_total_revenue c, cd_net_margin c, cd_profit_margin_percent c)"

named_theorems costing

lemma cost_ingress_fields [costing]:
  "cd_ingress_cost (cost_ingress t m c) =
     (if tg_is_revenue_trunk t then - (tg_default_rate_per_minute t * m) else tg_default_rate_per_minute t * m)"
  "cd_ingress_revenue (cost_ingress t m c) =
     (if tg_is_revenue_trunk t then Some (tg_default_rate_per_minute t * m) else None)"
  "cd_egress_cost (cost_ingress t m c) = cd_egress_cost c"
  "cd_egress_revenue (cost_ingress t m c) = cd_egress_revenue c"
  "cd_egress_rate_per_minute (cost_ingress t m c) = cd_egress_rate_per_minute c"
  "cd_profit_margin_percent (cost_ingress t m c) = cd_profit_margin_percent c"
  by (simp_all add: cost_ingress_def Let_def)

lemma cost_egress_fields [costing]:
  "cd_ingress_cost (cost_egress t m c) = cd_ingress_cost c"
  "cd_ingress_revenue (cost_egress t m c) = cd_ingress_revenue c"
  "cd_egress_cost (cost_egress t m c) =
     (if tg_is_revenue_trunk t then - (tg_default_rate_per_minute t * m) else tg_default_rate_per_minute t * m)"
  "cd_egress_revenue (cost_egress t m c) =
     (if tg_is_revenue_trunk t then Some (tg_default_rate_per_minute t * m) else None)"
  "cd_profit_margin_percent (cost_egress t m c) = cd_profit_margin_percent c"
  by (simp_all add: cost_egress_def Let_def)

definition revenue_of :: "call_detail_record \<Rightarrow> rat" where
  "revenue_of c = (case cd_ingress_revenue c of Some r \<Rightarrow> r | None \<Rightarrow> 0) +
     (case cd_egress_revenue c of Some r \<Rightarrow> r | None \<Rightarrow> 0)"

definition cost_of :: "call_detail_record \<Rightarrow> rat" where
  "cost_of c = max (cd_ingress_cost c) 0 + max (cd_egress_cost c) 0"

lemma cost_totals_fields [costing]:
  "cd_total_cost (cost_totals c) = cost_of c"
  "cd_total_revenue (cost_totals c) = revenue_of c"
  "cd_net_margin (cost_totals c) = revenue_of c - cost_of c"
  "cd_profit_margin_percent (cost_totals c) =
     (if 0 < revenue_of c then (revenue_of c - cost_of c) / revenue_of c * 100 else cd_profit_margin_percent c)"
  by (simp_all add: cost_totals_def revenue_of_def cost_of_def Let_def)

text \<open>The costs of a record as \<open>terminate_session\<close> computes them.\<close>

definition final_costs ::
    "trunk_rate_config \<Rightarrow> trunk_rate_config option \<Rightarrow> call_detail_record \<Rightarrow> call_detail_record" where
  "final_costs ingress egress c =
    (let c = apply_rate_overrides ingress True c;
         c = (case egress of Some t \<Rightarrow> apply_rate_overrides t False c | None \<Rightarrow> c)
     in calculate_costs ingress egress c)"

lemma override_ingress:
  "\<exists>r. apply_rate_overrides t True c = c\<lparr>cd_ingress_rate_per_minute := r\<rparr>"
  by (cases "fst (best_override (tg_rate_overrides t) (cd_ani c))")
    (auto simp: apply_rate_overrides_def intro: exI [of _ "cd_ingress_rate_per_minute c"])

lemma override_egress:
  "\<exists>r. apply_rate_overrides t False c = c\<lparr>cd_egress_rate_per_minute := r\<rparr>"
  by (cases "fst (best_override (tg_rate_overrides t) (cd_dnis c))")
    (auto simp: apply_rate_overrides_def intro: exI [of _ "cd_egress_rate_per_minute c"])

lemma costs_ignore_ingress_rate:
  "money_of (calculate_costs t e (c\<lparr>cd_ingress_rate_per_minute := r\<rparr>)) = money_of (calculate_costs t e c)"
  by (cases "cd_duration_seconds c"; cases e)
    (simp_all add: calculate_costs_def money_of_def costing revenue_of_def cost_of_def Let_def)

lemma costs_ignore_egress_rate:
  "money_of (calculate_costs t (Some e) (c\<lparr>cd_egress_rate_per_minute := r\<rparr>)) = money_of (calculate_costs t (Some e) c)"
  by (cases "cd_duration_seconds c")
    (simp_all add: calculate_costs_def money_of_def costing revenue_of_def cost_of_def Let_def)

text \<open>The rate overrides of the trunks never change what a call costs or earns: whatever the overrides are,
  the totals of the record are those of the default rates.\<close>

theorem overrides_never_billed:
  "money_of (final_costs ingress egress c) = money_of (calculate_costs ingress egress c)"
proof -
  obtain r where r: "apply_rate_overrides ingress True c = c\<lparr>cd_ingress_rate_per_minute := r\<rparr>"
    using override_ingress by blast
  show ?thesis
  proof (cases egress)
    case None
    then show ?thesis by (simp add: final_costs_def r costs_ignore_ingress_rate)
  next
    case (Some t)
    obtain r' where "apply_rate_overrides t False (c\<lparr>cd_ingress_rate_per_minute := r\<rparr>) =
        c\<lparr>cd_ingress_rate_per_minute := r\<rparr>\<lparr>cd_egress_rate_per_minute := r'\<rparr>"
      using override_egress by blast
    then show ?thesis
      by (simp add: final_costs_def r Some costs_ignore_egress_rate costs_ignore_ingress_rate Let_def)
  qed
qed

text \<open>A customer trunk pays: a call from a customer to a carrier earns the rate of the one and costs that of
  the other, each for its own blocks.\<close>

lemma calculate_costs_terminated:
  assumes "cd_duration_seconds c = Some d" and "tg_is_revenue_trunk t" and "\<not> tg_is_revenue_trunk e"
    and "0 \<le> tg_default_rate_per_minute t" and "0 \<le> tg_default_rate_per_minute e"
  defines "m \<equiv> calculate_billable_minutes (of_nat d / 60)"
  shows "cd_total_revenue (calculate_costs t (Some e) c) = tg_default_rate_per_minute t * m (tg_billing_increment t)"
    and "cd_total_cost (calculate_costs t (Some e) c) = tg_default_rate_per_minute e * m (tg_billing_increment e)"
proof -
  have m: "0 \<le> m inc" for inc
    unfolding m_def by (rule billable_minutes_nonneg)
  from m [of "tg_billing_increment t"] m [of "tg_billing_increment e"]
  show "cd_total_revenue (calculate_costs t (Some e) c) = tg_default_rate_per_minute t * m (tg_billing_increment t)"
    and "cd_total_cost (calculate_costs t (Some e) c) = tg_default_rate_per_minute e * m (tg_billing_increment e)"
    using assms(1-5)
    by (simp_all add: calculate_costs_def costing revenue_of_def cost_of_def m_def [symmetric] max_def mult_nonneg_nonneg
        Let_def order_antisym)
qed

end
