(* ===== verification/Class4Sessions.thy ===== *)
theory Class4Sessions
  imports Class4Costs
begin

text \<open>
  The sessions of the class 4 B2BUA and their manager (\<open>SessionManager\<close> of
  \<open>src/class4_b2bua.rs\<close>): two tables and the statistics. The tables are association lists with
  distinct keys. Each method runs under the locks it takes as one step; the order in which the locks
  are taken is the subject of theory \<open>Class4Locks\<close>.
\<close>

section \<open>Sessions\<close>

datatype c4_session_state = SS_Initial | SS_Originating | SS_Routing | SS_Terminating | SS_Connecting | SS_Connected
  | SS_Disconnecting | SS_Terminated | SS_Failed

datatype leg_state = LS_Initial | LS_Invited | LS_Proceeding | LS_Ringing | LS_Connected | LS_Disconnecting
  | LS_Terminated | LS_Failed

record codec_negotiation =
  cn_a_leg_codecs :: "string list"
  cn_b_leg_codecs :: "string list"
  cn_negotiated_codec :: "string option"
  cn_transcoding_required :: bool
  cn_transcoding_profile :: "string option"

record call_leg =
  lg_call_id :: string
  lg_from_tag :: string
  lg_to_tag :: "string option"
  lg_local_addr :: socket_addr
  lg_remote_addr :: socket_addr
  lg_state :: leg_state
  lg_sip_headers :: header_map
  lg_supported_codecs :: "string list"
  lg_selected_codec :: "string option"
  lg_last_cseq :: u32

record c4_call_session =
  ses_session_id :: string
  ses_a_leg :: call_leg
  ses_b_leg :: "call_leg option"
  ses_state :: c4_session_state
  ses_created_at :: int
  ses_last_activity :: int
  ses_route_attempts :: u32
  ses_current_route :: "call_route option"
  ses_lrn :: "string option"
  ses_jurisdiction :: "call_jurisdiction option"
  ses_codec_negotiation :: codec_negotiation
  ses_cdr :: call_detail_record

record session_stats =
  st_total_sessions :: u64
  st_active_sessions :: u32
  st_successful_calls :: u64
  st_failed_calls :: u64
  st_average_setup_time_ms :: u64
  st_total_call_minutes :: u64
  st_peak_concurrent_calls :: u32

record session_manager =
  sm_active_sessions :: "(string \<times> c4_call_session) list"
  sm_call_id_mapping :: "(string \<times> string) list"
  sm_stats :: session_stats

definition no_stats :: session_stats where
  "no_stats = \<lparr>st_total_sessions = 0, st_active_sessions = 0, st_successful_calls = 0, st_failed_calls = 0,
     st_average_setup_time_ms = 0, st_total_call_minutes = 0, st_peak_concurrent_calls = 0\<rparr>"

definition new_session_manager :: session_manager where
  "new_session_manager = \<lparr>sm_active_sessions = [], sm_call_id_mapping = [], sm_stats = no_stats\<rparr>"

section \<open>Operations\<close>

definition stats_added :: "session_stats \<Rightarrow> session_stats" where
  "stats_added s =
    (let n = st_active_sessions s + 1
     in s\<lparr>st_total_sessions := st_total_sessions s + 1, st_active_sessions := n,
          st_peak_concurrent_calls := max (st_peak_concurrent_calls s) n\<rparr>)"

definition add_session :: "c4_call_session \<Rightarrow> session_manager \<Rightarrow> session_manager" where
  "add_session c m =
    (let mapping = AList.update (lg_call_id (ses_a_leg c)) (ses_session_id c) (sm_call_id_mapping m);
         mapping = (case ses_b_leg c of
             Some b \<Rightarrow> AList.update (lg_call_id b) (ses_session_id c) mapping | None \<Rightarrow> mapping)
     in m\<lparr>sm_active_sessions := AList.update (ses_session_id c) c (sm_active_sessions m),
          sm_call_id_mapping := mapping, sm_stats := stats_added (sm_stats m)\<rparr>)"

definition get_session :: "session_manager \<Rightarrow> string \<Rightarrow> c4_call_session option" where
  "get_session m session_id = map_of (sm_active_sessions m) session_id"

definition get_session_by_any_call_id :: "session_manager \<Rightarrow> string \<Rightarrow> c4_call_session option" where
  "get_session_by_any_call_id m call_id =
    (case map_of (sm_call_id_mapping m) call_id of Some i \<Rightarrow> get_session m i | None \<Rightarrow> None)"

definition session_exists :: "session_manager \<Rightarrow> string \<Rightarrow> bool" where
  "session_exists m call_id \<longleftrightarrow> map_of (sm_call_id_mapping m) call_id \<noteq> None"

definition update_session :: "c4_call_session \<Rightarrow> session_manager \<Rightarrow> session_manager" where
  "update_session c m = m\<lparr>sm_active_sessions := AList.update (ses_session_id c) c (sm_active_sessions m)\<rparr>"

text \<open>\<open>saturating_sub\<close>; the outcome of a call is that of its stored state.\<close>

definition stats_removed :: "c4_call_session \<Rightarrow> session_stats \<Rightarrow> session_stats" where
  "stats_removed c s =
    (let s = s\<lparr>st_active_sessions := (if st_active_sessions s = 0 then 0 else st_active_sessions s - 1)\<rparr>
     in if ses_state c = SS_Connected then
          s\<lparr>st_successful_calls := st_successful_calls s + 1,
            st_total_call_minutes := (case cd_duration_seconds (ses_cdr c) of
                Some d \<Rightarrow> st_total_call_minutes s + of_nat (d div 60) | None \<Rightarrow> st_total_call_minutes s)\<rparr>
        else s\<lparr>st_failed_calls := st_failed_calls s + 1\<rparr>)"

definition remove_session :: "string \<Rightarrow> session_manager \<Rightarrow> session_manager" where
  "remove_session session_id m =
    (case get_session m session_id of
       None \<Rightarrow> m
     | Some c \<Rightarrow>
         let mapping = AList.delete (lg_call_id (ses_a_leg c)) (sm_call_id_mapping m);
             mapping = (case ses_b_leg c of Some b \<Rightarrow> AList.delete (lg_call_id b) mapping | None \<Rightarrow> mapping)
         in m\<lparr>sm_active_sessions := AList.delete session_id (sm_active_sessions m),
              sm_call_id_mapping := mapping, sm_stats := stats_removed c (sm_stats m)\<rparr>)"

definition cleanup_expired_sessions :: "int \<Rightarrow> nat \<Rightarrow> session_manager \<Rightarrow> nat \<times> session_manager" where
  "cleanup_expired_sessions now timeout_seconds m =
    (let cutoff = now - int timeout_seconds * 1000;
         expired = map fst (filter (\<lambda>(_, c). ses_last_activity c < cutoff) (sm_active_sessions m))
     in (length expired, fold remove_session expired m))"

definition get_stats :: "session_manager \<Rightarrow> session_stats" where
  "get_stats m = sm_stats m"

section \<open>The invariant of the manager\<close>

lemma get_session_new [simp]: "get_session new_session_manager i = None"
  by (simp add: get_session_def new_session_manager_def)

lemma get_session_update [simp]:
  "get_session (update_session c m) i = (if i = ses_session_id c then Some c else get_session m i)"
  by (simp add: get_session_def update_session_def)

lemma get_session_add [simp]:
  "get_session (add_session c m) i = (if i = ses_session_id c then Some c else get_session m i)"
  by (simp add: get_session_def add_session_def Let_def)

lemma get_session_remove [simp]:
  "get_session (remove_session s m) i = (if i = s then None else get_session m i)"
  by (auto simp: get_session_def remove_session_def Let_def split: option.splits)

text \<open>The call identifier of the second leg of a session.\<close>

definition b_leg_id :: "string \<Rightarrow> string" where
  "b_leg_id session_id = session_id @ ''-b''"

lemma b_leg_id_inject [simp]: "b_leg_id i = b_leg_id j \<longleftrightarrow> i = j"
  by (simp add: b_leg_id_def)

definition leg_ids :: "c4_call_session \<Rightarrow> string set" where
  "leg_ids c = insert (lg_call_id (ses_a_leg c)) (case ses_b_leg c of Some b \<Rightarrow> {lg_call_id b} | None \<Rightarrow> {})"

abbreviation leads_to :: "session_manager \<Rightarrow> string \<Rightarrow> string option" where
  "leads_to m k \<equiv> map_of (sm_call_id_mapping m) k"

text \<open>What holds of a stored session: it is stored under its own identifier, which its first leg's call
  identifier leads to; the identifier of its second leg is its own and leads to no other session.\<close>

definition session_ok :: "session_manager \<Rightarrow> string \<Rightarrow> c4_call_session \<Rightarrow> bool" where
  "session_ok m i c \<longleftrightarrow> ses_session_id c = i \<and> leads_to m (lg_call_id (ses_a_leg c)) = Some i \<and>
     lg_call_id (ses_a_leg c) \<noteq> b_leg_id i \<and>
     (\<forall>b. ses_b_leg c = Some b \<longrightarrow> lg_call_id b = b_leg_id i) \<and>
     (leads_to m (b_leg_id i) = None \<or> leads_to m (b_leg_id i) = Some i)"

text \<open>The invariant: all sessions are so, every identifier leads to a session that has it, and the number
  of active sessions is counted.\<close>

definition sessions_ok :: "session_manager \<Rightarrow> bool" where
  "sessions_ok m \<longleftrightarrow>
     distinct (map fst (sm_active_sessions m)) \<and>
     (\<forall>i c. get_session m i = Some c \<longrightarrow> session_ok m i c) \<and>
     (\<forall>k i. leads_to m k = Some i \<longrightarrow> (\<exists>c. get_session m i = Some c \<and> k \<in> leg_ids c)) \<and>
     unat (st_active_sessions (sm_stats m)) = length (sm_active_sessions m)"

lemma sessions_ok_new [simp]: "sessions_ok new_session_manager"
  by (simp add: sessions_ok_def new_session_manager_def no_stats_def get_session_def)

lemma sessions_okD:
  assumes "sessions_ok m"
  shows "get_session m i = Some c \<Longrightarrow> session_ok m i c"
    and "leads_to m k = Some i \<Longrightarrow> \<exists>c. get_session m i = Some c \<and> k \<in> leg_ids c"
    and "unat (st_active_sessions (sm_stats m)) = length (sm_active_sessions m)"
    and "distinct (map fst (sm_active_sessions m))"
  using assms by (auto simp: sessions_ok_def)

lemma length_update_new: "map_of al k = None \<Longrightarrow> length (AList.update k v al) = length al + 1"
  by (induction al) auto

lemma length_update_old: "map_of al k = Some w \<Longrightarrow> length (AList.update k v al) = length al"
  by (induction al) (auto split: if_splits)

lemma delete_absent: "map_of al k = None \<Longrightarrow> AList.delete k al = al"
  by (simp add: map_of_eq_None_iff delete_idem)

lemma length_delete_old:
  "distinct (map fst al) \<Longrightarrow> map_of al k = Some w \<Longrightarrow> length al = length (AList.delete k al) + 1"
proof (induction al)
  case (Cons x al)
  show ?case
  proof (cases "fst x = k")
    case True
    with Cons.prems have "map_of al k = None" by (auto simp: map_of_eq_None_iff)
    with True show ?thesis using delete_absent [of al k] by (cases x) (simp add: AList.delete_eq)
  next
    case False
    with Cons show ?thesis by (auto simp: AList.delete_eq split: if_splits)
  qed
qed simp

text \<open>A new session under a fresh identifier.\<close>

lemma sessions_ok_add:
  assumes "sessions_ok m" and "get_session m (ses_session_id c) = None" and "ses_b_leg c = None"
    and "leads_to m (lg_call_id (ses_a_leg c)) = None" and "leads_to m (b_leg_id (ses_session_id c)) = None"
    and "lg_call_id (ses_a_leg c) \<noteq> b_leg_id (ses_session_id c)"
    and "\<forall>j. get_session m j \<noteq> None \<longrightarrow> lg_call_id (ses_a_leg c) \<noteq> b_leg_id j"
    and "length (sm_active_sessions m) + 1 < 2 ^ 32"
  shows "sessions_ok (add_session c m)"
proof -
  let ?m = "add_session c m"
  have map: "leads_to ?m k = (if k = lg_call_id (ses_a_leg c) then Some (ses_session_id c) else leads_to m k)" for k
    using assms(3) by (simp add: add_session_def Let_def)
  have "session_ok ?m i d" if "get_session ?m i = Some d" for i d
  proof (cases "i = ses_session_id c")
    case True
    with that have "d = c" by simp
    with True assms show ?thesis by (simp add: session_ok_def map)
  next
    case False
    with that have d: "get_session m i = Some d" by simp
    from sessions_okD(1) [OF assms(1) d] d False assms(4,7) show ?thesis
      by (auto simp: session_ok_def map)
  qed
  moreover have "\<exists>d. get_session ?m i = Some d \<and> k \<in> leg_ids d" if "leads_to ?m k = Some i" for k i
  proof (cases "k = lg_call_id (ses_a_leg c)")
    case True
    with that show ?thesis by (simp add: map leg_ids_def)
  next
    case False
    with that have "leads_to m k = Some i" by (simp add: map)
    from sessions_okD(2) [OF assms(1) this] assms(2) show ?thesis by fastforce
  qed
  moreover have "distinct (map fst (sm_active_sessions ?m))"
    using sessions_okD(4) [OF assms(1)] by (simp add: add_session_def Let_def distinct_update)
  moreover have "unat (st_active_sessions (sm_stats ?m)) = length (sm_active_sessions ?m)"
    using sessions_okD(3) [OF assms(1)] assms(2,8) length_update_new [of "sm_active_sessions m" "ses_session_id c" c]
    by (simp add: add_session_def stats_added_def get_session_def Let_def unat_word_ariths)
  ultimately show ?thesis unfolding sessions_ok_def by blast
qed

text \<open>A stored session changed, its legs kept or its second leg created.\<close>

lemma sessions_ok_update:
  assumes "sessions_ok m" and "get_session m (ses_session_id c) = Some d" and "ses_a_leg c = ses_a_leg d"
    and "ses_b_leg c = ses_b_leg d \<or> (\<exists>b. ses_b_leg c = Some b \<and> lg_call_id b = b_leg_id (ses_session_id c))"
  shows "sessions_ok (update_session c m)"
proof -
  let ?m = "update_session c m" let ?i = "ses_session_id c"
  have map: "leads_to ?m k = leads_to m k" for k by (simp add: update_session_def)
  note d = sessions_okD(1) [OF assms(1,2)]
  have "session_ok ?m i x" if "get_session ?m i = Some x" for i x
    using that d assms(3,4) sessions_okD(1) [OF assms(1), of i x]
    by (auto simp: session_ok_def map split: if_splits)
  moreover have "\<exists>x. get_session ?m i = Some x \<and> k \<in> leg_ids x" if "leads_to ?m k = Some i" for k i
  proof -
    from that obtain x where x: "get_session m i = Some x" "k \<in> leg_ids x"
      using sessions_okD(2) [OF assms(1)] by (auto simp: map)
    show ?thesis
    proof (cases "i = ?i")
      case True
      with x assms(2) have "k \<in> leg_ids d" by simp
      moreover have "leg_ids d \<subseteq> leg_ids c"
        using assms(3,4) d by (auto simp: leg_ids_def session_ok_def split: option.splits)
      ultimately show ?thesis using True by auto
    qed (use x in auto)
  qed
  moreover have "distinct (map fst (sm_active_sessions ?m))"
    using sessions_okD(4) [OF assms(1)] by (simp add: update_session_def distinct_update)
  moreover have "unat (st_active_sessions (sm_stats ?m)) = length (sm_active_sessions ?m)"
    using sessions_okD(3) [OF assms(1)] assms(2) length_update_old [of "sm_active_sessions m" ?i d c]
    by (simp add: update_session_def get_session_def)
  ultimately show ?thesis unfolding sessions_ok_def by blast
qed

text \<open>The identifier of a second leg entered into the mapping, or removed from it.\<close>

definition map_b_leg :: "string \<Rightarrow> string \<Rightarrow> session_manager \<Rightarrow> session_manager" where
  "map_b_leg k i m = m\<lparr>sm_call_id_mapping := AList.update k i (sm_call_id_mapping m)\<rparr>"

definition unmap_leg :: "string \<Rightarrow> session_manager \<Rightarrow> session_manager" where
  "unmap_leg k m = m\<lparr>sm_call_id_mapping := AList.delete k (sm_call_id_mapping m)\<rparr>"

lemma get_session_map [simp]:
  "get_session (map_b_leg k i m) = get_session m" "get_session (unmap_leg k m) = get_session m"
  by (simp_all add: fun_eq_iff get_session_def map_b_leg_def unmap_leg_def)

lemma sessions_ok_map:
  assumes "sessions_ok m" and "get_session m i = Some c" and "ses_b_leg c = Some b"
  shows "sessions_ok (map_b_leg (lg_call_id b) i m)"
proof -
  let ?m = "map_b_leg (b_leg_id i) i m"
  note c = sessions_okD(1) [OF assms(1,2)]
  then have b: "lg_call_id b = b_leg_id i" using assms(3) by (simp add: session_ok_def)
  have map: "leads_to ?m k = (if k = b_leg_id i then Some i else leads_to m k)" for k
    by (simp add: map_b_leg_def)
  have other: "lg_call_id (ses_a_leg d) \<noteq> b_leg_id i" if "get_session m j = Some d" for j d
    using c sessions_okD(1) [OF assms(1) that] by (cases "j = i") (auto simp: session_ok_def)
  have "session_ok ?m j d" if "get_session m j = Some d" for j d
    using sessions_okD(1) [OF assms(1) that] other [OF that] by (auto simp: session_ok_def map)
  moreover have "\<exists>d. get_session m j = Some d \<and> k \<in> leg_ids d" if "leads_to ?m k = Some j" for k j
  proof (cases "k = b_leg_id i")
    case True
    with that have "j = i" by (simp add: map)
    with assms(2,3) b True show ?thesis by (simp add: leg_ids_def)
  next
    case False
    with that sessions_okD(2) [OF assms(1)] show ?thesis by (simp add: map)
  qed
  ultimately show ?thesis
    using sessions_okD(3,4) [OF assms(1)] unfolding sessions_ok_def b get_session_map
    by (simp add: map_b_leg_def)
qed

lemma sessions_ok_unmap:
  assumes "sessions_ok m" and "get_session m i = Some c" and "ses_b_leg c = Some b"
  shows "sessions_ok (unmap_leg (lg_call_id b) m)"
proof -
  let ?m = "unmap_leg (b_leg_id i) m"
  note c = sessions_okD(1) [OF assms(1,2)]
  then have b: "lg_call_id b = b_leg_id i" using assms(3) by (simp add: session_ok_def)
  have map: "leads_to ?m k = (if k = b_leg_id i then None else leads_to m k)" for k
    by (simp add: unmap_leg_def)
  have other: "lg_call_id (ses_a_leg d) \<noteq> b_leg_id i" if "get_session m j = Some d" for j d
    using c sessions_okD(1) [OF assms(1) that] by (cases "j = i") (auto simp: session_ok_def)
  have "session_ok ?m j d" if "get_session m j = Some d" for j d
    using sessions_okD(1) [OF assms(1) that] other [OF that] by (auto simp: session_ok_def map)
  moreover have "\<exists>d. get_session m j = Some d \<and> k \<in> leg_ids d" if "leads_to ?m k = Some j" for k j
    using that sessions_okD(2) [OF assms(1), of k j] by (simp add: map split: if_splits)
  ultimately show ?thesis
    using sessions_okD(3,4) [OF assms(1)] unfolding sessions_ok_def b get_session_map
    by (simp add: unmap_leg_def)
qed

text \<open>Removal: the identifiers of the session go with it.\<close>

lemma leads_to_remove:
  assumes "sessions_ok m" and "get_session m s = Some c"
  shows "leads_to (remove_session s m) k = (if k \<in> leg_ids c then None else leads_to m k)"
  using assms(2) by (auto simp: remove_session_def leg_ids_def Let_def split: option.splits)

lemma sessions_ok_remove:
  assumes "sessions_ok m"
  shows "sessions_ok (remove_session s m)"
proof (cases "get_session m s")
  case None
  with assms show ?thesis by (simp add: remove_session_def)
next
  case (Some c)
  let ?m = "remove_session s m"
  note map = leads_to_remove [OF assms Some] and c = sessions_okD(1) [OF assms Some]
  have ids: "k \<in> leg_ids c \<Longrightarrow> k = lg_call_id (ses_a_leg c) \<or> k = b_leg_id s" for k
    using c by (auto simp: leg_ids_def session_ok_def split: option.splits)
  have "session_ok ?m i d" if "get_session ?m i = Some d" for i d
  proof -
    from that have d: "get_session m i = Some d" "i \<noteq> s" by (simp_all split: if_splits)
    note ok = sessions_okD(1) [OF assms d(1)]
    have "lg_call_id (ses_a_leg d) \<notin> leg_ids c"
      using ids ok c d(2) by (force simp: session_ok_def)
    with ok show ?thesis by (auto simp: session_ok_def map)
  qed
  moreover have "\<exists>d. get_session ?m i = Some d \<and> k \<in> leg_ids d" if "leads_to ?m k = Some i" for k i
  proof -
    from that have k: "k \<notin> leg_ids c" "leads_to m k = Some i" by (simp_all add: map split: if_splits)
    from sessions_okD(2) [OF assms k(2)] obtain d where "get_session m i = Some d" "k \<in> leg_ids d" by blast
    with k(1) Some show ?thesis by (cases "i = s") auto
  qed
  moreover have "distinct (map fst (sm_active_sessions ?m))"
    using sessions_okD(4) [OF assms] by (simp add: remove_session_def Some Let_def distinct_delete)
  moreover have "unat (st_active_sessions (sm_stats ?m)) = length (sm_active_sessions ?m)"
  proof -
    let ?n = "st_active_sessions (sm_stats m)"
    have len: "unat ?n = length (AList.delete s (sm_active_sessions m)) + 1"
      using sessions_okD(3,4) [OF assms] length_delete_old [of "sm_active_sessions m" s c] Some
      by (simp add: get_session_def)
    then have "?n \<noteq> 0" by (metis add_is_0 one_neq_zero unat_eq_zero)
    then have "unat (?n - 1) = unat ?n - 1" by (simp add: unat_minus_one)
    with len \<open>?n \<noteq> 0\<close> show ?thesis by (simp add: remove_session_def Some stats_removed_def Let_def)
  qed
  ultimately show ?thesis unfolding sessions_ok_def by blast
qed

text \<open>The handlers read a session, wait, and store it again without a look at whether it is still there. When the
  cleanup removes it in between, the store brings it back: it is not counted any more, and its call
  identifiers lead nowhere. The properties of whole handlers therefore let the cleanup run between them only.\<close>

lemma removal_undone:
  assumes "sessions_ok m" and "get_session m i = Some c" and "ses_session_id c' = i"
  defines "m' \<equiv> update_session c' (remove_session i m)"
  shows "get_session m' i = Some c' \<and> get_session_by_any_call_id m' (lg_call_id (ses_a_leg c)) = None \<and>
    length (sm_active_sessions m') = unat (st_active_sessions (sm_stats m')) + 1"
proof -
  have ok: "sessions_ok (remove_session i m)" by (rule sessions_ok_remove [OF assms(1)])
  have "map_of (sm_active_sessions (remove_session i m)) i = None"
    using get_session_remove [of i m i] by (simp add: get_session_def)
  then have "length (sm_active_sessions m') = length (sm_active_sessions (remove_session i m)) + 1"
    by (simp add: m'_def update_session_def assms(3) length_update_new)
  moreover have "leads_to (remove_session i m) (lg_call_id (ses_a_leg c)) = None"
    by (simp add: leads_to_remove [OF assms(1,2)] leg_ids_def)
  ultimately show ?thesis
    using sessions_okD(3) [OF ok] assms(3) by (simp add: m'_def get_session_by_any_call_id_def update_session_def get_session_def)
qed

lemma sessions_ok_cleanup:
  "sessions_ok m \<Longrightarrow> sessions_ok (snd (cleanup_expired_sessions now t m))"
proof -
  have "sessions_ok m \<Longrightarrow> sessions_ok (fold remove_session is m)" for "is"
    by (induction "is" arbitrary: m) (simp_all add: sessions_ok_remove)
  then show "sessions_ok m \<Longrightarrow> ?thesis" by (simp add: cleanup_expired_sessions_def Let_def)
qed

end
