(* ===== verification/Class4Messages.thy ===== *)
theory Class4Messages
  imports Class4Sessions
begin

text \<open>
  The messages of the class 4 B2BUA (\<open>src/class4_b2bua.rs\<close>): its parser, what it reads from
  the headers, codec negotiation, and the texts of the messages it sends.
\<close>

section \<open>Parsing\<close>

record c4_sip_message =
  sg_method :: "string option"
  sg_status_code :: "u16 option"
  sg_reason_phrase :: "string option"
  sg_headers :: header_map

text \<open>The lines up to the first blank one; a line without a colon is skipped and a later header replaces
  an earlier one of the same name.\<close>

fun parse_header_lines :: "string list \<Rightarrow> header_map \<Rightarrow> header_map" where
  "parse_header_lines [] headers = headers"
| "parse_header_lines (line # lines) headers =
    (if trim_space line = [] then headers
     else case find_char CHR '':'' line of
       Some colon_pos \<Rightarrow>
         parse_header_lines lines
           (AList.update (trim_space (take colon_pos line)) (trim_space (drop (colon_pos + 1) line)) headers)
     | None \<Rightarrow> parse_header_lines lines headers)"

definition parse_first_line :: "string \<Rightarrow> string option \<times> u16 option \<times> string option" where
  "parse_first_line first_line =
    (let parts = split_space first_line
     in if starts_with first_line ''SIP/2.0'' then
          (if 3 \<le> length parts
           then (None, map_option word_of_nat (parse_u16 (parts ! 1)), Some (join_str '' '' (drop 2 parts)))
           else (None, None, None))
        else (if parts = [] then None else Some (hd parts), None, None))"

text \<open>\<open>None\<close> is the error for an empty message.\<close>

definition parse_sip_message :: "string \<Rightarrow> c4_sip_message option" where
  "parse_sip_message message =
    (case str_lines message of
       [] \<Rightarrow> None
     | first_line # lines \<Rightarrow>
         let (meth, status, reason) = parse_first_line first_line
         in Some \<lparr>sg_method = meth, sg_status_code = status, sg_reason_phrase = reason,
              sg_headers = parse_header_lines lines []\<rparr>)"

definition header_text :: "c4_sip_message \<Rightarrow> string \<Rightarrow> string" where
  "header_text m name = (case map_of (sg_headers m) name of Some v \<Rightarrow> v | None \<Rightarrow> [])"

definition validate_sip_message :: "c4_sip_message \<Rightarrow> bool" where
  "validate_sip_message m \<longleftrightarrow>
     has_header (sg_headers m) ''Call-ID'' \<and>
     (sg_method m = None \<longrightarrow> sg_status_code m \<noteq> None) \<and>
     list_all (has_header (sg_headers m)) [''Via'', ''From'', ''To'', ''CSeq'']"

section \<open>Numbers, tags and codecs\<close>

definition number_chars :: "string \<Rightarrow> bool" where
  "number_chars s \<longleftrightarrow> s \<noteq> [] \<and> list_all (\<lambda>c. is_digit c \<or> c = CHR ''+'') s"

definition sip_number :: "string \<Rightarrow> string option" where
  "sip_number header =
    (case find_sub ''sip:'' header of
       None \<Rightarrow> None
     | Some start \<Rightarrow>
         let after_sip = drop (start + 4) header
         in case find_char CHR ''@'' after_sip of
              None \<Rightarrow> None
            | Some at_pos \<Rightarrow> let number = take at_pos after_sip in if number_chars number then Some number else None)"

definition tel_number :: "string \<Rightarrow> string option" where
  "tel_number header =
    (case find_sub ''tel:'' header of
       None \<Rightarrow> None
     | Some start \<Rightarrow>
         let after_tel = drop (start + 4) header;
             end_pos = (case find_char CHR '';'' after_tel of
                 Some i \<Rightarrow> i
               | None \<Rightarrow> (case find_char CHR ''>'' after_tel of Some i \<Rightarrow> i | None \<Rightarrow> length after_tel));
             number = take end_pos after_tel
         in if number \<noteq> [] \<and> list_all (\<lambda>c. is_digit c \<or> c = CHR ''+'' \<or> c = CHR ''-'') number
            then Some (remove_char CHR ''-'' number) else None)"

definition c4_calling_number :: "c4_sip_message \<Rightarrow> string option" where
  "c4_calling_number m =
    Option.bind (map_of (sg_headers m) ''From'') (\<lambda>h. first_some [sip_number h, tel_number h])"

definition c4_called_number :: "c4_sip_message \<Rightarrow> string option" where
  "c4_called_number m = Option.bind (map_of (sg_headers m) ''To'') sip_number"

definition c4_extract_tag :: "header_map \<Rightarrow> string \<Rightarrow> string option" where
  "c4_extract_tag headers name =
    Option.bind (map_of headers name) (\<lambda>value.
      map_option (\<lambda>start.
          let tag_part = drop (start + 4) value
          in case find_char CHR '';'' tag_part of Some i \<Rightarrow> take i tag_part | None \<Rightarrow> tag_part)
        (find_sub ''tag='' value))"

definition has_sdp :: "c4_sip_message \<Rightarrow> bool" where
  "has_sdp m \<longleftrightarrow> header_contains (sg_headers m) ''Content-Type'' ''application/sdp''"

definition extract_codecs :: "c4_sip_message \<Rightarrow> string list" where
  "extract_codecs m =
    (if has_sdp m then [''PCMU'', ''PCMA'', ''G729'', ''G722''] else [''PCMU'', ''G729''])"

definition extract_codecs_from_sdp :: "c4_sip_message \<Rightarrow> string list" where
  "extract_codecs_from_sdp m = (if has_sdp m then [''PCMU'', ''G729''] else [''PCMU''])"

record transcoding_profile =
  tp_name :: string
  tp_source_codec :: string
  tp_target_codec :: string
  tp_quality_profile :: string
  tp_bandwidth_optimization :: bool

record codec_translator =
  ct_supported_codecs :: "string list"
  ct_transcoding_profiles :: "(string \<times> transcoding_profile) list"

definition new_codec_translator :: codec_translator where
  "new_codec_translator = \<lparr>ct_supported_codecs = [''G711U'', ''G711A'', ''G729'', ''G722''],
     ct_transcoding_profiles = [(''G711U_to_G729'', \<lparr>tp_name = ''G711U to G729'', tp_source_codec = ''G711U'',
       tp_target_codec = ''G729'', tp_quality_profile = ''standard'', tp_bandwidth_optimization = True\<rparr>)]\<rparr>"

definition profile_key :: "string \<Rightarrow> string \<Rightarrow> string" where
  "profile_key a b = a @ ''_to_'' @ b"

text \<open>The result and the changed negotiation; the codecs of the second leg are stored in any case.\<close>

definition translator_negotiate ::
    "codec_translator \<Rightarrow> c4_sip_message \<Rightarrow> codec_negotiation \<Rightarrow> bool \<times> codec_negotiation" where
  "translator_negotiate t m n =
    (let bs = extract_codecs_from_sdp m; n = n\<lparr>cn_b_leg_codecs := bs\<rparr>
     in case List.find (\<lambda>a. a \<in> set bs) (cn_a_leg_codecs n) of
          Some a \<Rightarrow> (True, n\<lparr>cn_negotiated_codec := Some a, cn_transcoding_required := False\<rparr>)
        | None \<Rightarrow>
            (case List.find (\<lambda>(a, b). map_of (ct_transcoding_profiles t) (profile_key a b) \<noteq> None)
                    (List.product (cn_a_leg_codecs n) bs) of
               Some (a, b) \<Rightarrow> (True, n\<lparr>cn_transcoding_required := True,
                 cn_transcoding_profile := Some (profile_key a b),
                 cn_negotiated_codec := Some (a @ ''->'' @ b)\<rparr>)
             | None \<Rightarrow> (False, n)))"

text \<open>Without translation a failure is also noted in the record of the call.\<close>

definition negotiate_codecs ::
    "bool \<Rightarrow> codec_translator \<Rightarrow> c4_sip_message \<Rightarrow> c4_call_session \<Rightarrow> bool \<times> c4_call_session" where
  "negotiate_codecs enable_translation t m s =
    (let (ok, n) = translator_negotiate t m (ses_codec_negotiation s); s = s\<lparr>ses_codec_negotiation := n\<rparr>
     in if ok \<or> enable_translation then (ok, s)
        else (False, s\<lparr>ses_cdr := (ses_cdr s)\<lparr>cd_termination_cause := Some 488,
               cd_termination_reason := Some ''No compatible codec on B leg''\<rparr>\<rparr>))"

section \<open>Messages\<close>

definition crlf :: string where "crlf = [CHR 0x0D, CHR 0x0A]"

definition dec_word :: "'a :: len word \<Rightarrow> string" where
  "dec_word w = dec (unat w)"

definition addr_text :: "socket_addr \<Rightarrow> string" where
  "addr_text a = fst a @ '':'' @ dec_word (snd a)"

text \<open>The header lines of a message.\<close>

definition header_lines :: "(string \<times> string) list \<Rightarrow> string" where
  "header_lines hs = concat (map (\<lambda>(name, value). name @ '': '' @ value @ crlf) hs)"

definition create_b_leg_invite :: "c4_call_session \<Rightarrow> call_route \<Rightarrow> string" where
  "create_b_leg_invite s route =
    ''INVITE sip:'' @ cd_dnis (ses_cdr s) @ ''@'' @ et_host (rt_trunk route) @ '':'' @
      dec_word (et_port (rt_trunk route)) @ '' SIP/2.0'' @ crlf @ crlf"

definition create_forwarded_response :: "c4_call_session \<Rightarrow> u16 \<Rightarrow> string \<Rightarrow> c4_sip_message \<Rightarrow> string" where
  "create_forwarded_response s code reason original =
    ''SIP/2.0 '' @ dec_word code @ '' '' @ reason @ crlf @
      header_lines [(''Via'', header_text original ''Via''), (''From'', header_text original ''From''),
        (''To'', header_text original ''To''), (''Call-ID'', lg_call_id (ses_a_leg s)),
        (''CSeq'', header_text original ''CSeq''), (''Content-Length'', ''0'')] @ crlf"

definition sip_response_text :: "string \<Rightarrow> u16 \<Rightarrow> string \<Rightarrow> string \<Rightarrow> string" where
  "sip_response_text call_id code reason body =
    ''SIP/2.0 '' @ dec_word code @ '' '' @ reason @ crlf @
      header_lines [(''Call-ID'', call_id), (''Content-Length'', dec (length body))] @ crlf @ body"

definition options_response :: "c4_sip_message \<Rightarrow> string \<Rightarrow> string" where
  "options_response m call_id =
    ''SIP/2.0 200 OK'' @ crlf @
      header_lines [(''Via'', header_text m ''Via''), (''From'', header_text m ''From''), (''To'', header_text m ''To''),
        (''Call-ID'', call_id), (''CSeq'', header_text m ''CSeq''), (''Allow'', ''INVITE,ACK,BYE,CANCEL,OPTIONS''),
        (''Supported'', ''PCMU,PCMA,G729,G722''), (''Content-Length'', ''0'')] @ crlf"

text \<open>A request within a dialog, to the second leg or to the first. The first leg's tag of the other side is
  never set, so it reads \<open>missing\<close>.\<close>

definition leg_request :: "socket_addr \<Rightarrow> string \<Rightarrow> (call_leg \<Rightarrow> u32) \<Rightarrow> c4_call_session \<Rightarrow> bool \<Rightarrow> string option" where
  "leg_request local meth cseq s to_b_leg =
    map_option (\<lambda>leg.
      let uri = ''sip:'' @ (if to_b_leg then cd_dnis (ses_cdr s) else cd_ani (ses_cdr s)) @ ''@'' @ addr_text (lg_remote_addr leg);
          via = ''SIP/2.0/UDP '' @ addr_text local @ '';branch=z9hG4bK'' @ lg_from_tag leg;
          sender = ''sip:'' @ (if to_b_leg then cd_ani (ses_cdr s) else cd_dnis (ses_cdr s)) @ ''@'' @ addr_text local @
            '';tag='' @ (if to_b_leg then lg_from_tag (ses_a_leg s) else lg_from_tag leg);
          receiver = uri @ (if to_b_leg then (case lg_to_tag leg of Some t \<Rightarrow> '';tag='' @ t | None \<Rightarrow> [])
            else '';tag='' @ (case lg_to_tag (ses_a_leg s) of Some t \<Rightarrow> t | None \<Rightarrow> ''missing''))
      in meth @ '' '' @ uri @ '' SIP/2.0'' @ crlf @
           header_lines [(''Via'', via), (''From'', sender), (''To'', receiver), (''Call-ID'', lg_call_id leg),
             (''CSeq'', dec_word (cseq leg) @ '' '' @ meth), (''Content-Length'', ''0'')] @ crlf)
      (if to_b_leg then ses_b_leg s else Some (ses_a_leg s))"

definition create_forwarded_ack :: "socket_addr \<Rightarrow> c4_call_session \<Rightarrow> bool \<Rightarrow> string option" where
  "create_forwarded_ack local s to_b_leg = leg_request local ''ACK'' lg_last_cseq s to_b_leg"

definition create_bye_message :: "socket_addr \<Rightarrow> c4_call_session \<Rightarrow> bool \<Rightarrow> string option" where
  "create_bye_message local s to_b_leg = leg_request local ''BYE'' (\<lambda>leg. lg_last_cseq leg + 1) s to_b_leg"

definition add_ani_ii_to_headers :: "ani_ii_info option \<Rightarrow> header_map \<Rightarrow> header_map" where
  "add_ani_ii_to_headers ani_ii headers =
    (case ani_ii of
       None \<Rightarrow> headers
     | Some i \<Rightarrow>
         let digit = dec_word (ai_raw_digit i);
             headers = (case map_of headers ''Remote-Party-ID'' of
                 None \<Rightarrow> AList.update ''Remote-Party-ID''
                   (''<sip:anonymous@127.0.0.1>;party=calling;privacy=off;ani-ii='' @ digit) headers
               | Some existing \<Rightarrow>
                   if contains_str existing ''ani-ii='' then headers
                   else AList.update ''Remote-Party-ID'' (existing @ '';ani-ii='' @ digit) headers);
             headers = AList.update ''X-ANI-II'' digit headers
         in if map_of headers ''P-Asserted-Identity'' = None
            then AList.update ''P-Asserted-Identity'' (''<sip:calling@carrier.com>;ani-ii='' @ digit) headers
            else headers)"

text \<open>The headers in the order of the iteration over the hash map.\<close>

definition create_b_leg_invite_with_ani_ii ::
    "string \<Rightarrow> string \<Rightarrow> c4_call_session \<Rightarrow> string \<Rightarrow> ani_ii_info option \<Rightarrow> string" where
  "create_b_leg_invite_with_ani_ii bind_address uuid s target ani_ii =
    ''INVITE sip:'' @ cd_dnis (ses_cdr s) @ ''@'' @ target @ '' SIP/2.0'' @ crlf @
      header_lines (add_ani_ii_to_headers ani_ii
        [(''Via'', ''SIP/2.0/UDP '' @ bind_address @ '';branch=z9hG4bK'' @ uuid),
         (''From'', ''<sip:'' @ cd_ani (ses_cdr s) @ ''@'' @ bind_address @ ''>;tag='' @ lg_from_tag (ses_a_leg s)),
         (''To'', ''<sip:'' @ cd_dnis (ses_cdr s) @ ''@'' @ target @ ''>''),
         (''Call-ID'', lg_call_id (ses_a_leg s)), (''CSeq'', ''1 INVITE'')]) @
      ''Content-Length: 0'' @ crlf @ crlf"

section \<open>Facts\<close>

text \<open>The codecs of a first leg always contain PCMU, and so do those read from an answer: negotiation
  settles on PCMU without transcoding whatever the peers offered.\<close>

lemma negotiation_settles_on_PCMU:
  assumes "cn_a_leg_codecs (ses_codec_negotiation s) = extract_codecs m0"
  shows "negotiate_codecs tr t m s =
    (True, s\<lparr>ses_codec_negotiation := (ses_codec_negotiation s)\<lparr>cn_b_leg_codecs := extract_codecs_from_sdp m,
       cn_negotiated_codec := Some ''PCMU'', cn_transcoding_required := False\<rparr>\<rparr>)"
  using assms by (simp add: negotiate_codecs_def translator_negotiate_def extract_codecs_def extract_codecs_from_sdp_def)

end
