(* ===== verification/Class4B2bua.thy ===== *)
theory Class4B2bua
  imports Class4Messages OriginationRouting RouteAdvancement
begin

text \<open>
  The class 4 B2BUA (\<open>Class4B2BUA\<close> of \<open>src/class4_b2bua.rs\<close>): the handling of SIP
  messages over the session manager and the three routing engines. A step handles one message as a
  whole, the way the receiving task does; the clock is read once for it. What is sent and the
  records that are written are lists in the state. A handler may fail (the operator \<open>?\<close>), which
  the receiving loop logs, or panic, which ends the loop.
\<close>

section \<open>State and environment\<close>

record class4_config =
  kc_bind_address :: string
  kc_bind_port :: u16
  kc_max_concurrent_calls :: u32
  kc_call_timeout_seconds :: nat
  kc_session_cleanup_interval_seconds :: nat
  kc_enable_cdr_generation :: bool
  kc_enable_codec_translation :: bool
  kc_enable_call_recording_headers :: bool
  kc_max_route_attempts :: u32
  kc_rtp_proxy_host :: "string option"
  kc_rtp_proxy_port :: "u16 option"

definition default_class4_config :: class4_config where
  "default_class4_config = \<lparr>kc_bind_address = ''0.0.0.0'', kc_bind_port = 5060, kc_max_concurrent_calls = 10000,
     kc_call_timeout_seconds = 1800, kc_session_cleanup_interval_seconds = 60, kc_enable_cdr_generation = True,
     kc_enable_codec_translation = True, kc_enable_call_recording_headers = False, kc_max_route_attempts = 3,
     kc_rtp_proxy_host = None, kc_rtp_proxy_port = None\<rparr>"

record class4_b2bua =
  bb_config :: class4_config
  bb_local_addr :: socket_addr
  bb_sessions :: session_manager
  bb_origination :: origination_engine
  bb_termination :: termination_service
  bb_advancement :: "route_request advancement_engine"
  bb_translator :: codec_translator
  bb_trunk_configs :: "trunk_rate_config list"
  bb_registry :: customer_registry
  bb_cdrs :: "call_detail_record list"
  bb_sent :: "(socket_addr \<times> string) list"
  bb_next_uuid :: nat

text \<open>The LCR engine, the clock, the parsers of addresses, whether the socket can send to an address,
  and the identifiers that \<open>Uuid::new_v4\<close> delivers.\<close>

record b2bua_env =
  be_find_routes :: "route_request \<Rightarrow> string + lcr_response"
  be_now :: int
  be_parse_ip :: "string \<Rightarrow> string option"
  be_parse_addr :: "string \<Rightarrow> socket_addr option"
  be_can_send :: "socket_addr \<Rightarrow> bool"
  be_uuid :: "nat \<Rightarrow> string"

datatype b2bua_error = MessageNotSent socket_addr | MissingHeader string | TrunkNotFound u32 | TagNotFound
  | BadAddress string | AdvancementFailed advancement_error | NoBLeg | NoStatusCode

datatype 'a outcome_of = Done 'a | Failed b2bua_error | Panicked

type_synonym 'a act = "class4_b2bua \<Rightarrow> 'a outcome_of \<times> class4_b2bua"

definition act_return :: "'a \<Rightarrow> 'a act" where
  "act_return x b = (Done x, b)"

definition act_fail :: "b2bua_error \<Rightarrow> 'a act" where
  "act_fail e b = (Failed e, b)"

definition act_panic :: "'a act" where
  "act_panic b = (Panicked, b)"

definition act_bind :: "'a act \<Rightarrow> ('a \<Rightarrow> 'b act) \<Rightarrow> 'b act" where
  "act_bind f g b =
    (case f b of (Done x, b') \<Rightarrow> g x b' | (Failed e, b') \<Rightarrow> (Failed e, b') | (Panicked, b') \<Rightarrow> (Panicked, b'))"

definition act_modify :: "(class4_b2bua \<Rightarrow> class4_b2bua) \<Rightarrow> unit act" where
  "act_modify f b = (Done (), f b)"

definition act_get :: "(class4_b2bua \<Rightarrow> 'a) \<Rightarrow> 'a act" where
  "act_get f b = (Done (f b), b)"

definition act_some :: "b2bua_error \<Rightarrow> 'a option \<Rightarrow> 'a act" where
  "act_some e x = (case x of Some y \<Rightarrow> act_return y | None \<Rightarrow> act_fail e)"

definition act_seq :: "unit act \<Rightarrow> 'a act \<Rightarrow> 'a act" where
  "act_seq f g = act_bind f (\<lambda>_. g)"

definition with_sessions :: "(session_manager \<Rightarrow> session_manager) \<Rightarrow> unit act" where
  "with_sessions f = act_modify (\<lambda>b. b\<lparr>bb_sessions := f (bb_sessions b)\<rparr>)"

section \<open>Sending\<close>

definition send_sip_message :: "b2bua_env \<Rightarrow> socket_addr \<Rightarrow> string \<Rightarrow> unit act" where
  "send_sip_message env addr message =
    (if be_can_send env addr then act_modify (\<lambda>b. b\<lparr>bb_sent := bb_sent b @ [(addr, message)]\<rparr>)
     else act_fail (MessageNotSent addr))"

definition send_sip_response :: "b2bua_env \<Rightarrow> socket_addr \<Rightarrow> string \<Rightarrow> u16 \<Rightarrow> string \<Rightarrow> string \<Rightarrow> unit act" where
  "send_sip_response env addr call_id code reason body =
    send_sip_message env addr (sip_response_text call_id code reason body)"

definition generate_cdr :: "call_detail_record \<Rightarrow> unit act" where
  "generate_cdr cdr =
    act_modify (\<lambda>b. if kc_enable_cdr_generation (bb_config b) then b\<lparr>bb_cdrs := bb_cdrs b @ [cdr]\<rparr> else b)"

section \<open>The end of a session\<close>

definition find_trunk_by_id :: "class4_b2bua \<Rightarrow> u32 \<Rightarrow> trunk_rate_config option" where
  "find_trunk_by_id b trunk_id = List.find (\<lambda>t. tg_trunk_id t = trunk_id) (bb_trunk_configs b)"

definition find_trunk_by_ip :: "class4_b2bua \<Rightarrow> string \<Rightarrow> trunk_rate_config option" where
  "find_trunk_by_ip b ip = List.find (\<lambda>t. ip \<in> set (tg_ip_addresses t)) (bb_trunk_configs b)"

definition ended_cdr :: "int \<Rightarrow> u16 \<Rightarrow> string \<Rightarrow> call_detail_record \<Rightarrow> call_detail_record" where
  "ended_cdr now cause_code reason c =
    (let c = c\<lparr>cd_end_time := Some now, cd_termination_cause := Some cause_code,
               cd_termination_reason := Some reason\<rparr>
     in case cd_answer_time c of
          Some answer_time \<Rightarrow> c\<lparr>cd_duration_seconds := Some (nat (max (now - answer_time) 0 div 1000))\<rparr>
        | None \<Rightarrow> c)"

text \<open>The record of a session at its end; the stored session is not changed.\<close>

definition final_cdr :: "class4_b2bua \<Rightarrow> int \<Rightarrow> u16 \<Rightarrow> string \<Rightarrow> c4_call_session \<Rightarrow> call_detail_record" where
  "final_cdr b now cause_code reason s =
    (let c = ended_cdr now cause_code reason (ses_cdr s);
         egress_trunk = Option.bind (cd_egress_trunk_id c) (find_trunk_by_id b);
         c = (case find_trunk_by_id b (cd_ingress_trunk_id c) of
             Some ingress_trunk \<Rightarrow> final_costs ingress_trunk egress_trunk c | None \<Rightarrow> c)
     in case ses_current_route s of
          Some route \<Rightarrow> apply_lcr_route_costs route (ses_jurisdiction s) (ses_lrn s) c
        | None \<Rightarrow> c)"

definition terminate_session :: "b2bua_env \<Rightarrow> string \<Rightarrow> u16 \<Rightarrow> string \<Rightarrow> unit act" where
  "terminate_session env session_id cause_code reason =
    act_bind (act_get (\<lambda>b. get_session (bb_sessions b) session_id)) (\<lambda>found.
      (case found of
         None \<Rightarrow> act_return ()
       | Some s \<Rightarrow>
           act_bind (act_get (\<lambda>b. final_cdr b (be_now env) cause_code reason s)) (\<lambda>cdr.
           act_seq (generate_cdr cdr) (with_sessions (remove_session session_id)))))"

section \<open>Termination\<close>

text \<open>Building the second leg fails when the trunk's host is no IP address.\<close>

definition attempt_termination :: "b2bua_env \<Rightarrow> c4_call_session \<Rightarrow> call_route \<Rightarrow> unit act" where
  "attempt_termination env s route =
    (let trunk = rt_trunk route; b_id = b_leg_id (ses_session_id s) in
     act_bind (act_get bb_local_addr) (\<lambda>local.
     act_bind (act_some (BadAddress (et_host trunk)) (be_parse_ip env (et_host trunk))) (\<lambda>ip.
       let target = (ip, et_port trunk);
           b_leg = \<lparr>lg_call_id = b_id, lg_from_tag = ses_session_id s @ ''-tag'', lg_to_tag = None,
             lg_local_addr = local, lg_remote_addr = target, lg_state = LS_Initial, lg_sip_headers = [],
             lg_supported_codecs = [], lg_selected_codec = None, lg_last_cseq = 1\<rparr>;
           s = s\<lparr>ses_b_leg := Some b_leg, ses_state := SS_Terminating, ses_route_attempts := ses_route_attempts s + 1,
             ses_cdr := (ses_cdr s)\<lparr>cd_b_leg_call_id := Some b_id, cd_egress_ip := Some ip,
               cd_egress_trunk_id := Some (word_of_int (et_id trunk)), cd_egress_trunk_name := Some (et_name trunk)\<rparr>\<rparr>
       in act_seq (with_sessions (update_session s))
         (act_seq (with_sessions (map_b_leg b_id (ses_session_id s)))
           (send_sip_message env target (create_b_leg_invite s route))))))"

definition route_request_of :: "int \<Rightarrow> c4_call_session \<Rightarrow> route_request" where
  "route_request_of now s = \<lparr>rq_ani = cd_ani (ses_cdr s), rq_dnis = cd_dnis (ses_cdr s), rq_ingress_trunk_id = 1,
     rq_client_deck_id = None, rq_route_type = Route_OTHER, rq_require_profit_protection = False,
     rq_min_profit_margin = None, rq_effective_time = Some now, rq_phone_validation = None,
     rq_routing_plan_id = None\<rparr>"

definition termination_request_of ::
    "int \<Rightarrow> u32 \<Rightarrow> c4_call_session \<Rightarrow> route_request termination_request" where
  "termination_request_of now max_attempts s = \<lparr>tq_call_id = ses_session_id s, tq_ani = cd_ani (ses_cdr s),
     tq_dnis = cd_dnis (ses_cdr s), tq_route_request = route_request_of now s, tq_attempt_number = 1,
     tq_previous_responses = [], tq_max_attempts = max_attempts, tq_timestamp = nat now\<rparr>"

definition call_termination_service ::
    "b2bua_env \<Rightarrow> c4_call_session \<Rightarrow> termination_response act" where
  "call_termination_service env s b =
    (let (resp, sv) = route_termination (be_find_routes env)
           (termination_request_of (be_now env) (kc_max_route_attempts (bb_config b)) s) (bb_termination b)
     in (Done resp, b\<lparr>bb_termination := sv\<rparr>))"

text \<open>The chosen route is stored before the attempt.\<close>

definition take_route :: "b2bua_env \<Rightarrow> c4_call_session \<Rightarrow> termination_response \<Rightarrow> call_route \<Rightarrow> unit act" where
  "take_route env s resp route =
    (let s = s\<lparr>ses_current_route := Some route, ses_lrn := tr_lrn resp,
               ses_jurisdiction := Some (tr_jurisdiction resp), ses_state := SS_Terminating\<rparr>
     in act_seq (with_sessions (update_session s)) (attempt_termination env s route))"

definition route_session :: "b2bua_env \<Rightarrow> c4_call_session \<Rightarrow> unit act" where
  "route_session env s =
    (if cn_a_leg_codecs (ses_codec_negotiation s) = []
     then terminate_session env (ses_session_id s) 488 ''No acceptable codec''
     else act_bind (call_termination_service env s) (\<lambda>resp.
       if \<not> tr_success resp then terminate_session env (ses_session_id s) 503 ''Service Unavailable''
       else case tr_selected_route resp of
         None \<Rightarrow> act_return ()
       | Some route \<Rightarrow> take_route env s resp route))"

definition begin_termination_routing :: "b2bua_env \<Rightarrow> c4_call_session \<Rightarrow> unit act" where
  "begin_termination_routing env s =
    (let s = s\<lparr>ses_state := SS_Routing\<rparr> in act_seq (with_sessions (update_session s)) (route_session env s))"

section \<open>Traffic\<close>

datatype traffic_type =
  Origination (tt_dnis: string) (tt_calling: string) (tt_carrier_ip: string) (tt_trunk: u32)
| Termination (tt_ani: string) (tt_destination: string) (tt_customer_ip: string) (tt_customer_trunk: u32)

definition matches_number_pattern :: "string \<Rightarrow> string \<Rightarrow> bool" where
  "matches_number_pattern number pattern \<longleftrightarrow>
    (if CHR ''*'' \<in> set pattern then starts_with number (trim_end_char CHR ''*'' pattern) else number = pattern)"

definition is_our_customer_dnis :: "string \<Rightarrow> trunk_rate_config \<Rightarrow> bool" where
  "is_our_customer_dnis dnis t \<longleftrightarrow> list_ex (matches_number_pattern dnis) (tg_our_number_blocks t)"

definition determine_traffic_type :: "class4_b2bua \<Rightarrow> c4_sip_message \<Rightarrow> string \<Rightarrow> traffic_type option" where
  "determine_traffic_type b m source_ip =
    (case (c4_called_number m, c4_calling_number m, find_trunk_by_ip b source_ip) of
       (Some called, Some calling, Some t) \<Rightarrow>
         Some (if is_our_customer_dnis called t then Origination called calling source_ip (tg_trunk_id t)
               else Termination calling called source_ip (tg_trunk_id t))
     | _ \<Rightarrow> None)"

text \<open>The line information of a message, first from the standard headers, then from the legacy ones. The
  outer \<open>None\<close> is a panic.\<close>

definition parse_ani_ii_from_sip_message :: "c4_sip_message \<Rightarrow> string \<Rightarrow> rfc_info option option" where
  "parse_ani_ii_from_sip_message m body =
    map_option (\<lambda>oli.
      case Option.bind oli from_oli_info of
        Some i \<Rightarrow> Some i
      | None \<Rightarrow>
          (case parse_ani_ii_extended (sg_headers m) of
             Some legacy \<Rightarrow> (case from_legacy legacy of Inr i \<Rightarrow> Some i | Inl _ \<Rightarrow> None)
           | None \<Rightarrow> None))
      (extract_oli_info (sg_headers m) (Some body))"

definition b2bua_payphone_surcharge :: "class4_b2bua \<Rightarrow> ani_ii_info option \<Rightarrow> bool \<Rightarrow> u32 option \<Rightarrow> surcharge_result" where
  "b2bua_payphone_surcharge b ani_ii toll_free trunk_id =
    calculate_payphone_surcharge ani_ii toll_free
      (map_option (\<lambda>t. \<lparr>sf_enabled = tg_payphone_surcharges_enabled t,
          sf_code_23_amount = tg_payphone_surcharge_23 t, sf_code_27_amount = tg_payphone_surcharge_27 t,
          sf_code_70_amount = tg_payphone_surcharge_70 t, sf_bill_to_customer = True\<rparr>)
        (Option.bind trunk_id (find_trunk_by_id b)))"

definition update_cdr_with_ani_ii ::
    "ani_ii_info option \<Rightarrow> surcharge_result \<Rightarrow> call_detail_record \<Rightarrow> call_detail_record" where
  "update_cdr_with_ani_ii ani_ii r c =
    (let c = (case ani_ii of
           Some i \<Rightarrow> c\<lparr>cd_ani_ii_ingress := Some (ai_raw_digit i), cd_ani_ii_source := Some (source_text (ai_source i))\<rparr>
         | None \<Rightarrow> c)
     in if sc_applies r
        then c\<lparr>cd_payphone_surcharge_amount := Some (sc_amount r), cd_payphone_surcharge_reason := Some (sc_reason r)\<rparr>
        else c)"

definition check_trunk_ani_ii_blocking :: "class4_b2bua \<Rightarrow> u32 \<Rightarrow> u8 \<Rightarrow> blocking_result" where
  "check_trunk_ani_ii_blocking b trunk_id code =
    (case Option.bind (find_trunk_by_id b trunk_id) tg_ani_ii_blocking of
       Some config \<Rightarrow> check_ani_ii_blocking config code
     | None \<Rightarrow> \<lparr>bk_blocked = False, bk_reason = ''No blocking configuration'', bk_response_code = None\<rparr>)"

definition check_did_ani_ii_blocking :: "customer_info \<Rightarrow> string \<Rightarrow> u8 \<Rightarrow> blocking_result" where
  "check_did_ani_ii_blocking c did code =
    (case List.find (\<lambda>d. db_did_number d = did) (ci_did_ani_ii_blocks c) of
       Some d \<Rightarrow> check_ani_ii_blocking (db_blocking_config d) code
     | None \<Rightarrow> \<lparr>bk_blocked = False, bk_reason = ''No DID-specific blocking configuration'', bk_response_code = None\<rparr>)"

section \<open>New sessions\<close>

definition fresh_uuid :: "b2bua_env \<Rightarrow> string act" where
  "fresh_uuid env b = (Done (be_uuid env (bb_next_uuid b)), b\<lparr>bb_next_uuid := bb_next_uuid b + 1\<rparr>)"

definition blank_cdr :: "string \<Rightarrow> string \<Rightarrow> string \<Rightarrow> string \<Rightarrow> int \<Rightarrow> call_detail_record" where
  "blank_cdr session_id call_id ani dnis now = \<lparr>
     cd_session_id = session_id, cd_a_leg_call_id = call_id, cd_b_leg_call_id = None, cd_ani = ani, cd_dnis = dnis,
     cd_start_time = now, cd_answer_time = None, cd_end_time = None, cd_duration_seconds = None,
     cd_ingress_trunk_id = 0, cd_ingress_trunk_name = ''Unknown'', cd_ingress_ip = ''0.0.0.0'',
     cd_ingress_rate_per_minute = 0, cd_ingress_cost = 0, cd_ingress_revenue = None,
     cd_egress_trunk_id = None, cd_egress_trunk_name = None, cd_egress_ip = None,
     cd_egress_rate_per_minute = 0, cd_egress_cost = 0, cd_egress_revenue = None,
     cd_total_cost = 0, cd_total_revenue = 0, cd_net_margin = 0, cd_profit_margin_percent = 0,
     cd_codec_negotiated = None, cd_transcoding_used = False, cd_termination_cause = None,
     cd_termination_reason = None, cd_route_attempts = 0, cd_final_route = None,
     cd_ani_ii_ingress = None, cd_ani_ii_egress = None, cd_ani_ii_source = None,
     cd_is_toll_free = is_toll_free dnis, cd_payphone_surcharge_amount = None, cd_payphone_surcharge_reason = None,
     cd_lrn = None, cd_jurisdiction = None, cd_client_rate = None, cd_client_billed_seconds = None,
     cd_client_cost = None, cd_client_rate_deck_version = None, cd_vendor_rate = None,
     cd_vendor_billed_seconds = None, cd_vendor_cost = None, cd_vendor_rate_deck_version = None\<rparr>"

definition create_blocked_call_cdr ::
    "int \<Rightarrow> string \<Rightarrow> string \<Rightarrow> string \<Rightarrow> string \<Rightarrow> u32 \<Rightarrow> u8 option \<Rightarrow> string \<Rightarrow> call_detail_record" where
  "create_blocked_call_cdr now uuid1 uuid2 calling called trunk_id code reason =
    (blank_cdr (''BLOCKED-'' @ uuid1) (''blocked-'' @ uuid2) calling called now)\<lparr>
      cd_end_time := Some now, cd_duration_seconds := Some 0, cd_ingress_trunk_id := trunk_id,
      cd_ingress_trunk_name := ''BLOCKED'', cd_termination_cause := Some 403,
      cd_termination_reason := Some (''ANI-II Blocking: '' @ reason), cd_ani_ii_ingress := code,
      cd_ani_ii_source := Some ''BLOCKED'', cd_payphone_surcharge_reason := Some (''BLOCKED: '' @ reason)\<rparr>"

text \<open>What the two kinds of session share.\<close>

definition new_session :: "b2bua_env \<Rightarrow> c4_sip_message \<Rightarrow> socket_addr \<Rightarrow> socket_addr \<Rightarrow> string \<Rightarrow> string \<Rightarrow> string \<Rightarrow>
    call_detail_record \<Rightarrow> c4_call_session" where
  "new_session env m addr local session_id call_id from_tag cdr = \<lparr>ses_session_id = session_id,
     ses_a_leg = \<lparr>lg_call_id = call_id, lg_from_tag = from_tag, lg_to_tag = None, lg_local_addr = local,
       lg_remote_addr = addr, lg_state = LS_Invited, lg_sip_headers = sg_headers m,
       lg_supported_codecs = extract_codecs m, lg_selected_codec = None, lg_last_cseq = 1\<rparr>,
     ses_b_leg = None, ses_state = SS_Originating, ses_created_at = be_now env, ses_last_activity = be_now env,
     ses_route_attempts = 0, ses_current_route = None, ses_lrn = None, ses_jurisdiction = None,
     ses_codec_negotiation = \<lparr>cn_a_leg_codecs = extract_codecs m, cn_b_leg_codecs = [],
       cn_negotiated_codec = None, cn_transcoding_required = False, cn_transcoding_profile = None\<rparr>,
     ses_cdr = cdr\<rparr>"

definition create_session ::
    "b2bua_env \<Rightarrow> c4_sip_message \<Rightarrow> socket_addr \<Rightarrow> u32 \<Rightarrow>
     (string \<Rightarrow> string \<Rightarrow> trunk_rate_config \<Rightarrow> call_detail_record) \<Rightarrow> c4_call_session act" where
  "create_session env m addr trunk_id cdr =
    act_bind (fresh_uuid env) (\<lambda>session_id.
    act_bind (act_some (MissingHeader ''Call-ID'') (map_of (sg_headers m) ''Call-ID'')) (\<lambda>call_id.
    act_bind (act_some TagNotFound (c4_extract_tag (sg_headers m) ''From'')) (\<lambda>from_tag.
    act_bind (act_get (\<lambda>b. find_trunk_by_id b trunk_id)) (\<lambda>found.
    act_bind (act_some (TrunkNotFound trunk_id) found) (\<lambda>t.
    act_bind (act_get bb_local_addr) (\<lambda>local.
      act_return (new_session env m addr local session_id call_id from_tag (cdr session_id call_id t))))))))"

definition create_origination_session ::
    "b2bua_env \<Rightarrow> c4_sip_message \<Rightarrow> socket_addr \<Rightarrow> string \<Rightarrow> string \<Rightarrow> u32 \<Rightarrow> customer_info \<Rightarrow> c4_call_session act" where
  "create_origination_session env m addr calling dnis trunk_id c =
    create_session env m addr trunk_id (\<lambda>session_id call_id t.
      (blank_cdr session_id call_id calling dnis (be_now env))\<lparr>
        cd_ingress_trunk_id := trunk_id, cd_ingress_trunk_name := tg_trunk_name t, cd_ingress_ip := fst addr,
        cd_ingress_rate_per_minute := tg_default_rate_per_minute t,
        cd_ingress_revenue := (if tg_is_revenue_trunk t then Some 0 else None),
        cd_egress_trunk_name := Some (''Customer_'' @ ci_customer_id c),
        cd_egress_ip := Some (fst (ci_sip_endpoint c)), cd_egress_rate_per_minute := 1 / 10,
        cd_egress_revenue := Some 0, cd_final_route := Some (ci_customer_id c)\<rparr>)"

definition create_termination_session ::
    "b2bua_env \<Rightarrow> c4_sip_message \<Rightarrow> socket_addr \<Rightarrow> string \<Rightarrow> string \<Rightarrow> u32 \<Rightarrow> c4_call_session act" where
  "create_termination_session env m addr ani destination trunk_id =
    create_session env m addr trunk_id (\<lambda>session_id call_id t.
      (blank_cdr session_id call_id ani destination (be_now env))\<lparr>
        cd_ingress_trunk_id := trunk_id, cd_ingress_trunk_name := tg_trunk_name t, cd_ingress_ip := fst addr,
        cd_ingress_rate_per_minute := tg_default_rate_per_minute t, cd_ingress_revenue := Some 0\<rparr>)"

section \<open>INVITE\<close>

text \<open>The answer to a blocked call, with its record.\<close>

definition refuse_blocked ::
    "b2bua_env \<Rightarrow> socket_addr \<Rightarrow> string \<Rightarrow> string \<Rightarrow> string \<Rightarrow> u32 \<Rightarrow> rfc_info \<Rightarrow> blocking_result \<Rightarrow> unit act" where
  "refuse_blocked env addr call_id calling dnis trunk_id i r =
    act_bind (fresh_uuid env) (\<lambda>u1. act_bind (fresh_uuid env) (\<lambda>u2.
      act_seq (generate_cdr (create_blocked_call_cdr (be_now env) u1 u2 calling dnis trunk_id
          (Some (ri_raw_digit i)) (bk_reason r)))
        (send_sip_response env addr call_id (case bk_response_code r of Some n \<Rightarrow> n | None \<Rightarrow> 403) (bk_reason r) [])))"

definition with_ani_ii ::
    "rfc_info option \<Rightarrow> bool \<Rightarrow> bool \<times> rat \<times> string \<Rightarrow> call_detail_record \<Rightarrow> call_detail_record" where
  "with_ani_ii ani_ii toll_free surcharge c =
    (case ani_ii of
       None \<Rightarrow> c
     | Some i \<Rightarrow>
         let c = c\<lparr>cd_ani_ii_ingress := Some (ri_raw_digit i), cd_ani_ii_source := Some (ri_source i),
                   cd_is_toll_free := toll_free\<rparr>;
             (applies, amount, reason) = surcharge
         in if applies then c\<lparr>cd_payphone_surcharge_amount := Some amount,
                              cd_payphone_surcharge_reason := Some reason\<rparr> else c)"

definition deliver_to_customer :: "c4_call_session \<Rightarrow> unit act" where
  "deliver_to_customer s = act_return ()"

text \<open>What follows the trunk's policy: the customer of the number, the policy of the number, the
  session.\<close>

definition originate_to_customer ::
    "b2bua_env \<Rightarrow> c4_sip_message \<Rightarrow> socket_addr \<Rightarrow> string \<Rightarrow> string \<Rightarrow> string \<Rightarrow> u32 \<Rightarrow> rfc_info option \<Rightarrow> unit act" where
  "originate_to_customer env m addr call_id dnis calling trunk_id ani_ii =
    act_bind (act_get (\<lambda>b. find_customer_for_did (be_parse_addr env) (bb_registry b) dnis)) (\<lambda>found.
      case found of
        None \<Rightarrow> send_sip_response env addr call_id 404 ''Number Not Found'' []
      | Some c \<Rightarrow>
          let toll_free = rfc_is_toll_free dnis;
              blocked = (case ani_ii of
                  Some i \<Rightarrow>
                    let r = check_did_ani_ii_blocking c dnis (ri_raw_digit i)
                    in if toll_free \<and> bk_blocked r then Some (i, r) else None
                | None \<Rightarrow> None)
          in case blocked of
               Some (i, r) \<Rightarrow> refuse_blocked env addr call_id calling dnis trunk_id i r
             | None \<Rightarrow>
                 act_bind (create_origination_session env m addr calling dnis trunk_id c) (\<lambda>s.
                   let s = s\<lparr>ses_cdr := with_ani_ii ani_ii toll_free (rfc_surcharge ani_ii toll_free None) (ses_cdr s)\<rparr>
                   in act_seq (with_sessions (add_session s)) (deliver_to_customer s)))"

definition process_origination_traffic ::
    "b2bua_env \<Rightarrow> c4_sip_message \<Rightarrow> socket_addr \<Rightarrow> string \<Rightarrow> string \<Rightarrow> string \<Rightarrow> u32 \<Rightarrow> unit act" where
  "process_origination_traffic env m addr call_id dnis calling trunk_id =
    (case parse_from_sip_message (sg_headers m) None of
       None \<Rightarrow> act_panic
     | Some ani_ii \<Rightarrow>
         act_bind (act_get (\<lambda>b. case ani_ii of
             Some i \<Rightarrow>
               let r = check_trunk_ani_ii_blocking b trunk_id (ri_raw_digit i)
               in if rfc_is_toll_free dnis \<and> bk_blocked r then Some (i, r) else None
           | None \<Rightarrow> None)) (\<lambda>blocked.
           case blocked of
             Some (i, r) \<Rightarrow> refuse_blocked env addr call_id calling dnis trunk_id i r
           | None \<Rightarrow> originate_to_customer env m addr call_id dnis calling trunk_id ani_ii))"

definition origination_request_of :: "socket_addr \<Rightarrow> string \<Rightarrow> string \<Rightarrow> u32 \<Rightarrow> origination_request" where
  "origination_request_of addr ani destination trunk_id = \<lparr>oq_ani = ani, oq_dnis = destination,
     oq_source_ip = fst addr, oq_ingress_trunk_id = sint trunk_id, oq_customer_id = None,
     oq_route_type = Route_NANPA\<rparr>"

definition call_origination_engine :: "origination_request \<Rightarrow> origination_response act" where
  "call_origination_engine q b =
    (let (resp, e) = route_origination q (bb_origination b) in (Done resp, b\<lparr>bb_origination := e\<rparr>))"

text \<open>The line information of a call to a carrier is only logged, but reading it may panic.\<close>

definition process_termination_traffic ::
    "b2bua_env \<Rightarrow> c4_sip_message \<Rightarrow> socket_addr \<Rightarrow> string \<Rightarrow> string \<Rightarrow> string \<Rightarrow> u32 \<Rightarrow> unit act" where
  "process_termination_traffic env m addr call_id ani destination trunk_id =
    (case parse_ani_ii_from_sip_message m [] of
       None \<Rightarrow> act_panic
     | Some ani_ii \<Rightarrow>
         act_bind (call_origination_engine (origination_request_of addr ani destination trunk_id)) (\<lambda>resp.
           if \<not> og_allowed resp then send_sip_response env addr call_id 403 ''Forbidden'' (og_reason resp)
           else act_bind (create_termination_session env m addr ani destination trunk_id) (\<lambda>s.
             act_seq (with_sessions (add_session s)) (begin_termination_routing env s))))"

definition request_line_of :: "c4_sip_message \<Rightarrow> string" where
  "request_line_of m =
    ''INVITE '' @ (case map_of (sg_headers m) ''Request-URI'' of Some u \<Rightarrow> u | None \<Rightarrow> ''sip:unknown@unknown.com'') @
    '' SIP/2.0''"

definition process_traffic :: "b2bua_env \<Rightarrow> c4_sip_message \<Rightarrow> socket_addr \<Rightarrow> string \<Rightarrow> traffic_type \<Rightarrow> unit act" where
  "process_traffic env m addr call_id traffic =
    act_seq (send_sip_response env addr call_id 100 ''Trying'' [])
      (case traffic of
         Origination dnis calling ip trunk_id \<Rightarrow>
           process_origination_traffic env m addr call_id dnis calling trunk_id
       | Termination ani destination ip trunk_id \<Rightarrow>
           process_termination_traffic env m addr call_id ani destination trunk_id)"

definition handle_invite :: "b2bua_env \<Rightarrow> c4_sip_message \<Rightarrow> socket_addr \<Rightarrow> unit act" where
  "handle_invite env m addr =
    (case rfc3261_validate (sg_headers m) (request_line_of m) of
       None \<Rightarrow> act_panic
     | Some (Inl e) \<Rightarrow>
         send_sip_response env addr
           (case map_of (sg_headers m) ''Call-ID'' of Some i \<Rightarrow> i | None \<Rightarrow> ''invalid-call-id'') 400 ''Bad Request'' []
     | Some (Inr _) \<Rightarrow>
         act_bind (act_some (MissingHeader ''Call-ID'') (map_of (sg_headers m) ''Call-ID'')) (\<lambda>call_id.
         act_bind (act_get (\<lambda>b. (session_exists (bb_sessions b) call_id, determine_traffic_type b m (fst addr)))) (\<lambda>(known, traffic).
           if known then act_return ()
           else case traffic of
             None \<Rightarrow> send_sip_response env addr call_id 500 ''Internal Server Error'' []
           | Some traffic \<Rightarrow> process_traffic env m addr call_id traffic)))"

section \<open>Responses\<close>

definition handle_provisional_response :: "b2bua_env \<Rightarrow> c4_call_session \<Rightarrow> u16 \<Rightarrow> unit act" where
  "handle_provisional_response env s code =
    send_sip_response env (lg_remote_addr (ses_a_leg s)) (lg_call_id (ses_a_leg s)) code ''Progress'' []"

definition advance_route ::
    "b2bua_env \<Rightarrow> string \<Rightarrow> u16 \<Rightarrow> string \<Rightarrow> advancement_result act" where
  "advance_route env session_id code reason b =
    (let (r, e, sv) = engine_handle_sip_response (be_find_routes env) (nat (be_now env)) session_id code reason
           (bb_advancement b) (bb_termination b);
         b = b\<lparr>bb_advancement := e, bb_termination := sv\<rparr>
     in case r of Inl err \<Rightarrow> (Failed (AdvancementFailed err), b) | Inr x \<Rightarrow> (Done x, b))"

text \<open>A failure is logged and forgotten.\<close>

definition act_try :: "unit act \<Rightarrow> unit act" where
  "act_try f b = (case f b of (Failed e, b') \<Rightarrow> (Done (), b') | r \<Rightarrow> r)"

definition drop_b_leg :: "b2bua_env \<Rightarrow> c4_call_session \<Rightarrow> unit act" where
  "drop_b_leg env s =
    (case ses_b_leg s of
       None \<Rightarrow> act_return ()
     | Some b_leg \<Rightarrow>
         act_bind (act_get (\<lambda>b. create_bye_message (bb_local_addr b) s True)) (\<lambda>bye.
         act_bind (act_some NoBLeg bye) (\<lambda>text.
           act_seq (act_try (send_sip_message env (lg_remote_addr b_leg) text))
             (with_sessions (unmap_leg (lg_call_id b_leg))))))"

definition handle_success_response :: "b2bua_env \<Rightarrow> c4_call_session \<Rightarrow> u16 \<Rightarrow> c4_sip_message \<Rightarrow> unit act" where
  "handle_success_response env s code m =
    (if code \<noteq> 200 then act_return ()
     else
       let s = s\<lparr>ses_state := SS_Connected, ses_cdr := (ses_cdr s)\<lparr>cd_answer_time := Some (be_now env)\<rparr>\<rparr> in
       act_bind (act_get (\<lambda>b. negotiate_codecs (kc_enable_codec_translation (bb_config b)) (bb_translator b) m s)) (\<lambda>(ok, s).
         if ok then
           let s = s\<lparr>ses_cdr := (ses_cdr s)\<lparr>cd_codec_negotiated := cn_negotiated_codec (ses_codec_negotiation s),
                 cd_transcoding_used := cn_transcoding_required (ses_codec_negotiation s)\<rparr>\<rparr>
           in act_seq (with_sessions (update_session s))
                (send_sip_message env (lg_remote_addr (ses_a_leg s)) (create_forwarded_response s code ''OK'' m))
         else act_seq (drop_b_leg env s)
           (act_bind (advance_route env (ses_session_id s) 488 ''No compatible codec'') (\<lambda>r.
             case (ar_action r, ar_new_route r) of
               (RouteToNext, Some route) \<Rightarrow>
                 attempt_termination env (s\<lparr>ses_b_leg := None, ses_cdr := (ses_cdr s)\<lparr>cd_b_leg_call_id := None\<rparr>,
                   ses_state := SS_Routing\<rparr>) route
             | _ \<Rightarrow> terminate_session env (ses_session_id s) 488 ''No compatible codec on B leg''))))"

definition handle_error_response :: "b2bua_env \<Rightarrow> c4_call_session \<Rightarrow> u16 \<Rightarrow> c4_sip_message \<Rightarrow> unit act" where
  "handle_error_response env s code m =
    (let reason = (case sg_reason_phrase m of Some r \<Rightarrow> r | None \<Rightarrow> ''Error'') in
     act_bind (advance_route env (ses_session_id s) code reason) (\<lambda>r.
       case (ar_action r, ar_new_route r) of
         (RouteToNext, Some route) \<Rightarrow> attempt_termination env s route
       | _ \<Rightarrow> terminate_session env (ses_session_id s) code reason))"

definition handle_sip_response :: "b2bua_env \<Rightarrow> c4_sip_message \<Rightarrow> unit act" where
  "handle_sip_response env m =
    act_bind (act_some (MissingHeader ''Call-ID'') (map_of (sg_headers m) ''Call-ID'')) (\<lambda>call_id.
    act_bind (act_some NoStatusCode (sg_status_code m)) (\<lambda>code.
    act_bind (act_get (\<lambda>b. get_session_by_any_call_id (bb_sessions b) call_id)) (\<lambda>found.
      case found of
        None \<Rightarrow> act_return ()
      | Some s \<Rightarrow>
          if 100 \<le> code \<and> code \<le> 199 then handle_provisional_response env s code
          else if 200 \<le> code \<and> code \<le> 299 then handle_success_response env s code m
          else if 300 \<le> code \<and> code \<le> 699 then handle_error_response env s code m
          else act_return ())))"

section \<open>Other requests\<close>

text \<open>BYE and CANCEL differ in the cause only.\<close>

definition end_session_request :: "b2bua_env \<Rightarrow> c4_sip_message \<Rightarrow> socket_addr \<Rightarrow> u16 \<Rightarrow> string \<Rightarrow> unit act" where
  "end_session_request env m addr cause reason =
    act_bind (act_some (MissingHeader ''Call-ID'') (map_of (sg_headers m) ''Call-ID'')) (\<lambda>call_id.
    act_bind (act_get (\<lambda>b. get_session_by_any_call_id (bb_sessions b) call_id)) (\<lambda>found.
      case found of
        None \<Rightarrow> act_return ()
      | Some s \<Rightarrow> act_seq (terminate_session env (ses_session_id s) cause reason)
          (send_sip_response env addr call_id 200 ''OK'' [])))"

definition handle_bye :: "b2bua_env \<Rightarrow> c4_sip_message \<Rightarrow> socket_addr \<Rightarrow> unit act" where
  "handle_bye env m addr = end_session_request env m addr 200 ''Normal clearing''"

definition handle_cancel :: "b2bua_env \<Rightarrow> c4_sip_message \<Rightarrow> socket_addr \<Rightarrow> unit act" where
  "handle_cancel env m addr = end_session_request env m addr 487 ''Request Cancelled''"

text \<open>The ACK of one leg is sent on to the other.\<close>

definition forward_ack :: "b2bua_env \<Rightarrow> socket_addr \<Rightarrow> socket_addr \<Rightarrow> c4_call_session \<Rightarrow> unit act" where
  "forward_ack env addr local s =
    act_seq
     (if lg_remote_addr (ses_a_leg s) = addr then
        (case (ses_b_leg s, create_forwarded_ack local s True) of
           (Some b_leg, Some text) \<Rightarrow> send_sip_message env (lg_remote_addr b_leg) text
         | _ \<Rightarrow> act_return ())
      else act_bind (act_some NoBLeg (create_forwarded_ack local s False)) (\<lambda>text.
        send_sip_message env (lg_remote_addr (ses_a_leg s)) text))
     (if ses_state s = SS_Connecting
      then with_sessions (update_session (s\<lparr>ses_state := SS_Connected, ses_last_activity := be_now env\<rparr>))
      else act_return ())"

definition handle_ack :: "b2bua_env \<Rightarrow> c4_sip_message \<Rightarrow> socket_addr \<Rightarrow> unit act" where
  "handle_ack env m addr =
    act_bind (act_some (MissingHeader ''Call-ID'') (map_of (sg_headers m) ''Call-ID'')) (\<lambda>call_id.
    act_bind (act_get bb_local_addr) (\<lambda>local.
    act_bind (act_get (\<lambda>b. get_session_by_any_call_id (bb_sessions b) call_id)) (\<lambda>found.
      case found of None \<Rightarrow> act_return () | Some s \<Rightarrow> forward_ack env addr local s)))"

definition handle_options :: "b2bua_env \<Rightarrow> c4_sip_message \<Rightarrow> socket_addr \<Rightarrow> unit act" where
  "handle_options env m addr =
    act_bind (act_some (MissingHeader ''Call-ID'') (map_of (sg_headers m) ''Call-ID'')) (\<lambda>call_id.
      send_sip_message env addr (options_response m call_id))"

definition process_sip_message :: "b2bua_env \<Rightarrow> string \<Rightarrow> socket_addr \<Rightarrow> unit act" where
  "process_sip_message env message addr =
    (if length message < 10 then act_return ()
     else case parse_sip_message message of
       None \<Rightarrow> act_return ()
     | Some m \<Rightarrow>
         if \<not> validate_sip_message m then act_return ()
         else case sg_method m of
           None \<Rightarrow> handle_sip_response env m
         | Some meth \<Rightarrow>
             if meth = ''INVITE'' then handle_invite env m addr
             else if meth = ''ACK'' then handle_ack env m addr
             else if meth = ''BYE'' then handle_bye env m addr
             else if meth = ''CANCEL'' then handle_cancel env m addr
             else if meth = ''OPTIONS'' then handle_options env m addr
             else (case map_of (sg_headers m) ''Call-ID'' of
                 Some call_id \<Rightarrow> send_sip_response env addr call_id 405 ''Method Not Allowed'' []
               | None \<Rightarrow> act_return ()))"

section \<open>Life of the switch\<close>

definition new_b2bua ::
    "class4_config \<Rightarrow> origination_engine \<Rightarrow> termination_service \<Rightarrow> route_request advancement_engine \<Rightarrow>
     trunk_rate_config list \<Rightarrow> class4_b2bua" where
  "new_b2bua config oe ts ae trunks = \<lparr>bb_config = config,
     bb_local_addr = (kc_bind_address config, kc_bind_port config), bb_sessions = new_session_manager,
     bb_origination = oe, bb_termination = ts, bb_advancement = ae, bb_translator = new_codec_translator,
     bb_trunk_configs = trunks, bb_registry = new_customer_registry, bb_cdrs = [], bb_sent = [], bb_next_uuid = 0\<rparr>"

text \<open>One run of the cleanup task.\<close>

definition session_cleanup :: "int \<Rightarrow> class4_b2bua \<Rightarrow> class4_b2bua" where
  "session_cleanup now b =
    b\<lparr>bb_sessions := snd (cleanup_expired_sessions now (kc_call_timeout_seconds (bb_config b)) (bb_sessions b))\<rparr>"

end
