(* ===== verification/Class4Invariant.thy ===== *)
theory Class4Invariant
  imports Class4B2bua
begin

text \<open>
  Correctness of the class 4 B2BUA: a Hoare-style calculus for its handlers, the invariant that every
  handler keeps, and what follows for calls in progress.
\<close>

section \<open>Triples\<close>

text \<open>From every state that satisfies the precondition the handler ends in a state that satisfies the one
  postcondition with its result, or fails or panics in one that satisfies the other.\<close>

definition triple :: "(class4_b2bua \<Rightarrow> bool) \<Rightarrow> 'a act \<Rightarrow> ('a \<Rightarrow> class4_b2bua \<Rightarrow> bool) \<Rightarrow> (class4_b2bua \<Rightarrow> bool) \<Rightarrow> bool" where
  "triple P f Q E \<longleftrightarrow>
     (\<forall>b. P b \<longrightarrow> (case f b of (Done x, b') \<Rightarrow> Q x b' | (Failed e, b') \<Rightarrow> E b' | (Panicked, b') \<Rightarrow> E b'))"

named_theorems triples

lemma tripleD:
  assumes "triple P f Q E" and "P b" and "f b = (r, b')"
  shows "(\<exists>x. r = Done x \<and> Q x b') \<or> E b'"
proof -
  from assms(1) have "P b \<longrightarrow> (case f b of (Done x, b') \<Rightarrow> Q x b' | (Failed e, b') \<Rightarrow> E b' | (Panicked, b') \<Rightarrow> E b')"
    unfolding triple_def by (rule spec)
  with assms(2) show ?thesis unfolding assms(3) by (cases r) auto
qed

lemma tripleI:
  assumes "\<And>b r b'. P b \<Longrightarrow> f b = (r, b') \<Longrightarrow> (\<exists>x. r = Done x \<and> Q x b') \<or> (\<forall>x. r \<noteq> Done x) \<and> E b'"
  shows "triple P f Q E"
  unfolding triple_def
proof (intro allI impI)
  fix b assume "P b"
  obtain r b' where f: "f b = (r, b')" by (cases "f b")
  from assms [OF \<open>P b\<close> f] show "case f b of (Done x, b') \<Rightarrow> Q x b' | (Failed e, b') \<Rightarrow> E b' | (Panicked, b') \<Rightarrow> E b'"
    unfolding f by (cases r) auto
qed

lemma triple_pre: "triple P f Q E \<Longrightarrow> (\<And>b. P' b \<Longrightarrow> P b) \<Longrightarrow> triple P' f Q E"
  by (simp add: triple_def)

lemma triple_post:
  "triple P f Q E \<Longrightarrow> (\<And>x b. Q x b \<Longrightarrow> Q' x b) \<Longrightarrow> (\<And>b. E b \<Longrightarrow> E' b) \<Longrightarrow> triple P f Q' E'"
  by (fastforce simp: triple_def split: outcome_of.splits prod.splits)

lemma triple_return [triples]: "triple (Q x) (act_return x) Q E"
  by (simp add: triple_def act_return_def)

lemma triple_fail [triples]: "triple E (act_fail e) Q E"
  by (simp add: triple_def act_fail_def)

lemma triple_panic [triples]: "triple E act_panic Q E"
  by (simp add: triple_def act_panic_def)

lemma triple_modify [triples]: "triple (\<lambda>b. Q () (f b)) (act_modify f) Q E"
  by (simp add: triple_def act_modify_def)

lemma triple_get [triples]: "triple (\<lambda>b. Q (f b) b) (act_get f) Q E"
  by (simp add: triple_def act_get_def)

lemma triple_bind [triples]:
  "triple P f R E \<Longrightarrow> (\<And>x. triple (R x) (g x) Q E) \<Longrightarrow> triple P (act_bind f g) Q E"
  by (fastforce simp: triple_def act_bind_def split: outcome_of.splits prod.splits)

lemma triple_seq [triples]:
  "triple P f (\<lambda>_. R) E \<Longrightarrow> triple R g Q E \<Longrightarrow> triple P (act_seq f g) Q E"
  unfolding act_seq_def by (rule triple_bind)

lemma triple_if:
  "(c \<Longrightarrow> triple P f Q E) \<Longrightarrow> (\<not> c \<Longrightarrow> triple P g Q E) \<Longrightarrow> triple P (if c then f else g) Q E"
  by simp

lemma triple_pure: "(p \<Longrightarrow> triple P f Q E) \<Longrightarrow> triple (\<lambda>b. p \<and> P b) f Q E"
  by (simp add: triple_def)

lemma triple_some [triples]:
  "triple (\<lambda>b. case x of Some y \<Rightarrow> Q y b | None \<Rightarrow> E b) (act_some e x) Q E"
  by (cases x) (simp_all add: triple_def act_some_def act_fail_def act_return_def)

text \<open>A handler that keeps a property whatever its result.\<close>

abbreviation keeps :: "(class4_b2bua \<Rightarrow> bool) \<Rightarrow> 'a act \<Rightarrow> bool" where
  "keeps I f \<equiv> triple I f (\<lambda>_. I) I"

lemma keeps_bind: "keeps I f \<Longrightarrow> (\<And>x. keeps I (g x)) \<Longrightarrow> keeps I (act_bind f g)"
  by (rule triple_bind)

lemma keeps_seq: "keeps I f \<Longrightarrow> keeps I g \<Longrightarrow> keeps I (act_seq f g)"
  by (rule triple_seq)

lemma keeps_some [simp]: "keeps I (act_some e x)"
  by (cases x) (simp_all add: triple_def act_some_def act_fail_def act_return_def)

lemma keeps_basic [simp]:
  "keeps I (act_return x)" "keeps I (act_fail e)" "keeps I act_panic" "keeps I (act_get f)"
  by (simp_all add: triple_def act_return_def act_fail_def act_panic_def act_get_def)

lemma keeps_modify: "(\<And>b. I b \<Longrightarrow> I (f b)) \<Longrightarrow> keeps I (act_modify f)"
  by (simp add: triple_def act_modify_def)

lemma keeps_try:
  assumes "keeps I f"
  shows "keeps I (act_try f)"
proof (rule tripleI)
  fix b r b' assume "I b" and r: "act_try f b = (r, b')"
  obtain r0 b0 where f: "f b = (r0, b0)" by (cases "f b")
  from tripleD [OF assms \<open>I b\<close> f] have "I b0" by blast
  with r f show "(\<exists>x. r = Done x \<and> I b') \<or> (\<forall>x. r \<noteq> Done x) \<and> I b'"
    by (cases r0) (auto simp: act_try_def)
qed

text \<open>Handlers that change nothing.\<close>

lemma triple_get_any: "triple I (act_get f) (\<lambda>_. I) E"
  by (simp add: triple_def act_get_def)

lemma triple_some_any: "(\<And>b. I b \<Longrightarrow> E b) \<Longrightarrow> triple I (act_some e x) (\<lambda>y b. x = Some y \<and> I b) E"
  by (cases x) (simp_all add: triple_def act_some_def act_fail_def act_return_def)

lemma triple_ex:
  assumes "\<And>n. triple (P n) f Q E"
  shows "triple (\<lambda>b. \<exists>n. P n b) f Q E"
proof (rule tripleI)
  fix b r b' assume "\<exists>n. P n b" and f: "f b = (r, b')"
  then obtain n where "P n b" by blast
  from assms [of n] this f show "(\<exists>x. r = Done x \<and> Q x b') \<or> (\<forall>x. r \<noteq> Done x) \<and> E b'"
    by (cases r) (auto simp: triple_def dest!: spec [of _ b])
qed

lemma triple_false: "triple (\<lambda>b. False) f Q E"
  by (simp add: triple_def)

section \<open>The invariant\<close>

text \<open>What holds of every stored session beyond the tables: its codecs are those of an INVITE, it was never
  changed since its creation but by routing and answering, and its record has no duration.\<close>

definition call_ok :: "(nat \<Rightarrow> string) \<Rightarrow> nat \<Rightarrow> c4_call_session \<Rightarrow> bool" where
  "call_ok uuid n c \<longleftrightarrow> (\<exists>k < n. ses_session_id c = uuid k) \<and>
     (\<forall>k. lg_call_id (ses_a_leg c) \<noteq> b_leg_id (uuid k)) \<and>
     (\<exists>m. cn_a_leg_codecs (ses_codec_negotiation c) = extract_codecs m) \<and>
     ses_last_activity c = ses_created_at c \<and> ses_state c \<noteq> SS_Connecting \<and> cd_duration_seconds (ses_cdr c) = None"

definition b2bua_ok :: "(nat \<Rightarrow> string) \<Rightarrow> class4_b2bua \<Rightarrow> bool" where
  "b2bua_ok uuid b \<longleftrightarrow> sessions_ok (bb_sessions b) \<and>
     (\<forall>i c. get_session (bb_sessions b) i = Some c \<longrightarrow> call_ok uuid (bb_next_uuid b) c) \<and>
     length (sm_active_sessions (bb_sessions b)) \<le> bb_next_uuid b \<and>
     ae_active_calls (bb_advancement b) = [] \<and> st_total_call_minutes (sm_stats (bb_sessions b)) = 0"

lemma b2bua_okD:
  assumes "b2bua_ok uuid b"
  shows "sessions_ok (bb_sessions b)"
    and "get_session (bb_sessions b) i = Some c \<Longrightarrow> call_ok uuid (bb_next_uuid b) c"
    and "length (sm_active_sessions (bb_sessions b)) \<le> bb_next_uuid b"
    and "ae_active_calls (bb_advancement b) = []"
    and "st_total_call_minutes (sm_stats (bb_sessions b)) = 0"
  using assms by (auto simp: b2bua_ok_def)

lemma b2bua_ok_output [simp]:
  "b2bua_ok uuid (b\<lparr>bb_sent := x\<rparr>) = b2bua_ok uuid b"
  "b2bua_ok uuid (b\<lparr>bb_cdrs := y\<rparr>) = b2bua_ok uuid b"
  "b2bua_ok uuid (b\<lparr>bb_origination := o1\<rparr>) = b2bua_ok uuid b"
  "b2bua_ok uuid (b\<lparr>bb_termination := t\<rparr>) = b2bua_ok uuid b"
  by (simp_all add: b2bua_ok_def)

lemma stored_id: "b2bua_ok uuid b \<Longrightarrow> get_session (bb_sessions b) i = Some s \<Longrightarrow> ses_session_id s = i"
  using sessions_okD(1) [OF b2bua_okD(1)] by (fastforce simp: session_ok_def)

text \<open>A session in the hands of a handler: a copy of the stored one, changed by routing; and one just
  stored.\<close>

definition holds_session :: "(nat \<Rightarrow> string) \<Rightarrow> c4_call_session \<Rightarrow> class4_b2bua \<Rightarrow> bool" where
  "holds_session uuid s b \<longleftrightarrow> b2bua_ok uuid b \<and>
     (\<exists>d. get_session (bb_sessions b) (ses_session_id s) = Some d \<and> ses_a_leg s = ses_a_leg d \<and>
        (ses_b_leg s = ses_b_leg d \<or> (\<exists>l. ses_b_leg s = Some l \<and> lg_call_id l = b_leg_id (ses_session_id s)))) \<and>
     call_ok uuid (bb_next_uuid b) s"

lemma holds_ok: "holds_session uuid s b \<Longrightarrow> b2bua_ok uuid b"
  by (simp add: holds_session_def)

lemma holds_output [simp]:
  "holds_session uuid s (b\<lparr>bb_sent := x\<rparr>) = holds_session uuid s b"
  "holds_session uuid s (b\<lparr>bb_cdrs := y\<rparr>) = holds_session uuid s b"
  "holds_session uuid s (b\<lparr>bb_origination := o1\<rparr>) = holds_session uuid s b"
  "holds_session uuid s (b\<lparr>bb_termination := t\<rparr>) = holds_session uuid s b"
  by (simp_all add: holds_session_def)

lemma holds_stored:
  "b2bua_ok uuid b \<Longrightarrow> get_session (bb_sessions b) i = Some s \<Longrightarrow> holds_session uuid s b"
  by (simp add: holds_session_def b2bua_okD(2) stored_id)

definition sessions_changed :: "(session_manager \<Rightarrow> session_manager) \<Rightarrow> class4_b2bua \<Rightarrow> class4_b2bua" where
  "sessions_changed f b = b\<lparr>bb_sessions := f (bb_sessions b)\<rparr>"

lemma triple_sessions: "triple (\<lambda>b. Q () (sessions_changed f b)) (with_sessions f) Q E"
  unfolding with_sessions_def sessions_changed_def by (rule triple_modify)

lemma sessions_changed_simps [simp]:
  "bb_sessions (sessions_changed f b) = f (bb_sessions b)" "bb_next_uuid (sessions_changed f b) = bb_next_uuid b"
  "bb_advancement (sessions_changed f b) = bb_advancement b"
  by (simp_all add: sessions_changed_def)

lemma update_session_simps [simp]:
  "sm_stats (update_session s m) = sm_stats m" "sm_stats (map_b_leg k i m) = sm_stats m"
  "sm_stats (unmap_leg k m) = sm_stats m"
  "sm_active_sessions (map_b_leg k i m) = sm_active_sessions m"
  "sm_active_sessions (unmap_leg k m) = sm_active_sessions m"
  by (simp_all add: update_session_def map_b_leg_def unmap_leg_def)

text \<open>Storing the copy.\<close>

lemma b2bua_ok_update:
  assumes "holds_session uuid s b"
  shows "b2bua_ok uuid (sessions_changed (update_session s) b)"
proof -
  from assms obtain d where d: "get_session (bb_sessions b) (ses_session_id s) = Some d" "ses_a_leg s = ses_a_leg d"
      "ses_b_leg s = ses_b_leg d \<or> (\<exists>l. ses_b_leg s = Some l \<and> lg_call_id l = b_leg_id (ses_session_id s))"
    and ok: "b2bua_ok uuid b" "call_ok uuid (bb_next_uuid b) s"
    by (auto simp: holds_session_def)
  have "length (sm_active_sessions (update_session s (bb_sessions b))) = length (sm_active_sessions (bb_sessions b))"
    using d(1) length_update_old [of "sm_active_sessions (bb_sessions b)" "ses_session_id s" d s]
    by (simp add: update_session_def get_session_def)
  with b2bua_okD [OF ok(1)] ok(2) sessions_ok_update [OF b2bua_okD(1) [OF ok(1)] d]
  show ?thesis by (auto simp: b2bua_ok_def split: if_splits)
qed

lemma triple_update:
  "triple (holds_session uuid s) (with_sessions (update_session s))
     (\<lambda>_ b. holds_session uuid s b \<and> get_session (bb_sessions b) (ses_session_id s) = Some s) E"
  by (rule triple_pre [OF triple_sessions])
    (use b2bua_ok_update in \<open>auto simp: holds_session_def\<close>)

lemma b2bua_ok_mapped:
  assumes "b2bua_ok uuid b" and "get_session (bb_sessions b) i = Some s" and "ses_b_leg s = Some l"
  shows "b2bua_ok uuid (sessions_changed (map_b_leg (lg_call_id l) i) b)"
    and "b2bua_ok uuid (sessions_changed (unmap_leg (lg_call_id l)) b)"
  using b2bua_okD [OF assms(1)] sessions_ok_map [OF b2bua_okD(1) [OF assms(1)] assms(2,3)]
    sessions_ok_unmap [OF b2bua_okD(1) [OF assms(1)] assms(2,3)]
  by (auto simp: b2bua_ok_def)

section \<open>The handlers keep the invariant\<close>

lemma keeps_send [simp]: "keeps (b2bua_ok uuid) (send_sip_message env addr text)"
  "keeps (holds_session uuid s) (send_sip_message env addr text)"
  by (auto simp: send_sip_message_def intro!: triple_if keeps_modify)

lemma keeps_response [simp]: "keeps (b2bua_ok uuid) (send_sip_response env addr call_id code reason body)"
  by (simp add: send_sip_response_def)

lemma keeps_cdr [simp]: "keeps (b2bua_ok uuid) (generate_cdr cdr)"
  by (auto simp: generate_cdr_def intro!: keeps_modify)

lemma b2bua_ok_remove:
  assumes "b2bua_ok uuid b"
  shows "b2bua_ok uuid (sessions_changed (remove_session i) b)"
proof -
  have minutes: "st_total_call_minutes (sm_stats (remove_session i (bb_sessions b))) = 0"
    using b2bua_okD(2,5) [OF assms]
    by (auto simp: remove_session_def stats_removed_def call_ok_def Let_def split: option.splits)
  have "length (sm_active_sessions (remove_session i (bb_sessions b))) \<le> length (sm_active_sessions (bb_sessions b))"
    by (auto simp: remove_session_def Let_def length_delete_le split: option.splits)
  with minutes b2bua_okD [OF assms] sessions_ok_remove [OF b2bua_okD(1) [OF assms], of i]
  show ?thesis by (auto simp: b2bua_ok_def split: if_splits)
qed

lemma keeps_terminate [simp]: "keeps (b2bua_ok uuid) (terminate_session env i code reason)"
proof -
  have "keeps (b2bua_ok uuid) (with_sessions (remove_session i))"
    by (rule triple_pre [OF triple_sessions]) (rule b2bua_ok_remove)
  then show ?thesis
    unfolding terminate_session_def
    by (intro keeps_bind keeps_basic) (auto split: option.splits intro!: keeps_bind keeps_seq keeps_cdr keeps_basic)
qed

text \<open>The advancement engine knows no call, so it refuses to advance one.\<close>

lemma advance_route_fails:
  "b2bua_ok uuid b \<Longrightarrow> advance_route env i code reason b = (Failed (AdvancementFailed (StateNotFound i)), b)"
  using b2bua_okD(4) [of uuid b] by (simp add: advance_route_def engine_handle_sip_response_def Let_def)

lemma triple_advance: "triple (b2bua_ok uuid) (advance_route env i code reason) (\<lambda>_ _. False) (b2bua_ok uuid)"
  by (simp add: triple_def advance_route_fails)

lemma triple_map_b_leg:
  assumes "ses_b_leg s = Some l" and "lg_call_id l = k"
  shows "triple (\<lambda>b. holds_session uuid s b \<and> get_session (bb_sessions b) (ses_session_id s) = Some s)
     (with_sessions (map_b_leg k (ses_session_id s))) (\<lambda>_. b2bua_ok uuid) E"
  by (rule triple_pre [OF triple_sessions]) (use b2bua_ok_mapped(1) [OF _ _ assms(1)] assms(2) holds_ok in blast)

lemma triple_attempt:
  "triple (holds_session uuid s) (attempt_termination env s route) (\<lambda>_. b2bua_ok uuid) (b2bua_ok uuid)"
proof -
  define b_leg where "b_leg local ip = \<lparr>lg_call_id = b_leg_id (ses_session_id s), lg_from_tag = ses_session_id s @ ''-tag'',
    lg_to_tag = None, lg_local_addr = local, lg_remote_addr = (ip, et_port (rt_trunk route)),
    lg_state = LS_Initial, lg_sip_headers = [], lg_supported_codecs = [], lg_selected_codec = None,
    lg_last_cseq = 1\<rparr>" for local ip
  define s' where "s' local ip = s\<lparr>ses_b_leg := Some (b_leg local ip), ses_state := SS_Terminating,
    ses_route_attempts := ses_route_attempts s + 1,
    ses_cdr := (ses_cdr s)\<lparr>cd_b_leg_call_id := Some (b_leg_id (ses_session_id s)), cd_egress_ip := Some ip,
      cd_egress_trunk_id := Some (word_of_int (et_id (rt_trunk route))),
      cd_egress_trunk_name := Some (et_name (rt_trunk route))\<rparr>\<rparr>" for local ip
  have s': "ses_session_id (s' local ip) = ses_session_id s" "ses_b_leg (s' local ip) = Some (b_leg local ip)"
    "lg_call_id (b_leg local ip) = b_leg_id (ses_session_id s)" for local ip
    by (simp_all add: s'_def b_leg_def)
  have holds: "holds_session uuid (s' local ip) b" if "holds_session uuid s b" for local ip b
    using that by (auto simp: holds_session_def s'_def b_leg_def call_ok_def)
  have step: "triple (holds_session uuid s)
      (act_seq (with_sessions (update_session (s' local ip)))
        (act_seq (with_sessions (map_b_leg (b_leg_id (ses_session_id s)) (ses_session_id s)))
          (send_sip_message env target msg))) (\<lambda>_. b2bua_ok uuid) (b2bua_ok uuid)" for local ip target msg
  proof (rule triple_pre)
    show "triple (holds_session uuid (s' local ip)) (act_seq (with_sessions (update_session (s' local ip)))
        (act_seq (with_sessions (map_b_leg (b_leg_id (ses_session_id s)) (ses_session_id s)))
          (send_sip_message env target msg))) (\<lambda>_. b2bua_ok uuid) (b2bua_ok uuid)"
      using triple_map_b_leg [OF s'(2,3), of uuid local ip] unfolding s'(1)
      by (intro triple_seq [OF triple_update] triple_seq [OF _ keeps_send(1)]) (simp add: s'(1))
  qed (rule holds)
  show ?thesis
    unfolding attempt_termination_def Let_def
    by (intro triple_bind [OF triple_get_any] triple_bind [OF triple_some_any] triple_pure)
      (use step in \<open>auto simp: s'_def b_leg_def dest: holds_ok\<close>)
qed

lemma triple_terminate:
  "triple (holds_session uuid s) (terminate_session env i code reason) (\<lambda>_. b2bua_ok uuid) (b2bua_ok uuid)"
  using keeps_terminate by (rule triple_pre) (rule holds_ok)

lemma triple_call_service: "triple (holds_session uuid s) (call_termination_service env s') (\<lambda>_. holds_session uuid s) E"
  by (auto simp: triple_def call_termination_service_def split: prod.splits)

lemma triple_take_route:
  "triple (holds_session uuid s) (take_route env s resp route) (\<lambda>_. b2bua_ok uuid) (b2bua_ok uuid)"
proof -
  let ?s = "s\<lparr>ses_current_route := Some route, ses_lrn := tr_lrn resp,
    ses_jurisdiction := Some (tr_jurisdiction resp), ses_state := SS_Terminating\<rparr>"
  have "triple (holds_session uuid ?s) (act_seq (with_sessions (update_session ?s)) (attempt_termination env ?s route))
      (\<lambda>_. b2bua_ok uuid) (b2bua_ok uuid)"
    by (intro triple_seq [OF triple_update] triple_pre [OF triple_attempt]) blast
  then show ?thesis
    unfolding take_route_def Let_def by (rule triple_pre) (auto simp: holds_session_def call_ok_def)
qed

lemma triple_route_session:
  "triple (holds_session uuid s) (route_session env s) (\<lambda>_. b2bua_ok uuid) (b2bua_ok uuid)"
  unfolding route_session_def
  by (intro triple_if triple_terminate triple_bind [OF triple_call_service])
    (auto split: option.splits intro!: triple_take_route triple_pre [OF triple_return] dest: holds_ok)

lemma triple_begin:
  "triple (holds_session uuid s) (begin_termination_routing env s) (\<lambda>_. b2bua_ok uuid) (b2bua_ok uuid)"
proof -
  let ?s = "s\<lparr>ses_state := SS_Routing\<rparr>"
  have "triple (holds_session uuid ?s) (act_seq (with_sessions (update_session ?s)) (route_session env ?s))
      (\<lambda>_. b2bua_ok uuid) (b2bua_ok uuid)"
    by (intro triple_seq [OF triple_update] triple_pre [OF triple_route_session]) blast
  then show ?thesis
    unfolding begin_termination_routing_def Let_def by (rule triple_pre) (auto simp: holds_session_def call_ok_def)
qed

text \<open>A new identifier belongs to no session.\<close>

definition has_fresh :: "(nat \<Rightarrow> string) \<Rightarrow> string \<Rightarrow> string \<Rightarrow> class4_b2bua \<Rightarrow> bool" where
  "has_fresh uuid call_id session_id b \<longleftrightarrow> b2bua_ok uuid b \<and> leads_to (bb_sessions b) call_id = None \<and>
     (\<exists>k < bb_next_uuid b. session_id = uuid k) \<and> get_session (bb_sessions b) session_id = None \<and>
     length (sm_active_sessions (bb_sessions b)) < bb_next_uuid b \<and> bb_next_uuid b < 2 ^ 32"

definition unknown_call :: "(nat \<Rightarrow> string) \<Rightarrow> string \<Rightarrow> class4_b2bua \<Rightarrow> bool" where
  "unknown_call uuid call_id b \<longleftrightarrow>
     b2bua_ok uuid b \<and> leads_to (bb_sessions b) call_id = None \<and> bb_next_uuid b + 2 < 2 ^ 32"

lemma b2bua_ok_uuid: "b2bua_ok uuid b \<Longrightarrow> b2bua_ok uuid (b\<lparr>bb_next_uuid := Suc (bb_next_uuid b)\<rparr>)"
  by (simp add: b2bua_ok_def call_ok_def) (metis less_SucI)

lemma triple_fresh:
  assumes "inj uuid" and "be_uuid env = uuid"
  shows "triple (unknown_call uuid k) (fresh_uuid env) (has_fresh uuid k) E"
proof -
  have "get_session (bb_sessions b) (uuid (bb_next_uuid b)) = None" if "b2bua_ok uuid b" for b
  proof (rule ccontr)
    assume "get_session (bb_sessions b) (uuid (bb_next_uuid b)) \<noteq> None"
    then obtain c where c: "get_session (bb_sessions b) (uuid (bb_next_uuid b)) = Some c" by blast
    from b2bua_okD(2) [OF that c] stored_id [OF that c]
    obtain n where "n < bb_next_uuid b" "uuid (bb_next_uuid b) = uuid n" by (auto simp: call_ok_def)
    then show False using assms(1) by (auto simp: inj_def)
  qed
  then show ?thesis
    using assms(2) b2bua_okD(3)
    by (auto simp: triple_def fresh_uuid_def has_fresh_def unknown_call_def b2bua_ok_uuid le_imp_less_Suc)
qed

lemma keeps_fresh [simp]: "be_uuid env = uuid \<Longrightarrow> keeps (b2bua_ok uuid) (fresh_uuid env)"
  using b2bua_ok_uuid [of uuid] by (simp add: triple_def fresh_uuid_def)

lemma triple_add:
  assumes "call_ok uuid n s" and "ses_b_leg s = None" and "lg_call_id (ses_a_leg s) = call_id"
    and "inj uuid"
  shows "triple (has_fresh uuid call_id (ses_session_id s)) (with_sessions (add_session s))
     (\<lambda>_. holds_session uuid s) E"
proof (rule triple_pre [OF triple_sessions])
  fix b assume f: "has_fresh uuid call_id (ses_session_id s) b"
  then obtain j where ok: "b2bua_ok uuid b" and j: "j < bb_next_uuid b" "ses_session_id s = uuid j"
    and new: "get_session (bb_sessions b) (ses_session_id s) = None" "leads_to (bb_sessions b) call_id = None"
    and len: "length (sm_active_sessions (bb_sessions b)) < bb_next_uuid b" "bb_next_uuid b < 2 ^ 32"
    by (auto simp: has_fresh_def)
  have peer: "\<forall>i. call_id \<noteq> b_leg_id (uuid i)" using assms(1,3) by (simp add: call_ok_def)
  have names: "\<exists>i. j' = uuid i" if "get_session (bb_sessions b) j' = Some c" for j' c
    using b2bua_okD(2) [OF ok that] stored_id [OF ok that] by (auto simp: call_ok_def)
  have "leads_to (bb_sessions b) (b_leg_id (ses_session_id s)) = None"
  proof (rule ccontr)
    assume "leads_to (bb_sessions b) (b_leg_id (ses_session_id s)) \<noteq> None"
    then obtain i where "leads_to (bb_sessions b) (b_leg_id (ses_session_id s)) = Some i" by blast
    from sessions_okD(2) [OF b2bua_okD(1) [OF ok] this] obtain c where
      c: "get_session (bb_sessions b) i = Some c" "b_leg_id (ses_session_id s) \<in> leg_ids c" by blast
    have "lg_call_id (ses_a_leg c) \<noteq> b_leg_id (ses_session_id s)" "i \<noteq> ses_session_id s"
      using b2bua_okD(2) [OF ok c(1)] j(2) new(1) c(1) by (auto simp: call_ok_def)
    with sessions_okD(1) [OF b2bua_okD(1) [OF ok] c(1)] c(2)
    show False by (auto simp: leg_ids_def session_ok_def split: option.splits)
  qed
  moreover have "\<forall>j'. get_session (bb_sessions b) j' \<noteq> None \<longrightarrow> call_id \<noteq> b_leg_id j'"
    using peer names by blast
  ultimately have "sessions_ok (add_session s (bb_sessions b))"
    using sessions_ok_add [OF b2bua_okD(1) [OF ok] new(1) assms(2)] assms(3) new(2) peer j(2) len by simp
  moreover have "call_ok uuid (bb_next_uuid b) s" using assms(1) j by (auto simp: call_ok_def)
  moreover have "length (sm_active_sessions (add_session s (bb_sessions b))) =
      length (sm_active_sessions (bb_sessions b)) + 1"
    using length_update_new new(1) by (simp add: add_session_def get_session_def Let_def)
  moreover have "st_total_call_minutes (sm_stats (add_session s (bb_sessions b))) = 0"
    using b2bua_okD(5) [OF ok] by (simp add: add_session_def stats_added_def Let_def)
  ultimately show "holds_session uuid s (sessions_changed (add_session s) b)"
    using b2bua_okD [OF ok] len by (auto simp: holds_session_def b2bua_ok_def split: if_splits)
qed

lemma has_fresh_ok: "has_fresh uuid k i b \<Longrightarrow> b2bua_ok uuid b"
  by (simp add: has_fresh_def)

lemma new_session_fields [simp]:
  "ses_session_id (new_session env m addr local i call_id from_tag cdr) = i"
  "ses_b_leg (new_session env m addr local i call_id from_tag cdr) = None"
  "lg_call_id (ses_a_leg (new_session env m addr local i call_id from_tag cdr)) = call_id"
  by (simp_all add: new_session_def)

lemma new_session_ok:
  "has_fresh uuid call_id i b \<Longrightarrow> \<forall>k. call_id \<noteq> b_leg_id (uuid k) \<Longrightarrow> cd_duration_seconds cdr = None \<Longrightarrow>
    call_ok uuid (bb_next_uuid b) (new_session env m addr local i call_id from_tag cdr)"
  by (auto simp: has_fresh_def call_ok_def new_session_def)

lemma triple_create:
  assumes "inj uuid" and "be_uuid env = uuid" and "map_of (sg_headers m) ''Call-ID'' = Some call_id"
    and "\<forall>i. call_id \<noteq> b_leg_id (uuid i)" and "\<And>i t. cd_duration_seconds (cdr i call_id t) = None"
  shows "triple (unknown_call uuid call_id) (create_session env m addr trunk_id cdr)
     (\<lambda>s b. has_fresh uuid call_id (ses_session_id s) b \<and> ses_b_leg s = None \<and> lg_call_id (ses_a_leg s) = call_id \<and>
        call_ok uuid (bb_next_uuid b) s) (b2bua_ok uuid)"
  unfolding create_session_def
proof (rule triple_bind [OF triple_fresh [OF assms(1,2)]], rule triple_bind [OF triple_some_any], goal_cases)
  case (2 i c)
  show ?case
  proof (rule triple_pure, goal_cases)
    case 1
    with assms(3) have "c = call_id" by simp
    then show ?case
      by (intro triple_bind [OF triple_some_any] triple_pure triple_bind [OF triple_get_any]
          triple_pre [OF triple_return])
        (auto simp: assms(4,5) new_session_ok dest: has_fresh_ok)
  qed
qed (rule has_fresh_ok)

lemma unknown_ok: "unknown_call uuid k b \<Longrightarrow> b2bua_ok uuid b"
  by (simp add: unknown_call_def)

lemma keeps_refuse [simp]:
  "be_uuid env = uuid \<Longrightarrow> keeps (b2bua_ok uuid) (refuse_blocked env addr call_id calling dnis trunk_id i r)"
  unfolding refuse_blocked_def by (intro keeps_bind keeps_seq) simp_all

text \<open>Storing a session just created, with what the handler changed in its record, and going on with it.\<close>

lemma triple_store:
  assumes "inj uuid" and "ses_session_id s' = ses_session_id s" and "ses_a_leg s' = ses_a_leg s" and "ses_b_leg s' = ses_b_leg s"
    and "\<And>n. call_ok uuid n s \<Longrightarrow> call_ok uuid n s'"
    and "triple (holds_session uuid s') next_step (\<lambda>_. b2bua_ok uuid) (b2bua_ok uuid)"
  shows "triple (\<lambda>b. has_fresh uuid call_id (ses_session_id s) b \<and> ses_b_leg s = None \<and>
      lg_call_id (ses_a_leg s) = call_id \<and> call_ok uuid (bb_next_uuid b) s)
    (act_seq (with_sessions (add_session s')) next_step) (\<lambda>_. b2bua_ok uuid) (b2bua_ok uuid)"
proof (rule triple_seq [OF _ assms(6)])
  have "triple (\<lambda>b. \<exists>n. (call_ok uuid n s \<and> ses_b_leg s = None \<and> lg_call_id (ses_a_leg s) = call_id) \<and>
      has_fresh uuid call_id (ses_session_id s) b)
    (with_sessions (add_session s')) (\<lambda>_. holds_session uuid s') (b2bua_ok uuid)"
  proof (intro triple_ex triple_pure)
    fix n assume "call_ok uuid n s \<and> ses_b_leg s = None \<and> lg_call_id (ses_a_leg s) = call_id"
    with triple_add [of uuid n s' call_id] assms(1-5)
    show "triple (has_fresh uuid call_id (ses_session_id s)) (with_sessions (add_session s'))
        (\<lambda>_. holds_session uuid s') (b2bua_ok uuid)" by simp
  qed
  then show "triple (\<lambda>b. has_fresh uuid call_id (ses_session_id s) b \<and> ses_b_leg s = None \<and>
      lg_call_id (ses_a_leg s) = call_id \<and> call_ok uuid (bb_next_uuid b) s)
    (with_sessions (add_session s')) (\<lambda>_. holds_session uuid s') (b2bua_ok uuid)"
    by (rule triple_pre) blast
qed

lemma call_ok_cdr: "cd_duration_seconds c = None \<Longrightarrow> call_ok uuid n s \<Longrightarrow> call_ok uuid n (s\<lparr>ses_cdr := c\<rparr>)"
  by (simp add: call_ok_def)

lemma with_ani_ii_duration [simp]: "cd_duration_seconds (with_ani_ii i f x c) = cd_duration_seconds c"
  by (simp add: with_ani_ii_def Let_def split: option.splits prod.splits)

lemma triple_originate:
  assumes "inj uuid" and "be_uuid env = uuid" and "map_of (sg_headers m) ''Call-ID'' = Some call_id"
    and "\<forall>i. call_id \<noteq> b_leg_id (uuid i)"
  shows "triple (unknown_call uuid call_id) (originate_to_customer env m addr call_id dnis calling trunk_id ani_ii)
    (\<lambda>_. b2bua_ok uuid) (b2bua_ok uuid)"
proof -
  have refuse: "triple (unknown_call uuid call_id) (refuse_blocked env addr call_id calling dnis trunk_id i r)
      (\<lambda>_. b2bua_ok uuid) (b2bua_ok uuid)" for i r
    using keeps_refuse [OF assms(2)] by (rule triple_pre) (rule unknown_ok)
  have reject: "triple (unknown_call uuid call_id) (send_sip_response env addr call_id 404 reason [])
      (\<lambda>_. b2bua_ok uuid) (b2bua_ok uuid)" for reason
    using keeps_response by (rule triple_pre) (rule unknown_ok)
  have store: "triple (unknown_call uuid call_id)
      (act_bind (create_origination_session env m addr calling dnis trunk_id c) (\<lambda>s.
        act_seq (with_sessions (add_session (s\<lparr>ses_cdr := with_ani_ii ani_ii f x (ses_cdr s)\<rparr>)))
          (deliver_to_customer (s\<lparr>ses_cdr := with_ani_ii ani_ii f x (ses_cdr s)\<rparr>))))
      (\<lambda>_. b2bua_ok uuid) (b2bua_ok uuid)" for c f x
    unfolding create_origination_session_def deliver_to_customer_def
    by (intro triple_bind [OF triple_create [OF assms]] triple_store [OF assms(1)] triple_pre [OF triple_return])
      (auto simp: blank_cdr_def call_ok_def dest: holds_ok)
  show ?thesis
    unfolding originate_to_customer_def Let_def
    by (intro triple_bind [OF triple_get_any]) (auto split: option.splits simp: refuse reject store)
qed

lemma triple_process_origination:
  assumes "inj uuid" and "be_uuid env = uuid" and "map_of (sg_headers m) ''Call-ID'' = Some call_id"
    and "\<forall>i. call_id \<noteq> b_leg_id (uuid i)"
  shows "triple (unknown_call uuid call_id) (process_origination_traffic env m addr call_id dnis calling trunk_id)
    (\<lambda>_. b2bua_ok uuid) (b2bua_ok uuid)"
proof -
  have refuse: "triple (unknown_call uuid call_id) (refuse_blocked env addr call_id calling dnis trunk_id i r)
      (\<lambda>_. b2bua_ok uuid) (b2bua_ok uuid)" for i r
    using keeps_refuse [OF assms(2)] by (rule triple_pre) (rule unknown_ok)
  show ?thesis
    unfolding process_origination_traffic_def
    by (cases "parse_from_sip_message (sg_headers m) None")
      (auto simp: refuse triple_originate [OF assms] intro!: triple_bind [OF triple_get_any]
        triple_pre [OF triple_panic] unknown_ok split: option.splits)
qed

lemma triple_process_termination:
  assumes "inj uuid" and "be_uuid env = uuid" and "map_of (sg_headers m) ''Call-ID'' = Some call_id"
    and "\<forall>i. call_id \<noteq> b_leg_id (uuid i)"
  shows "triple (unknown_call uuid call_id) (process_termination_traffic env m addr call_id ani destination trunk_id)
    (\<lambda>_. b2bua_ok uuid) (b2bua_ok uuid)"
proof -
  have engine: "triple (unknown_call uuid call_id) (call_origination_engine q) (\<lambda>_. unknown_call uuid call_id) E" for q E
    by (auto simp: triple_def call_origination_engine_def unknown_call_def split: prod.splits)
  have reject: "triple (unknown_call uuid call_id) (send_sip_response env addr call_id code reason body)
      (\<lambda>_. b2bua_ok uuid) (b2bua_ok uuid)" for code reason body
    using keeps_response by (rule triple_pre) (rule unknown_ok)
  have store: "triple (unknown_call uuid call_id)
      (act_bind (create_termination_session env m addr ani destination trunk_id) (\<lambda>s.
        act_seq (with_sessions (add_session s)) (begin_termination_routing env s)))
      (\<lambda>_. b2bua_ok uuid) (b2bua_ok uuid)"
    unfolding create_termination_session_def
    by (intro triple_bind [OF triple_create [OF assms]] triple_store [OF assms(1)] triple_begin)
      (auto simp: blank_cdr_def)
  show ?thesis
    unfolding process_termination_traffic_def
    by (auto split: option.splits simp: reject store intro!: triple_bind [OF engine] triple_pre [OF triple_panic] unknown_ok)
qed

lemma triple_get_value: "triple I (act_get f) (\<lambda>x b. x = f b \<and> I b) E"
  by (simp add: triple_def act_get_def)

text \<open>The peers do not invent the identifiers of second legs, and fewer than \<open>2 ^ 32\<close> calls have been
  numbered.\<close>

definition peer_ids :: "(nat \<Rightarrow> string) \<Rightarrow> c4_sip_message \<Rightarrow> bool" where
  "peer_ids uuid m \<longleftrightarrow> (\<forall>k n. map_of (sg_headers m) ''Call-ID'' = Some k \<longrightarrow> k \<noteq> b_leg_id (uuid n))"

definition numbered :: "(nat \<Rightarrow> string) \<Rightarrow> class4_b2bua \<Rightarrow> bool" where
  "numbered uuid b \<longleftrightarrow> b2bua_ok uuid b \<and> bb_next_uuid b + 2 < 2 ^ 32"

lemma numbered_ok: "numbered uuid b \<Longrightarrow> b2bua_ok uuid b"
  by (simp add: numbered_def)

lemma keeps_numbered [simp]: "keeps (numbered uuid) (send_sip_response env addr call_id code reason body)"
  "keeps (unknown_call uuid k) (send_sip_response env addr call_id code reason body)"
  by (auto simp: send_sip_response_def send_sip_message_def numbered_def unknown_call_def intro!: triple_if keeps_modify)

lemma triple_numbered: "keeps (b2bua_ok uuid) f \<Longrightarrow> triple (numbered uuid) f (\<lambda>_. b2bua_ok uuid) (b2bua_ok uuid)"
  by (erule triple_pre) (rule numbered_ok)

lemma triple_traffic:
  assumes "inj uuid" and "be_uuid env = uuid" and "map_of (sg_headers m) ''Call-ID'' = Some call_id"
    and "\<forall>i. call_id \<noteq> b_leg_id (uuid i)"
  shows "triple (unknown_call uuid call_id) (process_traffic env m addr call_id traffic)
    (\<lambda>_. b2bua_ok uuid) (b2bua_ok uuid)"
  unfolding process_traffic_def
proof (rule triple_seq)
  show "triple (unknown_call uuid call_id) (send_sip_response env addr call_id 100 ''Trying'' [])
      (\<lambda>_. unknown_call uuid call_id) (b2bua_ok uuid)"
    by (rule triple_post [OF keeps_numbered(2)]) (auto dest: unknown_ok)
qed (cases traffic; simp add: triple_process_origination [OF assms] triple_process_termination [OF assms])

lemma triple_invite:
  assumes "inj uuid" and "be_uuid env = uuid" and "peer_ids uuid m"
  shows "triple (numbered uuid) (handle_invite env m addr) (\<lambda>_. b2bua_ok uuid) (b2bua_ok uuid)"
proof (cases "rfc3261_validate (sg_headers m) (request_line_of m)" rule: unit_outcome_cases)
  case 3
  have rest: "triple (\<lambda>b. x = (session_exists (bb_sessions b) call_id, determine_traffic_type b m (fst addr)) \<and> numbered uuid b)
      (case x of (known, traffic) \<Rightarrow>
         if known then act_return ()
         else case traffic of
           None \<Rightarrow> send_sip_response env addr call_id 500 ''Internal Server Error'' []
         | Some traffic \<Rightarrow> process_traffic env m addr call_id traffic)
      (\<lambda>_. b2bua_ok uuid) (b2bua_ok uuid)" if "map_of (sg_headers m) ''Call-ID'' = Some call_id" for call_id x
  proof -
    have p: "\<forall>i. call_id \<noteq> b_leg_id (uuid i)" using assms(3) that by (simp add: peer_ids_def)
    obtain known traffic where x: "x = (known, traffic)" by (cases x)
    consider "known" | "\<not> known" "traffic = None" | t where "\<not> known" "traffic = Some t" by (cases traffic) auto
    then show ?thesis
    proof cases
      case 1
      then show ?thesis unfolding x by (auto intro: triple_pre [OF triple_return] numbered_ok)
    next
      case 2
      then show ?thesis unfolding x
        by (simp, intro triple_pre [OF triple_numbered [OF keeps_response]]) blast
    next
      case 3
      then show ?thesis unfolding x
        using triple_traffic [OF assms(1,2) that p, of addr t]
        by (auto elim!: triple_pre simp: unknown_call_def numbered_def session_exists_def)
    qed
  qed
  show ?thesis
    unfolding handle_invite_def 3 option.case sum.case
    by (intro triple_bind [OF triple_some_any] triple_pure triple_bind [OF triple_get_value] rest)
      (auto dest: numbered_ok)
qed (auto simp: handle_invite_def intro: triple_pre [OF triple_panic] numbered_ok triple_numbered)

section \<open>The other messages\<close>

text \<open>Negotiation with the codecs of an INVITE succeeds, so the branch for a failure is never taken.\<close>

lemma triple_success:
  "triple (holds_session uuid s) (handle_success_response env s code m) (\<lambda>_. b2bua_ok uuid) (b2bua_ok uuid)"
proof (cases "code = 200 \<and> (\<exists>m0. cn_a_leg_codecs (ses_codec_negotiation s) = extract_codecs m0)")
  case True
  let ?s = "s\<lparr>ses_state := SS_Connected, ses_cdr := (ses_cdr s)\<lparr>cd_answer_time := Some (be_now env)\<rparr>\<rparr>"
  let ?t = "snd (negotiate_codecs tr t m ?s)"
  obtain m0 where "cn_a_leg_codecs (ses_codec_negotiation ?s) = extract_codecs m0" using True by auto
  note n = negotiation_settles_on_PCMU [OF this, of _ _ m]
  show ?thesis
  proof (rule tripleI)
    fix b r b' assume h: "holds_session uuid s b" and f: "handle_success_response env s code m b = (r, b')"
    let ?u = "?s\<lparr>ses_codec_negotiation := (ses_codec_negotiation s)\<lparr>cn_b_leg_codecs := extract_codecs_from_sdp m,
       cn_negotiated_codec := Some ''PCMU'', cn_transcoding_required := False\<rparr>,
       ses_cdr := (ses_cdr ?s)\<lparr>cd_codec_negotiated := Some ''PCMU'', cd_transcoding_used := False\<rparr>\<rparr>"
    have u: "holds_session uuid ?u b" using h by (auto simp: holds_session_def call_ok_def)
    have "act_seq (with_sessions (update_session ?u)) (send_sip_message env (lg_remote_addr (ses_a_leg ?u))
        (create_forwarded_response ?u code ''OK'' m)) b = (r, b')"
      using f True n by (simp add: handle_success_response_def act_bind_def act_get_def Let_def)
    moreover have "triple (holds_session uuid ?u) (act_seq (with_sessions (update_session ?u))
        (send_sip_message env (lg_remote_addr (ses_a_leg ?u)) (create_forwarded_response ?u code ''OK'' m)))
        (\<lambda>_. b2bua_ok uuid) (b2bua_ok uuid)"
      by (intro triple_seq [OF triple_update] triple_pre [OF keeps_send(1)]) (auto dest: holds_ok)
    ultimately have "b2bua_ok uuid b'" using tripleD u by blast
    then show "(\<exists>x. r = Done x \<and> b2bua_ok uuid b') \<or> (\<forall>x. r \<noteq> Done x) \<and> b2bua_ok uuid b'" by blast
  qed
next
  case False
  then show ?thesis
  proof (cases "code = 200")
    case True
    with False have "\<not> holds_session uuid s b" for b by (auto simp: holds_session_def call_ok_def)
    then show ?thesis by (simp add: triple_def)
  qed (auto simp: handle_success_response_def intro: triple_pre [OF triple_return] holds_ok)
qed

lemma triple_error:
  "triple (holds_session uuid s) (handle_error_response env s code m) (\<lambda>_. b2bua_ok uuid) (b2bua_ok uuid)"
  unfolding handle_error_response_def Let_def
  by (intro triple_bind [OF triple_pre [OF triple_advance]] triple_false) (rule holds_ok)

text \<open>Looking up a session: what is found is stored.\<close>

lemma found_session:
  "b2bua_ok uuid b \<Longrightarrow> get_session_by_any_call_id (bb_sessions b) k = Some s \<Longrightarrow> holds_session uuid s b"
  by (auto simp: get_session_by_any_call_id_def intro: holds_stored split: option.splits)

lemma triple_lookup:
  assumes "\<And>s. x = Some s \<Longrightarrow> triple (holds_session uuid s) (g s) (\<lambda>_. b2bua_ok uuid) (b2bua_ok uuid)"
  shows "triple (\<lambda>b. x = get_session_by_any_call_id (bb_sessions b) k \<and> b2bua_ok uuid b)
    (case x of None \<Rightarrow> act_return () | Some s \<Rightarrow> g s) (\<lambda>_. b2bua_ok uuid) (b2bua_ok uuid)"
proof (cases x)
  case (Some s)
  show ?thesis unfolding Some option.case
    by (rule triple_pre [OF assms [OF Some]]) (metis found_session)
qed (auto intro: triple_pre [OF triple_return])

lemma triple_held: "keeps (b2bua_ok uuid) f \<Longrightarrow> triple (holds_session uuid s) f (\<lambda>_. b2bua_ok uuid) (b2bua_ok uuid)"
  by (erule triple_pre) (rule holds_ok)

lemma keeps_handle_response [simp]: "keeps (b2bua_ok uuid) (handle_sip_response env m)"
  unfolding handle_sip_response_def
  by (intro triple_bind [OF triple_some_any] triple_pure triple_bind [OF triple_get_value] triple_lookup triple_if
      triple_success triple_error triple_held)
    (simp_all add: handle_provisional_response_def)

lemma keeps_end_session [simp]: "keeps (b2bua_ok uuid) (end_session_request env m addr cause reason)"
  unfolding end_session_request_def
  by (intro triple_bind [OF triple_some_any] triple_pure triple_bind [OF triple_get_value] triple_lookup
      triple_held keeps_seq) simp_all

lemma keeps_options [simp]: "keeps (b2bua_ok uuid) (handle_options env m addr)"
  unfolding handle_options_def by (intro triple_bind [OF triple_some_any] triple_pure) simp_all

lemma triple_ack_found:
  "triple (holds_session uuid s) (forward_ack env addr local s) (\<lambda>_. b2bua_ok uuid) (b2bua_ok uuid)"
proof (cases "ses_state s = SS_Connecting")
  case True
  then have "\<not> holds_session uuid s b" for b by (simp add: holds_session_def call_ok_def)
  then show ?thesis by (simp add: triple_def)
next
  case False
  have "triple (holds_session uuid s) (send_sip_message env a x) (\<lambda>_. b2bua_ok uuid) (b2bua_ok uuid)" for a x
    by (rule triple_held) simp
  moreover have "triple (holds_session uuid s) (act_return ()) (\<lambda>_. b2bua_ok uuid) (b2bua_ok uuid)"
    by (rule triple_held) simp
  ultimately show ?thesis
    unfolding forward_ack_def using False
    by (intro triple_seq [where R = "b2bua_ok uuid"] triple_if triple_bind [OF triple_some_any] triple_pure)
      (auto split: option.splits dest: holds_ok)
qed

lemma keeps_ack [simp]: "keeps (b2bua_ok uuid) (handle_ack env m addr)"
  unfolding handle_ack_def
  by (intro triple_bind [OF triple_some_any] triple_pure triple_bind [OF triple_get_any]
      triple_bind [OF triple_get_value] triple_lookup triple_ack_found) simp

section \<open>Reachable states\<close>

lemma triple_message:
  assumes "inj uuid" and "be_uuid env = uuid" and "\<And>m. parse_sip_message message = Some m \<Longrightarrow> peer_ids uuid m"
  shows "triple (numbered uuid) (process_sip_message env message addr) (\<lambda>_. b2bua_ok uuid) (b2bua_ok uuid)"
proof (cases "parse_sip_message message")
  case None
  then show ?thesis
    unfolding process_sip_message_def by (simp add: triple_numbered)
next
  case (Some m)
  have other: "triple (numbered uuid) (case sg_method m of
           None \<Rightarrow> handle_sip_response env m
         | Some meth \<Rightarrow>
             if meth = ''INVITE'' then handle_invite env m addr
             else if meth = ''ACK'' then handle_ack env m addr
             else if meth = ''BYE'' then handle_bye env m addr
             else if meth = ''CANCEL'' then handle_cancel env m addr
             else if meth = ''OPTIONS'' then handle_options env m addr
             else (case map_of (sg_headers m) ''Call-ID'' of
                 Some call_id \<Rightarrow> send_sip_response env addr call_id 405 ''Method Not Allowed'' []
               | None \<Rightarrow> act_return ())) (\<lambda>_. b2bua_ok uuid) (b2bua_ok uuid)"
  proof (cases "sg_method m")
    case (Some meth)
    show ?thesis
      unfolding Some option.case handle_bye_def handle_cancel_def
      by (intro triple_if triple_invite [OF assms(1,2) assms(3) [OF \<open>parse_sip_message message = Some m\<close>]] triple_numbered
          keeps_ack keeps_end_session keeps_options)
        (cases "map_of (sg_headers m) ''Call-ID''"; simp)
  qed (simp add: triple_numbered)
  show ?thesis
    unfolding process_sip_message_def Some option.case
    by (intro triple_if other triple_numbered keeps_basic)
qed

text \<open>The switch from its start: messages arrive, which one task handles one by one, and sessions are cleaned
  up between two messages; what a cleanup in the middle of a handler can do shows lemma
  \<open>removal_undone\<close>. Identifiers come from \<open>uuid\<close>; peers do not use the identifiers of second legs, and fewer
  than \<open>2 ^ 32 - 2\<close> identifiers have been drawn when a message arrives. Nothing follows a panic.\<close>

inductive b2bua_reachable :: "(nat \<Rightarrow> string) \<Rightarrow> class4_b2bua \<Rightarrow> bool" for uuid where
  start: "ae_active_calls ae = [] \<Longrightarrow> b2bua_reachable uuid (new_b2bua config oe ts ae trunks)"
| message: "b2bua_reachable uuid b \<Longrightarrow> be_uuid env = uuid \<Longrightarrow> bb_next_uuid b + 2 < 2 ^ 32 \<Longrightarrow>
    (\<And>m. parse_sip_message msg = Some m \<Longrightarrow> peer_ids uuid m) \<Longrightarrow>
    process_sip_message env msg addr b = (r, b') \<Longrightarrow> r \<noteq> Panicked \<Longrightarrow> b2bua_reachable uuid b'"
| cleanup: "b2bua_reachable uuid b \<Longrightarrow> b2bua_reachable uuid (session_cleanup now b)"

lemma b2bua_ok_cleanup: "b2bua_ok uuid b \<Longrightarrow> b2bua_ok uuid (session_cleanup now b)"
proof -
  have "b2bua_ok uuid b \<Longrightarrow> b2bua_ok uuid (b\<lparr>bb_sessions := fold remove_session is (bb_sessions b)\<rparr>)" for "is" b
  proof (induction "is" arbitrary: b)
    case (Cons i "is")
    from Cons.IH [OF b2bua_ok_remove [OF Cons.prems, of i]]
    show ?case by (simp add: sessions_changed_def)
  qed simp
  then show "b2bua_ok uuid b \<Longrightarrow> ?thesis" by (simp add: session_cleanup_def cleanup_expired_sessions_def Let_def)
qed

lemma b2bua_invariant:
  assumes "b2bua_reachable uuid b" and "inj uuid"
  shows "b2bua_ok uuid b"
  using assms(1)
proof (induction rule: b2bua_reachable.induct)
  case (start ae config oe ts trunks)
  then show ?case by (simp add: b2bua_ok_def new_b2bua_def) (simp add: new_session_manager_def no_stats_def)
next
  case (message b env msg addr r b')
  from message have "numbered uuid b" by (simp add: numbered_def)
  with tripleD [OF triple_message [OF assms(2) message.hyps(2,4)] _ message.hyps(5)]
  show ?case by blast
qed (rule b2bua_ok_cleanup)

end
