(* ===== verification/Class4Calls.thy ===== *)
theory Class4Calls
  imports Class4Invariant
begin

text \<open>
  What the invariant of the class 4 B2BUA says of calls (\<open>src/class4_b2bua.rs\<close>): the books of
  the session manager, answers, failures, hang-ups and long calls, each shown on a call set up by a
  concrete INVITE.
\<close>

section \<open>A concrete call\<close>

definition demo_trunk_config :: trunk_rate_config where
  "demo_trunk_config = \<lparr>tg_trunk_id = 7, tg_trunk_name = ''carrier'', tg_direction = TD_Bidirectional,
     tg_ip_addresses = [''h''], tg_default_rate_per_minute = 1, tg_rate_deck_id = None, tg_rate_overrides = [],
     tg_is_revenue_trunk = False, tg_billing_increment = 6, tg_minimum_duration = 0, tg_trunk_type = BT_Carrier,
     tg_our_number_blocks = [''555*''], tg_customer_number_blocks = [], tg_payphone_surcharges_enabled = False,
     tg_payphone_surcharge_23 = None, tg_payphone_surcharge_27 = None, tg_payphone_surcharge_70 = None,
     tg_ani_ii_blocking = None\<rparr>"

definition demo_b2bua :: class4_b2bua where
  "demo_b2bua = new_b2bua default_class4_config (new_origination_engine default_origination_config)
     new_termination_service (new_advancement_engine 3) [demo_trunk_config]"

definition c4_demo_env :: b2bua_env where
  "c4_demo_env = \<lparr>be_find_routes = (\<lambda>_. Inl ''none''), be_now = 0, be_parse_ip = Some, be_parse_addr = (\<lambda>_. None),
     be_can_send = (\<lambda>_. True), be_uuid = dec\<rparr>"

definition demo_addr :: socket_addr where
  "demo_addr = (''h'', 5060)"

definition demo_headers :: header_map where
  "demo_headers = [(''Via'', ''v''), (''From'', ''<sip:2@h>;tag=t''), (''To'', ''<sip:5551234000@h>''),
     (''Call-ID'', ''c''), (''CSeq'', ''1''), (''Max-Forwards'', ''7'')]"

definition demo_text :: "string \<Rightarrow> string" where
  "demo_text first_line = first_line @ crlf @ header_lines demo_headers @ crlf"

lemma demo_parsed_invite:
  "parse_sip_message (demo_text ''INVITE sip:a SIP/2.0'') =
    Some \<lparr>sg_method = Some ''INVITE'', sg_status_code = None, sg_reason_phrase = None, sg_headers = demo_headers\<rparr>"
  by (simp add: demo_text_def parse_sip_message_def parse_first_line_def str_lines_def strip_cr_def crlf_def
      header_lines_def demo_headers_def split_space_def is_space_def trim_space_def)

definition demo_session :: c4_call_session where
  "demo_session = new_session c4_demo_env
     \<lparr>sg_method = Some ''INVITE'', sg_status_code = None, sg_reason_phrase = None, sg_headers = demo_headers\<rparr>
     demo_addr (''0.0.0.0'', 5060) ''0'' ''c'' ''t''
     ((blank_cdr ''0'' ''c'' ''2'' ''5551234000'' 0)\<lparr>
        cd_ingress_trunk_id := 7, cd_ingress_trunk_name := ''carrier'', cd_ingress_ip := ''h'',
        cd_ingress_rate_per_minute := 1, cd_ingress_revenue := None,
        cd_egress_trunk_name := Some ''Customer_CUST001'', cd_egress_ip := Some ''127.0.0.1'',
        cd_egress_rate_per_minute := 1 / 10, cd_egress_revenue := Some 0, cd_final_route := Some ''CUST001''\<rparr>)"

definition demo_call :: class4_b2bua where
  "demo_call = demo_b2bua\<lparr>bb_sessions := add_session demo_session new_session_manager, bb_next_uuid := 1,
     bb_sent := [(demo_addr, sip_response_text ''c'' 100 ''Trying'' [])]\<rparr>"

lemma demo_valid: "rfc3261_validate demo_headers (''INVITE sip:unknown@unknown.com SIP/2.0'') = Some (Inr ())"
  by (simp add: demo_headers_def rfc3261_validate_def ends_with_def valid_sip_version_def
    mandatory_sip_headers_def get_header_case_insensitive_def check_request_uri_def split_space_def is_space_def
    is_control_char_def optional_check_def validate_uri_header_def slice_def is_cont_def valid_uri_prefix_def
    trim_space_def parse_unsigned_def parse_digits_def is_digit_def undec_def)

lemma demo_no_oli: "parse_from_sip_message demo_headers None = Some None"
  by (simp add: demo_headers_def parse_from_sip_message_def extract_oli_info_def oli_attempt_def p_isup_oli_info_def
    uri_oli_info_def get_header_case_insensitive_def ascii_lower_def parse_header_field_def header_uri_part_def
    slice_def parse_uri_def max_uri_length_def uri_captures_def uri_scheme_def uri_user_def user_char_def host_char_def
    uri_rest_def parse_host_port_def contains_str_def rfind_char_def)

lemma demo_traffic:
  "determine_traffic_type demo_b2bua
     \<lparr>sg_method = Some ''INVITE'', sg_status_code = None, sg_reason_phrase = None, sg_headers = demo_headers\<rparr> ''h'' =
   Some (Origination ''5551234000'' ''2'' ''h'' 7)"
  by (simp add: determine_traffic_type_def c4_called_number_def c4_calling_number_def sip_number_def demo_headers_def
    number_chars_def is_digit_def find_trunk_by_ip_def demo_b2bua_def new_b2bua_def demo_trunk_config_def
    is_our_customer_dnis_def matches_number_pattern_def trim_end_char_def)

lemma demo_customer:
  "find_customer_for_did (be_parse_addr c4_demo_env) (bb_registry demo_b2bua) ''5551234000'' =
     Some \<lparr>ci_customer_id = ''CUST001'', ci_sip_endpoint = (''127.0.0.1'', 5060),
       ci_customer_name = ''Acme Corporation'', ci_did_ani_ii_blocks = []\<rparr>"
  by (simp add: find_customer_for_did_def demo_b2bua_def new_b2bua_def new_customer_registry_def sample_assignments_def
    matches_pattern_def remove_char_def create_customer_info_def c4_demo_env_def)

lemmas act_simps = act_bind_def act_return_def act_get_def act_modify_def act_some_def act_seq_def act_fail_def
  with_sessions_def send_sip_response_def send_sip_message_def

lemma demo_call_reached:
  "process_sip_message c4_demo_env (demo_text ''INVITE sip:a SIP/2.0'') demo_addr demo_b2bua = (Done (), demo_call)"
proof -
  let ?m = "\<lparr>sg_method = Some ''INVITE'', sg_status_code = None, sg_reason_phrase = None, sg_headers = demo_headers\<rparr>"
  have len: "\<not> length (demo_text ''INVITE sip:a SIP/2.0'') < 10" by (simp add: demo_text_def)
  have valid: "validate_sip_message ?m"
    by (simp add: validate_sip_message_def has_header_def demo_headers_def)
  have id: "map_of (sg_headers ?m) ''Call-ID'' = Some ''c''" "map_of (sg_headers ?m) ''Request-URI'' = None"
    by (simp_all add: demo_headers_def)
  have "handle_invite c4_demo_env ?m demo_addr demo_b2bua =
    process_traffic c4_demo_env ?m demo_addr ''c'' (Origination ''5551234000'' ''2'' ''h'' 7) demo_b2bua"
    using demo_valid demo_traffic id
    by (simp add: handle_invite_def request_line_of_def act_simps demo_addr_def)
      (simp add: session_exists_def demo_b2bua_def new_b2bua_def new_session_manager_def)
  also have "\<dots> = (Done (), demo_call)"
  proof -
    have tag: "c4_extract_tag demo_headers ''From'' = Some ''t''"
      by (simp add: c4_extract_tag_def demo_headers_def)
    have trunk: "find_trunk_by_id demo_b2bua 7 = Some demo_trunk_config"
      by (simp add: find_trunk_by_id_def demo_b2bua_def new_b2bua_def demo_trunk_config_def)
    have more: "find_trunk_by_id (demo_b2bua\<lparr>bb_sent := x, bb_next_uuid := n\<rparr>) i = find_trunk_by_id demo_b2bua i" for x n i
      by (simp add: find_trunk_by_id_def)
    have new: "bb_local_addr demo_b2bua = (''0.0.0.0'', 5060)" "bb_next_uuid demo_b2bua = 0" "bb_sent demo_b2bua = []"
      "bb_sessions demo_b2bua = new_session_manager"
      by (simp_all add: demo_b2bua_def new_b2bua_def default_class4_config_def)
    have "dec 0 = ''0''" by code_simp
    then have env: "be_uuid c4_demo_env 0 = ''0''" "be_now c4_demo_env = 0" "be_can_send c4_demo_env a" for a
      by (simp_all add: c4_demo_env_def)
    show ?thesis
      using demo_no_oli demo_customer tag trunk new env id
      by (simp add: process_traffic_def process_origination_traffic_def originate_to_customer_def act_simps
          create_origination_session_def create_session_def fresh_uuid_def more deliver_to_customer_def
          with_ani_ii_def demo_call_def demo_session_def demo_trunk_config_def demo_addr_def)
  qed
  finally show ?thesis
    using len valid by (simp add: process_sip_message_def demo_parsed_invite)
qed
lemma demo_peers: "parse_sip_message (demo_text ''INVITE sip:a SIP/2.0'') = Some m \<Longrightarrow> peer_ids dec m"
  by (auto simp: demo_parsed_invite peer_ids_def demo_headers_def b_leg_id_def)

lemma inj_dec: "inj dec"
  by (simp add: inj_def)

lemma demo_reachable: "b2bua_reachable dec demo_call"
proof (rule b2bua_reachable.message [where b = demo_b2bua])
  show "b2bua_reachable dec demo_b2bua"
    unfolding demo_b2bua_def by (rule b2bua_reachable.start) (simp add: new_advancement_engine_def)
qed (use demo_call_reached demo_peers in \<open>auto simp: c4_demo_env_def demo_b2bua_def new_b2bua_def\<close>)

lemma demo_lookup: "get_session_by_any_call_id (bb_sessions demo_call) ''c'' = Some demo_session"
  by (simp add: demo_call_def get_session_by_any_call_id_def add_session_def new_session_manager_def get_session_def
    demo_session_def new_session_def)

section \<open>The books\<close>

text \<open>C4: Whatever messages arrive, as long as the cleanup task runs between two handled messages and not in the
  middle of a handler, no message carries as its Call-ID the identifier the switch gives to a second leg
  (\<open>peer_ids\<close>), drawn identifiers differ and fewer than \<open>2 ^ 32\<close> have been drawn: the number of active
  sessions is counted exactly, every call identifier of a first leg leads to its session, and every known
  identifier leads to a session that has it.\<close>

theorem b2bua_books_consistent:
  assumes "b2bua_reachable uuid b" and "inj uuid"
  shows "unat (st_active_sessions (sm_stats (bb_sessions b))) = length (sm_active_sessions (bb_sessions b)) \<and>
    (\<forall>i c. get_session (bb_sessions b) i = Some c \<longrightarrow>
       get_session_by_any_call_id (bb_sessions b) (lg_call_id (ses_a_leg c)) = Some c) \<and>
    (\<forall>k. session_exists (bb_sessions b) k \<longrightarrow>
       (\<exists>c. get_session_by_any_call_id (bb_sessions b) k = Some c \<and> k \<in> leg_ids c))"
proof -
  note ok = b2bua_okD(1) [OF b2bua_invariant [OF assms]]
  have "get_session_by_any_call_id (bb_sessions b) (lg_call_id (ses_a_leg c)) = Some c"
    if "get_session (bb_sessions b) i = Some c" for i c
    using sessions_okD(1) [OF ok that] that by (simp add: session_ok_def get_session_by_any_call_id_def)
  moreover have "\<exists>c. get_session_by_any_call_id (bb_sessions b) k = Some c \<and> k \<in> leg_ids c"
    if "session_exists (bb_sessions b) k" for k
    using that sessions_okD(2) [OF ok] by (fastforce simp: session_exists_def get_session_by_any_call_id_def)
  ultimately show ?thesis using sessions_okD(3) [OF ok] by blast
qed

theorem b2bua_books_consistent_witness:
  "unat (st_active_sessions (sm_stats (bb_sessions demo_call))) = length (sm_active_sessions (bb_sessions demo_call)) \<and>
   sm_active_sessions (bb_sessions demo_call) \<noteq> []"
  using b2bua_books_consistent [OF demo_reachable inj_dec]
  by (simp add: demo_call_def add_session_def new_session_manager_def Let_def)

section \<open>Failures, hang-ups and long calls\<close>

text \<open>C5: A failure from the called side strands the call: the handler fails because the advancement engine
  does not know the call, which the switch never tells it; no other route is tried, the caller gets no
  answer, no record is written, and the session stays.\<close>

theorem error_response_strands_call:
  assumes "b2bua_reachable uuid b" and "inj uuid"
    and "length msg \<ge> 10" and "parse_sip_message msg = Some m" and "validate_sip_message m"
    and "sg_method m = None" and "sg_status_code m = Some code" and "300 \<le> code" and "code \<le> 699"
    and "map_of (sg_headers m) ''Call-ID'' = Some k" and "get_session_by_any_call_id (bb_sessions b) k = Some s"
  shows "process_sip_message env msg addr b = (Failed (AdvancementFailed (StateNotFound (ses_session_id s))), b)"
proof -
  have "\<not> code \<le> 199" "\<not> code \<le> 299"
    using assms(8) by (simp_all add: word_le_nat_alt)
  then show ?thesis
    using assms advance_route_fails [OF b2bua_invariant [OF assms(1,2)], of env "ses_session_id s"]
    by (simp add: process_sip_message_def handle_sip_response_def handle_error_response_def act_simps Let_def)
qed

definition busy_text :: string where
  "busy_text = demo_text ''SIP/2.0 486 Busy Here''"

lemma busy_parsed:
  "parse_sip_message busy_text =
    Some \<lparr>sg_method = None, sg_status_code = Some 486, sg_reason_phrase = Some ''Busy Here'', sg_headers = demo_headers\<rparr>"
  by (simp add: busy_text_def demo_text_def parse_sip_message_def parse_first_line_def str_lines_def strip_cr_def
      crlf_def header_lines_def demo_headers_def split_space_def is_space_def trim_space_def parse_unsigned_def
      parse_digits_def is_digit_def undec_def)

theorem error_response_strands_call_witness:
  "process_sip_message c4_demo_env busy_text demo_addr demo_call =
     (Failed (AdvancementFailed (StateNotFound (ses_session_id demo_session))), demo_call)"
  by (rule error_response_strands_call [where code = 486, OF demo_reachable inj_dec _ busy_parsed _ _ _ _ _ _ demo_lookup])
    (simp_all add: validate_sip_message_def has_header_def demo_headers_def busy_text_def demo_text_def)

text \<open>C6: A BYE for a known call ends it in the books, with its record written, and the party that hung up gets
  its answer; nothing is sent to the other party, whose leg stays up.\<close>

theorem bye_not_forwarded:
  assumes "map_of (sg_headers m) ''Call-ID'' = Some k" and "get_session_by_any_call_id (bb_sessions b) k = Some s"
    and "b2bua_reachable uuid b" and "inj uuid" and "be_can_send env addr" and "handle_bye env m addr b = (r, b')"
  shows "r = Done () \<and> bb_sent b' = bb_sent b @ [(addr, sip_response_text k 200 ''OK'' [])] \<and>
    bb_cdrs b' = bb_cdrs b @ (if kc_enable_cdr_generation (bb_config b)
      then [final_cdr b (be_now env) 200 ''Normal clearing'' s] else []) \<and>
    bb_sessions b' = remove_session (ses_session_id s) (bb_sessions b) \<and>
    get_session_by_any_call_id (bb_sessions b') k = None"
proof -
  note ok = b2bua_invariant [OF assms(3,4)]
  obtain i where i: "leads_to (bb_sessions b) k = Some i" "get_session (bb_sessions b) i = Some s"
    using assms(2) by (auto simp: get_session_by_any_call_id_def split: option.splits)
  then have id: "ses_session_id s = i" using stored_id [OF ok] by blast
  have run: "r = Done ()" "bb_sent b' = bb_sent b @ [(addr, sip_response_text k 200 ''OK'' [])]"
    "bb_cdrs b' = bb_cdrs b @ (if kc_enable_cdr_generation (bb_config b)
      then [final_cdr b (be_now env) 200 ''Normal clearing'' s] else [])"
    "bb_sessions b' = remove_session i (bb_sessions b)"
    using assms(1,2,5,6) i id
    by (auto simp: handle_bye_def end_session_request_def terminate_session_def generate_cdr_def act_simps)
  from sessions_okD(2) [OF b2bua_okD(1) [OF ok] i(1)] i(2) have "k \<in> leg_ids s" by simp
  then have "leads_to (remove_session i (bb_sessions b)) k = None"
    by (simp add: leads_to_remove [OF b2bua_okD(1) [OF ok] i(2)])
  with run id show ?thesis by (simp add: get_session_by_any_call_id_def)
qed

theorem bye_not_forwarded_witness:
  "bb_sent (snd (handle_bye c4_demo_env \<lparr>sg_method = Some ''BYE'', sg_status_code = None, sg_reason_phrase = None,
       sg_headers = demo_headers\<rparr> demo_addr demo_call)) =
     bb_sent demo_call @ [(demo_addr, sip_response_text ''c'' 200 ''OK'' [])]"
  using bye_not_forwarded [OF _ demo_lookup demo_reachable inj_dec _ prod.collapse [symmetric], of
      "\<lparr>sg_method = Some ''BYE'', sg_status_code = None, sg_reason_phrase = None, sg_headers = demo_headers\<rparr>"
      c4_demo_env demo_addr]
  by (simp add: demo_headers_def c4_demo_env_def)

lemma get_session_fold_remove:
  "get_session (fold remove_session is m) i = (if i \<in> set is then None else get_session m i)"
  by (induction "is" arbitrary: m) simp_all

text \<open>C7: A call that lasts longer than the call timeout is forgotten by the next cleanup, talking or not: its
  session goes, no message is sent and no record is written; and the minutes of calls are never
  counted.\<close>

theorem long_calls_forgotten:
  assumes "b2bua_reachable uuid b" and "inj uuid" and "get_session (bb_sessions b) i = Some c"
    and "ses_created_at c < now - int (kc_call_timeout_seconds (bb_config b)) * 1000"
  shows "get_session (bb_sessions (session_cleanup now b)) i = None \<and>
    bb_cdrs (session_cleanup now b) = bb_cdrs b \<and> bb_sent (session_cleanup now b) = bb_sent b \<and>
    st_total_call_minutes (sm_stats (bb_sessions (session_cleanup now b))) = 0"
proof -
  note ok = b2bua_invariant [OF assms(1,2)]
  have "ses_last_activity c = ses_created_at c" using b2bua_okD(2) [OF ok assms(3)] by (simp add: call_ok_def)
  moreover have "(i, c) \<in> set (sm_active_sessions (bb_sessions b))"
    using assms(3) by (simp add: get_session_def map_of_SomeD)
  ultimately have "i \<in> set (map fst (filter (\<lambda>(_, c). ses_last_activity c <
      now - int (kc_call_timeout_seconds (bb_config b)) * 1000) (sm_active_sessions (bb_sessions b))))"
    using assms(4) by force
  moreover have "st_total_call_minutes (sm_stats (bb_sessions (session_cleanup now b))) = 0"
    by (rule b2bua_okD(5) [OF b2bua_ok_cleanup [OF ok]])
  ultimately show ?thesis
    by (simp add: session_cleanup_def cleanup_expired_sessions_def get_session_fold_remove Let_def)
qed

theorem long_calls_forgotten_witness:
  "get_session (bb_sessions (session_cleanup 1800001 demo_call)) ''0'' = None"
  using long_calls_forgotten [OF demo_reachable inj_dec, of "''0''" demo_session 1800001]
  by (simp add: demo_call_def demo_b2bua_def new_b2bua_def default_class4_config_def add_session_def get_session_def
    demo_session_def new_session_def c4_demo_env_def Let_def)

section \<open>Answers\<close>

text \<open>C8: An answer from the called side connects the call: the stored session is connected, with the time of
  the answer and the codec PCMU without transcoding whatever the parties offered, and the answer is sent on
  to the caller under the identifier of its leg. A repeated answer moves the time on.\<close>

theorem answer_connects_call:
  assumes "b2bua_reachable uuid b" and "inj uuid"
    and "sg_status_code m = Some 200" and "map_of (sg_headers m) ''Call-ID'' = Some k"
    and "get_session_by_any_call_id (bb_sessions b) k = Some s"
    and "be_can_send env (lg_remote_addr (ses_a_leg s))" and "handle_sip_response env m b = (r, b')"
  shows "\<exists>t. get_session (bb_sessions b') (ses_session_id s) = Some t \<and> ses_state t = SS_Connected \<and>
    cd_answer_time (ses_cdr t) = Some (be_now env) \<and> cd_codec_negotiated (ses_cdr t) = Some ''PCMU'' \<and>
    \<not> cd_transcoding_used (ses_cdr t) \<and> ses_a_leg t = ses_a_leg s \<and> ses_b_leg t = ses_b_leg s \<and>
    bb_sent b' = bb_sent b @ [(lg_remote_addr (ses_a_leg s), create_forwarded_response t 200 ''OK'' m)]"
proof -
  note ok = b2bua_invariant [OF assms(1,2)]
  from found_session [OF ok assms(5)] obtain m0 where
    m0: "cn_a_leg_codecs (ses_codec_negotiation s) = extract_codecs m0"
    by (auto simp: holds_session_def call_ok_def)
  have n: "\<not> (100 \<le> (200 :: u16) \<and> (200 :: u16) \<le> 199)" by simp
  show ?thesis
    using assms(3-7) m0
    by (auto simp: handle_sip_response_def handle_success_response_def act_simps Let_def
        negotiation_settles_on_PCMU [of _ m0])
qed

theorem answer_connects_call_witness:
  "\<exists>t. get_session (bb_sessions (snd (handle_sip_response c4_demo_env \<lparr>sg_method = None, sg_status_code = Some 200,
       sg_reason_phrase = Some ''OK'', sg_headers = demo_headers\<rparr> demo_call))) (ses_session_id demo_session) = Some t \<and>
     ses_state t = SS_Connected"
  using answer_connects_call [OF demo_reachable inj_dec _ _ demo_lookup _ prod.collapse [symmetric], of
      "\<lparr>sg_method = None, sg_status_code = Some 200, sg_reason_phrase = Some ''OK'', sg_headers = demo_headers\<rparr>" c4_demo_env]
  by (auto simp: demo_headers_def c4_demo_env_def)

section \<open>The INVITE of the second leg\<close>

lemma strip_cr_no: "CHR 0x0D \<notin> set s \<Longrightarrow> strip_cr (s @ [CHR 0x0D]) = s"
  by (simp add: strip_cr_def)

text \<open>The INVITE that the switch sends to a carrier has no header at all: a switch of the same kind drops it
  as invalid without an answer.\<close>

theorem own_invite_is_invalid:
  assumes "CHR 0x0A \<notin> set (cd_dnis (ses_cdr s))" and "CHR 0x0A \<notin> set (et_host (rt_trunk route))"
  shows "case parse_sip_message (create_b_leg_invite s route) of
    None \<Rightarrow> False | Some m \<Rightarrow> sg_headers m = [] \<and> \<not> validate_sip_message m"
proof -
  define l where "l = ''INVITE sip:'' @ cd_dnis (ses_cdr s) @ ''@'' @ et_host (rt_trunk route) @ '':'' @
    dec_word (et_port (rt_trunk route)) @ '' SIP/2.0''"
  have "CHR 0x0A \<notin> set (dec_word (et_port (rt_trunk route)))"
    using dec_digits by (fastforce simp: dec_word_def is_digit_def)
  with assms have l: "CHR 0x0A \<notin> set (l @ [CHR 0x0D])" by (simp add: l_def)
  have invite: "create_b_leg_invite s route = (l @ [CHR 0x0D]) @ CHR 0x0A # [CHR 0x0D, CHR 0x0A]"
    by (simp add: create_b_leg_invite_def l_def crlf_def)
  have split: "split_char CHR 0x0A (create_b_leg_invite s route) = [l @ [CHR 0x0D], [CHR 0x0D], []]"
    unfolding invite by (subst split_char_append [OF l]) simp
  show ?thesis
    by (simp add: parse_sip_message_def str_lines_def split Let_def strip_cr_def validate_sip_message_def has_header_def
        trim_space_def split_beta)
qed

definition demo_route :: call_route where
  "demo_route = plain_route 1"

theorem own_invite_is_invalid_witness:
  "case parse_sip_message (create_b_leg_invite demo_session demo_route) of
     None \<Rightarrow> False | Some m \<Rightarrow> sg_headers m = [] \<and> \<not> validate_sip_message m"
  by (rule own_invite_is_invalid)
    (simp_all add: demo_session_def new_session_def blank_cdr_def demo_route_def plain_route_def)

end
