(* ===== verification/Class4Locks.thy ===== *)
theory Class4Locks
  imports Main
begin

text \<open>
  The locks of the session manager of the class 4 B2BUA (\<open>SessionManager\<close> of
  \<open>src/class4_b2bua.rs\<close>): which of its three read-write locks each method takes, in which
  order, and when it lets go of them. Tasks run the methods concurrently; a step takes or drops one lock.
  Two tasks are at work in the program: the one that receives messages and the one that cleans up.
\<close>

section \<open>Methods as sequences of lock operations\<close>

datatype session_lock = ActiveSessions | CallIdMapping | SessionStatistics

text \<open>Take a lock, for writing or for reading, and drop it.\<close>

datatype lock_action = Take bool session_lock | Drop session_lock

datatype manager_op = Op_add_session | Op_get_session | Op_get_session_by_any_call_id | Op_session_exists
  | Op_update_session | Op_map_leg | Op_remove_session | Op_expired_sessions | Op_get_stats

text \<open>Guards are dropped in the reverse order of their declaration. The lookup by a call identifier, of a
  known call, keeps the mapping while it reads the sessions.\<close>

fun lock_actions :: "manager_op \<Rightarrow> lock_action list" where
  "lock_actions Op_add_session = [Take True ActiveSessions, Take True CallIdMapping, Take True SessionStatistics,
     Drop SessionStatistics, Drop CallIdMapping, Drop ActiveSessions]"
| "lock_actions Op_get_session = [Take False ActiveSessions, Drop ActiveSessions]"
| "lock_actions Op_get_session_by_any_call_id = [Take False CallIdMapping, Take False ActiveSessions,
     Drop ActiveSessions, Drop CallIdMapping]"
| "lock_actions Op_session_exists = [Take False CallIdMapping, Drop CallIdMapping]"
| "lock_actions Op_update_session = [Take True ActiveSessions, Drop ActiveSessions]"
| "lock_actions Op_map_leg = [Take True CallIdMapping, Drop CallIdMapping]"
| "lock_actions Op_remove_session = [Take True ActiveSessions, Take True CallIdMapping, Take True SessionStatistics,
     Drop SessionStatistics, Drop CallIdMapping, Drop ActiveSessions]"
| "lock_actions Op_expired_sessions = [Take False ActiveSessions, Drop ActiveSessions]"
| "lock_actions Op_get_stats = [Take False SessionStatistics, Drop SessionStatistics]"

section \<open>Concurrent tasks\<close>

record lock_task =
  tk_held :: "(session_lock \<times> bool) list"
  tk_todo :: "lock_action list"

definition run_ops :: "manager_op list \<Rightarrow> lock_task" where
  "run_ops ops = \<lparr>tk_held = [], tk_todo = concat (map lock_actions ops)\<rparr>"

text \<open>A lock can be written by nobody else holding it, and read by nobody else writing it.\<close>

definition lock_free :: "lock_task list \<Rightarrow> bool \<Rightarrow> session_lock \<Rightarrow> bool" where
  "lock_free ts write l \<longleftrightarrow> list_all (\<lambda>t. \<not> list_ex (\<lambda>(h, w). h = l \<and> (write \<or> w)) (tk_held t)) ts"

inductive lock_step :: "lock_task list \<Rightarrow> lock_task list \<Rightarrow> bool" where
  take_lock: "i < length ts \<Longrightarrow> tk_todo (ts ! i) = Take w l # rest \<Longrightarrow> lock_free ts w l \<Longrightarrow>
    lock_step ts (ts[i := \<lparr>tk_held = (l, w) # tk_held (ts ! i), tk_todo = rest\<rparr>])"
| drop_lock: "i < length ts \<Longrightarrow> tk_todo (ts ! i) = Drop l # rest \<Longrightarrow>
    lock_step ts (ts[i := \<lparr>tk_held = filter (\<lambda>(h, w). h \<noteq> l) (tk_held (ts ! i)), tk_todo = rest\<rparr>])"

inductive_cases lock_stepE: "lock_step ts ts'"

text \<open>Waiting tasks, none of which can go on.\<close>

definition deadlocked :: "lock_task list \<Rightarrow> bool" where
  "deadlocked ts \<longleftrightarrow> (\<exists>t \<in> set ts. tk_todo t \<noteq> []) \<and> (\<forall>ts'. \<not> lock_step ts ts')"

definition finished :: "lock_task list \<Rightarrow> bool" where
  "finished ts \<longleftrightarrow> list_all (\<lambda>t. tk_todo t = []) ts"

section \<open>The deadlock\<close>

text \<open>C10: One task looks a message's call up while the other removes an expired session: the first holds the
  mapping and waits for the sessions, the second holds the sessions and waits for the mapping, and the
  switch handles no message any more.\<close>

theorem session_locks_deadlock:
  "\<exists>ts. lock_step\<^sup>*\<^sup>* [run_ops [Op_get_session_by_any_call_id], run_ops [Op_expired_sessions, Op_remove_session]] ts \<and>
     deadlocked ts"
proof -
  let ?lookup = "\<lparr>tk_held = [(CallIdMapping, False)],
    tk_todo = [Take False ActiveSessions, Drop ActiveSessions, Drop CallIdMapping]\<rparr>"
  let ?remove = "\<lparr>tk_held = [(ActiveSessions, True)],
    tk_todo = [Take True CallIdMapping, Take True SessionStatistics,
      Drop SessionStatistics, Drop CallIdMapping, Drop ActiveSessions]\<rparr>"
  let ?a = "run_ops [Op_get_session_by_any_call_id]" and ?b = "run_ops [Op_expired_sessions, Op_remove_session]"
  let ?b1 = "\<lparr>tk_held = [(ActiveSessions, False)], tk_todo = tl (tk_todo ?b)\<rparr>"
  let ?b2 = "\<lparr>tk_held = [], tk_todo = tl (tl (tk_todo ?b))\<rparr>"
  have "lock_step [?a, ?b] [?a, ?b1]"
    using take_lock [of 1 "[?a, ?b]" False ActiveSessions] by (simp add: run_ops_def lock_free_def)
  moreover have "lock_step [?a, ?b1] [?a, ?b2]"
    using drop_lock [of 1 "[?a, ?b1]" ActiveSessions] by (simp add: run_ops_def)
  moreover have "lock_step [?a, ?b2] [?lookup, ?b2]"
    using take_lock [of 0 "[?a, ?b2]" False CallIdMapping] by (simp add: run_ops_def lock_free_def)
  moreover have "lock_step [?lookup, ?b2] [?lookup, ?remove]"
    using take_lock [of 1 "[?lookup, ?b2]" True ActiveSessions] by (simp add: run_ops_def lock_free_def)
  ultimately have "lock_step\<^sup>*\<^sup>* [?a, ?b] [?lookup, ?remove]"
    by (meson rtranclp.rtrancl_into_rtrancl rtranclp.rtrancl_refl)
  moreover have "\<not> lock_step [?lookup, ?remove] ts'" for ts'
    by (auto simp: lock_free_def less_Suc_eq nth_Cons' elim!: lock_stepE)
  ultimately show ?thesis unfolding deadlocked_def by fastforce
qed

section \<open>Without the lookup\<close>

text \<open>The order of the locks that all other methods follow.\<close>

fun lock_rank :: "session_lock \<Rightarrow> nat" where
  "lock_rank ActiveSessions = 0" | "lock_rank CallIdMapping = 1" | "lock_rank SessionStatistics = 2"

fun orderly :: "session_lock list \<Rightarrow> lock_action list \<Rightarrow> bool" where
  "orderly held [] = (held = [])"
| "orderly held (Take w l # as) = ((\<forall>h \<in> set held. lock_rank h < lock_rank l) \<and> orderly (l # held) as)"
| "orderly held (Drop l # as) = orderly (filter (\<lambda>h. h \<noteq> l) held) as"

definition orderly_task :: "lock_task \<Rightarrow> bool" where
  "orderly_task t \<longleftrightarrow> orderly (map fst (tk_held t)) (tk_todo t)"

lemma orderly_append: "orderly held as \<Longrightarrow> orderly [] bs \<Longrightarrow> orderly held (as @ bs)"
  by (induction held as rule: orderly.induct) auto

lemma orderly_ops: "Op_get_session_by_any_call_id \<notin> set ops \<Longrightarrow> orderly_task (run_ops ops)"
proof -
  have one: "op \<noteq> Op_get_session_by_any_call_id \<Longrightarrow> orderly [] (lock_actions op)" for op
    by (cases op) auto
  have "Op_get_session_by_any_call_id \<notin> set ops \<Longrightarrow> orderly [] (concat (map lock_actions ops))"
    by (induction ops) (auto intro!: orderly_append one)
  then show "Op_get_session_by_any_call_id \<notin> set ops \<Longrightarrow> orderly_task (run_ops ops)"
    by (simp add: orderly_task_def run_ops_def)
qed

lemma map_fst_filter: "map fst (filter (\<lambda>(h, w). h \<noteq> l) xs) = filter (\<lambda>h. h \<noteq> l) (map fst xs)"
  by (induction xs) auto

lemma lock_step_orderly:
  "lock_step ts ts' \<Longrightarrow> list_all orderly_task ts \<Longrightarrow> list_all orderly_task ts'"
proof (induction rule: lock_step.induct)
  case (take_lock i ts w l rest)
  then have "orderly_task (ts ! i)" by (simp add: list_all_length)
  with take_lock show ?case by (auto simp: list_all_length nth_list_update orderly_task_def)
next
  case (drop_lock i ts l rest)
  then have "orderly_task (ts ! i)" by (simp add: list_all_length)
  with drop_lock show ?case by (auto simp: list_all_length nth_list_update orderly_task_def map_fst_filter)
qed

text \<open>The lock a task waits for.\<close>

definition wanted :: "lock_task \<Rightarrow> nat" where
  "wanted t = (case tk_todo t of Take w l # _ \<Rightarrow> lock_rank l | _ \<Rightarrow> 0)"

text \<open>The task that waits for the last lock of all can go on: its holder would wait for a later one.\<close>

lemma orderly_progress:
  assumes "list_all orderly_task ts" and "\<not> finished ts"
  shows "\<exists>ts'. lock_step ts ts'"
proof (cases "\<exists>i < length ts. \<exists>l rest. tk_todo (ts ! i) = Drop l # rest")
  case True
  then show ?thesis using drop_lock by blast
next
  case False
  have waits: "\<exists>w l rest. tk_todo t = Take w l # rest" if t: "t \<in> set ts" "tk_todo t \<noteq> []" for t
  proof -
    obtain i where "i < length ts" "ts ! i = t" using t(1) by (auto simp: in_set_conv_nth)
    with False t(2) show ?thesis by (cases "tk_todo t"; cases "hd (tk_todo t)") auto
  qed
  let ?open = "{t \<in> set ts. tk_todo t \<noteq> []}"
  have "finite ?open" "?open \<noteq> {}" using assms(2) by (auto simp: finished_def list_all_iff)
  then obtain t where t: "t \<in> ?open" and max: "\<forall>u \<in> ?open. wanted u \<le> wanted t"
    using Max_in [of "wanted ` ?open"] Max_ge [of "wanted ` ?open"] by fastforce
  obtain w l rest where todo: "tk_todo t = Take w l # rest" using waits t by blast
  have "l \<notin> fst ` set (tk_held u)" if u: "u \<in> set ts" for u
  proof
    assume held: "l \<in> fst ` set (tk_held u)"
    have o: "orderly (map fst (tk_held u)) (tk_todo u)" using assms(1) u by (simp add: list_all_iff orderly_task_def)
    with held have "tk_todo u \<noteq> []" by auto
    with waits u obtain w' l' rest' where u': "tk_todo u = Take w' l' # rest'" by blast
    with o held have "lock_rank l < lock_rank l'" by auto
    moreover have "wanted u \<le> wanted t" using max u \<open>tk_todo u \<noteq> []\<close> by blast
    ultimately show False using todo u' by (simp add: wanted_def)
  qed
  then have free: "lock_free ts w l" by (force simp: lock_free_def list_all_iff list_ex_iff)
  obtain i where "i < length ts" "ts ! i = t" using t by (auto simp: in_set_conv_nth)
  with take_lock [OF _ _ free] todo show ?thesis by blast
qed

definition actions_left :: "lock_task list \<Rightarrow> nat" where
  "actions_left ts = sum_list (map (\<lambda>t. length (tk_todo t)) ts)"

lemma actions_left_update:
  "i < length ts \<Longrightarrow> actions_left (ts[i := t]) + length (tk_todo (ts ! i)) = actions_left ts + length (tk_todo t)"
  by (induction ts arbitrary: i) (auto simp: actions_left_def nth_Cons split: nat.splits)

lemma lock_step_decreases: "lock_step ts ts' \<Longrightarrow> actions_left ts' + 1 = actions_left ts"
proof (induction rule: lock_step.induct)
  case (take_lock i ts w l rest)
  then show ?case
    using actions_left_update [of i ts "\<lparr>tk_held = (l, w) # tk_held (ts ! i), tk_todo = rest\<rparr>"] by simp
next
  case (drop_lock i ts l rest)
  then show ?case
    using actions_left_update [of i ts "\<lparr>tk_held = filter (\<lambda>(h, w). h \<noteq> l) (tk_held (ts ! i)), tk_todo = rest\<rparr>"]
    by simp
qed

lemma lock_run_bound: "(lock_step ^^ n) ts ts' \<Longrightarrow> actions_left ts' + n = actions_left ts"
  by (induction n arbitrary: ts') (fastforce dest: lock_step_decreases)+

lemma lock_run_orderly: "lock_step\<^sup>*\<^sup>* ts ts' \<Longrightarrow> list_all orderly_task ts \<Longrightarrow> list_all orderly_task ts'"
  by (induction rule: rtranclp_induct) (auto dest: lock_step_orderly)

text \<open>C11: Any number of tasks that run the methods of the manager but the lookup by a call identifier come to an
  end: no run has more steps than there are lock operations, no reachable state is a deadlock, and a state
  without a next step is one where all tasks are done.\<close>

theorem orderly_tasks_complete:
  assumes "\<forall>ops \<in> set opss. Op_get_session_by_any_call_id \<notin> set ops"
  defines "ts \<equiv> map run_ops opss"
  shows "(\<forall>n ts'. (lock_step ^^ n) ts ts' \<longrightarrow> n \<le> actions_left ts) \<and>
    (\<forall>ts'. lock_step\<^sup>*\<^sup>* ts ts' \<longrightarrow> \<not> deadlocked ts' \<and> ((\<exists>ts''. lock_step ts' ts'') \<or> finished ts'))"
proof -
  have "list_all orderly_task ts" using assms orderly_ops by (auto simp: ts_def list_all_iff)
  then have "\<not> deadlocked ts' \<and> ((\<exists>ts''. lock_step ts' ts'') \<or> finished ts')" if "lock_step\<^sup>*\<^sup>* ts ts'" for ts'
    using orderly_progress [OF lock_run_orderly [OF that]]
    by (auto simp: deadlocked_def finished_def list_all_iff)
  moreover have "n \<le> actions_left ts" if "(lock_step ^^ n) ts ts'" for n ts'
    using lock_run_bound [OF that] by simp
  ultimately show ?thesis by blast
qed

theorem orderly_tasks_complete_witness:
  "{ts. lock_step\<^sup>*\<^sup>* [run_ops [Op_session_exists, Op_add_session], run_ops [Op_expired_sessions, Op_remove_session]] ts \<and>
     deadlocked ts} = {}"
  using orderly_tasks_complete [of "[[Op_session_exists, Op_add_session], [Op_expired_sessions, Op_remove_session]]"]
  by auto

end
