(* ===== verification/SipAuth.thy ===== *)
theory SipAuth
  imports RustStrings "HOL-Library.AList"
begin

text \<open>
  Authentication of SIP requests (\<open>redfire-sip-stack/src/authentication.rs\<close>): trunks known by
  their address, digest credentials, the call-rate limit of a trunk, and the format \<open>PREFIX*E164\<close>
  of the user part of a request URI. The reading of network addresses (\<open>ipnet\<close>) and the two hash
  functions are arguments; a message of \<open>rsip\<close> is reduced to the user part of its URI and its
  headers, each with the text its \<open>to_string\<close> gives. Instants are nanoseconds. The maps of the code
  are association lists, whose order is the one in which the map is walked. The recording of failures
  is a stub in this crate that ignores its arguments and always succeeds, so it is left out.
\<close>

section \<open>Tech prefixes\<close>

definition decode_ruri_user :: "string \<Rightarrow> string option \<times> string" where
  "decode_ruri_user u =
    (if CHR ''*'' \<notin> set u then (None, u)
     else
       let i = the (if starts_with u ''*'' then rfind_char CHR ''*'' u else find_char CHR ''*'' u)
       in (Some (take i u), drop (i + 1) u))"

definition encode_ruri_user :: "string option \<Rightarrow> string \<Rightarrow> string" where
  "encode_ruri_user tech_prefix dialed =
    (case tech_prefix of Some p \<Rightarrow> p @ ''*'' @ dialed | None \<Rightarrow> dialed)"

section \<open>Trunks known by their address\<close>

datatype auth_failure_reason = UnauthorizedIp | InvalidTechPrefix | TrunkRateExceeded | InvalidCredentials
  | TrunkSuspended | ConfigurationError

datatype digest_algorithm = DA_MD5 | DA_SHA256

datatype sip_auth_result =
    Authorized string string "string option" "u32 option"
  | Denied auth_failure_reason
  | Challenge string string digest_algorithm

record auth_env =
  ae_network :: "string \<Rightarrow> (string \<Rightarrow> bool) option"
  ae_md5 :: "string \<Rightarrow> string"
  ae_sha256 :: "string \<Rightarrow> string"

record ip_auth_config =
  ipc_trunk_id :: string
  ipc_customer_id :: string
  ipc_allowed_networks :: "string list"
  ipc_required_tech_prefix :: "string option"
  ipc_optional_tech_prefixes :: "string list"
  ipc_rate_limit :: "u32 option"
  ipc_enabled :: bool
  ipc_priority :: u32

definition is_ip_authorized :: "auth_env \<Rightarrow> ip_auth_config \<Rightarrow> string \<Rightarrow> bool" where
  "is_ip_authorized env c ip =
    (ipc_enabled c \<and>
     list_ex (\<lambda>net. case ae_network env net of Some contains \<Rightarrow> contains ip | None \<Rightarrow> False) (ipc_allowed_networks c))"

definition validate_tech_prefix :: "ip_auth_config \<Rightarrow> string option \<Rightarrow> bool" where
  "validate_tech_prefix c prefix =
    (case (ipc_required_tech_prefix c, prefix) of
       (Some required, Some provided) \<Rightarrow> required = provided \<or> provided \<in> set (ipc_optional_tech_prefixes c)
     | (Some _, None) \<Rightarrow> False
     | (None, _) \<Rightarrow> True)"

definition get_tech_prefix :: "ip_auth_config \<Rightarrow> string option \<Rightarrow> string option" where
  "get_tech_prefix c provided =
    (case provided of
       Some p \<Rightarrow> if validate_tech_prefix c (Some p) then Some p else ipc_required_tech_prefix c
     | None \<Rightarrow> ipc_required_tech_prefix c)"

section \<open>Digest credentials\<close>

record digest_credentials =
  dgc_username :: string
  dgc_password_hash :: string
  dgc_realm :: string
  dgc_customer_id :: string
  dgc_enabled :: bool

text \<open>The bytes are compared without leaving at the first difference.\<close>

definition constant_time_str_eq :: "string \<Rightarrow> string \<Rightarrow> bool" where
  "constant_time_str_eq a b =
    (let a = str_bytes a; b = str_bytes b
     in if length a \<noteq> length b then False
        else foldl (\<lambda>diff (x, y). or diff (xor x y)) 0 (zip a b) = 0)"

definition calculate_digest_response ::
    "auth_env \<Rightarrow> digest_credentials \<Rightarrow> string \<Rightarrow> string \<Rightarrow> string \<Rightarrow> digest_algorithm \<Rightarrow> string" where
  "calculate_digest_response env c realm nonce uri algorithm =
    (let hash = (case algorithm of DA_MD5 \<Rightarrow> ae_md5 env | DA_SHA256 \<Rightarrow> ae_sha256 env);
         ha1 = hash (dgc_username c @ '':'' @ realm @ '':'' @ dgc_password_hash c);
         ha2 = hash (''INVITE:'' @ uri)
     in hash (ha1 @ '':'' @ nonce @ '':'' @ ha2))"

definition verify_digest ::
    "auth_env \<Rightarrow> digest_credentials \<Rightarrow> string \<Rightarrow> string \<Rightarrow> string \<Rightarrow> string \<Rightarrow> string \<Rightarrow> digest_algorithm \<Rightarrow> bool" where
  "verify_digest env c username realm nonce uri response algorithm =
    (if \<not> dgc_enabled c \<or> dgc_username c \<noteq> username \<or> dgc_realm c \<noteq> realm then False
     else constant_time_str_eq (calculate_digest_response env c realm nonce uri algorithm) response)"

section \<open>The rate limit\<close>

record sip_rate_limiter =
  srl_call_counts :: "(string \<times> (u32 \<times> nat)) list"
  srl_window_seconds :: nat

definition new_sip_rate_limiter :: "nat \<Rightarrow> sip_rate_limiter" where
  "new_sip_rate_limiter window_seconds = \<lparr>srl_call_counts = [], srl_window_seconds = window_seconds\<rparr>"

definition is_rate_limited :: "nat \<Rightarrow> string \<Rightarrow> u32 \<Rightarrow> sip_rate_limiter \<Rightarrow> bool \<times> sip_rate_limiter" where
  "is_rate_limited now key limit l =
    (let (count, last_reset) = (case map_of (srl_call_counts l) key of Some e \<Rightarrow> e | None \<Rightarrow> (0, now));
         (count, last_reset) = (if srl_window_seconds l \<le> (now - last_reset) div 1000000000 then (0, now)
           else (count, last_reset));
         count = count + 1
     in (limit < count, l\<lparr>srl_call_counts := AList.update key (count, last_reset) (srl_call_counts l)\<rparr>))"

section \<open>The authenticator\<close>

record sip_authenticator =
  sau_ip_auth_configs :: "(string \<times> ip_auth_config) list"
  sau_digest_credentials :: "(string \<times> digest_credentials) list"
  sau_rate_limiter :: sip_rate_limiter
  sau_default_realm :: string

definition new_sip_authenticator :: "string \<Rightarrow> sip_authenticator" where
  "new_sip_authenticator default_realm =
    \<lparr>sau_ip_auth_configs = [], sau_digest_credentials = [], sau_rate_limiter = new_sip_rate_limiter 60,
      sau_default_realm = default_realm\<rparr>"

definition add_ip_auth_config :: "ip_auth_config \<Rightarrow> sip_authenticator \<Rightarrow> sip_authenticator" where
  "add_ip_auth_config c a =
    a\<lparr>sau_ip_auth_configs := AList.update (ipc_trunk_id c) c (sau_ip_auth_configs a)\<rparr>"

definition add_digest_credentials :: "string \<Rightarrow> digest_credentials \<Rightarrow> sip_authenticator \<Rightarrow> sip_authenticator" where
  "add_digest_credentials username c a =
    a\<lparr>sau_digest_credentials := AList.update username c (sau_digest_credentials a)\<rparr>"

datatype auth_header = AH_Authorization string | AH_ProxyAuthorization string | AH_CallId string | AH_CSeq string
  | AH_Other string

datatype auth_message = AuthRequest "string option" "auth_header list" | AuthResponse

datatype auth_error = NotARequest | MissingAuthParameter string | UnknownUsername string | NoChallengeHeader string

definition ruri_tech_prefix :: "string option \<Rightarrow> string option" where
  "ruri_tech_prefix user = (case user of Some u \<Rightarrow> fst (decode_ruri_user u) | None \<Rightarrow> None)"

fun extract_authorization_header :: "auth_header list \<Rightarrow> string option" where
  "extract_authorization_header [] = None"
| "extract_authorization_header (AH_Authorization s # hs) = Some s"
| "extract_authorization_header (AH_ProxyAuthorization s # hs) = Some s"
| "extract_authorization_header (_ # hs) = extract_authorization_header hs"

definition trim_matches_char :: "char \<Rightarrow> string \<Rightarrow> string" where
  "trim_matches_char c s = trim_end_char c (dropWhile ((=) c) s)"

definition authorization_part :: "string \<Rightarrow> (string \<times> string) option" where
  "authorization_part part =
    (let part = trim_space part
     in case find_char CHR ''='' part of
          Some i \<Rightarrow> Some (trim_space (take i part), trim_matches_char CHR 0x22 (trim_space (drop (i + 1) part)))
        | None \<Rightarrow> None)"

text \<open>A later parameter replaces an earlier one of the same name.\<close>

definition parse_authorization_header :: "string \<Rightarrow> string \<rightharpoonup> string" where
  "parse_authorization_header header =
    (let header = (if starts_with header ''Digest '' then drop 7 header else header)
     in map_of (rev (List.map_filter authorization_part (split_char CHR '','' header))))"

text \<open>The trunks that know the address, in the order of their priority; the first with a valid prefix decides.\<close>

fun try_configs ::
    "nat \<Rightarrow> string \<Rightarrow> string option \<Rightarrow> ip_auth_config list \<Rightarrow> sip_rate_limiter \<Rightarrow> sip_auth_result option \<times> sip_rate_limiter" where
  "try_configs now ip prefix [] l = (None, l)"
| "try_configs now ip prefix (c # cs) l =
    (if \<not> validate_tech_prefix c prefix then try_configs now ip prefix cs l
     else
       let (limited, l) = (case ipc_rate_limit c of
             Some limit \<Rightarrow> is_rate_limited now (ip @ '':'' @ ipc_trunk_id c) limit l
           | None \<Rightarrow> (False, l))
       in if limited then (Some (Denied TrunkRateExceeded), l)
          else (Some (Authorized (ipc_trunk_id c) (ipc_customer_id c) (get_tech_prefix c prefix) (ipc_rate_limit c)), l))"

definition matching_configs :: "auth_env \<Rightarrow> string \<Rightarrow> sip_authenticator \<Rightarrow> ip_auth_config list" where
  "matching_configs env ip a =
    sort_key ipc_priority (filter (\<lambda>c. is_ip_authorized env c ip) (map snd (sau_ip_auth_configs a)))"

definition try_ip_authentication ::
    "auth_env \<Rightarrow> nat \<Rightarrow> string \<Rightarrow> string option \<Rightarrow> sip_authenticator \<Rightarrow> sip_auth_result option \<times> sip_authenticator" where
  "try_ip_authentication env now ip user a =
    (let (r, l) = try_configs now ip (ruri_tech_prefix user) (matching_configs env ip a) (sau_rate_limiter a)
     in (r, a\<lparr>sau_rate_limiter := l\<rparr>))"

definition auth_parameter :: "(string \<rightharpoonup> string) \<Rightarrow> string \<Rightarrow> auth_error + string" where
  "auth_parameter params k = (case params k of Some v \<Rightarrow> Inr v | None \<Rightarrow> Inl (MissingAuthParameter k))"

definition try_digest_authentication :: "auth_env \<Rightarrow> string \<Rightarrow> sip_authenticator \<Rightarrow> auth_error + sip_auth_result" where
  "try_digest_authentication env header a =
    (let params = parse_authorization_header header
     in case auth_parameter params ''username'' of Inl e \<Rightarrow> Inl e | Inr username \<Rightarrow>
        case auth_parameter params ''realm'' of Inl e \<Rightarrow> Inl e | Inr realm \<Rightarrow>
        case auth_parameter params ''nonce'' of Inl e \<Rightarrow> Inl e | Inr nonce \<Rightarrow>
        case auth_parameter params ''response'' of Inl e \<Rightarrow> Inl e | Inr response \<Rightarrow>
        case auth_parameter params ''uri'' of Inl e \<Rightarrow> Inl e | Inr uri \<Rightarrow>
        case map_of (sau_digest_credentials a) username of
          None \<Rightarrow> Inl (UnknownUsername username)
        | Some c \<Rightarrow>
            if verify_digest env c username realm nonce uri response DA_SHA256
            then Inr (Authorized (''digest_'' @ username) (dgc_customer_id c) None None)
            else Inr (Denied InvalidCredentials))"

definition requires_digest_auth :: "string \<Rightarrow> bool" where
  "requires_digest_auth source_ip = False"

text \<open>The fresh nonce is drawn by the caller of the model.\<close>

definition authenticate_request ::
    "auth_env \<Rightarrow> nat \<Rightarrow> string \<Rightarrow> auth_message \<Rightarrow> string \<Rightarrow> sip_authenticator \<Rightarrow>
     (auth_error + sip_auth_result) \<times> sip_authenticator" where
  "authenticate_request env now nonce message source_ip a =
    (case message of
       AuthResponse \<Rightarrow> (Inl NotARequest, a)
     | AuthRequest user headers \<Rightarrow>
         let (r, a) = try_ip_authentication env now source_ip user a
         in case r of
              Some r \<Rightarrow> (Inr r, a)
            | None \<Rightarrow>
                (case extract_authorization_header headers of
                   Some h \<Rightarrow> (try_digest_authentication env h a, a)
                 | None \<Rightarrow>
                     if requires_digest_auth source_ip then (Inr (Challenge (sau_default_realm a) nonce DA_SHA256), a)
                     else (Inr (Denied UnauthorizedIp), a)))"

section \<open>Challenges\<close>

definition generate_nonce :: "u8 list \<Rightarrow> string" where
  "generate_nonce random_bytes = hex_encode random_bytes"

fun call_id_of :: "auth_header list \<Rightarrow> string option" where
  "call_id_of [] = None"
| "call_id_of (AH_CallId s # hs) = Some s"
| "call_id_of (_ # hs) = call_id_of hs"

fun cseq_of :: "auth_header list \<Rightarrow> string option" where
  "cseq_of [] = None"
| "cseq_of (AH_CSeq s # hs) = Some s"
| "cseq_of (_ # hs) = cseq_of hs"

text \<open>The headers of the response, whose status line is the default of \<open>rsip\<close>.\<close>

definition create_challenge_response ::
    "string \<Rightarrow> auth_header list \<Rightarrow> digest_algorithm \<Rightarrow> sip_authenticator \<Rightarrow> auth_error + (string \<times> string) list" where
  "create_challenge_response nonce headers algorithm a =
    (let quote = [CHR 0x22];
         algorithm_str = (case algorithm of DA_MD5 \<Rightarrow> ''MD5'' | DA_SHA256 \<Rightarrow> ''SHA-256'');
         www = ''Digest realm='' @ quote @ sau_default_realm a @ quote @ '', nonce='' @ quote @ nonce @ quote @
           '', algorithm='' @ quote @ algorithm_str @ quote @ '', qop='' @ quote @ ''auth'' @ quote
     in case call_id_of headers of
          None \<Rightarrow> Inl (NoChallengeHeader ''Call-ID'')
        | Some call_id \<Rightarrow>
            (case cseq_of headers of
               None \<Rightarrow> Inl (NoChallengeHeader ''CSeq'')
             | Some cseq \<Rightarrow> Inr [(''WWW-Authenticate'', www), (''Call-ID'', call_id), (''CSeq'', cseq)]))"

section \<open>Facts about tech prefixes\<close>

lemma decode_last:
  assumes "CHR ''*'' \<notin> set d" and "p = [] \<or> hd p = CHR ''*''"
  shows "decode_ruri_user (p @ CHR ''*'' # d) = (Some p, d)"
  using assms rfind_char_append [OF assms(1), of p]
  by (cases p) (auto simp: decode_ruri_user_def Let_def)

lemma decode_first: "CHR ''*'' \<notin> set p \<Longrightarrow> p \<noteq> [] \<Longrightarrow> decode_ruri_user (p @ CHR ''*'' # d) = (Some p, d)"
  by (cases p) (auto simp: decode_ruri_user_def find_char_append)

text \<open>What is decoded encodes to the same user part, whatever it was.\<close>

lemma encode_decode_ruri: "case decode_ruri_user u of (p, d) \<Rightarrow> encode_ruri_user p d = u"
proof (cases "CHR ''*'' \<in> set u")
  case True
  show ?thesis
  proof (cases "starts_with u ''*''")
    case star: True
    obtain p d where u: "u = p @ CHR ''*'' # d" "CHR ''*'' \<notin> set d"
      using split_list_last [OF True] by blast
    with star have "p = [] \<or> hd p = CHR ''*''" by (cases p) auto
    with u show ?thesis by (simp add: decode_last encode_ruri_user_def)
  next
    case False
    obtain p d where u: "u = p @ CHR ''*'' # d" "CHR ''*'' \<notin> set p"
      using split_list_first [OF True] by blast
    with False have "p \<noteq> []" by auto
    with u show ?thesis by (simp add: decode_first encode_ruri_user_def)
  qed
qed (simp add: decode_ruri_user_def encode_ruri_user_def)

text \<open>C26: The other way round a pair is read back exactly if the separator is not ambiguous: a number without a
  prefix has no star, a prefix that is empty or begins with a star needs a number without one, and any
  other prefix must not contain one.\<close>

theorem tech_prefix_roundtrip:
  "decode_ruri_user (encode_ruri_user p d) = (p, d) \<longleftrightarrow>
    (case p of None \<Rightarrow> CHR ''*'' \<notin> set d
     | Some q \<Rightarrow> if q = [] \<or> hd q = CHR ''*'' then CHR ''*'' \<notin> set d else CHR ''*'' \<notin> set q)"
proof (cases p)
  case None
  then show ?thesis by (auto simp: encode_ruri_user_def decode_ruri_user_def Let_def)
next
  case p: (Some q)
  show ?thesis
  proof (cases "q = [] \<or> hd q = CHR ''*''")
    case True
    have "decode_ruri_user (q @ CHR ''*'' # d) \<noteq> (Some q, d)" if star: "CHR ''*'' \<in> set d"
    proof -
      obtain a b where d: "d = a @ CHR ''*'' # b" "CHR ''*'' \<notin> set b" using split_list_last [OF star] by blast
      have "decode_ruri_user ((q @ CHR ''*'' # a) @ CHR ''*'' # b) = (Some (q @ CHR ''*'' # a), b)"
        using True d by (intro decode_last) (auto simp: hd_append)
      with d show ?thesis by simp
    qed
    with True p show ?thesis using decode_last [of d q] by (auto simp: encode_ruri_user_def)
  next
    case False
    have "decode_ruri_user (q @ CHR ''*'' # d) \<noteq> (Some q, d)" if star: "CHR ''*'' \<in> set q"
    proof -
      obtain a b where q: "q = a @ CHR ''*'' # b" "CHR ''*'' \<notin> set a" using split_list_first [OF star] by blast
      then have "a \<noteq> []" using False by auto
      with q have "decode_ruri_user (a @ CHR ''*'' # b @ CHR ''*'' # d) = (Some a, b @ CHR ''*'' # d)"
        by (simp add: decode_first)
      with q show ?thesis by simp
    qed
    with False p show ?thesis by (auto simp: encode_ruri_user_def decode_first)
  qed
qed

section \<open>Facts about the digest\<close>

lemma xor_zero_iff: "xor (a :: 'a :: len word) b = 0 \<longleftrightarrow> a = b"
  by (metis xor.assoc xor_self_eq xor.left_neutral xor.right_neutral)

lemma fold_diff: "length a = length b \<Longrightarrow>
    foldl (\<lambda>diff (x, y). or diff (xor x y)) (d :: u8) (zip a b) = 0 \<longleftrightarrow> d = 0 \<and> a = b"
  by (induction a b arbitrary: d rule: list_induct2) (auto simp: or_eq_0_iff xor_zero_iff)

lemma str_bytes_inject: "str_bytes a = str_bytes b \<longleftrightarrow> a = b"
  by (metis bytes_str_str_bytes)

lemma constant_time_eq [simp]: "constant_time_str_eq a b \<longleftrightarrow> a = b"
  by (auto simp: constant_time_str_eq_def fold_diff str_bytes_inject Let_def dest: arg_cong [where f = length])

section \<open>Authorization\<close>

lemma is_ip_authorizedD: "is_ip_authorized env c ip \<Longrightarrow> ipc_enabled c"
  by (simp add: is_ip_authorized_def)

lemma try_configs_authorized:
  "try_configs now ip prefix cs l = (Some (Authorized t cu tp rl), l') \<Longrightarrow>
    \<exists>as c bs. cs = as @ c # bs \<and> (\<forall>a \<in> set as. \<not> validate_tech_prefix a prefix) \<and> validate_tech_prefix c prefix \<and>
      t = ipc_trunk_id c \<and> cu = ipc_customer_id c \<and> tp = get_tech_prefix c prefix \<and> rl = ipc_rate_limit c"
proof (induction cs)
  case (Cons c cs)
  show ?case
  proof (cases "validate_tech_prefix c prefix")
    case True
    with Cons.prems show ?thesis
      by (intro exI [of _ "[]"]) (auto simp: Let_def split: prod.splits if_splits)
  next
    case False
    with Cons obtain as d bs where "cs = as @ d # bs" "\<forall>a \<in> set as. \<not> validate_tech_prefix a prefix"
      "validate_tech_prefix d prefix" "t = ipc_trunk_id d" "cu = ipc_customer_id d"
      "tp = get_tech_prefix d prefix" "rl = ipc_rate_limit d" by auto
    with False show ?thesis by (intro exI [of _ "c # as"]) auto
  qed
qed simp

lemma try_configs_not_challenge: "fst (try_configs now ip prefix cs l) \<noteq> Some (Challenge r n a)"
  by (induction cs) (auto simp: Let_def split: prod.splits)

lemma try_digest_not_challenge: "try_digest_authentication env h a \<noteq> Inr (Challenge r n alg)"
  by (auto simp: try_digest_authentication_def Let_def split: sum.splits option.splits)

text \<open>A client is never challenged: digest credentials are only looked at when a request brings them unasked,
  and then with the nonce of the client's choice.\<close>

lemma never_challenged: "fst (authenticate_request env now nonce m ip a) \<noteq> Inr (Challenge r n alg)"
  using try_configs_not_challenge try_digest_not_challenge
  by (auto simp: authenticate_request_def try_ip_authentication_def requires_digest_auth_def Let_def
      split: auth_message.splits option.splits prod.splits) (metis fst_conv)+

text \<open>C27: A request that is let in by its address belongs to an enabled trunk that lists a network with the
  address and accepts the prefix; a trunk of a smaller priority number that knows the address does
  not accept the prefix.\<close>

theorem ip_authorization_sound:
  assumes "try_ip_authentication env now ip user a = (Some (Authorized t cu tp rl), a')"
  shows "\<exists>c \<in> snd ` set (sau_ip_auth_configs a).
    is_ip_authorized env c ip \<and> validate_tech_prefix c (ruri_tech_prefix user) \<and>
    t = ipc_trunk_id c \<and> cu = ipc_customer_id c \<and> tp = get_tech_prefix c (ruri_tech_prefix user) \<and>
    rl = ipc_rate_limit c \<and>
    (\<forall>d \<in> snd ` set (sau_ip_auth_configs a). is_ip_authorized env d ip \<longrightarrow>
       validate_tech_prefix d (ruri_tech_prefix user) \<longrightarrow> ipc_priority c \<le> ipc_priority d)"
proof -
  let ?p = "ruri_tech_prefix user"
  have "\<exists>l'. try_configs now ip ?p (matching_configs env ip a) (sau_rate_limiter a) = (Some (Authorized t cu tp rl), l')"
    using assms by (auto simp: try_ip_authentication_def split: prod.splits)
  then obtain as c bs where cs: "matching_configs env ip a = as @ c # bs"
    and c: "\<forall>a \<in> set as. \<not> validate_tech_prefix a ?p" "validate_tech_prefix c ?p" "t = ipc_trunk_id c"
      "cu = ipc_customer_id c" "tp = get_tech_prefix c ?p" "rl = ipc_rate_limit c"
    using try_configs_authorized by blast
  have members: "set (matching_configs env ip a) =
      {d \<in> snd ` set (sau_ip_auth_configs a). is_ip_authorized env d ip}"
    by (auto simp: matching_configs_def)
  have "sorted (map ipc_priority (as @ c # bs))" by (simp add: cs [symmetric] matching_configs_def)
  then have least: "ipc_priority c \<le> ipc_priority d" if "d \<in> set bs" for d
    using that by (auto simp: sorted_append)
  have "ipc_priority c \<le> ipc_priority d"
    if "d \<in> set (matching_configs env ip a)" "validate_tech_prefix d ?p" for d
    using that c(1) least by (auto simp: cs)
  moreover have "c \<in> set (matching_configs env ip a)" by (simp add: cs)
  ultimately show ?thesis using c unfolding members by blast
qed

section \<open>Replay\<close>

lemma try_ip_credentials [simp]:
  "sau_digest_credentials (snd (try_ip_authentication env now ip user a)) = sau_digest_credentials a"
  by (simp add: try_ip_authentication_def split_beta)

lemma authenticate_credentials [simp]:
  "sau_digest_credentials (snd (authenticate_request env now nonce m ip a)) = sau_digest_credentials a"
  by (auto simp: authenticate_request_def split: auth_message.splits option.splits prod.splits)
    (metis snd_conv try_ip_credentials)+

lemma digest_by_credentials:
  assumes "sau_digest_credentials a = sau_digest_credentials b"
  shows "try_digest_authentication env h a = try_digest_authentication env h b"
  unfolding try_digest_authentication_def assms ..

primrec serve_auth :: "auth_env \<Rightarrow> (nat \<times> string \<times> auth_message \<times> string) list \<Rightarrow> sip_authenticator \<Rightarrow> sip_authenticator" where
  "serve_auth env [] a = a"
| "serve_auth env (q # qs) a =
    (case q of (now, nonce, m, ip) \<Rightarrow> serve_auth env qs (snd (authenticate_request env now nonce m ip a)))"

lemma serve_auth_credentials [simp]: "sau_digest_credentials (serve_auth env qs a) = sau_digest_credentials a"
  by (induction qs arbitrary: a) (auto split: prod.splits)

text \<open>C25: Credentials can be replayed: an authorization header that was once accepted lets every later request
  in, for any URI, from any address, whatever happened in between and whatever nonces were drawn, as
  long as no trunk decides on the address.\<close>

theorem digest_replayable:
  assumes "authenticate_request env now nonce (AuthRequest user hs) ip a = (Inr r, a')"
    and "try_ip_authentication env now ip user a = (None, b)"
    and "extract_authorization_header hs = Some h" and "extract_authorization_header hs' = Some h"
    and "fst (try_ip_authentication env now' ip' user' (serve_auth env qs a')) = None"
  shows "fst (authenticate_request env now' nonce' (AuthRequest user' hs') ip' (serve_auth env qs a')) = Inr r"
proof -
  have b: "sau_digest_credentials b = sau_digest_credentials a"
    using try_ip_credentials [of env now ip user a] assms(2) by simp
  have a': "a' = b" and r: "try_digest_authentication env h b = Inr r"
    using assms(1-3) by (auto simp: authenticate_request_def)
  define d where "d = snd (try_ip_authentication env now' ip' user' (serve_auth env qs a'))"
  have "try_ip_authentication env now' ip' user' (serve_auth env qs a') = (None, d)"
    using assms(5) by (simp add: d_def prod_eq_iff)
  moreover have "sau_digest_credentials d = sau_digest_credentials b" by (simp add: d_def a')
  ultimately show ?thesis
    using r assms(4) digest_by_credentials [of d b] by (simp add: authenticate_request_def)
qed

section \<open>The rate limit of a trunk\<close>

primrec rate_attempts :: "string \<Rightarrow> u32 \<Rightarrow> nat list \<Rightarrow> sip_rate_limiter \<Rightarrow> bool list \<times> sip_rate_limiter" where
  "rate_attempts key limit [] l = ([], l)"
| "rate_attempts key limit (t # ts) l =
    (let (limited, l) = is_rate_limited t key limit l; (rs, l) = rate_attempts key limit ts l
     in ((\<not> limited) # rs, l))"

lemma attempts_in_window:
  assumes "map_of (srl_call_counts l) key = Some (c, start)"
    and "\<forall>t \<in> set ts. (t - start) div 1000000000 < srl_window_seconds l" and "unat c + length ts < 2 ^ 32"
  shows "length (filter (\<lambda>x. x) (fst (rate_attempts key limit ts l))) = min (length ts) (unat limit - unat c)"
  using assms
proof (induction ts arbitrary: l c)
  case (Cons t ts)
  have c: "unat (c + 1) = unat c + 1" using Cons.prems(3) by (simp add: unat_word_ariths)
  let ?l = "snd (is_rate_limited t key limit l)"
  have l: "map_of (srl_call_counts ?l) key = Some (c + 1, start)" "srl_window_seconds ?l = srl_window_seconds l"
    "fst (is_rate_limited t key limit l) = (limit < c + 1)"
    using Cons.prems by (auto simp: is_rate_limited_def update_conv' not_le Let_def)
  have "length (filter (\<lambda>x. x) (fst (rate_attempts key limit ts ?l))) = min (length ts) (unat limit - unat (c + 1))"
    by (rule Cons.IH) (use Cons.prems l c in auto)
  then show ?case
    using l(3) c by (auto simp: split_beta Let_def word_less_nat_alt)
qed simp

text \<open>Of the requests that arrive within a window, the first of which opens it, the limiter admits as many as
  its limit says and no more; the window of the authenticator is a minute.\<close>

theorem trunk_rate_window:
  assumes "map_of (srl_call_counts l) key = None" and "0 < srl_window_seconds l"
    and "\<forall>t \<in> set ts. (t - start) div 1000000000 < srl_window_seconds l" and "length ts + 1 < 2 ^ 32"
  shows "length (filter (\<lambda>x. x) (fst (rate_attempts key limit (start # ts) l))) = min (length ts + 1) (unat limit)"
proof -
  let ?l = "snd (is_rate_limited start key limit l)"
  have l: "map_of (srl_call_counts ?l) key = Some (1, start)" "srl_window_seconds ?l = srl_window_seconds l"
    "fst (is_rate_limited start key limit l) = (limit < 1)"
    using assms by (auto simp: is_rate_limited_def update_conv' Let_def)
  have "length (filter (\<lambda>x. x) (fst (rate_attempts key limit ts ?l))) = min (length ts) (unat limit - unat (1 :: u32))"
    by (rule attempts_in_window [OF l(1)]) (use assms l in auto)
  then show ?thesis
    using l(3) by (auto simp: split_beta Let_def word_less_nat_alt)
qed

text \<open>The count goes round: after 2 ^ 32 attempts a trunk over its limit is admitted again, and a trunk with
  the largest limit is never limited.\<close>

lemma rate_count_wraps:
  "map_of (srl_call_counts l) key = Some (- 1, start) \<Longrightarrow> (now - start) div 1000000000 < srl_window_seconds l \<Longrightarrow>
    \<not> fst (is_rate_limited now key limit l)"
  by (simp add: is_rate_limited_def Let_def)

section \<open>A concrete authenticator\<close>

definition sample_auth_env :: auth_env where
  "sample_auth_env = \<lparr>ae_network = (\<lambda>n. if n = ''10.1.1.0/24'' then Some (\<lambda>ip. starts_with ip ''10.1.1.'') else None),
     ae_md5 = rev, ae_sha256 = (\<lambda>s. s)\<rparr>"

definition sample_trunk :: ip_auth_config where
  "sample_trunk = \<lparr>ipc_trunk_id = ''c1'', ipc_customer_id = ''one'', ipc_allowed_networks = [''10.1.1.0/24''],
     ipc_required_tech_prefix = Some ''1001'', ipc_optional_tech_prefixes = [''1002''], ipc_rate_limit = Some 100,
     ipc_enabled = True, ipc_priority = 1\<rparr>"

definition sample_authenticator :: sip_authenticator where
  "sample_authenticator = add_digest_credentials ''u''
     \<lparr>dgc_username = ''u'', dgc_password_hash = ''p'', dgc_realm = ''r'', dgc_customer_id = ''one'', dgc_enabled = True\<rparr>
     (add_ip_auth_config sample_trunk (new_sip_authenticator ''r''))"

definition sample_header :: string where
  "sample_header = ''Digest username=u, realm=r, nonce=n, uri=x, response=u:r:p:n:INVITE:x''"

lemmas sample_auth_simps = sample_authenticator_def sample_trunk_def sample_auth_env_def new_sip_authenticator_def
  add_digest_credentials_def add_ip_auth_config_def new_sip_rate_limiter_def try_ip_authentication_def
  matching_configs_def is_ip_authorized_def

theorem ip_authorization_sound_witness:
  "\<exists>c \<in> snd ` set (sau_ip_auth_configs sample_authenticator). is_ip_authorized sample_auth_env c ''10.1.1.7'' \<and>
    ''c1'' = ipc_trunk_id c"
proof -
  have authorized: "is_ip_authorized sample_auth_env sample_trunk ''10.1.1.7''"
    by (simp add: is_ip_authorized_def sample_auth_env_def sample_trunk_def)
  have matching: "matching_configs sample_auth_env ''10.1.1.7'' sample_authenticator = [sample_trunk]"
    using authorized by (simp add: matching_configs_def sample_authenticator_def add_digest_credentials_def
        add_ip_auth_config_def new_sip_authenticator_def)
  have limiter: "sau_rate_limiter sample_authenticator = new_sip_rate_limiter 60"
    "srl_call_counts (new_sip_rate_limiter 60) = []" "srl_window_seconds (new_sip_rate_limiter 60) = 60"
    by (simp_all add: sample_authenticator_def add_digest_credentials_def add_ip_auth_config_def
        new_sip_authenticator_def new_sip_rate_limiter_def)
  have prefix: "ruri_tech_prefix (Some ''1001*5'') = Some ''1001''"
    by (simp add: ruri_tech_prefix_def decode_ruri_user_def)
  have ex: "\<exists>a'. try_ip_authentication sample_auth_env 0 ''10.1.1.7'' (Some ''1001*5'') sample_authenticator =
      (Some (Authorized ''c1'' ''one'' (Some ''1001'') (Some 100)), a')"
    by (simp add: try_ip_authentication_def matching prefix limiter sample_trunk_def validate_tech_prefix_def
        get_tech_prefix_def is_rate_limited_def Let_def)
  then obtain a' where "try_ip_authentication sample_auth_env 0 ''10.1.1.7'' (Some ''1001*5'') sample_authenticator =
      (Some (Authorized ''c1'' ''one'' (Some ''1001'') (Some 100)), a')" ..
  from ip_authorization_sound [OF this] show ?thesis by blast
qed

lemma sample_header_accepted:
  "try_digest_authentication sample_auth_env sample_header a = Inr (Authorized ''digest_u'' ''one'' None None)"
  if "sau_digest_credentials a = sau_digest_credentials sample_authenticator"
proof -
  have params: "parse_authorization_header sample_header = map_of [(''response'', ''u:r:p:n:INVITE:x''), (''uri'', ''x''),
      (''nonce'', ''n''), (''realm'', ''r''), (''username'', ''u'')]"
    by (simp add: parse_authorization_header_def sample_header_def authorization_part_def List.map_filter_def
        trim_space_def is_space_def trim_matches_char_def trim_end_char_def)
  show ?thesis
    using that by (simp add: try_digest_authentication_def params auth_parameter_def sample_authenticator_def
        add_digest_credentials_def add_ip_auth_config_def new_sip_authenticator_def verify_digest_def
        calculate_digest_response_def sample_auth_env_def)
qed

theorem digest_replayable_witness:
  "fst (authenticate_request sample_auth_env 9 ''n2'' (AuthRequest (Some ''666'') [AH_Authorization sample_header]) ''6.6.6.6''
     (serve_auth sample_auth_env [] sample_authenticator)) = Inr (Authorized ''digest_u'' ''one'' None None)"
proof -
  have ip: "try_ip_authentication sample_auth_env t ''6.6.6.6'' u sample_authenticator = (None, sample_authenticator)" for t u
    by (simp add: sample_auth_simps)
  have first: "authenticate_request sample_auth_env 0 ''n1'' (AuthRequest None [AH_ProxyAuthorization sample_header]) ''6.6.6.6''
      sample_authenticator = (Inr (Authorized ''digest_u'' ''one'' None None), sample_authenticator)"
    by (simp add: authenticate_request_def ip sample_header_accepted)
  show ?thesis
    by (rule digest_replayable [OF first ip, of sample_header]) (simp_all add: ip)
qed

theorem trunk_rate_window_witness:
  "length (filter (\<lambda>x. x) (fst (rate_attempts ''k'' 2 [0, 1, 2, 3] (new_sip_rate_limiter 60)))) = 2"
  using trunk_rate_window [of "new_sip_rate_limiter 60" "''k''" "[1, 2, 3]" 0 2] by (simp add: new_sip_rate_limiter_def)

end
