(* ===== verification/G711.thy ===== *)
theory G711
  imports Redfire_Prelude
begin

unbundle bit_operations_syntax

text \<open>
  The companding of telephone audio (\<open>G711Codec\<close> of \<open>redfire-codec-engine/src/codec.rs\<close>): linear samples
  of 16 bits to eight bits and back. A sample (\<open>i16\<close>) is its bit pattern, read with \<open>sint\<close>. Additions
  on \<open>u8\<close> wrap, as in a release build.
\<close>

section \<open>Samples\<close>

definition sample_negative :: "u16 \<Rightarrow> bool" where
  "sample_negative linear \<longleftrightarrow> sint linear < 0"

definition unsigned_abs :: "u16 \<Rightarrow> u16" where
  "unsigned_abs linear = (if sample_negative linear then - linear else linear)"

definition ulaw_compressed :: "u16 \<Rightarrow> u16" where
  "ulaw_compressed magnitude =
    (if magnitude < 0x20 then drop_bit 1 magnitude
     else if magnitude < 0x40 then drop_bit 2 magnitude + 0x10
     else if magnitude < 0x80 then drop_bit 3 magnitude + 0x20
     else if magnitude < 0x100 then drop_bit 4 magnitude + 0x30
     else if magnitude < 0x200 then drop_bit 5 magnitude + 0x40
     else if magnitude < 0x400 then drop_bit 6 magnitude + 0x50
     else if magnitude < 0x800 then drop_bit 7 magnitude + 0x60
     else drop_bit 8 magnitude + 0x70)"

definition linear_to_ulaw :: "u16 \<Rightarrow> u8" where
  "linear_to_ulaw linear =
    (let sign = if sample_negative linear then 0x80 else 0
     in sign OR (ucast (ulaw_compressed (unsigned_abs linear)) AND 0x7F))"

definition ulaw_expanded :: "u8 \<Rightarrow> u16" where
  "ulaw_expanded magnitude =
    (let segment = drop_bit 4 magnitude; step = magnitude AND 0x0F in
     if segment = 0 then ucast (push_bit 1 magnitude + 1)
     else if segment = 1 then ucast (push_bit 2 step + 0x21)
     else if segment = 2 then ucast (push_bit 3 step + 0x41)
     else if segment = 3 then ucast (push_bit 4 step + 0x81)
     else if segment = 4 then push_bit 5 (ucast step) + 0x101
     else if segment = 5 then push_bit 6 (ucast step) + 0x201
     else if segment = 6 then push_bit 7 (ucast step) + 0x401
     else if segment = 7 then push_bit 8 (ucast step) + 0x801
     else 0)"

definition ulaw_to_linear :: "u8 \<Rightarrow> u16" where
  "ulaw_to_linear ulaw =
    (let linear = ulaw_expanded (ulaw AND 0x7F) in if ulaw AND 0x80 \<noteq> 0 then - linear else linear)"

definition alaw_compressed :: "u16 \<Rightarrow> u16" where
  "alaw_compressed magnitude =
    (if magnitude < 0x10 then drop_bit 1 magnitude
     else if magnitude < 0x20 then drop_bit 1 magnitude + 0x08
     else if magnitude < 0x40 then drop_bit 2 magnitude + 0x18
     else if magnitude < 0x80 then drop_bit 3 magnitude + 0x28
     else if magnitude < 0x100 then drop_bit 4 magnitude + 0x38
     else if magnitude < 0x200 then drop_bit 5 magnitude + 0x48
     else if magnitude < 0x400 then drop_bit 6 magnitude + 0x58
     else drop_bit 7 magnitude + 0x68)"

definition linear_to_alaw :: "u16 \<Rightarrow> u8" where
  "linear_to_alaw linear =
    (let sign = if sample_negative linear then 0x80 else 0
     in sign OR (ucast (alaw_compressed (unsigned_abs linear)) AND 0x7F))"

definition alaw_expanded :: "u8 \<Rightarrow> u16" where
  "alaw_expanded magnitude =
    (let segment = drop_bit 4 magnitude; step = magnitude AND 0x0F in
     if segment = 0 then ucast (push_bit 1 magnitude)
     else if segment = 1 then ucast (push_bit 1 step + 0x10)
     else if segment = 2 then ucast (push_bit 2 step + 0x30)
     else if segment = 3 then ucast (push_bit 3 step + 0x50)
     else if segment = 4 then ucast (push_bit 4 step + 0x90)
     else if segment = 5 then push_bit 5 (ucast step) + 0x110
     else if segment = 6 then push_bit 6 (ucast step) + 0x210
     else if segment = 7 then push_bit 7 (ucast step) + 0x410
     else 0)"

definition alaw_to_linear :: "u8 \<Rightarrow> u16" where
  "alaw_to_linear alaw =
    (let linear = alaw_expanded (alaw AND 0x7F) in if alaw AND 0x80 \<noteq> 0 then - linear else linear)"

definition encode_ulaw :: "u16 list \<Rightarrow> u8 list" where
  "encode_ulaw pcm_data = map linear_to_ulaw pcm_data"

definition decode_ulaw :: "u8 list \<Rightarrow> u16 list" where
  "decode_ulaw ulaw_data = map ulaw_to_linear ulaw_data"

definition encode_alaw :: "u16 list \<Rightarrow> u8 list" where
  "encode_alaw pcm_data = map linear_to_alaw pcm_data"

definition decode_alaw :: "u8 list \<Rightarrow> u16 list" where
  "decode_alaw alaw_data = map alaw_to_linear alaw_data"

definition ulaw_to_alaw :: "u8 list \<Rightarrow> u8 list" where
  "ulaw_to_alaw ulaw_data = map (\<lambda>sample. linear_to_alaw (ulaw_to_linear sample)) ulaw_data"

definition alaw_to_ulaw :: "u8 list \<Rightarrow> u8 list" where
  "alaw_to_ulaw alaw_data = map (\<lambda>sample. linear_to_ulaw (alaw_to_linear sample)) alaw_data"

section \<open>The two tables in closed form\<close>

definition ulaw_value :: "nat \<Rightarrow> nat" where
  "ulaw_value k =
    (let n = k mod 16 in
     if k < 16 then 2 * k + 1 else if k < 32 then 4 * n + 33 else if k < 48 then 8 * n + 65
     else if k < 64 then (16 * n + 129) mod 256 else if k < 80 then 32 * n + 257
     else if k < 96 then 64 * n + 513 else if k < 112 then 128 * n + 1025 else 256 * n + 2049)"

definition alaw_value :: "nat \<Rightarrow> nat" where
  "alaw_value k =
    (let n = k mod 16 in
     if k < 16 then 2 * k else if k < 32 then 2 * n + 16 else if k < 48 then 4 * n + 48
     else if k < 64 then 8 * n + 80 else if k < 80 then (16 * n + 144) mod 256
     else if k < 96 then 32 * n + 272 else if k < 112 then 64 * n + 528 else 128 * n + 1040)"

lemma below_128: "k < 128 \<Longrightarrow> k \<in> set [0..<128]" by simp

lemma ulaw_table: "list_all (\<lambda>k. unat (ulaw_expanded (word_of_nat k)) = ulaw_value k) [0..<128]"
  by (simp add: upt_conv_Cons ulaw_expanded_def ulaw_value_def Let_def)

lemma alaw_table: "list_all (\<lambda>k. unat (alaw_expanded (word_of_nat k)) = alaw_value k) [0..<128]"
  by (simp add: upt_conv_Cons alaw_expanded_def alaw_value_def Let_def)

lemma ulaw_expanded_unat: "unat k < 128 \<Longrightarrow> unat (ulaw_expanded k) = ulaw_value (unat k)"
  using ulaw_table [unfolded list_all_iff, rule_format, OF below_128, of "unat k"] by simp

lemma alaw_expanded_unat: "unat k < 128 \<Longrightarrow> unat (alaw_expanded k) = alaw_value (unat k)"
  using alaw_table [unfolded list_all_iff, rule_format, OF below_128, of "unat k"] by simp

definition ulaw_code :: "nat \<Rightarrow> nat" where
  "ulaw_code m =
    (if m < 32 then m div 2 else if m < 64 then m div 4 + 16 else if m < 128 then m div 8 + 32
     else if m < 256 then m div 16 + 48 else if m < 512 then m div 32 + 64 else if m < 1024 then m div 64 + 80
     else if m < 2048 then m div 128 + 96 else m div 256 + 112)"

definition alaw_code :: "nat \<Rightarrow> nat" where
  "alaw_code m =
    (if m < 16 then m div 2 else if m < 32 then m div 2 + 8 else if m < 64 then m div 4 + 24
     else if m < 128 then m div 8 + 40 else if m < 256 then m div 16 + 56 else if m < 512 then m div 32 + 72
     else if m < 1024 then m div 64 + 88 else m div 128 + 104)"

lemma unat_drop_bit_u16: "unat (drop_bit n (w :: u16)) = unat w div 2 ^ n"
  by (subst unat_drop_bit_eq) (rule drop_bit_eq_div)

lemma ulaw_compressed_unat: "unat (ulaw_compressed m) = ulaw_code (unat m)"
  using unsigned_less [of m, where ?'a = nat]
  by (auto simp: ulaw_compressed_def ulaw_code_def word_less_nat_alt unat_word_ariths unat_drop_bit_u16)

lemma alaw_compressed_unat: "unat (alaw_compressed m) = alaw_code (unat m)"
  using unsigned_less [of m, where ?'a = nat]
  by (auto simp: alaw_compressed_def alaw_code_def word_less_nat_alt unat_word_ariths unat_drop_bit_u16)

text \<open>The magnitude of a sample and of its code, and the sign of a code.\<close>

lemma unsigned_abs_unat: "unat (unsigned_abs x) = nat \<bar>sint x\<bar>"
proof (cases "sample_negative x")
  case True
  then have neg: "sint x < 0" by (simp add: sample_negative_def)
  have "- x = word_of_int (- sint x)" by simp
  then have "uint (- x) = (- sint x) mod 2 ^ 16" by (simp only: uint_word_of_int) simp
  also have "\<dots> = - sint x" using neg sint_greater_eq [of x] by (intro mod_pos_pos_trivial) auto
  finally show ?thesis using True neg by (simp add: unsigned_abs_def unat_eq_nat_uint)
next
  case False
  then have "0 \<le> sint x" by (simp add: sample_negative_def)
  moreover have "uint x = sint x mod 2 ^ 16"
    using uint_word_of_int [of "sint x", where ?'a = 16] by (simp add: take_bit_eq_mod)
  ultimately have "uint x = sint x" using sint_less [of x] by simp
  then show ?thesis using False \<open>0 \<le> sint x\<close> by (simp add: unsigned_abs_def unat_eq_nat_uint)
qed

lemma low_bits_unat: "unat (ucast (w :: u16) AND (0x7F :: u8)) = unat w mod 128"
proof -
  have "ucast w AND (0x7F :: u8) = take_bit 7 (ucast w)" by (simp add: take_bit_eq_mask mask_eq_exp_minus_1)
  then show ?thesis by (simp add: take_bit_eq_mod unat_mod unsigned_ucast_eq mod_mod_cancel)
qed

lemma code_fields:
  "sign = 0 \<or> sign = 0x80 \<Longrightarrow> (sign OR (c AND 0x7F)) AND 0x7F = (c AND 0x7F :: u8)"
  "sign = 0 \<or> sign = 0x80 \<Longrightarrow> (sign OR (c AND 0x7F)) AND (0x80 :: u8) = sign"
  by (auto intro!: u8_eqI simp: bit_simps)


lemma ulaw_value_small: "k < 128 \<Longrightarrow> ulaw_value k < 2 ^ 15"
  by (simp add: ulaw_value_def Let_def) linarith

lemma alaw_value_small: "k < 128 \<Longrightarrow> alaw_value k < 2 ^ 15"
  by (simp add: alaw_value_def Let_def) linarith

lemma sint_of_magnitude:
  assumes "unat (e :: u16) < 2 ^ 15"
  shows "sint e = int (unat e)" "sint (- e) = - int (unat e)"
proof -
  have e: "uint e < 2 ^ 15" using assms by (subst (asm) unat_eq_nat_uint, subst (asm) nat_less_iff [OF uint_ge_0]) simp
  have e': "- (2 ^ 15) \<le> uint e" by (rule order_trans [OF _ uint_ge_0]) simp
  have "sint e = signed_take_bit 15 (uint e)" by (simp add: sint_uint)
  also have "\<dots> = uint e" by (rule signed_take_bit_int_eq_self [OF e' e])
  finally show "sint e = int (unat e)" by simp
  have "sint (word_of_int (- uint e) :: u16) = signed_take_bit 15 (- uint e)" by (simp only: signed_of_int) simp
  also have "\<dots> = - uint e"
  proof (rule signed_take_bit_int_eq_self)
    show "- (2 ^ 15) \<le> - uint e" using e by (simp only: neg_le_iff_le order_less_imp_le)
    show "- uint e < 2 ^ 15" by (rule le_less_trans [where y = 0]) simp_all
  qed
  finally show "sint (- e) = - int (unat e)" by simp
qed

definition sign_of :: "u16 \<Rightarrow> int" where
  "sign_of x = (if sint x < 0 then - 1 else 1)"

lemma coded_magnitude:
  assumes "unat (f (c AND 0x7F)) < 2 ^ 15"
  shows "sint (let linear = f (((if neg then 0x80 else 0) OR (c AND 0x7F)) AND 0x7F) in
      if ((if neg then 0x80 else 0) OR (c AND 0x7F)) AND (0x80 :: u8) \<noteq> 0 then - linear else (linear :: u16)) =
    (if neg then - 1 else 1) * int (unat (f (c AND 0x7F)))"
proof -
  let ?s = "if neg then 0x80 else 0 :: u8"
  have "(?s OR (c AND 0x7F)) AND 0x7F = c AND 0x7F" "(?s OR (c AND 0x7F)) AND 0x80 = ?s"
    by (rule code_fields; simp)+
  then show ?thesis
    using sint_of_magnitude [OF assms] by (simp only: Let_def) (simp split: if_splits)
qed

text \<open>Coding and decoding a sample, in closed form.\<close>

lemma ulaw_roundtrip:
  "sint (ulaw_to_linear (linear_to_ulaw x)) = sign_of x * int (ulaw_value (ulaw_code (nat \<bar>sint x\<bar>) mod 128))"
proof -
  let ?c = "ucast (ulaw_compressed (unsigned_abs x)) AND (0x7F :: u8)"
  have e: "unat (ulaw_expanded ?c) = ulaw_value (ulaw_code (nat \<bar>sint x\<bar>) mod 128)"
    using low_bits_unat [of "ulaw_compressed (unsigned_abs x)"]
    by (simp add: ulaw_expanded_unat ulaw_compressed_unat unsigned_abs_unat del: of_nat_nat)
  then have "unat (ulaw_expanded ?c) < 2 ^ 15" using ulaw_value_small by simp
  from coded_magnitude [of ulaw_expanded, OF this, of "sample_negative x"] show ?thesis
    by (simp only: e ulaw_to_linear_def linear_to_ulaw_def sign_of_def sample_negative_def Let_def)
qed

lemma alaw_roundtrip:
  "sint (alaw_to_linear (linear_to_alaw x)) = sign_of x * int (alaw_value (alaw_code (nat \<bar>sint x\<bar>) mod 128))"
proof -
  let ?c = "ucast (alaw_compressed (unsigned_abs x)) AND (0x7F :: u8)"
  have e: "unat (alaw_expanded ?c) = alaw_value (alaw_code (nat \<bar>sint x\<bar>) mod 128)"
    using low_bits_unat [of "alaw_compressed (unsigned_abs x)"]
    by (simp add: alaw_expanded_unat alaw_compressed_unat unsigned_abs_unat del: of_nat_nat)
  then have "unat (alaw_expanded ?c) < 2 ^ 15" using alaw_value_small by simp
  from coded_magnitude [of alaw_expanded, OF this, of "sample_negative x"] show ?thesis
    by (simp only: e alaw_to_linear_def linear_to_alaw_def sign_of_def sample_negative_def Let_def)
qed

definition ulaw_image :: "nat \<Rightarrow> nat" where
  "ulaw_image m = ulaw_value (ulaw_code m mod 128)"

definition alaw_image :: "nat \<Rightarrow> nat" where
  "alaw_image m = alaw_value (alaw_code m mod 128)"

lemma magnitude_bound: "nat \<bar>sint (x :: u16)\<bar> \<le> 32768"
  using sint_greater_eq [of x] sint_less [of x] by simp

section \<open>The segments\<close>

lemma step_mod:
  "n < 16 \<Longrightarrow> (n + 16) mod 16 = (n :: nat)" "n < 16 \<Longrightarrow> (n + 32) mod 16 = (n :: nat)"
  "n < 16 \<Longrightarrow> (n + 48) mod 16 = (n :: nat)" "n < 16 \<Longrightarrow> (n + 64) mod 16 = (n :: nat)"
  "n < 16 \<Longrightarrow> (n + 80) mod 16 = (n :: nat)" "n < 16 \<Longrightarrow> (n + 96) mod 16 = (n :: nat)"
  "n < 16 \<Longrightarrow> (n + 112) mod 16 = (n :: nat)"
  by (simp_all add: mod_add_eq [of n, symmetric, of _ "16"] flip: mod_add_right_eq)

lemma ulaw_image_low: "m < 32 \<Longrightarrow> ulaw_image m = 2 * (m div 2) + 1"
  by (simp add: ulaw_image_def ulaw_code_def ulaw_value_def Let_def)

lemma ulaw_image_mid:
  "32 \<le> m \<Longrightarrow> m < 64 \<Longrightarrow> ulaw_image m = 4 * (m div 4) + 33"
  "64 \<le> m \<Longrightarrow> m < 128 \<Longrightarrow> ulaw_image m = 8 * (m div 8) + 65"
  "256 \<le> m \<Longrightarrow> m < 512 \<Longrightarrow> ulaw_image m = 32 * (m div 32) + 257"
  "512 \<le> m \<Longrightarrow> m < 1024 \<Longrightarrow> ulaw_image m = 64 * (m div 64) + 513"
  "1024 \<le> m \<Longrightarrow> m < 2048 \<Longrightarrow> ulaw_image m = 128 * (m div 128) + 1025"
  "2048 \<le> m \<Longrightarrow> m < 4096 \<Longrightarrow> ulaw_image m = 256 * (m div 256) + 2049"
  by (auto simp: ulaw_image_def ulaw_code_def ulaw_value_def Let_def step_mod)

lemma ulaw_image_wrapped: "128 \<le> m \<Longrightarrow> m < 256 \<Longrightarrow> ulaw_image m + 127 = 16 * (m div 16)"
proof -
  assume m: "128 \<le> m" "m < 256"
  then have "8 \<le> m div 16" "m div 16 \<le> 15" by auto
  then have "m div 16 \<in> {8, 9, 10, 11, 12, 13, 14, 15}" by auto
  with m show ?thesis by (auto simp: ulaw_image_def ulaw_code_def ulaw_value_def Let_def)
qed

lemma ulaw_image_loud:
  assumes "4096 \<le> m" and "m \<le> 32768"
  shows "8 * ulaw_image m < m"
proof -
  define k where "k = m div 256 - 16"
  have k: "m div 256 = k + 16" "k \<le> 112" using assms by (auto simp: k_def)
  have m: "256 * (k + 16) \<le> m" using k(1) by (metis times_div_less_eq_dividend mult.commute)
  have "ulaw_code m mod 128 = k" using assms k by (simp add: ulaw_code_def)
  then have "ulaw_image m = ulaw_value k" by (simp add: ulaw_image_def)
  moreover have "list_all (\<lambda>k. 8 * ulaw_value k < 256 * (k + 16)) [0..<113]"
    by (simp add: upt_conv_Cons ulaw_value_def)
  then have "8 * ulaw_value k < 256 * (k + 16)" using k(2) by (simp add: list_all_iff)
  ultimately show ?thesis using m by linarith
qed

section \<open>What becomes of a sample\<close>

lemma within_step: "0 < q \<Longrightarrow> q * (m div q) \<le> m \<and> m < q * (m div q) + (q :: nat)"
  using dividend_less_times_div [of q m] by (simp add: algebra_simps)

lemma ulaw_image_bounds:
  "32 \<le> m \<Longrightarrow> m < 64 \<Longrightarrow> m + 29 < ulaw_image m \<and> ulaw_image m \<le> m + 33"
  "64 \<le> m \<Longrightarrow> m < 128 \<Longrightarrow> m + 57 < ulaw_image m \<and> ulaw_image m \<le> m + 65"
  "256 \<le> m \<Longrightarrow> m < 512 \<Longrightarrow> m + 225 < ulaw_image m \<and> ulaw_image m \<le> m + 257"
  "512 \<le> m \<Longrightarrow> m < 1024 \<Longrightarrow> m + 449 < ulaw_image m \<and> ulaw_image m \<le> m + 513"
  "1024 \<le> m \<Longrightarrow> m < 2048 \<Longrightarrow> m + 897 < ulaw_image m \<and> ulaw_image m \<le> m + 1025"
  "2048 \<le> m \<Longrightarrow> m < 4096 \<Longrightarrow> m + 1793 < ulaw_image m \<and> ulaw_image m \<le> m + 2049"
proof -
  show "32 \<le> m \<Longrightarrow> m < 64 \<Longrightarrow> m + 29 < ulaw_image m \<and> ulaw_image m \<le> m + 33"
    using within_step [of 4 m] by (simp add: ulaw_image_mid)
  show "64 \<le> m \<Longrightarrow> m < 128 \<Longrightarrow> m + 57 < ulaw_image m \<and> ulaw_image m \<le> m + 65"
    using within_step [of 8 m] by (simp add: ulaw_image_mid)
  show "256 \<le> m \<Longrightarrow> m < 512 \<Longrightarrow> m + 225 < ulaw_image m \<and> ulaw_image m \<le> m + 257"
    using within_step [of 32 m] by (simp add: ulaw_image_mid)
  show "512 \<le> m \<Longrightarrow> m < 1024 \<Longrightarrow> m + 449 < ulaw_image m \<and> ulaw_image m \<le> m + 513"
    using within_step [of 64 m] by (simp add: ulaw_image_mid)
  show "1024 \<le> m \<Longrightarrow> m < 2048 \<Longrightarrow> m + 897 < ulaw_image m \<and> ulaw_image m \<le> m + 1025"
    using within_step [of 128 m] by (simp add: ulaw_image_mid)
  show "2048 \<le> m \<Longrightarrow> m < 4096 \<Longrightarrow> m + 1793 < ulaw_image m \<and> ulaw_image m \<le> m + 2049"
    using within_step [of 256 m] by (simp add: ulaw_image_mid)
qed

lemma ulaw_image_distinct:
  assumes "32 \<le> m" and "m \<le> 32768"
  shows "ulaw_image m \<noteq> m"
proof -
  consider "m < 64" | "64 \<le> m" "m < 128" | "128 \<le> m" "m < 256" | "256 \<le> m" "m < 512" | "512 \<le> m" "m < 1024"
    | "1024 \<le> m" "m < 2048" | "2048 \<le> m" "m < 4096" | "4096 \<le> m" by linarith
  then show ?thesis
    by cases (use assms ulaw_image_bounds [of m] ulaw_image_wrapped [of m] within_step [of 16 m] ulaw_image_loud [of m] in simp_all)
qed

lemma abs_roundtrip:
  "\<bar>sint (ulaw_to_linear (linear_to_ulaw x))\<bar> = int (ulaw_image (nat \<bar>sint x\<bar>))"
  "\<bar>sint (alaw_to_linear (linear_to_alaw x))\<bar> = int (alaw_image (nat \<bar>sint x\<bar>))"
  by (simp_all add: ulaw_roundtrip alaw_roundtrip ulaw_image_def alaw_image_def sign_of_def)

text \<open>A sample survives mu-law coding exactly if it is odd and below 32 in magnitude.\<close>

theorem ulaw_exact_samples:
  "ulaw_to_linear (linear_to_ulaw x) = x \<longleftrightarrow> \<bar>sint x\<bar> < 32 \<and> odd (sint x)"
proof -
  let ?m = "nat \<bar>sint x\<bar>"
  have "ulaw_to_linear (linear_to_ulaw x) = x \<longleftrightarrow> sint (ulaw_to_linear (linear_to_ulaw x)) = sint x"
    using signed_word_eqI [of "ulaw_to_linear (linear_to_ulaw x)" x] by auto
  also have "\<dots> \<longleftrightarrow> ulaw_image ?m = ?m"
    by (auto simp: ulaw_roundtrip sign_of_def ulaw_image_def)
  also have "\<dots> \<longleftrightarrow> ?m < 32 \<and> odd ?m"
  proof (cases "?m < 32")
    case True
    have "2 * (m div 2) + 1 = m \<longleftrightarrow> odd m" for m :: nat by presburger
    with True show ?thesis by (simp only: ulaw_image_low simp_thms)
  next
    case False
    then show ?thesis using ulaw_image_distinct [of ?m] magnitude_bound [of x] by simp
  qed
  also have "\<dots> \<longleftrightarrow> \<bar>sint x\<bar> < 32 \<and> odd (sint x)"
    by (auto simp: even_nat_iff)
  finally show ?thesis .
qed

text \<open>C33: Loud samples become all but silent: above 4095 less than an eighth of the magnitude is left, since the
  segment number overflows into the sign bit and is masked away.\<close>

theorem ulaw_loud_samples_muted:
  assumes "4096 \<le> \<bar>sint x\<bar>"
  shows "8 * \<bar>sint (ulaw_to_linear (linear_to_ulaw x))\<bar> < \<bar>sint x\<bar>"
  using assms ulaw_image_loud [of "nat \<bar>sint x\<bar>"] magnitude_bound [of x] unfolding abs_roundtrip by linarith

theorem ulaw_loud_samples_muted_witness:
  "8 * \<bar>sint (ulaw_to_linear (linear_to_ulaw 0x7FFF))\<bar> < \<bar>sint (0x7FFF :: u16)\<bar>"
  by (rule ulaw_loud_samples_muted) simp

text \<open>The samples in between come back louder, by two fifths at least and up to double; those from 128 to 255 at
  less than half, since the sum in the third segment does not fit an octet.\<close>

lemma ulaw_louder:
  assumes "32 \<le> m" and "m < 4096" and "m < 128 \<or> 256 \<le> m"
  shows "7 * m \<le> 5 * ulaw_image m \<and> ulaw_image m \<le> 2 * m + 1"
proof -
  consider "m < 64" | "64 \<le> m" "m < 128" | "256 \<le> m" "m < 512" | "512 \<le> m" "m < 1024"
    | "1024 \<le> m" "m < 2048" | "2048 \<le> m" using assms by linarith
  then show ?thesis
    by cases (use assms ulaw_image_bounds [of m] in simp_all)
qed

section \<open>A-law\<close>

lemma alaw_step_mod:
  assumes "8 \<le> n" and "n < (16 :: nat)"
  shows "(n + 8) mod 16 = n - 8" "(n + 24) mod 16 = n - 8" "(n + 40) mod 16 = n - 8" "(n + 56) mod 16 = n - 8"
    "(n + 72) mod 16 = n - 8" "(n + 88) mod 16 = n - 8"
proof -
  from assms have "n \<in> {8, 9, 10, 11, 12, 13, 14, 15}" by auto
  then show "(n + 8) mod 16 = n - 8" "(n + 24) mod 16 = n - 8" "(n + 40) mod 16 = n - 8" "(n + 56) mod 16 = n - 8"
    "(n + 72) mod 16 = n - 8" "(n + 88) mod 16 = n - 8" by auto
qed

lemma alaw_image_segments:
  "m < 32 \<Longrightarrow> alaw_image m = 2 * (m div 2)"
  "32 \<le> m \<Longrightarrow> m < 64 \<Longrightarrow> alaw_image m = 4 * (m div 4) + 16"
  "64 \<le> m \<Longrightarrow> m < 128 \<Longrightarrow> alaw_image m = 8 * (m div 8) + 16"
  "128 \<le> m \<Longrightarrow> m < 240 \<Longrightarrow> alaw_image m = 16 * (m div 16) + 16"
  "256 \<le> m \<Longrightarrow> m < 512 \<Longrightarrow> alaw_image m = 32 * (m div 32) + 16"
  "512 \<le> m \<Longrightarrow> m < 1024 \<Longrightarrow> alaw_image m = 64 * (m div 64) + 16"
  "240 \<le> m \<Longrightarrow> m < 256 \<Longrightarrow> alaw_image m = 0"
proof -
  note defs = alaw_image_def alaw_code_def alaw_value_def Let_def
  show "m < 32 \<Longrightarrow> alaw_image m = 2 * (m div 2)"
    by (cases "m < 16") (auto simp: defs alaw_step_mod)
  show "32 \<le> m \<Longrightarrow> m < 64 \<Longrightarrow> alaw_image m = 4 * (m div 4) + 16" by (auto simp: defs alaw_step_mod)
  show "64 \<le> m \<Longrightarrow> m < 128 \<Longrightarrow> alaw_image m = 8 * (m div 8) + 16" by (auto simp: defs alaw_step_mod)
  show "256 \<le> m \<Longrightarrow> m < 512 \<Longrightarrow> alaw_image m = 32 * (m div 32) + 16" by (auto simp: defs alaw_step_mod)
  show "512 \<le> m \<Longrightarrow> m < 1024 \<Longrightarrow> alaw_image m = 64 * (m div 64) + 16" by (auto simp: defs alaw_step_mod)
  show "alaw_image m = 16 * (m div 16) + 16" if m: "128 \<le> m" "m < 240"
  proof -
    from m have "8 \<le> m div 16" "m div 16 \<le> 14" by auto
    then have "m div 16 \<in> {8, 9, 10, 11, 12, 13, 14}" by auto
    with m show ?thesis by (auto simp: defs)
  qed
  show "alaw_image m = 0" if m: "240 \<le> m" "m < 256"
  proof -
    from m have "15 \<le> m div 16" "m div 16 \<le> 15" by auto
    then have "m div 16 = 15" by simp
    with m show ?thesis by (simp add: defs)
  qed
qed

lemma alaw_image_top: "1024 \<le> m \<Longrightarrow> m < 3072 \<Longrightarrow> alaw_image m = 128 * (m div 128) + 16"
proof -
  assume m: "1024 \<le> m" "m < 3072"
  define n where "n = m div 128"
  from m have n: "8 \<le> n" "n < 24" by (auto simp: n_def)
  define k where "k = n - 8"
  have k: "n = k + 8" "k < 16" using n by (auto simp: k_def)
  have "(n + 104) mod 128 = n + 104" "(n + 104) mod 16 = n - 8"
    using k step_mod(7) [of k] by (simp_all add: add.commute)
  with m n show ?thesis by (simp add: alaw_image_def alaw_code_def alaw_value_def Let_def n_def [symmetric])
qed

lemma alaw_image_error:
  assumes "m < 3072" and "m < 240 \<or> 256 \<le> m"
  shows "alaw_image m \<le> m + 16 \<and> m < alaw_image m + 112"
proof -
  consider "m < 32" | "32 \<le> m" "m < 64" | "64 \<le> m" "m < 128" | "128 \<le> m" "m < 240" | "256 \<le> m" "m < 512"
    | "512 \<le> m" "m < 1024" | "1024 \<le> m" using assms(2) by linarith
  then show ?thesis
  proof cases
    case 1
    then show ?thesis using within_step [of 2 m] alaw_image_segments(1) [of m] assms(1) by simp
  next
    case 2
    then show ?thesis using within_step [of 4 m] alaw_image_segments(2) [of m] assms(1) by simp
  next
    case 3
    then show ?thesis using within_step [of 8 m] alaw_image_segments(3) [of m] assms(1) by simp
  next
    case 4
    then show ?thesis using within_step [of 16 m] alaw_image_segments(4) [of m] assms(1) by simp
  next
    case 5
    then show ?thesis using within_step [of 32 m] alaw_image_segments(5) [of m] assms(1) by simp
  next
    case 6
    then show ?thesis using within_step [of 64 m] alaw_image_segments(6) [of m] assms(1) by simp
  next
    case 7
    then show ?thesis using within_step [of 128 m] alaw_image_top [of m] assms(1) by simp
  qed
qed

text \<open>A-law coding keeps samples below 3072 to within a step of the top segment; those from 240 to 255 vanish.\<close>

theorem alaw_error_bound:
  assumes "\<bar>sint x\<bar> < 3072" and "\<bar>sint x\<bar> < 240 \<or> 256 \<le> \<bar>sint x\<bar>"
  shows "\<bar>\<bar>sint (alaw_to_linear (linear_to_alaw x))\<bar> - \<bar>sint x\<bar>\<bar> < 112"
proof -
  define m where "m = nat \<bar>sint x\<bar>"
  have m: "int m = \<bar>sint x\<bar>" by (simp add: m_def)
  with assms have "m < 3072" "m < 240 \<or> 256 \<le> m" by linarith+
  from alaw_image_error [OF this] show ?thesis
    unfolding abs_roundtrip m_def [symmetric] using m by linarith
qed

theorem alaw_error_bound_witness:
  "\<bar>\<bar>sint (alaw_to_linear (linear_to_alaw 3000))\<bar> - \<bar>sint (3000 :: u16)\<bar>\<bar> < 112"
  by (rule alaw_error_bound) simp_all

end
