(* ===== verification/Transcoding.thy ===== *)
theory Transcoding
  imports G711 "HOL-Library.AList" Complex_Main
begin

text \<open>
  The codec translation service (\<open>redfire-codec-engine/src/codec.rs\<close>) as built by default, without
  the GPU features: the codecs and their parameters, sessions, the translation of a frame, the
  G.729 framing, the resampler and the statistics. The G.729 codec of a session and its processor
  (\<open>g729_codec.rs\<close>, floating point) are arguments; the Annex A/B processor, which needs \<open>use_gpu\<close>, is
  absent, so its fallbacks are what is modelled, except the noise generator. Samples are bit patterns;
  the resampler's \<open>f64\<close> are rationals (nothing reads its samples: the Opus codec is a placeholder).
\<close>

section \<open>Codecs\<close>

datatype audio_codec = G711Ulaw | G711Alaw | G729 | G729AnnexA | G729AnnexB | Pcm16 | Opus | G722 | G7222

fun codec_sample_rate :: "audio_codec \<Rightarrow> u32" where
  "codec_sample_rate Opus = 48000"
| "codec_sample_rate G722 = 16000"
| "codec_sample_rate G7222 = 16000"
| "codec_sample_rate _ = 8000"

fun codec_frame_size :: "audio_codec \<Rightarrow> nat" where
  "codec_frame_size G711Ulaw = 160"
| "codec_frame_size G711Alaw = 160"
| "codec_frame_size Pcm16 = 160"
| "codec_frame_size Opus = 960"
| "codec_frame_size G722 = 320"
| "codec_frame_size G7222 = 320"
| "codec_frame_size _ = 80"

fun codec_payload_size :: "audio_codec \<Rightarrow> nat" where
  "codec_payload_size G711Ulaw = 160"
| "codec_payload_size G711Alaw = 160"
| "codec_payload_size Pcm16 = 320"
| "codec_payload_size Opus = 32"
| "codec_payload_size G722 = 80"
| "codec_payload_size G7222 = 33"
| "codec_payload_size _ = 10"

fun codec_payload_type :: "audio_codec \<Rightarrow> u8" where
  "codec_payload_type G711Ulaw = 0"
| "codec_payload_type G711Alaw = 8"
| "codec_payload_type Pcm16 = 10"
| "codec_payload_type Opus = 96"
| "codec_payload_type G722 = 9"
| "codec_payload_type G7222 = 97"
| "codec_payload_type _ = 18"

definition codec_of_payload_type :: "u8 \<Rightarrow> audio_codec option" where
  "codec_of_payload_type pt =
    (if pt = 0 then Some G711Ulaw else if pt = 8 then Some G711Alaw else if pt = 18 then Some G729
     else if pt = 10 then Some Pcm16 else if pt = 96 then Some Opus else if pt = 97 then Some G7222
     else if pt = 9 then Some G722 else None)"

type_synonym codec_translation = "audio_codec \<times> audio_codec"

definition generate_all_codec_pairs :: "codec_translation list" where
  "generate_all_codec_pairs =
    (let codecs = [G711Ulaw, G711Alaw, G729, G729AnnexA, G729AnnexB, Pcm16, G722, G7222, Opus]
     in concat (map (\<lambda>from_codec. map (Pair from_codec) (filter (\<lambda>to_codec. from_codec \<noteq> to_codec) codecs)) codecs))"

record codec_config =
  xc_enabled :: bool
  xc_max_sessions :: u32
  xc_buffer_size :: nat
  xc_supported_translations :: "codec_translation list"

definition default_codec_config :: codec_config where
  "default_codec_config = \<lparr>xc_enabled = True, xc_max_sessions = 100, xc_buffer_size = 8192,
     xc_supported_translations = generate_all_codec_pairs\<rparr>"

record audio_frame =
  af_data :: "u8 list"
  af_codec :: audio_codec
  af_sample_rate :: u32
  af_channels :: u16
  af_rtp_timestamp :: u32
  af_sequence :: u16

record transcoded_frame =
  tf_original :: audio_frame
  tf_data :: "u8 list"
  tf_target_codec :: audio_codec
  tf_processing_time_us :: u64

section \<open>The Opus placeholder\<close>

record opus_codec =
  oc_sample_rate :: u32
  oc_channels :: u8

definition opus_encode :: "opus_codec \<Rightarrow> u16 list \<Rightarrow> u8 list" where
  "opus_encode c pcm_data = replicate 32 0"

definition opus_decode :: "opus_codec \<Rightarrow> u8 list \<Rightarrow> nat \<Rightarrow> u16 list" where
  "opus_decode c opus_data output_size = replicate output_size 0"

section \<open>The service\<close>

record transcoding_session =
  xs_session_id :: string
  xs_from_codec :: audio_codec
  xs_to_codec :: audio_codec
  xs_sample_rate :: u32
  xs_channels :: u16
  xs_frames_processed :: u64
  xs_total_processing_time_us :: u64

record 'g codec_service =
  xv_config :: codec_config
  xv_sessions :: "(string \<times> transcoding_session) list"
  xv_g729_codecs :: "(string \<times> 'g) list"
  xv_opus_codecs :: "(string \<times> opus_codec) list"

record 'g g729_engine =
  ge_new :: 'g
  ge_encode :: "'g \<Rightarrow> u16 list \<Rightarrow> (string + u8 list) \<times> 'g"
  ge_decode :: "'g \<Rightarrow> u8 list \<Rightarrow> (string + u16 list) \<times> 'g"

datatype codec_error = UnsupportedTranslation audio_codec audio_codec | TranscodingSessionNotFound string
  | G729CodecNotFound | OpusCodecNotFound | G729Failed string

definition new_codec_service :: "codec_config \<Rightarrow> 'g codec_service" where
  "new_codec_service config = \<lparr>xv_config = config, xv_sessions = [], xv_g729_codecs = [], xv_opus_codecs = []\<rparr>"

definition start_session ::
    "'g g729_engine \<Rightarrow> string \<Rightarrow> audio_codec \<Rightarrow> audio_codec \<Rightarrow> u32 \<Rightarrow> u16 \<Rightarrow> 'g codec_service \<Rightarrow>
     (codec_error + unit) \<times> 'g codec_service" where
  "start_session g session_id from_codec to_codec sample_rate channels s =
    (if (from_codec, to_codec) \<notin> set (xc_supported_translations (xv_config s))
     then (Inl (UnsupportedTranslation from_codec to_codec), s)
     else
       let session = \<lparr>xs_session_id = session_id, xs_from_codec = from_codec, xs_to_codec = to_codec,
             xs_sample_rate = sample_rate, xs_channels = channels, xs_frames_processed = 0,
             xs_total_processing_time_us = 0\<rparr>;
           s = (if from_codec = G729 \<or> to_codec = G729
             then s\<lparr>xv_g729_codecs := AList.update session_id (ge_new g) (xv_g729_codecs s)\<rparr> else s);
           s = (if from_codec = Opus \<or> to_codec = Opus
             then s\<lparr>xv_opus_codecs := AList.update session_id
               \<lparr>oc_sample_rate = sample_rate, oc_channels = ucast channels\<rparr> (xv_opus_codecs s)\<rparr> else s)
       in (Inr (), s\<lparr>xv_sessions := AList.update session_id session (xv_sessions s)\<rparr>))"

section \<open>G.729 frames\<close>

definition g729_frame_size :: nat where "g729_frame_size = 80"

definition g729_encoded_size :: nat where "g729_encoded_size = 10"

function chunks_of :: "nat \<Rightarrow> 'a list \<Rightarrow> 'a list list" where
  "chunks_of n xs = (if xs = [] \<or> n = 0 then [] else take n xs # chunks_of n (drop n xs))"
  by pat_completeness auto
termination by (relation "measure (\<lambda>(n, xs). length xs)") auto

declare chunks_of.simps [simp del]

definition pad_frame :: "u16 list \<Rightarrow> u16 list" where
  "pad_frame chunk =
    (if length chunk = g729_frame_size then chunk else chunk @ replicate (g729_frame_size - length chunk) 0)"

fun encode_frames :: "'g g729_engine \<Rightarrow> 'g \<Rightarrow> u16 list list \<Rightarrow> (string + u8 list) \<times> 'g" where
  "encode_frames e g [] = (Inr [], g)"
| "encode_frames e g (chunk # chunks) =
    (case ge_encode e g (pad_frame chunk) of
       (Inl err, g) \<Rightarrow> (Inl err, g)
     | (Inr bs, g) \<Rightarrow>
         (case encode_frames e g chunks of
            (Inl err, g) \<Rightarrow> (Inl err, g)
          | (Inr out, g) \<Rightarrow> (Inr (bs @ out), g)))"

definition g729_encode_chunked :: "'g g729_engine \<Rightarrow> 'g \<Rightarrow> u16 list \<Rightarrow> (string + u8 list) \<times> 'g" where
  "g729_encode_chunked e g pcm = encode_frames e g (chunks_of g729_frame_size pcm)"

text \<open>A trailing partial frame is dropped.\<close>

fun decode_frames :: "'g g729_engine \<Rightarrow> 'g \<Rightarrow> u8 list list \<Rightarrow> (string + u16 list) \<times> 'g" where
  "decode_frames e g [] = (Inr [], g)"
| "decode_frames e g (frame # frames) =
    (if length frame \<noteq> g729_encoded_size then (Inr [], g)
     else
       case ge_decode e g frame of
         (Inl err, g) \<Rightarrow> (Inl err, g)
       | (Inr pcm, g) \<Rightarrow>
           (case decode_frames e g frames of
              (Inl err, g) \<Rightarrow> (Inl err, g)
            | (Inr out, g) \<Rightarrow> (Inr (pcm @ out), g)))"

definition g729_decode_chunked :: "'g g729_engine \<Rightarrow> 'g \<Rightarrow> u8 list \<Rightarrow> (string + u16 list) \<times> 'g" where
  "g729_decode_chunked e g data = decode_frames e g (chunks_of g729_encoded_size data)"

section \<open>Linear samples\<close>

definition to_le_bytes :: "u16 \<Rightarrow> u8 list" where
  "to_le_bytes sample = [ucast sample, ucast (drop_bit 8 sample)]"

fun bytes_to_pcm16 :: "u8 list \<Rightarrow> u16 list" where
  "bytes_to_pcm16 (a # b # rest) = of_be16 b a # bytes_to_pcm16 rest"
| "bytes_to_pcm16 _ = []"

definition pcm16_bytes :: "u16 list \<Rightarrow> u8 list" where
  "pcm16_bytes pcm = concat (map to_le_bytes pcm)"

definition rat_trunc :: "rat \<Rightarrow> int" where
  "rat_trunc x = (if 0 \<le> x then \<lfloor>x\<rfloor> else \<lceil>x\<rceil>)"

definition resampled_at :: "u16 list \<Rightarrow> rat \<Rightarrow> nat \<Rightarrow> u16" where
  "resampled_at input ratio i =
    (let src_index = of_nat i / ratio;
         src_index_floor = nat \<lfloor>src_index\<rfloor>;
         src_index_ceil = min (src_index_floor + 1) (length input - 1);
         fraction = src_index - of_nat src_index_floor
     in if src_index_floor < length input then
          let a = of_int (sint (input ! src_index_floor)); b = of_int (sint (input ! src_index_ceil))
          in word_of_int (rat_trunc (a + (b - a) * fraction))
        else 0)"

definition resample_audio :: "u16 list \<Rightarrow> nat \<Rightarrow> nat \<Rightarrow> u16 list" where
  "resample_audio input from_rate to_rate =
    (if from_rate = to_rate then input
     else
       let ratio = of_nat to_rate / of_nat from_rate;
           output_len = nat \<lfloor>of_nat (length input) * ratio\<rfloor>
       in map (resampled_at input ratio) [0..<output_len])"

section \<open>Translating a frame\<close>

definition with_g729 ::
    "string \<Rightarrow> ('g \<Rightarrow> (string + 'a) \<times> 'g) \<Rightarrow> 'g codec_service \<Rightarrow> (codec_error + 'a) \<times> 'g codec_service" where
  "with_g729 session_id f s =
    (case map_of (xv_g729_codecs s) session_id of
       None \<Rightarrow> (Inl G729CodecNotFound, s)
     | Some codec \<Rightarrow>
         let (r, codec) = f codec
         in (case r of Inl e \<Rightarrow> Inl (G729Failed e) | Inr x \<Rightarrow> Inr x,
             s\<lparr>xv_g729_codecs := AList.update session_id codec (xv_g729_codecs s)\<rparr>))"

definition map_result :: "('a \<Rightarrow> 'b) \<Rightarrow> ('e + 'a) \<times> 's \<Rightarrow> ('e + 'b) \<times> 's" where
  "map_result f r = (case r of (Inl e, s) \<Rightarrow> (Inl e, s) | (Inr x, s) \<Rightarrow> (Inr (f x), s))"

fun perform_transcoding ::
    "'g g729_engine \<Rightarrow> string \<Rightarrow> u8 list \<Rightarrow> audio_codec \<Rightarrow> audio_codec \<Rightarrow> 'g codec_service \<Rightarrow>
     (codec_error + u8 list) \<times> 'g codec_service" where
  "perform_transcoding e i data G711Ulaw G711Alaw s = (Inr (ulaw_to_alaw data), s)"
| "perform_transcoding e i data G711Alaw G711Ulaw s = (Inr (alaw_to_ulaw data), s)"
| "perform_transcoding e i data G711Ulaw Pcm16 s = (Inr (pcm16_bytes (decode_ulaw data)), s)"
| "perform_transcoding e i data G711Alaw Pcm16 s = (Inr (pcm16_bytes (decode_alaw data)), s)"
| "perform_transcoding e i data Pcm16 G711Ulaw s = (Inr (encode_ulaw (bytes_to_pcm16 data)), s)"
| "perform_transcoding e i data Pcm16 G711Alaw s = (Inr (encode_alaw (bytes_to_pcm16 data)), s)"
| "perform_transcoding e i data G711Ulaw G729 s =
    with_g729 i (\<lambda>g. g729_encode_chunked e g (decode_ulaw data)) s"
| "perform_transcoding e i data G711Alaw G729 s =
    with_g729 i (\<lambda>g. g729_encode_chunked e g (decode_alaw data)) s"
| "perform_transcoding e i data G729 G711Ulaw s =
    map_result encode_ulaw (with_g729 i (\<lambda>g. g729_decode_chunked e g data) s)"
| "perform_transcoding e i data G729 G711Alaw s =
    map_result encode_alaw (with_g729 i (\<lambda>g. g729_decode_chunked e g data) s)"
| "perform_transcoding e i data Opus G711Ulaw s =
    (case map_of (xv_opus_codecs s) i of
       None \<Rightarrow> (Inl OpusCodecNotFound, s)
     | Some codec \<Rightarrow> (Inr (encode_ulaw (opus_decode codec data 160)), s))"
| "perform_transcoding e i data G711Ulaw Opus s =
    (let resampled = resample_audio (decode_ulaw data) 8000 48000
     in case map_of (xv_opus_codecs s) i of
          None \<Rightarrow> (Inl OpusCodecNotFound, s)
        | Some codec \<Rightarrow> (Inr (opus_encode codec resampled), s))"
| "perform_transcoding e i data from_codec to_codec s = (Inl (UnsupportedTranslation from_codec to_codec), s)"

text \<open>The time a frame takes is measured by the caller of the model.\<close>

definition transcode_frame ::
    "'g g729_engine \<Rightarrow> u64 \<Rightarrow> string \<Rightarrow> audio_frame \<Rightarrow> 'g codec_service \<Rightarrow>
     (codec_error + transcoded_frame) \<times> 'g codec_service" where
  "transcode_frame e processing_time_us session_id frame s =
    (case map_of (xv_sessions s) session_id of
       None \<Rightarrow> (Inl (TranscodingSessionNotFound session_id), s)
     | Some session \<Rightarrow>
         (case perform_transcoding e session_id (af_data frame) (xs_from_codec session) (xs_to_codec session) s of
            (Inl err, s) \<Rightarrow> (Inl err, s)
          | (Inr transcoded_data, s) \<Rightarrow>
              (Inr \<lparr>tf_original = frame, tf_data = transcoded_data, tf_target_codec = xs_to_codec session,
                 tf_processing_time_us = processing_time_us\<rparr>,
               s\<lparr>xv_sessions := AList.map_entry session_id (\<lambda>session. session
                 \<lparr>xs_frames_processed := xs_frames_processed session + 1,
                  xs_total_processing_time_us := xs_total_processing_time_us session + processing_time_us\<rparr>)
                 (xv_sessions s)\<rparr>)))"

definition end_session ::
    "string \<Rightarrow> 'g codec_service \<Rightarrow> (codec_error + transcoding_session) \<times> 'g codec_service" where
  "end_session session_id s =
    (case map_of (xv_sessions s) session_id of
       None \<Rightarrow> (Inl (TranscodingSessionNotFound session_id), s)
     | Some session \<Rightarrow>
         (Inr session, s\<lparr>xv_sessions := AList.delete session_id (xv_sessions s),
            xv_g729_codecs := AList.delete session_id (xv_g729_codecs s),
            xv_opus_codecs := AList.delete session_id (xv_opus_codecs s)\<rparr>))"

section \<open>Annex sessions without the annex processor\<close>

definition encode_g729_annex_frame ::
    "'g g729_engine \<Rightarrow> string \<Rightarrow> u16 list \<Rightarrow> 'g codec_service \<Rightarrow> (codec_error + u8 list) \<times> 'g codec_service" where
  "encode_g729_annex_frame e session_id audio_samples s =
    with_g729 session_id (\<lambda>g. ge_encode e g audio_samples) s"

definition start_g729_annex_session :: "'g g729_engine \<Rightarrow> string \<Rightarrow> 'g codec_service \<Rightarrow> 'g codec_service" where
  "start_g729_annex_session e session_id s =
    s\<lparr>xv_g729_codecs := AList.update session_id (ge_new e) (xv_g729_codecs s)\<rparr>"

definition end_g729_annex_session :: "string \<Rightarrow> 'g codec_service \<Rightarrow> 'g codec_service" where
  "end_g729_annex_session session_id s = s\<lparr>xv_g729_codecs := AList.delete session_id (xv_g729_codecs s)\<rparr>"

section \<open>Statistics\<close>

record codec_statistics =
  xt_active_sessions :: nat
  xt_total_frames_processed :: u64
  xt_average_processing_time_us :: u64

definition get_session_stats :: "'g codec_service \<Rightarrow> string \<Rightarrow> transcoding_session option" where
  "get_session_stats s session_id = map_of (xv_sessions s) session_id"

definition get_active_sessions :: "'g codec_service \<Rightarrow> string list" where
  "get_active_sessions s = map fst (xv_sessions s)"

definition get_codec_statistics :: "'g codec_service \<Rightarrow> codec_statistics" where
  "get_codec_statistics s =
    (let total_frames = sum_list (map (xs_frames_processed \<circ> snd) (xv_sessions s));
         total_time = sum_list (map (xs_total_processing_time_us \<circ> snd) (xv_sessions s))
     in \<lparr>xt_active_sessions = length (xv_sessions s), xt_total_frames_processed = total_frames,
         xt_average_processing_time_us = (if 0 < total_frames then total_time div total_frames else 0)\<rparr>)"

section \<open>Linear samples and payloads\<close>

lemma bytes_to_pcm16_bytes [simp]: "bytes_to_pcm16 (pcm16_bytes pcm) = pcm"
  by (induction pcm) (simp_all add: pcm16_bytes_def to_le_bytes_def)

text \<open>An octet too many is dropped, although the log line speaks of padding.\<close>

lemma length_bytes_to_pcm16: "length (bytes_to_pcm16 data) = length data div 2"
  by (induction data rule: bytes_to_pcm16.induct) simp_all

text \<open>From 8 to 48 kHz every sample is kept, with five interpolated ones after it.\<close>

lemma rat_trunc_of_int [simp]: "rat_trunc (of_int i) = i"
  by (simp add: rat_trunc_def)

lemma rat_trunc_signed [simp]: "rat_trunc (signed (w :: u16)) = sint w"
  using rat_trunc_of_int [of "sint w"] by simp

lemma length_resample: "length (resample_audio input 8000 48000) = 6 * length input"
proof -
  have "of_nat (length input) * (48000 / 8000 :: rat) = of_int (int (6 * length input))" by simp
  then have "nat \<lfloor>of_nat (length input) * (48000 / 8000 :: rat)\<rfloor> = 6 * length input" by (simp only: floor_of_int nat_int)
  then show ?thesis by (simp add: resample_audio_def Let_def)
qed

lemma resample_keeps_samples:
  assumes "i < length input"
  shows "resample_audio input 8000 48000 ! (6 * i) = input ! i"
proof -
  have n: "nat \<lfloor>of_nat (length input) * (48000 / 8000 :: rat)\<rfloor> = 6 * length input"
    using length_resample [of input] by (simp add: resample_audio_def Let_def)
  have "resampled_at input (48000 / 8000) (6 * i) = input ! i"
    using assms by (simp add: resampled_at_def Let_def)
  with assms n show ?thesis by (simp add: resample_audio_def)
qed

section \<open>G.729 payloads\<close>

lemma length_chunks_of: "0 < n \<Longrightarrow> length (chunks_of n xs) = (length xs + n - 1) div n"
proof (induction n xs rule: chunks_of.induct)
  case (1 n xs)
  show ?case
  proof (cases "xs = []")
    case True
    with 1 show ?thesis by (simp add: chunks_of.simps)
  next
    case False
    with 1 have IH: "length (chunks_of n (drop n xs)) = (length xs - n + n - 1) div n" by simp
    show ?thesis
    proof (cases "n \<le> length xs")
      case True
      then have "(length xs + n - 1) div n = Suc ((length xs - 1) div n)"
        using \<open>0 < n\<close> False by (cases xs) (simp_all add: div_add_self2)
      with IH True False 1 show ?thesis by (simp add: chunks_of.simps [of n xs])
    next
      case short: False
      then have "drop n xs = []" by simp
      moreover have "(length xs + n - 1) div n = 1"
      proof -
        have "length xs + n - 1 = n + (length xs - 1)" using False by (cases xs) auto
        then show ?thesis using short \<open>0 < n\<close> by (simp only: div_add_self1) simp
      qed
      ultimately show ?thesis using False 1 by (simp add: chunks_of.simps [of n xs] chunks_of.simps [of n "[]"])
    qed
  qed
qed

lemma chunks_of_length: "c \<in> set (chunks_of n xs) \<Longrightarrow> length c \<le> n"
proof (induction n xs rule: chunks_of.induct)
  case (1 n xs)
  then show ?case by (subst (asm) (2) chunks_of.simps) (auto split: if_splits)
qed

lemma length_pad_frame: "length c \<le> g729_frame_size \<Longrightarrow> length (pad_frame c) = g729_frame_size"
  by (simp add: pad_frame_def)

lemma encode_frames_length:
  assumes "\<And>g pcm. length pcm = g729_frame_size \<Longrightarrow> \<exists>bs g'. ge_encode e g pcm = (Inr bs, g') \<and> length bs = g729_encoded_size"
    and "\<forall>c \<in> set cs. length c \<le> g729_frame_size"
  shows "\<exists>out g'. encode_frames e g cs = (Inr out, g') \<and> length out = g729_encoded_size * length cs"
  using assms(2)
proof (induction cs arbitrary: g)
  case (Cons c cs)
  from Cons.prems obtain bs g1 where "ge_encode e g (pad_frame c) = (Inr bs, g1)" "length bs = g729_encoded_size"
    using assms(1) [OF length_pad_frame] by fastforce
  moreover obtain out g2 where "encode_frames e g1 cs = (Inr out, g2)" "length out = g729_encoded_size * length cs"
    using Cons by fastforce
  ultimately show ?case by simp
qed simp

text \<open>With an encoder that makes ten octets of each 80 samples, the samples of a packet, however many, become a
  payload of one frame for each started 80: none are dropped.\<close>

theorem g729_payload_length:
  assumes "\<And>g pcm. length pcm = 80 \<Longrightarrow> \<exists>bs g'. ge_encode e g pcm = (Inr bs, g') \<and> length bs = 10"
  shows "\<exists>out g'. g729_encode_chunked e g pcm = (Inr out, g') \<and> length out = 10 * ((length pcm + 79) div 80)"
proof -
  have "\<forall>c \<in> set (chunks_of 80 pcm). length c \<le> 80" using chunks_of_length by blast
  then have "\<exists>out g'. encode_frames e g (chunks_of 80 pcm) = (Inr out, g') \<and> length out = 10 * length (chunks_of 80 pcm)"
    using encode_frames_length [of e "chunks_of 80 pcm" g] assms
    by (simp add: g729_frame_size_def g729_encoded_size_def)
  moreover have "length (chunks_of 80 pcm) = (length pcm + 79) div 80"
    using length_chunks_of [of 80 pcm] by simp
  ultimately show ?thesis by (simp only: g729_encode_chunked_def g729_frame_size_def)
qed

theorem g729_payload_length_witness:
  "\<exists>out g'. g729_encode_chunked \<lparr>ge_new = (), ge_encode = (\<lambda>g pcm. (Inr (replicate 10 0), g)),
      ge_decode = (\<lambda>g data. (Inr (replicate 80 0), g))\<rparr> () (replicate 160 0) = (Inr out, g') \<and> length out = 20"
  using g729_payload_length [of "\<lparr>ge_new = (), ge_encode = (\<lambda>g pcm. (Inr (replicate 10 0), g)),
      ge_decode = (\<lambda>g data. (Inr (replicate 80 0), g))\<rparr>" "()" "replicate 160 0"]
  by simp

section \<open>Translations that are offered but never done\<close>

definition cpu_translations :: "codec_translation list" where
  "cpu_translations = [(G711Ulaw, G711Alaw), (G711Alaw, G711Ulaw), (G711Ulaw, Pcm16), (G711Alaw, Pcm16), (Pcm16, G711Ulaw),
     (Pcm16, G711Alaw), (G711Ulaw, G729), (G711Alaw, G729), (G729, G711Ulaw), (G729, G711Alaw), (Opus, G711Ulaw),
     (G711Ulaw, Opus)]"

lemma perform_unsupported:
  "(from_codec, to_codec) \<notin> set cpu_translations \<Longrightarrow>
    perform_transcoding e i data from_codec to_codec s = (Inl (UnsupportedTranslation from_codec to_codec), s)"
  by (cases from_codec; cases to_codec) (simp_all add: cpu_translations_def)

lemma with_g729_supported: "fst (with_g729 i f s) \<noteq> Inl (UnsupportedTranslation a b)"
  by (simp add: with_g729_def split: option.split prod.split sum.split)

lemma map_result_Inl: "fst (map_result f p) = Inl e \<longleftrightarrow> fst p = Inl e"
  by (simp add: map_result_def split: prod.split sum.split)

lemma perform_supported:
  "(from_codec, to_codec) \<in> set cpu_translations \<Longrightarrow>
    fst (perform_transcoding e i data from_codec to_codec s) \<noteq> Inl (UnsupportedTranslation a b)"
  by (cases "map_of (xv_opus_codecs s) i")
    (auto simp: cpu_translations_def map_result_Inl with_g729_supported)

lemma pairs_of_list:
  "set (concat (map (\<lambda>a. map (Pair a) (filter (\<lambda>b. a \<noteq> b) cs)) cs)) = {(a, b). a \<in> set cs \<and> b \<in> set cs \<and> a \<noteq> b}"
  by auto

lemma all_pairs: "set generate_all_codec_pairs = {(a, b). a \<noteq> b}"
proof -
  have "a \<in> set [G711Ulaw, G711Alaw, G729, G729AnnexA, G729AnnexB, Pcm16, G722, G7222, Opus]" for a
    by (cases a) simp_all
  then show ?thesis unfolding generate_all_codec_pairs_def Let_def pairs_of_list by (simp only: simp_thms)
qed

lemma started_session:
  "(from_codec, to_codec) \<in> set (xc_supported_translations (xv_config s)) \<Longrightarrow>
    \<exists>s' x. start_session e i from_codec to_codec rate channels s = (Inr (), s') \<and> map_of (xv_sessions s') i = Some x \<and>
      xs_from_codec x = from_codec \<and> xs_to_codec x = to_codec"
  by (simp add: start_session_def Let_def)

text \<open>Every pair of codecs is offered, but the processor can only do 12 of the 72: for the others the session starts
  and each of its frames fails.\<close>

theorem offered_translations_fail:
  assumes "xv_config s = default_codec_config" and "from_codec \<noteq> to_codec"
    and "(from_codec, to_codec) \<notin> set cpu_translations"
  shows "\<exists>s'. start_session e i from_codec to_codec rate channels s = (Inr (), s') \<and>
    (\<forall>us frame. transcode_frame e us i frame s' = (Inl (UnsupportedTranslation from_codec to_codec), s'))"
proof -
  have "(from_codec, to_codec) \<in> set (xc_supported_translations (xv_config s))"
    using assms(1,2) by (simp add: default_codec_config_def all_pairs)
  from started_session [OF this] obtain s' x where "start_session e i from_codec to_codec rate channels s = (Inr (), s')"
    "map_of (xv_sessions s') i = Some x" "xs_from_codec x = from_codec" "xs_to_codec x = to_codec" by blast
  then show ?thesis by (simp add: transcode_frame_def perform_unsupported [OF assms(3)])
qed

theorem offered_translations_fail_witness:
  "\<exists>s'. start_session e ''s'' G722 G711Ulaw 16000 1 (new_codec_service default_codec_config) = (Inr (), s') \<and>
    fst (transcode_frame e 0 ''s'' f s') = Inl (UnsupportedTranslation G722 G711Ulaw)"
  using offered_translations_fail [of "new_codec_service default_codec_config" G722 G711Ulaw e "''s''" 16000 1]
  by (auto simp: new_codec_service_def cpu_translations_def)

lemma pairs_done: "length (filter (\<lambda>p. p \<in> set cpu_translations) generate_all_codec_pairs) = 12 \<and>
    length generate_all_codec_pairs = 72"
  by (simp add: cpu_translations_def generate_all_codec_pairs_def)

section \<open>The codecs of a session\<close>

definition session_codecs :: "'g codec_service \<Rightarrow> bool" where
  "session_codecs s \<longleftrightarrow> (\<forall>i x. map_of (xv_sessions s) i = Some x \<longrightarrow>
     (xs_from_codec x = G729 \<or> xs_to_codec x = G729 \<longrightarrow> map_of (xv_g729_codecs s) i \<noteq> None) \<and>
     (xs_from_codec x = Opus \<or> xs_to_codec x = Opus \<longrightarrow> map_of (xv_opus_codecs s) i \<noteq> None))"

text \<open>Operations one after the other. An annex session is ended under any name but that of a running
  session: lemma \<open>annex_end_breaks_session\<close> shows what happens otherwise.\<close>

inductive codec_step :: "'g g729_engine \<Rightarrow> 'g codec_service \<Rightarrow> 'g codec_service \<Rightarrow> bool" for e where
  start: "start_session e i f t rate channels s = (r, s') \<Longrightarrow> codec_step e s s'"
| frame: "transcode_frame e us i af s = (r, s') \<Longrightarrow> codec_step e s s'"
| finish: "end_session i s = (r, s') \<Longrightarrow> codec_step e s s'"
| annex_frame: "encode_g729_annex_frame e i pcm s = (r, s') \<Longrightarrow> codec_step e s s'"
| annex_start: "codec_step e s (start_g729_annex_session e i s)"
| annex_end: "map_of (xv_sessions s) i = None \<Longrightarrow> codec_step e s (end_g729_annex_session i s)"

lemma with_g729_codecs:
  assumes "session_codecs s" and "with_g729 i f s = (r, s')"
  shows "session_codecs s' \<and> xv_sessions s' = xv_sessions s"
  using assms by (auto simp: with_g729_def session_codecs_def split: option.splits prod.splits)

lemma map_result_snd: "map_result f p = (r, s') \<Longrightarrow> \<exists>r0. p = (r0, s')"
  by (cases p) (auto simp: map_result_def split: sum.splits)

lemma perform_codecs:
  assumes "session_codecs s" and "perform_transcoding e i data f t s = (r, s')"
  shows "session_codecs s' \<and> xv_sessions s' = xv_sessions s"
proof (cases "(f, t) \<in> set cpu_translations")
  case True
  with assms show ?thesis
    by (auto simp: cpu_translations_def Let_def split: option.splits
        dest!: map_result_snd with_g729_codecs [OF assms(1)])
qed (use assms in \<open>auto simp: perform_unsupported\<close>)

lemma lookup_map_entry: "map_of (AList.map_entry k f al) k' = (if k' = k then map_option f (map_of al k) else map_of al k')"
  by (induction al) auto

lemma session_codecs_counted:
  "session_codecs s \<Longrightarrow> (\<And>x. xs_from_codec (f x) = xs_from_codec x \<and> xs_to_codec (f x) = xs_to_codec x) \<Longrightarrow>
    session_codecs (s\<lparr>xv_sessions := AList.map_entry i f (xv_sessions s)\<rparr>)"
  by (auto simp: session_codecs_def lookup_map_entry split: if_splits option.splits)

lemma codec_step_codecs: "codec_step e s s' \<Longrightarrow> session_codecs s \<Longrightarrow> session_codecs s'"
proof (induction rule: codec_step.induct)
  case (frame us i af s r s')
  show ?case
  proof (cases "map_of (xv_sessions s) i")
    case None
    with frame show ?thesis by (simp add: transcode_frame_def)
  next
    case (Some x)
    obtain r1 s1 where p: "perform_transcoding e i (af_data af) (xs_from_codec x) (xs_to_codec x) s = (r1, s1)"
      by fastforce
    from perform_codecs [OF frame.prems p] have "session_codecs s1" by simp
    with frame.hyps Some p show ?thesis
      by (cases r1) (auto simp: transcode_frame_def intro: session_codecs_counted)
  qed
next
  case (annex_frame i pcm s r s')
  then show ?case by (auto simp: encode_g729_annex_frame_def dest: with_g729_codecs)
qed (auto simp: session_codecs_def start_session_def end_session_def start_g729_annex_session_def
    end_g729_annex_session_def Let_def delete_conv split: if_splits option.splits)

interpretation codecs: invariant_machine "\<lambda>s. \<exists>config. s = new_codec_service config" "codec_step e" session_codecs for e
  by unfold_locales (auto simp: session_codecs_def new_codec_service_def dest: codec_step_codecs)

text \<open>C34: A session never misses its codec, whatever sessions and annex sessions are started, used and ended
  one after the other, as long as no annex session is ended under the name of a running session.\<close>

theorem session_codec_found:
  assumes "(codec_step e)\<^sup>*\<^sup>* (new_codec_service config) s" and "transcode_frame e us i frame s = (Inl err, s')"
  shows "err \<noteq> G729CodecNotFound \<and> err \<noteq> OpusCodecNotFound"
proof -
  have ok: "session_codecs s" using codecs.reachable_inv [OF _ assms(1)] by blast
  show ?thesis
  proof (cases "map_of (xv_sessions s) i")
    case (Some x)
    with assms(2) have p: "fst (perform_transcoding e i (af_data frame) (xs_from_codec x) (xs_to_codec x) s) = Inl err"
      by (auto simp: transcode_frame_def split: prod.splits sum.splits)
    have g: "xs_from_codec x = G729 \<or> xs_to_codec x = G729 \<Longrightarrow> \<exists>y. map_of (xv_g729_codecs s) i = Some y"
      and o: "xs_from_codec x = Opus \<or> xs_to_codec x = Opus \<Longrightarrow> \<exists>y. map_of (xv_opus_codecs s) i = Some y"
      using ok Some by (auto simp: session_codecs_def)
    show ?thesis
    proof (cases "(xs_from_codec x, xs_to_codec x) \<in> set cpu_translations")
      case True
      with p g o show ?thesis
        by (auto simp: cpu_translations_def with_g729_def map_result_def Let_def
            split: option.splits prod.splits sum.splits)
    qed (use p in \<open>auto simp: perform_unsupported\<close>)
  qed (use assms(2) in \<open>auto simp: transcode_frame_def\<close>)
qed

text \<open>Only ending an annex session of the same name takes the codec away from a running session.\<close>

lemma annex_end_breaks_session:
  assumes "map_of (xv_sessions s) i = Some x" and "xs_from_codec x = G711Ulaw" and "xs_to_codec x = G729"
  shows "fst (transcode_frame e us i frame (end_g729_annex_session i s)) = Inl G729CodecNotFound"
  using assms by (simp add: transcode_frame_def end_g729_annex_session_def with_g729_def)

definition silent_engine :: "unit g729_engine" where
  "silent_engine = \<lparr>ge_new = (), ge_encode = (\<lambda>g pcm. (Inl ''e'', g)), ge_decode = (\<lambda>g data. (Inr [], g))\<rparr>"

definition demo_frame :: audio_frame where
  "demo_frame = \<lparr>af_data = [0], af_codec = G711Ulaw, af_sample_rate = 8000, af_channels = 1, af_rtp_timestamp = 0,
     af_sequence = 0\<rparr>"

definition demo_transcoder :: "unit codec_service" where
  "demo_transcoder = snd (start_session silent_engine ''s'' G711Ulaw G729 8000 1 (new_codec_service default_codec_config))"

lemma one_chunk: "chunks_of g729_frame_size [x] = [[x]]"
  by (simp add: chunks_of.simps [of 80 "[x]"] chunks_of.simps [of 80 "[]"] g729_frame_size_def)

lemma demo_frame_fails:
  "transcode_frame silent_engine 0 ''s'' demo_frame demo_transcoder = (Inl (G729Failed ''e''), demo_transcoder)"
proof -
  have "(G711Ulaw, G729) \<in> set generate_all_codec_pairs" by (simp add: all_pairs)
  then show ?thesis
    by (simp add: demo_transcoder_def start_session_def new_codec_service_def default_codec_config_def transcode_frame_def
        with_g729_def silent_engine_def g729_encode_chunked_def decode_ulaw_def one_chunk demo_frame_def Let_def)
qed

theorem session_codec_found_witness:
  "fst (transcode_frame silent_engine 0 ''s'' demo_frame demo_transcoder) = Inl (G729Failed ''e'') \<and>
    G729Failed ''e'' \<noteq> G729CodecNotFound"
proof -
  have "codec_step silent_engine (new_codec_service default_codec_config) demo_transcoder"
    unfolding demo_transcoder_def by (rule codec_step.start) (rule prod.collapse [symmetric])
  then have reach: "(codec_step silent_engine)\<^sup>*\<^sup>* (new_codec_service default_codec_config) demo_transcoder" by blast
  from session_codec_found [OF reach demo_frame_fails] demo_frame_fails show ?thesis by simp
qed

end
