(* ===== verification/TdmoeService.thy ===== *)
theory TdmoeService
  imports RustStrings "HOL-Library.AList" "HOL-Library.Countable"
begin

text \<open>
  TDM circuits over Ethernet with their call signalling (\<open>TdmoeService\<close> of \<open>src/tdmoe_ni2_signaling.rs\<close>):
  frames, messages, the calls of a service by circuit code, and what is sent and received. The octets
  of frames and messages (\<open>bincode\<close>), the clocks and the success of a send are arguments; datagrams are
  collected in the order they are sent. Instants are nanoseconds, jitter and round-trip times, which
  nothing sets, are left out.
\<close>

section \<open>Frames and messages\<close>

datatype tdmoe_frame_type = FT_Voice | FT_Signaling | FT_Keepalive | FT_Sync

record tdmoe_frame =
  fr_sequence :: u32
  fr_timestamp :: u64
  fr_channel :: u16
  fr_data :: "u8 list"
  fr_d_channel_data :: "u8 list option"
  fr_frame_type :: tdmoe_frame_type

datatype ni2_message_type = N2_IAM | N2_ACM | N2_ANM | N2_REL | N2_RLC | N2_CPG | N2_CCR | N2_COT

record ni2_message =
  n2_message_type :: ni2_message_type
  n2_cic :: u16
  n2_calling_number :: "string option"
  n2_called_number :: "string option"
  n2_oli :: "u8 option"
  n2_charge_number :: "string option"
  n2_lrn :: "string option"
  n2_jip :: "string option"
  n2_parameters :: "(string \<times> string) list"
  n2_timestamp :: u64

datatype tdmoe_codec = TC_ULaw | TC_ALaw | TC_ClearChannel

datatype tdmoe_call_state = TS_Idle | TS_OutgoingSetup | TS_IncomingSetup | TS_Proceeding | TS_Alerting | TS_Connected
  | TS_Disconnecting | TS_ContinuityTest

record tdmoe_call_stats =
  tk_packets_sent :: u64
  tk_packets_received :: u64
  tk_bytes_sent :: u64
  tk_bytes_received :: u64
  tk_packets_lost :: u64

definition no_call_stats :: tdmoe_call_stats where
  "no_call_stats = \<lparr>tk_packets_sent = 0, tk_packets_received = 0, tk_bytes_sent = 0, tk_bytes_received = 0,
     tk_packets_lost = 0\<rparr>"

record tdmoe_call =
  td_call_id :: string
  td_cic :: u16
  td_channel :: u16
  td_state :: tdmoe_call_state
  td_calling_number :: string
  td_called_number :: string
  td_start_time :: nat
  td_last_activity :: nat
  td_codec :: tdmoe_codec
  td_stats :: tdmoe_call_stats

record tdmoe_service_stats =
  tv_total_frames :: u64
  tv_voice_frames :: u64
  tv_signaling_messages :: u64
  tv_active_calls :: u32
  tv_last_activity :: "nat option"

record tdmoe_service =
  to_channel_count :: u16
  to_voice_codec :: tdmoe_codec
  to_active_calls :: "(u16 \<times> tdmoe_call) list"
  to_channel_states :: "tdmoe_call_state list"
  to_sequence_counter :: u32
  to_stats :: tdmoe_service_stats
  to_sent :: "u8 list list"

definition new_tdmoe_service :: "u16 \<Rightarrow> tdmoe_codec \<Rightarrow> tdmoe_service" where
  "new_tdmoe_service channel_count voice_codec =
    \<lparr>to_channel_count = channel_count, to_voice_codec = voice_codec, to_active_calls = [],
      to_channel_states = replicate (unat channel_count) TS_Idle, to_sequence_counter = 0,
      to_stats = \<lparr>tv_total_frames = 0, tv_voice_frames = 0, tv_signaling_messages = 0, tv_active_calls = 0,
        tv_last_activity = None\<rparr>, to_sent = []\<rparr>"

text \<open>The serializer and the surroundings of one operation.\<close>

record tdmoe_wire =
  wr_frame_out :: "tdmoe_frame \<Rightarrow> u8 list"
  wr_frame_in :: "u8 list \<Rightarrow> tdmoe_frame option"
  wr_message_out :: "ni2_message \<Rightarrow> u8 list"
  wr_message_in :: "u8 list \<Rightarrow> ni2_message option"

record tdmoe_moment =
  mo_now :: nat
  mo_seconds :: u64
  mo_millis :: u64
  mo_can_send :: bool

datatype tdmoe_error = CicInUse u16 | NoCallOnCic u16 | CallNotAnswerable u16 | NotConnected u16 | TdmoeSendFailed

section \<open>Sending\<close>

definition send_frame :: "tdmoe_wire \<Rightarrow> tdmoe_moment \<Rightarrow> tdmoe_frame \<Rightarrow> tdmoe_service \<Rightarrow> (tdmoe_error + unit) \<times> tdmoe_service" where
  "send_frame w t frame s =
    (if \<not> mo_can_send t then (Inl TdmoeSendFailed, s)
     else (Inr (), s\<lparr>to_sent := to_sent s @ [wr_frame_out w frame],
       to_stats := (to_stats s)\<lparr>tv_total_frames := tv_total_frames (to_stats s) + 1,
         tv_voice_frames := (if fr_frame_type frame = FT_Voice then tv_voice_frames (to_stats s) + 1
           else tv_voice_frames (to_stats s)),
         tv_last_activity := Some (mo_now t)\<rparr>\<rparr>))"

definition send_signaling_message ::
    "tdmoe_wire \<Rightarrow> tdmoe_moment \<Rightarrow> ni2_message \<Rightarrow> tdmoe_service \<Rightarrow> (tdmoe_error + unit) \<times> tdmoe_service" where
  "send_signaling_message w t message s =
    (let sequence = to_sequence_counter s + 1;
         s = s\<lparr>to_sequence_counter := sequence\<rparr>;
         frame = \<lparr>fr_sequence = sequence, fr_timestamp = mo_millis t, fr_channel = 0, fr_data = [],
           fr_d_channel_data = Some (wr_message_out w message), fr_frame_type = FT_Signaling\<rparr>
     in case send_frame w t frame s of
          (Inl e, s) \<Rightarrow> (Inl e, s)
        | (Inr _, s) \<Rightarrow> (Inr (), s\<lparr>to_stats := (to_stats s)
            \<lparr>tv_signaling_messages := tv_signaling_messages (to_stats s) + 1\<rparr>\<rparr>))"

definition plain_message :: "ni2_message_type \<Rightarrow> u16 \<Rightarrow> tdmoe_moment \<Rightarrow> ni2_message" where
  "plain_message ty cic t =
    \<lparr>n2_message_type = ty, n2_cic = cic, n2_calling_number = None, n2_called_number = None, n2_oli = None,
      n2_charge_number = None, n2_lrn = None, n2_jip = None, n2_parameters = [], n2_timestamp = mo_seconds t\<rparr>"

definition set_channel_state :: "u16 \<Rightarrow> tdmoe_call_state \<Rightarrow> tdmoe_service \<Rightarrow> tdmoe_service" where
  "set_channel_state cic st s =
    (if unat cic < length (to_channel_states s)
     then s\<lparr>to_channel_states := (to_channel_states s)[unat cic := st]\<rparr> else s)"

section \<open>Calls\<close>

text \<open>A call is originated in two steps: the check of the circuit with the initial address message, then the
  entry of the call. No lock is held in between, so datagrams and other operations can come between them.\<close>

definition send_iam ::
    "tdmoe_wire \<Rightarrow> tdmoe_moment \<Rightarrow> string \<Rightarrow> string \<Rightarrow> u16 \<Rightarrow> tdmoe_service \<Rightarrow> (tdmoe_error + string) \<times> tdmoe_service" where
  "send_iam w t calling called cic s =
    (if map_of (to_active_calls s) cic \<noteq> None then (Inl (CicInUse cic), s)
     else
       let call_id = ''TDMOE-'' @ dec (unat cic) @ ''-'' @ dec (unat (mo_millis t));
           iam = (plain_message N2_IAM cic t)\<lparr>n2_calling_number := Some calling, n2_called_number := Some called,
             n2_oli := Some 0\<rparr>
       in case send_signaling_message w t iam s of
            (Inl e, s) \<Rightarrow> (Inl e, s)
          | (Inr _, s) \<Rightarrow> (Inr call_id, s))"

definition store_outgoing_call ::
    "tdmoe_moment \<Rightarrow> string \<Rightarrow> string \<Rightarrow> u16 \<Rightarrow> string \<Rightarrow> tdmoe_service \<Rightarrow> tdmoe_service" where
  "store_outgoing_call t calling called cic call_id s =
    (let call = \<lparr>td_call_id = call_id, td_cic = cic, td_channel = cic, td_state = TS_OutgoingSetup,
           td_calling_number = calling, td_called_number = called, td_start_time = mo_now t,
           td_last_activity = mo_now t, td_codec = to_voice_codec s, td_stats = no_call_stats\<rparr>
     in set_channel_state cic TS_OutgoingSetup
          (s\<lparr>to_active_calls := AList.update cic call (to_active_calls s)\<rparr>))"

text \<open>The whole operation, when nothing comes between its steps.\<close>

definition originate_call ::
    "tdmoe_wire \<Rightarrow> tdmoe_moment \<Rightarrow> string \<Rightarrow> string \<Rightarrow> u16 \<Rightarrow> tdmoe_service \<Rightarrow> (tdmoe_error + string) \<times> tdmoe_service" where
  "originate_call w t calling called cic s =
    (case send_iam w t calling called cic s of
       (Inl e, s) \<Rightarrow> (Inl e, s)
     | (Inr call_id, s) \<Rightarrow> (Inr call_id, store_outgoing_call t calling called cic call_id s))"

definition put_call_state :: "tdmoe_moment \<Rightarrow> u16 \<Rightarrow> tdmoe_call_state \<Rightarrow> tdmoe_service \<Rightarrow> tdmoe_service" where
  "put_call_state t cic st s =
    (case map_of (to_active_calls s) cic of
       None \<Rightarrow> s
     | Some call \<Rightarrow> s\<lparr>to_active_calls :=
         AList.update cic (call\<lparr>td_state := st, td_last_activity := mo_now t\<rparr>) (to_active_calls s)\<rparr>)"

definition answer_call :: "tdmoe_wire \<Rightarrow> tdmoe_moment \<Rightarrow> u16 \<Rightarrow> tdmoe_service \<Rightarrow> (tdmoe_error + unit) \<times> tdmoe_service" where
  "answer_call w t cic s =
    (case map_of (to_active_calls s) cic of
       None \<Rightarrow> (Inl (NoCallOnCic cic), s)
     | Some call \<Rightarrow>
         if td_state call \<noteq> TS_IncomingSetup \<and> td_state call \<noteq> TS_Alerting then (Inl (CallNotAnswerable cic), s)
         else
           case send_signaling_message w t (plain_message N2_ANM cic t) (put_call_state t cic TS_Connected s) of
             (Inl e, s) \<Rightarrow> (Inl e, s)
           | (Inr _, s) \<Rightarrow> (Inr (), set_channel_state cic TS_Connected s))"

definition release_call ::
    "tdmoe_wire \<Rightarrow> tdmoe_moment \<Rightarrow> u16 \<Rightarrow> u8 \<Rightarrow> tdmoe_service \<Rightarrow> (tdmoe_error + unit) \<times> tdmoe_service" where
  "release_call w t cic cause s =
    (case map_of (to_active_calls s) cic of
       None \<Rightarrow> (Inl (NoCallOnCic cic), s)
     | Some call \<Rightarrow>
         send_signaling_message w t ((plain_message N2_REL cic t)\<lparr>n2_parameters := [(''cause'', dec (unat cause))]\<rparr>)
           (put_call_state t cic TS_Disconnecting s))"

definition send_voice_data ::
    "tdmoe_wire \<Rightarrow> tdmoe_moment \<Rightarrow> u16 \<Rightarrow> u8 list \<Rightarrow> tdmoe_service \<Rightarrow> (tdmoe_error + unit) \<times> tdmoe_service" where
  "send_voice_data w t cic data s =
    (case map_of (to_active_calls s) cic of
       None \<Rightarrow> (Inl (NoCallOnCic cic), s)
     | Some call \<Rightarrow>
         if td_state call \<noteq> TS_Connected then (Inl (NotConnected cic), s)
         else
           let sequence = to_sequence_counter s + 1;
               s = s\<lparr>to_sequence_counter := sequence\<rparr>;
               frame = \<lparr>fr_sequence = sequence, fr_timestamp = mo_millis t, fr_channel = cic, fr_data = data,
                 fr_d_channel_data = None, fr_frame_type = FT_Voice\<rparr>
           in case send_frame w t frame s of
                (Inl e, s) \<Rightarrow> (Inl e, s)
              | (Inr _, s) \<Rightarrow>
                  (Inr (), s\<lparr>to_active_calls := AList.update cic (call\<lparr>td_stats := (td_stats call)
                     \<lparr>tk_packets_sent := tk_packets_sent (td_stats call) + 1,
                      tk_bytes_sent := tk_bytes_sent (td_stats call) + word_of_nat (length data)\<rparr>,
                     td_last_activity := mo_now t\<rparr>) (to_active_calls s)\<rparr>))"

definition get_call_status :: "tdmoe_service \<Rightarrow> u16 \<Rightarrow> tdmoe_call option" where
  "get_call_status s cic = map_of (to_active_calls s) cic"

definition list_active_calls :: "tdmoe_service \<Rightarrow> tdmoe_call list" where
  "list_active_calls s = map snd (to_active_calls s)"

definition get_tdmoe_statistics :: "tdmoe_service \<Rightarrow> tdmoe_service_stats" where
  "get_tdmoe_statistics s = (to_stats s)\<lparr>tv_active_calls := word_of_nat (length (to_active_calls s))\<rparr>"

text \<open>One round of the keepalive task; its frame is not counted.\<close>

definition send_keepalive :: "tdmoe_wire \<Rightarrow> tdmoe_moment \<Rightarrow> tdmoe_service \<Rightarrow> tdmoe_service" where
  "send_keepalive w t s =
    (let sequence = to_sequence_counter s + 1;
         frame = \<lparr>fr_sequence = sequence, fr_timestamp = mo_millis t, fr_channel = 0, fr_data = [],
           fr_d_channel_data = None, fr_frame_type = FT_Keepalive\<rparr>
     in s\<lparr>to_sequence_counter := sequence,
          to_sent := (if mo_can_send t then to_sent s @ [wr_frame_out w frame] else to_sent s)\<rparr>)"

section \<open>Receiving\<close>

definition incoming_call :: "tdmoe_moment \<Rightarrow> ni2_message \<Rightarrow> tdmoe_call" where
  "incoming_call t m =
    \<lparr>td_call_id = ''TDMOE-'' @ dec (unat (n2_cic m)) @ ''-'' @ dec (unat (n2_timestamp m)), td_cic = n2_cic m,
      td_channel = n2_cic m, td_state = TS_IncomingSetup,
      td_calling_number = (case n2_calling_number m of Some n \<Rightarrow> n | None \<Rightarrow> []),
      td_called_number = (case n2_called_number m of Some n \<Rightarrow> n | None \<Rightarrow> []),
      td_start_time = mo_now t, td_last_activity = mo_now t, td_codec = TC_ULaw, td_stats = no_call_stats\<rparr>"

definition process_signaling_message :: "tdmoe_moment \<Rightarrow> ni2_message \<Rightarrow> tdmoe_service \<Rightarrow> tdmoe_service" where
  "process_signaling_message t m s =
    (case n2_message_type m of
       N2_IAM \<Rightarrow> s\<lparr>to_active_calls := AList.update (n2_cic m) (incoming_call t m) (to_active_calls s)\<rparr>
     | N2_ACM \<Rightarrow> put_call_state t (n2_cic m) TS_Proceeding s
     | N2_ANM \<Rightarrow> put_call_state t (n2_cic m) TS_Connected s
     | N2_REL \<Rightarrow> put_call_state t (n2_cic m) TS_Disconnecting s
     | N2_RLC \<Rightarrow> s\<lparr>to_active_calls := AList.delete (n2_cic m) (to_active_calls s)\<rparr>
     | _ \<Rightarrow> s)"

definition process_frame :: "tdmoe_wire \<Rightarrow> tdmoe_moment \<Rightarrow> tdmoe_frame \<Rightarrow> tdmoe_service \<Rightarrow> tdmoe_service" where
  "process_frame w t frame s =
    (let s = (case fr_frame_type frame of
           FT_Voice \<Rightarrow>
             (case map_of (to_active_calls s) (fr_channel frame) of
                None \<Rightarrow> s
              | Some call \<Rightarrow> s\<lparr>to_active_calls := AList.update (fr_channel frame) (call\<lparr>td_stats := (td_stats call)
                  \<lparr>tk_packets_received := tk_packets_received (td_stats call) + 1,
                   tk_bytes_received := tk_bytes_received (td_stats call) + word_of_nat (length (fr_data frame))\<rparr>,
                  td_last_activity := mo_now t\<rparr>) (to_active_calls s)\<rparr>)
         | FT_Signaling \<Rightarrow>
             (case fr_d_channel_data frame of
                None \<Rightarrow> s
              | Some d \<Rightarrow> (case wr_message_in w d of Some m \<Rightarrow> process_signaling_message t m s | None \<Rightarrow> s))
         | FT_Keepalive \<Rightarrow> s
         | FT_Sync \<Rightarrow> s)
     in s\<lparr>to_stats := (to_stats s)\<lparr>tv_total_frames := tv_total_frames (to_stats s) + 1,
          tv_voice_frames := (if fr_frame_type frame = FT_Voice then tv_voice_frames (to_stats s) + 1
            else tv_voice_frames (to_stats s)),
          tv_last_activity := Some (mo_now t)\<rparr>\<rparr>)"

text \<open>The buffer of the receiver holds 1500 octets; the rest of a longer datagram is lost.\<close>

definition receive_tdmoe_datagram :: "tdmoe_wire \<Rightarrow> tdmoe_moment \<Rightarrow> u8 list \<Rightarrow> tdmoe_service \<Rightarrow> tdmoe_service" where
  "receive_tdmoe_datagram w t d s =
    (case wr_frame_in w (take 1500 d) of Some frame \<Rightarrow> process_frame w t frame s | None \<Rightarrow> s)"

section \<open>Two services and the network between them\<close>

text \<open>Own operations of a service. The two steps of an origination are steps of their own: the entry of the
  call may come at any time. The network may lose datagrams, reorder them and deliver them twice: a service
  can receive anything the other has sent so far.\<close>

inductive own_step :: "tdmoe_wire \<Rightarrow> tdmoe_service \<Rightarrow> tdmoe_service \<Rightarrow> bool" for w where
  iam_sent: "send_iam w t calling called cic s = (r, s') \<Longrightarrow> own_step w s s'"
| call_stored: "own_step w s (store_outgoing_call t calling called cic call_id s)"
| answer: "answer_call w t cic s = (r', s') \<Longrightarrow> own_step w s s'"
| release: "release_call w t cic cause s = (r', s') \<Longrightarrow> own_step w s s'"
| voice: "send_voice_data w t cic data s = (r', s') \<Longrightarrow> own_step w s s'"
| keepalive: "own_step w s (send_keepalive w t s)"

inductive pair_step :: "tdmoe_wire \<Rightarrow> tdmoe_service \<times> tdmoe_service \<Rightarrow> tdmoe_service \<times> tdmoe_service \<Rightarrow> bool" for w where
  first_own: "own_step w a a' \<Longrightarrow> pair_step w (a, b) (a', b)"
| second_own: "own_step w b b' \<Longrightarrow> pair_step w (a, b) (a, b')"
| to_first: "d \<in> set (to_sent b) \<Longrightarrow> pair_step w (a, b) (receive_tdmoe_datagram w t d a, b)"
| to_second: "d \<in> set (to_sent a) \<Longrightarrow> pair_step w (a, b) (a, receive_tdmoe_datagram w t d b)"

inductive_cases pair_stepE: "pair_step w p q"

text \<open>The serializer reads back what it wrote, and fails on a frame that is cut off.\<close>

definition wire_ok :: "tdmoe_wire \<Rightarrow> bool" where
  "wire_ok w \<longleftrightarrow> (\<forall>f. wr_frame_in w (wr_frame_out w f) = Some f) \<and> (\<forall>m. wr_message_in w (wr_message_out w m) = Some m) \<and>
     (\<forall>f n. n < length (wr_frame_out w f) \<longrightarrow> wr_frame_in w (take n (wr_frame_out w f)) = None)"

text \<open>A datagram that takes no call away when it is received.\<close>

definition clears_nothing :: "tdmoe_wire \<Rightarrow> u8 list \<Rightarrow> bool" where
  "clears_nothing w d \<longleftrightarrow> (\<forall>f e m. wr_frame_in w (take 1500 d) = Some f \<longrightarrow> fr_frame_type f = FT_Signaling \<longrightarrow>
     fr_d_channel_data f = Some e \<longrightarrow> wr_message_in w e = Some m \<longrightarrow> n2_message_type m \<noteq> N2_RLC)"

definition quiet :: "tdmoe_wire \<Rightarrow> tdmoe_service \<Rightarrow> bool" where
  "quiet w s \<longleftrightarrow> (\<forall>d \<in> set (to_sent s). clears_nothing w d)"

lemma read_frame:
  assumes "wire_ok w"
  shows "wr_frame_in w (take 1500 (wr_frame_out w f)) = (if length (wr_frame_out w f) \<le> 1500 then Some f else None)"
  using assms by (simp add: wire_ok_def)

lemma sent_clears_nothing:
  assumes "wire_ok w" and "\<And>e m. fr_frame_type f = FT_Signaling \<Longrightarrow> fr_d_channel_data f = Some e \<Longrightarrow>
    wr_message_in w e = Some m \<Longrightarrow> n2_message_type m \<noteq> N2_RLC"
  shows "clears_nothing w (wr_frame_out w f)"
  using assms(2) by (auto simp: clears_nothing_def read_frame [OF assms(1)])

definition used_circuits :: "tdmoe_service \<Rightarrow> u16 set" where
  "used_circuits s = dom (map_of (to_active_calls s))"

lemma set_channel_simps [simp]:
  "to_active_calls (set_channel_state cic st s) = to_active_calls s" "to_sent (set_channel_state cic st s) = to_sent s"
  by (simp_all add: set_channel_state_def)

lemma put_call_simps [simp]:
  "to_sent (put_call_state t cic st s) = to_sent s" "used_circuits (put_call_state t cic st s) = used_circuits s"
  by (auto simp: put_call_state_def used_circuits_def dom_def split: option.splits)

lemma used_update [simp]:
  "used_circuits (s\<lparr>to_active_calls := AList.update cic c (to_active_calls s)\<rparr>) = insert cic (used_circuits s)"
  by (auto simp: used_circuits_def dom_def)

lemma used_output [simp]:
  "used_circuits (s\<lparr>to_stats := x\<rparr>) = used_circuits s" "used_circuits (s\<lparr>to_sent := y\<rparr>) = used_circuits s"
  "used_circuits (s\<lparr>to_sequence_counter := z\<rparr>) = used_circuits s"
  "used_circuits (set_channel_state cic st s) = used_circuits s"
  by (simp_all add: used_circuits_def)

lemma send_signaling_quiet:
  assumes "wire_ok w" and "n2_message_type m \<noteq> N2_RLC" and "send_signaling_message w t m s = (r, s')"
  shows "(quiet w s \<longrightarrow> quiet w s') \<and> used_circuits s' = used_circuits s"
  using assms
  by (auto simp: send_signaling_message_def send_frame_def quiet_def wire_ok_def Let_def
      split: if_splits intro!: sent_clears_nothing [OF assms(1)])

lemma send_failure:
  "send_signaling_message w t m s = (r, s') \<Longrightarrow> to_active_calls s' = to_active_calls s"
  by (auto simp: send_signaling_message_def send_frame_def Let_def split: if_splits)

lemma quiet_calls [simp]:
  "quiet w (s\<lparr>to_active_calls := x\<rparr>) = quiet w s" "quiet w (s\<lparr>to_stats := y\<rparr>) = quiet w s"
  "quiet w (set_channel_state cic st s) = quiet w s" "quiet w (put_call_state t cic st s) = quiet w s"
  by (simp_all add: quiet_def)

lemma iam_quiet:
  assumes "send_iam w t calling called cic s = (r, s')" and "wire_ok w"
  shows "(quiet w s \<longrightarrow> quiet w s') \<and> used_circuits s \<subseteq> used_circuits s'"
proof (cases "map_of (to_active_calls s) cic")
  case None
  let ?m = "(plain_message N2_IAM cic t)\<lparr>n2_calling_number := Some calling, n2_called_number := Some called, n2_oli := Some 0\<rparr>"
  obtain r1 s1 where send: "send_signaling_message w t ?m s = (r1, s1)" by fastforce
  have "n2_message_type ?m \<noteq> N2_RLC" by (simp add: plain_message_def)
  from send_signaling_quiet [OF assms(2) this send]
  have "quiet w s \<longrightarrow> quiet w s1" "used_circuits s1 = used_circuits s" by simp_all
  then show ?thesis using assms(1) None send by (cases r1) (auto simp: send_iam_def Let_def)
qed (use assms in \<open>simp add: send_iam_def\<close>)

lemma store_quiet:
  "(quiet w s \<longrightarrow> quiet w (store_outgoing_call t calling called cic call_id s)) \<and>
    used_circuits s \<subseteq> used_circuits (store_outgoing_call t calling called cic call_id s)"
  by (auto simp: store_outgoing_call_def Let_def)

lemma originate_steps:
  assumes "originate_call w t calling called cic s = (r, s')"
  shows "(own_step w)\<^sup>*\<^sup>* s s'"
proof -
  obtain r1 s1 where "send_iam w t calling called cic s = (r1, s1)" by fastforce
  then have "own_step w s s1" by (rule own_step.iam_sent)
  moreover have "s' = s1 \<or> own_step w s1 s'"
    using assms \<open>send_iam w t calling called cic s = (r1, s1)\<close> own_step.call_stored
    by (cases r1) (auto simp: originate_call_def)
  ultimately show ?thesis by (auto intro: rtranclp.rtrancl_into_rtrancl)
qed

lemma answer_quiet:
  assumes "answer_call w t cic s = (r, s')" and "wire_ok w"
  shows "(quiet w s \<longrightarrow> quiet w s') \<and> used_circuits s \<subseteq> used_circuits s'"
proof -
  obtain r1 s1 where send: "send_signaling_message w t (plain_message N2_ANM cic t) (put_call_state t cic TS_Connected s) = (r1, s1)"
    by fastforce
  from send_signaling_quiet [OF assms(2) _ send]
  have "quiet w s \<longrightarrow> quiet w s1" "used_circuits s1 = used_circuits s" by (simp_all add: plain_message_def)
  then show ?thesis
    using assms(1) send by (cases r1) (auto simp: answer_call_def split: option.splits if_splits)
qed

lemma release_quiet:
  assumes "release_call w t cic cause s = (r, s')" and "wire_ok w"
  shows "(quiet w s \<longrightarrow> quiet w s') \<and> used_circuits s \<subseteq> used_circuits s'"
proof -
  let ?m = "(plain_message N2_REL cic t)\<lparr>n2_parameters := [(''cause'', dec (unat cause))]\<rparr>"
  obtain r1 s1 where send: "send_signaling_message w t ?m (put_call_state t cic TS_Disconnecting s) = (r1, s1)"
    by fastforce
  from send_signaling_quiet [OF assms(2) _ send]
  have "quiet w s \<longrightarrow> quiet w s1" "used_circuits s1 = used_circuits s" by (simp_all add: plain_message_def)
  then show ?thesis
    using assms(1) send by (auto simp: release_call_def split: option.splits)
qed

lemma voice_quiet:
  assumes "send_voice_data w t cic data s = (r, s')" and "wire_ok w"
  shows "(quiet w s \<longrightarrow> quiet w s') \<and> used_circuits s \<subseteq> used_circuits s'"
  using assms
  by (auto simp: send_voice_data_def send_frame_def Let_def quiet_def used_circuits_def
      split: option.splits if_splits intro!: sent_clears_nothing [OF assms(2)])

lemma keepalive_quiet:
  assumes "wire_ok w"
  shows "(quiet w s \<longrightarrow> quiet w (send_keepalive w t s)) \<and> used_circuits s \<subseteq> used_circuits (send_keepalive w t s)"
  by (auto simp: send_keepalive_def Let_def quiet_def used_circuits_def intro!: sent_clears_nothing [OF assms])

lemma own_step_quiet:
  assumes "own_step w s s'" and "wire_ok w"
  shows "(quiet w s \<longrightarrow> quiet w s') \<and> used_circuits s \<subseteq> used_circuits s'"
  using assms
  by cases (metis iam_quiet, metis store_quiet, metis answer_quiet, metis release_quiet, metis voice_quiet, metis keepalive_quiet)

lemma signaling_used:
  assumes "n2_message_type m \<noteq> N2_RLC"
  shows "to_sent (process_signaling_message t m s) = to_sent s \<and>
    used_circuits s \<subseteq> used_circuits (process_signaling_message t m s)"
  using assms by (cases "n2_message_type m") (auto simp: process_signaling_message_def)

lemma receive_used:
  assumes "clears_nothing w d"
  shows "to_sent (receive_tdmoe_datagram w t d s) = to_sent s \<and> used_circuits s \<subseteq> used_circuits (receive_tdmoe_datagram w t d s)"
proof (cases "wr_frame_in w (take 1500 d)")
  case (Some f)
  show ?thesis
  proof (cases "fr_frame_type f")
    case FT_Signaling
    then have "n2_message_type m \<noteq> N2_RLC" if "fr_d_channel_data f = Some e" "wr_message_in w e = Some m" for e m
      using assms Some that by (auto simp: clears_nothing_def)
    then show ?thesis using Some FT_Signaling signaling_used
      by (auto simp: receive_tdmoe_datagram_def process_frame_def Let_def split: option.splits)
  qed (use Some in \<open>auto simp: receive_tdmoe_datagram_def process_frame_def Let_def split: option.splits\<close>)
qed (simp add: receive_tdmoe_datagram_def)

lemma pair_step_used:
  assumes "pair_step w (a, b) (a', b')" and "wire_ok w" and "quiet w a" and "quiet w b"
  shows "quiet w a' \<and> quiet w b' \<and> used_circuits a \<subseteq> used_circuits a' \<and> used_circuits b \<subseteq> used_circuits b'"
  using assms(1)
proof cases
  case first_own
  then show ?thesis using own_step_quiet assms by blast
next
  case second_own
  then show ?thesis using own_step_quiet assms by blast
next
  case (to_first d t)
  then have "clears_nothing w d" using assms(4) by (simp add: quiet_def)
  from receive_used [OF this] to_first assms(3,4) show ?thesis by (auto simp: quiet_def)
next
  case (to_second d t)
  then have "clears_nothing w d" using assms(3) by (simp add: quiet_def)
  from receive_used [OF this] to_second assms(3,4) show ?thesis by (auto simp: quiet_def)
qed

lemma pair_run_used:
  assumes "(pair_step w)\<^sup>*\<^sup>* p q" and "wire_ok w" and "quiet w (fst p)" and "quiet w (snd p)"
  shows "quiet w (fst q) \<and> quiet w (snd q) \<and> used_circuits (fst p) \<subseteq> used_circuits (fst q) \<and>
    used_circuits (snd p) \<subseteq> used_circuits (snd q)"
  using assms(1)
proof (induction rule: rtranclp_induct)
  case (step q r)
  then show ?case
    using pair_step_used [of w "fst q" "snd q" "fst r" "snd r"] assms(2) by auto
qed (use assms in simp)

interpretation tdmoe_pair: invariant_machine "\<lambda>p. \<exists>n c k d. p = (new_tdmoe_service n c, new_tdmoe_service k d)"
  "\<lambda>p q. wire_ok w \<and> pair_step w p q" "\<lambda>p. quiet w (fst p) \<and> quiet w (snd p)" for w
proof unfold_locales
  show "quiet w (fst q) \<and> quiet w (snd q)"
    if "quiet w (fst p) \<and> quiet w (snd p)" "wire_ok w \<and> pair_step w p q" for p q
    using pair_step_used [of w "fst p" "snd p" "fst q" "snd q"] that by auto
qed (auto simp: quiet_def new_tdmoe_service_def)

section \<open>Circuits are never freed\<close>

text \<open>C28: A service that has a call on a circuit has one there for ever and refuses every later attempt to
  originate a call on it: neither of two services connected to each other ever sends a release complete,
  so no release frees the circuit, however the network treats the datagrams. (The other service, if it
  does not know the call, may still originate on the circuit, and its message then replaces the call.)\<close>

theorem circuit_never_freed:
  assumes "wire_ok w" and "(pair_step w)\<^sup>*\<^sup>* (new_tdmoe_service n c, new_tdmoe_service k d) (a, b)"
    and "get_call_status a cic \<noteq> None" and "(pair_step w)\<^sup>*\<^sup>* (a, b) (a', b')"
  shows "get_call_status a' cic \<noteq> None \<and> originate_call w t calling called cic a' = (Inl (CicInUse cic), a')"
proof -
  have "quiet w a \<and> quiet w b"
    using pair_run_used [OF assms(2,1)] by (auto simp: quiet_def new_tdmoe_service_def)
  then have "used_circuits a \<subseteq> used_circuits a'"
    using pair_run_used [OF assms(4,1)] by simp
  then have "map_of (to_active_calls a') cic \<noteq> None"
    using assms(3) by (auto simp: used_circuits_def get_call_status_def)
  then show ?thesis by (simp add: originate_call_def send_iam_def get_call_status_def)
qed

section \<open>A call that is set up\<close>

definition signaling_frame :: "tdmoe_wire \<Rightarrow> tdmoe_moment \<Rightarrow> u32 \<Rightarrow> ni2_message \<Rightarrow> tdmoe_frame" where
  "signaling_frame w t n m = \<lparr>fr_sequence = n, fr_timestamp = mo_millis t, fr_channel = 0, fr_data = [],
     fr_d_channel_data = Some (wr_message_out w m), fr_frame_type = FT_Signaling\<rparr>"

lemma signaling_frame_type [simp]: "fr_frame_type (signaling_frame w t n m) = FT_Signaling"
  by (simp add: signaling_frame_def)

lemma send_signaling:
  assumes "mo_can_send t"
  shows "\<exists>s'. send_signaling_message w t m s = (Inr (), s') \<and> to_active_calls s' = to_active_calls s \<and>
    to_sent s' = to_sent s @ [wr_frame_out w (signaling_frame w t (to_sequence_counter s + 1) m)]"
  using assms by (simp add: send_signaling_message_def send_frame_def signaling_frame_def Let_def)

lemma receive_cut:
  "wire_ok w \<Longrightarrow> 1500 < length (wr_frame_out w f) \<Longrightarrow> receive_tdmoe_datagram w t (wr_frame_out w f) s = s"
  by (simp add: receive_tdmoe_datagram_def read_frame)

lemma receive_signaling:
  assumes "wire_ok w" and "length (wr_frame_out w (signaling_frame w t n m)) \<le> 1500"
  shows "\<exists>x. receive_tdmoe_datagram w t' (wr_frame_out w (signaling_frame w t n m)) s =
    (process_signaling_message t' m s)\<lparr>to_stats := x\<rparr>"
proof -
  have "wr_message_in w (wr_message_out w m) = Some m" using assms(1) by (simp add: wire_ok_def)
  then have "process_frame w t' (signaling_frame w t n m) s = (process_signaling_message t' m s)\<lparr>to_stats :=
      to_stats (process_frame w t' (signaling_frame w t n m) s)\<rparr>"
    by (simp add: process_frame_def Let_def) (simp add: signaling_frame_def)
  moreover have "receive_tdmoe_datagram w t' (wr_frame_out w (signaling_frame w t n m)) s =
      process_frame w t' (signaling_frame w t n m) s"
    unfolding receive_tdmoe_datagram_def read_frame [OF assms(1)] using assms(2) by simp
  ultimately show ?thesis by metis
qed

text \<open>C29: When the network delivers and the operations do not overlap, the set-up works: a call originated on
  a circuit that is free here sends one datagram; if that fits the receive buffer of 1500 octets, the other
  service has the call with both numbers, can answer it and is then connected, and when its answer, if
  that fits too, is received, the caller is connected. A longer datagram, as with very long numbers, is
  dropped without a trace.\<close>

theorem tdmoe_call_connects:
  assumes "wire_ok w" and "mo_can_send t" and "mo_can_send t2" and "get_call_status a cic = None"
  shows "\<exists>call_id a1 iam. originate_call w t calling called cic a = (Inr call_id, a1) \<and> to_sent a1 = to_sent a @ [iam] \<and>
    (1500 < length iam \<longrightarrow> receive_tdmoe_datagram w t1 iam b = b) \<and>
    (length iam \<le> 1500 \<longrightarrow> (\<exists>b1 b2 anm call. receive_tdmoe_datagram w t1 iam b = b1 \<and>
      get_call_status b1 cic = Some call \<and> td_state call = TS_IncomingSetup \<and>
      td_calling_number call = calling \<and> td_called_number call = called \<and>
      answer_call w t2 cic b1 = (Inr (), b2) \<and> to_sent b2 = to_sent b @ [anm] \<and>
      map_option td_state (get_call_status b2 cic) = Some TS_Connected \<and>
      (length anm \<le> 1500 \<longrightarrow>
        map_option td_state (get_call_status (receive_tdmoe_datagram w t3 anm a1) cic) = Some TS_Connected)))"
proof -
  let ?m = "(plain_message N2_IAM cic t)\<lparr>n2_calling_number := Some calling, n2_called_number := Some called, n2_oli := Some 0\<rparr>"
  let ?anm = "plain_message N2_ANM cic t2"
  define iam where "iam = wr_frame_out w (signaling_frame w t (to_sequence_counter a + 1) ?m)"
  obtain s' where send: "send_signaling_message w t ?m a = (Inr (), s')" "to_active_calls s' = to_active_calls a"
    "to_sent s' = to_sent a @ [iam]"
    using send_signaling [OF assms(2)] by (metis iam_def)
  obtain call_id a1 where orig: "originate_call w t calling called cic a = (Inr call_id, a1)"
    and sent: "to_sent a1 = to_sent a @ [iam]" and known: "get_call_status a1 cic \<noteq> None"
    using assms(4) send by (simp add: originate_call_def send_iam_def store_outgoing_call_def get_call_status_def Let_def)
  have arrives: "\<exists>b1 b2 anm call. receive_tdmoe_datagram w t1 iam b = b1 \<and>
      get_call_status b1 cic = Some call \<and> td_state call = TS_IncomingSetup \<and>
      td_calling_number call = calling \<and> td_called_number call = called \<and>
      answer_call w t2 cic b1 = (Inr (), b2) \<and> to_sent b2 = to_sent b @ [anm] \<and>
      map_option td_state (get_call_status b2 cic) = Some TS_Connected \<and>
      (length anm \<le> 1500 \<longrightarrow>
        map_option td_state (get_call_status (receive_tdmoe_datagram w t3 anm a1) cic) = Some TS_Connected)"
    if "length iam \<le> 1500"
  proof -
    define b1 where "b1 = receive_tdmoe_datagram w t1 iam b"
    have b1: "get_call_status b1 cic = Some (incoming_call t1 ?m)" "to_sent b1 = to_sent b"
      using receive_signaling [OF assms(1) that [unfolded iam_def], of t1 b]
      by (auto simp: b1_def iam_def process_signaling_message_def plain_message_def get_call_status_def)
    define anm where "anm = wr_frame_out w (signaling_frame w t2 (to_sequence_counter (put_call_state t2 cic TS_Connected b1) + 1) ?anm)"
    obtain s2 where s2: "send_signaling_message w t2 ?anm (put_call_state t2 cic TS_Connected b1) = (Inr (), s2)"
      "to_active_calls s2 = to_active_calls (put_call_state t2 cic TS_Connected b1)" "to_sent s2 = to_sent b1 @ [anm]"
      using send_signaling [OF assms(3), of w ?anm "put_call_state t2 cic TS_Connected b1"] by (auto simp: anm_def)
    have ans: "\<exists>b2. answer_call w t2 cic b1 = (Inr (), b2) \<and> to_sent b2 = to_sent b @ [anm] \<and>
        map_option td_state (get_call_status b2 cic) = Some TS_Connected"
      using b1 s2 by (simp add: answer_call_def get_call_status_def incoming_call_def put_call_state_def)
    have reply: "map_option td_state (get_call_status (receive_tdmoe_datagram w t3 anm a1) cic) = Some TS_Connected"
      if "length anm \<le> 1500"
      using receive_signaling [OF assms(1) that [unfolded anm_def], of t3 a1] known
      by (auto simp: anm_def process_signaling_message_def plain_message_def get_call_status_def put_call_state_def)
    have "td_state (incoming_call t1 ?m) = TS_IncomingSetup" "td_calling_number (incoming_call t1 ?m) = calling"
      "td_called_number (incoming_call t1 ?m) = called"
      by (simp_all add: incoming_call_def)
    with b1_def [symmetric] b1(1) ans reply show ?thesis by blast
  qed
  have "receive_tdmoe_datagram w t1 iam b = b" if "1500 < length iam"
    using that by (simp add: iam_def receive_cut assms(1))
  with orig sent arrives show ?thesis by blast
qed

text \<open>An answer that arrives between the two steps of an origination is lost: the call stays in its set-up.\<close>

lemma early_answer_lost:
  assumes "wire_ok w" and "length (wr_frame_out w (signaling_frame w t n (plain_message N2_ANM cic t))) \<le> 1500"
    and "get_call_status a cic = None" and "send_iam w t1 calling called cic a = (Inr call_id, a1)"
    and "receive_tdmoe_datagram w t2 (wr_frame_out w (signaling_frame w t n (plain_message N2_ANM cic t))) a1 = a2"
  shows "get_call_status a2 cic = None \<and>
    map_option td_state (get_call_status (store_outgoing_call t3 calling called cic call_id a2) cic) = Some TS_OutgoingSetup"
proof -
  let ?iam = "(plain_message N2_IAM cic t1)\<lparr>n2_calling_number := Some calling, n2_called_number := Some called, n2_oli := Some 0\<rparr>"
  obtain r s' where "send_signaling_message w t1 ?iam a = (r, s')" by fastforce
  then have "to_active_calls a1 = to_active_calls a"
    using assms(3,4) send_failure [of w t1 ?iam a]
    by (cases r) (auto simp: send_iam_def get_call_status_def Let_def)
  then show ?thesis
    using receive_signaling [OF assms(1,2), of t2 a1] assms(3,5)
    by (auto simp: process_signaling_message_def plain_message_def get_call_status_def put_call_state_def
        store_outgoing_call_def Let_def)
qed

section \<open>A concrete wire\<close>

text \<open>The octets of a frame are as many zeros as its number in an enumeration of all frames.\<close>

definition frame_type_code :: "tdmoe_frame_type \<Rightarrow> nat" where
  "frame_type_code ty = (case ty of FT_Voice \<Rightarrow> 0 | FT_Signaling \<Rightarrow> 1 | FT_Keepalive \<Rightarrow> 2 | FT_Sync \<Rightarrow> 3)"

definition frame_type_of :: "nat \<Rightarrow> tdmoe_frame_type" where
  "frame_type_of n = [FT_Voice, FT_Signaling, FT_Keepalive, FT_Sync] ! n"

definition message_type_code :: "ni2_message_type \<Rightarrow> nat" where
  "message_type_code ty = (case ty of N2_IAM \<Rightarrow> 0 | N2_ACM \<Rightarrow> 1 | N2_ANM \<Rightarrow> 2 | N2_REL \<Rightarrow> 3 | N2_RLC \<Rightarrow> 4
     | N2_CPG \<Rightarrow> 5 | N2_CCR \<Rightarrow> 6 | N2_COT \<Rightarrow> 7)"

definition message_type_of :: "nat \<Rightarrow> ni2_message_type" where
  "message_type_of n = [N2_IAM, N2_ACM, N2_ANM, N2_REL, N2_RLC, N2_CPG, N2_CCR, N2_COT] ! n"

lemma type_codes [simp]: "frame_type_of (frame_type_code ty) = ty" "message_type_of (message_type_code mt) = mt"
  by (cases ty; simp add: frame_type_code_def frame_type_of_def)
    (cases mt; simp add: message_type_code_def message_type_of_def)

definition frame_number :: "tdmoe_frame \<Rightarrow> nat" where
  "frame_number f = to_nat (fr_sequence f, fr_timestamp f, fr_channel f, fr_data f, fr_d_channel_data f,
     frame_type_code (fr_frame_type f))"

definition frame_of_number :: "nat \<Rightarrow> tdmoe_frame" where
  "frame_of_number n = (case from_nat n of (a, b, c, d, e, ty) \<Rightarrow>
     \<lparr>fr_sequence = a, fr_timestamp = b, fr_channel = c, fr_data = d, fr_d_channel_data = e, fr_frame_type = frame_type_of ty\<rparr>)"

definition message_number :: "ni2_message \<Rightarrow> nat" where
  "message_number m = to_nat (message_type_code (n2_message_type m), n2_cic m, n2_calling_number m, n2_called_number m,
     n2_oli m, n2_charge_number m, n2_lrn m, n2_jip m, n2_parameters m, n2_timestamp m)"

definition message_of_number :: "nat \<Rightarrow> ni2_message" where
  "message_of_number n = (case from_nat n of (ty, a, b, c, d, e, f, g, h, i) \<Rightarrow>
     \<lparr>n2_message_type = message_type_of ty, n2_cic = a, n2_calling_number = b, n2_called_number = c, n2_oli = d,
       n2_charge_number = e, n2_lrn = f, n2_jip = g, n2_parameters = h, n2_timestamp = i\<rparr>)"

text \<open>The octets of a frame are as many zeros as its number and a one; two frames are given the least numbers.\<close>

definition short_number :: "tdmoe_frame \<Rightarrow> tdmoe_frame \<Rightarrow> tdmoe_frame \<Rightarrow> nat" where
  "short_number f0 f1 f = (if f = f0 then 0 else if f = f1 then 1 else frame_number f + 2)"

definition short_wire :: "tdmoe_frame \<Rightarrow> tdmoe_frame \<Rightarrow> tdmoe_wire" where
  "short_wire f0 f1 = \<lparr>wr_frame_out = (\<lambda>f. replicate (short_number f0 f1 f) 0 @ [1]),
     wr_frame_in = (\<lambda>d. if d \<noteq> [] \<and> last d = 1 \<and> 1 \<notin> set (butlast d)
       then Some (case length d - 1 of 0 \<Rightarrow> f0 | Suc 0 \<Rightarrow> f1 | Suc (Suc n) \<Rightarrow> frame_of_number n) else None),
     wr_message_out = (\<lambda>m. replicate (message_number m) 0), wr_message_in = (\<lambda>d. Some (message_of_number (length d)))\<rparr>"

lemma short_wire_ok: "wire_ok (short_wire f0 f1)"
  unfolding wire_ok_def
proof (intro conjI allI impI)
  fix f n
  assume "n < length (wr_frame_out (short_wire f0 f1) f)"
  then have "take n (wr_frame_out (short_wire f0 f1) f) = replicate n 0" by (simp add: short_wire_def)
  then show "wr_frame_in (short_wire f0 f1) (take n (wr_frame_out (short_wire f0 f1) f)) = None"
    by (cases n) (simp_all add: short_wire_def)
next
  show "wr_frame_in (short_wire f0 f1) (wr_frame_out (short_wire f0 f1) f) = Some f" for f
    by (auto simp: short_wire_def short_number_def frame_number_def frame_of_number_def numeral_2_eq_2)
  show "wr_message_in (short_wire f0 f1) (wr_message_out (short_wire f0 f1) m) = Some m" for m
    by (simp add: short_wire_def message_number_def message_of_number_def)
qed

definition demo_moment :: tdmoe_moment where
  "demo_moment = \<lparr>mo_now = 0, mo_seconds = 0, mo_millis = 0, mo_can_send = True\<rparr>"

definition demo_tdmoe :: tdmoe_service where
  "demo_tdmoe = new_tdmoe_service 24 TC_ULaw"

text \<open>The frames of the initial address message and the answer of a call on circuit 3.\<close>

definition demo_signal :: "ni2_message \<Rightarrow> tdmoe_frame" where
  "demo_signal m = \<lparr>fr_sequence = 1, fr_timestamp = 0, fr_channel = 0, fr_data = [],
     fr_d_channel_data = Some (replicate (message_number m) 0), fr_frame_type = FT_Signaling\<rparr>"

definition demo_wire :: tdmoe_wire where
  "demo_wire = short_wire
     (demo_signal ((plain_message N2_IAM 3 demo_moment)\<lparr>n2_calling_number := Some ''1'', n2_called_number := Some ''2'',
        n2_oli := Some 0\<rparr>))
     (demo_signal (plain_message N2_ANM 3 demo_moment))"

lemma demo_wire_ok: "wire_ok demo_wire"
  by (simp add: demo_wire_def short_wire_ok)

lemma demo_iam_sent:
  "to_sent (snd (originate_call demo_wire demo_moment ''1'' ''2'' 3 demo_tdmoe)) = [[1]]"
  by (simp add: originate_call_def send_iam_def store_outgoing_call_def send_signaling_message_def send_frame_def demo_wire_def
      short_wire_def short_number_def demo_signal_def demo_moment_def demo_tdmoe_def new_tdmoe_service_def Let_def)

theorem tdmoe_call_connects_witness:
  "\<exists>b2. answer_call demo_wire demo_moment 3 (receive_tdmoe_datagram demo_wire demo_moment [1] demo_tdmoe) = (Inr (), b2) \<and>
    map_option td_state (get_call_status b2 3) = Some TS_Connected"
proof -
  have "mo_can_send demo_moment" "get_call_status demo_tdmoe 3 = None"
    by (simp_all add: demo_moment_def demo_tdmoe_def new_tdmoe_service_def get_call_status_def)
  from tdmoe_call_connects [OF demo_wire_ok this(1) this(1) this(2), of "''1''" "''2''" demo_moment demo_tdmoe demo_moment]
  obtain call_id a1 iam where "originate_call demo_wire demo_moment ''1'' ''2'' 3 demo_tdmoe = (Inr call_id, a1)"
    "to_sent a1 = to_sent demo_tdmoe @ [iam]"
    and arrives: "length iam \<le> 1500 \<Longrightarrow> \<exists>b2. answer_call demo_wire demo_moment 3 (receive_tdmoe_datagram demo_wire demo_moment iam demo_tdmoe) =
      (Inr (), b2) \<and> map_option td_state (get_call_status b2 3) = Some TS_Connected"
    by blast
  then have "iam = [1]" using demo_iam_sent by (simp add: demo_tdmoe_def new_tdmoe_service_def)
  with arrives show ?thesis by simp
qed

lemma first_steps: "(own_step w)\<^sup>*\<^sup>* a a' \<Longrightarrow> (pair_step w)\<^sup>*\<^sup>* (a, b) (a', b)"
  by (induction rule: rtranclp_induct) (auto intro: rtranclp.rtrancl_into_rtrancl pair_step.first_own)

theorem circuit_never_freed_witness:
  "originate_call demo_wire demo_moment ''5'' ''6'' 3
     (snd (originate_call demo_wire demo_moment ''1'' ''2'' 3 demo_tdmoe)) =
   (Inl (CicInUse 3), snd (originate_call demo_wire demo_moment ''1'' ''2'' 3 demo_tdmoe))"
proof -
  let ?a = "snd (originate_call demo_wire demo_moment ''1'' ''2'' 3 demo_tdmoe)"
  have run: "(pair_step demo_wire)\<^sup>*\<^sup>* (new_tdmoe_service 24 TC_ULaw, new_tdmoe_service 24 TC_ULaw) (?a, demo_tdmoe)"
    unfolding demo_tdmoe_def by (rule first_steps, rule originate_steps) (rule prod.collapse [symmetric])
  have "get_call_status ?a 3 \<noteq> None"
    by (simp add: originate_call_def send_iam_def store_outgoing_call_def demo_tdmoe_def new_tdmoe_service_def
        send_signaling_message_def send_frame_def demo_moment_def get_call_status_def Let_def)
  from circuit_never_freed [OF demo_wire_ok run this rtranclp.rtrancl_refl] show ?thesis by blast
qed

end
