(* ===== verification/Ni2Signaling.thy ===== *)
theory Ni2Signaling
  imports RustStrings "HOL-Library.AList" "HOL-Library.Sublist"
begin

text \<open>
  Call states of NI-2 signalling on either side of an interface (\<open>TdmoeNi2Signaling\<close> of
  \<open>src/tdmoe_ni2_signaling.rs\<close>): the call of each channel, the operations of the user and of the network
  side, and the events they publish, collected in order. Instants are nanoseconds. A message that
  arrives on the D-channel is only logged.
\<close>

section \<open>State\<close>

datatype ni2_side_type = NI2_Network | NI2_User

datatype ni2_call_state = NC_Null | NC_CallInitiated | NC_OverlapSending | NC_OutgoingCallProceeding | NC_CallDelivered
  | NC_CallPresent | NC_CallReceived | NC_ConnectRequest | NC_IncomingCallProceeding | NC_Active | NC_DisconnectRequest
  | NC_DisconnectIndication | NC_ReleaseRequest | NC_CallAbort

record ni2_call_context =
  nc_call_reference :: u16
  nc_state :: ni2_call_state
  nc_channel_id :: string
  nc_calling_number :: "string option"
  nc_called_number :: "string option"
  nc_bearer_capability :: "string option"
  nc_side_type :: ni2_side_type
  nc_last_state_change :: nat
  nc_call_start_time :: "nat option"

datatype ni2_numbering_plan = NP_Unknown | NP_Isdn | NP_Data | NP_Telex | NP_Private

datatype ni2_number_nature = NN_Unknown | NN_International | NN_National | NN_NetworkSpecific | NN_Subscriber
  | NN_Abbreviated

datatype ni2_information_element =
    CalledPartyNumber string ni2_numbering_plan ni2_number_nature
  | UserToUserInformation u8 "u8 list"

datatype ni2_event =
    NE_MessageReceived string "u8 list"
  | NE_InformationElementSent string ni2_information_element
  | NE_CallInitiated string u16 string string
  | NE_CallPresent string u16 string string
  | NE_CallProceeding string u16
  | NE_CallAlerting string u16
  | NE_CallConnected string u16
  | NE_CallDisconnected string u16 u8
  | NE_CallStateChanged string ni2_call_state ni2_call_state

record ni2_signaling =
  ns_side_type :: ni2_side_type
  ns_active_calls :: "(string \<times> ni2_call_context) list"
  ns_call_ref_counter :: u16
  ns_events :: "ni2_event list"

datatype ni2_error = WrongSide | InvalidCallState ni2_call_state | NoActiveCall string

definition new_ni2_with_side :: "ni2_side_type \<Rightarrow> ni2_signaling" where
  "new_ni2_with_side side = \<lparr>ns_side_type = side, ns_active_calls = [], ns_call_ref_counter = 1, ns_events = []\<rparr>"

definition new_ni2 :: ni2_signaling where
  "new_ni2 = new_ni2_with_side NI2_User"

definition publish :: "ni2_event \<Rightarrow> ni2_signaling \<Rightarrow> ni2_signaling" where
  "publish e s = s\<lparr>ns_events := ns_events s @ [e]\<rparr>"

definition put_context :: "string \<Rightarrow> ni2_call_context \<Rightarrow> ni2_signaling \<Rightarrow> ni2_signaling" where
  "put_context channel_id c s = s\<lparr>ns_active_calls := AList.update channel_id c (ns_active_calls s)\<rparr>"

section \<open>Operations\<close>

definition new_context :: "nat \<Rightarrow> string \<Rightarrow> u16 \<Rightarrow> ni2_call_state \<Rightarrow> string \<Rightarrow> string \<Rightarrow> ni2_side_type \<Rightarrow> ni2_call_context" where
  "new_context now channel_id call_reference st calling called side =
    \<lparr>nc_call_reference = call_reference, nc_state = st, nc_channel_id = channel_id, nc_calling_number = Some calling,
      nc_called_number = Some called, nc_bearer_capability = Some ''speech'', nc_side_type = side,
      nc_last_state_change = now, nc_call_start_time = Some now\<rparr>"

definition initiate_call ::
    "nat \<Rightarrow> string \<Rightarrow> string \<Rightarrow> string \<Rightarrow> ni2_signaling \<Rightarrow> (ni2_error + u16) \<times> ni2_signaling" where
  "initiate_call now channel_id calling called s =
    (if ns_side_type s \<noteq> NI2_User then (Inl WrongSide, s)
     else
       let call_reference = ns_call_ref_counter s;
           s = s\<lparr>ns_call_ref_counter := call_reference + 1\<rparr>;
           s = put_context channel_id
             (new_context now channel_id call_reference NC_CallInitiated calling called (ns_side_type s)) s
       in (Inr call_reference, publish (NE_CallInitiated channel_id call_reference calling called) s))"

definition process_incoming_setup ::
    "nat \<Rightarrow> string \<Rightarrow> u16 \<Rightarrow> string \<Rightarrow> string \<Rightarrow> ni2_signaling \<Rightarrow> (ni2_error + unit) \<times> ni2_signaling" where
  "process_incoming_setup now channel_id call_reference calling called s =
    (if ns_side_type s \<noteq> NI2_Network then (Inl WrongSide, s)
     else
       let s = put_context channel_id
             (new_context now channel_id call_reference NC_CallPresent calling called (ns_side_type s)) s
       in (Inr (), publish (NE_CallPresent channel_id call_reference calling called) s))"

text \<open>The three answers of the network side differ in the state they need, the one they lead to and the event.\<close>

definition network_answer ::
    "nat \<Rightarrow> ni2_call_state \<Rightarrow> ni2_call_state \<Rightarrow> (string \<Rightarrow> u16 \<Rightarrow> ni2_event) \<Rightarrow> string \<Rightarrow> ni2_signaling \<Rightarrow>
     (ni2_error + unit) \<times> ni2_signaling" where
  "network_answer now needed next_state event channel_id s =
    (if ns_side_type s \<noteq> NI2_Network then (Inl WrongSide, s)
     else
       case map_of (ns_active_calls s) channel_id of
         None \<Rightarrow> (Inl (NoActiveCall channel_id), s)
       | Some c \<Rightarrow>
           if nc_state c \<noteq> needed then (Inl (InvalidCallState (nc_state c)), s)
           else (Inr (), publish (event channel_id (nc_call_reference c))
             (put_context channel_id (c\<lparr>nc_state := next_state, nc_last_state_change := now\<rparr>) s)))"

definition send_call_proceeding :: "nat \<Rightarrow> string \<Rightarrow> ni2_signaling \<Rightarrow> (ni2_error + unit) \<times> ni2_signaling" where
  "send_call_proceeding now = network_answer now NC_CallPresent NC_IncomingCallProceeding NE_CallProceeding"

definition send_alerting :: "nat \<Rightarrow> string \<Rightarrow> ni2_signaling \<Rightarrow> (ni2_error + unit) \<times> ni2_signaling" where
  "send_alerting now = network_answer now NC_IncomingCallProceeding NC_CallDelivered NE_CallAlerting"

definition send_connect :: "nat \<Rightarrow> string \<Rightarrow> ni2_signaling \<Rightarrow> (ni2_error + unit) \<times> ni2_signaling" where
  "send_connect now = network_answer now NC_CallDelivered NC_Active NE_CallConnected"

definition send_disconnect :: "nat \<Rightarrow> string \<Rightarrow> u8 \<Rightarrow> ni2_signaling \<Rightarrow> (ni2_error + unit) \<times> ni2_signaling" where
  "send_disconnect now channel_id cause s =
    (case map_of (ns_active_calls s) channel_id of
       None \<Rightarrow> (Inl (NoActiveCall channel_id), s)
     | Some c \<Rightarrow>
         if nc_state c = NC_Null then (Inl (InvalidCallState NC_Null), s)
         else (Inr (), publish (NE_CallDisconnected channel_id (nc_call_reference c) cause)
           (put_context channel_id (c\<lparr>nc_state := NC_DisconnectRequest, nc_last_state_change := now\<rparr>) s)))"

definition send_information_element :: "string \<Rightarrow> ni2_information_element \<Rightarrow> ni2_signaling \<Rightarrow> ni2_signaling" where
  "send_information_element channel_id ie s = publish (NE_InformationElementSent channel_id ie) s"

definition process_d_channel_message :: "string \<Rightarrow> u8 list \<Rightarrow> ni2_signaling \<Rightarrow> ni2_signaling" where
  "process_d_channel_message channel_id data s = s"

definition get_ni2_call_state :: "ni2_signaling \<Rightarrow> string \<Rightarrow> ni2_call_state option" where
  "get_ni2_call_state s channel_id = map_option nc_state (map_of (ns_active_calls s) channel_id)"

section \<open>The interface as a state machine\<close>

inductive ni2_step :: "ni2_signaling \<Rightarrow> ni2_signaling \<Rightarrow> bool" where
  initiate: "initiate_call now ch calling called s = (ref, s') \<Longrightarrow> ni2_step s s'"
| incoming: "process_incoming_setup now ch crv calling called s = (r, s') \<Longrightarrow> ni2_step s s'"
| proceeding: "send_call_proceeding now ch s = (r, s') \<Longrightarrow> ni2_step s s'"
| alerting: "send_alerting now ch s = (r, s') \<Longrightarrow> ni2_step s s'"
| connect: "send_connect now ch s = (r, s') \<Longrightarrow> ni2_step s s'"
| disconnect: "send_disconnect now ch cause s = (r, s') \<Longrightarrow> ni2_step s s'"
| element: "ni2_step s (send_information_element ch ie s)"
| d_channel: "ni2_step s (process_d_channel_message ch data s)"

text \<open>What must have been published of a call that is in a state, in this order; events of other calls may
  stand in between.\<close>

definition behind_state :: "ni2_signaling \<Rightarrow> string \<Rightarrow> ni2_call_context \<Rightarrow> bool" where
  "behind_state s ch c =
    (let crv = nc_call_reference c;
         present = (\<lambda>a b. NE_CallPresent ch crv a b) in
     case ns_side_type s of
       NI2_User \<Rightarrow> nc_state c \<in> {NC_CallInitiated, NC_DisconnectRequest}
     | NI2_Network \<Rightarrow>
         (case nc_state c of
            NC_CallPresent \<Rightarrow> \<exists>a b. subseq [present a b] (ns_events s)
          | NC_IncomingCallProceeding \<Rightarrow> \<exists>a b. subseq [present a b, NE_CallProceeding ch crv] (ns_events s)
          | NC_CallDelivered \<Rightarrow>
              \<exists>a b. subseq [present a b, NE_CallProceeding ch crv, NE_CallAlerting ch crv] (ns_events s)
          | NC_Active \<Rightarrow> \<exists>a b. subseq [present a b, NE_CallProceeding ch crv, NE_CallAlerting ch crv,
              NE_CallConnected ch crv] (ns_events s)
          | st \<Rightarrow> st = NC_DisconnectRequest))"

definition ni2_inv :: "ni2_signaling \<Rightarrow> bool" where
  "ni2_inv s \<longleftrightarrow> (\<forall>ch c. map_of (ns_active_calls s) ch = Some c \<longrightarrow> behind_state s ch c)"

lemma history_more: "subseq xs evs \<Longrightarrow> subseq xs (evs @ [e])"
  by (rule subseq_rev_drop_many)

lemma history_end: "subseq xs evs \<Longrightarrow> ys = xs @ [e] \<Longrightarrow> subseq ys (evs @ [e])"
  by simp

lemma inv_get: "ni2_inv s \<Longrightarrow> map_of (ns_active_calls s) ch = Some c \<Longrightarrow> behind_state s ch c"
  by (simp add: ni2_inv_def)

lemma publish_simps [simp]:
  "ns_side_type (publish e s) = ns_side_type s" "ns_active_calls (publish e s) = ns_active_calls s"
  "ns_events (publish e s) = ns_events s @ [e]" "ns_side_type (put_context ch c s) = ns_side_type s"
  "map_of (ns_active_calls (put_context ch c s)) ch' = (if ch' = ch then Some c else map_of (ns_active_calls s) ch')"
  "ns_events (put_context ch c s) = ns_events s"
  by (simp_all add: publish_def put_context_def)

lemma behind_more: "behind_state s ch c \<Longrightarrow> ns_side_type t = ns_side_type s \<Longrightarrow> ns_events t = ns_events s @ [e] \<Longrightarrow> behind_state t ch c"
  unfolding behind_state_def Let_def
  by (cases "ns_side_type s"; cases "nc_state c") (use history_more in \<open>fastforce \<close>)+

lemma inv_put:
  assumes "ni2_inv s" and "behind_state (publish e (put_context ch c s)) ch c"
  shows "ni2_inv (publish e (put_context ch c s))"
  using assms behind_more [of s _ _ "publish e (put_context ch c s)" e] by (auto simp: ni2_inv_def)

lemma inv_publish: "ni2_inv s \<Longrightarrow> ni2_inv (publish e s)"
  using behind_more [of s _ _ "publish e s" e] by (auto simp: ni2_inv_def)

lemma network_answer_inv:
  assumes "network_answer now needed next_state event ch s = (r, s')" and "ni2_inv s"
    and "\<And>c. ns_side_type s = NI2_Network \<Longrightarrow> nc_state c = needed \<Longrightarrow> behind_state s ch c \<Longrightarrow>
      behind_state (publish (event ch (nc_call_reference c))
        (put_context ch (c\<lparr>nc_state := next_state, nc_last_state_change := now\<rparr>) s)) ch
        (c\<lparr>nc_state := next_state, nc_last_state_change := now\<rparr>)"
  shows "ni2_inv s'"
  using assms by (auto simp: network_answer_def intro!: inv_put dest: inv_get split: option.splits if_splits)

lemma behind_counter: "behind_state (s\<lparr>ns_call_ref_counter := n\<rparr>) ch c = behind_state s ch c"
  by (cases s) (simp only: behind_state_def ni2_signaling.select_convs ni2_signaling.update_convs)

lemma inv_counter [simp]: "ni2_inv (s\<lparr>ns_call_ref_counter := n\<rparr>) = ni2_inv s"
  by (simp add: ni2_inv_def behind_counter)

lemmas network_answers = send_call_proceeding_def send_alerting_def send_connect_def

lemma history_next:
  "subseq [a] evs \<Longrightarrow> subseq [a, e] (evs @ [e])"
  "subseq [a, b] evs \<Longrightarrow> subseq [a, b, e] (evs @ [e])"
  "subseq [a, b, c] evs \<Longrightarrow> subseq [a, b, c, e] (evs @ [e])"
  by (erule history_end; simp)+

lemma present_last: "\<exists>a b. subseq [NE_CallPresent ch crv a b] (evs @ [NE_CallPresent ch crv x y])"
  by (intro exI, rule history_end [of "[]"]) simp_all

lemma ni2_step_inv:
  assumes "ni2_step s s'" and "ni2_inv s"
  shows "ni2_inv s'"
  using assms(1)
proof cases
  case (initiate now ch calling called ref)
  then show ?thesis
    using assms(2)
    by (auto simp: initiate_call_def Let_def behind_state_def new_context_def
        intro!: inv_put split: if_splits)
next
  case (incoming now ch crv calling called r)
  then show ?thesis
    using assms(2)
    by (auto simp: present_last process_incoming_setup_def Let_def behind_state_def new_context_def 
        intro!: inv_put split: if_splits)
next
  case (proceeding now ch r)
  show ?thesis
    by (rule network_answer_inv [OF proceeding [unfolded network_answers] assms(2)])
      (auto simp: behind_state_def Let_def  intro: history_next)
next
  case (alerting now ch r)
  show ?thesis
    by (rule network_answer_inv [OF alerting [unfolded network_answers] assms(2)])
      (auto simp: behind_state_def Let_def  intro: history_next)
next
  case (connect now ch r)
  show ?thesis
    by (rule network_answer_inv [OF connect [unfolded network_answers] assms(2)])
      (auto simp: behind_state_def Let_def  intro: history_next)
next
  case (disconnect now ch cause r)
  then show ?thesis
    using assms(2)
    by (auto simp: send_disconnect_def behind_state_def split: option.splits if_splits ni2_side_type.splits
        intro!: inv_put)
next
  case (element ch ie)
  then show ?thesis using assms(2) by (simp add: send_information_element_def inv_publish)
next
  case (d_channel ch data)
  then show ?thesis using assms(2) by (simp add: process_d_channel_message_def)
qed

lemma ni2_step_side: "ni2_step s s' \<Longrightarrow> ns_side_type s' = ns_side_type s"
  by (induction rule: ni2_step.induct)
    (auto simp: initiate_call_def process_incoming_setup_def network_answers network_answer_def send_disconnect_def
      send_information_element_def process_d_channel_message_def Let_def split: option.splits if_splits)

interpretation ni2: invariant_machine "\<lambda>s. s = new_ni2_with_side side" ni2_step "\<lambda>s. ni2_inv s \<and> ns_side_type s = side" for side
  by unfold_locales (auto simp: new_ni2_with_side_def ni2_inv_def [of "\<lparr>ns_side_type = _, ns_active_calls = _, ns_call_ref_counter = _, ns_events = _\<rparr>"]
      dest: ni2_step_inv ni2_step_side)

section \<open>What the two sides can reach\<close>

text \<open>On the user side a call is initiated and disconnected, and that is all: nothing takes it to the states of an
  answered call.\<close>

theorem user_call_never_answered:
  assumes "ni2_step\<^sup>*\<^sup>* new_ni2 s" and "get_ni2_call_state s ch = Some st"
  shows "st = NC_CallInitiated \<or> st = NC_DisconnectRequest"
proof -
  have "ni2_inv s" "ns_side_type s = NI2_User"
    using ni2.reachable_inv [OF _ assms(1), of NI2_User] by (simp_all add: new_ni2_def)
  then show ?thesis using assms(2) by (auto simp: get_ni2_call_state_def ni2_inv_def behind_state_def)
qed

text \<open>C30: On the network side a call is active only after it was present, proceeding, alerting and connected, in this
  order and under one call reference.\<close>

theorem network_call_in_order:
  assumes "ni2_step\<^sup>*\<^sup>* (new_ni2_with_side NI2_Network) s" and "map_of (ns_active_calls s) ch = Some c"
    and "nc_state c = NC_Active"
  shows "\<exists>a b. subseq [NE_CallPresent ch (nc_call_reference c) a b, NE_CallProceeding ch (nc_call_reference c),
    NE_CallAlerting ch (nc_call_reference c), NE_CallConnected ch (nc_call_reference c)] (ns_events s)"
proof -
  have "ni2_inv s" "ns_side_type s = NI2_Network"
    using ni2.reachable_inv [OF _ assms(1), of NI2_Network] by simp_all
  then have "behind_state s ch c" "ns_side_type s = NI2_Network" using assms(2) by (auto simp: ni2_inv_def)
  then show ?thesis using assms(3) by (simp add: behind_state_def Let_def)
qed

definition answered_ni2 :: ni2_signaling where
  "answered_ni2 = snd (send_connect 3 ''c'' (snd (send_alerting 2 ''c'' (snd (send_call_proceeding 1 ''c''
     (snd (process_incoming_setup 0 ''c'' 7 ''1'' ''2'' (new_ni2_with_side NI2_Network))))))))"

lemma answered_reachable: "ni2_step\<^sup>*\<^sup>* (new_ni2_with_side NI2_Network) answered_ni2"
proof -
  have incoming: "ni2_step\<^sup>*\<^sup>* s (snd (process_incoming_setup now ch crv a b t))" if "ni2_step\<^sup>*\<^sup>* s t" for s t now ch crv a b
    using that by (rule rtranclp.rtrancl_into_rtrancl) (rule ni2_step.incoming, rule prod.collapse [symmetric])
  have proceeding: "ni2_step\<^sup>*\<^sup>* s (snd (send_call_proceeding now ch t))" if "ni2_step\<^sup>*\<^sup>* s t" for s t now ch
    using that by (rule rtranclp.rtrancl_into_rtrancl) (rule ni2_step.proceeding, rule prod.collapse [symmetric])
  have alerting: "ni2_step\<^sup>*\<^sup>* s (snd (send_alerting now ch t))" if "ni2_step\<^sup>*\<^sup>* s t" for s t now ch
    using that by (rule rtranclp.rtrancl_into_rtrancl) (rule ni2_step.alerting, rule prod.collapse [symmetric])
  have connect: "ni2_step\<^sup>*\<^sup>* s (snd (send_connect now ch t))" if "ni2_step\<^sup>*\<^sup>* s t" for s t now ch
    using that by (rule rtranclp.rtrancl_into_rtrancl) (rule ni2_step.connect, rule prod.collapse [symmetric])
  show ?thesis
    unfolding answered_ni2_def by (intro connect alerting proceeding incoming rtranclp.rtrancl_refl)
qed

theorem network_call_in_order_witness:
  "\<exists>a b. subseq [NE_CallPresent ''c'' 7 a b, NE_CallProceeding ''c'' 7, NE_CallAlerting ''c'' 7, NE_CallConnected ''c'' 7]
     (ns_events answered_ni2)"
proof -
  have "\<exists>c. map_of (ns_active_calls answered_ni2) ''c'' = Some c \<and> nc_state c = NC_Active \<and> nc_call_reference c = 7"
    by (simp add: answered_ni2_def network_answers network_answer_def process_incoming_setup_def new_ni2_with_side_def
        new_context_def put_context_def publish_def Let_def)
  then obtain c where "map_of (ns_active_calls answered_ni2) ''c'' = Some c" "nc_state c = NC_Active"
    "nc_call_reference c = 7" by blast
  with network_call_in_order [OF answered_reachable this(1,2)] show ?thesis by simp
qed

theorem user_call_never_answered_witness:
  "get_ni2_call_state (snd (initiate_call 0 ''c'' ''1'' ''2'' new_ni2)) ''c'' = Some NC_CallInitiated \<and>
    (NC_CallInitiated = NC_CallInitiated \<or> NC_CallInitiated = NC_DisconnectRequest)"
proof -
  let ?s = "snd (initiate_call 0 ''c'' ''1'' ''2'' new_ni2)"
  have "ni2_step new_ni2 ?s" by (rule ni2_step.initiate) (rule prod.collapse [symmetric])
  then have run: "ni2_step\<^sup>*\<^sup>* new_ni2 ?s" by blast
  have "get_ni2_call_state ?s ''c'' = Some NC_CallInitiated"
    by (simp add: initiate_call_def new_ni2_def new_ni2_with_side_def new_context_def put_context_def publish_def
        get_ni2_call_state_def Let_def)
  with user_call_never_answered [OF run this] show ?thesis by simp
qed

end
