(* ===== verification/DtmfTones.thy ===== *)
theory DtmfTones
  imports RustStrings Complex_Main
begin

text \<open>
  DTMF digits found in audio (\<open>src/dtmf_processor.rs\<close>): the events of all the ways a digit can reach
  the switch, the keypad with its frequencies, and the state machine that turns the tone of each block
  of samples into digits. Which tone a block holds (the Goertzel filters, in floating point) and how
  many milliseconds it lasts are arguments; so is, in the other direction, the synthesis of tones. A
  character is its UTF-8 bytes, an instant a number of nanoseconds.
\<close>

section \<open>Events\<close>

datatype dtmf_source = DS_Rfc2833 | DS_SipInfo | DS_Sigtran | DS_AudioDetection | DS_TdmoeVoice

text \<open>A duration in milliseconds, the confidence in hundredths.\<close>

datatype tone_event =
    ToneDigit (te_digit: string) (te_duration: nat) (te_timestamp: nat) (te_confidence: nat) (te_source: dtmf_source)
  | ToneSequence (te_sequence: string) (te_total_duration: nat) (te_source: dtmf_source)

section \<open>The keypad\<close>

definition low_freqs :: "nat list" where
  "low_freqs = [697, 770, 852, 941]"

definition high_freqs :: "nat list" where
  "high_freqs = [1209, 1336, 1477, 1633]"

definition dtmf_keypad :: "char list list" where
  "dtmf_keypad = [''123A'', ''456B'', ''789C'', ''*0#D'']"

definition digit_frequencies :: "char \<Rightarrow> (nat \<times> nat) option" where
  "digit_frequencies digit =
    map_option (\<lambda>(row, col). (low_freqs ! row, high_freqs ! col))
      (List.find (\<lambda>(row, col). dtmf_keypad ! row ! col = ascii_upper digit) (List.product [0..<4] [0..<4]))"

text \<open>The first largest value with its position, from the smallest number on.\<close>

fun max_from :: "nat \<Rightarrow> rat list \<Rightarrow> nat \<times> rat \<Rightarrow> nat \<times> rat" where
  "max_from i [] best = best"
| "max_from i (v # vs) best = max_from (Suc i) vs (if snd best < v then (i, v) else best)"

definition max_index :: "rat \<Rightarrow> rat list \<Rightarrow> nat \<times> rat" where
  "max_index smallest values = max_from 0 values (0, smallest)"

text \<open>The decision about a block of \<open>n\<close> samples: the energies at the frequencies of the two groups and the
  mean energy of the block are arguments.\<close>

definition detect_block :: "rat \<Rightarrow> rat list \<Rightarrow> rat list \<Rightarrow> rat \<Rightarrow> nat \<Rightarrow> char option" where
  "detect_block smallest low_energies high_energies mean n =
    (if n = 0 then None
     else
       let (low_idx, low_energy) = max_index smallest low_energies;
           (high_idx, high_energy) = max_index smallest high_energies;
           min_tone = mean * of_nat n * (5 / 100)
       in if mean < 1 / 100000 then None
          else if low_energy < min_tone \<or> high_energy < min_tone then None
          else Some (dtmf_keypad ! low_idx ! high_idx))"

section \<open>The detector\<close>

record dtmf_detector_config =
  ddc_min_tone_duration :: u32
  ddc_min_inter_digit_silence :: u32

record dtmf_channel_statistics =
  dst_channel_id :: string
  dst_current_digit :: "char option"
  dst_current_sequence :: string
  dst_digits_detected :: u64

record channel_state =
  chs_candidate :: "char option"
  chs_candidate_ms :: u32
  chs_silence_ms :: u32
  chs_last_emitted :: "char option"
  chs_stats :: dtmf_channel_statistics

definition new_channel_state :: "string \<Rightarrow> channel_state" where
  "new_channel_state channel_id =
    \<lparr>chs_candidate = None, chs_candidate_ms = 0, chs_silence_ms = 0, chs_last_emitted = None,
      chs_stats = \<lparr>dst_channel_id = channel_id, dst_current_digit = None, dst_current_sequence = [],
        dst_digits_detected = 0\<rparr>\<rparr>"

definition advance_state ::
    "dtmf_detector_config \<Rightarrow> char option \<Rightarrow> u32 \<Rightarrow> channel_state \<Rightarrow> char option \<times> channel_state" where
  "advance_state cfg detected block_ms s =
    (case detected of
       Some digit \<Rightarrow>
         let s = s\<lparr>chs_silence_ms := 0\<rparr>;
             s = (if chs_candidate s = Some digit then s\<lparr>chs_candidate_ms := chs_candidate_ms s + block_ms\<rparr>
               else s\<lparr>chs_candidate := Some digit, chs_candidate_ms := block_ms\<rparr>);
             stable = ddc_min_tone_duration cfg \<le> chs_candidate_ms s;
             is_new = chs_last_emitted s \<noteq> Some digit
         in if stable \<and> is_new
            then (Some digit, s\<lparr>chs_last_emitted := Some digit,
              chs_stats := (chs_stats s)\<lparr>dst_current_digit := Some digit,
                dst_current_sequence := dst_current_sequence (chs_stats s) @ [digit],
                dst_digits_detected := dst_digits_detected (chs_stats s) + 1\<rparr>\<rparr>)
            else (None, s)
     | None \<Rightarrow>
         let s = s\<lparr>chs_candidate := None, chs_candidate_ms := 0, chs_silence_ms := chs_silence_ms s + block_ms\<rparr>
         in (None,
             if ddc_min_inter_digit_silence cfg \<le> chs_silence_ms s
             then s\<lparr>chs_last_emitted := None, chs_stats := (chs_stats s)\<lparr>dst_current_digit := None\<rparr>\<rparr>
             else s))"

record dtmf_detector =
  dde_config :: dtmf_detector_config
  dde_channels :: "(string \<times> channel_state) list"

definition new_dtmf_detector :: "dtmf_detector_config \<Rightarrow> dtmf_detector" where
  "new_dtmf_detector cfg = \<lparr>dde_config = cfg, dde_channels = []\<rparr>"

definition default_detector_config :: dtmf_detector_config where
  "default_detector_config = \<lparr>ddc_min_tone_duration = 40, ddc_min_inter_digit_silence = 40\<rparr>"

definition add_channel :: "string \<Rightarrow> dtmf_detector \<Rightarrow> dtmf_detector" where
  "add_channel channel_id d =
    d\<lparr>dde_channels := AList.update channel_id (new_channel_state channel_id) (dde_channels d)\<rparr>"

definition remove_channel :: "string \<Rightarrow> dtmf_detector \<Rightarrow> dtmf_detector" where
  "remove_channel channel_id d = d\<lparr>dde_channels := AList.delete channel_id (dde_channels d)\<rparr>"

definition dtmf_statistics :: "string \<Rightarrow> dtmf_detector \<Rightarrow> string + dtmf_channel_statistics" where
  "dtmf_statistics channel_id d =
    (case map_of (dde_channels d) channel_id of None \<Rightarrow> Inl channel_id | Some s \<Rightarrow> Inr (chs_stats s))"

text \<open>A block lasts at least a millisecond; an unknown channel is an error.\<close>

definition process_samples ::
    "char option \<Rightarrow> u32 \<Rightarrow> string \<Rightarrow> dtmf_detector \<Rightarrow> (string + char option) \<times> dtmf_detector" where
  "process_samples detected block_ms channel_id d =
    (case map_of (dde_channels d) channel_id of
       None \<Rightarrow> (Inl channel_id, d)
     | Some s \<Rightarrow>
         let (r, s) = advance_state (dde_config d) detected (max block_ms 1) s
         in (Inr r, d\<lparr>dde_channels := AList.update channel_id s (dde_channels d)\<rparr>))"

text \<open>A sequence of blocks, with the digits they complete.\<close>

fun hear :: "dtmf_detector_config \<Rightarrow> (char option \<times> u32) list \<Rightarrow> channel_state \<Rightarrow> char list \<times> channel_state" where
  "hear cfg [] s = ([], s)"
| "hear cfg ((detected, ms) # bs) s =
    (let (r, s) = advance_state cfg detected ms s; (ds, s) = hear cfg bs s
     in (case r of Some d \<Rightarrow> d # ds | None \<Rightarrow> ds, s))"

section \<open>The tone of a digit\<close>

lemma max_from_least:
  "snd best < x \<Longrightarrow> \<forall>v \<in> set us. v < x \<Longrightarrow> \<forall>v \<in> set vs. v \<le> x \<Longrightarrow>
    max_from i (us @ x # vs) best = (i + length us, x)"
proof (induction us arbitrary: i best)
  case Nil
  have "max_from j vs (k, x) = (k, x)" if "\<forall>v \<in> set vs. v \<le> x" for j k
    using that by (induction vs arbitrary: j) auto
  with Nil show ?case by simp
qed auto

lemma max_index_at:
  assumes "k < length es" and "\<forall>i < length es. i \<noteq> k \<longrightarrow> es ! i < es ! k" and "smallest < es ! k"
  shows "max_index smallest es = (k, es ! k)"
proof -
  have "es = take k es @ es ! k # drop (Suc k) es" using assms(1) by (rule id_take_nth_drop)
  moreover have "\<forall>v \<in> set (take k es). v < es ! k"
    using assms(1,2) by (auto simp: in_set_conv_nth)
  moreover have "\<forall>v \<in> set (drop (Suc k) es). v \<le> es ! k"
    using assms(1,2) by (fastforce simp: in_set_conv_nth less_imp_le)
  ultimately show ?thesis
    using max_from_least [of "(0, smallest)" "es ! k" "take k es" "drop (Suc k) es" 0] assms(1,3)
    by (simp add: max_index_def)
qed

text \<open>A block is heard as the digit whose two frequencies carry the largest energies, if they carry enough.\<close>

lemma keypad_of_frequencies:
  assumes "digit_frequencies d = Some (low_freqs ! i, high_freqs ! j)" and "i < 4" and "j < 4"
  shows "dtmf_keypad ! i ! j = ascii_upper d"
proof -
  obtain r c where rc: "List.find (\<lambda>(row, col). dtmf_keypad ! row ! col = ascii_upper d) (List.product [0..<4] [0..<4]) = Some (r, c)"
    and f: "low_freqs ! r = low_freqs ! i" "high_freqs ! c = high_freqs ! j"
    using assms(1) by (auto simp: digit_frequencies_def)
  have pair: "(r, c) \<in> set (List.product [0..<4] [0..<4])" "dtmf_keypad ! r ! c = ascii_upper d"
    using findD [OF rc] by simp_all
  then have "r < 4" "c < 4" by auto
  moreover have "distinct low_freqs" "distinct high_freqs" "length low_freqs = 4" "length high_freqs = 4"
    by (simp_all add: low_freqs_def high_freqs_def)
  ultimately have "r = i" "c = j" using f assms(2,3) by (auto simp: nth_eq_iff_index_eq)
  with pair show ?thesis by simp
qed

lemma dominant_tone_detected:
  assumes "digit_frequencies d = Some (low_freqs ! i, high_freqs ! j)" and "i < 4" and "j < 4"
    and "length lows = 4" and "\<forall>k < 4. k \<noteq> i \<longrightarrow> lows ! k < lows ! i" and "smallest < lows ! i"
    and "length highs = 4" and "\<forall>k < 4. k \<noteq> j \<longrightarrow> highs ! k < highs ! j" and "smallest < highs ! j"
    and "0 < n" and "1 / 100000 \<le> mean" and "mean * of_nat n * (5 / 100) \<le> min (lows ! i) (highs ! j)"
  shows "detect_block smallest lows highs mean n = Some (ascii_upper d)"
  using max_index_at [of i lows smallest] max_index_at [of j highs smallest] keypad_of_frequencies [OF assms(1-3)] assms
  by (simp add: detect_block_def not_less)

section \<open>Digits that are pressed\<close>

text \<open>The longest time during which blocks follow each other that satisfy \<open>P\<close>, \<open>n\<close> being the time since
  the last one that does not.\<close>

fun longest :: "(char option \<Rightarrow> bool) \<Rightarrow> nat \<Rightarrow> (char option \<times> u32) list \<Rightarrow> nat" where
  "longest P n [] = n"
| "longest P n ((t, ms) # bs) = (if P t then longest P (n + unat ms) bs else max n (longest P 0 bs))"

lemma longest_ge: "n \<le> longest P n bs"
proof (induction bs arbitrary: n)
  case (Cons b bs)
  then show ?case using le_trans [OF le_add1 Cons.IH] by (cases b) auto
qed simp

lemma longest_mono: "m \<le> n \<Longrightarrow> longest P m bs \<le> longest P n bs"
proof (induction bs arbitrary: m n)
  case (Cons b bs)
  then show ?case by (cases b) (auto simp: le_max_iff_disj)
qed simp

lemma longest_zero: "longest P 0 bs \<le> longest P n bs"
  by (rule longest_mono) simp

lemma unat_plus_less:
  "unat (a :: u32) + unat b < 2 ^ 32 \<Longrightarrow> unat (a + b) = unat a + unat b"
  by (simp add: unat_word_ariths)

text \<open>What one press of a digit is: blocks with its tone, interrupted by less silence than lies between digits.\<close>

definition press :: "dtmf_detector_config \<Rightarrow> char \<Rightarrow> (char option \<times> u32) list \<Rightarrow> bool" where
  "press cfg d bs \<longleftrightarrow> (\<forall>(t, ms) \<in> set bs. t = None \<or> t = Some d) \<and>
     longest (\<lambda>t. t = None) 0 bs < unat (ddc_min_inter_digit_silence cfg) \<and>
     longest (\<lambda>t. t = Some d) 0 bs < 2 ^ 32"

definition heard_since :: "dtmf_detector_config \<Rightarrow> char \<Rightarrow> nat \<Rightarrow> channel_state \<Rightarrow> bool" where
  "heard_since cfg d n s \<longleftrightarrow>
     (if chs_candidate s = Some d then unat (chs_candidate_ms s) = n else n = 0) \<and>
     (chs_last_emitted s = Some d \<or> chs_last_emitted s = None \<and> n < unat (ddc_min_tone_duration cfg))"

lemma advance_silence:
  assumes "heard_since cfg d n s" and "0 < ddc_min_tone_duration cfg"
    and "chs_last_emitted s = Some d \<Longrightarrow> unat (chs_silence_ms s) + unat ms < unat (ddc_min_inter_digit_silence cfg)"
  defines "s' \<equiv> snd (advance_state cfg None ms s)"
  shows "fst (advance_state cfg None ms s) = None" and "chs_last_emitted s' = chs_last_emitted s"
    and "heard_since cfg d 0 s'"
    and "chs_last_emitted s = Some d \<Longrightarrow> unat (chs_silence_ms s') = unat (chs_silence_ms s) + unat ms"
proof -
  have "unat (ddc_min_inter_digit_silence cfg) < 2 ^ 32"
    using unsigned_less [of "ddc_min_inter_digit_silence cfg", where ?'a = nat] by simp
  then have kept: "unat (chs_silence_ms s + ms) = unat (chs_silence_ms s) + unat ms" if "chs_last_emitted s = Some d"
    using assms(3) [OF that] by (intro unat_plus_less) linarith
  show "fst (advance_state cfg None ms s) = None" by (simp add: advance_state_def Let_def)
  show last: "chs_last_emitted s' = chs_last_emitted s"
    using assms(1,3) kept by (auto simp: s'_def advance_state_def Let_def heard_since_def word_le_nat_alt)
  show "heard_since cfg d 0 s'"
    using assms(1,2) last by (simp add: heard_since_def) (auto simp: s'_def advance_state_def Let_def word_less_nat_alt)
  show "unat (chs_silence_ms s') = unat (chs_silence_ms s) + unat ms" if "chs_last_emitted s = Some d"
    using kept [OF that] by (simp add: s'_def advance_state_def Let_def)
qed

lemma advance_tone:
  assumes "heard_since cfg d n s" and "n + unat ms < 2 ^ 32"
  defines "s' \<equiv> snd (advance_state cfg (Some d) ms s)"
  shows "fst (advance_state cfg (Some d) ms s) =
      (if chs_last_emitted s = None \<and> unat (ddc_min_tone_duration cfg) \<le> n + unat ms then Some d else None)"
    and "chs_last_emitted s' =
      (if chs_last_emitted s = None \<and> unat (ddc_min_tone_duration cfg) \<le> n + unat ms then Some d else chs_last_emitted s)"
    and "heard_since cfg d (n + unat ms) s'" and "chs_silence_ms s' = 0"
proof -
  define m where "m = (if chs_candidate s = Some d then chs_candidate_ms s + ms else ms)"
  have m: "unat m = n + unat ms"
    using assms(1,2) unat_plus_less [of "chs_candidate_ms s" ms] by (simp add: m_def heard_since_def split: if_splits)
  have last: "chs_last_emitted s = Some d \<or> chs_last_emitted s = None"
    using assms(1) by (auto simp: heard_since_def)
  have adv: "advance_state cfg (Some d) ms s =
      (let s1 = s\<lparr>chs_silence_ms := 0, chs_candidate := Some d, chs_candidate_ms := m\<rparr>
       in if ddc_min_tone_duration cfg \<le> m \<and> chs_last_emitted s \<noteq> Some d
          then (Some d, s1\<lparr>chs_last_emitted := Some d, chs_stats := (chs_stats s)\<lparr>dst_current_digit := Some d,
             dst_current_sequence := dst_current_sequence (chs_stats s) @ [d],
             dst_digits_detected := dst_digits_detected (chs_stats s) + 1\<rparr>\<rparr>)
          else (None, s1))"
    by (cases s) (simp add: advance_state_def m_def Let_def)
  show "fst (advance_state cfg (Some d) ms s) =
      (if chs_last_emitted s = None \<and> unat (ddc_min_tone_duration cfg) \<le> n + unat ms then Some d else None)"
    and l: "chs_last_emitted s' =
      (if chs_last_emitted s = None \<and> unat (ddc_min_tone_duration cfg) \<le> n + unat ms then Some d else chs_last_emitted s)"
    and "chs_silence_ms s' = 0"
    using last by (auto simp: s'_def adv Let_def m word_le_nat_alt)
  have "chs_candidate s' = Some d" "unat (chs_candidate_ms s') = n + unat ms"
    by (simp_all add: s'_def adv Let_def m)
  then show "heard_since cfg d (n + unat ms) s'"
    using l last by (auto simp: heard_since_def)
qed

lemma hear_cons:
  "fst (hear cfg ((t, ms) # bs) s) =
    (case fst (advance_state cfg t ms s) of
       Some x \<Rightarrow> x # fst (hear cfg bs (snd (advance_state cfg t ms s)))
     | None \<Rightarrow> fst (hear cfg bs (snd (advance_state cfg t ms s))))"
  "snd (hear cfg ((t, ms) # bs) s) = snd (hear cfg bs (snd (advance_state cfg t ms s)))"
  by (cases "advance_state cfg t ms s"; cases "hear cfg bs (snd (advance_state cfg t ms s))"; simp split: option.split)+

declare hear.simps(2) [simp del]

lemma hear_append:
  "fst (hear cfg (as @ bs) s) = fst (hear cfg as s) @ fst (hear cfg bs (snd (hear cfg as s)))"
  "snd (hear cfg (as @ bs) s) = snd (hear cfg bs (snd (hear cfg as s)))"
proof (induction as arbitrary: s)
  case (Cons a as)
  { case 1 then show ?case using Cons(1) by (cases a) (simp add: hear_cons split: option.split) }
  { case 2 then show ?case using Cons(2) by (cases a) (simp add: hear_cons) }
qed simp_all

lemma hear_held:
  assumes "\<forall>(t, ms) \<in> set bs. t = None \<or> t = Some d" and "heard_since cfg d n s"
    and "longest (\<lambda>t. t = Some d) n bs < 2 ^ 32"
    and "chs_last_emitted s = Some d \<Longrightarrow> longest (\<lambda>t. t = None) (unat (chs_silence_ms s)) bs < unat (ddc_min_inter_digit_silence cfg)"
    and "longest (\<lambda>t. t = None) 0 bs < unat (ddc_min_inter_digit_silence cfg)"
    and "0 < ddc_min_tone_duration cfg"
  shows "fst (hear cfg bs s) = (if chs_last_emitted s = None \<and> unat (ddc_min_tone_duration cfg) \<le> longest (\<lambda>t. t = Some d) n bs
      then [d] else []) \<and>
    (\<exists>k. heard_since cfg d k (snd (hear cfg bs s))) \<and>
    (chs_last_emitted (snd (hear cfg bs s)) = Some d \<longrightarrow>
      unat (chs_silence_ms (snd (hear cfg bs s))) < unat (ddc_min_inter_digit_silence cfg))"
  using assms(1-5)
proof (induction bs arbitrary: s n)
  case Nil
  then show ?case by (auto simp: heard_since_def)
next
  case (Cons b bs)
  obtain t ms where b: "b = (t, ms)" by fastforce
  show ?case
  proof (cases t)
    case None
    let ?s = "snd (advance_state cfg None ms s)"
    have "unat (chs_silence_ms s) + unat ms < unat (ddc_min_inter_digit_silence cfg)" if "chs_last_emitted s = Some d"
      using Cons.prems(4) [OF that] b None longest_ge [of "unat (chs_silence_ms s) + unat ms" "\<lambda>t. t = None" bs] by simp
    note adv = advance_silence [OF Cons.prems(2) assms(6) this]
    have "fst (hear cfg bs ?s) = (if chs_last_emitted ?s = None \<and>
        unat (ddc_min_tone_duration cfg) \<le> longest (\<lambda>t. t = Some d) 0 bs then [d] else []) \<and>
        (\<exists>k. heard_since cfg d k (snd (hear cfg bs ?s))) \<and>
        (chs_last_emitted (snd (hear cfg bs ?s)) = Some d \<longrightarrow>
          unat (chs_silence_ms (snd (hear cfg bs ?s))) < unat (ddc_min_inter_digit_silence cfg))"
    proof (rule Cons.IH [OF _ adv(3)])
      show "longest (\<lambda>t. t = None) (unat (chs_silence_ms ?s)) bs < unat (ddc_min_inter_digit_silence cfg)"
        if "chs_last_emitted ?s = Some d"
        using that Cons.prems(4) adv(2,4) b None by simp
      show "longest (\<lambda>t. t = None) 0 bs < unat (ddc_min_inter_digit_silence cfg)"
        using Cons.prems(5) b None longest_zero [of "\<lambda>t. t = None" bs "unat ms"] by simp
    qed (use Cons.prems(1,3) b None in auto)
    moreover have "n < unat (ddc_min_tone_duration cfg)" if "chs_last_emitted s = None"
      using Cons.prems(2) that by (simp add: heard_since_def)
    ultimately show ?thesis using adv(1,2) b None by (auto simp: hear_cons)
  next
    case (Some c)
    then have t: "t = Some d" using Cons.prems(1) b by auto
    let ?m = "n + unat ms"
    let ?s = "snd (advance_state cfg (Some d) ms s)"
    have "?m < 2 ^ 32"
      using Cons.prems(3) b t longest_ge [of ?m "\<lambda>t. t = Some d" bs] by simp
    note adv = advance_tone [OF Cons.prems(2) this]
    have "fst (hear cfg bs ?s) = (if chs_last_emitted ?s = None \<and>
        unat (ddc_min_tone_duration cfg) \<le> longest (\<lambda>t. t = Some d) ?m bs then [d] else []) \<and>
        (\<exists>k. heard_since cfg d k (snd (hear cfg bs ?s))) \<and>
        (chs_last_emitted (snd (hear cfg bs ?s)) = Some d \<longrightarrow>
          unat (chs_silence_ms (snd (hear cfg bs ?s))) < unat (ddc_min_inter_digit_silence cfg))"
      by (rule Cons.IH [OF _ adv(3)]) (use Cons.prems b t adv(4) in \<open>auto simp: max_def split: if_splits\<close>)
    then show ?thesis
      using adv(1,2) b t longest_ge [of ?m "\<lambda>t. t = Some d" bs] by (simp add: hear_cons)
  qed
qed

text \<open>Presses one after the other, each followed by silence: any number of blocks without a tone, which last
  together at least as long as lies between digits. Their sum stays within 32 bits.\<close>

type_synonym tone_blocks = "(char option \<times> u32) list"

definition silence :: "u32 list \<Rightarrow> tone_blocks" where
  "silence gap = map (Pair None) gap"

definition dialled :: "(char \<times> tone_blocks \<times> u32 list) list \<Rightarrow> tone_blocks" where
  "dialled ps = concat (map (\<lambda>(d, bs, gap). bs @ silence gap) ps)"

definition clear_press :: "dtmf_detector_config \<Rightarrow> char \<times> tone_blocks \<times> u32 list \<Rightarrow> bool" where
  "clear_press cfg p = (case p of (d, bs, gap) \<Rightarrow>
     press cfg d bs \<and> unat (ddc_min_tone_duration cfg) \<le> longest (\<lambda>t. t = Some d) 0 bs \<and> gap \<noteq> [] \<and>
     unat (ddc_min_inter_digit_silence cfg) \<le> sum_list (map unat gap) \<and>
     sum_list (map unat gap) + unat (ddc_min_inter_digit_silence cfg) \<le> 2 ^ 32)"

definition at_rest :: "channel_state \<Rightarrow> bool" where
  "at_rest s \<longleftrightarrow> chs_candidate s = None \<and> chs_last_emitted s = None"

text \<open>Silence adds up, and forgets the digit as soon as it is long enough.\<close>

lemma hear_silence:
  assumes "unat (chs_silence_ms s) + sum_list (map unat gap) < 2 ^ 32 \<or> chs_last_emitted s = None" and "gap \<noteq> []"
    and "unat (ddc_min_inter_digit_silence cfg) \<le> unat (chs_silence_ms s) + sum_list (map unat gap) \<or> chs_last_emitted s = None"
  shows "fst (hear cfg (silence gap) s) = [] \<and> at_rest (snd (hear cfg (silence gap) s))"
  using assms
proof (induction gap arbitrary: s)
  case (Cons g gap)
  let ?s = "snd (advance_state cfg None g s)"
  have out: "fst (advance_state cfg None g s) = None" "chs_candidate ?s = None" "chs_silence_ms ?s = chs_silence_ms s + g"
    "chs_last_emitted ?s = (if ddc_min_inter_digit_silence cfg \<le> chs_silence_ms s + g then None else chs_last_emitted s)"
    by (simp_all add: advance_state_def Let_def)
  have sum: "unat (chs_silence_ms s + g) = unat (chs_silence_ms s) + unat g" if "chs_last_emitted s \<noteq> None"
    using Cons.prems(1) that by (intro unat_plus_less) auto
  show ?case
  proof (cases "gap = []")
    case True
    then show ?thesis
      using Cons.prems(3) out sum
      by (cases "chs_last_emitted s") (auto simp: silence_def hear_cons at_rest_def word_le_nat_alt)
  next
    case False
    have "fst (hear cfg (silence gap) ?s) = [] \<and> at_rest (snd (hear cfg (silence gap) ?s))"
      by (rule Cons.IH [OF _ False]) (use Cons.prems out sum in \<open>auto simp: add.assoc\<close>)
    then show ?thesis by (simp add: silence_def hear_cons out(1))
  qed
qed simp

lemma hear_press:
  assumes "clear_press cfg p" and "0 < ddc_min_tone_duration cfg" and "at_rest s"
  shows "fst (hear cfg (dialled [p]) s) = [fst p] \<and> at_rest (snd (hear cfg (dialled [p]) s))"
proof -
  obtain d bs gap where p: "p = (d, bs, gap)" by (cases p)
  let ?s = "snd (hear cfg bs s)"
  have "heard_since cfg d 0 s"
    using assms(2,3) by (simp add: heard_since_def at_rest_def word_less_nat_alt)
  from hear_held [OF _ this _ _ _ assms(2)] assms(1,3) p
  have held: "fst (hear cfg bs s) = [d]" "\<exists>k. heard_since cfg d k ?s"
    "chs_last_emitted ?s = Some d \<Longrightarrow> unat (chs_silence_ms ?s) < unat (ddc_min_inter_digit_silence cfg)"
    by (auto simp: clear_press_def press_def at_rest_def)
  have "fst (hear cfg (silence gap) ?s) = [] \<and> at_rest (snd (hear cfg (silence gap) ?s))"
    using held(2,3) assms(1) p by (intro hear_silence) (auto simp: heard_since_def clear_press_def)
  then show ?thesis
    by (simp add: dialled_def p hear_append held(1))
qed

text \<open>C31: Whatever digits are pressed, each with its tone for at least the minimum duration without a break,
  interrupted only by silences shorter than the minimum between digits, and followed by blocks of
  silence that together reach this minimum, they are heard in order, each once. No run of a tone and
  no silence is so long that its milliseconds overflow 32 bits.\<close>

theorem pressed_digits_heard:
  assumes "list_all (clear_press cfg) ps" and "0 < ddc_min_tone_duration cfg"
  shows "fst (hear cfg (dialled ps) (new_channel_state channel_id)) = map fst ps"
proof -
  have "fst (hear cfg (dialled ps) s) = map fst ps" if "at_rest s" for s
    using assms(1) that
  proof (induction ps arbitrary: s)
    case (Cons p ps)
    have "dialled (p # ps) = dialled [p] @ dialled ps" by (simp add: dialled_def)
    with Cons hear_press [of cfg p s] assms(2) show ?case by (simp add: hear_append)
  qed (simp add: dialled_def)
  then show ?thesis by (simp add: new_channel_state_def at_rest_def)
qed

theorem pressed_digits_heard_witness:
  "fst (hear default_detector_config (dialled [(CHR ''5'', [(Some CHR ''5'', 30), (None, 20), (Some CHR ''5'', 60)], [10, 10, 20, 10]),
     (CHR ''5'', [(Some CHR ''5'', 40)], [40])]) (new_channel_state ''c'')) = ''55''"
  by (subst pressed_digits_heard)
    (simp_all add: clear_press_def press_def default_detector_config_def)

end
