(* ===== verification/SigtranDtmf.thy ===== *)
theory SigtranDtmf
  imports DtmfTones "HOL-Library.AList"
begin

text \<open>
  Digits carried by the signalling of SS7 over IP (\<open>src/sigtran_dtmf.rs\<close>): messages and the events they
  become, the parameter of generic digits with its BCD coding, the TCAP component that asks for digits,
  and the transactions that collect them. Events are collected in the order they are sent; the counter
  of transactions, a global of the program, is part of the state. Instants are nanoseconds.
\<close>

section \<open>Messages\<close>

datatype sigtran_protocol = SP_M3ua | SP_Sua | SP_Iua | SP_V5ua

datatype sigtran_parameter_type = IP_UserToUserInfo | IP_GenericDigits | IP_GenericNotification | IP_OperatorServicesInfo

fun sigtran_parameter_code :: "sigtran_parameter_type \<Rightarrow> u8" where
  "sigtran_parameter_code IP_UserToUserInfo = 0x20"
| "sigtran_parameter_code IP_GenericDigits = 0xC1"
| "sigtran_parameter_code IP_GenericNotification = 0x2C"
| "sigtran_parameter_code IP_OperatorServicesInfo = 0xF6"

datatype digits_encoding = DE_BcdEven | DE_BcdOdd | DE_Ia5Character | DE_BinaryCoded

fun digits_encoding_code :: "digits_encoding \<Rightarrow> u8" where
  "digits_encoding_code DE_BcdEven = 0"
| "digits_encoding_code DE_BcdOdd = 1"
| "digits_encoding_code DE_Ia5Character = 2"
| "digits_encoding_code DE_BinaryCoded = 3"

datatype digits_type = DT_AccountCode | DT_AuthorizationCode | DT_PrivateNetworkTravellingClassMark
  | DT_BusinessCommunicationGroupId | DT_GenericDigits | DT_RoutingDigits | DT_CalledPartyNumber
  | DT_CallingPartyNumber | DT_DtmfDigits

fun digits_type_code :: "digits_type \<Rightarrow> u8" where
  "digits_type_code DT_AccountCode = 0"
| "digits_type_code DT_AuthorizationCode = 1"
| "digits_type_code DT_PrivateNetworkTravellingClassMark = 2"
| "digits_type_code DT_BusinessCommunicationGroupId = 3"
| "digits_type_code DT_GenericDigits = 4"
| "digits_type_code DT_RoutingDigits = 5"
| "digits_type_code DT_CalledPartyNumber = 6"
| "digits_type_code DT_CallingPartyNumber = 7"
| "digits_type_code DT_DtmfDigits = 0xFF"

datatype sigtran_message_type = SM_IsupUserToUser | SM_IsupGenericDigits | SM_TcapInvoke | SM_TcapReturnResult
  | SM_InapCollectedInfo | SM_InapPromptAndCollect

record sigtran_message =
  sgm_protocol :: sigtran_protocol
  sgm_message_type :: sigtran_message_type
  sgm_digits :: string
  sgm_encoding :: digits_encoding
  sgm_cic :: "u32 option"
  sgm_transaction_id :: "u32 option"
  sgm_parameters :: "(string \<times> u8 list) list"

datatype collection_state = DigitCollectionActive | CollectionComplete | TransactionTerminated

record sigtran_transaction =
  sgt_transaction_id :: u32
  sgt_protocol :: sigtran_protocol
  sgt_cic :: "u32 option"
  sgt_start_time :: nat
  sgt_collected_digits :: string
  sgt_state :: collection_state

record sigtran_config =
  sgc_max_digits :: u8
  sgc_collection_timeout :: u32
  sgc_supported_protocols :: "sigtran_protocol list"
  sgc_default_encoding :: digits_encoding

definition default_sigtran_config :: sigtran_config where
  "default_sigtran_config = \<lparr>sgc_max_digits = 20, sgc_collection_timeout = 30,
     sgc_supported_protocols = [SP_M3ua, SP_Sua], sgc_default_encoding = DE_Ia5Character\<rparr>"

record sigtran_processor =
  sgp_active_transactions :: "(u32 \<times> sigtran_transaction) list"
  sgp_config :: sigtran_config
  sgp_transaction_counter :: u32
  sgp_events :: "tone_event list"

definition new_sigtran_processor :: "u32 \<Rightarrow> sigtran_config \<Rightarrow> sigtran_processor" where
  "new_sigtran_processor counter cfg =
    \<lparr>sgp_active_transactions = [], sgp_config = cfg, sgp_transaction_counter = counter, sgp_events = []\<rparr>"

section \<open>Digits in octets\<close>

text \<open>The digits 12 to 15 of a nibble are the letters A to D.\<close>

definition nibble_char :: "u8 \<Rightarrow> char" where
  "nibble_char n =
    (if n \<le> 9 then char_of (48 + unat n) else if n = 0x0A then CHR ''*'' else if n = 0x0B then CHR ''#''
     else char_of (65 + unat (n - 0x0C)))"

definition decode_bcd :: "u8 list \<Rightarrow> string" where
  "decode_bcd bytes = concat (map (\<lambda>b. [nibble_char (drop_bit 4 b AND 0x0F), nibble_char (b AND 0x0F)]) bytes)"

definition char_to_bcd_nibble :: "string \<Rightarrow> string + u8" where
  "char_to_bcd_nibble c =
    (case c of
       [x] \<Rightarrow>
         (let n = of_char x :: nat in
          if is_digit x then Inr (word_of_nat (n - 48))
          else if x = CHR ''*'' then Inr 0x0A
          else if x = CHR ''#'' then Inr 0x0B
          else if 65 \<le> n \<and> n \<le> 68 then Inr (word_of_nat (n - 65) + 0x0C)
          else if 97 \<le> n \<and> n \<le> 100 then Inr (word_of_nat (n - 97) + 0x0C)
          else Inl c)
     | _ \<Rightarrow> Inl c)"

text \<open>Two characters to an octet; the error is the first character without a nibble.\<close>

fun bcd_pairs :: "bool \<Rightarrow> string list \<Rightarrow> string + u8 list" where
  "bcd_pairs odd_length [] = Inr []"
| "bcd_pairs odd_length [c] =
    (case char_to_bcd_nibble c of
       Inl e \<Rightarrow> Inl e
     | Inr high \<Rightarrow> Inr [push_bit 4 high OR (if odd_length then 0x0F else 0x00)])"
| "bcd_pairs odd_length (c # d # cs) =
    (case char_to_bcd_nibble c of
       Inl e \<Rightarrow> Inl e
     | Inr high \<Rightarrow>
         (case char_to_bcd_nibble d of
            Inl e \<Rightarrow> Inl e
          | Inr low \<Rightarrow>
              (case bcd_pairs odd_length cs of
                 Inl e \<Rightarrow> Inl e
               | Inr bs \<Rightarrow> Inr ((push_bit 4 high OR low) # bs))))"

definition encode_bcd :: "string \<Rightarrow> bool \<Rightarrow> string + u8 list" where
  "encode_bcd digits odd_length = bcd_pairs odd_length (utf8_chars digits)"

definition is_dtmf_char :: "char \<Rightarrow> bool" where
  "is_dtmf_char c \<longleftrightarrow> is_digit c \<or> c \<in> set ''ABCD*#''"

definition decode_digits :: "string \<Rightarrow> digits_encoding \<Rightarrow> string" where
  "decode_digits encoded encoding =
    (case encoding of
       DE_Ia5Character \<Rightarrow> filter is_dtmf_char encoded
     | DE_BcdEven \<Rightarrow> decode_bcd (str_bytes encoded)
     | DE_BcdOdd \<Rightarrow> decode_bcd (str_bytes encoded)
     | DE_BinaryCoded \<Rightarrow> encoded)"

definition encode_digits :: "string \<Rightarrow> digits_encoding \<Rightarrow> string + u8 list" where
  "encode_digits digits encoding =
    (case encoding of
       DE_Ia5Character \<Rightarrow> Inr (str_bytes digits)
     | DE_BcdEven \<Rightarrow> encode_bcd digits False
     | DE_BcdOdd \<Rightarrow> encode_bcd digits True
     | DE_BinaryCoded \<Rightarrow> Inr (str_bytes digits))"

definition extract_dtmf_from_uui :: "string \<Rightarrow> string" where
  "extract_dtmf_from_uui uui_content = filter is_dtmf_char uui_content"

text \<open>The length octet of the parameter wraps.\<close>

definition create_isup_generic_digits :: "string \<Rightarrow> digits_type \<Rightarrow> sigtran_processor \<Rightarrow> string + u8 list" where
  "create_isup_generic_digits digits ty p =
    (let encoding = sgc_default_encoding (sgp_config p)
     in case encode_digits digits encoding of
          Inl e \<Rightarrow> Inl e
        | Inr encoded_digits \<Rightarrow>
            Inr ([sigtran_parameter_code IP_GenericDigits, word_of_nat (length encoded_digits + 1),
              push_bit 4 (digits_type_code ty) OR digits_encoding_code encoding] @ encoded_digits))"

definition create_tcap_invoke_collect_digits :: "u32 \<Rightarrow> u8 \<Rightarrow> u8 list" where
  "create_tcap_invoke_collect_digits transaction_id max_digits =
    (let content = [0x02, 0x01, ucast (transaction_id AND 0xFF), 0x02, 0x01, 23, 0x30, 0x03, 0x02, 0x01, max_digits]
     in [0xA1, word_of_nat (length content)] @ content)"

section \<open>Events\<close>

definition sigtran_digit :: "nat \<Rightarrow> nat \<Rightarrow> string \<Rightarrow> tone_event" where
  "sigtran_digit now confidence digit = ToneDigit digit 100 now confidence DS_Sigtran"

definition emit_digits :: "nat \<Rightarrow> nat \<Rightarrow> string \<Rightarrow> sigtran_processor \<Rightarrow> sigtran_processor" where
  "emit_digits now confidence digits p =
    p\<lparr>sgp_events := sgp_events p @ map (sigtran_digit now confidence) (utf8_chars digits)\<rparr>"

definition emit_sequence :: "string \<Rightarrow> sigtran_processor \<Rightarrow> sigtran_processor" where
  "emit_sequence digits p =
    p\<lparr>sgp_events := sgp_events p @ [ToneSequence digits (length digits * 100) DS_Sigtran]\<rparr>"

definition process_isup_generic_digits :: "nat \<Rightarrow> sigtran_message \<Rightarrow> sigtran_processor \<Rightarrow> sigtran_processor" where
  "process_isup_generic_digits now m p =
    (let digits = decode_digits (sgm_digits m) (sgm_encoding m)
     in emit_sequence digits (emit_digits now 90 digits p))"

definition process_isup_user_to_user :: "nat \<Rightarrow> sigtran_message \<Rightarrow> sigtran_processor \<Rightarrow> sigtran_processor" where
  "process_isup_user_to_user now m p = emit_digits now 80 (extract_dtmf_from_uui (sgm_digits m)) p"

definition process_tcap_return_result :: "nat \<Rightarrow> sigtran_message \<Rightarrow> sigtran_processor \<Rightarrow> sigtran_processor" where
  "process_tcap_return_result now m p =
    (case sgm_transaction_id m of
       None \<Rightarrow> p
     | Some transaction_id \<Rightarrow>
         (case map_of (sgp_active_transactions p) transaction_id of
            None \<Rightarrow> p
          | Some t \<Rightarrow>
              emit_digits now 95 (sgm_digits m)
                (p\<lparr>sgp_active_transactions := AList.update transaction_id
                   (t\<lparr>sgt_collected_digits := sgt_collected_digits t @ sgm_digits m, sgt_state := CollectionComplete\<rparr>)
                   (sgp_active_transactions p)\<rparr>)))"

definition process_inap_collected_info :: "nat \<Rightarrow> sigtran_message \<Rightarrow> sigtran_processor \<Rightarrow> sigtran_processor" where
  "process_inap_collected_info now m p = emit_sequence (sgm_digits m) (emit_digits now 95 (sgm_digits m) p)"

definition process_incoming_message :: "nat \<Rightarrow> sigtran_message \<Rightarrow> sigtran_processor \<Rightarrow> sigtran_processor" where
  "process_incoming_message now m p =
    (case sgm_message_type m of
       SM_IsupGenericDigits \<Rightarrow> process_isup_generic_digits now m p
     | SM_IsupUserToUser \<Rightarrow> process_isup_user_to_user now m p
     | SM_TcapReturnResult \<Rightarrow> process_tcap_return_result now m p
     | SM_InapCollectedInfo \<Rightarrow> process_inap_collected_info now m p
     | _ \<Rightarrow> p)"

definition generate_outgoing_message ::
    "sigtran_protocol \<Rightarrow> sigtran_message_type \<Rightarrow> string \<Rightarrow> u32 option \<Rightarrow> sigtran_processor \<Rightarrow> sigtran_message" where
  "generate_outgoing_message protocol ty digits cic p =
    \<lparr>sgm_protocol = protocol, sgm_message_type = ty, sgm_digits = digits,
      sgm_encoding = sgc_default_encoding (sgp_config p), sgm_cic = cic, sgm_transaction_id = None,
      sgm_parameters = []\<rparr>"

section \<open>Transactions\<close>

definition start_digit_collection ::
    "nat \<Rightarrow> sigtran_protocol \<Rightarrow> u32 option \<Rightarrow> sigtran_processor \<Rightarrow> u32 \<times> sigtran_processor" where
  "start_digit_collection now protocol cic p =
    (let transaction_id = sgp_transaction_counter p;
         t = \<lparr>sgt_transaction_id = transaction_id, sgt_protocol = protocol, sgt_cic = cic, sgt_start_time = now,
           sgt_collected_digits = [], sgt_state = DigitCollectionActive\<rparr>
     in (transaction_id, p\<lparr>sgp_transaction_counter := transaction_id + 1,
          sgp_active_transactions := AList.update transaction_id t (sgp_active_transactions p)\<rparr>))"

definition cleanup_expired_transactions :: "nat \<Rightarrow> sigtran_processor \<Rightarrow> sigtran_processor" where
  "cleanup_expired_transactions now p =
    p\<lparr>sgp_active_transactions := filter (\<lambda>(i, t).
       now - sgt_start_time t \<le> unat (sgc_collection_timeout (sgp_config p)) * 1000000000) (sgp_active_transactions p)\<rparr>"

definition get_transaction_stats :: "sigtran_processor \<Rightarrow> sigtran_transaction list" where
  "get_transaction_stats p = map snd (sgp_active_transactions p)"

section \<open>Round trips of digits\<close>

lemma low_nibble: "(b :: u8) AND 0x0F = take_bit 4 b"
  by (simp add: take_bit_eq_mask mask_eq_decr_exp)

lemma bit_nibble: "(h :: u8) < 16 \<Longrightarrow> bit h n \<Longrightarrow> n < 4"
proof (rule ccontr)
  assume h: "h < 16" "bit h n" "\<not> n < 4"
  have "unat h < 2 ^ 4" using h(1) by (simp add: word_less_nat_alt)
  then have "take_bit 4 h = h" by (simp add: word_unat_eq_iff unsigned_take_bit_eq take_bit_nat_eq_self)
  with h(2,3) show False by (metis bit_take_bit_iff)
qed

lemma nibble_high_low:
  assumes "(h :: u8) < 16" and "(l :: u8) < 16"
  shows "drop_bit 4 (push_bit 4 h OR l) AND 0x0F = h" and "(push_bit 4 h OR l) AND 0x0F = l"
  unfolding low_nibble
  by (rule bit_word_eqI; use bit_nibble [OF assms(1)] bit_nibble [OF assms(2)] in \<open>fastforce simp: bit_simps\<close>)+

lemma ascii_upper_small: "(of_char x :: nat) < 97 \<Longrightarrow> ascii_upper x = x"
  by (simp add: ascii_upper_def)

lemma char_of_code: "(of_char x :: nat) = of_char y \<Longrightarrow> x = y"
  by (simp only: of_char_eq_iff)

lemma letter_codes: "char_of (65 :: nat) = CHR ''A''" "char_of (66 :: nat) = CHR ''B''"
  "char_of (67 :: nat) = CHR ''C''" "char_of (68 :: nat) = CHR ''D''"
  by (rule char_of_code; simp)+

lemma nibble_of_char:
  assumes "char_to_bcd_nibble c = Inr n"
  shows "n < 16 \<and> c = [hd c] \<and> ascii_str c \<and> nibble_char n = ascii_upper (hd c)"
proof -
  obtain x where c: "c = [x]" using assms by (cases c rule: remdups_adj.cases) (auto simp: char_to_bcd_nibble_def)
  let ?n = "of_char x :: nat"
  consider (digit) "48 \<le> ?n" "?n \<le> 57" | (star) "x = CHR ''*''" | (hash) "x = CHR ''#''"
    | (upper) "65 \<le> ?n" "?n \<le> 68" | (lower) "97 \<le> ?n" "?n \<le> 100"
    using assms c by (auto simp: char_to_bcd_nibble_def is_digit_def Let_def split: if_splits)
  then show ?thesis
  proof cases
    case digit
    then obtain k where k: "?n = 48 + k" "k < 10" using le_Suc_ex [of 48 ?n] by auto
    have "nibble_char (word_of_nat k) = char_of (48 + k)" and "(word_of_nat k :: u8) < 16"
      using k(2) by (simp_all add: nibble_char_def word_le_nat_alt word_less_nat_alt unat_of_nat)
    moreover have "char_of (48 + k) = x" by (simp flip: k(1))
    moreover have "char_to_bcd_nibble [x] = Inr (word_of_nat k)"
      using k by (simp add: char_to_bcd_nibble_def is_digit_def)
    ultimately show ?thesis using assms c k by (simp add: ascii_upper_small ascii_str_def)
  next
    case star
    then show ?thesis using assms c
      by (simp add: char_to_bcd_nibble_def is_digit_def nibble_char_def ascii_upper_def ascii_str_def) 
  next
    case hash
    then show ?thesis using assms c
      by (simp add: char_to_bcd_nibble_def is_digit_def nibble_char_def ascii_upper_def ascii_str_def)
  next
    case upper
    then have "?n = 65 \<or> ?n = 66 \<or> ?n = 67 \<or> ?n = 68" by linarith
    then have "x = CHR ''A'' \<or> x = CHR ''B'' \<or> x = CHR ''C'' \<or> x = CHR ''D''"
      by (auto intro: char_of_code)
    then show ?thesis using assms c
      by (auto simp: char_to_bcd_nibble_def is_digit_def nibble_char_def ascii_upper_def ascii_str_def letter_codes)
  next
    case lower
    then have "?n = 97 \<or> ?n = 98 \<or> ?n = 99 \<or> ?n = 100" by linarith
    then have "x = CHR ''a'' \<or> x = CHR ''b'' \<or> x = CHR ''c'' \<or> x = CHR ''d''"
      by (auto intro: char_of_code)
    then show ?thesis using assms c
      by (auto simp: char_to_bcd_nibble_def is_digit_def nibble_char_def ascii_upper_def ascii_str_def)
  qed
qed

lemma bcd_pairs_ascii: "bcd_pairs odd_length cs = Inr bs \<Longrightarrow> ascii_str (concat cs) \<and> concat cs = map hd cs"
proof (induction odd_length cs arbitrary: bs rule: bcd_pairs.induct)
  case (2 odd_length c)
  then show ?case using nibble_of_char [of c] by (auto split: sum.splits)
next
  case (3 odd_length c d cs)
  from "3.prems" obtain h l r where "char_to_bcd_nibble c = Inr h" "char_to_bcd_nibble d = Inr l"
    and rest: "bcd_pairs odd_length cs = Inr r" by (auto split: sum.splits)
  with nibble_of_char have "c = [hd c]" "d = [hd d]" "ascii_str c" "ascii_str d" by blast+
  moreover have "ascii_str (concat cs) \<and> concat cs = map hd cs" using "3.IH" rest \<open>char_to_bcd_nibble c = Inr h\<close>
    \<open>char_to_bcd_nibble d = Inr l\<close> by blast
  ultimately show ?case by (simp add: ascii_str_def) (metis append_Cons append_Nil)
qed (simp add: ascii_str_def)

lemma decode_bcd_Cons:
  "h < 16 \<Longrightarrow> l < 16 \<Longrightarrow> decode_bcd ((push_bit 4 h OR l) # bs) = nibble_char h # nibble_char l # decode_bcd bs"
  unfolding decode_bcd_def list.map concat.simps nibble_high_low by simp

lemma decode_bcd_pairs:
  "bcd_pairs odd_length cs = Inr bs \<Longrightarrow>
    decode_bcd bs = map (\<lambda>c. ascii_upper (hd c)) cs @
      (if even (length cs) then [] else if odd_length then ''D'' else ''0'')"
proof (induction odd_length cs arbitrary: bs rule: bcd_pairs.induct)
  case (2 odd_length c)
  then obtain h where h: "char_to_bcd_nibble c = Inr h" "bs = [push_bit 4 h OR (if odd_length then 0x0F else 0x00)]"
    by (auto split: sum.splits)
  have "nibble_char (if odd_length then 0x0F else 0x00) = (if odd_length then CHR ''D'' else CHR ''0'')"
    by (auto simp: nibble_char_def intro: char_of_code)
  then show ?case
    using nibble_of_char [OF h(1)] decode_bcd_Cons [of h "if odd_length then 0x0F else 0x00" "[]"] h(2)
    by (cases odd_length) (simp_all add: decode_bcd_def)
next
  case (3 odd_length c d cs)
  then show ?case
    using nibble_of_char [of c] nibble_of_char [of d] by (auto simp: decode_bcd_Cons split: sum.splits)
qed (simp add: decode_bcd_def)

text \<open>C32: Digits coded in BCD are read back, letters as capitals, if their number is even; the filler of an odd
  number comes back as a further digit, a D or a 0.\<close>

theorem bcd_digits_read_back:
  assumes "encode_bcd digits odd_length = Inr bs"
  shows "decode_bcd bs = map ascii_upper digits @
    (if even (length digits) then [] else if odd_length then ''D'' else ''0'')"
proof -
  have enc: "bcd_pairs odd_length (utf8_chars digits) = Inr bs" using assms by (simp add: encode_bcd_def)
  have plain: "utf8_chars digits = map (\<lambda>c. [c]) digits"
    using bcd_pairs_ascii [OF enc] utf8_chars_ascii by (simp add: concat_utf8_chars)
  from decode_bcd_pairs [OF enc] show ?thesis by (simp add: plain comp_def)
qed

theorem bcd_digits_read_back_witness:
  "\<exists>bs. encode_bcd ''12*a#'' True = Inr bs \<and> decode_bcd bs = ''12*A#D''"
proof -
  have "\<exists>bs. encode_bcd ''12*a#'' True = Inr bs"
    by (simp add: encode_bcd_def is_cont_def char_to_bcd_nibble_def is_digit_def)
  then obtain bs where bs: "encode_bcd ''12*a#'' True = Inr bs" ..
  from bcd_digits_read_back [OF this] have "decode_bcd bs = ''12*A#D''" by (simp add: ascii_upper_def letter_codes)
  with bs show ?thesis by blast
qed

section \<open>What a message reports\<close>

lemma digit_ascii: "list_all is_digit s \<Longrightarrow> ascii_str s"
  by (auto simp: ascii_str_def list_all_iff is_digit_def)

lemma decode_digit_octets: "list_all is_digit s \<Longrightarrow> decode_bcd (str_bytes s) = concat (map (\<lambda>c. [CHR ''3'', c]) s)"
proof (induction s)
  case (Cons c s)
  then obtain k :: nat where k: "of_char c = 48 + k" "k < 10" using le_Suc_ex [of 48 "of_char c :: nat"] by (auto simp: is_digit_def)
  have "(word_of_nat (48 + k) :: u8) = push_bit 4 3 OR word_of_nat k"
    using k(2) by (auto simp: less_Suc_eq numeral_eq_Suc)
  moreover have "(word_of_nat k :: u8) < 16" using k(2) by (simp add: word_less_nat_alt unat_of_nat)
  moreover have "nibble_char (word_of_nat k) = char_of (48 + k)" using k(2) by (simp add: nibble_char_def word_le_nat_alt unat_of_nat)
  moreover have "char_of (48 + k) = c" by (simp flip: k(1))
  moreover have "nibble_char 3 = CHR ''3''" by (auto simp: nibble_char_def intro: char_of_code)
  ultimately show ?case using Cons decode_bcd_Cons [of 3 "word_of_nat k" "str_bytes s"] k(1) by (simp add: str_bytes_def)
qed (simp add: decode_bcd_def str_bytes_def)

text \<open>A message with digits that one processor makes is reported by another as these digits and then the whole
  sequence, unless digits are coded in BCD: the message carries them as text, which is then read as BCD, so
  that each digit is reported after a 3.\<close>

theorem sigtran_digits_reported:
  assumes "list_all is_digit digits"
  shows "sgp_events (process_incoming_message now (generate_outgoing_message protocol SM_IsupGenericDigits digits cic p) q) =
    sgp_events q @
    (let heard = (if sgc_default_encoding (sgp_config p) \<in> {DE_BcdEven, DE_BcdOdd}
           then concat (map (\<lambda>c. [CHR ''3'', c]) digits) else digits)
     in map (\<lambda>c. ToneDigit [c] 100 now 90 DS_Sigtran) heard @ [ToneSequence heard (100 * length heard) DS_Sigtran])"
proof -
  define heard where "heard = (if sgc_default_encoding (sgp_config p) \<in> {DE_BcdEven, DE_BcdOdd}
           then concat (map (\<lambda>c. [CHR ''3'', c]) digits) else digits)"
  have "filter is_dtmf_char digits = digits"
    using assms by (simp add: filter_id_conv list_all_iff is_dtmf_char_def)
  then have "decode_digits digits (sgc_default_encoding (sgp_config p)) = heard"
    using assms by (cases "sgc_default_encoding (sgp_config p)") (simp_all add: decode_digits_def heard_def decode_digit_octets)
  moreover have "list_all is_digit heard" using assms by (auto simp: heard_def list_all_iff is_digit_def)
  then have "utf8_chars heard = map (\<lambda>c. [c]) heard" by (intro utf8_chars_ascii digit_ascii)
  ultimately show ?thesis
    unfolding heard_def [symmetric] Let_def
    by (simp add: process_incoming_message_def generate_outgoing_message_def process_isup_generic_digits_def
        emit_sequence_def emit_digits_def sigtran_digit_def comp_def)
qed

theorem sigtran_digits_reported_witness:
  "map te_digit (butlast (sgp_events (process_incoming_message 7 (generate_outgoing_message SP_M3ua SM_IsupGenericDigits ''42''
     None (new_sigtran_processor 1 default_sigtran_config)) (new_sigtran_processor 1 default_sigtran_config)))) = [''4'', ''2'']"
  by (subst sigtran_digits_reported) (simp_all add: is_digit_def new_sigtran_processor_def default_sigtran_config_def)

end
